(* ===== verification/Prelude.thy ===== *)
theory Prelude
  imports Main "HOL-Library.AList" "HOL-Library.Word" "HOL-Library.List_Lexorder"
    "HOL-Library.Char_ord" "HOL-Library.Product_Lexorder"
begin

text \<open>
  The vocabulary every component of the development shares: what the Python language and its
  standard library give the program.
  \<^item> a Python dict is an association list in insertion order (\<open>dict\<close>): storing under a known
    key keeps its position, a new key goes to the end, as CPython's dict does;
  \<^item> a value of a JSON document (a transaction payload, a header) is a \<open>pyval\<close>;
  \<^item> a method that mutates an object and may raise is an \<open>act\<close>: it maps the state to the
    exception that escaped (if any) and the state at that moment, so that the effects a method
    had before it raised are not lost;
  \<^item> \<open>run_all\<close> is the sequence of statements of a body (or the iterations of a loop).
  Python's str is modelled by \<open>string\<close>: code points below 256.
\<close>

section \<open>Collections of rewrite rules\<close>

named_theorems dict_simps \<open>lookup, membership and sums after dict operations\<close>
named_theorems act_simps \<open>evaluation of sequenced actions\<close>

section \<open>Python dicts\<close>

type_synonym ('k, 'v) dict = "('k \<times> 'v) list"

abbreviation dget :: "('k, 'v) dict \<Rightarrow> 'k \<Rightarrow> 'v option" where
  "dget d k \<equiv> map_of d k"

abbreviation dset :: "('k, 'v) dict \<Rightarrow> 'k \<Rightarrow> 'v \<Rightarrow> ('k, 'v) dict" where
  "dset d k v \<equiv> AList.update k v d"

abbreviation dpop :: "('k, 'v) dict \<Rightarrow> 'k \<Rightarrow> ('k, 'v) dict" where
  "dpop d k \<equiv> AList.delete k d"

abbreviation dkeys :: "('k, 'v) dict \<Rightarrow> 'k list" where
  "dkeys d \<equiv> map fst d"

definition dget_or :: "('k, 'v) dict \<Rightarrow> 'k \<Rightarrow> 'v \<Rightarrow> 'v" where
  "dget_or d k v = (case map_of d k of None \<Rightarrow> v | Some x \<Rightarrow> x)"

definition dmem :: "'k \<Rightarrow> ('k, 'v) dict \<Rightarrow> bool" where
  "dmem k d \<longleftrightarrow> map_of d k \<noteq> None"

definition the_default :: "'a \<Rightarrow> 'a option \<Rightarrow> 'a" where
  "the_default x m = (case m of None \<Rightarrow> x | Some y \<Rightarrow> y)"

lemma the_default_simps [simp]: "the_default x None = x" "the_default x (Some y) = y"
  by (simp_all add: the_default_def)

text \<open>The well-formedness a Python dict has by construction: no key occurs twice.\<close>

definition dwf :: "('k, 'v) dict \<Rightarrow> bool" where
  "dwf d \<longleftrightarrow> distinct (map fst d)"

definition dsum :: "('k, int) dict \<Rightarrow> int" where
  "dsum d = sum_list (map snd d)"

lemma dget_or_Nil [dict_simps, simp]: "dget_or [] k v = v"
  by (simp add: dget_or_def)

lemma dget_or_dset [dict_simps]:
  "dget_or (dset d k v) k' w = (if k' = k then v else dget_or d k' w)"
  by (simp add: dget_or_def AList.update_conv')

lemma dget_or_dpop [dict_simps]:
  "dget_or (dpop d k) k' w = (if k' = k then w else dget_or d k' w)"
  by (simp add: dget_or_def AList.delete_conv')

lemma dget_dset [dict_simps]: "dget (dset d k v) k' = (if k' = k then Some v else dget d k')"
  by (simp add: AList.update_conv')

lemma dget_dpop [dict_simps]: "dget (dpop d k) k' = (if k' = k then None else dget d k')"
  by (simp add: AList.delete_conv')

lemma dmem_dset [dict_simps]: "dmem k' (dset d k v) \<longleftrightarrow> k' = k \<or> dmem k' d"
  by (simp add: dmem_def AList.update_conv')

lemma dmem_dpop [dict_simps]: "dmem k' (dpop d k) \<longleftrightarrow> k' \<noteq> k \<and> dmem k' d"
  by (simp add: dmem_def AList.delete_conv')

lemma dmem_Nil [dict_simps, simp]: "\<not> dmem k []"
  by (simp add: dmem_def)

lemma dwf_Nil [simp]: "dwf []"
  by (simp add: dwf_def)

lemma dwf_dset [simp, intro]: "dwf d \<Longrightarrow> dwf (dset d k v)"
  unfolding dwf_def by (rule AList.distinct_update)

lemma dwf_dpop [simp, intro]: "dwf d \<Longrightarrow> dwf (dpop d k)"
  unfolding dwf_def by (rule AList.distinct_delete)

lemma dwf_Cons [simp]: "dwf (p # d) \<longleftrightarrow> fst p \<notin> fst ` set d \<and> dwf d"
  by (simp add: dwf_def)

lemma dget_or_notin [simp]: "k \<notin> fst ` set d \<Longrightarrow> dget_or d k v = v"
  by (auto simp: dget_or_def split: option.splits dest: map_of_SomeD) (force dest: map_of_SomeD)

lemma dsum_Nil [simp]: "dsum [] = 0"
  by (simp add: dsum_def)

lemma dsum_Cons [simp]: "dsum (p # d) = snd p + dsum d"
  by (simp add: dsum_def)

lemma dpop_notin: "k \<notin> fst ` set d \<Longrightarrow> dpop d k = d"
  by (induction d) auto

lemma dget_or_Cons: "dget_or (p # d) k v = (if fst p = k then snd p else dget_or d k v)"
  by (cases p) (simp add: dget_or_def)

lemma dsum_dset [dict_simps]: "dwf d \<Longrightarrow> dsum (dset d k v) = dsum d - dget_or d k 0 + v"
  by (induction d) (auto simp: dget_or_Cons)

lemma dsum_dpop [dict_simps]: "dwf d \<Longrightarrow> dsum (dpop d k) = dsum d - dget_or d k 0"
proof (induction d)
  case (Cons p d)
  then show ?case
    by (cases p) (auto simp: dget_or_Cons AList.delete_eq dpop_notin[unfolded AList.delete_eq])
qed simp

text \<open>All values of a dict are non-negative.\<close>

definition dnonneg :: "('k, int) dict \<Rightarrow> bool" where
  "dnonneg d \<longleftrightarrow> list_all (\<lambda>p. 0 \<le> snd p) d"

lemma dnonneg_Nil [simp]: "dnonneg []"
  by (simp add: dnonneg_def)

lemma dnonneg_Cons [simp]: "dnonneg (p # d) \<longleftrightarrow> 0 \<le> snd p \<and> dnonneg d"
  by (simp add: dnonneg_def)

lemma dsum_nonneg: "dnonneg d \<Longrightarrow> 0 \<le> dsum d"
  by (induction d) auto

lemma dnonneg_dset: "dnonneg d \<Longrightarrow> 0 \<le> v \<Longrightarrow> dnonneg (dset d k v)"
  by (induction d) auto

lemma dnonneg_dpop: "dnonneg d \<Longrightarrow> dnonneg (dpop d k)"
  by (induction d) auto

lemma dget_or_nonneg: "dnonneg d \<Longrightarrow> 0 \<le> v \<Longrightarrow> 0 \<le> dget_or d k v"
  by (induction d) (auto simp: dget_or_Cons)

lemma dget_or_le_dsum: "dnonneg d \<Longrightarrow> dget_or d k 0 \<le> dsum d"
proof (induction d)
  case (Cons p d)
  then show ?case using dsum_nonneg[of d] by (auto simp: dget_or_Cons)
qed simp

text \<open>A property of all entries.\<close>

lemma list_all_dset: "list_all P d \<Longrightarrow> P (k, v) \<Longrightarrow> list_all P (dset d k v)"
  by (induction d) auto

lemma list_all_dpop: "list_all P d \<Longrightarrow> list_all P (dpop d k)"
  by (induction d) auto

lemma list_all_dget: "list_all P d \<Longrightarrow> dget d k = Some v \<Longrightarrow> P (k, v)"
  by (auto simp: list_all_iff dest: map_of_SomeD)

lemma list_all_dget_or: "list_all (\<lambda>p. P (snd p)) d \<Longrightarrow> P v \<Longrightarrow> P (dget_or d k v)"
  by (auto simp: dget_or_def split: option.splits dest: list_all_dget)

lemma dget_or_cases: "dget_or d k v = dget_or d k w \<or> dget_or d k v = v"
  by (auto simp: dget_or_def split: option.splits)

section \<open>Values of JSON documents\<close>

datatype pyval =
    PNone
  | PBool bool
  | PInt int
  | PStr string
  | PList "pyval list"
  | PDict "(string \<times> pyval) list"

text \<open>
  \<open>isinstance(v, int)\<close> holds of Python's bools too, and a bool computes as 0 or 1:
  the model keeps both facts.
\<close>

fun is_int :: "pyval \<Rightarrow> bool" where
  "is_int (PInt i) = True"
| "is_int (PBool b) = True"
| "is_int _ = False"

fun int_of_py :: "pyval \<Rightarrow> int" where
  "int_of_py (PInt i) = i"
| "int_of_py (PBool b) = (if b then 1 else 0)"
| "int_of_py _ = 0"

fun is_bool :: "pyval \<Rightarrow> bool" where
  "is_bool (PBool b) = True"
| "is_bool _ = False"

fun is_str :: "pyval \<Rightarrow> bool" where
  "is_str (PStr s) = True"
| "is_str _ = False"

fun str_of_py :: "pyval \<Rightarrow> string" where
  "str_of_py (PStr s) = s"
| "str_of_py _ = []"

fun is_dict :: "pyval \<Rightarrow> bool" where
  "is_dict (PDict d) = True"
| "is_dict _ = False"

text \<open>\<open>bool(v)\<close>, what \<open>if v\<close> and \<open>not v\<close> test.\<close>

fun truthy :: "pyval \<Rightarrow> bool" where
  "truthy PNone = False"
| "truthy (PBool b) = b"
| "truthy (PInt i) = (i \<noteq> 0)"
| "truthy (PStr s) = (s \<noteq> [])"
| "truthy (PList vs) = (vs \<noteq> [])"
| "truthy (PDict d) = (d \<noteq> [])"

section \<open>Messages, exceptions and outcomes\<close>

text \<open>
  A message is the text of the source's f-string with \<open>{}\<close> for each interpolated value,
  and the values. An outcome is what a checking method gives: \<open>(True, s)\<close>, \<open>(False, msg)\<close>,
  or an exception.
\<close>

datatype msg = Msg string "pyval list"

datatype exn =
    ValueError msg
  | KeyError string
  | TypeError
  | OverflowError
  | IndexError
  | AttributeError
  | RuntimeError msg
  | ImportError string

datatype outcome = Ok string | Fail msg | Raise exn

definition is_ok :: "outcome \<Rightarrow> bool" where
  "is_ok r \<longleftrightarrow> (case r of Ok _ \<Rightarrow> True | _ \<Rightarrow> False)"

lemma is_ok_simps [simp]: "is_ok (Ok s)" "\<not> is_ok (Fail m)" "\<not> is_ok (Raise e)"
  by (simp_all add: is_ok_def)

section \<open>Actions: methods that mutate and may raise\<close>

type_synonym 's act = "'s \<Rightarrow> exn option \<times> 's"

definition pass :: "'s act" where
  "pass s = (None, s)"

definition raise :: "exn \<Rightarrow> 's act" where
  "raise e s = (Some e, s)"

definition pure :: "('s \<Rightarrow> 's) \<Rightarrow> 's act" where
  "pure f s = (None, f s)"

definition when_do :: "bool \<Rightarrow> 's act \<Rightarrow> 's act" where
  "when_do c a = (if c then a else pass)"

text \<open>An action whose statements depend on the state at the time it runs.\<close>

definition with_st :: "('s \<Rightarrow> 's act) \<Rightarrow> 's act" where
  "with_st f s = f s s"

fun run_all :: "'s act list \<Rightarrow> 's act" where
  "run_all [] s = (None, s)"
| "run_all (a # as) s =
     (case a s of (None, s') \<Rightarrow> run_all as s' | (Some e, s') \<Rightarrow> (Some e, s'))"

text \<open>Running an action on one component of a larger state.\<close>

definition lift :: "('s \<Rightarrow> 'c) \<Rightarrow> ('c \<Rightarrow> 's \<Rightarrow> 's) \<Rightarrow> 'c act \<Rightarrow> 's act" where
  "lift get put a s = (case a (get s) of (e, c) \<Rightarrow> (e, put c s))"

lemma pass_eq [act_simps, simp]: "pass s = (None, s)"
  by (simp add: pass_def)

lemma raise_eq [act_simps, simp]: "raise e s = (Some e, s)"
  by (simp add: raise_def)

lemma pure_eq [act_simps, simp]: "pure f s = (None, f s)"
  by (simp add: pure_def)

lemma when_do_simps [act_simps, simp]: "when_do True a = a" "when_do False a = pass"
  by (simp_all add: when_do_def)

lemma when_do_eq [act_simps]: "when_do c a s = (if c then a s else (None, s))"
  by (simp add: when_do_def)

lemma with_st_eq [act_simps, simp]: "with_st f s = f s s"
  by (simp add: with_st_def)

lemma run_all_append:
  "run_all (as @ bs) s =
     (case run_all as s of (None, s') \<Rightarrow> run_all bs s' | (Some e, s') \<Rightarrow> (Some e, s'))"
  by (induction as arbitrary: s) (auto split: prod.splits option.splits)

lemma run_all_Cons_None:
  "run_all (a # as) s = (None, t) \<longleftrightarrow> (\<exists>u. a s = (None, u) \<and> run_all as u = (None, t))"
  by (auto split: prod.splits option.splits)

lemma run_all_append_None:
  "run_all (as @ bs) s = (None, t) \<longleftrightarrow> (\<exists>u. run_all as s = (None, u) \<and> run_all bs u = (None, t))"
  by (auto simp: run_all_append split: prod.splits option.splits)

text \<open>
  The two rules the invariant proofs use: an invariant that every action keeps whether or not it
  raises, and one that every action keeps when it returns.
\<close>

lemma run_all_inv_any:
  assumes "\<And>a s. a \<in> set as \<Longrightarrow> I s \<Longrightarrow> I (snd (a s))" and "I s"
  shows "I (snd (run_all as s))"
  using assms
proof (induction as arbitrary: s)
  case (Cons a as)
  have step: "I (snd (a s))" using Cons.prems by simp
  then have "I (snd (run_all as (snd (a s))))"
    using Cons.IH[of "snd (a s)"] Cons.prems(1) by simp
  then show ?case using step by (cases "a s") (auto split: option.splits)
qed simp

lemma run_all_inv:
  assumes "\<And>a s t. a \<in> set as \<Longrightarrow> I s \<Longrightarrow> a s = (None, t) \<Longrightarrow> I t"
    and "I s" and "run_all as s = (None, t)"
  shows "I t"
  using assms
proof (induction as arbitrary: s)
  case (Cons a as)
  from Cons.prems(3) obtain u where u: "a s = (None, u)" "run_all as u = (None, t)"
    using run_all_Cons_None[of a as s t] by blast
  have "I u" using Cons.prems(1)[of a s u] Cons.prems(2) u(1) by simp
  then show ?case using Cons.IH[of u] Cons.prems(1) u(2) by auto
qed simp

lemma fold_inv:
  assumes "\<And>x s. x \<in> set xs \<Longrightarrow> I s \<Longrightarrow> I (f x s)" and "I s"
  shows "I (fold f xs s)"
  using assms by (induction xs arbitrary: s) simp_all

lemma lift_None [act_simps]:
  "lift get put a s = (None, t) \<longleftrightarrow> (\<exists>c. a (get s) = (None, c) \<and> t = put c s)"
  by (auto simp: lift_def split: prod.splits)

lemma snd_lift: "snd (lift get put a s) = put (snd (a (get s))) s"
  by (simp add: lift_def split: prod.splits)

section \<open>Functions that return a value or raise\<close>

definition and_then :: "'e + 'a \<Rightarrow> ('a \<Rightarrow> 'e + 'b) \<Rightarrow> 'e + 'b" where
  "and_then m f = (case m of Inl e \<Rightarrow> Inl e | Inr x \<Rightarrow> f x)"

text \<open>\<open>if c: raise e\<close> before the rest of a body.\<close>

definition unless_raise :: "bool \<Rightarrow> 'e \<Rightarrow> 'e + 'b \<Rightarrow> 'e + 'b" where
  "unless_raise c e m = (if c then Inl e else m)"

lemma and_then_simps [simp]: "and_then (Inl e) f = Inl e" "and_then (Inr x) f = f x"
  by (simp_all add: and_then_def)

lemma unless_raise_simps [simp]: "unless_raise True e m = Inl e" "unless_raise False e m = m"
  by (simp_all add: unless_raise_def)

lemma and_then_Inr: "and_then m f = Inr y \<longleftrightarrow> (\<exists>x. m = Inr x \<and> f x = Inr y)"
  by (cases m) simp_all

lemma unless_raise_Inr: "unless_raise c e m = Inr y \<longleftrightarrow> \<not> c \<and> m = Inr y"
  by (simp add: unless_raise_def)

text \<open>\<open>[f(x) for x in xs]\<close>: the first exception ends the comprehension.\<close>

fun map_raise :: "('a \<Rightarrow> 'e + 'b) \<Rightarrow> 'a list \<Rightarrow> 'e + 'b list" where
  "map_raise f [] = Inr []"
| "map_raise f (x # xs) = and_then (f x) (\<lambda>y. and_then (map_raise f xs) (\<lambda>ys. Inr (y # ys)))"

lemma map_raise_Inr: "(\<And>x. x \<in> set xs \<Longrightarrow> f x = Inr (g x)) \<Longrightarrow> map_raise f xs = Inr (map g xs)"
  by (induction xs) auto

lemma map_raise_list_all2: "map_raise f xs = Inr ys \<Longrightarrow> list_all2 (\<lambda>x y. f x = Inr y) xs ys"
  by (induction xs arbitrary: ys) (auto simp: and_then_Inr)

end
