(* ===== verification/PyText.thy ===== *)
theory PyText
  imports Prelude
begin

text \<open>
  The text and byte functions of Python's standard library the program uses: decimal and
  hexadecimal notation, UTF-8, big-endian integers, the regular expressions of the validators,
  and \<open>json.dumps(obj, sort_keys=True, separators=(',', ':'))\<close>, whose bytes are what is signed
  and hashed.
\<close>

type_synonym byte = "8 word"
type_synonym bytes = "byte list"

section \<open>Characters\<close>

abbreviation code :: "char \<Rightarrow> nat" where
  "code c \<equiv> of_char c"

definition is_digit :: "char \<Rightarrow> bool" where
  "is_digit c \<longleftrightarrow> 48 \<le> code c \<and> code c \<le> 57"

definition is_upper :: "char \<Rightarrow> bool" where
  "is_upper c \<longleftrightarrow> 65 \<le> code c \<and> code c \<le> 90"

definition is_lower :: "char \<Rightarrow> bool" where
  "is_lower c \<longleftrightarrow> 97 \<le> code c \<and> code c \<le> 122"

definition is_hex :: "char \<Rightarrow> bool" where
  "is_hex c \<longleftrightarrow> is_digit c \<or> 65 \<le> code c \<and> code c \<le> 70 \<or> 97 \<le> code c \<and> code c \<le> 102"

definition newline :: char where
  "newline = CHR 0x0A"

text \<open>The ASCII whitespace \<open>bytes.fromhex\<close> skips.\<close>

definition is_space :: "char \<Rightarrow> bool" where
  "is_space c \<longleftrightarrow> code c = 32 \<or> 9 \<le> code c \<and> code c \<le> 13"

section \<open>Hexadecimal\<close>

definition hex_digit :: "nat \<Rightarrow> char" where
  "hex_digit n = (if n < 10 then char_of (48 + n) else char_of (87 + n))"

definition hex_val :: "char \<Rightarrow> nat option" where
  "hex_val c =
     (if is_digit c then Some (code c - 48)
      else if 65 \<le> code c \<and> code c \<le> 70 then Some (code c - 55)
      else if 97 \<le> code c \<and> code c \<le> 102 then Some (code c - 87)
      else None)"

definition hex_byte :: "byte \<Rightarrow> string" where
  "hex_byte b = [hex_digit (unat b div 16), hex_digit (unat b mod 16)]"

text \<open>\<open>bytes.hex()\<close>.\<close>

definition hex :: "bytes \<Rightarrow> string" where
  "hex bs = concat (map hex_byte bs)"

text \<open>\<open>bytes.fromhex(s)\<close>: \<open>None\<close> where Python raises ValueError.\<close>

fun fromhex :: "string \<Rightarrow> bytes option" where
  "fromhex [] = Some []"
| "fromhex [c] = (if is_space c then Some [] else None)"
| "fromhex (c # d # cs) =
     (if is_space c then fromhex (d # cs)
      else case (hex_val c, hex_val d) of
             (Some a, Some b) \<Rightarrow> map_option ((#) (of_nat (16 * a + b))) (fromhex cs)
           | _ \<Rightarrow> None)"

text \<open>
  \<open>re.match(r'^[...]+$', s)\<close> for a character class: \<open>$\<close> also matches just before a final
  newline, so one trailing newline is let through.
\<close>

definition chomp :: "string \<Rightarrow> string" where
  "chomp s = (if s \<noteq> [] \<and> last s = newline then butlast s else s)"

definition re_class :: "(char \<Rightarrow> bool) \<Rightarrow> string \<Rightarrow> bool" where
  "re_class p s \<longleftrightarrow> chomp s \<noteq> [] \<and> list_all p (chomp s)"

definition hex_re :: "string \<Rightarrow> bool" where
  "hex_re s = re_class is_hex s"

lemma hex_val_digit: "n < 16 \<Longrightarrow> hex_val (hex_digit n) = Some n"
  by (simp add: hex_val_def hex_digit_def is_digit_def)

lemma hex_digit_is_hex: "n < 16 \<Longrightarrow> is_hex (hex_digit n)"
  by (auto simp: is_hex_def hex_digit_def is_digit_def)

lemma hex_digit_not_space: "n < 16 \<Longrightarrow> \<not> is_space (hex_digit n)"
  by (auto simp: is_space_def hex_digit_def)

lemma hex_digit_not_newline: "n < 16 \<Longrightarrow> hex_digit n \<noteq> newline"
  using hex_digit_not_space[of n] by (auto simp: newline_def is_space_def)

lemma hex_Nil [simp]: "hex [] = []"
  by (simp add: hex_def)

lemma hex_Cons: "hex (b # bs) = hex_byte b @ hex bs"
  by (simp add: hex_def)

lemma length_hex [simp]: "length (hex bs) = 2 * length bs"
  by (induction bs) (simp_all add: hex_Cons hex_byte_def)

lemma unat_byte_lt: "unat (b :: byte) < 256"
proof -
  have "unat b < 2 ^ LENGTH(8)" by (rule unsigned_less)
  then show ?thesis by simp
qed

lemma unat_byte_div: "unat (b :: byte) div 16 < 16"
  using unat_byte_lt[of b] by arith

text \<open>Printing bytes in hexadecimal and reading them back gives the same bytes.\<close>

lemma fromhex_hex [simp]: "fromhex (hex bs) = Some bs"
proof (induction bs)
  case (Cons b bs)
  have 1: "hex_val (hex_digit (unat b div 16)) = Some (unat b div 16)"
    by (rule hex_val_digit) (rule unat_byte_div)
  have 2: "hex_val (hex_digit (unat b mod 16)) = Some (unat b mod 16)"
    by (rule hex_val_digit) simp
  have 3: "(of_nat (16 * (unat b div 16) + unat b mod 16) :: byte) = b"
    by (simp only: mult_div_mod_eq) simp
  have 4: "\<not> is_space (hex_digit (unat b div 16))"
    by (rule hex_digit_not_space) (rule unat_byte_div)
  show ?case
    using 1 2 3 4 Cons.IH by (simp add: hex_Cons hex_byte_def)
qed simp

lemma hex_inj: "hex a = hex b \<longleftrightarrow> a = b"
  using fromhex_hex[of a] fromhex_hex[of b] by (metis option.inject)

lemma hex_all_hex: "list_all is_hex (hex bs)"
proof (induction bs)
  case (Cons b bs)
  then show ?case
    using hex_digit_is_hex[OF unat_byte_div[of b]] hex_digit_is_hex[of "unat b mod 16"]
    by (simp add: hex_Cons hex_byte_def)
qed simp

lemma is_hex_not_newline: "is_hex c \<Longrightarrow> c \<noteq> newline"
  by (auto simp: is_hex_def is_digit_def newline_def)

lemma hex_re_hex: "hex_re (hex bs) \<longleftrightarrow> bs \<noteq> []"
proof (cases "bs = []")
  case True
  then show ?thesis by (simp add: hex_re_def re_class_def chomp_def)
next
  case False
  then have ne: "hex bs \<noteq> []" by (cases bs) (simp_all add: hex_Cons hex_byte_def)
  then have "is_hex (last (hex bs))"
    using hex_all_hex[of bs] by (simp add: list_all_iff)
  then have "chomp (hex bs) = hex bs" using is_hex_not_newline by (auto simp: chomp_def)
  then show ?thesis using False ne hex_all_hex by (simp add: hex_re_def re_class_def)
qed

section \<open>Decimal notation\<close>

fun dec_nat :: "nat \<Rightarrow> string" where
  "dec_nat n = (if n < 10 then [char_of (48 + n)] else dec_nat (n div 10) @ [char_of (48 + n mod 10)])"

declare dec_nat.simps [simp del]

text \<open>\<open>str(i)\<close> of an int.\<close>

definition int_str :: "int \<Rightarrow> string" where
  "int_str i = (if i < 0 then CHR ''-'' # dec_nat (nat (- i)) else dec_nat (nat i))"

fun nat_of_dec :: "string \<Rightarrow> nat" where
  "nat_of_dec s = foldl (\<lambda>a c. 10 * a + (code c - 48)) 0 s"

lemma dec_nat_digits: "list_all is_digit (dec_nat n) \<and> dec_nat n \<noteq> []"
proof (induction n rule: dec_nat.induct)
  case (1 n)
  have "is_digit (char_of (48 + n mod 10))" by (simp add: is_digit_def)
  then show ?case
    using 1 by (cases "n < 10") (auto simp: dec_nat.simps[of n] is_digit_def)
qed

lemma nat_of_dec_nat: "nat_of_dec (dec_nat n) = n"
proof (induction n rule: dec_nat.induct)
  case (1 n)
  show ?case
  proof (cases "n < 10")
    case True
    then show ?thesis by (simp add: dec_nat.simps[of n])
  next
    case False
    then show ?thesis using 1 by (simp add: dec_nat.simps[of n])
  qed
qed

lemma dec_nat_inj: "dec_nat m = dec_nat n \<longleftrightarrow> m = n"
  using nat_of_dec_nat by metis

section \<open>UTF-8 and big-endian integers\<close>

definition utf8_char :: "char \<Rightarrow> bytes" where
  "utf8_char c =
     (if code c < 128 then [of_nat (code c)]
      else [of_nat (192 + code c div 64), of_nat (128 + code c mod 64)])"

text \<open>\<open>str.encode()\<close>.\<close>

definition encode :: "string \<Rightarrow> bytes" where
  "encode s = concat (map utf8_char s)"

text \<open>\<open>int.to_bytes(8, 'big')\<close>: \<open>None\<close> where Python raises OverflowError.\<close>

definition to_bytes8 :: "int \<Rightarrow> bytes option" where
  "to_bytes8 v =
     (if v < 0 \<or> 2 ^ 64 \<le> v then None
      else Some (map (\<lambda>i. word_of_int (v div 256 ^ (7 - i))) [0..<8]))"

text \<open>\<open>int.from_bytes(bs, 'big')\<close>.\<close>

definition from_bytes :: "bytes \<Rightarrow> int" where
  "from_bytes bs = foldl (\<lambda>a b. 256 * a + uint b) 0 bs"

section \<open>json.dumps with sorted keys\<close>

definition json_escape :: "char \<Rightarrow> string" where
  "json_escape c =
     (if c = CHR 0x22 then [CHR 0x5C, CHR 0x22]
      else if c = CHR 0x5C then [CHR 0x5C, CHR 0x5C]
      else if c = CHR 0x0A then [CHR 0x5C, CHR ''n'']
      else if c = CHR 0x0D then [CHR 0x5C, CHR ''r'']
      else if c = CHR 0x09 then [CHR 0x5C, CHR ''t'']
      else if c = CHR 0x0C then [CHR 0x5C, CHR ''f'']
      else if c = CHR 0x08 then [CHR 0x5C, CHR ''b'']
      else if 32 \<le> code c \<and> code c \<le> 126 then [c]
      else [CHR 0x5C, CHR ''u'', CHR ''0'', CHR ''0'',
            hex_digit (code c div 16), hex_digit (code c mod 16)])"

definition json_str :: "string \<Rightarrow> string" where
  "json_str s = CHR 0x22 # concat (map json_escape s) @ [CHR 0x22]"

fun commas :: "string list \<Rightarrow> string" where
  "commas [] = []"
| "commas [s] = s"
| "commas (s # t # ss) = s @ CHR '','' # commas (t # ss)"

text \<open>The writer proper, and the sorting of keys at every level before it.\<close>

primrec json_raw :: "pyval \<Rightarrow> string" where
  "json_raw PNone = ''null''"
| "json_raw (PBool b) = (if b then ''true'' else ''false'')"
| "json_raw (PInt i) = int_str i"
| "json_raw (PStr s) = json_str s"
| "json_raw (PList vs) = ''['' @ commas (map json_raw vs) @ '']''"
| "json_raw (PDict d) =
     ''{'' @ commas (map (\<lambda>(k, s). json_str k @ '':'' @ s) (map (map_prod id json_raw) d)) @ ''}''"

primrec json_sort :: "pyval \<Rightarrow> pyval" where
  "json_sort PNone = PNone"
| "json_sort (PBool b) = PBool b"
| "json_sort (PInt i) = PInt i"
| "json_sort (PStr s) = PStr s"
| "json_sort (PList vs) = PList (map json_sort vs)"
| "json_sort (PDict d) = PDict (sort_key fst (map (map_prod id json_sort) d))"

definition json_dumps :: "pyval \<Rightarrow> string" where
  "json_dumps v = json_raw (json_sort v)"

end
