(* ===== verification/Config.thy ===== *)
theory Config
  imports PyText
begin

text \<open>
  The constants of \<open>qbit_network/config.py\<close>, the transaction types, and the environment of a
  node: what lies outside the repository (the ML-DSA library behind \<open>crypto/mldsa.py\<close>), the hash
  function, and the activation height of dynamic fees, which the operator sets in the process
  environment. Every definition that depends on them takes an \<open>env\<close>.
\<close>

section \<open>Chain and protocol constants\<close>

definition BLOCK_INTERVAL :: int where "BLOCK_INTERVAL = 5"
definition MAX_TX_PER_BLOCK :: nat where "MAX_TX_PER_BLOCK = 200"
definition MAX_BLOCK_SIZE :: int where "MAX_BLOCK_SIZE = 5 * 1024 * 1024"
definition MAX_TX_PAYLOAD_SIZE :: int where "MAX_TX_PAYLOAD_SIZE = 8192"
definition MAX_TX_POOL_SIZE :: nat where "MAX_TX_POOL_SIZE = 10000"
definition MAX_BLOCK_DRIFT :: int where "MAX_BLOCK_DRIFT = 30"
definition ADDRESS_PREFIX :: string where "ADDRESS_PREFIX = ''qv1''"
definition CHAIN_ID :: string where "CHAIN_ID = ''qbit-mainnet''"
definition MAX_REORG_DEPTH :: int where "MAX_REORG_DEPTH = 32"

section \<open>Staking\<close>

definition MIN_STAKE :: int where "MIN_STAKE = 1"
definition MAX_STAKE :: int where "MAX_STAKE = 1000000"
definition UNBONDING_PERIOD :: int where "UNBONDING_PERIOD = 100"
definition EPOCH_LENGTH :: int where "EPOCH_LENGTH = 100"
definition SLASH_PERCENTAGE :: int where "SLASH_PERCENTAGE = 50"
definition DEFAULT_COMMISSION_RATE :: int where "DEFAULT_COMMISSION_RATE = 10"

section \<open>Token economics\<close>

definition QUBIT_PER_QBIT :: int where "QUBIT_PER_QBIT = 1000000000"
definition MAX_SUPPLY :: int where "MAX_SUPPLY = 21000000 * QUBIT_PER_QBIT"
definition MAX_TX_AMOUNT :: int where "MAX_TX_AMOUNT = 2 ^ 63 - 1"
definition MAX_FEE_PARAM :: int where "MAX_FEE_PARAM = 2 ^ 63"
definition INITIAL_BLOCK_REWARD :: int where "INITIAL_BLOCK_REWARD = 5 * QUBIT_PER_QBIT"
definition HALVING_INTERVAL :: int where "HALVING_INTERVAL = 2100000"
definition GENESIS_BALANCE_QBIT :: int where "GENESIS_BALANCE_QBIT = 2100000"

definition MAX_BLOCK_WEIGHT :: int where "MAX_BLOCK_WEIGHT = 20000000"
definition TARGET_BLOCK_WEIGHT :: int where "TARGET_BLOCK_WEIGHT = MAX_BLOCK_WEIGHT div 2"
definition BASE_FEE_CHANGE_DENOM :: int where "BASE_FEE_CHANGE_DENOM = 8"
definition INITIAL_BASE_FEE :: int where "INITIAL_BASE_FEE = 10"
definition MIN_BASE_FEE :: int where "MIN_BASE_FEE = 1"
definition MAX_BASE_FEE :: int where "MAX_BASE_FEE = 10000"
definition MAX_SELF_TX_WEIGHT_RATIO :: int where "MAX_SELF_TX_WEIGHT_RATIO = 25"

definition TOKEN_ACTIVATION_HEIGHT :: int where "TOKEN_ACTIVATION_HEIGHT = 0"
definition MAX_TOKEN_NAME_LENGTH :: int where "MAX_TOKEN_NAME_LENGTH = 64"
definition MAX_TOKEN_SYMBOL_LENGTH :: int where "MAX_TOKEN_SYMBOL_LENGTH = 8"
definition MIN_TOKEN_SYMBOL_LENGTH :: int where "MIN_TOKEN_SYMBOL_LENGTH = 2"
definition MAX_TOKEN_DECIMALS :: int where "MAX_TOKEN_DECIMALS = 18"

lemmas economics_defs = QUBIT_PER_QBIT_def MAX_SUPPLY_def INITIAL_BLOCK_REWARD_def
  HALVING_INTERVAL_def GENESIS_BALANCE_QBIT_def
lemmas fee_consts = MAX_BLOCK_WEIGHT_def TARGET_BLOCK_WEIGHT_def BASE_FEE_CHANGE_DENOM_def
  INITIAL_BASE_FEE_def MIN_BASE_FEE_def MAX_BASE_FEE_def
lemmas staking_consts = MIN_STAKE_def MAX_STAKE_def UNBONDING_PERIOD_def EPOCH_LENGTH_def
  SLASH_PERCENTAGE_def DEFAULT_COMMISSION_RATE_def

section \<open>Transaction types, fixed fees and weights\<close>

datatype txtype =
    REGISTER_KEY | REGISTER_VALIDATOR | REVOKE_KEY | NOTARIZE | STORE | SHARE | STAKE | DELEGATE
  | UNSTAKE | EVIDENCE | TRANSFER | ISSUE_TOKEN | MINT_TOKEN | TRANSFER_TOKEN

text \<open>\<open>tx_type.value\<close>, and \<open>TxType(value)\<close> (\<open>None\<close> where Python raises ValueError).\<close>

fun type_value :: "txtype \<Rightarrow> string" where
  "type_value REGISTER_KEY = ''REGISTER_KEY''"
| "type_value REGISTER_VALIDATOR = ''REGISTER_VALIDATOR''"
| "type_value REVOKE_KEY = ''REVOKE_KEY''"
| "type_value NOTARIZE = ''NOTARIZE''"
| "type_value STORE = ''STORE''"
| "type_value SHARE = ''SHARE''"
| "type_value STAKE = ''STAKE''"
| "type_value DELEGATE = ''DELEGATE''"
| "type_value UNSTAKE = ''UNSTAKE''"
| "type_value EVIDENCE = ''EVIDENCE''"
| "type_value TRANSFER = ''TRANSFER''"
| "type_value ISSUE_TOKEN = ''ISSUE_TOKEN''"
| "type_value MINT_TOKEN = ''MINT_TOKEN''"
| "type_value TRANSFER_TOKEN = ''TRANSFER_TOKEN''"

definition all_types :: "txtype list" where
  "all_types =
     [REGISTER_KEY, REGISTER_VALIDATOR, REVOKE_KEY, NOTARIZE, STORE, SHARE, STAKE, DELEGATE,
      UNSTAKE, EVIDENCE, TRANSFER, ISSUE_TOKEN, MINT_TOKEN, TRANSFER_TOKEN]"

definition type_of_value :: "string \<Rightarrow> txtype option" where
  "type_of_value s = find (\<lambda>t. type_value t = s) all_types"

lemma type_of_type_value [simp]: "type_of_value (type_value t) = Some t"
  by (cases t) (simp_all add: type_of_value_def all_types_def)

lemma type_value_inj [simp]: "type_value t = type_value u \<longleftrightarrow> t = u"
  using type_of_type_value by (metis option.inject)

fun TX_FEES :: "txtype \<Rightarrow> int" where
  "TX_FEES TRANSFER = 1000000"
| "TX_FEES NOTARIZE = 10000000"
| "TX_FEES STORE = 20000000"
| "TX_FEES SHARE = 10000000"
| "TX_FEES REGISTER_KEY = 100000000"
| "TX_FEES REGISTER_VALIDATOR = 1000000000"
| "TX_FEES STAKE = 10000000"
| "TX_FEES DELEGATE = 10000000"
| "TX_FEES UNSTAKE = 10000000"
| "TX_FEES REVOKE_KEY = 0"
| "TX_FEES EVIDENCE = 0"
| "TX_FEES ISSUE_TOKEN = 500000000"
| "TX_FEES MINT_TOKEN = 10000000"
| "TX_FEES TRANSFER_TOKEN = 1000000"

fun TX_WEIGHTS :: "txtype \<Rightarrow> int" where
  "TX_WEIGHTS TRANSFER = 100000"
| "TX_WEIGHTS NOTARIZE = 1000000"
| "TX_WEIGHTS STORE = 2000000"
| "TX_WEIGHTS SHARE = 1000000"
| "TX_WEIGHTS REGISTER_KEY = 10000000"
| "TX_WEIGHTS REGISTER_VALIDATOR = 100000000"
| "TX_WEIGHTS STAKE = 1000000"
| "TX_WEIGHTS DELEGATE = 1000000"
| "TX_WEIGHTS UNSTAKE = 1000000"
| "TX_WEIGHTS REVOKE_KEY = 0"
| "TX_WEIGHTS EVIDENCE = 0"
| "TX_WEIGHTS ISSUE_TOKEN = 50000000"
| "TX_WEIGHTS MINT_TOKEN = 1000000"
| "TX_WEIGHTS TRANSFER_TOKEN = 100000"

lemma TX_FEES_nonneg [simp]: "0 \<le> TX_FEES t"
  by (cases t) simp_all

lemma TX_WEIGHTS_nonneg [simp]: "0 \<le> TX_WEIGHTS t"
  by (cases t) simp_all

section \<open>The environment of a node\<close>

text \<open>
  \<open>sha3\<close> is \<open>crypto.sha3_256\<close>; \<open>mldsa_verify pk msg sig\<close> and \<open>mldsa_sign sk msg\<close> are the calls into
  liboqs behind \<open>MLDSA.verify\<close> and \<open>MLDSA.sign\<close>; \<open>dyn_height\<close> is
  \<open>DYNAMIC_FEE_ACTIVATION_HEIGHT\<close>.
\<close>

record env =
  sha3 :: "bytes \<Rightarrow> bytes"
  mldsa_verify :: "bytes \<Rightarrow> bytes \<Rightarrow> bytes \<Rightarrow> bool"
  mldsa_sign :: "bytes \<Rightarrow> bytes \<Rightarrow> bytes"
  dyn_height :: int

text \<open>\<open>MLDSA.verify\<close>: empty keys and signatures are refused before the library is called.\<close>

definition verify_sig :: "env \<Rightarrow> bytes \<Rightarrow> bytes \<Rightarrow> bytes \<Rightarrow> bool" where
  "verify_sig E pk m sig =
     (if pk = [] \<or> sig = [] then False else mldsa_verify E pk m sig)"

text \<open>\<open>Wallet.derive_address\<close>.\<close>

definition derive_address :: "env \<Rightarrow> bytes \<Rightarrow> string" where
  "derive_address E pk = ADDRESS_PREFIX @ hex (sha3 E pk)"

end
