(* ===== verification/Fees.thy ===== *)
theory Fees
  imports Config
begin

text \<open>
  \<open>core/fees.py\<close>: the weight of transactions and blocks, the base fee of the next block and the
  fee of a transaction. Transactions enter here as pairs of their type and sender, the two fields
  the weights look at.
\<close>

definition tx_weight :: "txtype \<Rightarrow> int" where
  "tx_weight t = TX_WEIGHTS t"

definition effective_block_weight :: "(txtype \<times> string) list \<Rightarrow> string \<Rightarrow> int" where
  "effective_block_weight txs validator_address =
     sum_list (map (\<lambda>t. TX_WEIGHTS (fst t)) (filter (\<lambda>t. snd t \<noteq> validator_address) txs))"

definition block_total_weight :: "(txtype \<times> string) list \<Rightarrow> int" where
  "block_total_weight txs = sum_list (map (\<lambda>t. TX_WEIGHTS (fst t)) txs)"

definition compute_base_fee_for :: "int \<Rightarrow> int \<Rightarrow> int \<Rightarrow> int" where
  "compute_base_fee_for target_weight parent_base_fee parent_effective_weight =
     (let new_fee =
        (if parent_effective_weight = target_weight then parent_base_fee
         else if parent_effective_weight > target_weight then
           (let delta = parent_effective_weight - target_weight;
                fee_delta = max 1 (parent_base_fee * delta div target_weight div BASE_FEE_CHANGE_DENOM)
            in parent_base_fee + fee_delta)
         else
           (let delta = target_weight - parent_effective_weight;
                fee_delta = parent_base_fee * delta div target_weight div BASE_FEE_CHANGE_DENOM
            in parent_base_fee - fee_delta))
      in max MIN_BASE_FEE (min new_fee MAX_BASE_FEE))"

definition compute_base_fee :: "int \<Rightarrow> int \<Rightarrow> int" where
  "compute_base_fee parent_base_fee parent_effective_weight =
     compute_base_fee_for TARGET_BLOCK_WEIGHT parent_base_fee parent_effective_weight"

definition compute_tx_fee :: "int \<Rightarrow> int \<Rightarrow> int \<Rightarrow> int \<Rightarrow> int" where
  "compute_tx_fee base_fee max_fee_per_weight max_priority_fee weight =
     (if weight = 0 then 0
      else
        (let effective_priority = max 0 (min max_priority_fee (max_fee_per_weight - base_fee))
         in (base_fee + effective_priority) * weight))"

section \<open>Weights\<close>

lemma sum_weights_nonneg: "0 \<le> sum_list (map (\<lambda>t. TX_WEIGHTS (f t)) ts)"
  by (induction ts) auto

lemma effective_weight_nonneg: "0 \<le> effective_block_weight txs v"
  unfolding effective_block_weight_def by (rule sum_weights_nonneg)

lemma effective_le_total: "effective_block_weight txs v \<le> block_total_weight txs"
  unfolding effective_block_weight_def block_total_weight_def
  by (induction txs) (auto simp: add_increasing)

lemma effective_plus_self:
  "effective_block_weight txs v
     + sum_list (map (\<lambda>t. TX_WEIGHTS (fst t)) (filter (\<lambda>t. snd t = v) txs))
   = block_total_weight txs"
  unfolding effective_block_weight_def block_total_weight_def by (induction txs) auto

lemma weight_member_le_total: "t \<in> set txs \<Longrightarrow> TX_WEIGHTS (fst t) \<le> block_total_weight txs"
  unfolding block_total_weight_def by (rule member_le_sum_list) auto

section \<open>The base fee\<close>

lemma base_fee_bounds:
  "MIN_BASE_FEE \<le> compute_base_fee_for t b w" "compute_base_fee_for t b w \<le> MAX_BASE_FEE"
  by (auto simp: compute_base_fee_for_def fee_consts Let_def)

lemma delta_eighth_le:
  fixes b d t :: int
  assumes "0 \<le> b" "0 \<le> d" "d \<le> t" "0 < t"
  shows "b * d div t div 8 \<le> b div 8"
proof -
  have "b * d \<le> b * t" using assms by (simp add: mult_left_mono)
  then have "b * d div t \<le> b * t div t" using assms by (intro zdiv_mono1) auto
  then have "b * d div t \<le> b" using assms by simp
  then show ?thesis by (intro zdiv_mono1) auto
qed

text \<open>The fee computed from its two possible steps, which are opaque from here on.\<close>

definition step_up :: "int \<Rightarrow> int \<Rightarrow> int" where
  "step_up b w = b * (w - 10000000) div 10000000 div 8"

definition step_down :: "int \<Rightarrow> int \<Rightarrow> int" where
  "step_down b w = b * (10000000 - w) div 10000000 div 8"

lemma compute_base_fee_steps:
  "compute_base_fee b w =
     max 1 (min (if w = 10000000 then b else if 10000000 < w then b + max 1 (step_up b w)
                 else b - step_down b w) 10000)"
  by (simp add: compute_base_fee_def compute_base_fee_for_def fee_consts Let_def step_up_def
      step_down_def)

lemma step_down_nonneg: "0 \<le> b \<Longrightarrow> w \<le> 10000000 \<Longrightarrow> 0 \<le> step_down b w"
  by (simp add: step_down_def pos_imp_zdiv_nonneg_iff)

lemma step_down_le: "0 \<le> b \<Longrightarrow> 0 \<le> w \<Longrightarrow> w \<le> 10000000 \<Longrightarrow> step_down b w \<le> b div 8"
  unfolding step_down_def by (rule delta_eighth_le) auto

lemma step_up_le: "0 \<le> b \<Longrightarrow> 10000000 \<le> w \<Longrightarrow> w \<le> 20000000 \<Longrightarrow> step_up b w \<le> b div 8"
  unfolding step_up_def by (rule delta_eighth_le) auto

lemma step_up_mono: "0 \<le> b \<Longrightarrow> v \<le> w \<Longrightarrow> step_up b v \<le> step_up b w"
  unfolding step_up_def by (intro zdiv_mono1) (auto simp: mult_left_mono)

lemma step_down_antimono: "0 \<le> b \<Longrightarrow> v \<le> w \<Longrightarrow> step_down b w \<le> step_down b v"
  unfolding step_down_def by (intro zdiv_mono1) (auto simp: mult_left_mono)

text \<open>The step down is at most an eighth, the step up at most an eighth or one unit.\<close>

lemma base_fee_step_down:
  assumes "MIN_BASE_FEE \<le> b" "b \<le> MAX_BASE_FEE" "0 \<le> w" "w \<le> TARGET_BLOCK_WEIGHT"
  shows "b - b div 8 \<le> compute_base_fee b w" "compute_base_fee b w \<le> b"
  using assms step_down_nonneg[of b w] step_down_le[of b w]
  by (auto simp: compute_base_fee_steps fee_consts)

lemma base_fee_step_up:
  assumes "MIN_BASE_FEE \<le> b" "b \<le> MAX_BASE_FEE" "TARGET_BLOCK_WEIGHT \<le> w" "w \<le> MAX_BLOCK_WEIGHT"
  shows "b \<le> compute_base_fee b w" "compute_base_fee b w \<le> b + max 1 (b div 8)"
proof -
  have "step_up b w \<le> b div 8" using assms by (intro step_up_le) (auto simp: fee_consts)
  then show "b \<le> compute_base_fee b w" "compute_base_fee b w \<le> b + max 1 (b div 8)"
    using assms by (simp_all add: compute_base_fee_steps fee_consts max_def min_def)
qed

lemma base_fee_at_target:
  "MIN_BASE_FEE \<le> b \<Longrightarrow> b \<le> MAX_BASE_FEE \<Longrightarrow> compute_base_fee b TARGET_BLOCK_WEIGHT = b"
  by (simp add: compute_base_fee_def compute_base_fee_for_def fee_consts)

lemma base_fee_rises:
  "MIN_BASE_FEE \<le> b \<Longrightarrow> b < MAX_BASE_FEE \<Longrightarrow> TARGET_BLOCK_WEIGHT < w \<Longrightarrow> b < compute_base_fee b w"
  by (auto simp: compute_base_fee_def compute_base_fee_for_def fee_consts Let_def)

lemma base_fee_mono_weight:
  assumes "0 \<le> b" "v \<le> w"
  shows "compute_base_fee b v \<le> compute_base_fee b w"
proof -
  have u: "step_up b v \<le> step_up b w" and d: "step_down b w \<le> step_down b v"
    using assms by (simp_all add: step_up_mono step_down_antimono)
  have n: "v \<le> 10000000 \<Longrightarrow> 0 \<le> step_down b v" using assms by (simp add: step_down_nonneg)
  consider "v = 10000000" | "10000000 < v" | "v < 10000000" by linarith
  then show ?thesis
    by cases (use assms u d n in \<open>auto simp: compute_base_fee_steps max_def min_def\<close>)
qed

section \<open>The fee of a transaction\<close>

lemma tx_fee_bounds:
  assumes "base \<le> maxf" "0 \<le> base" "0 \<le> w"
  shows "base * w \<le> compute_tx_fee base maxf prio w" "compute_tx_fee base maxf prio w \<le> maxf * w"
proof -
  let ?e = "max 0 (min prio (maxf - base))"
  have "base \<le> base + ?e" "base + ?e \<le> maxf" using assms by auto
  then have "base * w \<le> (base + ?e) * w" "(base + ?e) * w \<le> maxf * w"
    using assms by (auto intro: mult_right_mono)
  then show "base * w \<le> compute_tx_fee base maxf prio w" "compute_tx_fee base maxf prio w \<le> maxf * w"
    by (auto simp: compute_tx_fee_def Let_def)
qed

lemma tx_fee_nonneg: "0 \<le> base \<Longrightarrow> 0 \<le> w \<Longrightarrow> 0 \<le> compute_tx_fee base maxf prio w"
  by (auto simp: compute_tx_fee_def Let_def intro!: mult_nonneg_nonneg)

end
