(* ===== verification/Transaction.thy ===== *)
theory Transaction
  imports Fees
begin

text \<open>
  \<open>core/transaction.py\<close>: the signed transaction, its canonical bytes and identifier, the payload
  checks per type, the JSON form and the factory methods. The checks of a method are listed in the
  source's order; the first one that does not pass decides (\<open>checks\<close>).
\<close>

section \<open>Sequences of checks\<close>

fun checks :: "outcome list \<Rightarrow> outcome" where
  "checks [] = Ok []"
| "checks (c # cs) = (case c of Ok _ \<Rightarrow> checks cs | r \<Rightarrow> r)"

definition reject_if :: "bool \<Rightarrow> string \<Rightarrow> pyval list \<Rightarrow> outcome" where
  "reject_if c text args = (if c then Fail (Msg text args) else Ok [])"

definition raise_if :: "bool \<Rightarrow> exn \<Rightarrow> outcome" where
  "raise_if c e = (if c then Raise e else Ok [])"

lemma checks_ok: "is_ok (checks cs) \<longleftrightarrow> list_all is_ok cs"
  by (induction cs) (auto split: outcome.splits simp: is_ok_def)

lemma checks_ok_eq: "is_ok (checks cs) \<Longrightarrow> checks cs = Ok []"
  by (induction cs) (auto split: outcome.splits simp: is_ok_def)

lemma checks_append:
  "checks (xs @ ys) = (case checks xs of Ok _ \<Rightarrow> checks ys | r \<Rightarrow> r)"
  by (induction xs) (auto split: outcome.splits)

lemma check_if_simps [simp]:
  "raise_if False e = Ok []" "raise_if True e = Raise e"
  "reject_if False t a = Ok []" "reject_if True t a = Fail (Msg t a)"
  by (simp_all add: raise_if_def reject_if_def)

lemma reject_if_ok [simp]: "is_ok (reject_if c t a) \<longleftrightarrow> \<not> c"
  by (simp add: reject_if_def)

lemma raise_if_ok [simp]: "is_ok (raise_if c e) \<longleftrightarrow> \<not> c"
  by (simp add: raise_if_def)

section \<open>The transaction and its identifier\<close>

record transaction =
  tx_type :: txtype
  tx_sender :: string
  tx_recipient :: string
  tx_timestamp :: int
  tx_payload :: "(string \<times> pyval) list"
  tx_signature :: bytes
  tx_pubkey :: bytes
  tx_nonce :: int
  tx_chain_id :: string
  tx_max_fee :: int
  tx_max_prio :: int

definition pget :: "transaction \<Rightarrow> string \<Rightarrow> pyval \<Rightarrow> pyval" where
  "pget tx k v = dget_or (tx_payload tx) k v"

definition signable_obj :: "transaction \<Rightarrow> pyval" where
  "signable_obj tx =
     PDict [(''chainId'', PStr (tx_chain_id tx)),
            (''from'', PStr (tx_sender tx)),
            (''maxFeePerWeight'', PInt (tx_max_fee tx)),
            (''maxPriorityFee'', PInt (tx_max_prio tx)),
            (''nonce'', PInt (tx_nonce tx)),
            (''payload'', PDict (tx_payload tx)),
            (''timestamp'', PInt (tx_timestamp tx)),
            (''to'', PStr (tx_recipient tx)),
            (''type'', PStr (type_value (tx_type tx)))]"

definition signable_bytes :: "transaction \<Rightarrow> bytes" where
  "signable_bytes tx = encode (json_dumps (signable_obj tx))"

definition tx_hash :: "env \<Rightarrow> transaction \<Rightarrow> bytes" where
  "tx_hash E tx = sha3 E (signable_bytes tx)"

definition tx_id :: "env \<Rightarrow> transaction \<Rightarrow> string" where
  "tx_id E tx = hex (tx_hash E tx)"

definition tx_sign :: "env \<Rightarrow> transaction \<Rightarrow> bytes \<Rightarrow> bytes \<Rightarrow> transaction" where
  "tx_sign E tx signing_sk signing_pk =
     tx\<lparr>tx_pubkey := signing_pk, tx_signature := mldsa_sign E signing_sk (signable_bytes tx)\<rparr>"

definition tx_verify :: "env \<Rightarrow> transaction \<Rightarrow> bool" where
  "tx_verify E tx =
     (if tx_signature tx = [] \<or> tx_pubkey tx = [] then False
      else if derive_address E (tx_pubkey tx) \<noteq> tx_sender tx then False
      else verify_sig E (tx_pubkey tx) (signable_bytes tx) (tx_signature tx))"

section \<open>Payload validation\<close>

fun allowed_keys :: "txtype \<Rightarrow> string list" where
  "allowed_keys REGISTER_KEY = [''encryption_pk'']"
| "allowed_keys REGISTER_VALIDATOR = [''validator_pubkey'', ''validator_address'', ''commission'']"
| "allowed_keys REVOKE_KEY = [''key_type'', ''reason'']"
| "allowed_keys NOTARIZE = [''documentHash'', ''metadata'']"
| "allowed_keys STORE = [''documentHash'', ''cid'', ''metadata'']"
| "allowed_keys SHARE = [''cid'', ''encapsulatedKey'', ''expires'']"
| "allowed_keys STAKE = [''amount'', ''validator_address'']"
| "allowed_keys DELEGATE = [''amount'', ''validator_address'']"
| "allowed_keys UNSTAKE = [''amount'', ''validator_address'']"
| "allowed_keys EVIDENCE =
     [''evidence_type'', ''block_a_hash'', ''block_b_hash'', ''block_a_sig'', ''block_b_sig'',
      ''block_index'', ''validator_address'', ''block_a_header'', ''block_b_header'']"
| "allowed_keys TRANSFER = [''amount'', ''memo'']"
| "allowed_keys ISSUE_TOKEN = [''name'', ''symbol'', ''decimals'', ''max_supply'', ''transferable'']"
| "allowed_keys MINT_TOKEN = [''token_id'', ''amount'']"
| "allowed_keys TRANSFER_TOKEN = [''token_id'', ''amount'', ''memo'']"

definition EVIDENCE_MAX_PAYLOAD :: int where
  "EVIDENCE_MAX_PAYLOAD = 32768"

definition extra_keys :: "transaction \<Rightarrow> string list" where
  "extra_keys tx = filter (\<lambda>k. k \<notin> set (allowed_keys (tx_type tx))) (dkeys (tx_payload tx))"

definition int_above :: "pyval \<Rightarrow> int \<Rightarrow> bool" where
  "int_above v n \<longleftrightarrow> is_int v \<and> int_of_py v > n"

text \<open>The checks common to all types: size, keys, and the caps on amounts.\<close>

definition common_checks :: "transaction \<Rightarrow> outcome list" where
  "common_checks tx =
     (let raw_len = int (length (json_dumps (PDict (tx_payload tx))));
          max_size = (if tx_type tx = EVIDENCE then EVIDENCE_MAX_PAYLOAD else MAX_TX_PAYLOAD_SIZE);
          amount = pget tx ''amount'' PNone;
          max_supply = pget tx ''max_supply'' PNone
      in [reject_if (raw_len > max_size) ''payload too large: {} > {}'' [PInt raw_len, PInt max_size],
          reject_if (extra_keys tx \<noteq> []) ''unknown payload keys: {}'' [PList (map PStr (extra_keys tx))],
          reject_if (tx_type tx \<in> {TRANSFER, STAKE, DELEGATE, UNSTAKE, MINT_TOKEN, TRANSFER_TOKEN}
                     \<and> int_above amount MAX_TX_AMOUNT)
            ''amount exceeds MAX_TX_AMOUNT ({})'' [PInt MAX_TX_AMOUNT],
          reject_if (tx_type tx = ISSUE_TOKEN \<and> int_above max_supply MAX_TX_AMOUNT)
            ''max_supply exceeds MAX_TX_AMOUNT ({})'' [PInt MAX_TX_AMOUNT],
          reject_if (tx_type tx \<in> {TRANSFER, STAKE, DELEGATE, MINT_TOKEN} \<and> int_above amount MAX_SUPPLY)
            ''amount {} exceeds MAX_SUPPLY ({})'' [amount, PInt MAX_SUPPLY]])"

text \<open>
  \<open>not v or not _HEX_RE.match(v)\<close>: a value that is true but not a str makes \<open>re.match\<close> raise
  TypeError.
\<close>

definition hex_field :: "pyval \<Rightarrow> string \<Rightarrow> outcome list" where
  "hex_field v text =
     [raise_if (truthy v \<and> \<not> is_str v) TypeError,
      reject_if (\<not> truthy v \<or> \<not> hex_re (str_of_py v)) text []]"

definition metadata_checks :: "pyval \<Rightarrow> outcome list" where
  "metadata_checks meta =
     [reject_if (meta \<noteq> PNone \<and> \<not> is_str meta) ''metadata must be a string'' [],
      reject_if (is_str meta \<and> length (str_of_py meta) > 1024) ''metadata exceeds 1024 characters'' []]"

definition check_notarize :: "transaction \<Rightarrow> outcome list" where
  "check_notarize tx =
     (let dh = pget tx ''documentHash'' (PStr [])
      in hex_field dh ''documentHash must be non-empty hex string''
         @ [reject_if (length (str_of_py dh) > 128) ''documentHash too long (max 128 hex chars)'' []]
         @ metadata_checks (pget tx ''metadata'' PNone))"

definition check_store :: "transaction \<Rightarrow> outcome list" where
  "check_store tx =
     (let dh = pget tx ''documentHash'' (PStr [])
      in hex_field dh ''documentHash must be non-empty hex string''
         @ [reject_if (length (str_of_py dh) > 128) ''documentHash too long (max 128 hex chars)'' [],
            reject_if (\<not> truthy (pget tx ''cid'' PNone)) ''cid required for STORE tx'' []]
         @ metadata_checks (pget tx ''metadata'' PNone))"

definition check_share :: "transaction \<Rightarrow> outcome list" where
  "check_share tx =
     (let ek = pget tx ''encapsulatedKey'' (PStr []); exp = pget tx ''expires'' (PInt 0)
      in [reject_if (\<not> truthy (pget tx ''cid'' PNone)) ''cid required for SHARE tx'' []]
         @ hex_field ek ''encapsulatedKey must be non-empty hex''
         @ [reject_if (\<not> is_int exp \<or> int_of_py exp < 0) ''expires must be non-negative integer'' []])"

definition check_register_key :: "transaction \<Rightarrow> outcome list" where
  "check_register_key tx =
     hex_field (pget tx ''encryption_pk'' (PStr [])) ''encryption_pk must be non-empty hex''"

definition check_register_validator :: "env \<Rightarrow> transaction \<Rightarrow> outcome list" where
  "check_register_validator E tx =
     (let vpk = pget tx ''validator_pubkey'' (PStr []);
          vaddr = pget tx ''validator_address'' (PStr []);
          raw = fromhex (str_of_py vpk);
          expected_addr = derive_address E (the_default [] raw);
          commission = pget tx ''commission'' PNone
      in hex_field vpk ''validator_pubkey must be non-empty hex''
         @ [reject_if (length (str_of_py vpk) \<noteq> 3904)
              ''validator_pubkey wrong size: {} hex chars, expected 3904 (1952 bytes)''
              [PInt (int (length (str_of_py vpk)))],
            reject_if (\<not> truthy vaddr \<or> \<not> is_str vaddr) ''validator_address must be non-empty string'' [],
            raise_if (raw = None) (ValueError (Msg ''non-hexadecimal number found in fromhex() arg'' [])),
            reject_if (str_of_py vaddr \<noteq> expected_addr)
              ''validator_address does not match validator_pubkey'' [],
            reject_if (tx_sender tx \<noteq> str_of_py vaddr)
              ''REGISTER_VALIDATOR requires sender == validator_address'' [],
            reject_if (commission \<noteq> PNone
                       \<and> (\<not> is_int commission \<or> int_of_py commission < 0 \<or> int_of_py commission > 100))
              ''commission must be an integer 0-100'' []])"

definition valid_key_types :: "string list" where
  "valid_key_types = [''encryption'', ''signing'', ''validator'']"

definition valid_reasons :: "string list" where
  "valid_reasons = [''compromised'', ''decommission'', ''rotation'']"

definition check_revoke_key :: "transaction \<Rightarrow> outcome list" where
  "check_revoke_key tx =
     (let kt = pget tx ''key_type'' (PStr []); reason = pget tx ''reason'' (PStr [])
      in [reject_if (\<not> is_str kt \<or> str_of_py kt \<notin> set valid_key_types)
            ''key_type must be one of {}, got {}'' [PList (map PStr valid_key_types), kt],
          reject_if (\<not> is_str reason \<or> str_of_py reason \<notin> set valid_reasons)
            ''reason must be one of {}, got {}'' [PList (map PStr valid_reasons), reason]])"

definition check_stake :: "transaction \<Rightarrow> outcome list" where
  "check_stake tx =
     (let amount = pget tx ''amount'' PNone; vaddr = pget tx ''validator_address'' (PStr [])
      in [reject_if (\<not> is_int amount \<or> int_of_py amount < MIN_STAKE)
            ''amount must be integer >= {}'' [PInt MIN_STAKE],
          reject_if (int_of_py amount > MAX_STAKE) ''amount must be <= {}'' [PInt MAX_STAKE],
          reject_if (\<not> is_str vaddr \<or> \<not> truthy vaddr) ''validator_address must be non-empty string'' []])"

definition memo_checks :: "pyval \<Rightarrow> outcome list" where
  "memo_checks memo =
     [reject_if (memo \<noteq> PNone \<and> \<not> is_str memo) ''memo must be a string'' [],
      reject_if (is_str memo \<and> length (str_of_py memo) > 256) ''memo exceeds 256 characters'' []]"

text \<open>\<open>startswith("qv1")\<close>, 67 characters, hexadecimal after the prefix.\<close>

definition valid_address :: "string \<Rightarrow> bool" where
  "valid_address a \<longleftrightarrow> take 3 a = ADDRESS_PREFIX \<and> length a = 67 \<and> hex_re (drop 3 a)"

definition amount_checks :: "pyval \<Rightarrow> outcome list" where
  "amount_checks amount =
     [reject_if (\<not> is_int amount \<or> int_of_py amount \<le> 0) ''amount must be a positive integer'' [],
      reject_if (int_of_py amount > MAX_SUPPLY) ''amount exceeds MAX_SUPPLY ({})'' [PInt MAX_SUPPLY]]"

definition check_transfer :: "transaction \<Rightarrow> outcome list" where
  "check_transfer tx =
     amount_checks (pget tx ''amount'' PNone)
     @ memo_checks (pget tx ''memo'' PNone)
     @ [reject_if (tx_recipient tx = []) ''TRANSFER requires a recipient'' [],
        reject_if (tx_recipient tx = tx_sender tx) ''cannot transfer to self'' [],
        reject_if (\<not> valid_address (tx_recipient tx))
          ''recipient must be a valid qv1 address (67 chars)'' []]"

definition evidence_field :: "transaction \<Rightarrow> string \<Rightarrow> outcome" where
  "evidence_field tx field =
     (let v = pget tx field (PStr [])
      in reject_if (\<not> is_str v \<or> \<not> truthy v \<or> \<not> hex_re (str_of_py v))
           ''{} must be non-empty hex string'' [PStr field])"

definition evidence_header :: "env \<Rightarrow> transaction \<Rightarrow> string \<Rightarrow> string \<Rightarrow> outcome list" where
  "evidence_header E tx hdr_field hash_field =
     (let raw = fromhex (str_of_py (pget tx hdr_field (PStr [])))
      in [raise_if (raw = None) (ValueError (Msg ''non-hexadecimal number found in fromhex() arg'' [])),
          reject_if (PStr (hex (sha3 E (the_default [] raw))) \<noteq> pget tx hash_field (PStr []))
            ''{} does not hash to {}'' [PStr hdr_field, PStr hash_field]])"

definition check_evidence :: "env \<Rightarrow> transaction \<Rightarrow> outcome list" where
  "check_evidence E tx =
     (let et = pget tx ''evidence_type'' (PStr []);
          bi = pget tx ''block_index'' PNone;
          vaddr = pget tx ''validator_address'' (PStr [])
      in [reject_if (et \<noteq> PStr ''double_sign'') ''evidence_type must be double_sign, got {}'' [et]]
         @ map (evidence_field tx) [''block_a_hash'', ''block_b_hash'', ''block_a_sig'', ''block_b_sig'']
         @ map (evidence_field tx) [''block_a_header'', ''block_b_header'']
         @ evidence_header E tx ''block_a_header'' ''block_a_hash''
         @ evidence_header E tx ''block_b_header'' ''block_b_hash''
         @ [reject_if (pget tx ''block_a_hash'' PNone = pget tx ''block_b_hash'' PNone)
              ''block_a_hash and block_b_hash must differ (not double-sign)'' [],
            reject_if (\<not> is_int bi \<or> int_of_py bi < 0) ''block_index must be non-negative integer'' [],
            reject_if (\<not> is_str vaddr \<or> \<not> truthy vaddr)
              ''validator_address must be non-empty string'' []])"

definition name_re :: "string \<Rightarrow> bool" where
  "name_re s = re_class (\<lambda>c. is_lower c \<or> is_upper c \<or> is_digit c \<or> c = CHR '' '') s"

definition symbol_re :: "string \<Rightarrow> bool" where
  "symbol_re s \<longleftrightarrow>
     (let t = chomp s
      in length t \<ge> 2 \<and> is_upper (hd t) \<and> list_all (\<lambda>c. is_upper c \<or> is_digit c) (tl t))"

definition check_issue_token :: "transaction \<Rightarrow> outcome list" where
  "check_issue_token tx =
     (let name = pget tx ''name'' (PStr []);
          symbol = pget tx ''symbol'' (PStr []);
          decimals = pget tx ''decimals'' PNone;
          max_supply = pget tx ''max_supply'' (PInt 0);
          transferable = pget tx ''transferable'' (PBool True)
      in [reject_if (\<not> is_str name \<or> \<not> truthy name) ''name must be a non-empty string'' [],
          reject_if (int (length (str_of_py name)) > MAX_TOKEN_NAME_LENGTH)
            ''name exceeds {} characters'' [PInt MAX_TOKEN_NAME_LENGTH],
          reject_if (\<not> name_re (str_of_py name))
            ''name must contain only alphanumeric characters and spaces'' [],
          reject_if (\<not> is_str symbol \<or> \<not> truthy symbol) ''symbol must be a non-empty string'' [],
          reject_if (int (length (str_of_py symbol)) < MIN_TOKEN_SYMBOL_LENGTH)
            ''symbol must be at least {} characters'' [PInt MIN_TOKEN_SYMBOL_LENGTH],
          reject_if (int (length (str_of_py symbol)) > MAX_TOKEN_SYMBOL_LENGTH)
            ''symbol exceeds {} characters'' [PInt MAX_TOKEN_SYMBOL_LENGTH],
          reject_if (\<not> symbol_re (str_of_py symbol))
            ''symbol must be uppercase alphanumeric starting with a letter'' [],
          reject_if (str_of_py symbol = ''QBIT'') ''symbol QBIT is reserved for the native token'' [],
          reject_if (\<not> is_int decimals \<or> int_of_py decimals < 0 \<or> int_of_py decimals > MAX_TOKEN_DECIMALS)
            ''decimals must be an integer 0-{}'' [PInt MAX_TOKEN_DECIMALS],
          reject_if (\<not> is_int max_supply \<or> int_of_py max_supply < 0)
            ''max_supply must be a non-negative integer'' [],
          reject_if (\<not> is_bool transferable) ''transferable must be a boolean'' []])"

definition token_id_check :: "pyval \<Rightarrow> outcome" where
  "token_id_check token_id =
     reject_if (\<not> is_str token_id \<or> length (str_of_py token_id) \<noteq> 32 \<or> \<not> hex_re (str_of_py token_id))
       ''token_id must be a 32-character hex string'' []"

definition check_mint_token :: "transaction \<Rightarrow> outcome list" where
  "check_mint_token tx =
     [token_id_check (pget tx ''token_id'' (PStr []))]
     @ amount_checks (pget tx ''amount'' PNone)
     @ [reject_if (tx_recipient tx = []) ''MINT_TOKEN requires a recipient'' [],
        reject_if (\<not> valid_address (tx_recipient tx))
          ''recipient must be a valid qv1 address (67 chars)'' []]"

definition check_transfer_token :: "transaction \<Rightarrow> outcome list" where
  "check_transfer_token tx =
     [token_id_check (pget tx ''token_id'' (PStr []))]
     @ amount_checks (pget tx ''amount'' PNone)
     @ [reject_if (tx_recipient tx = []) ''TRANSFER_TOKEN requires a recipient'' [],
        reject_if (tx_recipient tx = tx_sender tx) ''cannot transfer token to self'' [],
        reject_if (\<not> valid_address (tx_recipient tx))
          ''recipient must be a valid qv1 address (67 chars)'' []]
     @ memo_checks (pget tx ''memo'' PNone)"

definition type_checks :: "env \<Rightarrow> transaction \<Rightarrow> outcome list" where
  "type_checks E tx =
     (case tx_type tx of
        NOTARIZE \<Rightarrow> check_notarize tx
      | STORE \<Rightarrow> check_store tx
      | SHARE \<Rightarrow> check_share tx
      | REGISTER_KEY \<Rightarrow> check_register_key tx
      | REGISTER_VALIDATOR \<Rightarrow> check_register_validator E tx
      | REVOKE_KEY \<Rightarrow> check_revoke_key tx
      | STAKE \<Rightarrow> check_stake tx
      | DELEGATE \<Rightarrow> check_stake tx
      | UNSTAKE \<Rightarrow> check_stake tx
      | TRANSFER \<Rightarrow> check_transfer tx
      | EVIDENCE \<Rightarrow> check_evidence E tx
      | ISSUE_TOKEN \<Rightarrow> check_issue_token tx
      | MINT_TOKEN \<Rightarrow> check_mint_token tx
      | TRANSFER_TOKEN \<Rightarrow> check_transfer_token tx)"

definition validate_payload :: "env \<Rightarrow> transaction \<Rightarrow> outcome" where
  "validate_payload E tx = checks (common_checks tx @ type_checks E tx)"

end
