(* ===== verification/TxWire.thy ===== *)
theory TxWire
  imports Transaction
begin

text \<open>
  The JSON form of transactions (\<open>to_dict\<close>, \<open>from_dict\<close>) and the factory methods of
  \<open>core/transaction.py\<close>. \<open>from_dict\<close> trusts two shapes the record below cannot hold: a \<open>to\<close> that is
  not a str and bools where an int is expected; there the model answers \<open>None\<close> (outside it).
  A factory's \<open>timestamp=None\<close> means \<open>int(time.time())\<close>, the parameter \<open>now\<close>.
\<close>

section \<open>to_dict\<close>

definition tx_to_dict :: "env \<Rightarrow> transaction \<Rightarrow> (string \<times> pyval) list" where
  "tx_to_dict E tx =
     [(''id'', PStr (tx_id E tx)),
      (''type'', PStr (type_value (tx_type tx))),
      (''from'', PStr (tx_sender tx)),
      (''to'', PStr (tx_recipient tx)),
      (''timestamp'', PInt (tx_timestamp tx)),
      (''payload'', PDict (tx_payload tx)),
      (''nonce'', PInt (tx_nonce tx)),
      (''chainId'', PStr (tx_chain_id tx)),
      (''maxFeePerWeight'', PInt (tx_max_fee tx)),
      (''maxPriorityFee'', PInt (tx_max_prio tx)),
      (''signature'', PStr (hex (tx_signature tx))),
      (''sender_pubkey'', PStr (hex (tx_pubkey tx)))]"

section \<open>from_dict\<close>

fun dict_of_py :: "pyval \<Rightarrow> (string \<times> pyval) list" where
  "dict_of_py (PDict d) = d"
| "dict_of_py _ = []"

definition ve :: "string \<Rightarrow> pyval list \<Rightarrow> exn" where
  "ve text args = ValueError (Msg text args)"

definition hashable :: "pyval \<Rightarrow> bool" where
  "hashable v \<longleftrightarrow> (case v of PList _ \<Rightarrow> False | PDict _ \<Rightarrow> False | _ \<Rightarrow> True)"

definition amount_tx_types :: "string list" where
  "amount_tx_types =
     [''TRANSFER'', ''STAKE'', ''DELEGATE'', ''UNSTAKE'', ''MINT_TOKEN'', ''TRANSFER_TOKEN'']"

definition supply_capped_types :: "string list" where
  "supply_capped_types = [''TRANSFER'', ''STAKE'', ''DELEGATE'', ''MINT_TOKEN'']"

definition bytes_field :: "pyval \<Rightarrow> outcome list" where
  "bytes_field v =
     [raise_if (\<not> is_str v) TypeError,
      raise_if (fromhex (str_of_py v) = None) (ve ''signature/sender_pubkey must be valid hex'' [])]"

definition fee_field :: "pyval \<Rightarrow> string \<Rightarrow> outcome list" where
  "fee_field v name =
     [raise_if (\<not> is_int v \<or> int_of_py v < 0) (ve ''{} must be non-negative int'' [PStr name]),
      raise_if (int_of_py v > MAX_FEE_PARAM) (ve ''{} exceeds {}'' [PStr name, PInt MAX_FEE_PARAM])]"

text \<open>The amount guards on the payload, per type string.\<close>

definition payload_guards :: "pyval \<Rightarrow> (string \<times> pyval) list \<Rightarrow> outcome list" where
  "payload_guards tt payload =
     (let amt = dget_or payload ''amount'' PNone; ms = dget_or payload ''max_supply'' PNone;
          amounted = (is_str tt \<and> str_of_py tt \<in> set amount_tx_types \<and> amt \<noteq> PNone);
          capped = (is_str tt \<and> str_of_py tt \<in> set supply_capped_types);
          issue = (tt = PStr ''ISSUE_TOKEN'' \<and> ms \<noteq> PNone)
      in [raise_if (\<not> hashable tt) TypeError,
          raise_if (amounted \<and> (\<not> is_int amt \<or> is_bool amt)) (ve ''payload amount must be an integer'' []),
          raise_if (amounted \<and> int_of_py amt \<le> 0) (ve ''payload amount must be positive'' []),
          raise_if (amounted \<and> int_of_py amt > MAX_TX_AMOUNT)
            (ve ''payload amount exceeds MAX_TX_AMOUNT ({})'' [PInt MAX_TX_AMOUNT]),
          raise_if (capped \<and> int_above amt MAX_SUPPLY)
            (ve ''amount {} exceeds MAX_SUPPLY ({})'' [amt, PInt MAX_SUPPLY]),
          raise_if (issue \<and> (\<not> is_int ms \<or> is_bool ms)) (ve ''payload max_supply must be an integer'' []),
          raise_if (issue \<and> int_of_py ms < 0) (ve ''payload max_supply must be non-negative'' []),
          raise_if (issue \<and> int_of_py ms > MAX_TX_AMOUNT)
            (ve ''payload max_supply exceeds MAX_TX_AMOUNT ({})'' [PInt MAX_TX_AMOUNT])])"

definition from_dict_checks :: "(string \<times> pyval) list \<Rightarrow> outcome list" where
  "from_dict_checks data =
     (let spk = fromhex (str_of_py (dget_or data ''sender_pubkey'' (PStr [])))
      in [raise_if (\<not> is_int (dget_or data ''timestamp'' PNone)) (ve ''timestamp must be int'' []),
          raise_if (\<not> is_str (dget_or data ''from'' PNone)) (ve ''from must be string'' []),
          raise_if (\<not> is_int (dget_or data ''nonce'' (PInt 0))) (ve ''nonce must be int'' []),
          raise_if (\<not> is_dict (dget_or data ''payload'' PNone)) (ve ''payload must be dict'' [])]
         @ bytes_field (dget_or data ''signature'' (PStr []))
         @ bytes_field (dget_or data ''sender_pubkey'' (PStr []))
         @ [raise_if (the_default [] spk \<noteq> [] \<and> length (the_default [] spk) \<noteq> 1952)
              (ve ''sender_pubkey wrong size: {}'' [PInt (int (length (the_default [] spk)))]),
            raise_if (\<not> is_str (dget_or data ''chainId'' (PStr []))) (ve ''chainId must be string'' [])]
         @ fee_field (dget_or data ''maxFeePerWeight'' (PInt 0)) ''maxFeePerWeight''
         @ fee_field (dget_or data ''maxPriorityFee'' (PInt 0)) ''maxPriorityFee''
         @ payload_guards (dget_or data ''type'' (PStr [])) (dict_of_py (dget_or data ''payload'' PNone))
         @ [raise_if (\<not> dmem ''type'' data) (KeyError ''type''),
            raise_if (type_of_value (str_of_py (dget_or data ''type'' PNone)) = None
                      \<or> \<not> is_str (dget_or data ''type'' PNone))
              (ve ''{} is not a valid TxType'' [dget_or data ''type'' PNone])])"

text \<open>The shapes the transaction record can hold.\<close>

definition in_model :: "(string \<times> pyval) list \<Rightarrow> bool" where
  "in_model data \<longleftrightarrow>
     is_str (dget_or data ''to'' (PStr []))
     \<and> \<not> is_bool (dget_or data ''timestamp'' PNone) \<and> \<not> is_bool (dget_or data ''nonce'' (PInt 0))
     \<and> \<not> is_bool (dget_or data ''maxFeePerWeight'' (PInt 0))
     \<and> \<not> is_bool (dget_or data ''maxPriorityFee'' (PInt 0))"

definition tx_of_data :: "(string \<times> pyval) list \<Rightarrow> transaction" where
  "tx_of_data data =
     \<lparr>tx_type = the_default TRANSFER (type_of_value (str_of_py (dget_or data ''type'' PNone))),
      tx_sender = str_of_py (dget_or data ''from'' PNone),
      tx_recipient = str_of_py (dget_or data ''to'' (PStr [])),
      tx_timestamp = int_of_py (dget_or data ''timestamp'' PNone),
      tx_payload = dict_of_py (dget_or data ''payload'' PNone),
      tx_signature = the_default [] (fromhex (str_of_py (dget_or data ''signature'' (PStr [])))),
      tx_pubkey = the_default [] (fromhex (str_of_py (dget_or data ''sender_pubkey'' (PStr [])))),
      tx_nonce = int_of_py (dget_or data ''nonce'' (PInt 0)),
      tx_chain_id = str_of_py (dget_or data ''chainId'' (PStr [])),
      tx_max_fee = int_of_py (dget_or data ''maxFeePerWeight'' (PInt 0)),
      tx_max_prio = int_of_py (dget_or data ''maxPriorityFee'' (PInt 0))\<rparr>"

definition tx_from_dict :: "(string \<times> pyval) list \<Rightarrow> (exn + transaction) option" where
  "tx_from_dict data =
     (case checks (from_dict_checks data) of
        Raise e \<Rightarrow> Some (Inl e)
      | _ \<Rightarrow> (if in_model data then Some (Inr (tx_of_data data)) else None))"

text \<open>What a transaction must satisfy for its own JSON form to be accepted.\<close>

definition wire_ok :: "transaction \<Rightarrow> bool" where
  "wire_ok tx \<longleftrightarrow>
     (tx_pubkey tx = [] \<or> length (tx_pubkey tx) = 1952)
     \<and> 0 \<le> tx_max_fee tx \<and> tx_max_fee tx \<le> MAX_FEE_PARAM
     \<and> 0 \<le> tx_max_prio tx \<and> tx_max_prio tx \<le> MAX_FEE_PARAM
     \<and> list_all is_ok (payload_guards (PStr (type_value (tx_type tx))) (tx_payload tx))"

lemmas tx_to_dict_gets = tx_to_dict_def dget_or_def

lemma tx_of_to_dict: "tx_of_data (tx_to_dict E tx) = tx"
  by (simp add: tx_of_data_def tx_to_dict_gets)

lemma in_model_to_dict: "in_model (tx_to_dict E tx)"
  by (simp add: in_model_def tx_to_dict_gets)

lemma from_dict_checks_to_dict: "list_all is_ok (from_dict_checks (tx_to_dict E tx)) \<longleftrightarrow> wire_ok tx"
  unfolding from_dict_checks_def Let_def wire_ok_def bytes_field_def fee_field_def
  by (auto simp: tx_to_dict_gets dmem_def)

definition no_fail :: "outcome \<Rightarrow> bool" where
  "no_fail c \<longleftrightarrow> (\<forall>m. c \<noteq> Fail m)"

lemma no_fail_raise_if [simp]: "no_fail (raise_if c e)"
  by (simp add: no_fail_def raise_if_def)

lemma checks_no_fail: "list_all no_fail cs \<Longrightarrow> no_fail (checks cs)"
  by (induction cs) (auto split: outcome.splits simp: no_fail_def)

lemma from_dict_to_dict: "wire_ok tx \<Longrightarrow> tx_from_dict (tx_to_dict E tx) = Some (Inr tx)"
  using checks_ok_eq[of "from_dict_checks (tx_to_dict E tx)"]
  by (simp add: checks_ok from_dict_checks_to_dict tx_from_dict_def in_model_to_dict tx_of_to_dict)

text \<open>Whatever is accepted is well-formed and has a known type.\<close>

lemma tx_from_dict_Inr:
  assumes "tx_from_dict data = Some (Inr tx)"
  shows "list_all is_ok (from_dict_checks data)" "in_model data" "tx = tx_of_data data"
proof -
  have "no_fail (checks (from_dict_checks data))"
    by (rule checks_no_fail)
      (simp add: from_dict_checks_def Let_def bytes_field_def fee_field_def payload_guards_def)
  then have "is_ok (checks (from_dict_checks data))"
    using assms by (cases "checks (from_dict_checks data)") (auto simp: tx_from_dict_def no_fail_def)
  then show "list_all is_ok (from_dict_checks data)" by (simp add: checks_ok)
  show "in_model data" "tx = tx_of_data data"
    using assms by (auto simp: tx_from_dict_def split: outcome.splits if_splits)
qed

lemma tx_from_dict_wire_ok:
  assumes "tx_from_dict data = Some (Inr tx)"
  shows "wire_ok tx"
proof -
  let ?tt = "dget_or data ''type'' PNone"
  note ok = tx_from_dict_Inr[OF assms]
  have t: "is_str ?tt" "type_of_value (str_of_py ?tt) \<noteq> None" "dmem ''type'' data"
    using ok(1) by (simp_all add: from_dict_checks_def Let_def)
  have eq: "dget_or data ''type'' (PStr []) = ?tt"
    using t(3) by (simp add: dget_or_def dmem_def split: option.splits)
  obtain s where s: "?tt = PStr s" using t(1) by (cases ?tt) auto
  obtain ty where ty: "type_of_value s = Some ty" using t(2) s by auto
  have "type_value ty = s" using ty unfolding type_of_value_def by (metis (mono_tags) find_Some_iff)
  then have g: "list_all is_ok (payload_guards (PStr (type_value (tx_type tx))) (tx_payload tx))"
    using ok s ty eq by (simp add: from_dict_checks_def Let_def tx_of_data_def)
  show ?thesis
    using ok g unfolding wire_ok_def
    by (auto simp: from_dict_checks_def Let_def fee_field_def tx_of_data_def)
qed

section \<open>Factory methods\<close>

definition new_tx :: "txtype \<Rightarrow> string \<Rightarrow> string \<Rightarrow> (string \<times> pyval) list \<Rightarrow> int \<Rightarrow> int \<Rightarrow> int \<Rightarrow> int \<Rightarrow> transaction" where
  "new_tx ty sender recipient payload nonce mf mp now =
     \<lparr>tx_type = ty, tx_sender = sender, tx_recipient = recipient, tx_timestamp = now,
      tx_payload = payload, tx_signature = [], tx_pubkey = [], tx_nonce = nonce,
      tx_chain_id = CHAIN_ID, tx_max_fee = mf, tx_max_prio = mp\<rparr>"

definition mk_register_key where
  "mk_register_key sender encryption_pk nonce mf mp now =
     new_tx REGISTER_KEY sender [] [(''encryption_pk'', PStr (hex encryption_pk))] nonce mf mp now"

definition mk_register_validator where
  "mk_register_validator sender validator_pubkey validator_address nonce mf mp now =
     new_tx REGISTER_VALIDATOR sender []
       [(''validator_pubkey'', PStr (hex validator_pubkey)), (''validator_address'', PStr validator_address)]
       nonce mf mp now"

definition mk_notarize where
  "mk_notarize sender document_hash metadata nonce mf mp now =
     new_tx NOTARIZE sender [] [(''documentHash'', PStr document_hash), (''metadata'', PStr metadata)]
       nonce mf mp now"

definition mk_store where
  "mk_store sender document_hash cid metadata nonce mf mp now =
     new_tx STORE sender []
       [(''documentHash'', PStr document_hash), (''cid'', PStr cid), (''metadata'', PStr metadata)]
       nonce mf mp now"

definition mk_revoke_key where
  "mk_revoke_key sender key_type reason nonce mf mp now =
     new_tx REVOKE_KEY sender [] [(''key_type'', PStr key_type), (''reason'', PStr reason)] nonce mf mp now"

definition mk_share where
  "mk_share sender recipient cid encapsulated_key expires nonce mf mp now =
     new_tx SHARE sender recipient
       [(''cid'', PStr cid), (''encapsulatedKey'', PStr (hex encapsulated_key)), (''expires'', PInt expires)]
       nonce mf mp now"

definition mk_stake where
  "mk_stake sender validator_address amount nonce mf mp now =
     new_tx STAKE sender [] [(''amount'', PInt amount), (''validator_address'', PStr validator_address)]
       nonce mf mp now"

definition mk_delegate where
  "mk_delegate sender validator_address amount nonce mf mp now =
     new_tx DELEGATE sender [] [(''amount'', PInt amount), (''validator_address'', PStr validator_address)]
       nonce mf mp now"

definition mk_unstake where
  "mk_unstake sender validator_address amount nonce mf mp now =
     new_tx UNSTAKE sender [] [(''amount'', PInt amount), (''validator_address'', PStr validator_address)]
       nonce mf mp now"

definition mk_transfer where
  "mk_transfer sender recipient amount memo nonce mf mp now =
     new_tx TRANSFER sender recipient
       ((''amount'', PInt amount) # (if memo \<noteq> [] then [(''memo'', PStr memo)] else [])) nonce mf mp now"

definition mk_evidence where
  "mk_evidence sender validator_address block_index block_a_hash block_b_hash block_a_sig block_b_sig
     block_a_header block_b_header nonce mf mp now =
     new_tx EVIDENCE sender []
       [(''evidence_type'', PStr ''double_sign''),
        (''block_a_hash'', PStr block_a_hash), (''block_b_hash'', PStr block_b_hash),
        (''block_a_sig'', PStr block_a_sig), (''block_b_sig'', PStr block_b_sig),
        (''block_a_header'', PStr block_a_header), (''block_b_header'', PStr block_b_header),
        (''block_index'', PInt block_index), (''validator_address'', PStr validator_address)]
       nonce mf mp now"

definition mk_issue_token where
  "mk_issue_token sender name symbol decimals max_supply transferable nonce mf mp now =
     new_tx ISSUE_TOKEN sender []
       [(''name'', PStr name), (''symbol'', PStr symbol), (''decimals'', PInt decimals),
        (''max_supply'', PInt max_supply), (''transferable'', PBool transferable)] nonce mf mp now"

definition mk_mint_token where
  "mk_mint_token sender recipient token_id amount nonce mf mp now =
     new_tx MINT_TOKEN sender recipient [(''token_id'', PStr token_id), (''amount'', PInt amount)]
       nonce mf mp now"

definition mk_transfer_token where
  "mk_transfer_token sender recipient token_id amount memo nonce mf mp now =
     new_tx TRANSFER_TOKEN sender recipient
       ([(''token_id'', PStr token_id), (''amount'', PInt amount)]
        @ (if memo \<noteq> [] then [(''memo'', PStr memo)] else [])) nonce mf mp now"

lemmas factory_defs = new_tx_def mk_register_key_def mk_register_validator_def mk_notarize_def
  mk_store_def mk_revoke_key_def mk_share_def mk_stake_def mk_delegate_def mk_unstake_def
  mk_transfer_def mk_evidence_def mk_issue_token_def mk_mint_token_def mk_transfer_token_def

end
