(* ===== verification/HttpText.thy ===== *)
theory HttpText
  imports TxWire
begin

text \<open>
  Text functions of the standard library the servers use on requests: \<open>str.strip\<close>, \<open>int(...)\<close>,
  \<open>hmac.compare_digest\<close> and the bearer token of an Authorization header.
\<close>

section \<open>Whitespace and prefixes\<close>

definition py_space :: "char \<Rightarrow> bool" where
  "py_space c \<longleftrightarrow> 9 \<le> code c \<and> code c \<le> 13 \<or> 28 \<le> code c \<and> code c \<le> 32 \<or> code c = 133 \<or> code c = 160"

definition lstrip :: "string \<Rightarrow> string" where
  "lstrip s = dropWhile py_space s"

definition strip :: "string \<Rightarrow> string" where
  "strip s = rev (lstrip (rev (lstrip s)))"

definition starts_with :: "string \<Rightarrow> string \<Rightarrow> bool" where
  "starts_with s p \<longleftrightarrow> take (length p) s = p"

lemma strip_Nil [simp]: "strip [] = []"
  by (simp add: strip_def lstrip_def)

lemma lstrip_set: "set (lstrip s) \<subseteq> set s"
  by (auto simp: lstrip_def dest: set_dropWhileD)

lemma strip_set: "set (strip s) \<subseteq> set s"
  unfolding strip_def using lstrip_set[of "rev (lstrip s)"] lstrip_set[of s] by auto

lemma lstrip_id: "s = [] \<or> \<not> py_space (hd s) \<Longrightarrow> lstrip s = s"
  by (cases s) (simp_all add: lstrip_def)

lemma strip_id: "list_all (\<lambda>c. \<not> py_space c) s \<Longrightarrow> strip s = s"
proof (cases "s = []")
  case False
  assume "list_all (\<lambda>c. \<not> py_space c) s"
  then have "\<not> py_space (hd s)" "\<not> py_space (hd (rev s))"
    using False by (simp_all add: list_all_iff hd_rev)
  then show "strip s = s" by (simp add: strip_def lstrip_id)
qed simp

section \<open>int() of what a document holds\<close>

text \<open>The digits of \<open>int(s)\<close>: single underscores between digits are allowed.\<close>

fun digit_groups :: "bool \<Rightarrow> nat \<Rightarrow> string \<Rightarrow> nat option" where
  "digit_groups sep n [] = (if sep then None else Some n)"
| "digit_groups sep n (c # cs) =
     (if is_digit c then digit_groups False (10 * n + (code c - 48)) cs
      else if c = CHR ''_'' \<and> \<not> sep then digit_groups True n cs
      else None)"

definition int_of_text :: "string \<Rightarrow> int option" where
  "int_of_text text =
     (let s = strip text;
          (neg, ds) = (case s of c # cs \<Rightarrow> if c = CHR ''-'' then (True, cs)
                                           else if c = CHR ''+'' then (False, cs) else (False, s)
                       | [] \<Rightarrow> (False, []))
      in map_option (\<lambda>n. if neg then - int n else int n) (digit_groups True 0 ds))"

text \<open>\<open>int(v)\<close>: ValueError for text that is no number, TypeError for what is neither text nor number.\<close>

definition py_int :: "pyval \<Rightarrow> exn + int" where
  "py_int v =
     (case v of
        PStr s \<Rightarrow> (case int_of_text s of None \<Rightarrow> Inl (ve ''invalid literal for int() with base 10: {}'' [v])
                                       | Some i \<Rightarrow> Inr i)
      | _ \<Rightarrow> if is_int v then Inr (int_of_py v) else Inl TypeError)"

lemma digit_groups_digits:
  "list_all is_digit s \<Longrightarrow> sep \<longrightarrow> s \<noteq> [] \<Longrightarrow>
   digit_groups sep n s = Some (foldl (\<lambda>a c. 10 * a + (code c - 48)) n s)"
  by (induction s arbitrary: sep n) auto

lemma digit_not_space: "is_digit c \<Longrightarrow> \<not> py_space c"
  by (auto simp: is_digit_def py_space_def)

text \<open>Reading back what \<open>str\<close> writes.\<close>

lemma int_of_int_str: "int_of_text (int_str i) = Some i"
proof -
  have d: "list_all is_digit (dec_nat n)" "dec_nat n \<noteq> []" for n using dec_nat_digits[of n] by simp_all
  have s: "strip (dec_nat n) = dec_nat n" for n
    by (rule strip_id) (use d(1)[of n] in \<open>simp add: list_all_iff digit_not_space\<close>)
  have m: "\<not> py_space (CHR ''-'')" by (simp add: py_space_def)
  have sm: "strip (CHR ''-'' # dec_nat n) = CHR ''-'' # dec_nat n" for n
    by (rule strip_id) (use d(1)[of n] m in \<open>simp add: list_all_iff digit_not_space\<close>)
  have g: "digit_groups True 0 (dec_nat n) = Some n" for n
    using digit_groups_digits[OF d(1), of True n 0] d(2) nat_of_dec_nat[of n] by simp
  have "hd (dec_nat n) \<noteq> CHR ''-''" "hd (dec_nat n) \<noteq> CHR ''+''" for n
    using d[of n] by (cases "dec_nat n"; force simp: is_digit_def)+
  then have h: "(case dec_nat n of [] \<Rightarrow> (False, []) | c # cs \<Rightarrow> if c = CHR ''-'' then (True, cs)
      else if c = CHR ''+'' then (False, cs) else (False, dec_nat n)) = (False, dec_nat n)" for n
    using d(2)[of n] by (cases "dec_nat n") (simp_all, (metis list.sel(1))+)
  show ?thesis by (auto simp: int_of_text_def int_str_def s sm g h)
qed

section \<open>str() and f-strings\<close>

definition repr_char :: "char \<Rightarrow> char \<Rightarrow> string" where
  "repr_char quote c =
     (if c = quote \<or> c = CHR 0x5C then [CHR 0x5C, c]
      else if c = CHR 0x0A then [CHR 0x5C, CHR ''n'']
      else if c = CHR 0x0D then [CHR 0x5C, CHR ''r'']
      else if c = CHR 0x09 then [CHR 0x5C, CHR ''t'']
      else if 32 \<le> code c \<and> code c \<le> 126 \<or> 161 \<le> code c \<and> code c \<noteq> 173 then [c]
      else [CHR 0x5C, CHR ''x'', hex_digit (code c div 16), hex_digit (code c mod 16)])"

definition repr_str :: "string \<Rightarrow> string" where
  "repr_str s =
     (let quote = (if CHR 0x27 \<in> set s \<and> CHR 0x22 \<notin> set s then CHR 0x22 else CHR 0x27)
      in quote # concat (map (repr_char quote) s) @ [quote])"

fun comma_list :: "string list \<Rightarrow> string" where
  "comma_list [] = []"
| "comma_list [s] = s"
| "comma_list (s # t # ss) = s @ '', '' @ comma_list (t # ss)"

primrec py_repr :: "pyval \<Rightarrow> string" where
  "py_repr PNone = ''None''"
| "py_repr (PBool b) = (if b then ''True'' else ''False'')"
| "py_repr (PInt i) = int_str i"
| "py_repr (PStr s) = repr_str s"
| "py_repr (PList vs) = ''['' @ comma_list (map py_repr vs) @ '']''"
| "py_repr (PDict d) =
     ''{'' @ comma_list (map (\<lambda>(k, s). repr_str k @ '': '' @ s) (map (map_prod id py_repr) d)) @ ''}''"

definition py_str :: "pyval \<Rightarrow> string" where
  "py_str v = (case v of PStr s \<Rightarrow> s | _ \<Rightarrow> py_repr v)"

text \<open>The text of a message: the values in the places of \<open>{}\<close>.\<close>

fun fill_in :: "string \<Rightarrow> pyval list \<Rightarrow> string" where
  "fill_in [] as = []"
| "fill_in (c # cs) as =
     (case (cs, as) of
        (d # ds, a # bs) \<Rightarrow> if c = CHR ''{'' \<and> d = CHR ''}'' then py_str a @ fill_in ds bs else c # fill_in cs as
      | _ \<Rightarrow> c # fill_in cs as)"

definition msg_text :: "msg \<Rightarrow> string" where
  "msg_text m = (case m of Msg t as \<Rightarrow> fill_in t as)"

section \<open>Tokens\<close>

text \<open>\<open>hmac.compare_digest\<close> of two str raises TypeError unless both are ASCII.\<close>

definition compare_digest :: "string \<Rightarrow> string \<Rightarrow> exn + bool" where
  "compare_digest a b =
     unless_raise (\<not> list_all (\<lambda>c. code c < 128) (a @ b)) TypeError (Inr (a = b))"

definition bearer_token :: "string \<Rightarrow> string" where
  "bearer_token auth = (if starts_with auth ''Bearer '' then strip (drop 7 auth) else [])"

lemma compare_digest_True: "compare_digest a b = Inr True \<Longrightarrow> a = b"
  by (simp add: compare_digest_def unless_raise_Inr)

end
