(* ===== verification/SdkSigner.thy ===== *)
theory SdkSigner
  imports TxWire
begin

text \<open>
  The client SDK, \<open>sdk/qbit_sdk/signer.py\<close>: the transaction as the client builds, signs and
  serializes it without the node's code. The theorems relate it to the node's model: the node reads
  the client's JSON as the same transaction, with the same identifier, and its signature verifies.
  \<open>oqs\<close> is the library behind \<open>mldsa_sign\<close> and \<open>mldsa_verify\<close>, as it is at the node. The Python
  constants of the module that repeat the node's are spelled out as there.
\<close>

section \<open>Unsigned and signed transactions\<close>

record unsigned_tx =
  u_type :: string
  u_sender :: string
  u_recipient :: string
  u_timestamp :: int
  u_nonce :: int
  u_chain_id :: string
  u_max_fee :: int
  u_max_prio :: int
  u_payload :: "(string \<times> pyval) list"

record signed_tx = unsigned_tx +
  u_signature :: bytes
  u_pubkey :: bytes

definition sdk_signable_obj :: "'a unsigned_tx_scheme \<Rightarrow> pyval" where
  "sdk_signable_obj u =
     PDict [(''chainId'', PStr (u_chain_id u)),
            (''from'', PStr (u_sender u)),
            (''maxFeePerWeight'', PInt (u_max_fee u)),
            (''maxPriorityFee'', PInt (u_max_prio u)),
            (''nonce'', PInt (u_nonce u)),
            (''payload'', PDict (u_payload u)),
            (''timestamp'', PInt (u_timestamp u)),
            (''to'', PStr (u_recipient u)),
            (''type'', PStr (u_type u))]"

definition sdk_signable_bytes :: "'a unsigned_tx_scheme \<Rightarrow> bytes" where
  "sdk_signable_bytes u = encode (json_dumps (sdk_signable_obj u))"

definition sdk_tx_id :: "env \<Rightarrow> 'a unsigned_tx_scheme \<Rightarrow> string" where
  "sdk_tx_id E u = hex (sha3 E (sdk_signable_bytes u))"

definition sdk_to_dict :: "signed_tx \<Rightarrow> (string \<times> pyval) list" where
  "sdk_to_dict u =
     [(''type'', PStr (u_type u)),
      (''from'', PStr (u_sender u)),
      (''to'', PStr (u_recipient u)),
      (''timestamp'', PInt (u_timestamp u)),
      (''nonce'', PInt (u_nonce u)),
      (''chainId'', PStr (u_chain_id u)),
      (''maxFeePerWeight'', PInt (u_max_fee u)),
      (''maxPriorityFee'', PInt (u_max_prio u)),
      (''payload'', PDict (u_payload u)),
      (''signature'', PStr (hex (u_signature u))),
      (''sender_pubkey'', PStr (hex (u_pubkey u)))]"

definition sdk_address :: "env \<Rightarrow> bytes \<Rightarrow> string" where
  "sdk_address E pk = ''qv1'' @ hex (sha3 E pk)"

definition sdk_verify :: "env \<Rightarrow> signed_tx \<Rightarrow> bool" where
  "sdk_verify E u =
     (if sdk_address E (u_pubkey u) \<noteq> u_sender u then False
      else mldsa_verify E (u_pubkey u) (sdk_signable_bytes u) (u_signature u))"

section \<open>Key pairs\<close>

record keypair =
  kp_sk :: bytes
  kp_pk :: bytes
  kp_address :: string

definition mk_keypair :: "env \<Rightarrow> bytes \<Rightarrow> bytes \<Rightarrow> exn + keypair" where
  "mk_keypair E sk pk =
     (if length pk \<noteq> 1952 then Inl (ve ''public key must be 1952 bytes, got {}'' [PInt (int (length pk))])
      else if length sk \<noteq> 4032 then Inl (ve ''secret key must be 4032 bytes, got {}'' [PInt (int (length sk))])
      else Inr \<lparr>kp_sk = sk, kp_pk = pk, kp_address = sdk_address E pk\<rparr>)"

definition from_secret_key :: "env \<Rightarrow> bytes \<Rightarrow> bytes \<Rightarrow> exn + keypair" where
  "from_secret_key E sk pk =
     (if length sk \<noteq> 4032 then Inl (ve ''secret key must be 4032 bytes'' [])
      else if length pk \<noteq> 1952 then Inl (ve ''public key must be 1952 bytes'' [])
      else mk_keypair E sk pk)"

definition sign_tx :: "env \<Rightarrow> keypair \<Rightarrow> unsigned_tx \<Rightarrow> exn + signed_tx" where
  "sign_tx E kp u =
     (if u_sender u \<noteq> kp_address kp
      then Inl (ve ''transaction sender {} does not match keypair address {}''
                  [PStr (u_sender u), PStr (kp_address kp)])
      else Inr (unsigned_tx.extend u
                  \<lparr>u_signature = mldsa_sign E (kp_sk kp) (sdk_signable_bytes u), u_pubkey = kp_pk kp\<rparr>))"

text \<open>\<open>close\<close>: the secret key is overwritten with zeros.\<close>

definition close_keypair :: "keypair \<Rightarrow> keypair" where
  "close_keypair kp = kp\<lparr>kp_sk := replicate (length (kp_sk kp)) 0\<rparr>"

section \<open>The transaction builder\<close>

record builder =
  bd_chain_id :: string
  bd_type :: "string option"
  bd_sender :: string
  bd_recipient :: string
  bd_nonce :: "int option"
  bd_timestamp :: "int option"
  bd_max_fee :: int
  bd_max_prio :: int
  bd_payload :: "(string \<times> pyval) list"

definition mk_builder :: "string \<Rightarrow> builder" where
  "mk_builder chain_id =
     \<lparr>bd_chain_id = chain_id, bd_type = None, bd_sender = [], bd_recipient = [], bd_nonce = None,
      bd_timestamp = None, bd_max_fee = 0, bd_max_prio = 0, bd_payload = []\<rparr>"

definition new_builder :: builder where
  "new_builder = mk_builder ''qbit-mainnet''"

definition optional_field :: "string \<Rightarrow> string \<Rightarrow> (string \<times> pyval) list" where
  "optional_field k v = (if v \<noteq> [] then [(k, PStr v)] else [])"

definition bd_transfer :: "string \<Rightarrow> int \<Rightarrow> string \<Rightarrow> builder \<Rightarrow> builder" where
  "bd_transfer recipient amount memo bd =
     bd\<lparr>bd_type := Some ''TRANSFER'', bd_recipient := recipient,
        bd_payload := (''amount'', PInt amount) # optional_field ''memo'' memo\<rparr>"

definition bd_notarize :: "string \<Rightarrow> string \<Rightarrow> builder \<Rightarrow> builder" where
  "bd_notarize document_hash metadata bd =
     bd\<lparr>bd_type := Some ''NOTARIZE'',
        bd_payload := (''documentHash'', PStr document_hash) # optional_field ''metadata'' metadata\<rparr>"

definition bd_store :: "string \<Rightarrow> string \<Rightarrow> string \<Rightarrow> builder \<Rightarrow> builder" where
  "bd_store document_hash cid metadata bd =
     bd\<lparr>bd_type := Some ''STORE'',
        bd_payload := [(''documentHash'', PStr document_hash), (''cid'', PStr cid)]
          @ optional_field ''metadata'' metadata\<rparr>"

definition bd_share :: "string \<Rightarrow> string \<Rightarrow> string \<Rightarrow> int \<Rightarrow> builder \<Rightarrow> builder" where
  "bd_share recipient cid encapsulated_key expires bd =
     bd\<lparr>bd_type := Some ''SHARE'', bd_recipient := recipient,
        bd_payload := [(''cid'', PStr cid), (''encapsulatedKey'', PStr encapsulated_key)]
          @ (if expires \<noteq> 0 then [(''expires'', PInt expires)] else [])\<rparr>"

text \<open>\<open>stake\<close>, \<open>delegate\<close> and \<open>unstake\<close> differ in the type only.\<close>

definition stake_payload :: "string \<Rightarrow> int \<Rightarrow> (string \<times> pyval) list" where
  "stake_payload validator amount = [(''amount'', PInt amount), (''validator_address'', PStr validator)]"

definition bd_stake :: "string \<Rightarrow> int \<Rightarrow> builder \<Rightarrow> builder" where
  "bd_stake validator amount bd =
     bd\<lparr>bd_type := Some ''STAKE'', bd_payload := stake_payload validator amount\<rparr>"

definition bd_delegate :: "string \<Rightarrow> int \<Rightarrow> builder \<Rightarrow> builder" where
  "bd_delegate validator amount bd =
     bd\<lparr>bd_type := Some ''DELEGATE'', bd_payload := stake_payload validator amount\<rparr>"

definition bd_unstake :: "string \<Rightarrow> int \<Rightarrow> builder \<Rightarrow> builder" where
  "bd_unstake validator amount bd =
     bd\<lparr>bd_type := Some ''UNSTAKE'', bd_payload := stake_payload validator amount\<rparr>"

definition bd_register_key :: "string \<Rightarrow> builder \<Rightarrow> builder" where
  "bd_register_key encryption_pk bd =
     bd\<lparr>bd_type := Some ''REGISTER_KEY'', bd_payload := [(''encryption_pk'', PStr encryption_pk)]\<rparr>"

definition bd_register_validator :: "string \<Rightarrow> string \<Rightarrow> int \<Rightarrow> builder \<Rightarrow> builder" where
  "bd_register_validator validator_pubkey validator_address commission bd =
     bd\<lparr>bd_type := Some ''REGISTER_VALIDATOR'',
        bd_payload := [(''validator_pubkey'', PStr validator_pubkey),
          (''validator_address'', PStr validator_address), (''commission'', PInt commission)]\<rparr>"

definition bd_revoke_key :: "string \<Rightarrow> string \<Rightarrow> builder \<Rightarrow> builder" where
  "bd_revoke_key key_type reason bd =
     bd\<lparr>bd_type := Some ''REVOKE_KEY'',
        bd_payload := [(''key_type'', PStr key_type), (''reason'', PStr reason)]\<rparr>"

definition bd_issue_token :: "string \<Rightarrow> string \<Rightarrow> int \<Rightarrow> int \<Rightarrow> bool \<Rightarrow> builder \<Rightarrow> builder" where
  "bd_issue_token name symbol decimals max_supply transferable bd =
     bd\<lparr>bd_type := Some ''ISSUE_TOKEN'',
        bd_payload := [(''name'', PStr name), (''symbol'', PStr symbol), (''decimals'', PInt decimals),
          (''max_supply'', PInt max_supply), (''transferable'', PBool transferable)]\<rparr>"

definition bd_mint_token :: "string \<Rightarrow> string \<Rightarrow> int \<Rightarrow> builder \<Rightarrow> builder" where
  "bd_mint_token recipient token_id amount bd =
     bd\<lparr>bd_type := Some ''MINT_TOKEN'', bd_recipient := recipient,
        bd_payload := [(''token_id'', PStr token_id), (''amount'', PInt amount)]\<rparr>"

definition bd_transfer_token :: "string \<Rightarrow> string \<Rightarrow> int \<Rightarrow> string \<Rightarrow> builder \<Rightarrow> builder" where
  "bd_transfer_token recipient token_id amount memo bd =
     bd\<lparr>bd_type := Some ''TRANSFER_TOKEN'', bd_recipient := recipient,
        bd_payload := [(''token_id'', PStr token_id), (''amount'', PInt amount)] @ optional_field ''memo'' memo\<rparr>"

definition set_sender :: "string \<Rightarrow> builder \<Rightarrow> builder" where
  "set_sender address bd = bd\<lparr>bd_sender := address\<rparr>"

definition set_nonce :: "int \<Rightarrow> builder \<Rightarrow> builder" where
  "set_nonce nonce bd = bd\<lparr>bd_nonce := Some nonce\<rparr>"

definition set_fee :: "int \<Rightarrow> int \<Rightarrow> builder \<Rightarrow> builder" where
  "set_fee max_fee_per_weight max_priority_fee bd =
     bd\<lparr>bd_max_fee := max_fee_per_weight, bd_max_prio := max_priority_fee\<rparr>"

definition set_timestamp :: "int \<Rightarrow> builder \<Rightarrow> builder" where
  "set_timestamp ts bd = bd\<lparr>bd_timestamp := Some ts\<rparr>"

definition recipient_required :: "string list" where
  "recipient_required = [''TRANSFER'', ''SHARE'', ''MINT_TOKEN'', ''TRANSFER_TOKEN'']"

definition address_shape :: "string \<Rightarrow> bool" where
  "address_shape a \<longleftrightarrow> take 3 a = ''qv1'' \<and> length a = 67"

definition build_checks :: "builder \<Rightarrow> outcome list" where
  "build_checks bd =
     (let ty = the_default [] (bd_type bd); nonce = the_default 0 (bd_nonce bd)
      in [raise_if (ty = []) (ve ''transaction type not set'' []),
          raise_if (bd_sender bd = []) (ve ''sender address not set'' []),
          raise_if (\<not> address_shape (bd_sender bd))
            (ve ''invalid sender address format: {}'' [PStr (bd_sender bd)]),
          raise_if (bd_nonce bd = None) (ve ''nonce not set'' []),
          raise_if (nonce < 0) (ve ''nonce must be non-negative'' []),
          raise_if (ty \<in> set recipient_required \<and> bd_recipient bd = [])
            (ve ''{} requires a recipient'' [PStr ty]),
          raise_if (bd_recipient bd \<noteq> [] \<and> \<not> address_shape (bd_recipient bd))
            (ve ''invalid recipient address format: {}'' [PStr (bd_recipient bd)]),
          raise_if (bd_max_fee bd < 0 \<or> bd_max_prio bd < 0) (ve ''fee parameters must be non-negative'' [])])"

definition build :: "int \<Rightarrow> builder \<Rightarrow> exn + unsigned_tx" where
  "build now bd =
     (case checks (build_checks bd) of
        Raise e \<Rightarrow> Inl e
      | _ \<Rightarrow> Inr \<lparr>u_type = the_default [] (bd_type bd), u_sender = bd_sender bd,
                  u_recipient = bd_recipient bd, u_timestamp = the_default now (bd_timestamp bd),
                  u_nonce = the_default 0 (bd_nonce bd), u_chain_id = bd_chain_id bd,
                  u_max_fee = bd_max_fee bd, u_max_prio = bd_max_prio bd, u_payload = bd_payload bd\<rparr>)"

section \<open>The node reads what the client wrote\<close>

definition node_tx :: "txtype \<Rightarrow> signed_tx \<Rightarrow> transaction" where
  "node_tx ty u =
     \<lparr>tx_type = ty, tx_sender = u_sender u, tx_recipient = u_recipient u, tx_timestamp = u_timestamp u,
      tx_payload = u_payload u, tx_signature = u_signature u, tx_pubkey = u_pubkey u,
      tx_nonce = u_nonce u, tx_chain_id = u_chain_id u, tx_max_fee = u_max_fee u, tx_max_prio = u_max_prio u\<rparr>"

lemma type_of_type_value_eq: "type_of_value s = Some ty \<Longrightarrow> type_value ty = s"
  unfolding type_of_value_def by (metis (mono_tags) find_Some_iff)

lemma node_same_bytes:
  assumes "type_value ty = u_type u"
  shows "signable_bytes (node_tx ty u) = sdk_signable_bytes u" "tx_id E (node_tx ty u) = sdk_tx_id E u"
  using assms
  by (simp_all add: signable_bytes_def sdk_signable_bytes_def signable_obj_def sdk_signable_obj_def
      node_tx_def tx_id_def tx_hash_def sdk_tx_id_def)

lemma node_verifies:
  assumes "type_value ty = u_type u" "u_signature u \<noteq> []" "u_pubkey u \<noteq> []"
  shows "tx_verify E (node_tx ty u) \<longleftrightarrow> sdk_verify E u"
  using assms node_same_bytes(1)[OF assms(1)]
  by (simp add: tx_verify_def sdk_verify_def derive_address_def sdk_address_def ADDRESS_PREFIX_def
      verify_sig_def node_tx_def)

lemma sdk_dict_reads:
  assumes "type_value ty = u_type u"
  shows "tx_of_data (sdk_to_dict u) = node_tx ty u" "in_model (sdk_to_dict u)"
    "list_all is_ok (from_dict_checks (sdk_to_dict u)) \<longleftrightarrow> wire_ok (node_tx ty u)"
proof -
  have t: "type_of_value (u_type u) = Some ty" using type_of_type_value[of ty] assms by simp
  show "tx_of_data (sdk_to_dict u) = node_tx ty u"
    by (simp add: tx_of_data_def sdk_to_dict_def dget_or_def node_tx_def t)
  show "in_model (sdk_to_dict u)"
    by (simp add: in_model_def sdk_to_dict_def dget_or_def)
  show "list_all is_ok (from_dict_checks (sdk_to_dict u)) \<longleftrightarrow> wire_ok (node_tx ty u)"
    unfolding from_dict_checks_def Let_def wire_ok_def bytes_field_def fee_field_def
    by (auto simp: sdk_to_dict_def dget_or_def dmem_def node_tx_def assms t)
qed

lemma node_reads:
  assumes "type_value ty = u_type u" "wire_ok (node_tx ty u)"
  shows "tx_from_dict (sdk_to_dict u) = Some (Inr (node_tx ty u))"
  using checks_ok_eq[of "from_dict_checks (sdk_to_dict u)"] assms sdk_dict_reads[OF assms(1)]
  by (simp add: checks_ok tx_from_dict_def)

section \<open>What build and sign establish\<close>

lemma build_Inr:
  assumes "build now bd = Inr u"
  shows "list_all is_ok (build_checks bd)"
    "u = \<lparr>u_type = the_default [] (bd_type bd), u_sender = bd_sender bd, u_recipient = bd_recipient bd,
          u_timestamp = the_default now (bd_timestamp bd), u_nonce = the_default 0 (bd_nonce bd),
          u_chain_id = bd_chain_id bd, u_max_fee = bd_max_fee bd, u_max_prio = bd_max_prio bd,
          u_payload = bd_payload bd\<rparr>"
proof -
  have "no_fail (checks (build_checks bd))" by (rule checks_no_fail) (simp add: build_checks_def Let_def)
  then have "is_ok (checks (build_checks bd))"
    using assms by (cases "checks (build_checks bd)") (auto simp: build_def no_fail_def)
  then show "list_all is_ok (build_checks bd)" by (simp add: checks_ok)
  then show "u = \<lparr>u_type = the_default [] (bd_type bd), u_sender = bd_sender bd, u_recipient = bd_recipient bd,
          u_timestamp = the_default now (bd_timestamp bd), u_nonce = the_default 0 (bd_nonce bd),
          u_chain_id = bd_chain_id bd, u_max_fee = bd_max_fee bd, u_max_prio = bd_max_prio bd,
          u_payload = bd_payload bd\<rparr>"
    using assms checks_ok_eq[of "build_checks bd"] by (simp add: build_def checks_ok)
qed

lemma built_fields:
  assumes "build now bd = Inr u"
  shows "0 \<le> u_nonce u" "0 \<le> u_max_fee u" "0 \<le> u_max_prio u" "address_shape (u_sender u)"
  using build_Inr[OF assms] by (auto simp: build_checks_def Let_def)

lemma sign_tx_Inr:
  assumes "sign_tx E kp u = Inr t"
  shows "u_sender u = kp_address kp" "u_pubkey t = kp_pk kp" "unsigned_tx.truncate t = u"
    "u_signature t = mldsa_sign E (kp_sk kp) (sdk_signable_bytes u)"
    "sdk_signable_bytes t = sdk_signable_bytes u" "sdk_tx_id E t = sdk_tx_id E u"
  using assms
  by (auto simp: sign_tx_def unsigned_tx.defs sdk_signable_bytes_def sdk_signable_obj_def sdk_tx_id_def
      split: if_splits)

lemma mk_keypair_Inr:
  assumes "mk_keypair E sk pk = Inr kp"
  shows "kp_sk kp = sk" "kp_pk kp = pk" "kp_address kp = derive_address E pk" "length pk = 1952" "length sk = 4032"
  using assms
  by (auto simp: mk_keypair_def derive_address_def sdk_address_def ADDRESS_PREFIX_def split: if_splits)

text \<open>
  From the builder to the node: for a key pair the signature scheme is correct for, a transaction
  built and signed by the client is read by the node and verifies there under the same identifier.
\<close>

lemma truncate_fields:
  "unsigned_tx.truncate t = u \<Longrightarrow> u_type t = u_type u \<and> u_sender t = u_sender u \<and> u_recipient t = u_recipient u
     \<and> u_payload t = u_payload u \<and> u_max_fee t = u_max_fee u \<and> u_max_prio t = u_max_prio u"
  by (auto simp: unsigned_tx.defs)

lemma signed_accepted:
  assumes "mk_keypair E sk pk = Inr kp" "build now bd = Inr u" "sign_tx E kp u = Inr t"
    and "type_of_value (u_type u) = Some ty" "u_max_fee u \<le> MAX_FEE_PARAM" "u_max_prio u \<le> MAX_FEE_PARAM"
    and "list_all is_ok (payload_guards (PStr (u_type u)) (u_payload u))"
    and "\<And>m. mldsa_sign E sk m \<noteq> [] \<and> mldsa_verify E pk m (mldsa_sign E sk m)"
  shows "tx_from_dict (sdk_to_dict t) = Some (Inr (node_tx ty t))"
    "tx_id E (node_tx ty t) = sdk_tx_id E u" "tx_verify E (node_tx ty t)"
proof -
  note k = mk_keypair_Inr[OF assms(1)]
  note s = sign_tx_Inr[OF assms(3)]
  note f = truncate_fields[OF s(3)]
  have ty: "type_value ty = u_type t" using type_of_type_value_eq[OF assms(4)] f by simp
  have "wire_ok (node_tx ty t)"
    using k s f assms(5,6,7) built_fields[OF assms(2)] ty by (auto simp: wire_ok_def node_tx_def)
  then show "tx_from_dict (sdk_to_dict t) = Some (Inr (node_tx ty t))" by (rule node_reads[OF ty])
  show "tx_id E (node_tx ty t) = sdk_tx_id E u" using node_same_bytes(2)[OF ty] s(6) by simp
  have "u_signature t \<noteq> []" "u_pubkey t \<noteq> []" using s(2,4) k assms(8) by auto
  moreover have "sdk_verify E t"
    using s f k assms(8) by (simp add: sdk_verify_def derive_address_def sdk_address_def ADDRESS_PREFIX_def)
  ultimately show "tx_verify E (node_tx ty t)" using node_verifies[OF ty] by simp
qed

section \<open>The builder agrees with the node's factories\<close>

text \<open>The unsigned part of a node's transaction.\<close>

definition unsigned_of :: "transaction \<Rightarrow> unsigned_tx" where
  "unsigned_of tx =
     \<lparr>u_type = type_value (tx_type tx), u_sender = tx_sender tx, u_recipient = tx_recipient tx,
      u_timestamp = tx_timestamp tx, u_nonce = tx_nonce tx, u_chain_id = tx_chain_id tx,
      u_max_fee = tx_max_fee tx, u_max_prio = tx_max_prio tx, u_payload = tx_payload tx\<rparr>"

definition addressed :: "string \<Rightarrow> int \<Rightarrow> int \<Rightarrow> int \<Rightarrow> builder" where
  "addressed sender nonce mf mp = set_fee mf mp (set_nonce nonce (set_sender sender new_builder))"

lemmas builder_defs = addressed_def set_fee_def set_nonce_def set_sender_def new_builder_def mk_builder_def
  bd_transfer_def bd_stake_def bd_delegate_def bd_unstake_def bd_revoke_key_def bd_issue_token_def
  bd_mint_token_def bd_transfer_token_def bd_register_key_def bd_notarize_def bd_store_def
  stake_payload_def optional_field_def

lemma address_shape_nonempty: "address_shape a \<Longrightarrow> a \<noteq> []"
  by (auto simp: address_shape_def)

lemma build_agrees:
  assumes "address_shape sender" "0 \<le> nonce" "0 \<le> mf" "0 \<le> mp"
  shows "address_shape to \<Longrightarrow>
      build now (bd_transfer to amount memo (addressed sender nonce mf mp))
        = Inr (unsigned_of (mk_transfer sender to amount memo nonce mf mp now))"
    "build now (bd_stake v amount (addressed sender nonce mf mp))
        = Inr (unsigned_of (mk_stake sender v amount nonce mf mp now))"
    "build now (bd_delegate v amount (addressed sender nonce mf mp))
        = Inr (unsigned_of (mk_delegate sender v amount nonce mf mp now))"
    "build now (bd_unstake v amount (addressed sender nonce mf mp))
        = Inr (unsigned_of (mk_unstake sender v amount nonce mf mp now))"
    "build now (bd_revoke_key kt reason (addressed sender nonce mf mp))
        = Inr (unsigned_of (mk_revoke_key sender kt reason nonce mf mp now))"
    "build now (bd_issue_token nm symb dec cap tr (addressed sender nonce mf mp))
        = Inr (unsigned_of (mk_issue_token sender nm symb dec cap tr nonce mf mp now))"
    "address_shape to \<Longrightarrow>
      build now (bd_mint_token to tid amount (addressed sender nonce mf mp))
        = Inr (unsigned_of (mk_mint_token sender to tid amount nonce mf mp now))"
    "address_shape to \<Longrightarrow>
      build now (bd_transfer_token to tid amount memo (addressed sender nonce mf mp))
        = Inr (unsigned_of (mk_transfer_token sender to tid amount memo nonce mf mp now))"
  using assms address_shape_nonempty
  by (auto simp: build_def build_checks_def builder_defs factory_defs unsigned_of_def
      recipient_required_def CHAIN_ID_def)

end
