(* ===== verification/Wallet.thy ===== *)
theory Wallet
  imports SdkSigner
begin

text \<open>
  Key material at rest: \<open>crypto/secure_bytes.py\<close>, \<open>crypto/aes.py\<close>, \<open>crypto/mlkem.py\<close>,
  \<open>core/wallet.py\<close> and the key files of the SDK (\<open>KeyPair.save\<close> and \<open>load\<close> of \<open>signer.py\<close>). The
  record \<open>suite\<close> holds the library calls: \<open>hashlib.scrypt\<close> (\<open>None\<close> where it raises), AES-GCM (\<open>None\<close>
  where the tag does not match) and liboqs' ML-KEM (\<open>None\<close> where it raises). Salts and nonces drawn
  from \<open>os.urandom\<close> are arguments. A wallet file is the JSON object in it; writing and reading the
  file itself is not modelled.
\<close>

record suite =
  scrypt :: "bytes \<Rightarrow> bytes \<Rightarrow> int \<Rightarrow> int \<Rightarrow> int \<Rightarrow> bytes option"
  gcm_encrypt :: "bytes \<Rightarrow> bytes \<Rightarrow> bytes \<Rightarrow> bytes \<Rightarrow> bytes"
  gcm_decrypt :: "bytes \<Rightarrow> bytes \<Rightarrow> bytes \<Rightarrow> bytes \<Rightarrow> bytes option"
  kem_encap :: "bytes \<Rightarrow> (bytes \<times> bytes) option"
  kem_decap :: "bytes \<Rightarrow> bytes \<Rightarrow> bytes option"

section \<open>Secret buffers\<close>

record secure_bytes =
  sb_buf :: bytes
  sb_zeroed :: bool

definition sb_wrap :: "bytes \<Rightarrow> secure_bytes" where
  "sb_wrap data = \<lparr>sb_buf = data, sb_zeroed = False\<rparr>"

definition sb_bytes :: "secure_bytes \<Rightarrow> exn + bytes" where
  "sb_bytes b =
     unless_raise (sb_zeroed b) (ve ''SecureBytes has been zeroed'' []) (Inr (sb_buf b))"

definition sb_len :: "secure_bytes \<Rightarrow> int" where
  "sb_len b = int (length (sb_buf b))"

definition sb_hex :: "secure_bytes \<Rightarrow> exn + string" where
  "sb_hex b = and_then (sb_bytes b) (\<lambda>raw. Inr (hex raw))"

definition sb_true :: "secure_bytes \<Rightarrow> bool" where
  "sb_true b \<longleftrightarrow> sb_len b > 0 \<and> \<not> sb_zeroed b"

definition sb_zero :: "secure_bytes \<Rightarrow> secure_bytes" where
  "sb_zero b =
     (if sb_zeroed b then b
      else b\<lparr>sb_buf := replicate (length (sb_buf b)) 0, sb_zeroed := True\<rparr>)"

section \<open>AES-256-GCM and ML-KEM\<close>

definition aes_encrypt :: "suite \<Rightarrow> bytes \<Rightarrow> bytes \<Rightarrow> bytes \<Rightarrow> bytes \<Rightarrow> bytes" where
  "aes_encrypt C nonce key plaintext aad = nonce @ gcm_encrypt C key nonce plaintext aad"

text \<open>\<open>None\<close>: the data is too short (ValueError) or the tag is wrong (InvalidTag).\<close>

definition aes_decrypt :: "suite \<Rightarrow> bytes \<Rightarrow> bytes \<Rightarrow> bytes \<Rightarrow> bytes option" where
  "aes_decrypt C key data aad =
     (if length data < 28 then None else gcm_decrypt C key (take 12 data) (drop 12 data) aad)"

definition encapsulate :: "suite \<Rightarrow> bytes \<Rightarrow> exn + bytes \<times> bytes" where
  "encapsulate C public_key =
     unless_raise (length public_key \<noteq> 1184)
       (ve ''invalid ML-KEM public key length: {}, expected {}'' [PInt (int (length public_key)), PInt 1184])
       (case kem_encap C public_key of
          None \<Rightarrow> Inl (ve ''ML-KEM encapsulation failed'' [])
        | Some r \<Rightarrow> Inr r)"

definition decapsulate :: "suite \<Rightarrow> secure_bytes \<Rightarrow> bytes \<Rightarrow> exn + bytes" where
  "decapsulate C secret_key ciphertext =
     and_then (sb_bytes secret_key) (\<lambda>sk.
       unless_raise (length sk \<noteq> 2400)
         (ve ''invalid ML-KEM secret key length: {}, expected {}'' [PInt (int (length sk)), PInt 2400])
      (unless_raise (length ciphertext \<noteq> 1088)
         (ve ''invalid ML-KEM ciphertext length: {}, expected {}'' [PInt (int (length ciphertext)), PInt 1088])
         (case kem_decap C sk ciphertext of
            None \<Rightarrow> Inl (ve ''ML-KEM decapsulation failed'' [])
          | Some shared \<Rightarrow> Inr shared)))"

section \<open>The wallet\<close>

record wallet =
  w_signing_sk :: secure_bytes
  w_signing_pk :: bytes
  w_encryption_sk :: secure_bytes
  w_encryption_pk :: bytes
  w_address :: string

definition mk_wallet :: "env \<Rightarrow> bytes \<Rightarrow> bytes \<Rightarrow> bytes \<Rightarrow> bytes \<Rightarrow> wallet" where
  "mk_wallet E ssk spk esk epk =
     \<lparr>w_signing_sk = sb_wrap ssk, w_signing_pk = spk, w_encryption_sk = sb_wrap esk,
      w_encryption_pk = epk, w_address = derive_address E spk\<rparr>"

definition wallet_sign :: "env \<Rightarrow> wallet \<Rightarrow> bytes \<Rightarrow> exn + bytes" where
  "wallet_sign E w message =
     and_then (sb_bytes (w_signing_sk w)) (\<lambda>sk. Inr (mldsa_sign E sk message))"

definition wallet_to_dict :: "wallet \<Rightarrow> exn + (string \<times> pyval) list" where
  "wallet_to_dict w =
     and_then (sb_hex (w_signing_sk w)) (\<lambda>ssk. and_then (sb_hex (w_encryption_sk w)) (\<lambda>esk.
       Inr [(''address'', PStr (w_address w)), (''signing_sk'', PStr ssk),
            (''signing_pk'', PStr (hex (w_signing_pk w))), (''encryption_sk'', PStr esk),
            (''encryption_pk'', PStr (hex (w_encryption_pk w)))]))"

text \<open>\<open>data[k]\<close>, and \<open>bytes.fromhex(data[k])\<close>.\<close>

definition item :: "(string \<times> pyval) list \<Rightarrow> string \<Rightarrow> exn + pyval" where
  "item data k = (case dget data k of None \<Rightarrow> Inl (KeyError k) | Some v \<Rightarrow> Inr v)"

definition hex_value :: "pyval \<Rightarrow> exn + bytes" where
  "hex_value v =
     unless_raise (\<not> is_str v) TypeError
       (case fromhex (str_of_py v) of
          None \<Rightarrow> Inl (ve ''non-hexadecimal number found in fromhex() arg'' [])
        | Some raw \<Rightarrow> Inr raw)"

definition hex_item :: "(string \<times> pyval) list \<Rightarrow> string \<Rightarrow> exn + bytes" where
  "hex_item data k = and_then (item data k) hex_value"

definition wallet_from_dict :: "env \<Rightarrow> (string \<times> pyval) list \<Rightarrow> exn + wallet" where
  "wallet_from_dict E data =
     and_then (hex_item data ''signing_sk'') (\<lambda>ssk. and_then (hex_item data ''signing_pk'') (\<lambda>spk.
     and_then (hex_item data ''encryption_sk'') (\<lambda>esk. and_then (hex_item data ''encryption_pk'') (\<lambda>epk.
       Inr (mk_wallet E ssk spk esk epk)))))"

text \<open>\<open>n.to_bytes(4, 'big')\<close>.\<close>

definition to_bytes4 :: "int \<Rightarrow> exn + bytes" where
  "to_bytes4 v =
     unless_raise (v < 0 \<or> 2 ^ 32 \<le> v) OverflowError
       (Inr (map (\<lambda>i. word_of_int (v div 256 ^ (3 - i))) [0..<4]))"

definition length_prefixed :: "bytes \<Rightarrow> exn + bytes" where
  "length_prefixed raw = and_then (to_bytes4 (int (length raw))) (\<lambda>n. Inr (n @ raw))"

definition derive_key :: "suite \<Rightarrow> string \<Rightarrow> bytes \<Rightarrow> int \<Rightarrow> int \<Rightarrow> int \<Rightarrow> exn + bytes" where
  "derive_key C password salt n r p =
     (case scrypt C (encode password) salt n r p of
        None \<Rightarrow> Inl (ve ''scrypt failed'' [])
      | Some dk \<Rightarrow> Inr dk)"

definition wallet_encrypt :: "suite \<Rightarrow> bytes \<Rightarrow> bytes \<Rightarrow> wallet \<Rightarrow> string \<Rightarrow> exn + (string \<times> pyval) list" where
  "wallet_encrypt C salt nonce w password =
     and_then (derive_key C password salt (2 ^ 14) 8 1) (\<lambda>dk.
     and_then (sb_bytes (w_signing_sk w)) (\<lambda>ssk.
     and_then (sb_bytes (w_encryption_sk w)) (\<lambda>esk.
     and_then (length_prefixed ssk) (\<lambda>p1. and_then (length_prefixed esk) (\<lambda>p2.
       Inr [(''encrypted'', PBool True), (''version'', PInt 1), (''address'', PStr (w_address w)),
            (''signing_pk'', PStr (hex (w_signing_pk w))),
            (''encryption_pk'', PStr (hex (w_encryption_pk w))), (''salt'', PStr (hex salt)),
            (''ciphertext'', PStr (hex (aes_encrypt C nonce dk (p1 @ p2) (encode (w_address w))))),
            (''scrypt'', PDict [(''n'', PInt (2 ^ 14)), (''r'', PInt 8), (''p'', PInt 1)])])))))"

text \<open>\<open>min(max(params.get(k, low), low), high)\<close>, and a value used as a dict.\<close>

definition clamp_param :: "(string \<times> pyval) list \<Rightarrow> string \<Rightarrow> int \<Rightarrow> int \<Rightarrow> exn + int" where
  "clamp_param params k low high =
     (let v = dget_or params k (PInt low)
      in unless_raise (\<not> is_int v) TypeError (Inr (min (max (int_of_py v) low) high)))"

definition params_of :: "exn \<Rightarrow> pyval \<Rightarrow> exn + (string \<times> pyval) list" where
  "params_of e v = unless_raise (\<not> is_dict v) e (Inr (dict_of_py v))"

text \<open>Every failure of the decryption, the encoding of the address included, is one ValueError.\<close>

definition open_box :: "suite \<Rightarrow> bytes \<Rightarrow> bytes \<Rightarrow> pyval \<Rightarrow> exn + bytes" where
  "open_box C dk ciphertext address =
     (let failed = Inl (ve ''decryption failed: wrong password or tampered file'' [])
      in if \<not> is_str address then failed
         else case aes_decrypt C dk ciphertext (encode (str_of_py address)) of
                None \<Rightarrow> failed
              | Some pt \<Rightarrow> Inr pt)"

text \<open>One length-prefixed key of the expected size, and the rest.\<close>

definition take_key :: "string \<Rightarrow> nat \<Rightarrow> bytes \<Rightarrow> exn + bytes \<times> bytes" where
  "take_key name sz pt =
     (let n = from_bytes (take 4 pt)
      in unless_raise (4 > length pt) (ve ''truncated plaintext: missing {} length'' [PStr name])
        (unless_raise (n \<noteq> int sz) (ve ''unexpected {} length: {}'' [PStr name, PInt n])
        (unless_raise (4 + sz > length pt) (ve ''truncated plaintext: {} incomplete'' [PStr name])
          (Inr (take sz (drop 4 pt), drop (4 + sz) pt)))))"

definition wallet_decrypt :: "env \<Rightarrow> suite \<Rightarrow> (string \<times> pyval) list \<Rightarrow> string \<Rightarrow> exn + wallet" where
  "wallet_decrypt E C data password =
     and_then (hex_item data ''salt'') (\<lambda>salt.
     and_then (params_of AttributeError (dget_or data ''scrypt'' (PDict []))) (\<lambda>params.
     and_then (clamp_param params ''n'' (2 ^ 14) (2 ^ 20)) (\<lambda>n.
     and_then (clamp_param params ''r'' 8 16) (\<lambda>r. and_then (clamp_param params ''p'' 1 4) (\<lambda>p.
     and_then (derive_key C password salt n r p) (\<lambda>dk.
     and_then (item data ''address'') (\<lambda>address. and_then (hex_item data ''ciphertext'') (\<lambda>ciphertext.
     and_then (open_box C dk ciphertext address) (\<lambda>pt.
     and_then (take_key ''signing_sk'' 4032 pt) (\<lambda>(ssk, pt1).
     and_then (take_key ''encryption_sk'' 2400 pt1) (\<lambda>(esk, pt2).
     unless_raise (pt2 \<noteq> []) (ve ''trailing data after keys: {} bytes'' [PInt (int (length pt2))])
    (and_then (hex_item data ''signing_pk'') (\<lambda>spk. and_then (hex_item data ''encryption_pk'') (\<lambda>epk.
       let w = mk_wallet E ssk spk esk epk
       in unless_raise (PStr (w_address w) \<noteq> address)
            (ve ''address mismatch after decryption (tampered file?)'' []) (Inr w)))))))))))))))"

definition wallet_load :: "env \<Rightarrow> suite \<Rightarrow> (string \<times> pyval) list \<Rightarrow> string \<Rightarrow> exn + wallet" where
  "wallet_load E C data password =
     (if truthy (dget_or data ''encrypted'' PNone)
      then unless_raise (password = []) (ve ''wallet is encrypted, password required'' [])
             (wallet_decrypt E C data password)
      else wallet_from_dict E data)"

text \<open>The object \<open>save\<close> writes: \<open>{"encrypted": False, **self.to_dict()}\<close> without a password.\<close>

definition wallet_save :: "suite \<Rightarrow> bytes \<Rightarrow> bytes \<Rightarrow> wallet \<Rightarrow> string \<Rightarrow> exn + (string \<times> pyval) list" where
  "wallet_save C salt nonce w password =
     (if password \<noteq> [] then wallet_encrypt C salt nonce w password
      else and_then (wallet_to_dict w) (\<lambda>d. Inr ((''encrypted'', PBool False) # d)))"

definition wallet_close :: "wallet \<Rightarrow> wallet" where
  "wallet_close w =
     w\<lparr>w_signing_sk := sb_zero (w_signing_sk w), w_encryption_sk := sb_zero (w_encryption_sk w)\<rparr>"

section \<open>The key files of the SDK\<close>

definition keypair_save :: "suite \<Rightarrow> bytes \<Rightarrow> bytes \<Rightarrow> keypair \<Rightarrow> string \<Rightarrow> exn + (string \<times> pyval) list" where
  "keypair_save C salt nonce kp password =
     unless_raise (password = []) (ve ''password is required for saving keypairs'' [])
    (and_then (derive_key C password salt (2 ^ 14) 8 1) (\<lambda>dk.
     and_then (length_prefixed (kp_sk kp)) (\<lambda>pt.
       Inr [(''version'', PInt 1), (''address'', PStr (kp_address kp)), (''signing_pk'', PStr (hex (kp_pk kp))),
            (''crypto'', PDict
               [(''cipher'', PStr ''aes-256-gcm''), (''kdf'', PStr ''scrypt''),
                (''kdfparams'', PDict
                   [(''n'', PInt (2 ^ 14)), (''r'', PInt 8), (''p'', PInt 1), (''dklen'', PInt 32),
                    (''salt'', PStr (hex salt))]),
                (''ciphertext'', PStr (hex (gcm_encrypt C dk nonce pt (encode (kp_address kp))))),
                (''nonce'', PStr (hex nonce))])])))"

definition open_keyfile :: "suite \<Rightarrow> bytes \<Rightarrow> bytes \<Rightarrow> bytes \<Rightarrow> pyval \<Rightarrow> exn + bytes" where
  "open_keyfile C dk nonce ciphertext address =
     (let failed = Inl (ve ''decryption failed: wrong password or tampered file'' [])
      in if \<not> is_str address then failed
         else case gcm_decrypt C dk nonce ciphertext (encode (str_of_py address)) of
                None \<Rightarrow> failed
              | Some pt \<Rightarrow> Inr pt)"

definition take_secret :: "bytes \<Rightarrow> exn + bytes" where
  "take_secret pt =
     (let n = from_bytes (take 4 pt)
      in unless_raise (length pt < 4) (ve ''truncated ciphertext'' [])
        (unless_raise (n \<noteq> 4032) (ve ''unexpected secret key length: {}'' [PInt n])
        (unless_raise (length pt < 4 + 4032) (ve ''truncated secret key data'' [])
          (Inr (take 4032 (drop 4 pt))))))"

definition keypair_load :: "env \<Rightarrow> suite \<Rightarrow> (string \<times> pyval) list \<Rightarrow> string \<Rightarrow> exn + keypair" where
  "keypair_load E C data password =
     unless_raise (password = []) (ve ''password is required'' [])
    (case dget_or data ''crypto'' PNone of
       PNone \<Rightarrow>
         and_then (hex_item data ''signing_sk'') (\<lambda>sk. and_then (hex_item data ''signing_pk'') (mk_keypair E sk))
     | crypto \<Rightarrow>
         and_then (params_of TypeError crypto) (\<lambda>cr. and_then (item cr ''kdfparams'') (\<lambda>kv.
         and_then (params_of TypeError kv) (\<lambda>params. and_then (hex_item params ''salt'') (\<lambda>salt.
         and_then (clamp_param params ''n'' (2 ^ 14) (2 ^ 20)) (\<lambda>n.
         and_then (clamp_param params ''r'' 8 16) (\<lambda>r. and_then (clamp_param params ''p'' 1 4) (\<lambda>p.
         and_then (derive_key C password salt n r p) (\<lambda>dk.
         and_then (hex_item cr ''nonce'') (\<lambda>nonce. and_then (hex_item cr ''ciphertext'') (\<lambda>ciphertext.
         and_then (item data ''address'') (\<lambda>address.
         and_then (open_keyfile C dk nonce ciphertext address) (\<lambda>pt.
         and_then (take_secret pt) (\<lambda>sk.
         and_then (hex_item data ''signing_pk'') (\<lambda>pk. and_then (mk_keypair E sk pk) (\<lambda>kp.
           unless_raise (PStr (kp_address kp) \<noteq> address) (ve ''address mismatch after decryption'' [])
             (Inr kp)))))))))))))))))"

section \<open>Round trips\<close>

text \<open>Four bytes, big-endian, read back.\<close>

lemma uint_byte: "uint (word_of_int i :: byte) = i mod 256"
  by (simp add: uint_word_of_int)

lemma from_bytes_digits4: "from_bytes [a, b, c, d] = ((uint a * 256 + uint b) * 256 + uint c) * 256 + uint d"
  by (simp add: from_bytes_def)

lemma to_bytes4_Inr:
  assumes "0 \<le> v" "v < 2 ^ 32"
  obtains n where "to_bytes4 v = Inr n" "length n = 4" "from_bytes n = v"
proof -
  have m: "map (\<lambda>i. word_of_int (v div 256 ^ (3 - i)) :: byte) [0..<4]
      = [word_of_int (v div 16777216), word_of_int (v div 65536), word_of_int (v div 256), word_of_int v]"
    by (simp add: upt_rec)
  have "from_bytes (map (\<lambda>i. word_of_int (v div 256 ^ (3 - i)) :: byte) [0..<4]) = v"
  proof -
    let ?a = "v div 256" let ?b = "?a div 256" let ?c = "?b div 256"
    have q: "v div 65536 = ?b" "v div 16777216 = ?c" by (simp_all flip: zdiv_zmult2_eq)
    have "?c mod 256 = ?c" using assms by (intro mod_pos_pos_trivial) auto
    moreover have "?c * 256 + ?b mod 256 = ?b" "?b * 256 + ?a mod 256 = ?a" "?a * 256 + v mod 256 = v"
      by (rule div_mult_mod_eq)+
    ultimately show ?thesis unfolding m from_bytes_digits4 q by (simp only: uint_byte)
  qed
  then show thesis using assms by (intro that[of "map (\<lambda>i. word_of_int (v div 256 ^ (3 - i))) [0..<4]"])
    (simp_all add: to_bytes4_def)
qed

lemma length_prefixed_Inr:
  assumes "length raw = sz" "sz < 2 ^ 32"
  shows "\<exists>p. length_prefixed raw = Inr p \<and> (\<forall>rest. take_key name sz (p @ rest) = Inr (raw, rest))"
proof -
  obtain n where n: "to_bytes4 (int sz) = Inr n" "length n = 4" "from_bytes n = int sz"
    using to_bytes4_Inr[of "int sz"] assms(2) by auto
  have "take_key name sz ((n @ raw) @ rest) = Inr (raw, rest)" for rest
    using n assms(1) by (simp add: take_key_def)
  moreover have "length_prefixed raw = Inr (n @ raw)" using n assms(1) by (simp add: length_prefixed_def)
  ultimately show ?thesis by blast
qed

text \<open>What the library promises: a box opens with the key, nonce and data it was closed with.\<close>

definition gcm_ok :: "suite \<Rightarrow> bool" where
  "gcm_ok C \<longleftrightarrow> (\<forall>k n pt aad. gcm_decrypt C k n (gcm_encrypt C k n pt aad) aad = Some pt
     \<and> length (gcm_encrypt C k n pt aad) = length pt + 16)"

lemma open_box_encrypt:
  assumes "gcm_ok C" "length nonce = 12"
  shows "open_box C dk (aes_encrypt C nonce dk pt (encode a)) (PStr a) = Inr pt"
  using assms by (simp add: open_box_def aes_encrypt_def aes_decrypt_def gcm_ok_def)

definition wallet_ok :: "env \<Rightarrow> wallet \<Rightarrow> bool" where
  "wallet_ok E w \<longleftrightarrow> \<not> sb_zeroed (w_signing_sk w) \<and> \<not> sb_zeroed (w_encryption_sk w)
     \<and> sb_len (w_signing_sk w) = 4032 \<and> sb_len (w_encryption_sk w) = 2400
     \<and> w_address w = derive_address E (w_signing_pk w)"

lemma mk_wallet_again:
  assumes "wallet_ok E w"
  shows "mk_wallet E (sb_buf (w_signing_sk w)) (w_signing_pk w) (sb_buf (w_encryption_sk w)) (w_encryption_pk w) = w"
  using assms by (simp add: wallet_ok_def mk_wallet_def sb_wrap_def)

lemma wallet_plain_round_trip:
  assumes "wallet_ok E w" "wallet_save C salt nonce w [] = Inr d"
  shows "wallet_load E C d password = Inr w"
proof -
  let ?ssk = "sb_buf (w_signing_sk w)" and ?esk = "sb_buf (w_encryption_sk w)"
  have b: "sb_hex (w_signing_sk w) = Inr (hex ?ssk)" "sb_hex (w_encryption_sk w) = Inr (hex ?esk)"
    using assms(1) by (simp_all add: sb_hex_def sb_bytes_def wallet_ok_def)
  have d: "d = [(''encrypted'', PBool False), (''address'', PStr (w_address w)), (''signing_sk'', PStr (hex ?ssk)),
      (''signing_pk'', PStr (hex (w_signing_pk w))), (''encryption_sk'', PStr (hex ?esk)),
      (''encryption_pk'', PStr (hex (w_encryption_pk w)))]"
    using assms(2) by (simp add: wallet_save_def wallet_to_dict_def b)
  show ?thesis
    by (simp add: d wallet_load_def wallet_from_dict_def hex_item_def item_def hex_value_def dget_or_def
        mk_wallet_again[OF assms(1)])
qed

text \<open>The file \<open>_encrypt\<close> writes, with any encryption key in place of the wallet's.\<close>

lemma wallet_encrypt_Inr:
  assumes "wallet_encrypt C salt nonce w password = Inr d" "wallet_ok E w" "gcm_ok C" "length nonce = 12"
  shows "dmem ''encryption_pk'' d \<and> truthy (dget_or d ''encrypted'' PNone)
    \<and> wallet_decrypt E C (dset d ''encryption_pk'' (PStr (hex pk))) password = Inr (w\<lparr>w_encryption_pk := pk\<rparr>)"
proof -
  let ?ssk = "sb_buf (w_signing_sk w)" and ?esk = "sb_buf (w_encryption_sk w)"
  have sizes: "length ?ssk = 4032" "length ?esk = 2400"
    using assms(2) by (simp_all add: wallet_ok_def sb_len_def)
  obtain p1 where p1: "length_prefixed ?ssk = Inr p1" "\<And>r. take_key ''signing_sk'' 4032 (p1 @ r) = Inr (?ssk, r)"
    using length_prefixed_Inr[OF sizes(1)] by auto
  obtain p2 where p2: "length_prefixed ?esk = Inr p2" "\<And>r. take_key ''encryption_sk'' 2400 (p2 @ r) = Inr (?esk, r)"
    using length_prefixed_Inr[OF sizes(2)] by auto
  have b: "sb_bytes (w_signing_sk w) = Inr ?ssk" "sb_bytes (w_encryption_sk w) = Inr ?esk"
    using assms(2) by (simp_all add: sb_bytes_def wallet_ok_def)
  obtain dk where dk: "derive_key C password salt (2 ^ 14) 8 1 = Inr dk"
    using assms(1) by (auto simp: wallet_encrypt_def and_then_Inr)
  have d: "d = [(''encrypted'', PBool True), (''version'', PInt 1), (''address'', PStr (w_address w)),
            (''signing_pk'', PStr (hex (w_signing_pk w))),
            (''encryption_pk'', PStr (hex (w_encryption_pk w))), (''salt'', PStr (hex salt)),
            (''ciphertext'', PStr (hex (aes_encrypt C nonce dk (p1 @ p2) (encode (w_address w))))),
            (''scrypt'', PDict [(''n'', PInt (2 ^ 14)), (''r'', PInt 8), (''p'', PInt 1)])]"
    using assms(1) by (simp add: wallet_encrypt_def b p1(1) p2(1) dk del: power_numeral numeral_power_eq_of_nat_cancel_iff)
  have w: "mk_wallet E ?ssk (w_signing_pk w) ?esk pk = w\<lparr>w_encryption_pk := pk\<rparr>"
    "w_address w = derive_address E (w_signing_pk w)"
    using assms(2) by (simp_all add: wallet_ok_def mk_wallet_def sb_wrap_def)
  note box = open_box_encrypt[OF assms(3,4), of dk "p1 @ p2" "w_address w"]
  have t2: "take_key ''encryption_sk'' 2400 p2 = Inr (?esk, [])" using p2(2)[of "[]"] by simp
  show ?thesis
    using w(2) dk
    by (simp add: d wallet_decrypt_def hex_item_def item_def hex_value_def dget_or_def dmem_def params_of_def
        clamp_param_def box[unfolded w(2)] p1(2) t2 w(1) Let_def)
qed

text \<open>Saving and loading with the same password gives the wallet back.\<close>

lemma wallet_round_trip:
  assumes "wallet_save C salt nonce w password = Inr d" "wallet_ok E w" "gcm_ok C" "length nonce = 12"
  shows "wallet_load E C d password = Inr w"
proof (cases "password = []")
  case True
  then show ?thesis using wallet_plain_round_trip[of E w C salt nonce d password] assms by simp
next
  case False
  then have e: "wallet_encrypt C salt nonce w password = Inr d" using assms(1) by (simp add: wallet_save_def)
  have "dset d ''encryption_pk'' (PStr (hex (w_encryption_pk w))) = d"
    using e by (auto simp: wallet_encrypt_def and_then_Inr)
  then show ?thesis
    using wallet_encrypt_Inr[OF e assms(2-4), of "w_encryption_pk w"] False by (simp add: wallet_load_def)
qed

text \<open>A wallet that was closed can neither sign nor be written.\<close>

lemma closed_wallet:
  "wallet_sign E (wallet_close w) m = Inl (ve ''SecureBytes has been zeroed'' [])"
  "wallet_to_dict (wallet_close w) = Inl (ve ''SecureBytes has been zeroed'' [])"
  "\<not> is_ok (case wallet_encrypt C salt nonce (wallet_close w) password of Inl e \<Rightarrow> Raise e | Inr d \<Rightarrow> Ok [])"
  "\<not> sb_zeroed (w_signing_sk w) \<Longrightarrow> list_all ((=) 0) (sb_buf (w_signing_sk (wallet_close w)))"
  by (auto simp: wallet_sign_def wallet_to_dict_def wallet_encrypt_def wallet_close_def sb_zero_def sb_bytes_def
      sb_hex_def and_then_def unless_raise_def list_all_iff split: sum.splits)

text \<open>What a decrypted wallet is: of the right sizes, with the address of its signing key, the file's.\<close>

lemma take_key_Inr:
  "take_key name sz pt = Inr (key, rest) \<Longrightarrow> length key = sz \<and> pt = take 4 pt @ key @ rest"
  by (auto simp: take_key_def Let_def unless_raise_Inr min_def simp flip: drop_drop)
    (metis append_take_drop_id drop_drop add.commute)

lemma wallet_decrypt_sound:
  assumes "wallet_decrypt E C data password = Inr w"
  shows "wallet_ok E w" "dget data ''address'' = Some (PStr (w_address w))"
  using assms
  by (auto simp: wallet_decrypt_def and_then_Inr unless_raise_Inr Let_def wallet_ok_def mk_wallet_def sb_wrap_def
      sb_len_def item_def dest!: take_key_Inr split: option.splits prod.splits)

section \<open>The SDK's files\<close>

definition keypair_ok :: "env \<Rightarrow> keypair \<Rightarrow> bool" where
  "keypair_ok E kp \<longleftrightarrow> mk_keypair E (kp_sk kp) (kp_pk kp) = Inr kp"

lemma keypair_save_Inr:
  assumes "keypair_save C salt nonce kp password = Inr d"
  shows "\<exists>dk p. password \<noteq> [] \<and> derive_key C password salt (2 ^ 14) 8 1 = Inr dk \<and> length_prefixed (kp_sk kp) = Inr p
     \<and> d = [(''version'', PInt 1), (''address'', PStr (kp_address kp)), (''signing_pk'', PStr (hex (kp_pk kp))),
            (''crypto'', PDict
               [(''cipher'', PStr ''aes-256-gcm''), (''kdf'', PStr ''scrypt''),
                (''kdfparams'', PDict
                   [(''n'', PInt (2 ^ 14)), (''r'', PInt 8), (''p'', PInt 1), (''dklen'', PInt 32),
                    (''salt'', PStr (hex salt))]),
                (''ciphertext'', PStr (hex (gcm_encrypt C dk nonce p (encode (kp_address kp))))),
                (''nonce'', PStr (hex nonce))])]"
  using assms by (auto simp: keypair_save_def and_then_Inr unless_raise_Inr)

lemma keypair_round_trip:
  assumes "keypair_save C salt nonce kp password = Inr d" "keypair_ok E kp" "gcm_ok C"
  shows "keypair_load E C d password = Inr kp"
proof -
  obtain dk p where k: "password \<noteq> []" "derive_key C password salt (2 ^ 14) 8 1 = Inr dk"
    "length_prefixed (kp_sk kp) = Inr p" and
    d: "d = [(''version'', PInt 1), (''address'', PStr (kp_address kp)), (''signing_pk'', PStr (hex (kp_pk kp))),
            (''crypto'', PDict
               [(''cipher'', PStr ''aes-256-gcm''), (''kdf'', PStr ''scrypt''),
                (''kdfparams'', PDict
                   [(''n'', PInt (2 ^ 14)), (''r'', PInt 8), (''p'', PInt 1), (''dklen'', PInt 32),
                    (''salt'', PStr (hex salt))]),
                (''ciphertext'', PStr (hex (gcm_encrypt C dk nonce p (encode (kp_address kp))))),
                (''nonce'', PStr (hex nonce))])]"
    using keypair_save_Inr[OF assms(1)] by blast
  have mk: "mk_keypair E (kp_sk kp) (kp_pk kp) = Inr kp" using assms(2) by (simp add: keypair_ok_def)
  have "length (kp_sk kp) = 4032" using mk_keypair_Inr[OF mk] by simp
  then have "take_key ''key'' 4032 p = Inr (kp_sk kp, [])"
    using length_prefixed_Inr[of "kp_sk kp" 4032 "''key''"] k(3) by (auto dest: spec[of _ "[]"])
  then have t: "take_secret p = Inr (kp_sk kp)"
    by (auto simp: take_key_def take_secret_def Let_def unless_raise_Inr)
  have box: "open_keyfile C dk nonce (gcm_encrypt C dk nonce p (encode a)) (PStr a) = Inr p" for a
    using assms(3) by (simp add: open_keyfile_def gcm_ok_def)
  show ?thesis
    using k(1,2)
    by (simp add: d keypair_load_def dget_or_def hex_item_def item_def hex_value_def params_of_def clamp_param_def
        box t mk)
qed

text \<open>
  The two formats are not compatible: the node refuses the SDK's encrypted file, and the SDK the
  node's, both for lack of \<open>signing_sk\<close>.
\<close>

lemma formats_differ:
  "keypair_save C salt nonce kp password = Inr d \<Longrightarrow> wallet_load E C d password' = Inl (KeyError ''signing_sk'')"
  "wallet_encrypt C salt nonce w password = Inr d \<Longrightarrow> password' \<noteq> [] \<Longrightarrow>
     keypair_load E C d password' = Inl (KeyError ''signing_sk'')"
  by (auto simp: wallet_load_def wallet_from_dict_def keypair_load_def wallet_encrypt_def hex_item_def item_def
      dget_or_def and_then_Inr unless_raise_def dest!: keypair_save_Inr)

end
