(* ===== verification/Codec.thy ===== *)
theory Codec
  imports Wallet
begin

text \<open>
  \<open>network/codec.py\<close>: the frames of the P2P protocol. In msgpack mode the hexadecimal strings of
  certain fields travel as raw bytes, so values on that wire are \<open>wval\<close>s: JSON values with bytes.
  The record \<open>wire_lib\<close> holds the msgpack package (\<open>has_msgpack\<close>, \<open>packb\<close>, \<open>unpackb\<close>, which is
  \<open>None\<close> where it raises), and the two decoders whose results leave the strings of the prelude,
  \<open>json.loads\<close> and \<open>bytes.decode('utf-8')\<close>, \<open>None\<close> where they raise. Message types and the keys of
  dicts are str.
\<close>

datatype wval =
    WNone
  | WBool bool
  | WInt int
  | WStr string
  | WBytes bytes
  | WList "wval list"
  | WDict "(string \<times> wval) list"

record wire_lib =
  has_msgpack :: bool
  packb :: "wval \<Rightarrow> bytes"
  unpackb :: "bytes \<Rightarrow> wval option"
  loads :: "bytes \<Rightarrow> pyval option"
  utf8_decode :: "bytes \<Rightarrow> string option"

definition BINARY_FIELDS :: "string list" where
  "BINARY_FIELDS =
     [''signature'', ''sender_pubkey'', ''signing_pk'', ''encryption_pk'', ''challenge'',
      ''challenge_sig'', ''counter_challenge'', ''ciphertext'', ''validator_pubkey'']"

definition MAX_FRAME_SIZE :: int where "MAX_FRAME_SIZE = 10 * 1024 * 1024"

text \<open>A JSON value on the wire as it is.\<close>

primrec plain :: "pyval \<Rightarrow> wval" where
  "plain PNone = WNone"
| "plain (PBool b) = WBool b"
| "plain (PInt i) = WInt i"
| "plain (PStr s) = WStr s"
| "plain (PList vs) = WList (map plain vs)"
| "plain (PDict d) = WDict (map (map_prod id plain) d)"

section \<open>Hexadecimal fields as bytes\<close>

text \<open>The value of a binary field, if it is a string: its bytes, or itself when it is not hexadecimal.\<close>

definition field_to_bytes :: "string \<Rightarrow> wval" where
  "field_to_bytes s = (case fromhex s of Some raw \<Rightarrow> WBytes raw | None \<Rightarrow> WStr s)"

fun hex_to_bytes :: "nat \<Rightarrow> pyval \<Rightarrow> wval" where
  "hex_to_bytes depth (PDict d) =
     (if depth > 10 then plain (PDict d)
      else WDict (map (\<lambda>(k, v). (k, if k \<in> set BINARY_FIELDS \<and> is_str v then field_to_bytes (str_of_py v)
                                     else hex_to_bytes (depth + 1) v)) d))"
| "hex_to_bytes depth (PList vs) =
     (if depth > 10 then plain (PList vs) else WList (map (hex_to_bytes (depth + 1)) vs))"
| "hex_to_bytes depth v = plain v"

text \<open>\<open>isinstance(v, bytes)\<close>, and the bytes.\<close>

fun is_bytes :: "wval \<Rightarrow> bool" where
  "is_bytes (WBytes raw) = True"
| "is_bytes _ = False"

fun bytes_of :: "wval \<Rightarrow> bytes" where
  "bytes_of (WBytes raw) = raw"
| "bytes_of _ = []"

fun bytes_to_hex :: "wire_lib \<Rightarrow> nat \<Rightarrow> wval \<Rightarrow> wval" where
  "bytes_to_hex L depth (WDict d) =
     (if depth > 10 then WDict d
      else WDict (map (\<lambda>(k, v). (k, if k \<in> set BINARY_FIELDS \<and> is_bytes v then WStr (hex (bytes_of v))
                                     else bytes_to_hex L (depth + 1) v)) d))"
| "bytes_to_hex L depth (WList vs) =
     (if depth > 10 then WList vs else WList (map (bytes_to_hex L (depth + 1)) vs))"
| "bytes_to_hex L depth (WBytes raw) =
     (if depth > 10 then WBytes raw
      else case utf8_decode L raw of Some s \<Rightarrow> WStr s | None \<Rightarrow> WStr (hex raw))"
| "bytes_to_hex L depth v = v"

section \<open>The codec\<close>

text \<open>\<open>MessageCodec(wire_format)\<close>: the format it settles on.\<close>

definition mk_codec :: "wire_lib \<Rightarrow> string \<Rightarrow> exn + string" where
  "mk_codec L wire_format =
     unless_raise (wire_format \<notin> {''json'', ''msgpack''})
       (ve ''unknown wire_format: {}'' [PStr wire_format])
       (Inr (if wire_format = ''msgpack'' \<and> \<not> has_msgpack L then ''json'' else wire_format))"

definition message :: "string \<Rightarrow> pyval \<Rightarrow> pyval" where
  "message msg_type data = PDict [(''type'', PStr msg_type), (''data'', data)]"

definition codec_encode :: "wire_lib \<Rightarrow> string \<Rightarrow> string \<Rightarrow> pyval \<Rightarrow> exn + bytes" where
  "codec_encode L fmt msg_type data =
     (if fmt = ''msgpack''
      then (let payload = packb L (hex_to_bytes 0 (message msg_type data)); n = int (length payload)
            in unless_raise (n > MAX_FRAME_SIZE)
                 (ve ''frame too large: {} > {}'' [PInt n, PInt MAX_FRAME_SIZE])
                 (and_then (to_bytes4 n) (\<lambda>prefix. Inr (prefix @ payload))))
      else Inr (encode (json_raw (message msg_type data) @ [newline])))"

text \<open>\<open>obj.get(k, default)\<close>, which only a dict has.\<close>

definition type_and_data :: "wval \<Rightarrow> (wval \<times> wval) option" where
  "type_and_data obj =
     (case obj of WDict d \<Rightarrow> Some (dget_or d ''type'' (WStr []), dget_or d ''data'' (WDict [])) | _ \<Rightarrow> None)"

definition codec_decode :: "wire_lib \<Rightarrow> string \<Rightarrow> bytes \<Rightarrow> (wval \<times> wval) option" where
  "codec_decode L fmt raw =
     (case (if fmt = ''msgpack'' then map_option (bytes_to_hex L 0) (unpackb L raw) else map_option plain (loads L raw)) of
        None \<Rightarrow> None
      | Some obj \<Rightarrow> type_and_data obj)"

definition negotiate :: "wire_lib \<Rightarrow> int \<Rightarrow> int \<Rightarrow> string \<Rightarrow> pyval \<Rightarrow> string" where
  "negotiate L local_version remote_version local_wire remote_wire =
     (if local_version \<ge> 4 \<and> remote_version \<ge> 4 \<and> local_wire = ''msgpack''
         \<and> remote_wire = PStr ''msgpack'' \<and> has_msgpack L then ''msgpack''
      else ''json'')"

definition preferred_wire_format :: "wire_lib \<Rightarrow> string" where
  "preferred_wire_format L = (if has_msgpack L then ''msgpack'' else ''json'')"

text \<open>
  \<open>_read_message\<close> of \<open>p2p.py\<close> in msgpack mode, on the bytes that have arrived: more are awaited,
  the reader gives up, or one frame is taken off.
\<close>

datatype frame = Incomplete | Refused | Frame "(wval \<times> wval) option" bytes

definition read_frame :: "wire_lib \<Rightarrow> bytes \<Rightarrow> frame" where
  "read_frame L buf =
     (let n = from_bytes (take 4 buf)
      in if length buf < 4 then Incomplete
         else if n = 0 \<or> n > MAX_FRAME_SIZE then Refused
         else if int (length buf) < 4 + n then Incomplete
         else Frame (codec_decode L (if has_msgpack L then ''msgpack'' else ''json'')
                       (take (nat n) (drop 4 buf))) (drop (4 + nat n) buf))"

section \<open>Round trip\<close>

text \<open>
  What the codec keeps: every string of a binary field within the depth it visits is the
  hexadecimal notation bytes have (lower case, no spaces), or is not hexadecimal at all.
\<close>

definition field_ok :: "string \<Rightarrow> bool" where
  "field_ok s \<longleftrightarrow> (case fromhex s of Some raw \<Rightarrow> hex raw = s | None \<Rightarrow> True)"

fun canonical :: "nat \<Rightarrow> pyval \<Rightarrow> bool" where
  "canonical depth (PDict d) \<longleftrightarrow>
     depth > 10 \<or> list_all (\<lambda>(k, v). if k \<in> set BINARY_FIELDS \<and> is_str v then field_ok (str_of_py v)
                                      else canonical (depth + 1) v) d"
| "canonical depth (PList vs) \<longleftrightarrow> depth > 10 \<or> list_all (canonical (depth + 1)) vs"
| "canonical depth v \<longleftrightarrow> True"

lemma hex_to_bytes_not_bytes [simp]: "\<not> is_bytes (hex_to_bytes depth v)"
  by (cases "(depth, v)" rule: hex_to_bytes.cases) auto

lemma plain_str: "is_str v \<Longrightarrow> plain v = WStr (str_of_py v)"
  by (cases v) auto

lemma field_survives:
  assumes "field_ok s"
  shows "(if is_bytes (field_to_bytes s) then WStr (hex (bytes_of (field_to_bytes s)))
          else bytes_to_hex L depth (field_to_bytes s)) = WStr s"
  using assms by (cases "fromhex s") (auto simp: field_ok_def field_to_bytes_def)

lemma hex_round_trip: "canonical depth v \<Longrightarrow> bytes_to_hex L depth (hex_to_bytes depth v) = plain v"
proof (induction depth v rule: hex_to_bytes.induct)
  case (1 depth d)
  have entry: "(\<lambda>(k, w). (k, if k \<in> set BINARY_FIELDS \<and> is_bytes w then WStr (hex (bytes_of w))
                             else bytes_to_hex L (depth + 1) w))
       (k, if k \<in> set BINARY_FIELDS \<and> is_str v then field_to_bytes (str_of_py v)
           else hex_to_bytes (depth + 1) v) = map_prod id plain (k, v)"
    if kv: "(k, v) \<in> set d" and depth: "\<not> depth > 10" for k v
  proof -
    have ok: "if k \<in> set BINARY_FIELDS \<and> is_str v then field_ok (str_of_py v) else canonical (depth + 1) v"
      using 1(2) kv depth by (auto simp: list_all_iff)
    show ?thesis
    proof (cases "k \<in> set BINARY_FIELDS \<and> is_str v")
      case True
      then show ?thesis
        using ok field_survives[of "str_of_py v" L "depth + 1"] by (simp add: plain_str)
    next
      case False
      then have "bytes_to_hex L (depth + 1) (hex_to_bytes (depth + 1) v) = plain v"
        using 1(1)[OF depth kv refl] ok False by (simp only: if_False simp_thms)
      then show ?thesis by (simp only: False if_False split_conv map_prod_simp id_apply hex_to_bytes_not_bytes simp_thms)
    qed
  qed
  show ?case
  proof (cases "depth > 10")
    case False
    then show ?thesis using entry by (simp add: case_prod_beta del: One_nat_def) (auto simp: case_prod_beta)
  qed simp
next
  case (2 depth vs)
  then show ?case by (auto simp: list_all_iff)
qed simp_all

text \<open>A frame is read back as it was written, whatever follows it on the stream.\<close>

lemma codec_encode_msgpack:
  assumes "codec_encode L ''msgpack'' msg_type data = Inr raw"
  shows "\<exists>prefix payload. raw = prefix @ payload \<and> length prefix = 4 \<and> from_bytes prefix = int (length payload)
       \<and> int (length payload) \<le> MAX_FRAME_SIZE \<and> payload = packb L (hex_to_bytes 0 (message msg_type data))"
proof -
  let ?p = "packb L (hex_to_bytes 0 (message msg_type data))"
  obtain prefix where p: "int (length ?p) \<le> MAX_FRAME_SIZE" "to_bytes4 (int (length ?p)) = Inr prefix" "raw = prefix @ ?p"
    using assms by (auto simp: codec_encode_def Let_def unless_raise_Inr and_then_Inr)
  have "int (length ?p) < 2 ^ 32" using p(1) by (simp add: MAX_FRAME_SIZE_def)
  then obtain n where "to_bytes4 (int (length ?p)) = Inr n" "length n = 4" "from_bytes n = int (length ?p)"
    using to_bytes4_Inr[of "int (length ?p)"] by auto
  then show ?thesis using p by auto
qed

lemma canonical_message: "canonical 0 (message msg_type data) \<longleftrightarrow> canonical 1 data"
  by (simp add: message_def BINARY_FIELDS_def)

lemma codec_decode_encoded:
  assumes "canonical 1 data"
    and "unpackb L (packb L (hex_to_bytes 0 (message msg_type data))) = Some (hex_to_bytes 0 (message msg_type data))"
  shows "codec_decode L ''msgpack'' (packb L (hex_to_bytes 0 (message msg_type data)))
       = Some (WStr msg_type, plain data)"
  using assms hex_round_trip[of 0 "message msg_type data" L]
  by (simp add: codec_decode_def canonical_message del: hex_to_bytes.simps)
     (simp add: message_def type_and_data_def dget_or_def)

lemma frame_round_trip:
  assumes "codec_encode L ''msgpack'' msg_type data = Inr raw" and "canonical 1 data" and "has_msgpack L"
    and "w = hex_to_bytes 0 (message msg_type data)" "unpackb L (packb L w) = Some w" "packb L w \<noteq> []"
  shows "read_frame L (raw @ rest) = Frame (Some (WStr msg_type, plain data)) rest"
proof -
  obtain prefix payload where f: "raw = prefix @ payload" "length prefix = 4"
      "from_bytes prefix = int (length payload)" "int (length payload) \<le> MAX_FRAME_SIZE"
      "payload = packb L (hex_to_bytes 0 (message msg_type data))"
    using codec_encode_msgpack[OF assms(1)] by blast
  then show ?thesis
    using codec_decode_encoded[where L = L and msg_type = msg_type, OF assms(2)] assms(3-6)
    by (simp add: read_frame_def Let_def)
qed

text \<open>A field that is not canonical comes back as another string: upper case is not kept.\<close>

lemma codec_lowers_case:
  "bytes_to_hex L 0 (hex_to_bytes 0 (PDict [(''signature'', PStr ''AB'')])) = WDict [(''signature'', WStr ''ab'')]"
  by (simp add: BINARY_FIELDS_def field_to_bytes_def) code_simp

end
