(* ===== verification/RateLimiter.thy ===== *)
theory RateLimiter
  imports Prelude Complex_Main
begin

text \<open>
  \<open>network/rate_limiter.py\<close>: the token buckets that bound what one peer or client may ask. Each
  operation holds the lock, so it is one step. \<open>time.monotonic()\<close> is the argument \<open>now\<close>; the floats
  of the code (tokens, rates, times) are exact rationals here, so rounding is left out. The
  \<open>OrderedDict\<close> is the dict of the prelude, moved entries going to the end.
\<close>

record bucket =
  bk_tokens :: rat
  bk_last :: rat
  bk_violations :: int

record limiter =
  rl_rate :: rat
  rl_burst :: rat
  rl_buckets :: "(string, bucket) dict"
  rl_logged :: "string set"

definition MAX_TRACKED :: nat where "MAX_TRACKED = 10000"
definition STALE_TTL :: rat where "STALE_TTL = 300"

definition mk_limiter :: "rat \<Rightarrow> rat \<Rightarrow> limiter" where
  "mk_limiter rate burst = \<lparr>rl_rate = rate, rl_burst = burst, rl_buckets = [], rl_logged = {}\<rparr>"

definition new_bucket :: "rat \<Rightarrow> rat \<Rightarrow> bucket" where
  "new_bucket burst now = \<lparr>bk_tokens = burst, bk_last = now, bk_violations = 0\<rparr>"

text \<open>The oldest entry without violations, else the oldest entry.\<close>

definition evict_key :: "(string, bucket) dict \<Rightarrow> string option" where
  "evict_key d =
     (case find (\<lambda>p. bk_violations (snd p) = 0) d of
        Some p \<Rightarrow> Some (fst p)
      | None \<Rightarrow> (case d of [] \<Rightarrow> None | p # ps \<Rightarrow> Some (fst p)))"

definition evict_one :: "limiter \<Rightarrow> limiter" where
  "evict_one l =
     (case evict_key (rl_buckets l) of
        None \<Rightarrow> l
      | Some k \<Rightarrow> l\<lparr>rl_buckets := dpop (rl_buckets l) k, rl_logged := rl_logged l - {k}\<rparr>)"

definition refill :: "limiter \<Rightarrow> rat \<Rightarrow> bucket \<Rightarrow> bucket" where
  "refill l now b =
     (let elapsed = now - bk_last b
      in if elapsed > 0
         then b\<lparr>bk_tokens := min (rl_burst l) (bk_tokens b + elapsed * rl_rate l), bk_last := now\<rparr>
         else b)"

definition consume :: "bucket \<Rightarrow> bool \<times> bucket" where
  "consume b =
     (if bk_tokens b \<ge> 1 then (True, b\<lparr>bk_tokens := bk_tokens b - 1\<rparr>)
      else (False, b\<lparr>bk_violations := bk_violations b + 1\<rparr>))"

text \<open>The bucket of a key, fresh if there is none, moved to the end.\<close>

definition touch :: "limiter \<Rightarrow> rat \<Rightarrow> string \<Rightarrow> bucket \<times> limiter" where
  "touch l now key =
     (case dget (rl_buckets l) key of
        None \<Rightarrow> (new_bucket (rl_burst l) now, if length (rl_buckets l) \<ge> MAX_TRACKED then evict_one l else l)
      | Some b \<Rightarrow> (b, l\<lparr>rl_buckets := dpop (rl_buckets l) key\<rparr>))"

definition check :: "rat \<Rightarrow> string \<Rightarrow> limiter \<Rightarrow> bool \<times> limiter" where
  "check now key l =
     (let (b, l1) = touch l now key; (allowed, b') = consume (refill l now b)
      in (allowed, l1\<lparr>rl_buckets := rl_buckets l1 @ [(key, b')],
                     rl_logged := (if allowed then rl_logged l1 else insert key (rl_logged l1))\<rparr>))"

definition violations :: "limiter \<Rightarrow> string \<Rightarrow> int" where
  "violations l key = (case dget (rl_buckets l) key of None \<Rightarrow> 0 | Some b \<Rightarrow> bk_violations b)"

definition reset_key :: "string \<Rightarrow> limiter \<Rightarrow> limiter" where
  "reset_key key l = l\<lparr>rl_buckets := dpop (rl_buckets l) key, rl_logged := rl_logged l - {key}\<rparr>"

definition cleanup :: "rat \<Rightarrow> limiter \<Rightarrow> int \<times> limiter" where
  "cleanup now l =
     (let stale = map fst (filter (\<lambda>p. bk_last (snd p) < now - STALE_TTL) (rl_buckets l))
      in (int (length stale),
          fold (\<lambda>k l. l\<lparr>rl_buckets := dpop (rl_buckets l) k, rl_logged := rl_logged l - {k}\<rparr>) stale l))"

section \<open>Invariant\<close>

definition bucket_ok :: "rat \<Rightarrow> bucket \<Rightarrow> bool" where
  "bucket_ok burst b \<longleftrightarrow> 0 \<le> bk_tokens b \<and> bk_tokens b \<le> burst \<and> 0 \<le> bk_violations b"

definition limiter_ok :: "limiter \<Rightarrow> bool" where
  "limiter_ok l \<longleftrightarrow> 0 \<le> rl_rate l \<and> 0 \<le> rl_burst l \<and> dwf (rl_buckets l)
     \<and> length (rl_buckets l) \<le> MAX_TRACKED \<and> list_all (\<lambda>p. bucket_ok (rl_burst l) (snd p)) (rl_buckets l)"

lemma refill_ok:
  assumes "bucket_ok (rl_burst l) b" "0 \<le> rl_rate l"
  shows "bucket_ok (rl_burst l) (refill l now b)"
proof -
  have "0 \<le> rl_burst l" using assms(1) by (auto simp: bucket_ok_def)
  moreover have "0 \<le> bk_tokens b + (now - bk_last b) * rl_rate l" if "now - bk_last b > 0"
    using that assms by (auto simp: bucket_ok_def)
  ultimately show ?thesis using assms(1) by (auto simp: refill_def Let_def bucket_ok_def)
qed

lemma consume_ok: "bucket_ok burst b \<Longrightarrow> bucket_ok burst (snd (consume b))"
  by (auto simp: consume_def bucket_ok_def)

lemma length_dpop: "dwf d \<Longrightarrow> length (dpop d k) = length d - (if dmem k d then 1 else 0)"
proof (induction d)
  case (Cons p d)
  have "dmem k d \<Longrightarrow> d \<noteq> []" by auto
  then show ?case
    using Cons
    by (cases p) (auto simp: dmem_def dpop_notin map_of_eq_None_iff Suc_diff_Suc split: if_splits)
qed simp

lemma evict_key_mem: "d \<noteq> [] \<Longrightarrow> \<exists>k. evict_key d = Some k \<and> dmem k d"
proof (cases "find (\<lambda>p. bk_violations (snd p) = 0) d")
  case None
  assume "d \<noteq> []"
  then show ?thesis using None by (cases d) (auto simp: evict_key_def dmem_def)
next
  case (Some p)
  then have "p \<in> set d" by (auto simp: find_Some_iff)
  then have "fst p \<in> fst ` set d" by (rule imageI)
  then show ?thesis using Some by (auto simp: evict_key_def dmem_def map_of_eq_None_iff)
qed

lemma evict_one_facts:
  assumes "limiter_ok l" "rl_buckets l \<noteq> []"
  shows "limiter_ok (evict_one l)" "length (rl_buckets (evict_one l)) < length (rl_buckets l)"
    "rl_burst (evict_one l) = rl_burst l" "rl_rate (evict_one l) = rl_rate l"
proof -
  obtain k where k: "evict_key (rl_buckets l) = Some k" "dmem k (rl_buckets l)"
    using evict_key_mem[OF assms(2)] by blast
  have len: "length (dpop (rl_buckets l) k) = length (rl_buckets l) - 1"
    using length_dpop[of "rl_buckets l" k] assms(1) k(2) by (simp add: limiter_ok_def)
  then show "limiter_ok (evict_one l)"
    using assms(1) k(1) by (auto simp: evict_one_def limiter_ok_def list_all_dpop)
  show "length (rl_buckets (evict_one l)) < length (rl_buckets l)"
    using len k(1) assms(2) by (simp add: evict_one_def)
qed (simp_all add: evict_one_def split: option.splits)

lemma touch_facts:
  assumes "limiter_ok l"
  shows "bucket_ok (rl_burst l) (fst (touch l now key)) \<and> limiter_ok (snd (touch l now key))
    \<and> length (rl_buckets (snd (touch l now key))) < MAX_TRACKED \<and> \<not> dmem key (rl_buckets (snd (touch l now key)))
    \<and> rl_burst (snd (touch l now key)) = rl_burst l \<and> rl_rate (snd (touch l now key)) = rl_rate l"
proof (cases "dget (rl_buckets l) key")
  case None
  have ne: "length (rl_buckets l) \<ge> MAX_TRACKED \<Longrightarrow> rl_buckets l \<noteq> []" by (auto simp: MAX_TRACKED_def)
  have e: "\<not> dmem key (rl_buckets (evict_one l))"
    using None by (auto simp: evict_one_def dmem_def dget_dpop split: option.splits)
  have len: "length (rl_buckets l) \<le> MAX_TRACKED" using assms by (simp add: limiter_ok_def)
  have "bucket_ok (rl_burst l) (new_bucket (rl_burst l) now)"
    using assms by (simp add: bucket_ok_def new_bucket_def limiter_ok_def)
  then show ?thesis
    using None assms evict_one_facts[OF assms ne] e len by (auto simp: touch_def dmem_def)
next
  case (Some b)
  then have "dmem key (rl_buckets l)" by (simp add: dmem_def)
  then have "length (dpop (rl_buckets l) key) < length (rl_buckets l)"
    using length_dpop[of "rl_buckets l" key] assms by (cases "rl_buckets l") (auto simp: limiter_ok_def)
  then show ?thesis
    using Some assms list_all_dget[of "\<lambda>p. bucket_ok (rl_burst l) (snd p)" "rl_buckets l" key b]
    by (auto simp: touch_def limiter_ok_def list_all_dpop dmem_def dget_dpop)
qed

lemma dwf_snoc: "dwf (d @ [(k, v)]) \<longleftrightarrow> dwf d \<and> \<not> dmem k d"
  by (auto simp: dwf_def dmem_def map_of_eq_None_iff)

lemma check_ok:
  assumes "limiter_ok l"
  shows "limiter_ok (snd (check now key l))"
proof -
  obtain b l1 where t: "touch l now key = (b, l1)" by (cases "touch l now key") simp
  note f = touch_facts[OF assms, where now = now and key = key, unfolded t fst_conv snd_conv]
  have "bucket_ok (rl_burst l) (snd (consume (refill l now b)))"
    using f assms by (intro consume_ok refill_ok) (auto simp: limiter_ok_def)
  then show ?thesis
    using f t by (auto simp: check_def limiter_ok_def dwf_snoc split: prod.splits)
qed

lemma cleanup_ok:
  assumes "limiter_ok l"
  shows "limiter_ok (snd (cleanup now l))"
proof -
  let ?drop = "\<lambda>k l. l\<lparr>rl_buckets := dpop (rl_buckets l) k, rl_logged := rl_logged l - {k}\<rparr>"
  have step: "limiter_ok (?drop k l)" if "limiter_ok l" for k l
    using that length_dpop[of "rl_buckets l" k] by (auto simp: limiter_ok_def list_all_dpop)
  have "limiter_ok (fold ?drop ks l)" for ks
    using assms by (induction ks arbitrary: l) (simp_all add: step)
  then show ?thesis by (simp add: cleanup_def Let_def)
qed

section \<open>The rate\<close>

text \<open>
  How many of a sequence of checks of one key, at the given times, are let through. As long as the
  key is tracked throughout, its checks see one bucket.
\<close>

fun run_bucket :: "limiter \<Rightarrow> bucket \<Rightarrow> rat list \<Rightarrow> nat \<times> bucket" where
  "run_bucket l b [] = (0, b)"
| "run_bucket l b (now # ts) =
     (let (allowed, b') = consume (refill l now b); (n, b'') = run_bucket l b' ts
      in ((if allowed then 1 else 0) + n, b''))"

fun run_checks :: "string \<Rightarrow> rat list \<Rightarrow> limiter \<Rightarrow> nat \<times> limiter" where
  "run_checks key [] l = (0, l)"
| "run_checks key (now # ts) l =
     (let (allowed, l') = check now key l; (n, l'') = run_checks key ts l'
      in ((if allowed then 1 else 0) + n, l''))"

lemma run_Cons:
  "fst (run_bucket l b (now # ts)) = (if fst (consume (refill l now b)) then 1 else 0)
     + fst (run_bucket l (snd (consume (refill l now b))) ts)"
  "fst (run_checks key (now # ts) l) = (if fst (check now key l) then 1 else 0)
     + fst (run_checks key ts (snd (check now key l)))"
  by (simp_all add: Let_def split: prod.splits)

declare run_bucket.simps(2) [simp del] run_checks.simps(2) [simp del]

lemma consume_tokens:
  "(if fst (consume b) then 1 else 0) + bk_tokens (snd (consume b)) = bk_tokens b"
  "bk_last (snd (consume b)) = bk_last b"
  by (simp_all add: consume_def)

lemma refill_tokens:
  assumes "bk_last b \<le> now" "0 \<le> rl_rate l"
  shows "bk_tokens (refill l now b) \<le> bk_tokens b + (now - bk_last b) * rl_rate l" "bk_last (refill l now b) = now"
  using assms by (auto simp: refill_def Let_def)

lemma bucket_rate:
  assumes "sorted (bk_last b # ts)" "0 \<le> rl_rate l" "bucket_ok (rl_burst l) b"
  shows "of_nat (fst (run_bucket l b ts)) \<le> bk_tokens b + (last (bk_last b # ts) - bk_last b) * rl_rate l"
  using assms(1,3)
proof (induction ts arbitrary: b)
  case Nil
  then show ?case by (simp add: bucket_ok_def)
next
  case (Cons now ts)
  let ?r = "refill l now b" let ?c = "consume ?r"
  have le: "bk_last b \<le> now" using Cons.prems(1) by simp
  note r = refill_tokens[OF le assms(2)]
  have last: "bk_last (snd ?c) = now" using r(2) by (simp add: consume_tokens(2))
  have ok: "bucket_ok (rl_burst l) (snd ?c)"
    by (rule consume_ok, rule refill_ok[OF Cons.prems(2) assms(2)])
  have IH: "of_nat (fst (run_bucket l (snd ?c) ts)) \<le> bk_tokens (snd ?c) + (last (now # ts) - now) * rl_rate l"
    using Cons.IH[of "snd ?c"] Cons.prems(1) ok by (simp add: last)
  have "of_nat (fst (run_bucket l b (now # ts)))
      = (if fst ?c then 1 else 0) + (of_nat (fst (run_bucket l (snd ?c) ts)) :: rat)"
    by (simp add: run_Cons)
  also have "\<dots> \<le> ((if fst ?c then 1 else 0) + bk_tokens (snd ?c)) + (last (now # ts) - now) * rl_rate l"
    using IH by simp
  also have "\<dots> = bk_tokens ?r + (last (now # ts) - now) * rl_rate l" by (simp only: consume_tokens(1))
  also have "\<dots> \<le> bk_tokens b + (now - bk_last b) * rl_rate l + (last (now # ts) - now) * rl_rate l"
    using r(1) by simp
  also have "\<dots> = bk_tokens b + (last (now # ts) - bk_last b) * rl_rate l" by (simp add: algebra_simps)
  finally show ?case by simp
qed

lemma check_tracked:
  assumes "dget (rl_buckets l) key = Some b" "dwf (rl_buckets l)"
  shows "fst (check now key l) = fst (consume (refill l now b))"
    "dget (rl_buckets (snd (check now key l))) key = Some (snd (consume (refill l now b)))"
    "rl_rate (snd (check now key l)) = rl_rate l" "rl_burst (snd (check now key l)) = rl_burst l"
proof -
  have "dget (dpop (rl_buckets l) key) key = None" by (simp add: dget_dpop)
  then show "fst (check now key l) = fst (consume (refill l now b))"
    "dget (rl_buckets (snd (check now key l))) key = Some (snd (consume (refill l now b)))"
    "rl_rate (snd (check now key l)) = rl_rate l" "rl_burst (snd (check now key l)) = rl_burst l"
    using assms(1) by (simp_all add: check_def touch_def map_add_def split: prod.splits)
qed

lemma run_bucket_cong:
  "rl_rate l = rl_rate l' \<Longrightarrow> rl_burst l = rl_burst l' \<Longrightarrow> run_bucket l b ts = run_bucket l' b ts"
  by (induction ts arbitrary: b) (simp_all add: run_bucket.simps refill_def Let_def split: prod.splits)

lemma run_checks_bucket:
  assumes "limiter_ok l" "dget (rl_buckets l) key = Some b"
  shows "fst (run_checks key ts l) = fst (run_bucket l b ts)"
  using assms
proof (induction ts arbitrary: l b)
  case (Cons now ts)
  have wf: "dwf (rl_buckets l)" using Cons.prems(1) by (simp add: limiter_ok_def)
  note t = check_tracked[OF Cons.prems(2) wf, of now]
  have "fst (run_checks key ts (snd (check now key l))) = fst (run_bucket l (snd (consume (refill l now b))) ts)"
    using Cons.IH[OF check_ok[OF Cons.prems(1)] t(2)] run_bucket_cong[OF t(3,4)] by simp
  then show ?case using t(1) by (simp add: run_Cons)
qed simp

text \<open>The first check of a key sees a full bucket.\<close>

lemma check_fresh:
  assumes "limiter_ok l" "\<not> dmem key (rl_buckets l)"
  shows "fst (check now key l) = fst (consume (new_bucket (rl_burst l) now))"
    "dget (rl_buckets (snd (check now key l))) key = Some (snd (consume (new_bucket (rl_burst l) now)))"
    "rl_rate (snd (check now key l)) = rl_rate l" "rl_burst (snd (check now key l)) = rl_burst l"
proof -
  obtain b l1 where t: "touch l now key = (b, l1)" by (cases "touch l now key") simp
  note f = touch_facts[OF assms(1), where now = now and key = key, unfolded t fst_conv snd_conv]
  have b: "b = new_bucket (rl_burst l) now" "refill l now b = b"
    using t assms(2) by (auto simp: touch_def dmem_def refill_def new_bucket_def)
  have "dget (rl_buckets l1) key = None" using f by (simp add: dmem_def)
  then show "fst (check now key l) = fst (consume (new_bucket (rl_burst l) now))"
    "dget (rl_buckets (snd (check now key l))) key = Some (snd (consume (new_bucket (rl_burst l) now)))"
    "rl_rate (snd (check now key l)) = rl_rate l" "rl_burst (snd (check now key l)) = rl_burst l"
    using t b f by (simp_all add: check_def map_add_def split: prod.splits)
qed

lemma rate_bound:
  assumes "limiter_ok l" "\<not> dmem key (rl_buckets l)" "sorted (t0 # ts)"
  shows "of_nat (fst (run_checks key (t0 # ts) l)) \<le> rl_burst l + (last (t0 # ts) - t0) * rl_rate l"
proof -
  let ?b = "new_bucket (rl_burst l) t0" and ?l = "snd (check t0 key l)"
  note c = check_fresh[OF assms(1,2), of t0]
  have ok: "bucket_ok (rl_burst l) ?b" using assms(1) by (simp add: limiter_ok_def bucket_ok_def new_bucket_def)
  have r: "refill l t0 ?b = ?b" by (simp add: refill_def new_bucket_def)
  have "fst (run_checks key ts ?l) = fst (run_bucket l (snd (consume ?b)) ts)"
    using run_checks_bucket[OF check_ok[OF assms(1)] c(2)] run_bucket_cong[OF c(3,4)] by simp
  then have "fst (run_checks key (t0 # ts) l) = fst (run_bucket l ?b (t0 # ts))"
    using c(1) by (simp add: r run_Cons)
  moreover have "of_nat (fst (run_bucket l ?b (t0 # ts))) \<le> bk_tokens ?b + (last (t0 # ts) - t0) * rl_rate l"
    using bucket_rate[of ?b "t0 # ts" l] assms(1,3) ok by (simp add: new_bucket_def limiter_ok_def)
  ultimately show ?thesis by (simp add: new_bucket_def)
qed

section \<open>Isolation of keys\<close>

text \<open>
  Below the cap no other key's bucket is touched; at the cap a key with violations loses its bucket
  only when every tracked key has violations.
\<close>

lemma other_key_below_cap:
  assumes "length (rl_buckets l) < MAX_TRACKED" "key' \<noteq> key"
  shows "dget (rl_buckets (snd (check now key l))) key' = dget (rl_buckets l) key'"
  using assms
  by (auto simp: check_def touch_def map_add_def dget_dpop split: prod.splits option.splits)

lemma violator_kept:
  assumes "dwf (rl_buckets l)" "dget (rl_buckets l) key' = Some b" "bk_violations b \<noteq> 0" "key' \<noteq> key"
    and "(k, c) \<in> set (rl_buckets l)" "bk_violations c = 0"
  shows "dget (rl_buckets (snd (check now key l))) key' = Some b"
proof -
  obtain p where p: "find (\<lambda>p. bk_violations (snd p) = 0) (rl_buckets l) = Some p"
    using assms(5,6) by (cases "find (\<lambda>p. bk_violations (snd p) = 0) (rl_buckets l)") (force simp: find_None_iff)+
  then have "p \<in> set (rl_buckets l)" "bk_violations (snd p) = 0" by (auto simp: find_Some_iff)
  then have "dget (rl_buckets l) (fst p) = Some (snd p)" using assms(1) by (simp add: dwf_def)
  then have "fst p \<noteq> key'" using assms(2,3) \<open>bk_violations (snd p) = 0\<close> by auto
  then have "dget (rl_buckets (evict_one l)) key' = Some b"
    using p assms(2) by (simp add: evict_one_def evict_key_def dget_dpop)
  then show ?thesis
    using assms(2,4)
    by (auto simp: check_def touch_def map_add_def dget_dpop split: prod.splits option.splits)
qed

end
