(* ===== verification/Reputation.thy ===== *)
theory Reputation
  imports TxWire Complex_Main
begin

text \<open>
  \<open>network/reputation.py\<close>: scores of peers, bans and the decay of scores. \<open>time.monotonic()\<close> is the
  argument \<open>now\<close>; the float scores are exact rationals here. Peer ids are str, as annotated.
\<close>

record reputation =
  rp_scores :: "(string, rat) dict"
  rp_banned :: "string set"
  rp_last_event :: "(string, rat) dict"

definition REPUTATION_EVENTS :: "(string, rat) dict" where
  "REPUTATION_EVENTS =
     [(''valid_block'', 10), (''valid_tx'', 1), (''invalid_block'', - 50), (''invalid_tx'', - 10),
      (''state_root_mismatch'', - 100), (''auth_failed'', - 100), (''timeout'', - 5),
      (''rate_limited'', - 20), (''protocol_error'', - 30)]"

definition DEFAULT_SCORE :: rat where "DEFAULT_SCORE = 100"
definition BAN_THRESHOLD :: rat where "BAN_THRESHOLD = - 100"
definition DECAY_RATE :: rat where "DECAY_RATE = 99 / 100"

definition new_reputation :: reputation where
  "new_reputation = \<lparr>rp_scores = [], rp_banned = {}, rp_last_event = []\<rparr>"

definition get_score :: "reputation \<Rightarrow> string \<Rightarrow> rat" where
  "get_score s peer_id = (if peer_id = [] then DEFAULT_SCORE else dget_or (rp_scores s) peer_id DEFAULT_SCORE)"

definition record_event :: "rat \<Rightarrow> string \<Rightarrow> string \<Rightarrow> reputation act" where
  "record_event now peer_id event s =
     (if peer_id = [] then (None, s)
      else
        (case dget REPUTATION_EVENTS event of
           None \<Rightarrow> (Some (ve ''unknown reputation event: {}'' [PStr event]), s)
         | Some delta \<Rightarrow>
             (let new_score = dget_or (rp_scores s) peer_id DEFAULT_SCORE + delta
              in (None, s\<lparr>rp_scores := dset (rp_scores s) peer_id new_score,
                         rp_last_event := dset (rp_last_event s) peer_id now,
                         rp_banned := (if new_score \<le> BAN_THRESHOLD then insert peer_id (rp_banned s)
                                       else rp_banned s)\<rparr>))))"

definition is_banned :: "reputation \<Rightarrow> string \<Rightarrow> bool" where
  "is_banned s peer_id \<longleftrightarrow> peer_id \<noteq> [] \<and> peer_id \<in> rp_banned s"

definition unban :: "string \<Rightarrow> reputation \<Rightarrow> reputation" where
  "unban peer_id s =
     (if peer_id = [] then s
      else s\<lparr>rp_banned := rp_banned s - {peer_id}, rp_scores := dset (rp_scores s) peer_id DEFAULT_SCORE\<rparr>)"

definition decayed :: "rat \<Rightarrow> rat" where
  "decayed score = DEFAULT_SCORE + (score - DEFAULT_SCORE) * DECAY_RATE"

text \<open>The entries to drop: back at the default score and not banned.\<close>

definition faded :: "reputation \<Rightarrow> string \<times> rat \<Rightarrow> bool" where
  "faded s p \<longleftrightarrow> \<bar>decayed (snd p) - DEFAULT_SCORE\<bar> < 1 / 100 \<and> fst p \<notin> rp_banned s"

definition decay :: "reputation \<Rightarrow> reputation" where
  "decay s =
     (let to_remove = map fst (filter (faded s) (rp_scores s))
      in s\<lparr>rp_scores := map (map_prod id decayed) (filter (\<lambda>p. \<not> faded s p) (rp_scores s)),
          rp_last_event := fold (\<lambda>k d. dpop d k) to_remove (rp_last_event s)\<rparr>)"

definition peer_count :: "reputation \<Rightarrow> int" where
  "peer_count s = int (length (rp_scores s))"

section \<open>Invariant\<close>

text \<open>A peer whose score is at or below the threshold is banned.\<close>

definition reputation_ok :: "reputation \<Rightarrow> bool" where
  "reputation_ok s \<longleftrightarrow> dwf (rp_scores s) \<and> list_all (\<lambda>p. BAN_THRESHOLD < snd p \<or> fst p \<in> rp_banned s) (rp_scores s)"

lemma new_reputation_ok: "reputation_ok new_reputation"
  by (simp add: reputation_ok_def new_reputation_def)

lemma record_event_ok:
  assumes "reputation_ok s"
  shows "reputation_ok (snd (record_event now peer_id event s))"
proof -
  have "list_all (\<lambda>p. BAN_THRESHOLD < snd p \<or> fst p \<in> insert peer_id (rp_banned s)) (rp_scores s)"
    using assms by (auto simp: reputation_ok_def list_all_iff)
  then show ?thesis
    using assms
    by (auto simp: record_event_def reputation_ok_def Let_def intro!: list_all_dset split: option.splits)
qed

lemma set_dset_cases: "p \<in> set (dset d k v) \<Longrightarrow> dwf d \<Longrightarrow> p = (k, v) \<or> p \<in> set d \<and> fst p \<noteq> k"
  by (induction d) (auto split: if_splits)

lemma unban_ok:
  assumes "reputation_ok s"
  shows "reputation_ok (unban peer_id s)"
  using assms set_dset_cases[where d = "rp_scores s" and k = peer_id and v = DEFAULT_SCORE]
  by (fastforce simp: unban_def reputation_ok_def list_all_iff DEFAULT_SCORE_def BAN_THRESHOLD_def)

lemma decayed_above: "BAN_THRESHOLD < score \<Longrightarrow> BAN_THRESHOLD < decayed score"
proof -
  assume "BAN_THRESHOLD < score"
  moreover have "decayed score = 1 + 99 / 100 * score"
    by (simp add: decayed_def DEFAULT_SCORE_def DECAY_RATE_def left_diff_distrib diff_divide_distrib)
  ultimately show "BAN_THRESHOLD < decayed score" by (simp add: BAN_THRESHOLD_def)
qed

lemma decay_ok: "reputation_ok s \<Longrightarrow> reputation_ok (decay s)"
proof -
  assume ok: "reputation_ok s"
  have "map fst (map (map_prod id decayed) (filter (\<lambda>p. \<not> faded s p) (rp_scores s)))
      = map fst (filter (\<lambda>p. \<not> faded s p) (rp_scores s))" by simp
  then have "dwf (rp_scores (decay s))"
    using ok by (simp add: decay_def Let_def dwf_def reputation_ok_def distinct_map_filter)
  then show "reputation_ok (decay s)"
    using ok decayed_above by (auto simp: reputation_ok_def decay_def Let_def list_all_iff)
qed

section \<open>Bans and decay\<close>

text \<open>Only \<open>unban\<close> lifts a ban, and decay brings a score one hundredth closer to the default.\<close>

lemma ban_persists:
  "is_banned s p \<Longrightarrow> is_banned (snd (record_event now q event s)) p"
  "is_banned (decay s) p \<longleftrightarrow> is_banned s p"
  "p \<noteq> q \<Longrightarrow> is_banned (unban q s) p \<longleftrightarrow> is_banned s p"
  "\<not> is_banned (unban p s) p"
  by (auto simp: is_banned_def record_event_def decay_def unban_def Let_def split: option.splits)

lemma decay_distance: "\<bar>decayed score - DEFAULT_SCORE\<bar> = 99 / 100 * \<bar>score - DEFAULT_SCORE\<bar>"
proof -
  have "decayed score - DEFAULT_SCORE = 99 / 100 * (score - DEFAULT_SCORE)"
    unfolding decayed_def DECAY_RATE_def by simp
  then show ?thesis by (simp only: abs_mult abs_divide abs_numeral)
qed

lemma ban_when_low:
  assumes "peer_id \<noteq> []" "dget REPUTATION_EVENTS event = Some delta"
  shows "get_score (snd (record_event now peer_id event s)) peer_id = get_score s peer_id + delta"
    "get_score s peer_id + delta \<le> BAN_THRESHOLD \<Longrightarrow> is_banned (snd (record_event now peer_id event s)) peer_id"
    "q \<noteq> peer_id \<Longrightarrow> get_score (snd (record_event now peer_id event s)) q = get_score s q"
  using assms by (simp_all add: record_event_def get_score_def is_banned_def Let_def dget_or_dset)

end
