(* ===== verification/P2P.thy ===== *)
theory P2P
  imports Codec RateLimiter Reputation
begin

text \<open>
  \<open>network/p2p.py\<close>, the state of a \<open>P2PNode\<close>: peer objects, the table of connections, limits and the
  messages sent. Peer objects are shared between the table, the tasks that read from them and
  \<open>_dedup_connection\<close>, so they live in a store (\<open>pn_peer\<close>) under a number, and \<open>pn_peers\<close> maps
  keys to numbers. \<open>pn_sent\<close> lists what was handed to the writers; what goes wrong in a socket is left
  out, and so is \<open>last_seen\<close>, which nothing reads. The record \<open>net\<close> holds what lies outside: the
  hash and signature check, the suite of ciphers, the codec's libraries, signing (\<open>None\<close> where liboqs
  raises), Python's \<open>ipaddress\<close> (\<open>None\<close> where it raises ValueError) and the environment
  variable \<open>QBIT_ALLOW_PRIVATE_PEERS\<close>. \<open>time.monotonic()\<close> and \<open>time.time()\<close> are rational arguments, random bytes are arguments.
\<close>

record ip_info =
  is_link_local :: bool
  is_reserved :: bool
  is_private :: bool
  is_loopback :: bool

record net =
  net_env :: env
  net_suite :: suite
  net_wire :: wire_lib
  net_sign :: "bytes \<Rightarrow> bytes \<Rightarrow> bytes option"
  net_ip :: "string \<Rightarrow> ip_info option"
  net_allow_private :: bool

definition PROTOCOL_VERSION :: int where "PROTOCOL_VERSION = 4"
definition MAX_PEERS :: nat where "MAX_PEERS = 50"
definition AUTH_DOMAIN :: bytes where "AUTH_DOMAIN = encode ''QBIT_AUTH_v2:''"
definition AUTH_TIMEOUT :: rat where "AUTH_TIMEOUT = 10"
definition CHALLENGE_LEN :: nat where "CHALLENGE_LEN = 32"
definition BLOCKED_PORTS :: "int list" where
  "BLOCKED_PORTS = [22, 23, 25, 53, 80, 443, 445, 3306, 5432, 6379, 8080, 8443]"
definition AUTH_RATE_MAX :: nat where "AUTH_RATE_MAX = 5"
definition AUTH_RATE_WINDOW :: rat where "AUTH_RATE_WINDOW = 60"
definition AUTH_ATTEMPTS_CAP :: nat where "AUTH_ATTEMPTS_CAP = 10000"
definition P2P_RATE_VIOLATIONS_MAX :: int where "P2P_RATE_VIOLATIONS_MAX = 3"

definition RATE_EXEMPT :: "string list" where
  "RATE_EXEMPT = [''hello'', ''hello_auth'', ''auth_response'', ''auth_confirm'', ''session_key'', ''encrypted'']"

definition AUTH_REQUIRED_MSGS :: "string list" where
  "AUTH_REQUIRED_MSGS =
     [''new_block'', ''new_tx'', ''get_blocks'', ''blocks'', ''get_chain_info'', ''chain_info'',
      ''get_headers'', ''headers'', ''get_block_bodies'', ''block_bodies'']"

section \<open>Which addresses are safe\<close>

definition ascii_lower :: "string \<Rightarrow> string" where
  "ascii_lower s = map (\<lambda>c. if is_upper c then char_of (of_char c + (32 :: nat)) else c) s"

definition is_safe_inbound_ip :: "net \<Rightarrow> string \<Rightarrow> bool" where
  "is_safe_inbound_ip N host =
     (case net_ip N host of
        Some addr \<Rightarrow>
          if is_link_local addr \<or> is_reserved addr then False
          else if \<not> net_allow_private N \<and> (is_private addr \<or> is_loopback addr) then False
          else True
      | None \<Rightarrow> ascii_lower host \<notin> {''localhost'', ''metadata.google.internal'', ''instance-data''})"

definition is_safe_peer :: "net \<Rightarrow> string \<Rightarrow> int \<Rightarrow> string \<Rightarrow> int \<Rightarrow> bool" where
  "is_safe_peer N host port own_host own_port =
     (if port \<le> 0 \<or> port > 65535 then False
      else if port \<in> set BLOCKED_PORTS then False
      else if host \<in> {''127.0.0.1'', ''localhost'', ''::1'', own_host} \<and> port = own_port then False
      else if \<not> is_safe_inbound_ip N host then False
      else True)"

definition is_localhost :: "string \<Rightarrow> bool" where
  "is_localhost host \<longleftrightarrow> host \<in> {''127.0.0.1'', ''::1'', ''localhost''}"

section \<open>Peers and the node\<close>

record peer =
  pr_host :: string
  pr_port :: pyval
  pr_node_id :: pyval
  pr_connected :: bool
  pr_open :: bool
  pr_height :: int
  pr_authenticated :: bool
  pr_version :: int
  pr_challenge :: bytes
  pr_remote_pubkey :: bytes
  pr_deadline :: rat
  pr_is_validator :: bool
  pr_session_key :: "bytes option"
  pr_encrypted :: bool
  pr_encryption_pk :: "bytes option"
  pr_wire :: string
  pr_pending_wire :: pyval
  pr_is_initiator :: bool
  pr_remote_address :: string

definition new_peer :: "string \<Rightarrow> pyval \<Rightarrow> bool \<Rightarrow> peer" where
  "new_peer host port initiator =
     \<lparr>pr_host = host, pr_port = port, pr_node_id = PStr [], pr_connected = True, pr_open = True,
      pr_height = - 1, pr_authenticated = False, pr_version = 1, pr_challenge = [],
      pr_remote_pubkey = [], pr_deadline = 0, pr_is_validator = False, pr_session_key = None,
      pr_encrypted = False, pr_encryption_pk = None, pr_wire = ''json'', pr_pending_wire = PStr ''json'',
      pr_is_initiator = initiator, pr_remote_address = []\<rparr>"

text \<open>\<open>f"{host}:{port}"\<close>; a port from a message may be a bool.\<close>

definition port_str :: "pyval \<Rightarrow> string" where
  "port_str p = (case p of PBool b \<Rightarrow> if b then ''True'' else ''False'' | _ \<Rightarrow> int_str (int_of_py p))"

definition peer_addr :: "peer \<Rightarrow> string" where
  "peer_addr p = pr_host p @ '':'' @ port_str (pr_port p)"

type_synonym fields = "(string \<times> pyval) list"

record p2p_node =
  pn_id :: string
  pn_host :: string
  pn_port :: int
  pn_signing_sk :: secure_bytes
  pn_signing_pk :: bytes
  pn_address :: string
  pn_encryption_sk :: secure_bytes
  pn_encryption_pk :: bytes
  pn_validators :: "(string, bytes) dict"
  pn_peer :: "nat \<Rightarrow> peer"
  pn_next :: nat
  pn_peers :: "(string, nat) dict"
  pn_sent :: "(nat \<times> string \<times> fields) list"
  pn_attempts :: "(string, rat list) dict"
  pn_limiter :: limiter
  pn_reputation :: reputation

definition upd :: "nat \<Rightarrow> (peer \<Rightarrow> peer) \<Rightarrow> p2p_node \<Rightarrow> p2p_node" where
  "upd i f S = S\<lparr>pn_peer := (pn_peer S)(i := f (pn_peer S i))\<rparr>"

definition new_connection :: "peer \<Rightarrow> string \<Rightarrow> p2p_node \<Rightarrow> nat \<times> p2p_node" where
  "new_connection p key S =
     (pn_next S, S\<lparr>pn_peer := (pn_peer S)(pn_next S := p), pn_next := pn_next S + 1,
                   pn_peers := dset (pn_peers S) key (pn_next S)\<rparr>)"

definition has_signing_keys :: "p2p_node \<Rightarrow> bool" where
  "has_signing_keys S \<longleftrightarrow> sb_true (pn_signing_sk S) \<and> pn_signing_pk S \<noteq> [] \<and> pn_address S \<noteq> []"

definition has_encryption_keys :: "p2p_node \<Rightarrow> bool" where
  "has_encryption_keys S \<longleftrightarrow> sb_true (pn_encryption_sk S) \<and> pn_encryption_pk S \<noteq> []"

text \<open>\<open>MLDSA.sign\<close> with the node's key, which \<open>stop\<close> may have zeroed.\<close>

definition mldsa_sign_key :: "net \<Rightarrow> secure_bytes \<Rightarrow> bytes \<Rightarrow> exn + bytes" where
  "mldsa_sign_key N sk m =
     and_then (sb_bytes sk) (\<lambda>raw.
       case net_sign N raw m of
         None \<Rightarrow> Inl (RuntimeError (Msg ''ML-DSA signing failed'' []))
       | Some sig \<Rightarrow> Inr sig)"

section \<open>Sending\<close>

text \<open>
  \<open>Peer.send\<close>: nothing is written once the writer is closing, and an encoder that raises marks the
  peer as disconnected.
\<close>

definition send :: "net \<Rightarrow> nat \<Rightarrow> string \<Rightarrow> fields \<Rightarrow> p2p_node \<Rightarrow> p2p_node" where
  "send N i msg_type data S =
     (if \<not> pr_open (pn_peer S i) then S
      else if pr_wire (pn_peer S i) = ''msgpack''
              \<and> isl (codec_encode (net_wire N) ''msgpack'' msg_type (PDict data))
      then upd i (pr_connected_update (\<lambda>_. False)) S
      else S\<lparr>pn_sent := pn_sent S @ [(i, msg_type, data)]\<rparr>)"

text \<open>\<open>json.dumps(obj)\<close> with its default separators, a comma or a colon and a space.\<close>

definition separated :: "string list \<Rightarrow> string list" where
  "separated ss = (case ss of [] \<Rightarrow> [] | s # rest \<Rightarrow> s # map (\<lambda>t. '', '' @ t) rest)"

primrec json_spaced :: "pyval \<Rightarrow> string" where
  "json_spaced PNone = ''null''"
| "json_spaced (PBool b) = (if b then ''true'' else ''false'')"
| "json_spaced (PInt i) = int_str i"
| "json_spaced (PStr s) = json_str s"
| "json_spaced (PList vs) = ''['' @ concat (separated (map json_spaced vs)) @ '']''"
| "json_spaced (PDict d) =
     ''{'' @ concat (separated (map (\<lambda>(k, s). json_str k @ '': '' @ s) (map (map_prod id json_spaced) d))) @ ''}''"

definition send_encrypted :: "net \<Rightarrow> bytes \<Rightarrow> nat \<Rightarrow> string \<Rightarrow> fields \<Rightarrow> p2p_node \<Rightarrow> p2p_node" where
  "send_encrypted N nonce i msg_type data S =
     (case (pr_encrypted (pn_peer S i), pr_session_key (pn_peer S i)) of
        (True, Some key) \<Rightarrow>
          if key = [] then send N i msg_type data S
          else (let ct = aes_encrypt (net_suite N) nonce key (encode (json_spaced (message msg_type (PDict data)))) []
                in send N i ''encrypted'' [(''data'', PStr (hex ct))] S)
      | _ \<Rightarrow> send N i msg_type data S)"

text \<open>\<open>broadcast\<close>: every connected peer of the table but the excluded one, each with a nonce of its own.\<close>

definition broadcast :: "net \<Rightarrow> (nat \<Rightarrow> bytes) \<Rightarrow> string \<Rightarrow> fields \<Rightarrow> string \<Rightarrow> p2p_node \<Rightarrow> p2p_node" where
  "broadcast N nonce msg_type data exclude S =
     fold (\<lambda>(addr, i) T. send_encrypted N (nonce i) i msg_type data T)
       (filter (\<lambda>(addr, i). addr \<noteq> exclude \<and> pr_connected (pn_peer S i)) (pn_peers S)) S"

definition connected_count :: "p2p_node \<Rightarrow> int" where
  "connected_count S = int (length (filter (\<lambda>(k, i). pr_connected (pn_peer S i)) (pn_peers S)))"

definition best_peer_height :: "p2p_node \<Rightarrow> int" where
  "best_peer_height S =
     (let heights = map (\<lambda>(k, i). pr_height (pn_peer S i))
                      (filter (\<lambda>(k, i). pr_connected (pn_peer S i) \<and> pr_height (pn_peer S i) \<ge> 0) (pn_peers S))
      in if heights \<noteq> [] then fold max (tl heights) (hd heights) else - 1)"

definition close_peer :: "nat \<Rightarrow> p2p_node \<Rightarrow> p2p_node" where
  "close_peer i S = upd i (\<lambda>p. p\<lparr>pr_open := False, pr_connected := False\<rparr>) S"

section \<open>Limits\<close>

text \<open>\<open>while len(d) > cap: d.popitem(last=False)\<close> keeps the last entries.\<close>

definition check_auth_rate :: "rat \<Rightarrow> string \<Rightarrow> p2p_node \<Rightarrow> bool \<times> p2p_node" where
  "check_auth_rate now host S =
     (if is_localhost host then (True, S)
      else (let attempts = filter (\<lambda>t. now - t < AUTH_RATE_WINDOW) (dget_or (pn_attempts S) host [])
            in if length attempts \<ge> AUTH_RATE_MAX then (False, S)
               else (let d = dpop (pn_attempts S) host @ [(host, attempts @ [now])]
                     in (True, S\<lparr>pn_attempts := drop (length d - AUTH_ATTEMPTS_CAP) d\<rparr>))))"

definition check_rate_limit :: "rat \<Rightarrow> nat \<Rightarrow> string \<Rightarrow> p2p_node \<Rightarrow> bool \<times> p2p_node" where
  "check_rate_limit now i msg_type S =
     (let host = pr_host (pn_peer S i)
      in if msg_type \<in> set RATE_EXEMPT then (True, S)
         else if is_localhost host then (True, S)
         else (let (allowed, l) = check now host (pn_limiter S) in (allowed, S\<lparr>pn_limiter := l\<rparr>)))"

text \<open>\<open>self.reputation.record(peer.addr, event)\<close> for an event the table knows.\<close>

definition record_peer :: "rat \<Rightarrow> nat \<Rightarrow> string \<Rightarrow> p2p_node \<Rightarrow> p2p_node" where
  "record_peer now i event S =
     S\<lparr>pn_reputation := snd (record_event now (peer_addr (pn_peer S i)) event (pn_reputation S))\<rparr>"

definition should_disconnect_rate :: "rat \<Rightarrow> nat \<Rightarrow> p2p_node \<Rightarrow> bool \<times> p2p_node" where
  "should_disconnect_rate now i S =
     (if violations (pn_limiter S) (pr_host (pn_peer S i)) \<ge> P2P_RATE_VIOLATIONS_MAX
      then (True, record_peer now i ''rate_limited'' S) else (False, S))"

definition check_reputation :: "nat \<Rightarrow> p2p_node \<Rightarrow> bool" where
  "check_reputation i S \<longleftrightarrow> \<not> is_banned (pn_reputation S) (peer_addr (pn_peer S i))"

text \<open>One round of \<open>_rate_cleanup_loop\<close>.\<close>

definition rate_cleanup :: "rat \<Rightarrow> p2p_node \<Rightarrow> p2p_node" where
  "rate_cleanup now S =
     S\<lparr>pn_limiter := snd (cleanup now (pn_limiter S)),
       pn_attempts := filter (\<lambda>(k, ts). \<not> (ts = [] \<or> last ts < now - AUTH_RATE_WINDOW)) (pn_attempts S),
       pn_reputation := decay (pn_reputation S)\<rparr>"

section \<open>The table of connections\<close>

definition port_in_range :: "pyval \<Rightarrow> bool" where
  "port_in_range v \<longleftrightarrow> is_int v \<and> 0 < int_of_py v \<and> int_of_py v \<le> 65535"

definition update_peer_key :: "nat \<Rightarrow> string \<Rightarrow> string \<Rightarrow> pyval \<Rightarrow> p2p_node \<Rightarrow> string \<times> p2p_node" where
  "update_peer_key i peer_key temp_key new_port S =
     (if \<not> port_in_range new_port then (peer_key, S)
      else (let S1 = upd i (pr_port_update (\<lambda>_. new_port)) (S\<lparr>pn_peers := dpop (pn_peers S) peer_key\<rparr>);
                real_key = peer_addr (pn_peer S1 i);
                key = (if dmem real_key (pn_peers S1) then temp_key else real_key)
            in (key, S1\<lparr>pn_peers := dset (pn_peers S1) key i\<rparr>)))"

end
