(* ===== verification/Sha3.thy ===== *)
theory Sha3
  imports Config
begin

text \<open>
  \<open>hashlib.sha3_256\<close>, which \<open>crypto/hashing.py\<close> wraps: the Keccak sponge of FIPS 202 with rate
  136 bytes, suffix 0x06 and a 32-byte digest. The components take the hash function as a
  parameter and this theory provides the instance the program runs with.
\<close>

unbundle bit_operations_syntax

type_synonym lane = "64 word"

definition rho_offsets :: "nat list" where
  "rho_offsets =
     [0, 1, 62, 28, 27, 36, 44, 6, 55, 20, 3, 10, 43, 25, 39, 41, 45, 15, 21, 8, 18, 2, 61, 56, 14]"

definition round_constants :: "lane list" where
  "round_constants =
     [0x0000000000000001, 0x0000000000008082, 0x800000000000808A, 0x8000000080008000,
      0x000000000000808B, 0x0000000080000001, 0x8000000080008081, 0x8000000000008009,
      0x000000000000008A, 0x0000000000000088, 0x0000000080008009, 0x000000008000000A,
      0x000000008000808B, 0x800000000000008B, 0x8000000000008089, 0x8000000000008003,
      0x8000000000008002, 0x8000000000000080, 0x000000000000800A, 0x800000008000000A,
      0x8000000080008081, 0x8000000000008080, 0x0000000080000001, 0x8000000080008008]"

definition theta :: "lane list \<Rightarrow> lane list" where
  "theta a =
     (let c = map (\<lambda>x. a ! x XOR a ! (x + 5) XOR a ! (x + 10) XOR a ! (x + 15) XOR a ! (x + 20)) [0..<5];
          d = map (\<lambda>x. c ! ((x + 4) mod 5) XOR word_rotl 1 (c ! ((x + 1) mod 5))) [0..<5]
      in map (\<lambda>i. a ! i XOR d ! (i mod 5)) [0..<25])"

text \<open>Lane \<open>x + 5 y\<close> moves to column \<open>y\<close>, row \<open>2 x + 3 y\<close>: read backwards, lane \<open>i\<close> comes from
  column \<open>x' + 3 y'\<close> and row \<open>x'\<close> of its own coordinates \<open>x', y'\<close>.\<close>

definition rho_pi :: "lane list \<Rightarrow> lane list" where
  "rho_pi a =
     map (\<lambda>i. let x = i mod 5; y = i div 5; j = (x + 3 * y) mod 5 + 5 * x
              in word_rotl (rho_offsets ! j) (a ! j)) [0..<25]"

definition chi :: "lane list \<Rightarrow> lane list" where
  "chi b =
     map (\<lambda>i. let x = i mod 5; r = 5 * (i div 5)
              in b ! i XOR (NOT (b ! (r + (x + 1) mod 5)) AND b ! (r + (x + 2) mod 5))) [0..<25]"

definition keccak_round :: "lane \<Rightarrow> lane list \<Rightarrow> lane list" where
  "keccak_round rc a = (let b = chi (rho_pi (theta a)) in b[0 := b ! 0 XOR rc])"

definition keccak_f :: "lane list \<Rightarrow> lane list" where
  "keccak_f a = fold keccak_round round_constants a"

definition lane_of_bytes :: "bytes \<Rightarrow> lane" where
  "lane_of_bytes bs = foldr (\<lambda>b a. 256 * a + ucast b) bs 0"

definition absorb :: "bytes \<Rightarrow> lane list \<Rightarrow> lane list" where
  "absorb block a =
     keccak_f (map (\<lambda>i. if i < 17 then a ! i XOR lane_of_bytes (take 8 (drop (8 * i) block)) else a ! i)
       [0..<25])"

definition sha3_pad :: "bytes \<Rightarrow> bytes" where
  "sha3_pad m =
     (let q = 136 - length m mod 136
      in if q = 1 then m @ [0x86] else m @ [0x06] @ replicate (q - 2) 0 @ [0x80])"

fun absorb_all :: "nat \<Rightarrow> bytes \<Rightarrow> lane list \<Rightarrow> lane list" where
  "absorb_all 0 m a = a"
| "absorb_all (Suc n) m a = absorb_all n (drop 136 m) (absorb (take 136 m) a)"

definition squeeze :: "lane list \<Rightarrow> bytes" where
  "squeeze a = map (\<lambda>i. ucast (drop_bit (8 * (i mod 8)) (a ! (i div 8)))) [0..<32]"

definition sha3_256 :: "bytes \<Rightarrow> bytes" where
  "sha3_256 m =
     (let p = sha3_pad m in squeeze (absorb_all (length p div 136) p (replicate 25 0)))"

lemma length_sha3_256 [simp]: "length (sha3_256 m) = 32"
  by (simp add: sha3_256_def Let_def squeeze_def)

lemma sha3_pad_length: "136 dvd length (sha3_pad m)"
proof -
  let ?r = "length m mod 136"
  have r: "?r < 136" by simp
  have "length (sha3_pad m) = length m + (136 - ?r)"
    using r by (auto simp: sha3_pad_def Let_def)
  also have "\<dots> = 136 * (length m div 136) + 136"
    using r mult_div_mod_eq[of 136 "length m"] by linarith
  finally show ?thesis by simp
qed

end
