(* ===== verification/Merkle.thy ===== *)
theory Merkle
  imports Sha3
begin

text \<open>
  \<open>crypto/hashing.py\<close>: Merkle roots, inclusion proofs and their verification over a hash function
  \<open>h\<close>, with leaves and nodes hashed under different one-byte prefixes. The abstract view is the
  binary tree the layers of the loop build (\<open>mtree\<close>): the root is the hash of that tree, a proof
  for a leaf verifies (completeness), and a proof that verifies is of a leaf (soundness) unless
  the verifier and the tree have hashed two different inputs to one digest.
\<close>

definition leaf_hash :: "(bytes \<Rightarrow> bytes) \<Rightarrow> bytes \<Rightarrow> bytes" where
  "leaf_hash h item = h (0 # item)"

definition merkle_node :: "(bytes \<Rightarrow> bytes) \<Rightarrow> bytes \<Rightarrow> bytes \<Rightarrow> bytes" where
  "merkle_node h left right = h (1 # left @ right)"

text \<open>One pass of the \<open>while\<close> loop: neighbours are paired, an odd last element is promoted.\<close>

fun pair_up :: "('a \<Rightarrow> 'a \<Rightarrow> 'a) \<Rightarrow> 'a list \<Rightarrow> 'a list" where
  "pair_up f (a # b # xs) = f a b # pair_up f xs"
| "pair_up f [a] = [a]"
| "pair_up f [] = []"

lemma length_pair_up: "length (pair_up f xs) = (length xs + 1) div 2"
  by (induction f xs rule: pair_up.induct) auto

function reduce :: "('a \<Rightarrow> 'a \<Rightarrow> 'a) \<Rightarrow> 'a list \<Rightarrow> 'a" where
  "reduce f xs = (if length xs > 1 then reduce f (pair_up f xs) else hd xs)"
  by pat_completeness auto
termination
  by (relation "measure (\<lambda>(f, xs). length xs)") (auto simp: length_pair_up)

declare reduce.simps [simp del]

definition merkle_root :: "(bytes \<Rightarrow> bytes) \<Rightarrow> bytes list \<Rightarrow> bytes" where
  "merkle_root h items =
     (if items = [] then replicate 32 0 else reduce (merkle_node h) (map (leaf_hash h) items))"

text \<open>
  The entry the loop adds for one layer: the pair that starts at the even position at or below
  \<open>idx\<close>, when it is one of \<open>range(0, len(layer) - 1, 2)\<close>.
\<close>

definition proof_entry :: "bytes list \<Rightarrow> int \<Rightarrow> (bytes \<times> bool) list" where
  "proof_entry layer idx =
     (let i = idx - idx mod 2
      in if 0 \<le> i \<and> i < int (length layer) - 1
         then [if idx mod 2 = 0 then (layer ! nat (i + 1), False) else (layer ! nat i, True)]
         else [])"

function proof_path :: "(bytes \<Rightarrow> bytes) \<Rightarrow> bytes list \<Rightarrow> int \<Rightarrow> (bytes \<times> bool) list" where
  "proof_path h layer idx =
     (if length layer > 1
      then proof_entry layer idx @ proof_path h (pair_up (merkle_node h) layer) (idx div 2)
      else [])"
  by pat_completeness auto
termination
  by (relation "measure (\<lambda>(h, xs, i). length xs)") (auto simp: length_pair_up)

declare proof_path.simps [simp del]

definition merkle_proof :: "(bytes \<Rightarrow> bytes) \<Rightarrow> bytes list \<Rightarrow> int \<Rightarrow> (bytes \<times> bool) list" where
  "merkle_proof h items index =
     (if items = [] \<or> int (length items) \<le> index then []
      else proof_path h (map (leaf_hash h) items) index)"

definition verify_step :: "(bytes \<Rightarrow> bytes) \<Rightarrow> bytes \<Rightarrow> bytes \<times> bool \<Rightarrow> bytes" where
  "verify_step h current p =
     (if snd p then merkle_node h (fst p) current else merkle_node h current (fst p))"

definition verify_merkle_proof ::
    "(bytes \<Rightarrow> bytes) \<Rightarrow> bytes \<Rightarrow> (bytes \<times> bool) list \<Rightarrow> bytes \<Rightarrow> bool" where
  "verify_merkle_proof h leaf proof root \<longleftrightarrow> foldl (verify_step h) (leaf_hash h leaf) proof = root"

section \<open>Completeness\<close>

lemma nth_pair_up:
  "i < length xs \<Longrightarrow>
   pair_up f xs ! (i div 2) =
     (if 2 * (i div 2) + 1 < length xs then f (xs ! (2 * (i div 2))) (xs ! (2 * (i div 2) + 1))
      else xs ! (2 * (i div 2)))"
proof (induction f xs arbitrary: i rule: pair_up.induct)
  case (1 f a b xs)
  show ?case
  proof (cases "i < 2")
    case True
    then have "i div 2 = 0" by simp
    then show ?thesis by simp
  next
    case False
    then have i: "i div 2 = Suc ((i - 2) div 2)" and l: "i - 2 < length xs"
      using "1.prems" by auto
    show ?thesis using "1.IH"[OF l] by (simp add: i)
  qed
qed auto

lemma proof_entry_step:
  assumes "i < length layer"
  shows "foldl (verify_step h) (layer ! i) (proof_entry layer (int i))
           = pair_up (merkle_node h) layer ! (i div 2)"
proof (cases "even i")
  case True
  then obtain k where k: "i = 2 * k" by blast
  have "nat (2 * int k + 1) = 2 * k + 1" "nat (2 * int k) = 2 * k" by simp_all
  then show ?thesis
    using assms nth_pair_up[OF assms, of "merkle_node h"]
    by (auto simp: proof_entry_def Let_def k verify_step_def)
next
  case False
  then obtain k where k: "i = 2 * k + 1" by (auto elim: oddE)
  have "(1 + 2 * int k) mod 2 = 1" "nat (2 * int k) = 2 * k" by presburger simp
  then show ?thesis
    using assms nth_pair_up[OF assms, of "merkle_node h"]
    by (auto simp: proof_entry_def Let_def k verify_step_def)
qed

lemma proof_path_verifies:
  "i < length layer \<Longrightarrow>
   foldl (verify_step h) (layer ! i) (proof_path h layer (int i)) = reduce (merkle_node h) layer"
proof (induction "length layer" arbitrary: layer i rule: less_induct)
  case less
  show ?case
  proof (cases "length layer > 1")
    case True
    let ?n = "pair_up (merkle_node h) layer"
    have s: "length ?n < length layer" and j: "i div 2 < length ?n"
      using True less.prems by (auto simp: length_pair_up)
    have "foldl (verify_step h) (?n ! (i div 2)) (proof_path h ?n (int (i div 2)))
            = reduce (merkle_node h) ?n"
      by (rule less.hyps[OF s j])
    then show ?thesis
      using True proof_entry_step[OF less.prems, of h]
      by (simp add: proof_path.simps[of h layer] reduce.simps[of _ layer] zdiv_int)
  next
    case False
    then have "layer = [layer ! 0]" "i = 0" using less.prems by (cases layer; auto)+
    then show ?thesis
      by (metis proof_path.simps reduce.simps False foldl_Nil list.sel(1))
  qed
qed

lemma merkle_proof_verifies:
  assumes "i < length items"
  shows "verify_merkle_proof h (items ! i) (merkle_proof h items (int i)) (merkle_root h items)"
proof -
  have ne: "items \<noteq> []" using assms by auto
  have "foldl (verify_step h) (map (leaf_hash h) items ! i)
          (proof_path h (map (leaf_hash h) items) (int i))
        = reduce (merkle_node h) (map (leaf_hash h) items)"
    by (rule proof_path_verifies) (simp add: assms)
  then show ?thesis
    using assms ne by (simp add: verify_merkle_proof_def merkle_proof_def merkle_root_def)
qed

section \<open>The abstract tree\<close>

datatype mtree = MLeaf bytes | MNode mtree mtree

fun tree_hash :: "(bytes \<Rightarrow> bytes) \<Rightarrow> mtree \<Rightarrow> bytes" where
  "tree_hash h (MLeaf x) = leaf_hash h x"
| "tree_hash h (MNode l r) = merkle_node h (tree_hash h l) (tree_hash h r)"

fun tree_leaves :: "mtree \<Rightarrow> bytes list" where
  "tree_leaves (MLeaf x) = [x]"
| "tree_leaves (MNode l r) = tree_leaves l @ tree_leaves r"

text \<open>The inputs the tree's hashes are computed from.\<close>

fun tree_inputs :: "(bytes \<Rightarrow> bytes) \<Rightarrow> mtree \<Rightarrow> bytes set" where
  "tree_inputs h (MLeaf x) = {0 # x}"
| "tree_inputs h (MNode l r) =
     insert (1 # tree_hash h l @ tree_hash h r) (tree_inputs h l \<union> tree_inputs h r)"

definition merkle_tree :: "bytes list \<Rightarrow> mtree" where
  "merkle_tree items = reduce MNode (map MLeaf items)"

text \<open>The inputs the verifier hashes.\<close>

fun verify_inputs :: "(bytes \<Rightarrow> bytes) \<Rightarrow> bytes \<Rightarrow> (bytes \<times> bool) list \<Rightarrow> bytes set" where
  "verify_inputs h cur [] = {}"
| "verify_inputs h cur (p # ps) =
     insert (1 # (if snd p then fst p @ cur else cur @ fst p))
       (verify_inputs h (verify_step h cur p) ps)"

lemma pair_up_map:
  "(\<And>a b. g (f a b) = f' (g a) (g b)) \<Longrightarrow> map g (pair_up f xs) = pair_up f' (map g xs)"
  by (induction f xs rule: pair_up.induct) auto

lemma reduce_map:
  assumes "\<And>a b. g (f a b) = f' (g a) (g b)" "xs \<noteq> []"
  shows "g (reduce f xs) = reduce f' (map g xs)"
  using assms(2)
proof (induction "length xs" arbitrary: xs rule: less_induct)
  case less
  show ?case
  proof (cases "length xs > 1")
    case True
    have s: "length (pair_up f xs) < length xs" "pair_up f xs \<noteq> []"
      using True length_pair_up[of f xs] by auto
    have "g (reduce f (pair_up f xs)) = reduce f' (map g (pair_up f xs))"
      by (rule less.hyps[OF s])
    then show ?thesis
      using True pair_up_map[of g f f' xs, OF assms(1)]
      by (simp add: reduce.simps[of f xs] reduce.simps[of f' "map g xs"])
  next
    case False
    then show ?thesis
      using less.prems by (simp add: reduce.simps[of f xs] reduce.simps[of f' "map g xs"] hd_map)
  qed
qed

lemma merkle_root_tree_hash: "items \<noteq> [] \<Longrightarrow> merkle_root h items = tree_hash h (merkle_tree items)"
  using reduce_map[of "tree_hash h" MNode "merkle_node h" "map MLeaf items"]
  by (simp add: merkle_root_def merkle_tree_def comp_def)

lemma tree_leaves_pair_up:
  "concat (map tree_leaves (pair_up MNode ts)) = concat (map tree_leaves ts)"
  by (induction MNode ts rule: pair_up.induct) auto

lemma tree_leaves_reduce: "ts \<noteq> [] \<Longrightarrow> tree_leaves (reduce MNode ts) = concat (map tree_leaves ts)"
proof (induction "length ts" arbitrary: ts rule: less_induct)
  case less
  show ?case
  proof (cases "length ts > 1")
    case True
    then have "length (pair_up MNode ts) < length ts" "pair_up MNode ts \<noteq> []"
      using length_pair_up[of MNode ts] by auto
    then show ?thesis
      using less.hyps[of "pair_up MNode ts"] True
      by (simp add: reduce.simps[of MNode ts] tree_leaves_pair_up)
  next
    case False
    then have "ts = [hd ts]" using less.prems by (cases ts) auto
    then show ?thesis by (metis False concat.simps list.map append_Nil2 reduce.simps)
  qed
qed

lemma leaves_merkle_tree: "items \<noteq> [] \<Longrightarrow> tree_leaves (merkle_tree items) = items"
  by (simp add: merkle_tree_def tree_leaves_reduce comp_def)

section \<open>Soundness\<close>

text \<open>The laws of the hash function the soundness of proofs rests on.\<close>

locale digest =
  fixes h :: "bytes \<Rightarrow> bytes"
  assumes digest_length: "length (h x) = 32"
begin

lemma length_tree_hash: "length (tree_hash h t) = 32"
  by (cases t) (simp_all add: leaf_hash_def merkle_node_def digest_length)

lemma length_foldl_verify: "length c = 32 \<Longrightarrow> length (foldl (verify_step h) c ps) = 32"
  by (induction ps arbitrary: c) (auto simp: verify_step_def merkle_node_def digest_length)

lemma verify_inputs_snoc:
  "verify_inputs h c (ps @ [p]) =
     insert (1 # (if snd p then fst p @ foldl (verify_step h) c ps
                  else foldl (verify_step h) c ps @ fst p))
       (verify_inputs h c ps)"
  by (induction ps arbitrary: c) auto

text \<open>A verified value that equals the hash of a subtree is the hash of one of its leaves.\<close>

lemma verified_leaf_in_tree:
  assumes inj: "inj_on h (insert (0 # leaf) (verify_inputs h (leaf_hash h leaf) ps) \<union> S)"
    and sub: "tree_inputs h t \<subseteq> S"
    and eq: "foldl (verify_step h) (leaf_hash h leaf) ps = tree_hash h t"
  shows "leaf \<in> set (tree_leaves t)"
  using assms
proof (induction ps arbitrary: t rule: rev_induct)
  case Nil
  show ?case
  proof (cases t)
    case (MLeaf x)
    with Nil have "h (0 # leaf) = h (0 # x)" by (simp add: leaf_hash_def)
    then have "(0 :: byte) # leaf = 0 # x"
      using Nil(1,2) MLeaf by (auto dest!: inj_onD)
    with MLeaf show ?thesis by simp
  next
    case (MNode l r)
    with Nil have "h (0 # leaf) = h (1 # tree_hash h l @ tree_hash h r)"
      by (simp add: leaf_hash_def merkle_node_def)
    then have "(0 :: byte) # leaf = 1 # tree_hash h l @ tree_hash h r"
      using Nil(1,2) MNode by (auto dest!: inj_onD)
    then show ?thesis by simp
  qed
next
  case (snoc p ps)
  let ?c = "foldl (verify_step h) (leaf_hash h leaf) ps"
  let ?in = "1 # (if snd p then fst p @ ?c else ?c @ fst p)"
  have c: "length ?c = 32" by (rule length_foldl_verify) (simp add: leaf_hash_def digest_length)
  have hin: "h ?in = tree_hash h t"
    using snoc.prems(3) by (cases "snd p") (simp_all add: verify_step_def[of h ?c p] merkle_node_def)
  have mem: "?in \<in> verify_inputs h (leaf_hash h leaf) (ps @ [p])"
    by (simp add: verify_inputs_snoc)
  have inj': "inj_on h (insert (0 # leaf) (verify_inputs h (leaf_hash h leaf) ps) \<union> S)"
    by (rule inj_on_subset[OF snoc.prems(1)]) (auto simp: verify_inputs_snoc)
  show ?case
  proof (cases t)
    case (MLeaf x)
    with hin have "h ?in = h (0 # x)" by (simp add: leaf_hash_def)
    then have "?in = 0 # x"
      by (rule inj_onD[OF snoc.prems(1)]) (use mem MLeaf snoc.prems(2) in auto)
    then show ?thesis by simp
  next
    case (MNode l r)
    with hin have "h ?in = h (1 # tree_hash h l @ tree_hash h r)" by (simp add: merkle_node_def)
    then have e: "?in = 1 # tree_hash h l @ tree_hash h r"
      by (rule inj_onD[OF snoc.prems(1)]) (use mem MNode snoc.prems(2) in auto)
    have ls: "length (tree_hash h l) = 32" "length (tree_hash h r) = 32"
      by (rule length_tree_hash)+
    have "?c = tree_hash h l \<or> ?c = tree_hash h r"
    proof (cases "snd p")
      case True
      then have "fst p @ ?c = tree_hash h l @ tree_hash h r" using e by simp
      then show ?thesis using c ls by (metis append_eq_append_conv length_append add_right_cancel)
    next
      case False
      then have "?c @ fst p = tree_hash h l @ tree_hash h r" using e by simp
      then show ?thesis using c ls by (metis append_eq_append_conv)
    qed
    then show ?thesis
      using snoc.IH[OF inj', of l] snoc.IH[OF inj', of r] snoc.prems(2) MNode by auto
  qed
qed

lemma verify_merkle_proof_sound:
  assumes "items \<noteq> []"
    and "verify_merkle_proof h leaf ps (merkle_root h items)"
    and "inj_on h (insert (0 # leaf) (verify_inputs h (leaf_hash h leaf) ps)
                     \<union> tree_inputs h (merkle_tree items))"
  shows "leaf \<in> set items"
proof -
  have "foldl (verify_step h) (leaf_hash h leaf) ps = tree_hash h (merkle_tree items)"
    using assms(2) merkle_root_tree_hash[OF assms(1)] by (simp add: verify_merkle_proof_def)
  then have "leaf \<in> set (tree_leaves (merkle_tree items))"
    by (rule verified_leaf_in_tree[OF assms(3) order_refl])
  then show ?thesis by (simp add: leaves_merkle_tree assms(1))
qed

text \<open>Equal roots come from equal trees, hence from equal lists of items.\<close>

lemma tree_hash_input:
  "\<exists>x. tree_hash h t = h x \<and> x \<in> tree_inputs h t
     \<and> x = (case t of MLeaf y \<Rightarrow> 0 # y | MNode l r \<Rightarrow> 1 # tree_hash h l @ tree_hash h r)"
  by (cases t) (simp_all add: leaf_hash_def merkle_node_def)

lemma tree_hash_inj:
  "inj_on h (tree_inputs h t \<union> tree_inputs h u) \<Longrightarrow> tree_hash h t = tree_hash h u \<Longrightarrow> t = u"
proof (induction t arbitrary: u)
  case (MLeaf x)
  obtain y where y: "tree_hash h u = h y" "y \<in> tree_inputs h u"
    "y = (case u of MLeaf z \<Rightarrow> 0 # z | MNode l r \<Rightarrow> 1 # tree_hash h l @ tree_hash h r)"
    using tree_hash_input by blast
  have "0 # x = y"
    by (rule inj_onD[OF MLeaf.prems(1)]) (use y MLeaf.prems(2) in \<open>simp_all add: leaf_hash_def\<close>)
  then show ?case using y(3) by (cases u) auto
next
  case (MNode a b)
  obtain y where y: "tree_hash h u = h y" "y \<in> tree_inputs h u"
    "y = (case u of MLeaf z \<Rightarrow> 0 # z | MNode l r \<Rightarrow> 1 # tree_hash h l @ tree_hash h r)"
    using tree_hash_input by blast
  have ay: "1 # tree_hash h a @ tree_hash h b = y"
    by (rule inj_onD[OF MNode.prems(1)]) (use y MNode.prems(2) in \<open>simp_all add: merkle_node_def\<close>)
  then obtain c d where u: "u = MNode c d"
    using y(3) by (cases u) auto
  then have e: "tree_hash h a = tree_hash h c" "tree_hash h b = tree_hash h d"
    using ay y(3) by (simp_all add: append_eq_append_conv length_tree_hash)
  have i: "inj_on h (tree_inputs h a \<union> tree_inputs h c)"
    by (rule inj_on_subset[OF MNode.prems(1)]) (use u in auto)
  have j: "inj_on h (tree_inputs h b \<union> tree_inputs h d)"
    by (rule inj_on_subset[OF MNode.prems(1)]) (use u in auto)
  show ?case using MNode.IH(1)[OF i e(1)] MNode.IH(2)[OF j e(2)] u by simp
qed

lemma merkle_root_binding:
  assumes "xs \<noteq> []" "ys \<noteq> []" "merkle_root h xs = merkle_root h ys"
    and "inj_on h (tree_inputs h (merkle_tree xs) \<union> tree_inputs h (merkle_tree ys))"
  shows "xs = ys"
proof -
  have "merkle_tree xs = merkle_tree ys"
    using assms by (intro tree_hash_inj) (simp_all add: merkle_root_tree_hash)
  then show ?thesis using leaves_merkle_tree assms(1,2) by metis
qed

lemma length_merkle_root: "length (merkle_root h items) = 32"
  by (cases "items = []") (simp_all add: merkle_root_tree_hash length_tree_hash, simp add: merkle_root_def)

end

interpretation sha3_digest: digest sha3_256
  by unfold_locales simp

end
