(* ===== verification/Block.thy ===== *)
theory Block
  imports TxWire Merkle
begin

text \<open>
  \<open>core/block.py\<close>: the block, its header bytes and hash, the Merkle proofs of its transactions and
  its JSON forms. The constructor computes the Merkle root from the transactions; \<open>block_ok\<close> says
  that a block is as the constructor leaves it. The caches \<open>_cached_header\<close> and \<open>_cached_hash\<close> are
  not part of the model: the code clears them whenever it changes a field of the header.
\<close>

record block =
  b_index :: int
  b_prev_hash :: string
  b_txs :: "transaction list"
  b_validator :: string
  b_timestamp :: int
  b_signature :: bytes
  b_merkle_root :: string
  b_base_fee :: int
  b_state_root :: string
  b_receipts_root :: string

definition txs_root :: "env \<Rightarrow> transaction list \<Rightarrow> string" where
  "txs_root E txs = hex (merkle_root (sha3 E) (map (tx_hash E) txs))"

definition mk_block ::
    "env \<Rightarrow> int \<Rightarrow> string \<Rightarrow> transaction list \<Rightarrow> string \<Rightarrow> int \<Rightarrow> bytes \<Rightarrow> int \<Rightarrow> string \<Rightarrow> string \<Rightarrow> block" where
  "mk_block E idx prev txs validator ts sig fee sroot rroot =
     \<lparr>b_index = idx, b_prev_hash = prev, b_txs = txs, b_validator = validator, b_timestamp = ts,
      b_signature = sig, b_merkle_root = txs_root E txs, b_base_fee = fee, b_state_root = sroot,
      b_receipts_root = rroot\<rparr>"

definition block_ok :: "env \<Rightarrow> block \<Rightarrow> bool" where
  "block_ok E b \<longleftrightarrow> b_merkle_root b = txs_root E (b_txs b)"

definition header_obj :: "block \<Rightarrow> pyval" where
  "header_obj b =
     PDict ([(''baseFee'', PInt (b_base_fee b)),
             (''index'', PInt (b_index b)),
             (''merkleRoot'', PStr (b_merkle_root b)),
             (''prevHash'', PStr (b_prev_hash b)),
             (''timestamp'', PInt (b_timestamp b)),
             (''txCount'', PInt (int (length (b_txs b)))),
             (''validator'', PStr (b_validator b))]
            @ (if b_receipts_root b \<noteq> [] then [(''receiptsRoot'', PStr (b_receipts_root b))] else [])
            @ (if b_state_root b \<noteq> [] then [(''stateRoot'', PStr (b_state_root b))] else []))"

definition header_bytes :: "block \<Rightarrow> bytes" where
  "header_bytes b = encode (json_dumps (header_obj b))"

definition block_hash :: "env \<Rightarrow> block \<Rightarrow> string" where
  "block_hash E b = hex (sha3 E (header_bytes b))"

definition block_sign :: "env \<Rightarrow> block \<Rightarrow> bytes \<Rightarrow> block" where
  "block_sign E b sk = b\<lparr>b_signature := mldsa_sign E sk (header_bytes b)\<rparr>"

definition verify_signature :: "env \<Rightarrow> block \<Rightarrow> bytes \<Rightarrow> bool" where
  "verify_signature E b pk = verify_sig E pk (header_bytes b) (b_signature b)"

definition get_tx_proof :: "env \<Rightarrow> block \<Rightarrow> int \<Rightarrow> (bytes \<times> bool) list" where
  "get_tx_proof E b tx_index = merkle_proof (sha3 E) (map (tx_hash E) (b_txs b)) tx_index"

text \<open>\<open>None\<close> where \<open>bytes.fromhex\<close> raises ValueError.\<close>

definition verify_tx_proof :: "env \<Rightarrow> block \<Rightarrow> string \<Rightarrow> (bytes \<times> bool) list \<Rightarrow> bool option" where
  "verify_tx_proof E b tid path =
     (case (fromhex tid, fromhex (b_merkle_root b)) of
        (Some leaf, Some root) \<Rightarrow> Some (verify_merkle_proof (sha3 E) leaf path root)
      | _ \<Rightarrow> None)"

definition to_header_dict :: "env \<Rightarrow> block \<Rightarrow> (string \<times> pyval) list" where
  "to_header_dict E b =
     [(''hash'', PStr (block_hash E b)), (''index'', PInt (b_index b)),
      (''timestamp'', PInt (b_timestamp b)), (''prevHash'', PStr (b_prev_hash b)),
      (''merkleRoot'', PStr (b_merkle_root b)), (''baseFee'', PInt (b_base_fee b)),
      (''stateRoot'', PStr (b_state_root b)), (''receiptsRoot'', PStr (b_receipts_root b)),
      (''validator'', PStr (b_validator b)), (''txCount'', PInt (int (length (b_txs b)))),
      (''signature'', PStr (hex (b_signature b)))]"

definition block_to_dict :: "env \<Rightarrow> block \<Rightarrow> (string \<times> pyval) list" where
  "block_to_dict E b =
     [(''hash'', PStr (block_hash E b)), (''index'', PInt (b_index b)),
      (''timestamp'', PInt (b_timestamp b)), (''prevHash'', PStr (b_prev_hash b)),
      (''merkleRoot'', PStr (b_merkle_root b)), (''baseFee'', PInt (b_base_fee b)),
      (''stateRoot'', PStr (b_state_root b)), (''receiptsRoot'', PStr (b_receipts_root b)),
      (''validator'', PStr (b_validator b)),
      (''transactions'', PList (map (\<lambda>tx. PDict (tx_to_dict E tx)) (b_txs b))),
      (''signature'', PStr (hex (b_signature b)))]"

text \<open>
  \<open>[Transaction.from_dict(t) for t in ...]\<close>: the first exception ends the comprehension. An entry
  that is not a dict is outside the model.
\<close>

fun txs_from_list :: "pyval list \<Rightarrow> (exn + transaction list) option" where
  "txs_from_list [] = Some (Inr [])"
| "txs_from_list (PDict d # vs) =
     (case tx_from_dict d of
        None \<Rightarrow> None
      | Some (Inl e) \<Rightarrow> Some (Inl e)
      | Some (Inr tx) \<Rightarrow>
          (case txs_from_list vs of
             None \<Rightarrow> None
           | Some (Inl e) \<Rightarrow> Some (Inl e)
           | Some (Inr txs) \<Rightarrow> Some (Inr (tx # txs))))"
| "txs_from_list (v # vs) = None"

fun list_of_py :: "pyval \<Rightarrow> pyval list" where
  "list_of_py (PList vs) = vs"
| "list_of_py _ = []"

definition is_list :: "pyval \<Rightarrow> bool" where
  "is_list v \<longleftrightarrow> (case v of PList _ \<Rightarrow> True | _ \<Rightarrow> False)"

definition block_head_checks :: "(string \<times> pyval) list \<Rightarrow> outcome list" where
  "block_head_checks data =
     (let raw_fee = dget_or data ''baseFee'' (PInt 0)
      in [raise_if (\<not> is_int (dget_or data ''index'' PNone)) (ve ''block index must be int'' []),
          raise_if (\<not> is_int (dget_or data ''timestamp'' PNone)) (ve ''block timestamp must be int'' []),
          raise_if (is_bool raw_fee \<or> \<not> is_int raw_fee) (ve ''baseFee must be an integer'' []),
          raise_if (int_of_py raw_fee < 0) (ve ''baseFee must be non-negative'' [])])"

definition block_tail_checks :: "(string \<times> pyval) list \<Rightarrow> outcome list" where
  "block_tail_checks data =
     [raise_if (\<not> dmem ''prevHash'' data) (KeyError ''prevHash''),
      raise_if (\<not> is_str (dget_or data ''signature'' (PStr []))) TypeError,
      raise_if (fromhex (str_of_py (dget_or data ''signature'' (PStr []))) = None)
        (ve ''non-hexadecimal number found in fromhex() arg'' [])]"

definition block_in_model :: "(string \<times> pyval) list \<Rightarrow> bool" where
  "block_in_model data \<longleftrightarrow>
     \<not> is_bool (dget_or data ''index'' PNone) \<and> \<not> is_bool (dget_or data ''timestamp'' PNone)
     \<and> is_str (dget_or data ''prevHash'' PNone) \<and> is_str (dget_or data ''validator'' (PStr []))
     \<and> is_str (dget_or data ''stateRoot'' (PStr [])) \<and> is_str (dget_or data ''receiptsRoot'' (PStr []))
     \<and> is_list (dget_or data ''transactions'' (PList []))"

definition block_of_data :: "env \<Rightarrow> (string \<times> pyval) list \<Rightarrow> transaction list \<Rightarrow> block" where
  "block_of_data E data txs =
     mk_block E (int_of_py (dget_or data ''index'' PNone))
       (str_of_py (dget_or data ''prevHash'' PNone)) txs
       (str_of_py (dget_or data ''validator'' (PStr [])))
       (int_of_py (dget_or data ''timestamp'' PNone))
       (the_default [] (fromhex (str_of_py (dget_or data ''signature'' (PStr [])))))
       (int_of_py (dget_or data ''baseFee'' (PInt 0)))
       (str_of_py (dget_or data ''stateRoot'' (PStr [])))
       (str_of_py (dget_or data ''receiptsRoot'' (PStr [])))"

definition block_from_dict :: "env \<Rightarrow> (string \<times> pyval) list \<Rightarrow> (exn + block) option" where
  "block_from_dict E data =
     (case checks (block_head_checks data) of
        Raise e \<Rightarrow> Some (Inl e)
      | _ \<Rightarrow>
         (case txs_from_list (list_of_py (dget_or data ''transactions'' (PList []))) of
            None \<Rightarrow> None
          | Some (Inl e) \<Rightarrow> Some (Inl e)
          | Some (Inr txs) \<Rightarrow>
             (case checks (block_tail_checks data) of
                Raise e \<Rightarrow> Some (Inl e)
              | _ \<Rightarrow>
                 (if \<not> block_in_model data then None
                  else
                    (let b = block_of_data E data txs; claimed = dget_or data ''hash'' PNone
                     in if truthy claimed \<and> PStr (block_hash E b) \<noteq> claimed
                        then Some (Inl (ve ''block hash mismatch: computed {}... != claimed {}...''
                                          [PStr (take 16 (block_hash E b)), claimed]))
                        else Some (Inr b))))))"

definition genesis_block :: "env \<Rightarrow> string \<Rightarrow> transaction list \<Rightarrow> int \<Rightarrow> block" where
  "genesis_block E validator txs now =
     mk_block E 0 (replicate 64 (CHR ''0'')) txs validator now [] 0 [] []"

lemma block_ok_mk_block [simp]: "block_ok E (mk_block E i p t v ts s f sr rr)"
  by (simp add: block_ok_def mk_block_def)

text \<open>The pairs the weight functions of fees.py look at.\<close>

definition weigh :: "transaction list \<Rightarrow> (txtype \<times> string) list" where
  "weigh txs = map (\<lambda>tx. (tx_type tx, tx_sender tx)) txs"

section \<open>Round trip and proofs\<close>

lemma txs_from_list_to_dict:
  "list_all wire_ok txs \<Longrightarrow> txs_from_list (map (\<lambda>tx. PDict (tx_to_dict E tx)) txs) = Some (Inr txs)"
  by (induction txs) (simp_all add: from_dict_to_dict)

lemma block_of_to_dict: "block_ok E b \<Longrightarrow> block_of_data E (block_to_dict E b) (b_txs b) = b"
  by (simp add: block_of_data_def block_to_dict_def dget_or_def mk_block_def block_ok_def)

lemma block_from_dict_to_dict:
  assumes "block_ok E b" "list_all wire_ok (b_txs b)" "0 \<le> b_base_fee b"
  shows "block_from_dict E (block_to_dict E b) = Some (Inr b)"
proof -
  let ?d = "block_to_dict E b"
  have g: "dget_or ?d ''transactions'' (PList []) = PList (map (\<lambda>tx. PDict (tx_to_dict E tx)) (b_txs b))"
    "dget_or ?d ''hash'' PNone = PStr (block_hash E b)"
    by (simp_all add: block_to_dict_def dget_or_def)
  have "checks (block_head_checks ?d) = Ok []" "checks (block_tail_checks ?d) = Ok []"
    using assms(3)
    by (simp_all add: block_head_checks_def block_tail_checks_def block_to_dict_def dget_or_def dmem_def)
  moreover have "block_in_model ?d"
    by (simp add: block_in_model_def block_to_dict_def dget_or_def is_list_def)
  ultimately show ?thesis
    using g assms by (simp add: block_from_dict_def Let_def txs_from_list_to_dict block_of_to_dict)
qed

lemma block_from_dict_hash:
  assumes "block_from_dict E data = Some (Inr b)" "dget data ''hash'' = Some (PStr s)" "s \<noteq> []"
  shows "block_hash E b = s"
  using assms
  by (auto simp: block_from_dict_def Let_def dget_or_def[of data "''hash''"]
      split: outcome.splits option.splits sum.splits if_splits)

lemma block_from_dict_ok: "block_from_dict E data = Some (Inr b) \<Longrightarrow> block_ok E b"
  by (auto simp: block_from_dict_def Let_def block_of_data_def
      split: outcome.splits option.splits sum.splits if_splits)

lemma tx_proof_verifies:
  assumes "block_ok E b" "i < length (b_txs b)"
  shows "verify_tx_proof E b (tx_id E (b_txs b ! i)) (get_tx_proof E b (int i)) = Some True"
proof -
  have "verify_merkle_proof (sha3 E) (map (tx_hash E) (b_txs b) ! i)
          (merkle_proof (sha3 E) (map (tx_hash E) (b_txs b)) (int i))
          (merkle_root (sha3 E) (map (tx_hash E) (b_txs b)))"
    by (rule merkle_proof_verifies) (simp add: assms(2))
  then show ?thesis
    using assms by (simp add: verify_tx_proof_def tx_id_def get_tx_proof_def block_ok_def txs_root_def)
qed

end
