(* ===== verification/Ledger.thy ===== *)
theory Ledger
  imports Block
begin

text \<open>
  \<open>core/ledger.py\<close>: balances in qubits, supply counters and the block reward. The Blockchain class is
  assembled from mixins that share one \<open>self\<close>; here each mixin is a record that extends the one
  before it, and an operation of a mixin works on every extension (\<open>'a ledger_scheme\<close>). The
  contract the other components rely on is the locale \<open>fund_ledger\<close>: a credit adds, a debit takes
  what is there or fails without effect.
\<close>

record ledger =
  balances :: "(string, int) dict"
  total_minted :: int
  total_burned :: int
  financial_active :: bool

definition get_balance :: "'a ledger_scheme \<Rightarrow> string \<Rightarrow> int" where
  "get_balance s address = dget_or (balances s) address 0"

text \<open>The state after a credit or a debit that goes through.\<close>

definition credited :: "string \<Rightarrow> int \<Rightarrow> 'a ledger_scheme \<Rightarrow> 'a ledger_scheme" where
  "credited address amount s =
     (if amount = 0 then s
      else s\<lparr>balances := dset (balances s) address (get_balance s address + amount)\<rparr>)"

definition debited :: "string \<Rightarrow> int \<Rightarrow> 'a ledger_scheme \<Rightarrow> 'a ledger_scheme" where
  "debited address amount s =
     (if amount = 0 then s
      else
        (let new_balance = get_balance s address - amount
         in if new_balance = 0 then s\<lparr>balances := dpop (balances s) address\<rparr>
            else s\<lparr>balances := dset (balances s) address new_balance\<rparr>))"

definition credit :: "string \<Rightarrow> int \<Rightarrow> ('a ledger_scheme) act" where
  "credit address amount s =
     (if amount < 0 then (Some (ValueError (Msg ''credit amount must be non-negative'' [])), s)
      else (None, credited address amount s))"

definition debit :: "string \<Rightarrow> int \<Rightarrow> ('a ledger_scheme) act" where
  "debit address amount s =
     (if amount < 0 then (Some (ValueError (Msg ''debit amount must be non-negative'' [])), s)
      else if amount = 0 then (None, s)
      else if get_balance s address < amount
        then (Some (ValueError (Msg ''insufficient balance: {} < {}''
                [PInt (get_balance s address), PInt amount])), s)
      else (None, debited address amount s))"

text \<open>Debit during rollback: the balance may go below zero until the rollback is complete.\<close>

definition rollback_debit :: "string \<Rightarrow> int \<Rightarrow> 'a ledger_scheme \<Rightarrow> 'a ledger_scheme" where
  "rollback_debit address amount s = (if amount \<le> 0 then s else debited address amount s)"

record supply_stats =
  sup_total_minted :: int
  sup_total_burned :: int
  sup_circulating :: int
  sup_staked :: int
  sup_max_supply :: int

definition get_total_supply :: "'a ledger_scheme \<Rightarrow> (string, int) dict \<Rightarrow> supply_stats" where
  "get_total_supply s stake_totals =
     (let total_staked = dsum stake_totals
      in \<lparr>sup_total_minted = total_minted s, sup_total_burned = total_burned s,
          sup_circulating = total_minted s - total_burned s - total_staked,
          sup_staked = total_staked, sup_max_supply = MAX_SUPPLY\<rparr>)"

definition halved_reward :: "int \<Rightarrow> int" where
  "halved_reward block_index = INITIAL_BLOCK_REWARD div 2 ^ nat (block_index div HALVING_INTERVAL)"

definition calc_block_reward :: "'a ledger_scheme \<Rightarrow> int \<Rightarrow> int" where
  "calc_block_reward s block_index =
     (if block_index \<le> 0 then 0
      else
        (let remaining = MAX_SUPPLY - total_minted s
         in min (halved_reward block_index) (max 0 remaining)))"

section \<open>What the operations change\<close>

definition ledger_ok :: "'a ledger_scheme \<Rightarrow> bool" where
  "ledger_ok s \<longleftrightarrow> dwf (balances s)"

definition funds :: "'a ledger_scheme \<Rightarrow> int" where
  "funds s = dsum (balances s)"

named_theorems ledger_simps \<open>effect of credits and debits\<close>

lemma balance_credited [ledger_simps]:
  "get_balance (credited a n s) x = get_balance s x + (if x = a then n else 0)"
  by (auto simp: credited_def get_balance_def dict_simps)

lemma balance_debited [ledger_simps]:
  "get_balance (debited a n s) x = get_balance s x - (if x = a then n else 0)"
  by (auto simp: debited_def get_balance_def dict_simps Let_def)

lemma ledger_ok_credited [ledger_simps]: "ledger_ok s \<Longrightarrow> ledger_ok (credited a n s)"
  by (simp add: credited_def ledger_ok_def)

lemma ledger_ok_debited [ledger_simps]: "ledger_ok s \<Longrightarrow> ledger_ok (debited a n s)"
  by (simp add: debited_def ledger_ok_def Let_def)

lemma funds_credited [ledger_simps]: "ledger_ok s \<Longrightarrow> funds (credited a n s) = funds s + n"
  by (simp add: credited_def funds_def ledger_ok_def dict_simps get_balance_def)

lemma funds_debited [ledger_simps]: "ledger_ok s \<Longrightarrow> funds (debited a n s) = funds s - n"
  by (simp add: debited_def funds_def ledger_ok_def dict_simps get_balance_def Let_def)

lemma ledger_frame [ledger_simps, simp]:
  "total_minted (credited a n s) = total_minted s" "total_minted (debited a n s) = total_minted s"
  "total_burned (credited a n s) = total_burned s" "total_burned (debited a n s) = total_burned s"
  "financial_active (credited a n s) = financial_active s"
  "financial_active (debited a n s) = financial_active s"
  "ledger.more (credited a n s) = ledger.more s" "ledger.more (debited a n s) = ledger.more s"
  by (simp_all add: credited_def debited_def Let_def)

lemma credit_None [ledger_simps]: "credit a n s = (None, t) \<longleftrightarrow> 0 \<le> n \<and> t = credited a n s"
  by (auto simp: credit_def)

lemma debit_None [ledger_simps]:
  "debit a n s = (None, t) \<longleftrightarrow> 0 \<le> n \<and> (n = 0 \<or> n \<le> get_balance s a) \<and> t = debited a n s"
  by (auto simp: debit_def debited_def)

lemma debit_Some [ledger_simps]: "debit a n s = (Some e, t) \<Longrightarrow> t = s"
  by (auto simp: debit_def split: if_splits)

lemma credit_Some [ledger_simps]: "credit a n s = (Some e, t) \<Longrightarrow> t = s"
  by (auto simp: credit_def split: if_splits)

text \<open>All balances are non-negative.\<close>

definition solvent :: "'a ledger_scheme \<Rightarrow> bool" where
  "solvent s \<longleftrightarrow> dnonneg (balances s)"

lemma solvent_balance: "solvent s \<Longrightarrow> 0 \<le> get_balance s a"
  by (simp add: solvent_def get_balance_def dget_or_nonneg)

lemma solvent_credited: "solvent s \<Longrightarrow> 0 \<le> n \<Longrightarrow> solvent (credited a n s)"
  using solvent_balance[of s a] by (auto simp: solvent_def credited_def intro: dnonneg_dset)

lemma solvent_debited: "solvent s \<Longrightarrow> n \<le> get_balance s a \<Longrightarrow> solvent (debited a n s)"
  by (auto simp: solvent_def debited_def Let_def intro: dnonneg_dset dnonneg_dpop)

lemma solvent_debit: "solvent s \<Longrightarrow> debit a n s = (None, t) \<Longrightarrow> solvent t"
  using solvent_balance[of s a] by (auto simp: debit_None intro: solvent_debited)

lemma solvent_credit: "solvent s \<Longrightarrow> credit a n s = (None, t) \<Longrightarrow> solvent t"
  by (auto simp: credit_None intro: solvent_credited)

section \<open>The contract of a ledger\<close>

locale fund_ledger =
  fixes bal :: "'l \<Rightarrow> 'a \<Rightarrow> int" and total :: "'l \<Rightarrow> int" and wf :: "'l \<Rightarrow> bool"
    and cr :: "'a \<Rightarrow> int \<Rightarrow> 'l act" and db :: "'a \<Rightarrow> int \<Rightarrow> 'l act"
  assumes cr_ok: "wf l \<Longrightarrow> 0 \<le> n \<Longrightarrow>
      \<exists>l'. cr a n l = (None, l') \<and> wf l' \<and> total l' = total l + n
        \<and> (\<forall>x. bal l' x = bal l x + (if x = a then n else 0))"
    and db_ok: "wf l \<Longrightarrow> 0 \<le> n \<Longrightarrow> n \<le> bal l a \<Longrightarrow>
      \<exists>l'. db a n l = (None, l') \<and> wf l' \<and> total l' = total l - n
        \<and> (\<forall>x. bal l' x = bal l x - (if x = a then n else 0))"
    and db_short: "wf l \<Longrightarrow> 0 < n \<Longrightarrow> bal l a < n \<Longrightarrow> \<exists>e. db a n l = (Some e, l)"
    and db_zero: "wf l \<Longrightarrow> db a 0 l = (None, l)"
begin

text \<open>Paying a list of amounts never fails, adds their sum, and leaves other accounts alone.\<close>

lemma pay_all:
  assumes "wf l" "\<And>p. p \<in> set ps \<Longrightarrow> 0 \<le> snd p"
  shows "\<exists>l'. run_all (map (\<lambda>p. cr (fst p) (snd p)) ps) l = (None, l') \<and> wf l'
     \<and> total l' = total l + sum_list (map snd ps)
     \<and> (\<forall>x. x \<notin> fst ` set ps \<longrightarrow> bal l' x = bal l x)
     \<and> (\<forall>x. bal l x \<le> bal l' x)"
  using assms
proof (induction ps arbitrary: l)
  case (Cons p ps)
  obtain l1 where 1: "cr (fst p) (snd p) l = (None, l1)" "wf l1" "total l1 = total l + snd p"
    "\<forall>x. bal l1 x = bal l x + (if x = fst p then snd p else 0)"
    using cr_ok[OF Cons.prems(1), of "snd p" "fst p"] Cons.prems(2)[of p] by auto
  obtain l2 where 2: "run_all (map (\<lambda>p. cr (fst p) (snd p)) ps) l1 = (None, l2)" "wf l2"
    "total l2 = total l1 + sum_list (map snd ps)"
    "\<forall>x. x \<notin> fst ` set ps \<longrightarrow> bal l2 x = bal l1 x" "\<forall>x. bal l1 x \<le> bal l2 x"
    using Cons.IH[OF 1(2)] Cons.prems(2) by auto
  have "0 \<le> snd p" using Cons.prems(2)[of p] by simp
  then have "\<forall>x. bal l x \<le> bal l2 x" using 1(4) 2(5) by (smt (verit))
  then show ?case using 1 2 by auto
qed simp

text \<open>A payment moves funds: it fails without effect or keeps the total.\<close>

lemma pay_conserves:
  assumes "wf l" "0 \<le> n"
  shows "run_all [db a n, cr b n] l = (None, l') \<Longrightarrow> total l' = total l \<and> wf l'"
proof -
  assume r: "run_all [db a n, cr b n] l = (None, l')"
  then obtain l1 where 1: "db a n l = (None, l1)" "cr b n l1 = (None, l')"
    using run_all_Cons_None[of "db a n" "[cr b n]" l l'] run_all_Cons_None[of "cr b n" "[]"] by auto
  have "wf l1 \<and> total l1 = total l - n"
  proof (cases "n \<le> bal l a")
    case True
    then show ?thesis using db_ok[OF assms True] 1(1) by auto
  next
    case False
    then have "n = 0" using db_short[OF assms(1), of n a] assms(2) 1(1) by force
    then show ?thesis using db_zero[OF assms(1), of a] 1(1) assms(1) by simp
  qed
  then show ?thesis using cr_ok[of l1 n b] 1(2) assms(2) by auto
qed

end

interpretation qbit: fund_ledger get_balance funds ledger_ok credit debit
proof (unfold_locales, goal_cases)
  case (1 l n a)
  then show ?case by (simp add: ledger_simps)
next
  case (2 l n a)
  then show ?case by (simp add: ledger_simps)
next
  case (3 l n a)
  then show ?case by (auto simp: debit_def)
next
  case (4 l a)
  then show ?case by (simp add: debit_def)
qed

section \<open>Rewards and rollback debits\<close>

lemma halved_reward_nonneg: "0 \<le> halved_reward h"
  by (simp add: halved_reward_def economics_defs pos_imp_zdiv_nonneg_iff)

lemma halved_reward_le: "halved_reward h \<le> INITIAL_BLOCK_REWARD"
proof -
  have "INITIAL_BLOCK_REWARD div 2 ^ k \<le> INITIAL_BLOCK_REWARD div 1" for k :: nat
    by (rule zdiv_mono2) (auto simp: economics_defs)
  then show ?thesis unfolding halved_reward_def by simp
qed

lemma block_reward_nonneg: "0 \<le> calc_block_reward s h"
  using halved_reward_nonneg[of h] by (simp add: calc_block_reward_def Let_def)

lemma block_reward_cap: "total_minted s \<le> MAX_SUPPLY \<Longrightarrow>
    total_minted s + calc_block_reward s h \<le> MAX_SUPPLY"
  by (auto simp: calc_block_reward_def Let_def)

text \<open>A rollback debit takes back exactly what a credit gave.\<close>

lemma rollback_debit_balance: "get_balance (rollback_debit a n s) x =
    get_balance s x - (if x = a then max 0 n else 0)"
  by (simp add: rollback_debit_def ledger_simps)

lemma rollback_debit_credited:
  "0 \<le> n \<Longrightarrow> get_balance (rollback_debit a n (credited a n s)) x = get_balance s x"
  by (simp add: rollback_debit_balance ledger_simps)

lemma funds_rollback_debit: "ledger_ok s \<Longrightarrow> funds (rollback_debit a n s) = funds s - max 0 n"
  by (simp add: rollback_debit_def ledger_simps)

lemma ledger_ok_rollback_debit: "ledger_ok s \<Longrightarrow> ledger_ok (rollback_debit a n s)"
  by (simp add: rollback_debit_def ledger_simps)

end
