(* ===== verification/Registry.thy ===== *)
theory Registry
  imports Ledger
begin

text \<open>
  The chain itself and the indices \<open>core/blockchain.py\<close> keeps over it: blocks in memory mode
  (\<open>_chain_list\<close>), transactions by id, sender and recipient, notarizations, nonces, registered keys
  and validators, revocations, and the state of \<open>ProofOfAuthority\<close> that the chain feeds. The
  consensus object holds a reference to \<open>_sender_nonce\<close>: \<open>stale_nonces\<close> is \<open>None\<close> while both names
  mean one dict, and the dict consensus still sees after \<open>_sender_nonce\<close> has been rebound.
  An operation works on every state that extends this record.
\<close>

section \<open>State\<close>

record revocation =
  rev_tx_id :: string
  rev_timestamp :: int
  rev_reason :: string

record registry = ledger +
  chain_list :: "block list"
  height :: int
  latest_block :: "block option"
  block_by_hash :: "(string, int) dict"
  tx_by_id :: "(string, int \<times> int) dict"
  txs_by_sender :: "(string, string list) dict"
  txs_by_recipient :: "(string, string list) dict"
  notarizations :: "(string, string) dict"
  notarizations_by_hash :: "(string, string list) dict"
  notarization_count :: "(string, int) dict"
  sender_nonce :: "(string, int) dict"
  key_registry :: "(string, string) dict"
  key_history :: "(string, string list) dict"
  validator_registry :: "(string, bytes) dict"
  validator_commission :: "(string, int) dict"
  revoked_keys :: "(string, revocation) dict"
  poa_validators :: "(string, bytes) dict"
  poa_genesis_hash :: string
  chain_tx_ids :: "string set"
  stale_nonces :: "(string, int) dict option"

text \<open>\<open>d.setdefault(k, []).append(v)\<close>.\<close>

definition dappend :: "('k, 'v list) dict \<Rightarrow> 'k \<Rightarrow> 'v \<Rightarrow> ('k, 'v list) dict" where
  "dappend d k v = dset d k (dget_or d k [] @ [v])"

text \<open>The payload fields the chain reads; \<open>validate_payload\<close> has checked their shapes.\<close>

definition str_field :: "transaction \<Rightarrow> string \<Rightarrow> string" where
  "str_field tx k = str_of_py (pget tx k (PStr []))"

definition amount_of :: "transaction \<Rightarrow> int" where
  "amount_of tx = int_of_py (pget tx ''amount'' (PInt 0))"

section \<open>Queries\<close>

definition get_block_by_index :: "'a registry_scheme \<Rightarrow> int \<Rightarrow> block option" where
  "get_block_by_index s i =
     (if 0 \<le> i \<and> i < int (length (chain_list s)) then Some (chain_list s ! nat i) else None)"

definition get_next_nonce :: "'a registry_scheme \<Rightarrow> string \<Rightarrow> int" where
  "get_next_nonce s address = dget_or (sender_nonce s) address (- 1) + 1"

definition get_block_of_hash :: "'a registry_scheme \<Rightarrow> string \<Rightarrow> block option" where
  "get_block_of_hash s h =
     (case dget (block_by_hash s) h of None \<Rightarrow> None | Some i \<Rightarrow> get_block_by_index s i)"

definition get_tx :: "'a registry_scheme \<Rightarrow> string \<Rightarrow> transaction option" where
  "get_tx s i =
     (case dget (tx_by_id s) i of
        None \<Rightarrow> None
      | Some (block_idx, tx_idx) \<Rightarrow>
          (case get_block_by_index s block_idx of
             None \<Rightarrow> None
           | Some b \<Rightarrow> (if tx_idx < int (length (b_txs b)) then Some (b_txs b ! nat tx_idx) else None)))"

definition get_tx_block :: "'a registry_scheme \<Rightarrow> string \<Rightarrow> int option" where
  "get_tx_block s i = map_option fst (dget (tx_by_id s) i)"

definition revoked_key :: "string \<Rightarrow> string \<Rightarrow> string" where
  "revoked_key address key_type = address @ '':'' @ key_type"

definition is_key_revoked :: "'a registry_scheme \<Rightarrow> string \<Rightarrow> string \<Rightarrow> bool" where
  "is_key_revoked s address key_type \<longleftrightarrow> dmem (revoked_key address key_type) (revoked_keys s)"

definition is_registered_validator :: "'a registry_scheme \<Rightarrow> string \<Rightarrow> bool" where
  "is_registered_validator s address \<longleftrightarrow> dmem address (validator_registry s)"

section \<open>Indexing a transaction of an appended block\<close>

definition add_validator :: "string \<Rightarrow> bytes \<Rightarrow> 'a registry_scheme \<Rightarrow> 'a registry_scheme" where
  "add_validator address pk s = s\<lparr>poa_validators := dset (poa_validators s) address pk\<rparr>"

definition remove_validator :: "string \<Rightarrow> 'a registry_scheme \<Rightarrow> 'a registry_scheme" where
  "remove_validator address s = s\<lparr>poa_validators := dpop (poa_validators s) address\<rparr>"

text \<open>\<open>_append_block_inner\<close>, the start of a block: storage, height, tip and hash index.\<close>

definition push_block :: "env \<Rightarrow> block \<Rightarrow> 'a registry_scheme \<Rightarrow> 'a registry_scheme" where
  "push_block E b s =
     s\<lparr>chain_list := chain_list s @ [b], height := height s + 1, latest_block := Some b,
       block_by_hash := dset (block_by_hash s) (block_hash E b) (height s + 1)\<rparr>"

text \<open>The indices of one transaction; genesis transactions consume no nonce.\<close>

definition index_tx ::
    "env \<Rightarrow> int \<Rightarrow> int \<Rightarrow> transaction \<Rightarrow> 'a registry_scheme \<Rightarrow> 'a registry_scheme" where
  "index_tx E idx tx_idx tx s =
     (let i = tx_id E tx;
          s1 = s\<lparr>tx_by_id := dset (tx_by_id s) i (idx, tx_idx),
                 chain_tx_ids := insert i (chain_tx_ids s),
                 txs_by_sender := dappend (txs_by_sender s) (tx_sender tx) i\<rparr>;
          s2 = (if tx_recipient tx \<noteq> []
                then s1\<lparr>txs_by_recipient := dappend (txs_by_recipient s1) (tx_recipient tx) i\<rparr> else s1)
      in if idx > 0 \<and> tx_nonce tx > dget_or (sender_nonce s2) (tx_sender tx) (- 1)
         then s2\<lparr>sender_nonce := dset (sender_nonce s2) (tx_sender tx) (tx_nonce tx)\<rparr> else s2)"

definition apply_notarize :: "env \<Rightarrow> transaction \<Rightarrow> 'a registry_scheme \<Rightarrow> 'a registry_scheme" where
  "apply_notarize E tx s =
     (let doc_hash = str_field tx ''documentHash''; i = tx_id E tx;
          s1 = (if doc_hash \<noteq> []
                then s\<lparr>notarizations := (if dmem doc_hash (notarizations s) then notarizations s
                                        else dset (notarizations s) doc_hash i),
                       notarizations_by_hash := dappend (notarizations_by_hash s) doc_hash i\<rparr>
                else s)
      in s1\<lparr>notarization_count :=
             dset (notarization_count s1) (tx_sender tx) (dget_or (notarization_count s1) (tx_sender tx) 0 + 1)\<rparr>)"

definition apply_register_key :: "transaction \<Rightarrow> 'a registry_scheme \<Rightarrow> 'a registry_scheme" where
  "apply_register_key tx s =
     (let epk = str_field tx ''encryption_pk''
      in if epk \<noteq> []
         then s\<lparr>key_history := dappend (key_history s) (tx_sender tx) epk,
                key_registry := dset (key_registry s) (tx_sender tx) epk\<rparr>
         else s)"

text \<open>
  \<open>isinstance(commission, int) and 0 <= commission <= 100\<close>: a commission outside the range
  leaves the rate as it was.
\<close>

definition set_commission :: "transaction \<Rightarrow> string \<Rightarrow> 'a registry_scheme \<Rightarrow> 'a registry_scheme" where
  "set_commission tx vaddr s =
     (let commission = pget tx ''commission'' PNone
      in if is_int commission \<and> 0 \<le> int_of_py commission \<and> int_of_py commission \<le> 100
         then s\<lparr>validator_commission := dset (validator_commission s) vaddr (int_of_py commission)\<rparr>
         else s)"

definition apply_register_validator :: "transaction \<Rightarrow> ('a registry_scheme) act" where
  "apply_register_validator tx s =
     (let vpk_hex = str_field tx ''validator_pubkey''; vaddr = str_field tx ''validator_address''
      in if vpk_hex = [] \<or> vaddr = [] then (None, s)
         else if dmem vaddr (validator_registry s) then (None, set_commission tx vaddr s)
         else
           (case fromhex vpk_hex of
              None \<Rightarrow> (Some (ve ''non-hexadecimal number found in fromhex() arg'' []), s)
            | Some vpk \<Rightarrow>
                (None, set_commission tx vaddr
                   (add_validator vaddr vpk
                      (s\<lparr>validator_registry := dset (validator_registry s) vaddr vpk\<rparr>)))))"

text \<open>The record of a revocation, and the registry entry a revoked validator key loses.\<close>

definition apply_revocation :: "env \<Rightarrow> transaction \<Rightarrow> 'a registry_scheme \<Rightarrow> 'a registry_scheme" where
  "apply_revocation E tx s =
     (let key_type = str_field tx ''key_type'';
          s1 = s\<lparr>revoked_keys := dset (revoked_keys s) (revoked_key (tx_sender tx) key_type)
                   \<lparr>rev_tx_id = tx_id E tx, rev_timestamp = tx_timestamp tx,
                    rev_reason = str_field tx ''reason''\<rparr>\<rparr>
      in if key_type = ''validator''
         then remove_validator (tx_sender tx)
                (s1\<lparr>validator_registry := dpop (validator_registry s1) (tx_sender tx)\<rparr>)
         else s1)"

section \<open>What the indices promise\<close>

text \<open>The chain is numbered from zero, and every transaction is found under its identifier.\<close>

definition chain_ok :: "'a registry_scheme \<Rightarrow> bool" where
  "chain_ok s \<longleftrightarrow>
     height s = int (length (chain_list s)) - 1
     \<and> latest_block s = (if chain_list s = [] then None else Some (last (chain_list s)))
     \<and> (\<forall>i < length (chain_list s). b_index (chain_list s ! i) = int i)"

definition indexed :: "env \<Rightarrow> 'a registry_scheme \<Rightarrow> bool" where
  "indexed E s \<longleftrightarrow>
     (\<forall>i < length (chain_list s). \<forall>j < length (b_txs (chain_list s ! i)).
        dget (tx_by_id s) (tx_id E (b_txs (chain_list s ! i) ! j)) = Some (int i, int j))"

lemma chain_ok_push:
  assumes "chain_ok s" "b_index b = height s + 1"
  shows "chain_ok (push_block E b s)"
  using assms by (auto simp: chain_ok_def push_block_def nth_append less_Suc_eq)

lemma chain_ok_block: "chain_ok s \<Longrightarrow> 0 \<le> i \<Longrightarrow> i \<le> height s \<Longrightarrow>
    \<exists>b. get_block_by_index s i = Some b \<and> b_index b = i"
  by (auto simp: chain_ok_def get_block_by_index_def)

lemma indexed_get_tx:
  assumes "indexed E s" "i < length (chain_list s)" "j < length (b_txs (chain_list s ! i))"
  shows "get_tx s (tx_id E (b_txs (chain_list s ! i) ! j)) = Some (b_txs (chain_list s ! i) ! j)"
  using assms by (simp add: indexed_def get_tx_def get_block_by_index_def)

text \<open>Commission rates stay percentages.\<close>

definition commissions_ok :: "'a registry_scheme \<Rightarrow> bool" where
  "commissions_ok s \<longleftrightarrow> (\<forall>a. 0 \<le> dget_or (validator_commission s) a 0 \<and>
     dget_or (validator_commission s) a 0 \<le> 100)"

lemma commissions_ok_set: "commissions_ok s \<Longrightarrow> commissions_ok (set_commission tx v s)"
  by (auto simp: commissions_ok_def set_commission_def Let_def dict_simps)

lemma commissions_ok_register_validator:
  assumes "commissions_ok s"
  shows "commissions_ok (snd (apply_register_validator tx s))"
proof -
  have "commissions_ok (add_validator v pk (s\<lparr>validator_registry := r\<rparr>))" for v pk r
    using assms by (simp add: commissions_ok_def add_validator_def)
  then show ?thesis
    using assms
    by (auto simp: apply_register_validator_def Let_def split: option.splits
        intro!: commissions_ok_set)
qed

text \<open>A first registration wins: a registered validator keeps its key.\<close>

lemma register_validator_keeps_key:
  "dget (validator_registry s) v = Some pk \<Longrightarrow>
   dget (validator_registry (snd (apply_register_validator tx s))) v = Some pk"
  by (auto simp: apply_register_validator_def Let_def set_commission_def add_validator_def dmem_def
      dict_simps split: option.splits)

text \<open>After a revocation the key counts as revoked, and a validator key is out of the validator set.\<close>

lemma revocation_effect:
  "is_key_revoked (apply_revocation E tx s) (tx_sender tx) (str_field tx ''key_type'')"
  "str_field tx ''key_type'' = ''validator'' \<Longrightarrow>
   \<not> is_registered_validator (apply_revocation E tx s) (tx_sender tx)
   \<and> \<not> dmem (tx_sender tx) (poa_validators (apply_revocation E tx s))"
  by (simp_all add: apply_revocation_def is_key_revoked_def is_registered_validator_def
      remove_validator_def dict_simps Let_def)

section \<open>Frames\<close>

text \<open>
  The ledger fields an index operation leaves alone, as one view: a lemma per operation, which the
  proofs about balances and supply use.
\<close>

definition fin_view :: "'a ledger_scheme \<Rightarrow> (string, int) dict \<times> int \<times> int \<times> bool" where
  "fin_view s = (balances s, total_minted s, total_burned s, financial_active s)"

named_theorems frame_simps \<open>fields an operation leaves unchanged\<close>

lemma fin_view_registry [frame_simps]:
  "fin_view (push_block E b s) = fin_view s"
  "fin_view (index_tx E idx j tx s) = fin_view s"
  "fin_view (apply_notarize E tx s) = fin_view s"
  "fin_view (apply_register_key tx s) = fin_view s"
  "fin_view (set_commission tx v s) = fin_view s"
  "fin_view (apply_revocation E tx s) = fin_view s"
  "fin_view (add_validator v pk s) = fin_view s"
  "fin_view (remove_validator v s) = fin_view s"
  "fin_view (snd (apply_register_validator tx s)) = fin_view s"
  by (auto simp: fin_view_def push_block_def index_tx_def apply_notarize_def apply_register_key_def
      set_commission_def apply_revocation_def add_validator_def remove_validator_def
      apply_register_validator_def Let_def split: option.splits)

text \<open>The chain and the transaction indices, which credits and debits leave alone.\<close>

definition index_view where
  "index_view s = (chain_list s, height s, latest_block s, tx_by_id s, chain_tx_ids s,
     sender_nonce s, stale_nonces s, poa_genesis_hash s)"

lemma index_view_registry [frame_simps]:
  "index_view (credited a n s) = index_view s"
  "index_view (debited a n s) = index_view s"
  "index_view (apply_notarize E tx s) = index_view s"
  "index_view (apply_register_key tx s) = index_view s"
  "index_view (set_commission tx v s) = index_view s"
  "index_view (apply_revocation E tx s) = index_view s"
  "index_view (add_validator v pk s) = index_view s"
  "index_view (remove_validator v s) = index_view s"
  "index_view (snd (apply_register_validator tx s)) = index_view s"
  by (auto simp: index_view_def credited_def debited_def apply_notarize_def apply_register_key_def
      set_commission_def apply_revocation_def add_validator_def remove_validator_def
      apply_register_validator_def Let_def split: option.splits)

end
