(* ===== verification/Staking.thy ===== *)
theory Staking
  imports Registry
begin

text \<open>
  \<open>core/staking.py\<close> and the STAKE, DELEGATE, UNSTAKE and EVIDENCE branches of
  \<open>_append_block_inner\<close>: stake per validator and staker, unbonding, the frozen validator set of an
  epoch, slashing after double-signing, and the epoch's rewards to delegators.
\<close>

section \<open>State\<close>

record unbond =
  ub_staker :: string
  ub_validator :: string
  ub_amount :: int
  ub_release :: int

record slash_event =
  se_validator :: string
  se_evidence_tx :: string
  se_amount :: int
  se_block :: int

record distribution =
  ds_credits :: "(string \<times> int) list"
  ds_debits :: "(string \<times> int) list"

record staking = registry +
  stakes :: "(string, (string, int) dict) dict"
  total_stake :: "(string, int) dict"
  unbonding :: "unbond list"
  current_epoch :: int
  epoch_validators :: "(string \<times> int) list"
  epochs :: "(int, (string \<times> int) list) dict"
  slashed_validators :: "string set"
  slashing_events :: "slash_event list"
  processed_evidence :: "string set"
  epoch_rewards :: "(string, int) dict"
  last_distributions :: "(int, distribution) dict"

section \<open>Queries\<close>

definition get_validator_stake :: "'a staking_scheme \<Rightarrow> string \<Rightarrow> int" where
  "get_validator_stake s validator_addr = dget_or (total_stake s) validator_addr 0"

definition get_staker_info :: "'a staking_scheme \<Rightarrow> string \<Rightarrow> string \<Rightarrow> int" where
  "get_staker_info s staker validator = dget_or (dget_or (stakes s) validator []) staker 0"

definition get_live_validators :: "'a staking_scheme \<Rightarrow> (string \<times> int) list" where
  "get_live_validators s = sort_key fst (filter (\<lambda>p. snd p > 0) (total_stake s))"

definition get_active_validators :: "'a staking_scheme \<Rightarrow> (string \<times> int) list" where
  "get_active_validators s =
     (if epoch_validators s \<noteq> [] then epoch_validators s else get_live_validators s)"

definition get_epoch_validators :: "'a staking_scheme \<Rightarrow> int option \<Rightarrow> (string \<times> int) list" where
  "get_epoch_validators s epoch = dget_or (epochs s) (the_default (current_epoch s) epoch) []"

definition get_slashing_events :: "'a staking_scheme \<Rightarrow> string \<Rightarrow> slash_event list" where
  "get_slashing_events s validator =
     (if validator \<noteq> [] then filter (\<lambda>e. se_validator e = validator) (slashing_events s)
      else slashing_events s)"

definition is_slashed :: "'a staking_scheme \<Rightarrow> string \<Rightarrow> bool" where
  "is_slashed s address \<longleftrightarrow> address \<in> slashed_validators s"

definition get_epoch_rewards :: "'a staking_scheme \<Rightarrow> string \<Rightarrow> int" where
  "get_epoch_rewards s validator_addr = dget_or (epoch_rewards s) validator_addr 0"

definition get_validator_commission :: "'a staking_scheme \<Rightarrow> string \<Rightarrow> int" where
  "get_validator_commission s validator_addr =
     dget_or (validator_commission s) validator_addr DEFAULT_COMMISSION_RATE"

section \<open>Staking and unstaking\<close>

definition apply_stake :: "transaction \<Rightarrow> 'a staking_scheme \<Rightarrow> 'a staking_scheme" where
  "apply_stake tx s =
     (let vaddr = str_field tx ''validator_address''; amount = amount_of tx; staker = tx_sender tx
      in if vaddr \<noteq> [] \<and> amount > 0
         then
           (let mine = dget_or (stakes s) vaddr []
            in s\<lparr>stakes := dset (stakes s) vaddr (dset mine staker (dget_or mine staker 0 + amount)),
                 total_stake := dset (total_stake s) vaddr (dget_or (total_stake s) vaddr 0 + amount)\<rparr>)
         else s)"

definition apply_unstake :: "int \<Rightarrow> transaction \<Rightarrow> 'a staking_scheme \<Rightarrow> 'a staking_scheme" where
  "apply_unstake idx tx s =
     (let vaddr = str_field tx ''validator_address''; amount = amount_of tx; staker = tx_sender tx
      in if vaddr \<noteq> [] \<and> amount > 0
         then
           (let current = get_staker_info s staker vaddr;
                new_amount = max 0 (current - amount);
                stakes' =
                  (case dget (stakes s) vaddr of
                     None \<Rightarrow> stakes s
                   | Some mine \<Rightarrow>
                       dset (stakes s) vaddr
                         (if new_amount = 0 then dpop mine staker else dset mine staker new_amount))
            in s\<lparr>stakes := stakes',
                 total_stake := dset (total_stake s) vaddr
                                  (max 0 (dget_or (total_stake s) vaddr 0 - amount)),
                 unbonding := unbonding s @
                   [\<lparr>ub_staker = staker, ub_validator = vaddr, ub_amount = amount,
                     ub_release = idx + UNBONDING_PERIOD\<rparr>]\<rparr>)
         else s)"

section \<open>Slashing\<close>

definition reduction_of :: "int \<Rightarrow> int" where
  "reduction_of amount =
     (let r = amount * SLASH_PERCENTAGE div 100 in if r \<le> 0 \<and> amount > 0 then 1 else r)"

definition slash_stakers :: "(string, int) dict \<Rightarrow> (string, int) dict" where
  "slash_stakers stakers =
     fold (\<lambda>(staker, amount) d.
             let new_amount = max 0 (amount - reduction_of amount)
             in if new_amount = 0 then dpop d staker else dset d staker new_amount)
       stakers stakers"

text \<open>Both signatures of the evidence are the validator's, over the two given headers.\<close>

definition evidence_proves :: "env \<Rightarrow> transaction \<Rightarrow> bytes \<Rightarrow> bool" where
  "evidence_proves E tx vpk \<longleftrightarrow>
     (case (fromhex (str_field tx ''block_a_sig''), fromhex (str_field tx ''block_b_sig''),
            fromhex (str_field tx ''block_a_header''), fromhex (str_field tx ''block_b_header'')) of
        (Some sig_a, Some sig_b, Some header_a, Some header_b) \<Rightarrow>
          verify_sig E vpk header_a sig_a \<and> verify_sig E vpk header_b sig_b
      | _ \<Rightarrow> False)"

definition MAX_MEM_EVENTS :: nat where
  "MAX_MEM_EVENTS = 200"

definition update_epoch_set :: "string \<Rightarrow> int \<Rightarrow> (string \<times> int) list \<Rightarrow> (string \<times> int) list" where
  "update_epoch_set vaddr new_total vs =
     (let kept = filter (\<lambda>(addr, _). addr \<noteq> vaddr \<or> new_total \<ge> MIN_STAKE) vs
      in if new_total \<ge> MIN_STAKE
         then map (\<lambda>(addr, st). if addr = vaddr then (addr, new_total) else (addr, st)) kept
         else kept)"

definition slash ::
    "env \<Rightarrow> transaction \<Rightarrow> int \<Rightarrow> string \<Rightarrow> 'a staking_scheme \<Rightarrow> 'a staking_scheme" where
  "slash E tx block_index vaddr s =
     (let total = dget_or (total_stake s) vaddr 0;
          slash_amount = reduction_of total;
          new_total = max 0 (total - slash_amount);
          stakes1 = (case dget (stakes s) vaddr of
                       None \<Rightarrow> stakes s
                     | Some stakers \<Rightarrow> dset (stakes s) vaddr (slash_stakers stakers));
          s1 = (if new_total < MIN_STAKE
                then remove_validator vaddr
                       (s\<lparr>stakes := dpop stakes1 vaddr, total_stake := dpop (total_stake s) vaddr\<rparr>)
                else s\<lparr>stakes := stakes1, total_stake := dset (total_stake s) vaddr new_total\<rparr>);
          events = slashing_events s1 @
            [\<lparr>se_validator = vaddr, se_evidence_tx = tx_id E tx, se_amount = slash_amount,
              se_block = block_index\<rparr>]
      in s1\<lparr>slashed_validators := insert vaddr (slashed_validators s1),
            processed_evidence := insert vaddr (processed_evidence s1),
            slashing_events := drop (length events - MAX_MEM_EVENTS) events,
            epoch_validators := update_epoch_set vaddr new_total (epoch_validators s1)\<rparr>)"

text \<open>
  \<open>_process_evidence_tx\<close>: every path returns \<open>None\<close>, also the one that slashes; the caller's test
  \<open>if not self._process_evidence_tx(...)\<close> therefore always holds.
\<close>

definition process_evidence_tx ::
    "env \<Rightarrow> transaction \<Rightarrow> int \<Rightarrow> 'a staking_scheme \<Rightarrow> 'a staking_scheme" where
  "process_evidence_tx E tx block_index s =
     (let vaddr = str_field tx ''validator_address''
      in if vaddr = [] \<or> vaddr \<in> processed_evidence s then s
         else
           (case dget (validator_registry s) vaddr of
              None \<Rightarrow> s
            | Some vpk \<Rightarrow> if evidence_proves E tx vpk then slash E tx block_index vaddr s else s))"

section \<open>Epoch rewards\<close>

definition total_delegated :: "string \<Rightarrow> (string, int) dict \<Rightarrow> int" where
  "total_delegated validator_addr stks =
     sum_list (map snd (filter (\<lambda>p. fst p \<noteq> validator_addr) stks))"

text \<open>
  What the delegators of a validator may share: its rewards less the commission, capped by its
  balance, live and (when given) at the snapshot taken before the block's transactions.
\<close>

definition delegator_pool ::
    "(string, int) dict option \<Rightarrow> string \<Rightarrow> 'a staking_scheme \<Rightarrow> int" where
  "delegator_pool snapshot validator_addr s =
     (let rewards = get_epoch_rewards s validator_addr;
          pool = rewards - rewards * get_validator_commission s validator_addr div 100;
          live_bal = get_balance s validator_addr;
          val_bal = (case snapshot of None \<Rightarrow> live_bal
                                    | Some snap \<Rightarrow> min (dget_or snap validator_addr 0) live_bal)
      in if pool > val_bal then val_bal else pool)"

definition delegator_shares :: "string \<Rightarrow> int \<Rightarrow> (string, int) dict \<Rightarrow> (string \<times> int) list" where
  "delegator_shares validator_addr pool stks =
     filter (\<lambda>p. snd p > 0)
       (map (\<lambda>(d, st). (d, pool * st div total_delegated validator_addr stks))
          (filter (\<lambda>p. fst p \<noteq> validator_addr) stks))"

text \<open>One validator's turn of the loop; the local lists \<open>credits\<close> and \<open>debits\<close> travel along.\<close>

definition distribute_one ::
    "(string, int) dict option \<Rightarrow> string \<times> (string, int) dict
       \<Rightarrow> (distribution \<times> 'a staking_scheme) act" where
  "distribute_one snapshot v_stks ds_s =
     (let (v, stks) = v_stks; (ds, s) = ds_s
      in if stks = [] \<or> total_delegated v stks = 0 \<or> get_epoch_rewards s v = 0 then (None, (ds, s))
         else
           (let shares = delegator_shares v (delegator_pool snapshot v s) stks;
                distributed = sum_list (map snd shares)
            in case run_all (map (\<lambda>p. credit (fst p) (snd p)) shares) s of
                 (Some e, s1) \<Rightarrow> (Some e, (ds, s1))
               | (None, s1) \<Rightarrow>
                   (case (if distributed > 0 then debit v distributed s1 else (None, s1)) of
                      (Some e, s2) \<Rightarrow> (Some e, (ds, s2))
                    | (None, s2) \<Rightarrow>
                        (None,
                         (ds\<lparr>ds_credits := ds_credits ds @ shares,
                             ds_debits := ds_debits ds @ (if distributed > 0 then [(v, distributed)] else [])\<rparr>,
                          s2\<lparr>epoch_rewards := dset (epoch_rewards s2) v 0\<rparr>)))))"

definition distribute_epoch_rewards ::
    "int \<Rightarrow> (string, int) dict option \<Rightarrow> ('a staking_scheme) act" where
  "distribute_epoch_rewards epoch_number snapshot s =
     (case run_all (map (distribute_one snapshot) (stakes s)) (\<lparr>ds_credits = [], ds_debits = []\<rparr>, s) of
        (Some e, (_, s1)) \<Rightarrow> (Some e, s1)
      | (None, (ds, s1)) \<Rightarrow>
          (None, s1\<lparr>epoch_rewards := map (\<lambda>p. (fst p, 0)) (epoch_rewards s1),
                    last_distributions := dset (last_distributions s1) epoch_number ds\<rparr>))"

section \<open>Epoch transitions and matured unbondings\<close>

definition balance_snapshot :: "'a staking_scheme \<Rightarrow> (string, int) dict" where
  "balance_snapshot s = map (\<lambda>p. (fst p, get_balance s (fst p))) (stakes s)"

definition freeze_epoch :: "int \<Rightarrow> 'a staking_scheme \<Rightarrow> 'a staking_scheme" where
  "freeze_epoch new_epoch s =
     s\<lparr>current_epoch := new_epoch, epoch_validators := get_live_validators s,
       epochs := dset (epochs s) new_epoch (get_live_validators s)\<rparr>"

definition check_epoch_transition :: "int \<Rightarrow> ('a staking_scheme) act" where
  "check_epoch_transition block_index s =
     (let new_epoch = block_index div EPOCH_LENGTH
      in if new_epoch > current_epoch s \<or> block_index = 0 \<and> epochs s = []
         then run_all
                [when_do (new_epoch > 0 \<and> financial_active s)
                   (distribute_epoch_rewards (new_epoch - 1) (Some (balance_snapshot s))),
                 pure (freeze_epoch new_epoch)] s
         else (None, s))"

definition matured :: "int \<Rightarrow> 'a staking_scheme \<Rightarrow> unbond list" where
  "matured current_index s = filter (\<lambda>e. ub_release e \<le> current_index) (unbonding s)"

definition process_mature_unbondings :: "int \<Rightarrow> ('a staking_scheme) act" where
  "process_mature_unbondings current_index s =
     run_all
       [when_do (financial_active s)
          (run_all (map (\<lambda>e. credit (ub_staker e) (ub_amount e)) (matured current_index s))),
        pure (\<lambda>t. t\<lparr>unbonding := filter (\<lambda>e. \<not> ub_release e \<le> current_index) (unbonding t)\<rparr>)] s"

section \<open>Invariant\<close>

text \<open>
  Stakes, totals, pending unbondings and accumulated rewards are non-negative, and the dicts have
  distinct keys; with a solvent ledger this is \<open>money_ok\<close>.
\<close>

definition stake_ok :: "'a staking_scheme \<Rightarrow> bool" where
  "stake_ok s \<longleftrightarrow>
     dwf (stakes s) \<and> list_all (\<lambda>p. dwf (snd p) \<and> dnonneg (snd p)) (stakes s)
     \<and> dwf (total_stake s) \<and> dnonneg (total_stake s)
     \<and> list_all (\<lambda>e. 0 \<le> ub_amount e) (unbonding s)
     \<and> dnonneg (epoch_rewards s) \<and> commissions_ok s"

definition money_ok :: "'a staking_scheme \<Rightarrow> bool" where
  "money_ok s \<longleftrightarrow> ledger_ok s \<and> solvent s \<and> stake_ok s"

definition unbonding_total :: "'a staking_scheme \<Rightarrow> int" where
  "unbonding_total s = sum_list (map ub_amount (unbonding s))"

text \<open>Everything the supply is accounted for by: balances, stakes, unbondings and burned fees.\<close>

definition accounted :: "'a staking_scheme \<Rightarrow> int" where
  "accounted s = funds s + dsum (total_stake s) + unbonding_total s + total_burned s"

definition stake_view where
  "stake_view s = (stakes s, total_stake s, unbonding s, epoch_rewards s, validator_commission s)"

lemma stake_view_frame [frame_simps]:
  "stake_view (credited a n s) = stake_view s"
  "stake_view (debited a n s) = stake_view s"
  "stake_view (push_block E b s) = stake_view s"
  "stake_view (index_tx E idx j tx s) = stake_view s"
  "stake_view (apply_notarize E tx s) = stake_view s"
  "stake_view (apply_register_key tx s) = stake_view s"
  "stake_view (apply_revocation E tx s) = stake_view s"
  by (simp_all add: stake_view_def credited_def debited_def push_block_def index_tx_def
      apply_notarize_def apply_register_key_def apply_revocation_def remove_validator_def Let_def)

lemma stake_ok_cong: "stake_view s = stake_view t \<Longrightarrow> stake_ok s = stake_ok t"
  by (simp add: stake_view_def stake_ok_def commissions_ok_def)

lemma ledger_view_cong: "fin_view s = fin_view t \<Longrightarrow>
    ledger_ok s = ledger_ok t \<and> solvent s = solvent t \<and> funds s = funds t"
  by (simp add: fin_view_def ledger_ok_def solvent_def funds_def)

lemma money_ok_cong: "fin_view s = fin_view t \<Longrightarrow> stake_view s = stake_view t \<Longrightarrow> money_ok s = money_ok t"
  using stake_ok_cong[of s t] ledger_view_cong[of s t] by (simp add: money_ok_def)

lemma accounted_cong: "fin_view s = fin_view t \<Longrightarrow> stake_view s = stake_view t \<Longrightarrow> accounted s = accounted t"
  by (simp add: accounted_def fin_view_def funds_def stake_view_def unbonding_total_def)

lemma fin_view_staking [frame_simps]:
  "fin_view (apply_stake tx s) = fin_view s"
  "fin_view (apply_unstake idx tx s) = fin_view s"
  "fin_view (slash E tx i v s) = fin_view s"
  "fin_view (process_evidence_tx E tx i s) = fin_view s"
  "fin_view (freeze_epoch n s) = fin_view s"
  by (auto simp: fin_view_def apply_stake_def apply_unstake_def process_evidence_tx_def slash_def
      remove_validator_def freeze_epoch_def Let_def split: option.splits)

lemma index_view_staking [frame_simps]:
  "index_view (apply_stake tx s) = index_view s"
  "index_view (apply_unstake idx tx s) = index_view s"
  "index_view (slash E tx i v s) = index_view s"
  "index_view (process_evidence_tx E tx i s) = index_view s"
  "index_view (freeze_epoch n s) = index_view s"
  by (auto simp: index_view_def apply_stake_def apply_unstake_def process_evidence_tx_def slash_def
      remove_validator_def freeze_epoch_def Let_def split: option.splits)

section \<open>Stake and unstake\<close>

lemma stakes_entry_ok:
  "list_all (\<lambda>p. dwf (snd p) \<and> dnonneg (snd p)) d \<Longrightarrow> dwf (dget_or d k []) \<and> dnonneg (dget_or d k [])"
  using list_all_dget_or[of "\<lambda>v. dwf v \<and> dnonneg v" d "[]" k] by simp

lemma stake_ok_apply_stake: "stake_ok s \<Longrightarrow> stake_ok (apply_stake tx s)"
  using stakes_entry_ok[of "stakes s"]
  by (auto simp: stake_ok_def apply_stake_def Let_def commissions_ok_def
      intro!: list_all_dset dnonneg_dset add_nonneg_nonneg dget_or_nonneg)

lemma stake_ok_apply_unstake: "stake_ok s \<Longrightarrow> stake_ok (apply_unstake idx tx s)"
  using list_all_dget[of "\<lambda>p. dwf (snd p) \<and> dnonneg (snd p)" "stakes s"]
  by (auto simp: stake_ok_def apply_unstake_def Let_def commissions_ok_def
      intro!: list_all_dset dnonneg_dset dnonneg_dpop split: option.splits)

lemma total_stake_apply_stake:
  "dwf (total_stake s) \<Longrightarrow> dsum (total_stake (apply_stake tx s)) = dsum (total_stake s) +
     (if str_field tx ''validator_address'' \<noteq> [] \<and> amount_of tx > 0 then amount_of tx else 0)"
  by (simp add: apply_stake_def Let_def dict_simps)

text \<open>Unstaking moves stake into unbonding; the clamp at zero is the only way the sum can grow.\<close>

lemma unstake_moves:
  assumes "dwf (total_stake s)" "dnonneg (total_stake s)"
  shows "dsum (total_stake (apply_unstake idx tx s)) + unbonding_total (apply_unstake idx tx s)
       = dsum (total_stake s) + unbonding_total s
         + (if str_field tx ''validator_address'' \<noteq> [] \<and> amount_of tx > 0
            then max 0 (amount_of tx - dget_or (total_stake s) (str_field tx ''validator_address'') 0)
            else 0)"
  using assms by (auto simp: apply_unstake_def Let_def dict_simps unbonding_total_def)

section \<open>Slashing\<close>

lemma reduction_bounds: "0 \<le> n \<Longrightarrow> 0 \<le> reduction_of n \<and> reduction_of n \<le> n"
  by (auto simp: reduction_of_def Let_def staking_consts)

lemma slash_stakers_ok:
  assumes "dwf d" "dnonneg d"
  shows "dwf (slash_stakers d) \<and> dnonneg (slash_stakers d)"
  unfolding slash_stakers_def
  by (rule fold_inv[where I = "\<lambda>d. dwf d \<and> dnonneg d"])
    (use assms in \<open>simp_all add: Let_def dnonneg_dset dnonneg_dpop split: prod.splits\<close>)

definition slashed_stakes :: "string \<Rightarrow> (string, (string, int) dict) dict \<Rightarrow> (string, (string, int) dict) dict" where
  "slashed_stakes v d = (case dget d v of None \<Rightarrow> d | Some stakers \<Rightarrow> dset d v (slash_stakers stakers))"

lemma slashed_stakes_ok:
  assumes "dwf d" "list_all (\<lambda>p. dwf (snd p) \<and> dnonneg (snd p)) d"
  shows "dwf (slashed_stakes v d) \<and> list_all (\<lambda>p. dwf (snd p) \<and> dnonneg (snd p)) (slashed_stakes v d)"
proof (cases "dget d v")
  case None
  then show ?thesis using assms by (simp add: slashed_stakes_def)
next
  case (Some st)
  then have "dwf st \<and> dnonneg st" using list_all_dget[OF assms(2)] by simp
  then have "dwf (slash_stakers st) \<and> dnonneg (slash_stakers st)" using slash_stakers_ok by simp
  then show ?thesis using Some assms by (simp add: slashed_stakes_def list_all_dset)
qed

lemma slash_fields:
  defines "new_total \<equiv> \<lambda>v s. max 0 (dget_or (total_stake s) v 0 - reduction_of (dget_or (total_stake s) v 0))"
  shows "stakes (slash E tx i v s) =
      (if new_total v s < MIN_STAKE then dpop (slashed_stakes v (stakes s)) v else slashed_stakes v (stakes s))"
    and "total_stake (slash E tx i v s) =
      (if new_total v s < MIN_STAKE then dpop (total_stake s) v else dset (total_stake s) v (new_total v s))"
    and "unbonding (slash E tx i v s) = unbonding s" "epoch_rewards (slash E tx i v s) = epoch_rewards s"
    and "validator_commission (slash E tx i v s) = validator_commission s"
  by (simp_all add: slash_def slashed_stakes_def new_total_def remove_validator_def Let_def)

lemma stake_ok_slash: "stake_ok s \<Longrightarrow> stake_ok (slash E tx i v s)"
  using slashed_stakes_ok[of "stakes s" v]
  by (simp add: stake_ok_def slash_fields commissions_ok_def list_all_dpop dnonneg_dset dnonneg_dpop)

lemma stake_ok_evidence: "stake_ok s \<Longrightarrow> stake_ok (process_evidence_tx E tx i s)"
  by (auto simp: process_evidence_tx_def Let_def stake_ok_slash split: option.splits)

text \<open>One double-sign is punished once: evidence against a slashed validator changes nothing.\<close>

lemma evidence_once:
  "str_field tx ''validator_address'' \<in> processed_evidence s \<Longrightarrow> process_evidence_tx E tx i s = s"
  by (simp add: process_evidence_tx_def)

lemma slash_total:
  assumes "stake_ok s" "t = get_validator_stake s v"
  shows "get_validator_stake (slash E tx i v s) v = (if t - reduction_of t < MIN_STAKE then 0 else t - reduction_of t)"
    and "v \<in> processed_evidence (slash E tx i v s)" "v \<in> slashed_validators (slash E tx i v s)"
    and "w \<noteq> v \<Longrightarrow> get_validator_stake (slash E tx i v s) w = get_validator_stake s w"
proof -
  have "0 \<le> t" using assms by (simp add: stake_ok_def get_validator_stake_def dget_or_nonneg)
  then have "max 0 (t - reduction_of t) = t - reduction_of t" using reduction_bounds[of t] by simp
  then show "get_validator_stake (slash E tx i v s) v
      = (if t - reduction_of t < MIN_STAKE then 0 else t - reduction_of t)"
    using assms(2) by (simp add: slash_def Let_def get_validator_stake_def remove_validator_def dict_simps)
qed (simp_all add: slash_def Let_def get_validator_stake_def remove_validator_def dict_simps)

section \<open>Matured unbondings\<close>

lemma sum_filter_split: "sum_list (map f (filter P xs)) + sum_list (map f (filter (\<lambda>x. \<not> P x) xs)) = sum_list (map f xs)"
  for f :: "'x \<Rightarrow> int"
  by (induction xs) auto

definition paid_to :: "string \<Rightarrow> (string \<times> int) list \<Rightarrow> int" where
  "paid_to x ps = sum_list (map snd (filter (\<lambda>p. fst p = x) ps))"

text \<open>What stays when balances move: everything but the balances.\<close>

definition rest_view where
  "rest_view s = (total_minted s, total_burned s, financial_active s, stake_view s, index_view s)"

lemma rest_view_frame [frame_simps]:
  "rest_view (credited a n s) = rest_view s" "rest_view (debited a n s) = rest_view s"
  by (simp_all add: rest_view_def frame_simps)

lemma credits_run:
  assumes "ledger_ok s" "list_all (\<lambda>p. 0 \<le> snd p) ps"
  shows "\<exists>t. run_all (map (\<lambda>p. credit (fst p) (snd p)) ps) s = (None, t)
    \<and> ledger_ok t \<and> funds t = funds s + sum_list (map snd ps)
    \<and> (solvent s \<longrightarrow> solvent t) \<and> (\<forall>x. get_balance t x = get_balance s x + paid_to x ps)
    \<and> rest_view t = rest_view s \<and> staking.more t = staking.more s"
  using assms
proof (induction ps arbitrary: s)
  case (Cons p ps)
  let ?u = "credited (fst p) (snd p) s"
  have c: "credit (fst p) (snd p) s = (None, ?u)" using Cons.prems by (simp add: ledger_simps)
  have m: "staking.more ?u = staking.more s" by (simp add: credited_def)
  obtain t where t: "run_all (map (\<lambda>p. credit (fst p) (snd p)) ps) ?u = (None, t)"
    "ledger_ok t" "funds t = funds ?u + sum_list (map snd ps)" "solvent ?u \<longrightarrow> solvent t"
    "\<forall>x. get_balance t x = get_balance ?u x + paid_to x ps" "rest_view t = rest_view ?u"
    "staking.more t = staking.more ?u"
    using Cons.IH[of ?u] Cons.prems by (auto simp: ledger_simps)
  have r: "run_all (map (\<lambda>p. credit (fst p) (snd p)) (p # ps)) s = (None, t)"
    using t(1) c by simp
  have "solvent s \<longrightarrow> solvent t" using t(4) Cons.prems solvent_credited by auto
  moreover have "\<forall>x. get_balance t x = get_balance s x + paid_to x (p # ps)"
    using t(5) by (auto simp: balance_credited paid_to_def)
  ultimately show ?case
    using r t m Cons.prems by (intro exI[of _ t]) (simp add: frame_simps funds_credited)
qed (simp add: paid_to_def)

text \<open>Matured entries are paid out: the value moves from unbonding to balances.\<close>

lemma mature_unbondings:
  assumes "money_ok s" "financial_active s"
  shows "\<exists>t. process_mature_unbondings idx s = (None, t) \<and> money_ok t \<and> accounted t = accounted s
    \<and> total_minted t = total_minted s \<and> financial_active t \<and> index_view t = index_view s
    \<and> total_stake t = total_stake s \<and> stakes t = stakes s"
proof -
  have m: "list_all (\<lambda>e. 0 \<le> ub_amount e) (matured idx s)"
    using assms(1) by (auto simp: money_ok_def stake_ok_def matured_def list_all_iff)
  obtain t where t: "run_all (map (\<lambda>e. credit (ub_staker e) (ub_amount e)) (matured idx s)) s = (None, t)"
    "ledger_ok t" "funds t = funds s + sum_list (map ub_amount (matured idx s))"
    "solvent s \<longrightarrow> solvent t" "total_minted t = total_minted s" "total_burned t = total_burned s"
    "financial_active t = financial_active s" "stake_view t = stake_view s" "index_view t = index_view s"
    using credits_run[of s "map (\<lambda>e. (ub_staker e, ub_amount e)) (matured idx s)"] assms(1) m
    by (auto simp: money_ok_def list_all_iff rest_view_def o_def)
  let ?r = "t\<lparr>unbonding := filter (\<lambda>e. \<not> ub_release e \<le> idx) (unbonding t)\<rparr>"
  have run: "process_mature_unbondings idx s = (None, ?r)"
    using t(1) assms(2) by (simp add: process_mature_unbondings_def)
  have u: "unbonding t = unbonding s" "total_stake t = total_stake s" "stakes t = stakes s"
    using t(8) by (simp_all add: stake_view_def)
  have "stake_ok t" using t(8) assms(1) stake_ok_cong by (auto simp: money_ok_def)
  then have "stake_ok ?r" by (auto simp: stake_ok_def list_all_iff commissions_ok_def)
  moreover have "ledger_ok ?r" "solvent ?r" "index_view ?r = index_view t" "funds ?r = funds t"
    using t assms(1) by (auto simp: money_ok_def ledger_ok_def solvent_def index_view_def funds_def)
  moreover have "accounted ?r = accounted s"
    using t(3,6) u(1,2) sum_filter_split[of ub_amount "\<lambda>e. ub_release e \<le> idx" "unbonding s"]
      \<open>funds ?r = funds t\<close>
    by (simp add: accounted_def unbonding_total_def matured_def)
  ultimately show ?thesis
    using run t assms(2) u by (auto simp: money_ok_def)
qed

end
