(* ===== verification/Rewards.thy ===== *)
theory Rewards
  imports Staking
begin

text \<open>
  What \<open>_distribute_epoch_rewards\<close>, \<open>_check_epoch_transition\<close> and \<open>_process_mature_unbondings\<close>
  guarantee: they never raise on a consistent state, move value without creating any, and take no
  more from a validator than its pool and its balance.
\<close>

section \<open>Shares\<close>

lemma floor_shares_le:
  fixes pool total :: int
  assumes "0 \<le> pool" "0 < total" "list_all (\<lambda>p. 0 \<le> snd p) ps" "sum_list (map snd ps) \<le> total"
  shows "sum_list (map (\<lambda>p. pool * snd p div total) ps) \<le> pool"
proof -
  have "total * sum_list (map (\<lambda>p. pool * snd p div total) ps) \<le> pool * sum_list (map snd ps)"
    using assms(3)
  proof (induction ps)
    case (Cons p ps)
    have "total * (pool * snd p div total) \<le> pool * snd p"
      using pos_mod_sign[OF assms(2), of "pool * snd p"] mult_div_mod_eq[of total "pool * snd p"]
      by linarith
    then show ?case using Cons by (simp add: distrib_left)
  qed simp
  also have "\<dots> \<le> pool * total" using assms(4,1) by (rule mult_left_mono)
  finally show ?thesis using assms(2) by (simp add: mult.commute)
qed

lemma sum_positive_filter:
  fixes f :: "'x \<Rightarrow> int"
  shows "list_all (\<lambda>p. 0 \<le> f p) ps \<Longrightarrow> sum_list (map f (filter (\<lambda>p. f p > 0) ps)) = sum_list (map f ps)"
  by (induction ps) auto

lemma total_delegated_nonneg: "dnonneg stks \<Longrightarrow> 0 \<le> total_delegated v stks"
  by (induction stks) (auto simp: total_delegated_def)

lemma delegator_shares_sum:
  assumes "dnonneg stks" "0 \<le> pool" "total_delegated v stks \<noteq> 0"
  shows "sum_list (map snd (delegator_shares v pool stks)) \<le> pool"
proof -
  let ?T = "total_delegated v stks"
  let ?ds = "filter (\<lambda>p. fst p \<noteq> v) stks"
  have T: "0 < ?T" using assms(1,3) total_delegated_nonneg[of stks v] by simp
  have nn: "list_all (\<lambda>p. 0 \<le> snd p) ?ds"
    using assms(1) by (auto simp: dnonneg_def list_all_iff)
  have nn2: "list_all (\<lambda>p. 0 \<le> snd p) (map (\<lambda>(d, st). (d, pool * st div ?T)) ?ds)"
    using nn T assms(2) by (auto simp: list_all_iff pos_imp_zdiv_nonneg_iff)
  have "sum_list (map snd (delegator_shares v pool stks))
      = sum_list (map (\<lambda>p. pool * snd p div ?T) ?ds)"
    using sum_positive_filter[OF nn2]
    by (simp add: delegator_shares_def o_def case_prod_beta)
  also have "\<dots> \<le> pool"
    using floor_shares_le[OF assms(2) T nn] by (simp add: total_delegated_def)
  finally show ?thesis .
qed

lemma delegator_shares_positive: "list_all (\<lambda>p. 0 < snd p) (delegator_shares v pool stks)"
  by (simp add: delegator_shares_def list_all_iff)

lemma delegator_shares_not_self: "paid_to v (delegator_shares v pool stks) = 0"
  by (induction stks) (auto simp: delegator_shares_def paid_to_def)

lemma delegator_pool_bounds:
  assumes "money_ok s" "\<And>sn. snap = Some sn \<Longrightarrow> 0 \<le> dget_or sn v 0"
  shows "0 \<le> delegator_pool snap v s" "delegator_pool snap v s \<le> get_balance s v"
proof -
  let ?r = "get_epoch_rewards s v" and ?c = "get_validator_commission s v"
  have r: "0 \<le> ?r" using assms(1)
    by (simp add: money_ok_def stake_ok_def get_epoch_rewards_def dget_or_nonneg)
  have "commissions_ok s" using assms(1) by (simp add: money_ok_def stake_ok_def)
  then have c: "0 \<le> ?c" "?c \<le> 100"
    using dget_or_cases[of "validator_commission s" v DEFAULT_COMMISSION_RATE 0]
    by (auto simp: commissions_ok_def get_validator_commission_def staking_consts)
  have "?r * ?c \<le> ?r * 100" using r c by (simp add: mult_left_mono)
  then have "?r * ?c div 100 \<le> ?r" by linarith
  moreover have "0 \<le> get_balance s v" using assms(1) by (simp add: money_ok_def solvent_balance)
  ultimately show "0 \<le> delegator_pool snap v s" "delegator_pool snap v s \<le> get_balance s v"
    using assms(2) by (auto simp: delegator_pool_def Let_def split: option.splits)
qed

section \<open>One validator's distribution\<close>

text \<open>The dicts besides \<open>balances\<close> and \<open>epoch_rewards\<close> that a distribution leaves alone.\<close>

definition stable_view where
  "stable_view s = (total_minted s, total_burned s, financial_active s, stakes s, total_stake s,
     unbonding s, validator_commission s, index_view s)"

lemma distribute_one_ok:
  assumes m: "money_ok s" and d: "dwf stks" "dnonneg stks"
    and sn: "\<And>sn. snap = Some sn \<Longrightarrow> 0 \<le> dget_or sn v 0"
  shows "\<exists>ds' t. distribute_one snap (v, stks) (ds, s) = (None, (ds', t)) \<and> money_ok t
    \<and> funds t = funds s \<and> stable_view t = stable_view s
    \<and> (\<forall>x. x \<noteq> v \<longrightarrow> get_balance s x \<le> get_balance t x)
    \<and> get_balance s v - delegator_pool snap v s \<le> get_balance t v"
proof (cases "stks = [] \<or> total_delegated v stks = 0 \<or> get_epoch_rewards s v = 0")
  case True
  then show ?thesis using m delegator_pool_bounds[OF m sn] by (auto simp: distribute_one_def)
next
  case False
  let ?pool = "delegator_pool snap v s"
  let ?sh = "delegator_shares v ?pool stks"
  let ?dist = "sum_list (map snd ?sh)"
  have pool: "0 \<le> ?pool" "?pool \<le> get_balance s v" using delegator_pool_bounds[OF m sn] by auto
  have le: "?dist \<le> ?pool" using delegator_shares_sum[OF d(2) pool(1)] False by simp
  have pos: "list_all (\<lambda>p. 0 \<le> snd p) ?sh"
    using delegator_shares_positive[of v ?pool stks] by (auto simp: list_all_iff)
  then have dist: "0 \<le> ?dist" by (intro sum_list_nonneg) (auto simp: list_all_iff)
  obtain t where t: "run_all (map (\<lambda>p. credit (fst p) (snd p)) ?sh) s = (None, t)"
    "ledger_ok t" "funds t = funds s + ?dist" "solvent t"
    "\<forall>x. get_balance t x = get_balance s x + paid_to x ?sh" "rest_view t = rest_view s"
    using credits_run[OF _ pos, of s] m by (auto simp: money_ok_def)
  have bv: "get_balance t v = get_balance s v" using t(5) delegator_shares_not_self by simp
  let ?u = "debited v ?dist t"
  have db: "(if ?dist > 0 then debit v ?dist t else (None, t)) = (None, ?u)"
    using dist le pool(2) bv by (auto simp: debit_None debited_def)
  let ?w = "?u\<lparr>epoch_rewards := dset (epoch_rewards ?u) v 0\<rparr>"
  have run: "\<exists>ds'. distribute_one snap (v, stks) (ds, s) = (None, (ds', ?w))"
    using False t(1) db by (simp add: distribute_one_def Let_def)
  have "solvent ?u" using t(4) le pool(2) bv by (intro solvent_debited) auto
  moreover have "stake_ok t" using t(6) m stake_ok_cong[of t s] by (simp add: rest_view_def money_ok_def)
  then have "stake_ok ?u" using stake_ok_cong[of ?u t] by (simp add: frame_simps)
  ultimately have "money_ok ?w"
    using t(2) ledger_ok_debited[of t v ?dist]
    by (auto simp: money_ok_def stake_ok_def ledger_ok_def solvent_def commissions_ok_def intro: dnonneg_dset)
  moreover have "funds ?w = funds s" using t(2,3) funds_debited[of t v ?dist] by (simp add: funds_def)
  moreover have "stable_view ?w = stable_view s"
    using t(6) by (simp add: stable_view_def rest_view_def stake_view_def debited_def index_view_def Let_def)
  moreover have "\<forall>x. x \<noteq> v \<longrightarrow> get_balance s x \<le> get_balance ?w x"
  proof (intro allI impI)
    fix x assume x: "x \<noteq> v"
    have "0 \<le> paid_to x ?sh"
      unfolding paid_to_def by (rule sum_list_nonneg) (use pos in \<open>auto simp: list_all_iff\<close>)
    then show "get_balance s x \<le> get_balance ?w x"
      using t(5) x balance_debited[of v ?dist t x] by (simp add: get_balance_def)
  qed
  moreover have "get_balance s v - ?pool \<le> get_balance ?w v"
    using bv le balance_debited[of v ?dist t v] by (simp add: get_balance_def)
  ultimately show ?thesis using run by blast
qed

section \<open>The whole distribution and the epoch boundary\<close>

lemma distribute_all:
  assumes "money_ok s" "list_all (\<lambda>p. dwf (snd p) \<and> dnonneg (snd p)) vs"
    and "\<And>sn v. snap = Some sn \<Longrightarrow> 0 \<le> dget_or sn v 0"
  shows "\<exists>ds' t. run_all (map (distribute_one snap) vs) (ds, s) = (None, (ds', t)) \<and> money_ok t
    \<and> funds t = funds s \<and> stable_view t = stable_view s"
  using assms(1,2)
proof (induction vs arbitrary: ds s)
  case (Cons p vs)
  obtain ds1 t1 where 1: "distribute_one snap p (ds, s) = (None, (ds1, t1))" "money_ok t1"
    "funds t1 = funds s" "stable_view t1 = stable_view s"
    using distribute_one_ok[OF Cons.prems(1), of "snd p" snap "fst p" ds] Cons.prems(2) assms(3) by auto
  obtain ds2 t2 where "run_all (map (distribute_one snap) vs) (ds1, t1) = (None, (ds2, t2))"
    "money_ok t2" "funds t2 = funds t1" "stable_view t2 = stable_view t1"
    using Cons.IH[OF 1(2), of ds1] Cons.prems(2) by auto
  then show ?case using 1 by auto
qed simp

lemma map_zero_ok: "dwf d \<Longrightarrow> dnonneg (map (\<lambda>p. (fst p, 0 :: int)) d)"
  by (simp add: dnonneg_def list_all_iff)

lemma distribute_epoch_rewards_ok:
  assumes "money_ok s" "\<And>sn v. snap = Some sn \<Longrightarrow> 0 \<le> dget_or sn v 0"
  shows "\<exists>t. distribute_epoch_rewards n snap s = (None, t) \<and> money_ok t
    \<and> funds t = funds s \<and> stable_view t = stable_view s \<and> (\<forall>v. get_epoch_rewards t v = 0)"
proof -
  have st: "list_all (\<lambda>p. dwf (snd p) \<and> dnonneg (snd p)) (stakes s)"
    using assms(1) by (simp add: money_ok_def stake_ok_def)
  obtain ds t where t: "run_all (map (distribute_one snap) (stakes s)) (\<lparr>ds_credits = [], ds_debits = []\<rparr>, s)
      = (None, (ds, t))" "money_ok t" "funds t = funds s" "stable_view t = stable_view s"
    using distribute_all[OF assms(1) st assms(2)] by blast
  let ?w = "t\<lparr>epoch_rewards := map (\<lambda>p. (fst p, 0)) (epoch_rewards t),
              last_distributions := dset (last_distributions t) n ds\<rparr>"
  have "distribute_epoch_rewards n snap s = (None, ?w)"
    using t(1) by (simp add: distribute_epoch_rewards_def)
  moreover have "money_ok ?w"
    using t(2)
    by (simp add: money_ok_def stake_ok_def ledger_ok_def solvent_def commissions_ok_def dnonneg_def
        list_all_iff)
  moreover have "funds ?w = funds s" "stable_view ?w = stable_view s"
    using t(3,4) by (simp_all add: funds_def stable_view_def index_view_def)
  moreover have "get_epoch_rewards ?w v = 0" for v
    by (auto simp: get_epoch_rewards_def dget_or_def map_of_map[symmetric] split: option.splits
        dest: map_of_SomeD)
  ultimately show ?thesis by blast
qed

lemma balance_snapshot_nonneg: "solvent s \<Longrightarrow> 0 \<le> dget_or (balance_snapshot s) v 0"
  using solvent_balance[of s]
  by (intro dget_or_nonneg) (auto simp: balance_snapshot_def dnonneg_def list_all_iff)

lemma freeze_epoch_frame:
  "money_ok (freeze_epoch n s) = money_ok s" "accounted (freeze_epoch n s) = accounted s"
  "total_minted (freeze_epoch n s) = total_minted s" "financial_active (freeze_epoch n s) = financial_active s"
  "total_stake (freeze_epoch n s) = total_stake s" "index_view (freeze_epoch n s) = index_view s"
proof -
  have v: "fin_view (freeze_epoch n s) = fin_view s" "stake_view (freeze_epoch n s) = stake_view s"
    by (simp_all add: fin_view_def stake_view_def freeze_epoch_def)
  show "money_ok (freeze_epoch n s) = money_ok s" "accounted (freeze_epoch n s) = accounted s"
    using money_ok_cong[OF v] accounted_cong[OF v] by auto
qed (simp_all add: freeze_epoch_def index_view_def)

lemma epoch_transition_ok:
  assumes "money_ok s"
  shows "\<exists>t. check_epoch_transition idx s = (None, t) \<and> money_ok t \<and> accounted t = accounted s
    \<and> total_minted t = total_minted s \<and> financial_active t = financial_active s
    \<and> total_stake t = total_stake s \<and> index_view t = index_view s"
proof -
  have snap: "\<And>sn v. Some (balance_snapshot s) = Some sn \<Longrightarrow> 0 \<le> dget_or sn v 0"
    using balance_snapshot_nonneg assms by (auto simp: money_ok_def)
  obtain t where t: "distribute_epoch_rewards (idx div EPOCH_LENGTH - 1) (Some (balance_snapshot s)) s = (None, t)"
    "money_ok t" "funds t = funds s" "stable_view t = stable_view s"
    using distribute_epoch_rewards_ok[OF assms snap] by blast
  have a: "accounted t = accounted s"
    using t(3,4) by (simp add: accounted_def stable_view_def unbonding_total_def)
  show ?thesis
    using t a assms
    by (auto simp: check_epoch_transition_def Let_def when_do_eq freeze_epoch_frame stable_view_def)
qed

end
