(* ===== verification/Tokens.thy ===== *)
theory Tokens
  imports Rewards
begin

text \<open>
  The multi-asset tokens of \<open>core/blockchain.py\<close>: the ISSUE_TOKEN, MINT_TOKEN and TRANSFER_TOKEN
  branches of \<open>_append_block_inner\<close>, and the two secondary indices \<open>_update_token_index\<close> keeps. The
  invariant \<open>tokens_ok\<close> says that balances add up to what was minted, caps hold, and indices agree
  with the balances.
\<close>

section \<open>State\<close>

record token_info =
  tk_issuer :: string
  tk_name :: string
  tk_symbol :: string
  tk_decimals :: int
  tk_max_supply :: int
  tk_minted :: int
  tk_transferable :: bool
  tk_created_block :: int
  tk_created_tx :: string

record tokens = staking +
  token_registry :: "(string, token_info) dict"
  token_balances :: "(string \<times> string, int) dict"
  token_by_symbol :: "(string, string) dict"
  holders_by_token :: "(string, string set) dict"
  tokens_by_address :: "(string, string set) dict"

definition MAX_TOKEN_AMOUNT :: int where
  "MAX_TOKEN_AMOUNT = 2 ^ 63 - 1"

section \<open>Operations\<close>

text \<open>\<open>d.setdefault(k, set()).add(v)\<close>, and the removal that deletes a set that became empty.\<close>

definition index_add :: "('k, 'v set) dict \<Rightarrow> 'k \<Rightarrow> 'v \<Rightarrow> ('k, 'v set) dict" where
  "index_add d k v = dset d k (insert v (dget_or d k {}))"

definition index_remove :: "('k, 'v set) dict \<Rightarrow> 'k \<Rightarrow> 'v \<Rightarrow> ('k, 'v set) dict" where
  "index_remove d k v =
     (case dget d k of
        None \<Rightarrow> d
      | Some vs \<Rightarrow> let vs' = vs - {v} in if vs' = {} then dpop d k else dset d k vs')"

definition update_token_index ::
    "string \<Rightarrow> string \<Rightarrow> int \<Rightarrow> 'a tokens_scheme \<Rightarrow> 'a tokens_scheme" where
  "update_token_index token_id address new_balance s =
     (if new_balance > 0
      then s\<lparr>holders_by_token := index_add (holders_by_token s) token_id address,
             tokens_by_address := index_add (tokens_by_address s) address token_id\<rparr>
      else s\<lparr>holders_by_token := index_remove (holders_by_token s) token_id address,
             tokens_by_address := index_remove (tokens_by_address s) address token_id\<rparr>)"

definition token_id_of :: "env \<Rightarrow> transaction \<Rightarrow> string" where
  "token_id_of E tx =
     take 32 (hex (sha3 E (encode (tx_sender tx @ str_field tx ''symbol'' @ int_str (tx_nonce tx)))))"

definition apply_issue_token :: "env \<Rightarrow> int \<Rightarrow> transaction \<Rightarrow> ('a tokens_scheme) act" where
  "apply_issue_token E idx tx s =
     (if idx < TOKEN_ACTIVATION_HEIGHT then (None, s)
      else
        (let symbol = str_field tx ''symbol''; token_id = token_id_of E tx
         in if dmem symbol (token_by_symbol s)
            then (Some (ve ''token symbol {} already exists'' [PStr symbol]), s)
            else if dmem token_id (token_registry s)
            then (Some (ve ''token_id collision: {}'' [PStr token_id]), s)
            else
              (None,
               s\<lparr>token_registry := dset (token_registry s) token_id
                   \<lparr>tk_issuer = tx_sender tx, tk_name = str_field tx ''name'', tk_symbol = symbol,
                    tk_decimals = int_of_py (pget tx ''decimals'' PNone),
                    tk_max_supply = int_of_py (pget tx ''max_supply'' (PInt 0)), tk_minted = 0,
                    tk_transferable = truthy (pget tx ''transferable'' (PBool True)),
                    tk_created_block = idx, tk_created_tx = tx_id E tx\<rparr>,
                 token_by_symbol := dset (token_by_symbol s) symbol token_id\<rparr>)))"

text \<open>A mint that passed the guards.\<close>

definition minted_token ::
    "string \<Rightarrow> string \<Rightarrow> int \<Rightarrow> token_info \<Rightarrow> 'a tokens_scheme \<Rightarrow> 'a tokens_scheme" where
  "minted_token tid recipient amount reg s =
     (let key = (tid, recipient); new_bal = dget_or (token_balances s) key 0 + amount
      in update_token_index tid recipient new_bal
           (s\<lparr>token_registry := dset (token_registry s) tid (reg\<lparr>tk_minted := tk_minted reg + amount\<rparr>),
              token_balances := dset (token_balances s) key new_bal\<rparr>))"

definition apply_mint_token :: "int \<Rightarrow> transaction \<Rightarrow> ('a tokens_scheme) act" where
  "apply_mint_token idx tx s =
     (if idx < TOKEN_ACTIVATION_HEIGHT then (None, s)
      else
        (let tid = str_field tx ''token_id''; amount = amount_of tx
         in case dget (token_registry s) tid of
              None \<Rightarrow> (Some (ve ''token {} does not exist'' [PStr tid]), s)
            | Some reg \<Rightarrow>
                (if tk_issuer reg \<noteq> tx_sender tx
                 then (Some (ve ''only issuer can mint token {}'' [PStr tid]), s)
                 else if tk_minted reg + amount > MAX_TOKEN_AMOUNT
                 then (Some (ve ''minting {} would overflow total_minted'' [PInt amount]), s)
                 else if tk_max_supply reg > 0 \<and> tk_minted reg + amount > tk_max_supply reg
                 then (Some (ve ''minting {} would exceed max_supply {} (minted: {})''
                        [PInt amount, PInt (tk_max_supply reg), PInt (tk_minted reg)]), s)
                 else (None, minted_token tid (tx_recipient tx) amount reg s))))"

text \<open>The two halves of a token transfer.\<close>

definition token_debit :: "string \<Rightarrow> string \<Rightarrow> int \<Rightarrow> 'a tokens_scheme \<Rightarrow> 'a tokens_scheme" where
  "token_debit tid sender amount s =
     (let src_key = (tid, sender); src_bal = dget_or (token_balances s) src_key 0;
          bals = (if src_bal - amount = 0 then dpop (token_balances s) src_key
                  else dset (token_balances s) src_key (src_bal - amount))
      in update_token_index tid sender (dget_or bals src_key 0) (s\<lparr>token_balances := bals\<rparr>))"

definition token_credit :: "string \<Rightarrow> string \<Rightarrow> int \<Rightarrow> 'a tokens_scheme \<Rightarrow> 'a tokens_scheme" where
  "token_credit tid recipient amount s =
     (let new_bal = dget_or (token_balances s) (tid, recipient) 0 + amount
      in update_token_index tid recipient new_bal
           (s\<lparr>token_balances := dset (token_balances s) (tid, recipient) new_bal\<rparr>))"

definition apply_transfer_token :: "int \<Rightarrow> transaction \<Rightarrow> ('a tokens_scheme) act" where
  "apply_transfer_token idx tx s =
     (if idx < TOKEN_ACTIVATION_HEIGHT then (None, s)
      else
        (let tid = str_field tx ''token_id''; amount = amount_of tx;
             src_bal = dget_or (token_balances s) (tid, tx_sender tx) 0
         in case dget (token_registry s) tid of
              None \<Rightarrow> (Some (ve ''token {} does not exist'' [PStr tid]), s)
            | Some reg \<Rightarrow>
                (if \<not> tk_transferable reg
                 then (Some (ve ''token {} is not transferable'' [PStr tid]), s)
                 else if src_bal < amount
                 then (Some (ve ''insufficient token balance: {} < {}'' [PInt src_bal, PInt amount]), s)
                 else
                   (None, token_credit tid (tx_recipient tx) amount
                            (token_debit tid (tx_sender tx) amount s)))))"

section \<open>Queries\<close>

definition get_token_info :: "'a tokens_scheme \<Rightarrow> string \<Rightarrow> token_info option" where
  "get_token_info s token_id = dget (token_registry s) token_id"

definition get_token_by_symbol :: "'a tokens_scheme \<Rightarrow> string \<Rightarrow> token_info option" where
  "get_token_by_symbol s symbol =
     (case dget (token_by_symbol s) symbol of
        Some tid \<Rightarrow> (if tid \<noteq> [] then dget (token_registry s) tid else None)
      | None \<Rightarrow> None)"

definition get_token_balance :: "'a tokens_scheme \<Rightarrow> string \<Rightarrow> string \<Rightarrow> int" where
  "get_token_balance s token_id address = dget_or (token_balances s) (token_id, address) 0"

section \<open>Invariant\<close>

definition tsum :: "string \<Rightarrow> (string \<times> string, int) dict \<Rightarrow> int" where
  "tsum tid d = sum_list (map snd (filter (\<lambda>p. fst (fst p) = tid) d))"

definition minted_of :: "'a tokens_scheme \<Rightarrow> string \<Rightarrow> int" where
  "minted_of s tid = (case dget (token_registry s) tid of None \<Rightarrow> 0 | Some r \<Rightarrow> tk_minted r)"

definition caps_ok :: "'a tokens_scheme \<Rightarrow> bool" where
  "caps_ok s \<longleftrightarrow> (\<forall>tid r. dget (token_registry s) tid = Some r \<longrightarrow>
     tk_minted r \<le> MAX_TOKEN_AMOUNT \<and> (tk_max_supply r > 0 \<longrightarrow> tk_minted r \<le> tk_max_supply r))"

definition conserved :: "'a tokens_scheme \<Rightarrow> bool" where
  "conserved s \<longleftrightarrow> (\<forall>tid. tsum tid (token_balances s) = minted_of s tid)"

definition index_agrees :: "'a tokens_scheme \<Rightarrow> bool" where
  "index_agrees s \<longleftrightarrow>
     (\<forall>tid a. (a \<in> dget_or (holders_by_token s) tid {} \<longleftrightarrow> 0 < get_token_balance s tid a)
            \<and> (tid \<in> dget_or (tokens_by_address s) a {} \<longleftrightarrow> 0 < get_token_balance s tid a))"

definition symbols_ok :: "'a tokens_scheme \<Rightarrow> bool" where
  "symbols_ok s \<longleftrightarrow>
     (\<forall>sym tid. dget (token_by_symbol s) sym = Some tid \<longleftrightarrow>
        (\<exists>r. dget (token_registry s) tid = Some r \<and> tk_symbol r = sym))"

definition tokens_ok :: "'a tokens_scheme \<Rightarrow> bool" where
  "tokens_ok s \<longleftrightarrow>
     dwf (token_registry s) \<and> dwf (token_balances s) \<and> dnonneg (token_balances s)
     \<and> conserved s \<and> caps_ok s \<and> index_agrees s \<and> symbols_ok s"

section \<open>Sums and indices\<close>

lemma tsum_Nil [simp]: "tsum tid [] = 0"
  by (simp add: tsum_def)

lemma tsum_Cons: "tsum tid (p # d) = (if fst (fst p) = tid then snd p else 0) + tsum tid d"
  by (simp add: tsum_def)

lemma tsum_dset: "dwf d \<Longrightarrow>
    tsum tid (dset d k v) = tsum tid d + (if fst k = tid then v - dget_or d k 0 else 0)"
  by (induction d) (auto simp: tsum_Cons dget_or_Cons)

lemma tsum_dpop: "dwf d \<Longrightarrow> tsum tid (dpop d k) = tsum tid d - (if fst k = tid then dget_or d k 0 else 0)"
proof (induction d)
  case (Cons p d)
  then show ?case
    by (cases p)
      (auto simp: tsum_Cons dget_or_Cons AList.delete_eq dpop_notin[unfolded AList.delete_eq])
qed simp

lemma index_add_get: "dget_or (index_add d k v) k' {} = dget_or d k' {} \<union> (if k' = k then {v} else {})"
  by (auto simp: index_add_def dict_simps)

lemma index_remove_get: "dget_or (index_remove d k v) k' {} = dget_or d k' {} - (if k' = k then {v} else {})"
  by (auto simp: index_remove_def Let_def dict_simps dget_or_def split: option.splits)

lemma index_agrees_update:
  assumes "index_agrees s" "\<And>x y. get_token_balance t x y = (if x = tid \<and> y = a then n else get_token_balance s x y)"
    and "holders_by_token t = holders_by_token s" "tokens_by_address t = tokens_by_address s"
  shows "index_agrees (update_token_index tid a n t)"
proof -
  have b: "get_token_balance (update_token_index tid a n t) x y = get_token_balance t x y" for x y
    by (simp add: update_token_index_def get_token_balance_def)
  show ?thesis
    using assms(1)
    unfolding index_agrees_def b assms(2)
    by (auto simp: update_token_index_def index_add_get index_remove_get assms(3,4) split: if_splits)
qed

lemma update_index_frame [simp]:
  "token_registry (update_token_index tid a n s) = token_registry s"
  "token_balances (update_token_index tid a n s) = token_balances s"
  "token_by_symbol (update_token_index tid a n s) = token_by_symbol s"
  by (simp_all add: update_token_index_def)

section \<open>The operations keep the invariant\<close>

lemma issue_token_ok:
  assumes "tokens_ok s" "apply_issue_token E idx tx s = (e, t)"
  shows "tokens_ok t"
proof (cases "e = None \<and> t \<noteq> s")
  case False
  then show ?thesis using assms by (auto simp: apply_issue_token_def Let_def split: if_splits)
next
  case True
  let ?i = "token_id_of E tx" and ?sy = "str_field tx ''symbol''"
  have new: "\<not> dmem ?i (token_registry s)" "\<not> dmem ?sy (token_by_symbol s)"
    using True assms(2) by (auto simp: apply_issue_token_def Let_def split: if_splits)
  obtain r where t: "t = s\<lparr>token_registry := dset (token_registry s) ?i r,
      token_by_symbol := dset (token_by_symbol s) ?sy ?i\<rparr>" "tk_minted r = 0" "tk_symbol r = ?sy"
    using True assms(2) by (auto simp: apply_issue_token_def Let_def split: if_splits)
  have "minted_of t x = minted_of s x" for x
    using new(1) t(2) by (auto simp: minted_of_def t(1) dmem_def dict_simps)
  then have "conserved t" using assms(1) by (simp add: tokens_ok_def conserved_def t(1))
  moreover have "caps_ok t"
    using assms(1) t(2) by (auto simp: tokens_ok_def caps_ok_def t(1) dict_simps MAX_TOKEN_AMOUNT_def)
  moreover have "symbols_ok t"
    using assms(1) new t(3) by (auto simp: tokens_ok_def symbols_ok_def t(1) dict_simps dmem_def)
  ultimately show ?thesis
    using assms(1) by (auto simp: tokens_ok_def t(1) index_agrees_def get_token_balance_def)
qed

lemma mint_cases:
  assumes "apply_mint_token idx tx s = (e, t)" "t \<noteq> s"
  shows "\<exists>reg. dget (token_registry s) (str_field tx ''token_id'') = Some reg
     \<and> tk_issuer reg = tx_sender tx \<and> tk_minted reg + amount_of tx \<le> MAX_TOKEN_AMOUNT
     \<and> (tk_max_supply reg > 0 \<longrightarrow> tk_minted reg + amount_of tx \<le> tk_max_supply reg)
     \<and> t = minted_token (str_field tx ''token_id'') (tx_recipient tx) (amount_of tx) reg s"
proof (cases "dget (token_registry s) (str_field tx ''token_id'')")
  case (Some reg)
  then show ?thesis
    using assms by (simp add: apply_mint_token_def Let_def not_less split: if_split_asm) linarith
qed (use assms in \<open>simp add: apply_mint_token_def Let_def split: if_split_asm\<close>)

lemma mint_token_ok:
  assumes "tokens_ok s" "0 < amount_of tx" "apply_mint_token idx tx s = (e, t)"
  shows "tokens_ok t"
proof (cases "t = s")
  case False
  then obtain reg where
    r: "dget (token_registry s) (str_field tx ''token_id'') = Some reg"
      "tk_minted reg + amount_of tx \<le> MAX_TOKEN_AMOUNT"
      "tk_max_supply reg > 0 \<longrightarrow> tk_minted reg + amount_of tx \<le> tk_max_supply reg"
      "t = minted_token (str_field tx ''token_id'') (tx_recipient tx) (amount_of tx) reg s"
    using mint_cases[OF assms(3)] by blast
  let ?tid = "str_field tx ''token_id''" and ?n = "amount_of tx"
  let ?key = "(?tid, tx_recipient tx)" and ?d = "token_balances s"
  let ?nb = "dget_or ?d ?key 0 + ?n"
  let ?u = "s\<lparr>token_registry := dset (token_registry s) ?tid (reg\<lparr>tk_minted := tk_minted reg + ?n\<rparr>),
              token_balances := dset ?d ?key ?nb\<rparr>"
  have t: "t = update_token_index ?tid (tx_recipient tx) ?nb ?u" using r(4) by (simp add: minted_token_def Let_def)
  have ok: "dwf ?d" "dnonneg ?d" "conserved s" "caps_ok s" "index_agrees s" "symbols_ok s"
    "dwf (token_registry s)"
    using assms(1) by (auto simp: tokens_ok_def)
  have "conserved t"
    using ok(1,3) r(1) by (auto simp: conserved_def t minted_of_def tsum_dset dict_simps)
  moreover have "caps_ok t" using ok(4) r(2,3) by (auto simp: caps_ok_def t dict_simps)
  moreover have "symbols_ok t" using ok(6) r(1) by (auto simp: symbols_ok_def t dict_simps)
  moreover have "index_agrees t"
    unfolding t by (rule index_agrees_update[OF ok(5)]) (auto simp: get_token_balance_def dict_simps)
  moreover have "0 \<le> dget_or ?d ?key 0" using ok(2) by (simp add: dget_or_nonneg)
  ultimately show ?thesis
    using ok assms(2) by (simp add: tokens_ok_def t dnonneg_dset)
qed (use assms in simp)

lemma token_debit_balance:
  "get_token_balance (token_debit tid a n s) x y = get_token_balance s x y - (if x = tid \<and> y = a then n else 0)"
  by (auto simp: token_debit_def get_token_balance_def Let_def dict_simps)

lemma token_credit_balance:
  "get_token_balance (token_credit tid a n s) x y = get_token_balance s x y + (if x = tid \<and> y = a then n else 0)"
  by (auto simp: token_credit_def get_token_balance_def Let_def dict_simps)

lemma token_debit_parts:
  assumes "dwf (token_balances s)" "dnonneg (token_balances s)" "n \<le> get_token_balance s tid a" "index_agrees s"
    "t = token_debit tid a n s"
  shows "dwf (token_balances t)" "dnonneg (token_balances t)" "index_agrees t"
    "tsum x (token_balances t) = tsum x (token_balances s) - (if x = tid then n else 0)"
    "token_registry t = token_registry s" "token_by_symbol t = token_by_symbol s"
proof -
  let ?d = "token_balances s"
  let ?b = "if dget_or ?d (tid, a) 0 - n = 0 then dpop ?d (tid, a) else dset ?d (tid, a) (dget_or ?d (tid, a) 0 - n)"
  have t: "t = update_token_index tid a (dget_or ?b (tid, a) 0) (s\<lparr>token_balances := ?b\<rparr>)"
    using assms(5) by (simp add: token_debit_def Let_def)
  show "dwf (token_balances t)" "dnonneg (token_balances t)" "token_registry t = token_registry s"
    "token_by_symbol t = token_by_symbol s"
    using assms(1-3) by (auto simp: t dnonneg_dset dnonneg_dpop get_token_balance_def)
  show "tsum x (token_balances t) = tsum x ?d - (if x = tid then n else 0)"
    using assms(1) by (auto simp: t tsum_dset tsum_dpop)
  show "index_agrees t"
    unfolding t by (rule index_agrees_update[OF assms(4)]) (auto simp: get_token_balance_def dict_simps)
qed

lemma token_credit_parts:
  assumes "dwf (token_balances s)" "dnonneg (token_balances s)" "0 \<le> n" "index_agrees s"
    "t = token_credit tid a n s"
  shows "dwf (token_balances t)" "dnonneg (token_balances t)" "index_agrees t"
    "tsum x (token_balances t) = tsum x (token_balances s) + (if x = tid then n else 0)"
    "token_registry t = token_registry s" "token_by_symbol t = token_by_symbol s"
proof -
  let ?d = "token_balances s"
  let ?nb = "dget_or ?d (tid, a) 0 + n"
  have t: "t = update_token_index tid a ?nb (s\<lparr>token_balances := dset ?d (tid, a) ?nb\<rparr>)"
    using assms(5) by (simp add: token_credit_def Let_def)
  have nn: "0 \<le> ?nb" using assms(2,3) by (simp add: dget_or_nonneg)
  show "dwf (token_balances t)" "dnonneg (token_balances t)" "token_registry t = token_registry s"
    "token_by_symbol t = token_by_symbol s"
    using assms(1,2) nn by (auto simp: t dnonneg_dset)
  show "tsum x (token_balances t) = tsum x ?d + (if x = tid then n else 0)"
    using assms(1) by (auto simp: t tsum_dset)
  show "index_agrees t"
    unfolding t by (rule index_agrees_update[OF assms(4)]) (auto simp: get_token_balance_def dict_simps)
qed

lemma transfer_token_ok:
  assumes "tokens_ok s" "0 < amount_of tx" "apply_transfer_token idx tx s = (e, t)"
  shows "tokens_ok t"
proof (cases "t = s")
  case False
  let ?tid = "str_field tx ''token_id''" and ?n = "amount_of tx"
  let ?u = "token_debit ?tid (tx_sender tx) ?n s"
  have t: "t = token_credit ?tid (tx_recipient tx) ?n ?u" and le: "?n \<le> get_token_balance s ?tid (tx_sender tx)"
    using False assms(3)
    by (auto simp: apply_transfer_token_def Let_def get_token_balance_def split: if_splits option.splits)
  have ok: "dwf (token_balances s)" "dnonneg (token_balances s)" "index_agrees s"
    using assms(1) by (auto simp: tokens_ok_def)
  note d = token_debit_parts[OF ok(1,2) le ok(3) refl]
  note c = token_credit_parts[OF d(1,2) less_imp_le[OF assms(2)] d(3) refl]
  have "tsum x (token_balances t) = tsum x (token_balances s)" for x
    unfolding t c(4) d(4) by simp
  moreover have "token_registry t = token_registry s" "token_by_symbol t = token_by_symbol s"
    unfolding t c(5,6) d(5,6) by simp_all
  moreover have "dwf (token_balances t)" "dnonneg (token_balances t)" "index_agrees t"
    unfolding t using c(1,2,3) by simp_all
  ultimately show ?thesis
    using assms(1) by (simp add: tokens_ok_def conserved_def caps_ok_def symbols_ok_def minted_of_def)
qed (use assms in simp)

section \<open>Frames\<close>

lemma update_index_more_frame [simp]:
  "fin_view (update_token_index tid a n s) = fin_view s"
  "stake_view (update_token_index tid a n s) = stake_view s"
  "index_view (update_token_index tid a n s) = index_view s"
  by (simp_all add: update_token_index_def fin_view_def stake_view_def index_view_def)

lemma token_parts_frame [simp]:
  "fin_view (minted_token tid a n r s) = fin_view s" "stake_view (minted_token tid a n r s) = stake_view s"
  "index_view (minted_token tid a n r s) = index_view s"
  "fin_view (token_debit tid a n s) = fin_view s" "stake_view (token_debit tid a n s) = stake_view s"
  "index_view (token_debit tid a n s) = index_view s"
  "fin_view (token_credit tid a n s) = fin_view s" "stake_view (token_credit tid a n s) = stake_view s"
  "index_view (token_credit tid a n s) = index_view s"
  by (simp_all add: minted_token_def token_debit_def token_credit_def Let_def,
      simp_all add: fin_view_def stake_view_def index_view_def)

lemma issue_frame [frame_simps]:
  "fin_view (snd (apply_issue_token E idx tx s)) = fin_view s"
  "stake_view (snd (apply_issue_token E idx tx s)) = stake_view s"
  "index_view (snd (apply_issue_token E idx tx s)) = index_view s"
  by (simp_all add: apply_issue_token_def Let_def fin_view_def stake_view_def index_view_def)

lemma mint_frame [frame_simps]:
  "fin_view (snd (apply_mint_token idx tx s)) = fin_view s"
  "stake_view (snd (apply_mint_token idx tx s)) = stake_view s"
  "index_view (snd (apply_mint_token idx tx s)) = index_view s"
  by (simp_all add: apply_mint_token_def Let_def split: option.splits)

lemma transfer_frame [frame_simps]:
  "fin_view (snd (apply_transfer_token idx tx s)) = fin_view s"
  "stake_view (snd (apply_transfer_token idx tx s)) = stake_view s"
  "index_view (snd (apply_transfer_token idx tx s)) = index_view s"
  by (simp_all add: apply_transfer_token_def Let_def split: option.splits)

definition token_view where
  "token_view s = (token_registry s, token_balances s, token_by_symbol s, holders_by_token s,
     tokens_by_address s)"

lemma tokens_ok_cong: "token_view s = token_view t \<Longrightarrow> tokens_ok s = tokens_ok t"
  by (simp add: token_view_def tokens_ok_def conserved_def caps_ok_def symbols_ok_def minted_of_def
      index_agrees_def get_token_balance_def)

end
