(* ===== verification/StateTree.thy ===== *)
theory StateTree
  imports Merkle
begin

text \<open>
  \<open>core/state_tree.py\<close>: the sorted key-value trie behind the state root, with its dirty flag and
  cached root. The abstract contract is a map from keys to values (locale \<open>map_store\<close>, which the
  Python dict implements too) together with a root that is a function of that map.
\<close>

section \<open>The interface of a key-value store\<close>

locale map_store =
  fixes look :: "'s \<Rightarrow> 'k \<Rightarrow> 'v option"
    and put :: "'s \<Rightarrow> 'k \<Rightarrow> 'v \<Rightarrow> 's"
    and del :: "'s \<Rightarrow> 'k \<Rightarrow> 's"
  assumes look_put: "look (put s k v) k' = (if k' = k then Some v else look s k')"
    and look_del: "look (del s k) k' = (if k' = k then None else look s k')"
begin

lemma look_put_all:
  "distinct (map fst kvs) \<Longrightarrow>
   look (fold (\<lambda>(k, v) s. put s k v) kvs s) k =
     (case map_of kvs k of Some v \<Rightarrow> Some v | None \<Rightarrow> look s k)"
proof (induction kvs arbitrary: s)
  case (Cons p kvs)
  then show ?case
    by (cases p) (force simp: look_put dest: map_of_SomeD split: option.splits)
qed simp

lemma look_put_twice: "look (put (put s k v) k w) = look (put s k w)"
  by (rule ext) (simp add: look_put)

lemma look_del_put: "look s k = None \<Longrightarrow> look (del (put s k v) k) = look s"
  by (rule ext) (auto simp: look_put look_del)

end

interpretation dict_store: map_store dget dset dpop
  by unfold_locales (simp_all add: dict_simps)

section \<open>The trie\<close>

record trie =
  entries :: "(string, bytes) dict"
  dirty :: bool
  cached_root :: "bytes option"

definition trie_init :: trie where
  "trie_init = \<lparr>entries = [], dirty = True, cached_root = None\<rparr>"

definition trie_set :: "trie \<Rightarrow> string \<Rightarrow> bytes \<Rightarrow> trie" where
  "trie_set t key value =
     (let old = dget (entries t) key
      in if old = None \<or> old \<noteq> Some value
         then t\<lparr>entries := dset (entries t) key value, dirty := True\<rparr>
         else t)"

definition trie_delete :: "trie \<Rightarrow> string \<Rightarrow> trie" where
  "trie_delete t key =
     (if dmem key (entries t) then t\<lparr>entries := dpop (entries t) key, dirty := True\<rparr> else t)"

definition sorted_keys :: "(string, bytes) dict \<Rightarrow> string list" where
  "sorted_keys d = sort (dkeys d)"

definition leaf_data :: "(bytes \<Rightarrow> bytes) \<Rightarrow> string \<Rightarrow> bytes \<Rightarrow> bytes" where
  "leaf_data h key value = h (encode key @ value)"

definition sorted_leaves :: "(bytes \<Rightarrow> bytes) \<Rightarrow> (string, bytes) dict \<Rightarrow> bytes list" where
  "sorted_leaves h d = map (\<lambda>k. leaf_data h k (dget_or d k [])) (sorted_keys d)"

definition empty_state_tag :: bytes where
  "empty_state_tag = encode ''empty_state''"

text \<open>The root the entries determine, which \<open>root()\<close> computes or takes from its cache.\<close>

definition computed_root :: "(bytes \<Rightarrow> bytes) \<Rightarrow> (string, bytes) dict \<Rightarrow> bytes" where
  "computed_root h d = (if d = [] then h empty_state_tag else merkle_root h (sorted_leaves h d))"

definition trie_root :: "(bytes \<Rightarrow> bytes) \<Rightarrow> trie \<Rightarrow> bytes \<times> trie" where
  "trie_root h t =
     (case (dirty t, cached_root t) of
        (False, Some r) \<Rightarrow> (r, t)
      | _ \<Rightarrow> let r = computed_root h (entries t)
             in (r, t\<lparr>cached_root := Some r, dirty := False\<rparr>))"

text \<open>\<open>bisect.bisect_left\<close> on a sorted list.\<close>

definition bisect_left :: "string list \<Rightarrow> string \<Rightarrow> nat" where
  "bisect_left ks k = length (takeWhile (\<lambda>x. x < k) ks)"

record state_proof =
  sp_key :: string
  sp_value :: string
  sp_proof :: "(string \<times> bool) list"
  sp_root :: string

definition trie_get_proof :: "(bytes \<Rightarrow> bytes) \<Rightarrow> trie \<Rightarrow> string \<Rightarrow> state_proof option \<times> trie" where
  "trie_get_proof h t key =
     (case dget (entries t) key of
        None \<Rightarrow> (None, t)
      | Some value \<Rightarrow>
          (let leaves = sorted_leaves h (entries t);
               key_index = bisect_left (sorted_keys (entries t)) key;
               path = merkle_proof h leaves (int key_index);
               (r, t') = trie_root h t
           in (Some \<lparr>sp_key = key, sp_value = hex value,
                     sp_proof = map (\<lambda>(s, is_left). (hex s, is_left)) path, sp_root = hex r\<rparr>, t')))"

definition trie_verify_proof ::
    "(bytes \<Rightarrow> bytes) \<Rightarrow> string \<Rightarrow> bytes \<Rightarrow> (bytes \<times> bool) list \<Rightarrow> bytes \<Rightarrow> bool" where
  "trie_verify_proof h key value path root =
     verify_merkle_proof h (leaf_data h key value) path root"

definition trie_snapshot :: "trie \<Rightarrow> (string, bytes) dict" where
  "trie_snapshot t = entries t"

definition trie_restore :: "trie \<Rightarrow> (string, bytes) dict \<Rightarrow> trie" where
  "trie_restore t es = t\<lparr>entries := es, dirty := True\<rparr>"

definition trie_len :: "trie \<Rightarrow> nat" where
  "trie_len t = length (entries t)"

section \<open>The trie implements the store interface\<close>

interpretation trie_store: map_store "\<lambda>t. dget (entries t)" trie_set trie_delete
proof unfold_locales
  show "dget (entries (trie_set t k v)) k' = (if k' = k then Some v else dget (entries t) k')"
    for t k v k'
    by (auto simp: trie_set_def Let_def dict_simps)
  show "dget (entries (trie_delete t k)) k' = (if k' = k then None else dget (entries t) k')"
    for t k k'
    by (auto simp: trie_delete_def dmem_def dict_simps)
qed

section \<open>The cache\<close>

text \<open>Keys are distinct, and a clean trie holds the root of its entries.\<close>

definition trie_ok :: "(bytes \<Rightarrow> bytes) \<Rightarrow> trie \<Rightarrow> bool" where
  "trie_ok h t \<longleftrightarrow>
     dwf (entries t) \<and> (dirty t \<or> cached_root t = None \<or> cached_root t = Some (computed_root h (entries t)))"

lemma trie_ok_init: "trie_ok h trie_init"
  by (simp add: trie_ok_def trie_init_def)

lemma trie_ok_set: "trie_ok h t \<Longrightarrow> trie_ok h (trie_set t k v)"
  by (auto simp: trie_ok_def trie_set_def Let_def)

lemma trie_ok_delete: "trie_ok h t \<Longrightarrow> trie_ok h (trie_delete t k)"
  by (auto simp: trie_ok_def trie_delete_def)

lemma trie_ok_root: "trie_ok h t \<Longrightarrow> trie_ok h (snd (trie_root h t))"
  by (auto simp: trie_ok_def trie_root_def Let_def split: bool.splits option.splits)

lemma trie_ok_restore: "dwf es \<Longrightarrow> trie_ok h (trie_restore t es)"
  by (simp add: trie_ok_def trie_restore_def)

lemma trie_root_value: "trie_ok h t \<Longrightarrow> fst (trie_root h t) = computed_root h (entries t)"
  by (auto simp: trie_ok_def trie_root_def Let_def split: bool.splits option.splits)

lemma entries_trie_root [simp]: "entries (snd (trie_root h t)) = entries t"
  by (auto simp: trie_root_def Let_def split: bool.splits option.splits)

section \<open>The root is a function of the map\<close>

lemma sorted_keys_cong:
  assumes "dwf d" "dwf e" "map_of d = map_of e"
  shows "sorted_keys d = sorted_keys e"
proof -
  have "set (dkeys d) = set (dkeys e)"
    using assms(3) by (metis dom_map_of_conv_image_fst image_set)
  then show ?thesis
    using assms(1,2) unfolding sorted_keys_def dwf_def
    by (intro sorted_distinct_set_unique) auto
qed

lemma dget_or_cong: "map_of d = map_of e \<Longrightarrow> dget_or d k v = dget_or e k v"
  by (simp add: dget_or_def)

lemma map_of_Nil_iff: "map_of d = map_of [] \<longleftrightarrow> d = []"
  by (cases d) (auto simp: fun_eq_iff split: if_splits)

lemma computed_root_cong:
  assumes "dwf d" "dwf e" "map_of d = map_of e"
  shows "computed_root h d = computed_root h e"
proof -
  have "d = [] \<longleftrightarrow> e = []" using assms(3) map_of_Nil_iff by metis
  moreover have "sorted_leaves h d = sorted_leaves h e"
    using sorted_keys_cong[OF assms] dget_or_cong[OF assms(3)] by (simp add: sorted_leaves_def)
  ultimately show ?thesis by (simp add: computed_root_def)
qed

section \<open>Proofs\<close>

lemma set_sorted_keys [simp]: "set (sorted_keys d) = fst ` set d"
  by (simp add: sorted_keys_def)

lemma sorted_sorted_keys [simp]: "sorted (sorted_keys d)"
  by (simp add: sorted_keys_def)

lemma length_sorted_leaves [simp]: "length (sorted_leaves h d) = length d"
  by (simp add: sorted_leaves_def sorted_keys_def)

lemma bisect_left_nth:
  "sorted ks \<Longrightarrow> k \<in> set ks \<Longrightarrow> bisect_left ks k < length ks \<and> ks ! bisect_left ks k = k"
  unfolding bisect_left_def
proof (induction ks)
  case (Cons x ks)
  then show ?case by (cases "x < k") (auto simp: not_less)
qed simp

lemma dget_mem_keys: "dget d k = Some v \<Longrightarrow> k \<in> fst ` set d"
  by (force dest: map_of_SomeD)

lemma trie_get_proof_cases:
  assumes "trie_get_proof h t key = (Some p, t')"
  obtains v where "dget (entries t) key = Some v" "sp_key p = key" "sp_value p = hex v"
    "sp_proof p = map (\<lambda>(s, l). (hex s, l))
       (merkle_proof h (sorted_leaves h (entries t)) (int (bisect_left (sorted_keys (entries t)) key)))"
    "sp_root p = hex (fst (trie_root h t))"
  using assms
  by (auto simp: trie_get_proof_def Let_def split: option.splits prod.splits)

lemma trie_proof_verifies:
  assumes "trie_ok h t" "dget (entries t) key = Some value"
  shows "trie_verify_proof h key value
           (merkle_proof h (sorted_leaves h (entries t)) (int (bisect_left (sorted_keys (entries t)) key)))
           (computed_root h (entries t))"
proof -
  let ?d = "entries t" and ?i = "bisect_left (sorted_keys (entries t)) key"
  have mem: "key \<in> set (sorted_keys ?d)" using dget_mem_keys[OF assms(2)] by simp
  have i: "?i < length (sorted_keys ?d)" "sorted_keys ?d ! ?i = key"
    using bisect_left_nth[OF _ mem] by simp_all
  then have il: "?i < length (sorted_leaves h ?d)" by (simp add: sorted_leaves_def)
  have leaf: "sorted_leaves h ?d ! ?i = leaf_data h key value"
    using i assms(2) by (simp add: sorted_leaves_def dget_or_def)
  have "?d \<noteq> []" using assms(2) by auto
  then show ?thesis
    using merkle_proof_verifies[OF il, of h] leaf
    by (simp add: trie_verify_proof_def computed_root_def)
qed

section \<open>Binding: equal roots, equal entries\<close>

lemma encode_char_cases:
  "utf8_char c @ xs = utf8_char d @ ys \<Longrightarrow> c = d \<and> xs = ys"
proof -
  assume eq: "utf8_char c @ xs = utf8_char d @ ys"
  have lt: "code c < 256" "code d < 256"
    by (simp_all add: of_char_def)
  let ?w = "of_nat :: nat \<Rightarrow> byte"
  have inj: "?w m = ?w n \<longleftrightarrow> m = n" if "m < 256" "n < 256" for m n
    using that by (simp add: word_of_nat_eq_iff take_bit_nat_eq_self_iff take_bit_nat_eq_self)
  have q: "code d div 64 < 4" "code c div 64 < 4"
    by (rule less_mult_imp_div_less, use lt in simp)+
  have codes: "code c = code d \<Longrightarrow> c = d" by (metis char_of_char)
  show ?thesis
  proof (cases "code c < 128"; cases "code d < 128")
    assume a: "code c < 128" "code d < 128"
    then show ?thesis using eq codes inj[of "code c" "code d"] by (simp add: utf8_char_def)
  next
    assume a: "code c < 128" "\<not> code d < 128"
    then have "?w (code c) = ?w (192 + code d div 64)" using eq by (simp add: utf8_char_def)
    then have "code c = 192 + code d div 64" using lt q by (subst (asm) inj) auto
    then show ?thesis using a by simp
  next
    assume a: "\<not> code c < 128" "code d < 128"
    then have "?w (192 + code c div 64) = ?w (code d)" using eq by (simp add: utf8_char_def)
    then have "192 + code c div 64 = code d" using lt q by (subst (asm) inj) auto
    then show ?thesis using a by simp
  next
    assume a: "\<not> code c < 128" "\<not> code d < 128"
    then have "?w (192 + code c div 64) = ?w (192 + code d div 64)"
      "?w (128 + code c mod 64) = ?w (128 + code d mod 64)" "xs = ys"
      using eq by (simp_all add: utf8_char_def)
    then have "code c div 64 = code d div 64" "code c mod 64 = code d mod 64" "xs = ys"
      using lt q by (subst (asm) inj; simp)+
    then show ?thesis using codes by (metis div_mult_mod_eq)
  qed
qed

lemma utf8_char_nonempty [simp]: "utf8_char c \<noteq> []"
  by (simp add: utf8_char_def)

lemma encode_inj: "encode s = encode t \<longleftrightarrow> s = t"
proof (induction s arbitrary: t)
  case Nil
  then show ?case by (cases t) (simp_all add: encode_def)
next
  case (Cons c s)
  show ?case
  proof (cases t)
    case Nil
    then show ?thesis by (simp add: encode_def)
  next
    case (Cons d t')
    have "encode (c # s) = utf8_char c @ encode s" "encode t = utf8_char d @ encode t'"
      using Cons by (simp_all add: encode_def)
    then show ?thesis
      using encode_char_cases[of c "encode s" d "encode t'"] Cons.IH[of t'] Cons by auto
  qed
qed

text \<open>The inputs hashed to compute the root of a dict.\<close>

definition root_inputs :: "(bytes \<Rightarrow> bytes) \<Rightarrow> (string, bytes) dict \<Rightarrow> bytes set" where
  "root_inputs h d =
     (if d = [] then {empty_state_tag}
      else tree_inputs h (merkle_tree (sorted_leaves h d))
           \<union> set (map (\<lambda>k. encode k @ dget_or d k []) (sorted_keys d)))"

definition values8 :: "(string, bytes) dict \<Rightarrow> bool" where
  "values8 d \<longleftrightarrow> list_all (\<lambda>p. length (snd p) = 8) d"

lemma values8_get: "values8 d \<Longrightarrow> k \<in> fst ` set d \<Longrightarrow> length (dget_or d k []) = 8"
  by (induction d) (auto simp: values8_def dget_or_Cons)

lemma empty_tag_head: "empty_state_tag = 101 # encode ''mpty_state''"
  by (simp add: empty_state_tag_def encode_def utf8_char_def)

lemma dget_from_keys:
  "dget d k = (if k \<in> fst ` set d then Some (dget_or d k w) else None)"
  by (auto simp: dget_or_def map_of_eq_None_iff split: option.splits)

lemma sorted_leaves_inj:
  assumes inj: "inj_on h (set (map (\<lambda>k. encode k @ dget_or d k []) (sorted_keys d))
                        \<union> set (map (\<lambda>k. encode k @ dget_or e k []) (sorted_keys e)))"
    and v: "values8 d" "values8 e"
    and eq: "sorted_leaves h d = sorted_leaves h e"
  shows "map_of d = map_of e"
proof -
  let ?x = "map (\<lambda>k. encode k @ dget_or d k []) (sorted_keys d)"
  let ?y = "map (\<lambda>k. encode k @ dget_or e k []) (sorted_keys e)"
  have "map h ?x = map h ?y"
    using eq by (simp add: sorted_leaves_def leaf_data_def comp_def)
  then have xy: "?x = ?y" by (rule map_inj_on[OF _ inj])
  have len: "length (sorted_keys d) = length (sorted_keys e)" using arg_cong[OF xy, of length] by simp
  have split: "k = k' \<and> dget_or d k [] = dget_or e k' []"
    if "i < length (sorted_keys d)" "k = sorted_keys d ! i" "k' = sorted_keys e ! i" for i k k'
  proof -
    have "encode k @ dget_or d k [] = encode k' @ dget_or e k' []"
      using arg_cong[OF xy, of "\<lambda>l. l ! i"] that len by simp
    moreover have "length (dget_or d k []) = length (dget_or e k' [])"
      using that len values8_get[OF v(1), of k] values8_get[OF v(2), of k']
        nth_mem[of i "sorted_keys d"] nth_mem[of i "sorted_keys e"] by simp
    ultimately show ?thesis by (auto simp: encode_inj)
  qed
  have keys: "sorted_keys d = sorted_keys e"
    using split len by (auto intro: nth_equalityI)
  then have mem: "k \<in> fst ` set d \<longleftrightarrow> k \<in> fst ` set e" for k
    by (metis set_sorted_keys)
  have vals: "dget_or d k [] = dget_or e k []" if k: "k \<in> fst ` set d" for k
  proof -
    obtain i where i: "i < length (sorted_keys d)" "sorted_keys d ! i = k"
      using k by (metis in_set_conv_nth set_sorted_keys)
    then show ?thesis using split[OF i(1), of k k] keys by metis
  qed
  show ?thesis
  proof (rule ext)
    show "map_of d k = map_of e k" for k
      using dget_from_keys[of d k "[]"] dget_from_keys[of e k "[]"] mem[of k] vals[of k] by simp
  qed
qed

context digest
begin

lemma computed_root_binding:
  assumes inj: "inj_on h (root_inputs h d \<union> root_inputs h e)"
    and v: "values8 d" "values8 e"
    and eq: "computed_root h d = computed_root h e"
  shows "map_of d = map_of e"
proof -
  have mixed: False
    if a: "a = []" "b \<noteq> []" and i: "inj_on h (root_inputs h a \<union> root_inputs h b)"
      and q: "computed_root h a = computed_root h b" for a b :: "(string, bytes) dict"
  proof -
    let ?t = "merkle_tree (sorted_leaves h b)"
    have "sorted_leaves h b \<noteq> []" using a(2) by (metis length_0_conv length_sorted_leaves)
    then have "h empty_state_tag = tree_hash h ?t"
      using q a by (simp add: computed_root_def merkle_root_tree_hash)
    moreover obtain x where "tree_hash h ?t = h x" "x \<in> tree_inputs h ?t" "hd x = 0 \<or> hd x = 1"
      by (cases ?t) (auto simp: leaf_hash_def merkle_node_def)
    ultimately have "empty_state_tag = x"
      using a i by (auto simp: root_inputs_def dest!: inj_onD)
    with \<open>hd x = 0 \<or> hd x = 1\<close> show False by (auto simp: empty_tag_head)
  qed
  consider "d = []" "e = []" | "d = []" "e \<noteq> []" | "d \<noteq> []" "e = []" | "d \<noteq> []" "e \<noteq> []"
    by blast
  then show ?thesis
  proof cases
    case 4
    then have ne: "sorted_leaves h d \<noteq> []" "sorted_leaves h e \<noteq> []"
      by (metis length_0_conv length_sorted_leaves)+
    have "merkle_root h (sorted_leaves h d) = merkle_root h (sorted_leaves h e)"
      using eq 4 by (simp add: computed_root_def)
    then have "sorted_leaves h d = sorted_leaves h e"
      by (rule merkle_root_binding[OF ne])
        (rule inj_on_subset[OF inj], use 4 in \<open>auto simp: root_inputs_def\<close>)
    then show ?thesis
      by (rule sorted_leaves_inj[OF _ v, rotated])
        (rule inj_on_subset[OF inj], use 4 in \<open>auto simp: root_inputs_def\<close>)
  next
    case 2
    then show ?thesis using mixed[of d e] inj eq by blast
  next
    case 3
    then show ?thesis using mixed[of e d] inj eq by (metis Un_commute)
  qed simp
qed

end

end
