(* ===== verification/Receipts.thy ===== *)
theory Receipts
  imports Tokens StateTree
begin

text \<open>
  \<open>core/receipt.py\<close> and \<open>core/receipt_ops.py\<close>: the receipt of a transaction and its hash, the
  receipts root and inclusion proofs, the events a transaction emits, event queries, and the
  finality rule.
\<close>

section \<open>Receipts\<close>

type_synonym event = "(string \<times> pyval) list"

record receipt =
  rc_tx_id :: string
  rc_status :: string
  rc_fee_paid :: int
  rc_block_index :: int
  rc_tx_index :: int
  rc_events :: "event list"

text \<open>\<open>TransactionReceipt(...)\<close>: the constructor's checks, then the object.\<close>

definition receipt_checks :: "receipt \<Rightarrow> outcome list" where
  "receipt_checks r =
     [raise_if (rc_tx_id r = []) (ve ''tx_id must be a non-empty string'' []),
      raise_if (rc_status r \<notin> {''success'', ''failure''}) (ve (''status must be 'success' or 'failure'' @ [CHR 0x27]) []),
      raise_if (rc_fee_paid r < 0) (ve ''fee_paid must be a non-negative integer'' []),
      raise_if (rc_block_index r < 0) (ve ''block_index must be a non-negative integer'' []),
      raise_if (rc_tx_index r < 0) (ve ''tx_index must be a non-negative integer'' [])]"

definition mk_receipt :: "string \<Rightarrow> string \<Rightarrow> int \<Rightarrow> int \<Rightarrow> int \<Rightarrow> event list \<Rightarrow> exn + receipt" where
  "mk_receipt i status fee bi ti evs =
     (let r = \<lparr>rc_tx_id = i, rc_status = status, rc_fee_paid = fee, rc_block_index = bi,
               rc_tx_index = ti, rc_events = evs\<rparr>
      in case checks (receipt_checks r) of Raise e \<Rightarrow> Inl e | _ \<Rightarrow> Inr r)"

definition receipt_hash :: "env \<Rightarrow> receipt \<Rightarrow> string" where
  "receipt_hash E r =
     hex (sha3 E (encode (json_dumps
       (PDict [(''blockIndex'', PInt (rc_block_index r)),
               (''events'', PList (map PDict (rc_events r))),
               (''feePaid'', PInt (rc_fee_paid r)),
               (''status'', PStr (rc_status r)),
               (''txId'', PStr (rc_tx_id r)),
               (''txIndex'', PInt (rc_tx_index r))]))))"

definition receipt_to_dict :: "env \<Rightarrow> receipt \<Rightarrow> (string \<times> pyval) list" where
  "receipt_to_dict E r =
     [(''tx_id'', PStr (rc_tx_id r)), (''status'', PStr (rc_status r)),
      (''fee_paid'', PInt (rc_fee_paid r)), (''block_index'', PInt (rc_block_index r)),
      (''tx_index'', PInt (rc_tx_index r)), (''events'', PList (map PDict (rc_events r))),
      (''receipt_hash'', PStr (receipt_hash E r))]"

definition receipt_shape_checks :: "(string \<times> pyval) list \<Rightarrow> outcome list" where
  "receipt_shape_checks data =
     (let i = dget_or data ''tx_id'' PNone; st = dget_or data ''status'' PNone;
          fee = dget_or data ''fee_paid'' PNone; bi = dget_or data ''block_index'' PNone;
          ti = dget_or data ''tx_index'' PNone; evs = dget_or data ''events'' (PList [])
      in map (\<lambda>k. raise_if (\<not> dmem k data) (KeyError k))
           [''tx_id'', ''status'', ''fee_paid'', ''block_index'', ''tx_index'']
         @ [raise_if (\<not> is_str i \<or> \<not> truthy i) (ve ''tx_id must be a non-empty string'' []),
            raise_if (st \<notin> {PStr ''success'', PStr ''failure''})
              (ve (''status must be 'success' or 'failure'' @ [CHR 0x27]) []),
            raise_if (\<not> is_int fee \<or> int_of_py fee < 0) (ve ''fee_paid must be a non-negative integer'' []),
            raise_if (\<not> is_int bi \<or> int_of_py bi < 0) (ve ''block_index must be a non-negative integer'' []),
            raise_if (\<not> is_int ti \<or> int_of_py ti < 0) (ve ''tx_index must be a non-negative integer'' []),
            raise_if (\<not> is_list evs) (ve ''events must be a list'' [])])"

text \<open>\<open>from_dict\<close>; \<open>None\<close> for a record the model does not hold (bools for ints, events that are no dicts).\<close>

definition receipt_from_dict :: "(string \<times> pyval) list \<Rightarrow> (exn + receipt) option" where
  "receipt_from_dict data =
     (case checks (receipt_shape_checks data) of
        Raise e \<Rightarrow> Some (Inl e)
      | _ \<Rightarrow>
         (let evs = list_of_py (dget_or data ''events'' (PList []))
          in if \<not> list_all is_dict evs
                \<or> list_ex is_bool (map (\<lambda>k. dget_or data k PNone) [''fee_paid'', ''block_index'', ''tx_index''])
             then None
             else Some (Inr
               \<lparr>rc_tx_id = str_of_py (dget_or data ''tx_id'' PNone),
                rc_status = str_of_py (dget_or data ''status'' PNone),
                rc_fee_paid = int_of_py (dget_or data ''fee_paid'' PNone),
                rc_block_index = int_of_py (dget_or data ''block_index'' PNone),
                rc_tx_index = int_of_py (dget_or data ''tx_index'' PNone),
                rc_events = map dict_of_py evs\<rparr>)))"

definition receipt_leaf :: "env \<Rightarrow> receipt \<Rightarrow> bytes" where
  "receipt_leaf E r = the_default [] (fromhex (receipt_hash E r))"

definition receipts_root :: "env \<Rightarrow> receipt list \<Rightarrow> string" where
  "receipts_root E rs =
     (if rs = [] then replicate 64 (CHR ''0'') else hex (merkle_root (sha3 E) (map (receipt_leaf E) rs)))"

definition receipt_proof :: "env \<Rightarrow> receipt list \<Rightarrow> int \<Rightarrow> (bytes \<times> bool) list" where
  "receipt_proof E rs tx_index =
     (if rs = [] \<or> tx_index < 0 \<or> tx_index \<ge> int (length rs) then []
      else merkle_proof (sha3 E) (map (receipt_leaf E) rs) tx_index)"

text \<open>\<open>verify_receipt_proof\<close>; \<open>None\<close> where \<open>bytes.fromhex\<close> raises.\<close>

definition verify_receipt_proof :: "env \<Rightarrow> string \<Rightarrow> (bytes \<times> bool) list \<Rightarrow> string \<Rightarrow> bool option" where
  "verify_receipt_proof E rhash path root =
     (case (fromhex rhash, fromhex root) of
        (Some h, Some r) \<Rightarrow> Some (verify_merkle_proof (sha3 E) h path r)
      | _ \<Rightarrow> None)"

definition build_event :: "string \<Rightarrow> (string \<times> pyval) list \<Rightarrow> event" where
  "build_event event_type kwargs = fold (\<lambda>(k, v) d. dset d k v) kwargs [(''type'', PStr event_type)]"

lemma receipt_round_trip:
  assumes "checks (receipt_checks r) = Ok []"
  shows "receipt_from_dict (receipt_to_dict E r) = Some (Inr r)"
proof -
  have c: "rc_tx_id r \<noteq> []" "rc_status r = ''success'' \<or> rc_status r = ''failure''" "0 \<le> rc_fee_paid r"
    "0 \<le> rc_block_index r" "0 \<le> rc_tx_index r"
    using checks_ok[of "receipt_checks r"] assms by (auto simp: receipt_checks_def)
  have s: "checks (receipt_shape_checks (receipt_to_dict E r)) = Ok []"
    using c by (auto simp: receipt_shape_checks_def receipt_to_dict_def dget_or_def dmem_def is_list_def)
  have d: "map dict_of_py (map PDict (rc_events r)) = rc_events r" "list_all is_dict (map PDict (rc_events r))"
    by (simp_all add: o_def list_all_iff)
  show ?thesis
    using s d by (simp add: receipt_from_dict_def receipt_to_dict_def dget_or_def Let_def)
qed

lemma mk_receipt_ok:
  "mk_receipt i st f b t evs = Inr r \<Longrightarrow> checks (receipt_checks r) = Ok [] \<and> r = \<lparr>rc_tx_id = i, rc_status = st,
     rc_fee_paid = f, rc_block_index = b, rc_tx_index = t, rc_events = evs\<rparr>"
  by (auto simp: mk_receipt_def receipt_checks_def raise_if_def split: outcome.splits if_splits)

lemma receipt_proof_verifies:
  assumes "i < length rs"
  shows "verify_receipt_proof E (receipt_hash E (rs ! i)) (receipt_proof E rs (int i)) (receipts_root E rs) = Some True"
proof -
  have "rs \<noteq> []" using assms by auto
  then show ?thesis
    using assms merkle_proof_verifies[of i "map (receipt_leaf E) rs" "sha3 E"]
    by (simp add: verify_receipt_proof_def receipts_root_def receipt_proof_def receipt_leaf_def
        receipt_hash_def)
qed

end
