(* ===== verification/Finality.thy ===== *)
theory Finality
  imports Receipts
begin

text \<open>
  \<open>core/receipt_ops.py\<close>: the events a transaction emits, the indices of receipts and events, the
  queries over them, and the rule that finalizes a block once the validators of the blocks on top
  of it hold more than two thirds of the stake.
\<close>

section \<open>State\<close>

record receipts = tokens +
  receipt_map :: "(string, receipt) dict"
  events_by_type :: "(string, string list) dict"
  events_by_block :: "(int, string list) dict"
  block_level_events :: "(int, event list) dict"
  finalized_height :: int

section \<open>Events\<close>

definition slash_estimate :: "'a receipts_scheme \<Rightarrow> string \<Rightarrow> int" where
  "slash_estimate s vaddr =
     (let total = dget_or (total_stake s) vaddr 0; slash_amount = total * SLASH_PERCENTAGE div 100
      in if slash_amount \<le> 0 \<and> total > 0 then 1 else slash_amount)"

definition build_tx_events :: "env \<Rightarrow> 'a receipts_scheme \<Rightarrow> transaction \<Rightarrow> event list" where
  "build_tx_events E s tx =
     (let snd_v = PStr (tx_sender tx); rcp = PStr (tx_recipient tx);
          amount = pget tx ''amount'' (PInt 0); vaddr = pget tx ''validator_address'' (PStr [])
      in case tx_type tx of
           TRANSFER \<Rightarrow> [build_event ''Transfer'' [(''sender'', snd_v), (''recipient'', rcp), (''amount'', amount)]]
         | NOTARIZE \<Rightarrow> [build_event ''Notarize''
             [(''sender'', snd_v), (''documentHash'', pget tx ''documentHash'' (PStr []))]]
         | STORE \<Rightarrow> [build_event ''Store''
             [(''sender'', snd_v), (''documentHash'', pget tx ''documentHash'' (PStr [])),
              (''cid'', pget tx ''cid'' (PStr []))]]
         | SHARE \<Rightarrow> [build_event ''Share'' [(''sender'', snd_v), (''recipient'', rcp)]]
         | STAKE \<Rightarrow> [build_event ''Stake'' [(''staker'', snd_v), (''validator'', vaddr), (''amount'', amount)]]
         | DELEGATE \<Rightarrow> [build_event ''Delegate''
             [(''delegator'', snd_v), (''validator'', vaddr), (''amount'', amount)]]
         | UNSTAKE \<Rightarrow> [build_event ''Unstake''
             [(''staker'', snd_v), (''validator'', vaddr), (''amount'', amount)]]
         | REGISTER_KEY \<Rightarrow> [build_event ''KeyRegistered'' [(''address'', snd_v)]]
         | REGISTER_VALIDATOR \<Rightarrow> [build_event ''ValidatorRegistered''
             [(''address'', pget tx ''validator_address'' snd_v)]]
         | REVOKE_KEY \<Rightarrow> [build_event ''KeyRevoked''
             [(''address'', snd_v), (''key_type'', pget tx ''key_type'' (PStr []))]]
         | EVIDENCE \<Rightarrow> [build_event ''Slashed''
             [(''validator'', vaddr), (''amount'', PInt (slash_estimate s (str_of_py vaddr)))]]
         | ISSUE_TOKEN \<Rightarrow> [build_event ''TokenIssued''
             [(''token_id'', PStr (token_id_of E tx)), (''symbol'', pget tx ''symbol'' (PStr [])),
              (''name'', pget tx ''name'' (PStr [])), (''issuer'', snd_v),
              (''max_supply'', pget tx ''max_supply'' (PInt 0))]]
         | MINT_TOKEN \<Rightarrow> [build_event ''TokenMinted''
             [(''token_id'', pget tx ''token_id'' (PStr [])), (''amount'', amount), (''recipient'', rcp),
              (''total_minted'', PInt (case dget (token_registry s) (str_field tx ''token_id'') of
                                       None \<Rightarrow> 0 | Some reg \<Rightarrow> tk_minted reg))]]
         | TRANSFER_TOKEN \<Rightarrow> [build_event ''TokenTransferred''
             [(''token_id'', pget tx ''token_id'' (PStr [])), (''amount'', amount), (''sender'', snd_v),
              (''recipient'', rcp)]])"

definition event_type_of :: "event \<Rightarrow> string" where
  "event_type_of ev = str_of_py (dget_or ev ''type'' (PStr []))"

section \<open>Finality\<close>

text \<open>
  The walk from the new block down to the block above the finalized one: the first index at which
  the validators seen hold more than two thirds of the whole stake.
\<close>

fun finality_scan ::
    "'a receipts_scheme \<Rightarrow> int \<Rightarrow> int list \<Rightarrow> string set \<Rightarrow> int \<Rightarrow> int option" where
  "finality_scan s whole [] seen cum = None"
| "finality_scan s whole (i # is) seen cum =
     (case get_block_by_index s i of
        None \<Rightarrow> None
      | Some b \<Rightarrow>
          (let v = b_validator b;
               cum' = (if v \<in> seen then cum else cum + dget_or (total_stake s) v 0)
           in if cum' * 3 > whole * 2 then Some i
              else finality_scan s whole is (insert v seen) cum'))"

definition update_finality :: "int \<Rightarrow> 'a receipts_scheme \<Rightarrow> 'a receipts_scheme" where
  "update_finality new_block_index s =
     (let whole = dsum (total_stake s)
      in if \<not> financial_active s \<or> whole = 0 then s
         else
           (case finality_scan s whole (rev [max (finalized_height s) (- 1) + 1..new_block_index]) {} 0 of
              None \<Rightarrow> s
            | Some new_finalized \<Rightarrow>
                (if new_finalized > finalized_height s then s\<lparr>finalized_height := new_finalized\<rparr> else s)))"

section \<open>Queries\<close>

definition get_receipt :: "'a receipts_scheme \<Rightarrow> string \<Rightarrow> receipt option" where
  "get_receipt s i = dget (receipt_map s) i"

definition get_block_level_events :: "'a receipts_scheme \<Rightarrow> int \<Rightarrow> event list" where
  "get_block_level_events s block_index = dget_or (block_level_events s) block_index []"

record found_event =
  fe_tx_id :: string
  fe_block_index :: int
  fe_event :: event

definition event_sender :: "event \<Rightarrow> pyval" where
  "event_sender ev =
     dget_or ev ''sender'' (dget_or ev ''staker'' (dget_or ev ''delegator'' (dget_or ev ''address'' (PStr []))))"

definition event_candidates :: "'a receipts_scheme \<Rightarrow> string \<Rightarrow> int option \<Rightarrow> string list" where
  "event_candidates s event_type block_index =
     (if event_type \<noteq> [] \<and> dmem event_type (events_by_type s) then dget_or (events_by_type s) event_type []
      else
        (case block_index of
           Some i \<Rightarrow> (if dmem i (events_by_block s) then dget_or (events_by_block s) i []
                     else dkeys (receipt_map s))
         | None \<Rightarrow> dkeys (receipt_map s)))"

definition get_events :: "'a receipts_scheme \<Rightarrow> string \<Rightarrow> int option \<Rightarrow> string \<Rightarrow> int \<Rightarrow> found_event list" where
  "get_events s event_type block_index sender limit =
     (let lim = max 1 (min limit 100);
          of_receipt = (\<lambda>i. case dget (receipt_map s) i of
             None \<Rightarrow> []
           | Some r \<Rightarrow>
               (if block_index \<noteq> None \<and> block_index \<noteq> Some (rc_block_index r) then []
                else map (\<lambda>ev. \<lparr>fe_tx_id = i, fe_block_index = rc_block_index r, fe_event = ev\<rparr>)
                       (filter (\<lambda>ev. (event_type = [] \<or> dget ev ''type'' = Some (PStr event_type))
                                   \<and> (sender = [] \<or> event_sender ev = PStr sender)) (rc_events r))))
      in take (nat lim) (concat (map of_receipt (event_candidates s event_type block_index))))"

section \<open>What finality means\<close>

text \<open>The stake of the distinct validators of the blocks from \<open>h\<close> up to \<open>n\<close>.\<close>

definition validators_between :: "'a receipts_scheme \<Rightarrow> int \<Rightarrow> int \<Rightarrow> string set" where
  "validators_between s h n =
     (\<lambda>i. b_validator (the (get_block_by_index s i))) ` {i. h \<le> i \<and> i \<le> n \<and> get_block_by_index s i \<noteq> None}"

lemma rev_upto_Cons: "(h::int) \<le> n \<Longrightarrow> rev [h..n] = n # rev [h..n - 1]"
  by (simp add: upto_rec2)

lemma validators_between_snoc:
  "h \<le> n \<Longrightarrow> get_block_by_index s h = Some b \<Longrightarrow>
   validators_between s h n = insert (b_validator b) (validators_between s (h + 1) n)"
proof -
  assume "h \<le> n" "get_block_by_index s h = Some b"
  then have "{i. h \<le> i \<and> i \<le> n \<and> get_block_by_index s i \<noteq> None}
      = insert h {i. h + 1 \<le> i \<and> i \<le> n \<and> get_block_by_index s i \<noteq> None}" by auto
  then show "validators_between s h n = insert (b_validator b) (validators_between s (h + 1) n)"
    using \<open>get_block_by_index s h = Some b\<close> by (simp add: validators_between_def)
qed

lemma finite_validators_between: "finite (validators_between s h n)"
proof -
  have "validators_between s h n \<subseteq> b_validator ` set (chain_list s)"
    by (auto simp: validators_between_def get_block_by_index_def)
  then show ?thesis using finite_subset by blast
qed

text \<open>What a successful scan has found.\<close>

lemma finality_scan_sound:
  assumes "finality_scan s whole (rev [lo..m]) (validators_between s (m + 1) n)
      (\<Sum>v \<in> validators_between s (m + 1) n. dget_or (total_stake s) v 0) = Some h"
    and "lo \<le> m + 1" "m \<le> n"
  shows "lo \<le> h \<and> h \<le> m \<and>
     (\<Sum>v \<in> validators_between s h n. dget_or (total_stake s) v 0) * 3 > whole * 2"
  using assms
proof (induction "nat (m + 1 - lo)" arbitrary: m)
  case 0
  then show ?case by simp
next
  case (Suc k)
  then have le: "lo \<le> m" by simp
  let ?V = "\<lambda>h. validators_between s h n" and ?st = "\<lambda>v. dget_or (total_stake s) v 0"
  from Suc.prems(1) obtain b where b: "get_block_by_index s m = Some b"
    by (simp add: rev_upto_Cons[OF le] split: option.splits)
  let ?v = "b_validator b"
  have ins: "?V m = insert ?v (?V (m + 1))" using validators_between_snoc[of m n] b Suc.prems(3) by simp
  have cum: "(if ?v \<in> ?V (m + 1) then sum ?st (?V (m + 1)) else sum ?st (?V (m + 1)) + ?st ?v) = sum ?st (?V m)"
    using finite_validators_between[of s "m + 1" n] by (simp add: ins insert_absorb)
  show ?case
  proof (cases "sum ?st (?V m) * 3 > whole * 2")
    case True
    then have "h = m" using Suc.prems(1) b cum by (simp add: rev_upto_Cons[OF le] Let_def)
    then show ?thesis using True le by simp
  next
    case False
    then have "finality_scan s whole (rev [lo..m - 1]) (?V m) (sum ?st (?V m)) = Some h"
      using Suc.prems(1) b cum ins by (simp add: rev_upto_Cons[OF le] Let_def)
    moreover have "k = nat (m - 1 + 1 - lo)" using Suc.hyps(2) by arith
    ultimately show ?thesis using Suc.hyps(1)[of "m - 1"] le Suc.prems(3) by auto
  qed
qed

lemma finality_sound:
  assumes "finalized_height (update_finality n s) \<noteq> finalized_height s" "- 1 \<le> finalized_height s"
  defines "h \<equiv> finalized_height (update_finality n s)"
  shows "finalized_height s < h \<and> h \<le> n \<and> (\<Sum>v \<in> validators_between s h n. dget_or (total_stake s) v 0) * 3
     > dsum (total_stake s) * 2"
proof -
  let ?lo = "finalized_height s + 1"
  have mx: "max (finalized_height s) (- 1) + 1 = ?lo" using assms(2) by simp
  have sc: "finality_scan s (dsum (total_stake s)) (rev [?lo..n]) {} 0 = Some h" and up: "finalized_height s < h"
    using assms(1) unfolding h_def update_finality_def mx
    by (auto simp: Let_def split: option.splits if_splits)
  have ne: "[?lo..n] \<noteq> []" using sc by auto
  then have lo: "?lo \<le> n + 1" by (simp)
  have e: "validators_between s (n + 1) n = {}" by (auto simp: validators_between_def)
  show ?thesis using finality_scan_sound[of s "dsum (total_stake s)" ?lo n n h] sc lo up e by auto
qed

lemma finality_monotone: "finalized_height s \<le> finalized_height (update_finality n s)"
  by (auto simp: update_finality_def Let_def split: option.splits)

lemma build_event_type: "list_all (\<lambda>p. fst p \<noteq> ''type'') kw \<Longrightarrow> event_type_of (build_event t kw) = t"
proof -
  assume a: "list_all (\<lambda>p. fst p \<noteq> ''type'') kw"
  have "dget (fold (\<lambda>(k, v) d. dset d k v) kw d) ''type'' = dget d ''type''" for d :: event
    using a by (induction kw arbitrary: d) (auto simp: dict_simps)
  then show ?thesis by (simp add: build_event_def event_type_of_def dget_or_def)
qed

end
