(* ===== verification/Consensus.thy ===== *)
theory Consensus
  imports Finality
begin

text \<open>
  \<open>core/consensus.py\<close>: the choice of the block's validator (stake-weighted, or round robin with
  skipped slots) and the validation of a block against its parent and the chain's nonces,
  transaction ids and revocations, which the consensus object reads from the blockchain. The wall
  clock \<open>int(time.time())\<close> is the parameter \<open>now\<close>; timestamps are ints, for which the float division
  of \<open>_select_with_skip\<close> agrees with \<open>div\<close> (below 2^50 seconds).
\<close>

section \<open>Choosing the validator\<close>

text \<open>The loop of \<open>_select_dpos\<close>: the first validator whose cumulated stake exceeds the point.\<close>

fun dpos_pick :: "(string \<times> int) list \<Rightarrow> int \<Rightarrow> int \<Rightarrow> string option" where
  "dpos_pick [] point cumulative = None"
| "dpos_pick ((addr, stake) # rest) point cumulative =
     (if point < cumulative + stake then Some addr else dpos_pick rest point (cumulative + stake))"

definition dpos_seed :: "env \<Rightarrow> string \<Rightarrow> int \<Rightarrow> int" where
  "dpos_seed E parent_hash block_index =
     from_bytes (take 8 (sha3 E (encode (parent_hash @ '':'' @ int_str block_index))))"

definition select_dpos :: "env \<Rightarrow> int \<Rightarrow> string \<Rightarrow> (string \<times> int) list \<Rightarrow> string" where
  "select_dpos E block_index parent_hash active =
     (let point = dpos_seed E parent_hash block_index mod sum_list (map snd active)
      in the_default (fst (last active)) (dpos_pick active point 0))"

definition select_with_skip :: "string list \<Rightarrow> int \<Rightarrow> int \<Rightarrow> int \<Rightarrow> int \<Rightarrow> string" where
  "select_with_skip addresses base n parent_timestamp current =
     (let elapsed = current - parent_timestamp; skips = max 0 (elapsed div (BLOCK_INTERVAL * 3))
      in addresses ! nat ((base + skips) mod n))"

text \<open>\<open>parent_timestamp\<close> and \<open>block_timestamp\<close> may be absent; then no slot is skipped, or now is taken.\<close>

definition select_poa ::
    "'a registry_scheme \<Rightarrow> int \<Rightarrow> int \<Rightarrow> int option \<Rightarrow> int option \<Rightarrow> string option" where
  "select_poa s now block_index parent_timestamp block_timestamp =
     (if poa_validators s = [] then None
      else
        (let addresses = sort (dkeys (poa_validators s)); n = int (length addresses);
             base = block_index mod n
         in case parent_timestamp of
              Some pt \<Rightarrow> Some (select_with_skip addresses base n pt (the_default now block_timestamp))
            | None \<Rightarrow> Some (addresses ! nat base)))"

definition select_validator_with_skip ::
    "'a registry_scheme \<Rightarrow> int \<Rightarrow> int \<Rightarrow> int \<Rightarrow> int option \<Rightarrow> string option" where
  "select_validator_with_skip s now block_index parent_timestamp block_timestamp =
     select_poa s now block_index (Some parent_timestamp) block_timestamp"

definition select_validator ::
    "env \<Rightarrow> 'a staking_scheme \<Rightarrow> int \<Rightarrow> int \<Rightarrow> int option \<Rightarrow> string \<Rightarrow> int option \<Rightarrow> string option" where
  "select_validator E s now block_index parent_timestamp parent_hash block_timestamp =
     (if parent_hash \<noteq> [] \<and> get_active_validators s \<noteq> []
      then Some (select_dpos E block_index parent_hash (get_active_validators s))
      else select_poa s now block_index parent_timestamp block_timestamp)"

section \<open>Validation of a block\<close>

definition TX_WIRE_MAX :: int where
  "TX_WIRE_MAX = 200 + MAX_TX_PAYLOAD_SIZE + 3309 * 2 + 1952 * 2"

definition dynamic_at :: "env \<Rightarrow> int \<Rightarrow> bool" where
  "dynamic_at E idx \<longleftrightarrow> idx \<ge> dyn_height E \<and> idx > 0"

text \<open>The base fee a block at height \<open>idx\<close> on top of \<open>parent\<close> must carry under dynamic fees.\<close>

definition next_base_fee :: "env \<Rightarrow> int \<Rightarrow> block \<Rightarrow> int" where
  "next_base_fee E idx parent =
     (if idx = dyn_height E \<or> b_index parent = 0 \<or> b_index parent < dyn_height E then INITIAL_BASE_FEE
      else compute_base_fee (b_base_fee parent)
             (effective_block_weight (weigh (b_txs parent)) (b_validator parent)))"

text \<open>The nonces consensus sees (\<open>_chain_nonces\<close>).\<close>

definition cons_nonces :: "'a registry_scheme \<Rightarrow> (string, int) dict" where
  "cons_nonces s = the_default (sender_nonce s) (stale_nonces s)"

definition header_checks :: "env \<Rightarrow> 'a staking_scheme \<Rightarrow> int \<Rightarrow> block \<Rightarrow> block \<Rightarrow> outcome list" where
  "header_checks E s now b parent =
     (let expected = select_validator E s now (b_index b) (Some (b_timestamp parent))
                       (block_hash E parent) (Some (b_timestamp b));
          pk = dget_or (poa_validators s) (b_validator b) []
      in [reject_if (b_index b \<noteq> b_index parent + 1) ''expected index {}, got {}''
            [PInt (b_index parent + 1), PInt (b_index b)],
          reject_if (b_prev_hash b \<noteq> block_hash E parent) ''prev_hash mismatch'' [],
          reject_if (b_timestamp b \<le> b_timestamp parent) ''timestamp must be after parent'' [],
          reject_if (b_timestamp b > now + MAX_BLOCK_DRIFT) ''timestamp too far in future: {} > {} + {}''
            [PInt (b_timestamp b), PInt now, PInt MAX_BLOCK_DRIFT],
          reject_if (\<not> dmem (b_validator b) (poa_validators s)) ''unknown validator {}...''
            [PStr (take 16 (b_validator b))],
          reject_if (is_key_revoked s (b_validator b) ''signing'') ''validator signing key revoked'' [],
          reject_if (the_default [] expected \<noteq> [] \<and> b_validator b \<noteq> the_default [] expected)
            ''wrong validator turn: expected {}..., got {}...''
            [PStr (take 16 (the_default [] expected)), PStr (take 16 (b_validator b))],
          reject_if (\<not> verify_signature E b pk) ''invalid block signature'' []])"

definition self_weight :: "block \<Rightarrow> int" where
  "self_weight b =
     sum_list (map (\<lambda>t. TX_WEIGHTS (tx_type t)) (filter (\<lambda>t. tx_sender t = b_validator b) (b_txs b)))"

definition fee_checks :: "env \<Rightarrow> block \<Rightarrow> block \<Rightarrow> outcome list" where
  "fee_checks E b parent =
     (if \<not> dynamic_at E (b_index b) then []
      else
        (let expected_bf = next_base_fee E (b_index b) parent;
             total_weight = block_total_weight (weigh (b_txs b))
         in [reject_if (b_base_fee b \<noteq> expected_bf) ''base_fee mismatch: expected {}, got {}''
               [PInt expected_bf, PInt (b_base_fee b)],
             reject_if (total_weight > MAX_BLOCK_WEIGHT) ''block weight {} > {}''
               [PInt total_weight, PInt MAX_BLOCK_WEIGHT],
             reject_if (total_weight > 0 \<and> self_weight b * 100 > total_weight * MAX_SELF_TX_WEIGHT_RATIO)
               ''self-tx weight exceeds 25%'' []]))"

definition size_checks :: "env \<Rightarrow> block \<Rightarrow> outcome list" where
  "size_checks E b =
     (let n = length (b_txs b)
      in [reject_if (n > MAX_TX_PER_BLOCK) ''too many txs: {} > {}''
            [PInt (int n), PInt (int MAX_TX_PER_BLOCK)],
          reject_if (n = 0 \<and> \<not> dynamic_at E (b_index b))
            ''non-genesis block must contain at least one transaction'' [],
          reject_if (500 + int n * TX_WIRE_MAX > MAX_BLOCK_SIZE * 2) ''block estimated too large'' []])"

text \<open>\<open>ok, err = tx.validate_payload()\<close> and the message that wraps \<open>err\<close>.\<close>

definition payload_check :: "env \<Rightarrow> transaction \<Rightarrow> string \<Rightarrow> outcome" where
  "payload_check E tx prefix =
     (case validate_payload E tx of
        Ok _ \<Rightarrow> Ok []
      | Fail (Msg text args) \<Rightarrow> Fail (Msg (prefix @ text) args)
      | Raise e \<Rightarrow> Raise e)"

text \<open>
  The checks of one transaction of the block, given the ids seen before it and, per sender, the
  last nonce in the block.
\<close>

definition block_tx_checks ::
    "env \<Rightarrow> 'a registry_scheme \<Rightarrow> block \<Rightarrow> string set \<Rightarrow> (string, int) dict \<Rightarrow> transaction \<Rightarrow> outcome list" where
  "block_tx_checks E s b seen_ids sender_nonces tx =
     (let short = PStr (take 16 (tx_id E tx)); prev = dget sender_nonces (tx_sender tx)
      in [reject_if (\<not> tx_verify E tx) ''invalid tx signature: {}...'' [short],
          reject_if (tx_chain_id tx \<noteq> CHAIN_ID) ''wrong chain_id in tx {}...: expected {}, got {}''
            [short, PStr CHAIN_ID, PStr (tx_chain_id tx)],
          reject_if (tx_id E tx \<in> seen_ids) ''duplicate tx in block: {}...'' [short],
          reject_if (tx_id E tx \<in> chain_tx_ids s) ''tx already in chain: {}...'' [short],
          payload_check E tx ''invalid tx payload: '',
          reject_if (dynamic_at E (b_index b) \<and> TX_WEIGHTS (tx_type tx) > 0 \<and> tx_max_fee tx < b_base_fee b)
            ''max_fee_per_weight {} < base_fee {}'' [PInt (tx_max_fee tx), PInt (b_base_fee b)],
          reject_if (is_key_revoked s (tx_sender tx) ''signing'') ''tx from revoked signing key: {}...''
            [PStr (take 16 (tx_sender tx))],
          reject_if (prev \<noteq> None \<and> tx_nonce tx \<noteq> the_default 0 prev + 1)
            ''nonce gap for {}...: expected {}, got {}''
            [PStr (take 16 (tx_sender tx)), PInt (the_default 0 prev + 1), PInt (tx_nonce tx)]])"

text \<open>The loop over the transactions: the failing outcome, or the first nonce of each sender.\<close>

fun validate_txs ::
    "env \<Rightarrow> 'a registry_scheme \<Rightarrow> block \<Rightarrow> string set \<Rightarrow> (string, int) dict \<Rightarrow> (string, int) dict
       \<Rightarrow> transaction list \<Rightarrow> outcome + (string, int) dict" where
  "validate_txs E s b seen_ids last_nonce first_nonce [] = Inr first_nonce"
| "validate_txs E s b seen_ids last_nonce first_nonce (tx # txs) =
     (case checks (block_tx_checks E s b seen_ids last_nonce tx) of
        Ok _ \<Rightarrow>
          validate_txs E s b (insert (tx_id E tx) seen_ids) (dset last_nonce (tx_sender tx) (tx_nonce tx))
            (if dmem (tx_sender tx) first_nonce then first_nonce
             else dset first_nonce (tx_sender tx) (tx_nonce tx)) txs
      | r \<Rightarrow> Inl r)"

definition nonce_start_checks :: "'a registry_scheme \<Rightarrow> (string, int) dict \<Rightarrow> outcome list" where
  "nonce_start_checks s first_nonce =
     map (\<lambda>(sender, actual_start).
            let expected_start = dget_or (cons_nonces s) sender (- 1) + 1
            in reject_if (actual_start \<noteq> expected_start)
                 ''nonce mismatch for {}...: chain expects {}, block starts at {}''
                 [PStr (take 16 sender), PInt expected_start, PInt actual_start]) first_nonce"

definition validate_block ::
    "env \<Rightarrow> 'a staking_scheme \<Rightarrow> int \<Rightarrow> block \<Rightarrow> block option \<Rightarrow> outcome" where
  "validate_block E s now b parent =
     (if b_index b = 0 then
        reject_if (poa_genesis_hash s \<noteq> [] \<and> block_hash E b \<noteq> poa_genesis_hash s)
          ''genesis hash mismatch'' []
      else
        (case parent of
           None \<Rightarrow> Fail (Msg ''parent block required'' [])
         | Some p \<Rightarrow>
             (case checks (header_checks E s now b p @ fee_checks E b p @ size_checks E b) of
                Ok _ \<Rightarrow>
                  (case validate_txs E s b {} [] [] (b_txs b) of
                     Inl r \<Rightarrow> r
                   | Inr first_nonce \<Rightarrow> checks (nonce_start_checks s first_nonce))
              | r \<Rightarrow> r)))"

section \<open>Stake-weighted selection is proportional\<close>

definition stake_of :: "string \<Rightarrow> (string \<times> int) list \<Rightarrow> int" where
  "stake_of a active = sum_list (map snd (filter (\<lambda>p. fst p = a) active))"

lemma stake_list_nonneg: "list_all (\<lambda>p. 0 < snd p) vs \<Longrightarrow> 0 \<le> sum_list (map snd vs)"
  for vs :: "(string \<times> int) list"
  by (induction vs) auto

lemma stake_of_nonneg: "list_all (\<lambda>p. 0 < snd p) vs \<Longrightarrow> 0 \<le> stake_of a vs"
  by (induction vs) (auto simp: stake_of_def)

text \<open>The points of \<open>[c, c + total)\<close> at which a validator is picked are as many as its stake.\<close>

lemma dpos_pick_count:
  assumes "list_all (\<lambda>p. 0 < snd p) vs"
  shows "card {p. c \<le> p \<and> p < c + sum_list (map snd vs) \<and> dpos_pick vs p c = Some a} = nat (stake_of a vs)"
  using assms
proof (induction vs arbitrary: c)
  case Nil
  then show ?case by (simp add: stake_of_def)
next
  case (Cons v vs)
  obtain x n where v: "v = (x, n)" by (cases v)
  let ?S = "sum_list (map snd vs)"
  let ?A = "{p. c \<le> p \<and> p < c + n \<and> x = a}"
  let ?B = "{p. c + n \<le> p \<and> p < c + n + ?S \<and> dpos_pick vs p (c + n) = Some a}"
  have n: "0 < n" and S: "0 \<le> ?S" using Cons.prems v stake_list_nonneg[of vs] by auto
  have "{p. c \<le> p \<and> p < c + sum_list (map snd (v # vs)) \<and> dpos_pick (v # vs) p c = Some a} = ?A \<union> ?B"
    using n S by (auto simp: v)
  moreover have "finite ?A" "finite ?B"
    by (rule finite_subset[of _ "{c..c + n}"], auto, rule finite_subset[of _ "{c + n..c + n + ?S}"], auto)
  moreover have "?A \<inter> ?B = {}" by auto
  moreover have "card ?A = (if x = a then nat n else 0)"
  proof -
    have "?A = (if x = a then {c..<c + n} else {})" by auto
    then show ?thesis by simp
  qed
  moreover have "card ?B = nat (stake_of a vs)" using Cons.IH[of "c + n"] Cons.prems by simp
  ultimately have "card {p. c \<le> p \<and> p < c + sum_list (map snd (v # vs)) \<and> dpos_pick (v # vs) p c = Some a}
      = (if x = a then nat n else 0) + nat (stake_of a vs)"
    by (simp add: card_Un_disjoint)
  also have "\<dots> = nat (stake_of a (v # vs))"
    using n stake_of_nonneg[of vs a] Cons.prems by (simp add: v stake_of_def nat_add_distrib)
  finally show ?case .
qed

lemma dpos_pick_total:
  "list_all (\<lambda>p. 0 < snd p) vs \<Longrightarrow> c \<le> p \<Longrightarrow> p < c + sum_list (map snd vs) \<Longrightarrow>
   \<exists>a. dpos_pick vs p c = Some a \<and> a \<in> fst ` set vs"
proof (induction vs arbitrary: c)
  case (Cons v vs)
  obtain x n where v: "v = (x, n)" by (cases v)
  show ?case
  proof (cases "p < c + n")
    case True
    then show ?thesis by (simp add: v)
  next
    case False
    then have "\<exists>a. dpos_pick vs p (c + n) = Some a \<and> a \<in> fst ` set vs"
      using Cons.prems v by (intro Cons.IH) auto
    then show ?thesis using False by (auto simp: v)
  qed
qed simp

lemma select_dpos_member:
  assumes "active \<noteq> []" "list_all (\<lambda>p. 0 < snd p) active"
  shows "select_dpos E i h active \<in> fst ` set active"
proof -
  have "0 < sum_list (map snd active)"
    using assms stake_list_nonneg[of "tl active"] by (cases active) auto
  then obtain a where "dpos_pick active (dpos_seed E h i mod sum_list (map snd active)) 0 = Some a"
    "a \<in> fst ` set active"
    using dpos_pick_total[OF assms(2), of 0] by (metis add_0 pos_mod_bound pos_mod_sign)
  then show ?thesis by (simp add: select_dpos_def Let_def)
qed

lemma live_validators_positive: "list_all (\<lambda>p. 0 < snd p) (get_live_validators s)"
  by (auto simp: get_live_validators_def list_all_iff)

section \<open>Round robin is fair\<close>

text \<open>Over \<open>n\<close> consecutive heights every one of the \<open>n\<close> validators is picked exactly once.\<close>

lemma poa_rotation:
  assumes "dwf (poa_validators s)" "v \<in> fst ` set (poa_validators s)"
    "n = int (length (poa_validators s))"
  shows "\<exists>!i. h \<le> i \<and> i < h + n \<and> select_poa s now i None None = Some v"
proof -
  let ?A = "sort (dkeys (poa_validators s))"
  have len: "int (length ?A) = n" and ne: "poa_validators s \<noteq> []" and d: "distinct ?A"
    and vA: "v \<in> set ?A" and n: "0 < n"
    using assms by (auto simp: dwf_def)
  have sel: "select_poa s now i None None = Some (?A ! nat (i mod n))" for i
    using ne len by (simp add: select_poa_def Let_def)
  obtain j where j: "j < length ?A" "?A ! j = v" using vA in_set_conv_nth[of v ?A] by blast
  have hit: "select_poa s now i None None = Some v \<longleftrightarrow> i mod n = int j" for i
  proof -
    have "0 \<le> i mod n" "i mod n < n" using n by simp_all
    moreover from this have "nat (i mod n) < length ?A" using len by linarith
    ultimately show ?thesis
      using j nth_eq_iff_index_eq[OF d, of "nat (i mod n)" j] by (auto simp: sel)
  qed
  let ?i = "h + (int j - h) mod n"
  have i: "h \<le> ?i" "?i < h + n" "?i mod n = int j"
    using n j len by (simp_all add: mod_add_right_eq)
  have "i = ?i" if "h \<le> i" "i < h + n" "i mod n = int j" for i
  proof -
    have "(i - ?i) mod n = 0" using that(3) i(3) by (metis diff_self mod_0 mod_diff_eq)
    moreover have "- n < i - ?i" "i - ?i < n" using that i by linarith+
    ultimately show ?thesis
    proof (intro ccontr[of "i = ?i"])
      assume a: "(i - ?i) mod n = 0" "- n < i - ?i" "i - ?i < n" "i \<noteq> ?i"
      then have "\<bar>n\<bar> \<le> \<bar>i - ?i\<bar>" by (intro dvd_imp_le_int) (auto simp: mod_eq_0_iff_dvd)
      then show False using a(2,3) by arith
    qed
  qed
  then show ?thesis unfolding hit using i by blast
qed

section \<open>What an accepted block satisfies\<close>

text \<open>The nonces of each sender in the block are consecutive, from its first one.\<close>

definition sender_txs :: "string \<Rightarrow> transaction list \<Rightarrow> transaction list" where
  "sender_txs a txs = filter (\<lambda>tx. tx_sender tx = a) txs"

definition consecutive_from :: "int \<Rightarrow> int list \<Rightarrow> bool" where
  "consecutive_from n xs \<longleftrightarrow> xs = map (\<lambda>i. n + int i) [0..<length xs]"

lemma consecutive_Nil [simp]: "consecutive_from n []"
  by (simp add: consecutive_from_def)

lemma consecutive_Cons: "consecutive_from n (x # xs) \<longleftrightarrow> x = n \<and> consecutive_from (n + 1) xs"
proof -
  have "map (\<lambda>i. n + int i) [0..<Suc k] = n # map (\<lambda>i. n + 1 + int i) [0..<k]" for k
    by (simp add: upt_conv_Cons map_Suc_upt[symmetric] o_def del: upt_Suc)
  then show ?thesis by (auto simp: consecutive_from_def)
qed

lemma validate_txs_sound:
  assumes "validate_txs E s b seen lastn firstn txs = Inr fin"
  shows "(\<forall>tx \<in> set txs. tx_verify E tx \<and> tx_chain_id tx = CHAIN_ID \<and> is_ok (validate_payload E tx)
            \<and> tx_id E tx \<notin> chain_tx_ids s \<and> tx_id E tx \<notin> seen \<and> \<not> is_key_revoked s (tx_sender tx) ''signing'')
       \<and> distinct (map (tx_id E) txs)
       \<and> (dynamic_at E (b_index b) \<longrightarrow>
            (\<forall>tx \<in> set txs. TX_WEIGHTS (tx_type tx) > 0 \<longrightarrow> b_base_fee b \<le> tx_max_fee tx))
       \<and> (\<forall>a. consecutive_from
            (case dget lastn a of Some n \<Rightarrow> n + 1
             | None \<Rightarrow> (case sender_txs a txs of [] \<Rightarrow> 0 | tx # _ \<Rightarrow> tx_nonce tx))
            (map tx_nonce (sender_txs a txs)))
       \<and> (\<forall>a. dget fin a = (case dget firstn a of Some n \<Rightarrow> Some n
             | None \<Rightarrow> (case sender_txs a txs of [] \<Rightarrow> None | tx # _ \<Rightarrow> Some (tx_nonce tx))))"
  using assms
proof (induction txs arbitrary: seen lastn firstn)
  case Nil
  then show ?case by (auto simp: sender_txs_def split: option.splits)
next
  case (Cons tx txs)
  let ?l = "dset lastn (tx_sender tx) (tx_nonce tx)"
  let ?f = "if dmem (tx_sender tx) firstn then firstn else dset firstn (tx_sender tx) (tx_nonce tx)"
  have ok: "is_ok (checks (block_tx_checks E s b seen lastn tx))"
    and rest: "validate_txs E s b (insert (tx_id E tx) seen) ?l ?f txs = Inr fin"
    using Cons.prems by (auto split: outcome.splits)
  have "is_ok (payload_check E tx p) \<longleftrightarrow> is_ok (validate_payload E tx)" for p
    by (simp add: payload_check_def split: outcome.splits msg.splits)
  then have c: "tx_verify E tx" "tx_chain_id tx = CHAIN_ID" "tx_id E tx \<notin> seen" "tx_id E tx \<notin> chain_tx_ids s"
    "is_ok (validate_payload E tx)" "\<not> is_key_revoked s (tx_sender tx) ''signing''"
    "dynamic_at E (b_index b) \<Longrightarrow> TX_WEIGHTS (tx_type tx) > 0 \<Longrightarrow> b_base_fee b \<le> tx_max_fee tx"
    "\<And>n. dget lastn (tx_sender tx) = Some n \<Longrightarrow> tx_nonce tx = n + 1"
    using ok[unfolded checks_ok] by (auto simp: block_tx_checks_def Let_def)
  note IH = Cons.IH[OF rest]
  have same: "sender_txs (tx_sender tx) (tx # txs) = tx # sender_txs (tx_sender tx) txs"
    and other: "a \<noteq> tx_sender tx \<Longrightarrow> sender_txs a (tx # txs) = sender_txs a txs" for a
    by (simp_all add: sender_txs_def)
  have "consecutive_from
      (case dget lastn a of Some n \<Rightarrow> n + 1
       | None \<Rightarrow> (case sender_txs a (tx # txs) of [] \<Rightarrow> 0 | tx # _ \<Rightarrow> tx_nonce tx))
      (map tx_nonce (sender_txs a (tx # txs)))" for a
  proof -
    have I: "consecutive_from
        (case dget ?l a of Some n \<Rightarrow> n + 1
         | None \<Rightarrow> (case sender_txs a txs of [] \<Rightarrow> 0 | tx # _ \<Rightarrow> tx_nonce tx))
        (map tx_nonce (sender_txs a txs))"
      using IH by blast
    show ?thesis
    proof (cases "a = tx_sender tx")
      case True
      then show ?thesis using I c(8) by (cases "dget lastn a") (simp_all add: same consecutive_Cons dict_simps)
    next
      case False
      then show ?thesis using I unfolding other[OF False] by (simp add: dict_simps)
    qed
  qed
  moreover have "dget fin a = (case dget firstn a of Some n \<Rightarrow> Some n
      | None \<Rightarrow> (case sender_txs a (tx # txs) of [] \<Rightarrow> None | tx # _ \<Rightarrow> Some (tx_nonce tx)))" for a
  proof -
    have I: "dget fin a = (case dget ?f a of Some n \<Rightarrow> Some n
        | None \<Rightarrow> (case sender_txs a txs of [] \<Rightarrow> None | tx # _ \<Rightarrow> Some (tx_nonce tx)))"
      using IH by blast
    show ?thesis
    proof (cases "a = tx_sender tx")
      case True
      then show ?thesis using I by (cases "dget firstn a") (simp_all add: same dict_simps dmem_def)
    next
      case False
      then have "dget ?f a = dget firstn a" by (simp add: dict_simps)
      then show ?thesis using I unfolding other[OF False] by simp
    qed
  qed
  ultimately show ?case using IH c by auto
qed

lemma validate_txs_Inl: "validate_txs E s b seen l f txs = Inl r \<Longrightarrow> \<not> is_ok r"
proof (induction txs arbitrary: seen l f)
  case (Cons tx txs)
  then show ?case by (cases "checks (block_tx_checks E s b seen l tx)") auto
qed simp

lemma validate_block_cases:
  assumes "is_ok (validate_block E s now b (Some p))" "b_index b \<noteq> 0"
  obtains fin where "is_ok (checks (header_checks E s now b p @ fee_checks E b p @ size_checks E b))"
    "validate_txs E s b {} [] [] (b_txs b) = Inr fin" "is_ok (checks (nonce_start_checks s fin))"
proof (cases "checks (header_checks E s now b p @ fee_checks E b p @ size_checks E b)")
  case (Ok x)
  show ?thesis
  proof (cases "validate_txs E s b {} [] [] (b_txs b)")
    case (Inl r)
    then have "is_ok r" using assms Ok by (simp add: validate_block_def)
    then show ?thesis using Inl validate_txs_Inl by blast
  next
    case (Inr fin)
    then show ?thesis using assms Ok that by (simp add: validate_block_def)
  qed
qed (use assms in \<open>simp_all add: validate_block_def\<close>)

lemma nonce_start_sound:
  "is_ok (checks (nonce_start_checks s fin)) \<Longrightarrow> dget fin a = Some n \<Longrightarrow>
   n = dget_or (cons_nonces s) a (- 1) + 1"
  using map_of_SomeD[of fin a n]
  by (force simp: checks_ok nonce_start_checks_def Let_def list_all_iff)

text \<open>Both halves together: from the chain's next nonce on, without a gap.\<close>

lemma accepted_nonces:
  assumes "is_ok (validate_block E s now b (Some p))" "b_index b \<noteq> 0"
  shows "consecutive_from (dget_or (cons_nonces s) a (- 1) + 1) (map tx_nonce (sender_txs a (b_txs b)))"
proof -
  obtain fin where f: "validate_txs E s b {} [] [] (b_txs b) = Inr fin"
    "is_ok (checks (nonce_start_checks s fin))"
    using validate_block_cases[OF assms] by blast
  note v = validate_txs_sound[OF f(1)]
  show ?thesis
  proof (cases "sender_txs a (b_txs b)")
    case (Cons tx rest)
    then have "dget fin a = Some (tx_nonce tx)" using v by simp
    then have "tx_nonce tx = dget_or (cons_nonces s) a (- 1) + 1" using nonce_start_sound[OF f(2)] by blast
    moreover have "consecutive_from (case dget ([] :: (string, int) dict) a of Some n \<Rightarrow> n + 1
         | None \<Rightarrow> (case sender_txs a (b_txs b) of [] \<Rightarrow> 0 | tx # _ \<Rightarrow> tx_nonce tx))
        (map tx_nonce (sender_txs a (b_txs b)))"
      using v by blast
    ultimately show ?thesis using Cons by simp
  qed simp
qed

end
