(* ===== verification/Pool.thy ===== *)
theory Pool
  imports Consensus
begin

text \<open>
  \<open>core/tx_pool.py\<close>, the pending-debit functions of \<open>core/ledger.py\<close>, and \<open>_drain_pool\<close> and the
  pool purge of \<open>core/blockchain.py\<close>: admission of a transaction, and the counters the pool keeps
  beside its list. Every counter is a tally of the list (locale \<open>tally\<close>), by sender, by type, or
  weighted with the debit a transaction can cause.
\<close>

section \<open>Tallies\<close>

text \<open>
  A dict that holds, per key, the summed weight of the listed items with that key; absent keys
  count as zero. The operations are the three ways the code maintains one.
\<close>

definition tally_add :: "('x \<Rightarrow> 'k) \<Rightarrow> ('x \<Rightarrow> int) \<Rightarrow> 'x \<Rightarrow> ('k, int) dict \<Rightarrow> ('k, int) dict" where
  "tally_add key weight x d = dset d (key x) (dget_or d (key x) 0 + weight x)"

definition tally_of :: "('x \<Rightarrow> 'k) \<Rightarrow> ('x \<Rightarrow> int) \<Rightarrow> 'x list \<Rightarrow> ('k, int) dict" where
  "tally_of key weight xs = fold (tally_add key weight) xs []"

definition tally_sub :: "'k \<Rightarrow> int \<Rightarrow> ('k, int) dict \<Rightarrow> ('k, int) dict" where
  "tally_sub k n d =
     (let remaining = dget_or d k n - n in if remaining \<le> 0 then dpop d k else dset d k remaining)"

definition weight_of :: "('x \<Rightarrow> 'k) \<Rightarrow> ('x \<Rightarrow> int) \<Rightarrow> 'k \<Rightarrow> 'x list \<Rightarrow> int" where
  "weight_of key weight k xs = sum_list (map weight (filter (\<lambda>x. key x = k) xs))"

locale tally =
  fixes key :: "'x \<Rightarrow> 'k" and weight :: "'x \<Rightarrow> int" and good :: "'x \<Rightarrow> bool"
  assumes weight_nonneg: "good x \<Longrightarrow> 0 \<le> weight x"
begin

definition counts :: "('k, int) dict \<Rightarrow> 'x list \<Rightarrow> bool" where
  "counts d xs \<longleftrightarrow> (\<forall>k. dget_or d k 0 = weight_of key weight k xs)"

lemma counts_Nil: "counts [] []"
  by (simp add: counts_def weight_of_def)

lemma counts_add: "counts d xs \<Longrightarrow> counts (tally_add key weight x d) (xs @ [x])"
  by (simp add: counts_def tally_add_def weight_of_def dict_simps)

lemma counts_fold: "counts d ys \<Longrightarrow> counts (fold (tally_add key weight) xs d) (ys @ xs)"
  by (induction xs arbitrary: d ys) (use counts_add in fastforce)+

lemma counts_of: "counts (tally_of key weight xs) xs"
  using counts_fold[OF counts_Nil, of xs] by (simp add: tally_of_def)

lemma weight_of_nonneg: "list_all good xs \<Longrightarrow> 0 \<le> weight_of key weight k xs"
  unfolding weight_of_def by (rule sum_list_nonneg) (auto simp: list_all_iff weight_nonneg)

lemma counts_nonneg: "counts d xs \<Longrightarrow> list_all good xs \<Longrightarrow> 0 \<le> dget_or d k 0"
  using weight_of_nonneg by (simp add: counts_def)

text \<open>Subtracting what left the list.\<close>

lemma counts_sub:
  assumes "0 \<le> n" "counts d xs" "list_all good ys" "\<And>j. weight_of key weight j xs = weight_of key weight j ys + (if j = k then n else 0)"
  shows "counts (tally_sub k n d) ys"
proof -
  have k: "dget_or d k 0 - n = weight_of key weight k ys" using assms(2,4) by (simp add: counts_def)
  have nn: "0 \<le> weight_of key weight k ys" by (rule weight_of_nonneg[OF assms(3)])
  have o: "j \<noteq> k \<Longrightarrow> dget_or d j 0 = weight_of key weight j ys" for j
    using assms(2,4) by (simp add: counts_def)
  have "dget_or d k n - n = weight_of key weight k ys"
    using k nn assms(1) by (auto simp: dget_or_def split: option.splits)
  then show ?thesis using nn o by (auto simp: counts_def tally_sub_def Let_def dict_simps)
qed

end

section \<open>State\<close>

record pool = receipts +
  tx_pool :: "transaction list"
  pool_ids :: "string set"
  pool_sender_count :: "(string, int) dict"
  pending_debits_cache :: "(string, int) dict"
  pool_type_counts :: "(txtype, int) dict"

section \<open>Pending debits\<close>

definition dynamic_pool :: "env \<Rightarrow> int \<Rightarrow> 'a registry_scheme \<Rightarrow> bool" where
  "dynamic_pool E next_block_height s \<longleftrightarrow> next_block_height \<ge> dyn_height E \<and> height s \<ge> 0"

text \<open>The debit under either fee model, and the one that holds at the next height.\<close>

definition debit_under :: "bool \<Rightarrow> transaction \<Rightarrow> int" where
  "debit_under dynamic tx =
     (let fee = (if dynamic then tx_max_fee tx * tx_weight (tx_type tx) else TX_FEES (tx_type tx))
      in if tx_type tx \<in> {TRANSFER, STAKE, DELEGATE} then fee + amount_of tx else fee)"

definition calc_tx_debit :: "env \<Rightarrow> int \<Rightarrow> 'a registry_scheme \<Rightarrow> transaction \<Rightarrow> int" where
  "calc_tx_debit E next_block_height s = debit_under (dynamic_pool E next_block_height s)"

definition pending_debits :: "'a pool_scheme \<Rightarrow> string \<Rightarrow> int" where
  "pending_debits s address = dget_or (pending_debits_cache s) address 0"

definition rebuild_pending_debits_cache :: "env \<Rightarrow> 'a pool_scheme \<Rightarrow> 'a pool_scheme" where
  "rebuild_pending_debits_cache E s =
     s\<lparr>pending_debits_cache := tally_of tx_sender (calc_tx_debit E (height s + 1) s) (tx_pool s)\<rparr>"

definition current_base_fee :: "env \<Rightarrow> 'a registry_scheme \<Rightarrow> int" where
  "current_base_fee E s =
     (case latest_block s of
        None \<Rightarrow> INITIAL_BASE_FEE
      | Some parent \<Rightarrow>
          (if height s < 0 then INITIAL_BASE_FEE else next_base_fee E (height s + 1) parent))"

section \<open>Admission\<close>

text \<open>Size, chain, revocation, signature, payload, duplicates and amount caps.\<close>

definition basic_admission :: "env \<Rightarrow> 'a pool_scheme \<Rightarrow> transaction \<Rightarrow> outcome list" where
  "basic_admission E s tx =
     (let amount = amount_of tx; ty = tx_type tx
      in [reject_if (length (tx_pool s) \<ge> MAX_TX_POOL_SIZE) ''tx pool full'' [],
          reject_if (tx_chain_id tx \<noteq> CHAIN_ID) ''wrong chain_id: expected {}'' [PStr CHAIN_ID],
          reject_if (is_key_revoked s (tx_sender tx) ''signing'') ''sender signing key has been revoked'' [],
          reject_if (\<not> tx_verify E tx) ''invalid signature'' [],
          payload_check E tx ''invalid payload: '',
          reject_if (dmem (tx_id E tx) (tx_by_id s)) ''duplicate (already in chain)'' [],
          reject_if (tx_id E tx \<in> pool_ids s) ''duplicate (already in pool)'' [],
          reject_if (ty \<in> {TRANSFER, STAKE, DELEGATE} \<and> amount > MAX_SUPPLY)
            ''amount {} exceeds MAX_SUPPLY ({})'' [PInt amount, PInt MAX_SUPPLY],
          reject_if (ty = MINT_TOKEN \<and> amount > MAX_SUPPLY)
            ''mint amount {} exceeds MAX_SUPPLY ({})'' [PInt amount, PInt MAX_SUPPLY],
          reject_if (ty = SHARE \<and> tx_recipient tx = []) ''SHARE tx requires recipient'' []])"

definition stake_admission :: "'a staking_scheme \<Rightarrow> transaction \<Rightarrow> outcome list" where
  "stake_admission s tx =
     (let vaddr = str_field tx ''validator_address''; amount = amount_of tx;
          staking_tx = (tx_type tx \<in> {STAKE, DELEGATE}); unstaking = (tx_type tx = UNSTAKE);
          current = get_staker_info s (tx_sender tx) vaddr
      in [reject_if (staking_tx \<and> \<not> is_registered_validator s vaddr) ''validator not registered: {}...''
            [PStr (take 16 vaddr)],
          reject_if (staking_tx \<and> vaddr \<in> slashed_validators s) ''cannot stake to slashed validator: {}...''
            [PStr (take 16 vaddr)],
          reject_if (unstaking \<and> \<not> is_registered_validator s vaddr) ''validator not registered: {}...''
            [PStr (take 16 vaddr)],
          reject_if (unstaking \<and> amount > current) ''insufficient stake: want to unstake {}, have {}''
            [PInt amount, PInt current]])"

text \<open>What the balance check demands beside what is pending.\<close>

definition fee_admission :: "env \<Rightarrow> 'a pool_scheme \<Rightarrow> transaction \<Rightarrow> outcome list" where
  "fee_admission E s tx =
     (let dyn = dynamic_pool E (height s + 1) s; w = tx_weight (tx_type tx);
          current_bf = current_base_fee E s; amount = amount_of tx;
          worst_case_fee = tx_max_fee tx * w; fee = TX_FEES (tx_type tx);
          staked = (if tx_type tx \<in> {STAKE, DELEGATE} then amount else 0);
          extra_debit = (if tx_type tx = TRANSFER then amount else staked);
          available = get_balance s (tx_sender tx) - pending_debits s (tx_sender tx);
          no_recipient = reject_if (tx_type tx = TRANSFER \<and> tx_recipient tx = [])
                           ''TRANSFER requires a recipient'' []
      in [reject_if (dyn \<and> w > 0 \<and> tx_max_fee tx < current_bf)
            ''max_fee_per_weight {} < current base_fee {}'' [PInt (tx_max_fee tx), PInt current_bf]]
         @ (if \<not> financial_active s then []
            else if dyn then
              (if w > 0 then
                 [no_recipient,
                  reject_if (available < worst_case_fee + extra_debit)
                    ''insufficient balance: need {}, available {}''
                    [PInt (worst_case_fee + extra_debit), PInt available]]
               else if tx_type tx = TRANSFER then
                 [no_recipient,
                  reject_if (available < amount) ''insufficient balance: need {}, available {}''
                    [PInt amount, PInt available]]
               else [])
            else
              (if tx_type tx = TRANSFER then
                 [no_recipient,
                  reject_if (available < amount + fee) ''insufficient balance: need {}, available {}''
                    [PInt (amount + fee), PInt available]]
               else
                 [reject_if (fee > 0 \<and> available < fee + staked)
                    ''insufficient balance for fee: need {}, available {}''
                    [PInt (fee + staked), PInt available]])))"

definition registry_admission :: "'a staking_scheme \<Rightarrow> transaction \<Rightarrow> outcome list" where
  "registry_admission s tx =
     (let vaddr = str_field tx ''validator_address''; key_type = str_field tx ''key_type'';
          genesis_validator = (case get_block_by_index s 0 of None \<Rightarrow> False
                               | Some g \<Rightarrow> tx_sender tx = b_validator g)
      in [reject_if (tx_type tx = EVIDENCE \<and> \<not> is_registered_validator s vaddr)
            ''evidence target not a registered validator: {}...'' [PStr (take 16 vaddr)],
          reject_if (tx_type tx = EVIDENCE \<and> vaddr \<in> processed_evidence s)
            ''validator already slashed: {}...'' [PStr (take 16 vaddr)],
          reject_if (tx_type tx = REVOKE_KEY \<and> is_key_revoked s (tx_sender tx) key_type)
            ''{} key already revoked for this address'' [PStr key_type],
          reject_if (tx_type tx = REVOKE_KEY \<and> key_type \<in> {''validator'', ''signing''} \<and> height s \<ge> 0
                     \<and> genesis_validator)
            ''cannot revoke genesis validator keys'' []])"

text \<open>Amounts of pending transactions on one token.\<close>

definition pending_token :: "txtype \<Rightarrow> string \<Rightarrow> (transaction \<Rightarrow> bool) \<Rightarrow> transaction list \<Rightarrow> int" where
  "pending_token ty tid P txs =
     sum_list (map amount_of
       (filter (\<lambda>p. tx_type p = ty \<and> pget p ''token_id'' PNone = PStr tid \<and> P p) txs))"

definition token_admission :: "'a pool_scheme \<Rightarrow> transaction \<Rightarrow> outcome list" where
  "token_admission s tx =
     (let symbol = str_field tx ''symbol''; tid = str_field tx ''token_id''; amount = amount_of tx;
          reg = dget (token_registry s) tid;
          gone = [reject_if (reg = None) ''token does not exist: {}'' [PStr tid]];
          effective_bal = dget_or (token_balances s) (tid, tx_sender tx) 0
             - pending_token TRANSFER_TOKEN tid (\<lambda>p. tx_sender p = tx_sender tx) (tx_pool s)
      in [reject_if (tx_type tx \<in> {ISSUE_TOKEN, MINT_TOKEN, TRANSFER_TOKEN}
                     \<and> height s + 1 < TOKEN_ACTIVATION_HEIGHT)
            ''token operations not yet active'' []]
         @ (case tx_type tx of
              ISSUE_TOKEN \<Rightarrow>
                [reject_if (dmem symbol (token_by_symbol s)) ''token symbol already exists: {}'' [PStr symbol],
                 reject_if (list_ex (\<lambda>p. tx_type p = ISSUE_TOKEN \<and> pget p ''symbol'' PNone = PStr symbol) (tx_pool s))
                   ''token symbol already pending in pool: {}'' [PStr symbol]]
            | MINT_TOKEN \<Rightarrow>
                gone @ (case reg of None \<Rightarrow> []
                  | Some r \<Rightarrow>
                      [reject_if (tk_issuer r \<noteq> tx_sender tx) ''only the token issuer can mint'' [],
                       reject_if (tk_max_supply r > 0
                           \<and> tk_minted r + pending_token MINT_TOKEN tid (\<lambda>_. True) (tx_pool s) + amount
                             > tk_max_supply r)
                         ''minting {} would exceed max_supply {}'' [PInt amount, PInt (tk_max_supply r)]])
            | TRANSFER_TOKEN \<Rightarrow>
                gone @ (case reg of None \<Rightarrow> []
                  | Some r \<Rightarrow>
                      [reject_if (\<not> tk_transferable r) ''token {} is not transferable'' [PStr tid],
                       reject_if (effective_bal < amount) ''insufficient token balance: have {}, need {}''
                         [PInt effective_bal, PInt amount]])
            | _ \<Rightarrow> []))"

definition order_admission :: "'a pool_scheme \<Rightarrow> int \<Rightarrow> transaction \<Rightarrow> outcome list" where
  "order_admission s now tx =
     (let expected = get_next_nonce s (tx_sender tx) + dget_or (pool_sender_count s) (tx_sender tx) 0
      in [reject_if (tx_nonce tx \<noteq> expected) ''invalid nonce: expected {}, got {}''
            [PInt expected, PInt (tx_nonce tx)],
          reject_if (tx_timestamp tx > now + 300) ''tx timestamp too far in future'' [],
          reject_if (tx_timestamp tx < now - 86400) ''tx timestamp too old (>24h)'' []])"

text \<open>The pool with a transaction appended and every counter moved.\<close>

definition pool_push :: "env \<Rightarrow> transaction \<Rightarrow> 'a pool_scheme \<Rightarrow> 'a pool_scheme" where
  "pool_push E tx s =
     s\<lparr>tx_pool := tx_pool s @ [tx], pool_ids := insert (tx_id E tx) (pool_ids s),
       pool_sender_count := tally_add tx_sender (\<lambda>_. 1) tx (pool_sender_count s),
       pending_debits_cache := tally_add tx_sender (calc_tx_debit E (height s + 1) s) tx (pending_debits_cache s),
       pool_type_counts := tally_add tx_type (\<lambda>_. 1) tx (pool_type_counts s)\<rparr>"

definition submit_checks :: "env \<Rightarrow> 'a pool_scheme \<Rightarrow> int \<Rightarrow> transaction \<Rightarrow> outcome list" where
  "submit_checks E s now tx =
     basic_admission E s tx @ stake_admission s tx @ fee_admission E s tx @ registry_admission s tx
     @ token_admission s tx @ order_admission s now tx"

definition submit_tx :: "env \<Rightarrow> int \<Rightarrow> transaction \<Rightarrow> 'a pool_scheme \<Rightarrow> outcome \<times> 'a pool_scheme" where
  "submit_tx E now tx s =
     (case checks (submit_checks E s now tx) of
        Ok _ \<Rightarrow> (Ok (tx_id E tx), pool_push E tx s)
      | r \<Rightarrow> (r, s))"

section \<open>Eviction\<close>

definition sender_counts :: "transaction list \<Rightarrow> (string, int) dict" where
  "sender_counts txs = tally_of tx_sender (\<lambda>_. 1) txs"

definition drain_pool :: "env \<Rightarrow> block \<Rightarrow> 'a pool_scheme \<Rightarrow> 'a pool_scheme" where
  "drain_pool E b s =
     (let mined_ids = tx_id E ` set (b_txs b);
          remaining = filter (\<lambda>tx. tx_id E tx \<notin> mined_ids) (tx_pool s);
          s1 = s\<lparr>tx_pool := remaining, pool_ids := pool_ids s - mined_ids,
                 pool_sender_count :=
                   fold (\<lambda>(sender, cnt). tally_sub sender cnt) (sender_counts (b_txs b)) (pool_sender_count s),
                 pool_type_counts := tally_of tx_type (\<lambda>_. 1) remaining\<rparr>
      in rebuild_pending_debits_cache E s1)"

text \<open>The purge when a signing key is revoked (the \<open>signing\<close> branch of REVOKE_KEY).\<close>

definition purge_sender :: "env \<Rightarrow> string \<Rightarrow> 'a pool_scheme \<Rightarrow> 'a pool_scheme" where
  "purge_sender E revoked_addr s =
     (let to_remove = sender_txs revoked_addr (tx_pool s);
          count = dget_or (pool_sender_count s) revoked_addr 0;
          remaining = max 0 (count - int (length to_remove));
          s1 = s\<lparr>tx_pool := filter (\<lambda>tx. tx_sender tx \<noteq> revoked_addr) (tx_pool s),
                 pool_ids := pool_ids s - tx_id E ` set to_remove,
                 pool_type_counts := fold (\<lambda>t. tally_sub (tx_type t) 1) to_remove (pool_type_counts s)\<rparr>
      in if to_remove = [] then s1
         else s1\<lparr>pool_sender_count := (if remaining = 0 then dpop (pool_sender_count s) revoked_addr
                                       else dset (pool_sender_count s) revoked_addr remaining),
                 pending_debits_cache := dpop (pending_debits_cache s) revoked_addr\<rparr>)"

definition apply_revoke_key :: "env \<Rightarrow> transaction \<Rightarrow> 'a pool_scheme \<Rightarrow> 'a pool_scheme" where
  "apply_revoke_key E tx s =
     (let s1 = apply_revocation E tx s
      in if str_field tx ''key_type'' = ''signing'' then purge_sender E (tx_sender tx) s1 else s1)"

end
