(* ===== verification/PoolProps.thy ===== *)
theory PoolProps
  imports Pool
begin

text \<open>
  The invariant of the transaction pool and what keeps it: every counter agrees with the list, the
  nonces of a sender continue the chain's without a gap, and with the financial layer active no
  sender has more pending than it owns.
\<close>

section \<open>The counters as tallies\<close>

interpretation senders: tally tx_sender "\<lambda>_. 1" "\<lambda>_. True"
  by unfold_locales simp

interpretation types: tally tx_type "\<lambda>_. 1" "\<lambda>_. True"
  by unfold_locales simp

definition tx_good :: "transaction \<Rightarrow> bool" where
  "tx_good tx \<longleftrightarrow> 0 \<le> tx_max_fee tx \<and> 0 \<le> amount_of tx"

interpretation debits: tally tx_sender "debit_under dyn" tx_good for dyn
  by unfold_locales (auto simp: debit_under_def tx_good_def tx_weight_def Let_def)

lemma sender_weight: "weight_of tx_sender (\<lambda>_. 1) a txs = int (length (sender_txs a txs))"
  by (induction txs) (auto simp: weight_of_def sender_txs_def)

section \<open>Amounts of valid payloads\<close>

lemma extra_keys_none: "extra_keys tx = [] \<Longrightarrow> k \<notin> set (allowed_keys (tx_type tx)) \<Longrightarrow> dget (tx_payload tx) k = None"
  by (auto simp: extra_keys_def filter_empty_conv map_of_eq_None_iff)

lemma amount_of_default: "is_int (pget tx ''amount'' PNone) \<Longrightarrow> amount_of tx = int_of_py (pget tx ''amount'' PNone)"
  by (auto simp: amount_of_def pget_def dget_or_def split: option.splits)

lemma valid_amount:
  assumes "is_ok (validate_payload E tx)"
  shows "0 \<le> amount_of tx"
    and "tx_type tx \<in> {TRANSFER, STAKE, DELEGATE, UNSTAKE, MINT_TOKEN, TRANSFER_TOKEN} \<Longrightarrow> 0 < amount_of tx"
proof -
  have all: "list_all is_ok (common_checks tx)" "list_all is_ok (type_checks E tx)"
    using assms by (auto simp: validate_payload_def checks_ok)
  then have ex: "extra_keys tx = []" by (simp add: common_checks_def Let_def)
  have pos: "tx_type tx \<in> {TRANSFER, STAKE, DELEGATE, UNSTAKE, MINT_TOKEN, TRANSFER_TOKEN} \<Longrightarrow> 0 < amount_of tx"
    using all(2) amount_of_default[of tx]
    by (auto simp: type_checks_def check_transfer_def check_stake_def check_mint_token_def
        check_transfer_token_def amount_checks_def Let_def MIN_STAKE_def)
  show "tx_type tx \<in> {TRANSFER, STAKE, DELEGATE, UNSTAKE, MINT_TOKEN, TRANSFER_TOKEN} \<Longrightarrow> 0 < amount_of tx"
    by (rule pos)
  have "tx_type tx \<notin> {TRANSFER, STAKE, DELEGATE, UNSTAKE, MINT_TOKEN, TRANSFER_TOKEN} \<Longrightarrow> amount_of tx = 0"
    using extra_keys_none[OF ex, of "''amount''"]
    by (cases "tx_type tx") (simp_all add: amount_of_def pget_def dget_or_def)
  then show "0 \<le> amount_of tx" using pos by fastforce
qed

section \<open>The invariant\<close>

definition pool_ok :: "env \<Rightarrow> 'a pool_scheme \<Rightarrow> bool" where
  "pool_ok E s \<longleftrightarrow>
     distinct (map (tx_id E) (tx_pool s)) \<and> pool_ids s = tx_id E ` set (tx_pool s)
     \<and> senders.counts (pool_sender_count s) (tx_pool s)
     \<and> types.counts (pool_type_counts s) (tx_pool s)
     \<and> debits.counts (dynamic_pool E (height s + 1) s) (pending_debits_cache s) (tx_pool s)
     \<and> list_all tx_good (tx_pool s) \<and> length (tx_pool s) \<le> MAX_TX_POOL_SIZE"

definition pool_nonces :: "'a pool_scheme \<Rightarrow> bool" where
  "pool_nonces s \<longleftrightarrow>
     (\<forall>a. consecutive_from (get_next_nonce s a) (map tx_nonce (sender_txs a (tx_pool s))))"

definition affordable :: "'a pool_scheme \<Rightarrow> bool" where
  "affordable s \<longleftrightarrow> (\<forall>a. pending_debits s a \<le> get_balance s a)"

lemma consecutive_snoc: "consecutive_from n xs \<Longrightarrow> consecutive_from n (xs @ [n + int (length xs)])"
  by (simp add: consecutive_from_def)

lemma submit_cases:
  assumes "submit_tx E now tx s = (r, t)"
  shows "is_ok r \<and> list_all is_ok (submit_checks E s now tx) \<and> t = pool_push E tx s \<and> r = Ok (tx_id E tx)
       \<or> \<not> is_ok r \<and> t = s"
proof (cases "checks (submit_checks E s now tx)")
  case (Ok x)
  then have "list_all is_ok (submit_checks E s now tx)" using checks_ok[of "submit_checks E s now tx"] by simp
  then show ?thesis using assms Ok by (auto simp: submit_tx_def)
next
  case (Fail x)
  then have "r = Fail x \<and> t = s" using assms by (auto simp: submit_tx_def)
  then show ?thesis by simp
next
  case (Raise x)
  then have "r = Raise x \<and> t = s" using assms by (auto simp: submit_tx_def)
  then show ?thesis by simp
qed

lemma push_pool_ok:
  assumes "pool_ok E s" "tx_id E tx \<notin> pool_ids s" "length (tx_pool s) < MAX_TX_POOL_SIZE" "tx_good tx"
  shows "pool_ok E (pool_push E tx s)"
proof -
  let ?t = "pool_push E tx s"
  have h: "dynamic_pool E (height ?t + 1) ?t = dynamic_pool E (height s + 1) s"
    by (simp add: pool_push_def dynamic_pool_def)
  have "senders.counts (pool_sender_count ?t) (tx_pool ?t)" "types.counts (pool_type_counts ?t) (tx_pool ?t)"
    "debits.counts (dynamic_pool E (height s + 1) s) (pending_debits_cache ?t) (tx_pool ?t)"
    using assms(1) senders.counts_add types.counts_add debits.counts_add
    by (auto simp: pool_ok_def pool_push_def calc_tx_debit_def)
  then show ?thesis
    using assms unfolding pool_ok_def h by (auto simp: pool_push_def)
qed

lemma submit_pool_ok:
  assumes "pool_ok E s" "0 \<le> tx_max_fee tx" "submit_tx E now tx s = (r, t)"
  shows "pool_ok E t"
  using submit_cases[OF assms(3)]
proof
  assume c: "is_ok r \<and> list_all is_ok (submit_checks E s now tx) \<and> t = pool_push E tx s \<and> r = Ok (tx_id E tx)"
  then have "list_all is_ok (basic_admission E s tx)" by (simp add: submit_checks_def)
  moreover have "is_ok (payload_check E tx p) \<longleftrightarrow> is_ok (validate_payload E tx)" for p
    by (simp add: payload_check_def split: outcome.splits msg.splits)
  ultimately have "tx_id E tx \<notin> pool_ids s" "length (tx_pool s) < MAX_TX_POOL_SIZE"
    "is_ok (validate_payload E tx)"
    by (auto simp: basic_admission_def Let_def)
  then show ?thesis
    using push_pool_ok[OF assms(1)] valid_amount(1)[of E tx] assms(2) c by (simp add: tx_good_def)
qed (use assms in simp)

lemma submit_pool_nonces:
  assumes "pool_ok E s" "pool_nonces s" "submit_tx E now tx s = (r, t)"
  shows "pool_nonces t"
  using submit_cases[OF assms(3)]
proof
  assume c: "is_ok r \<and> list_all is_ok (submit_checks E s now tx) \<and> t = pool_push E tx s \<and> r = Ok (tx_id E tx)"
  then have "list_all is_ok (order_admission s now tx)" by (simp add: submit_checks_def)
  then have n: "tx_nonce tx = get_next_nonce s (tx_sender tx) + int (length (sender_txs (tx_sender tx) (tx_pool s)))"
    using assms(1) by (simp add: order_admission_def Let_def pool_ok_def senders.counts_def sender_weight)
  have "get_next_nonce t a = get_next_nonce s a" for a using c by (simp add: pool_push_def get_next_nonce_def)
  moreover have "sender_txs a (tx_pool t) = sender_txs a (tx_pool s) @ (if a = tx_sender tx then [tx] else [])" for a
    using c by (simp add: pool_push_def sender_txs_def)
  ultimately show ?thesis
    using assms(2) n consecutive_snoc[of "get_next_nonce s (tx_sender tx)" "map tx_nonce (sender_txs (tx_sender tx) (tx_pool s))"]
    by (auto simp: pool_nonces_def)
qed (use assms in simp)

lemma fee_admission_debit:
  assumes "financial_active s" "list_all is_ok (fee_admission E s tx)"
    "pending_debits s (tx_sender tx) \<le> get_balance s (tx_sender tx)"
  shows "pending_debits s (tx_sender tx) + calc_tx_debit E (height s + 1) s tx \<le> get_balance s (tx_sender tx)"
  using assms
  by (cases "tx_type tx") (auto simp: fee_admission_def calc_tx_debit_def debit_under_def Let_def tx_weight_def split: if_splits)

lemma submit_affordable:
  assumes "affordable s" "financial_active s" "submit_tx E now tx s = (r, t)"
  shows "affordable t"
  using submit_cases[OF assms(3)]
proof
  assume c: "is_ok r \<and> list_all is_ok (submit_checks E s now tx) \<and> t = pool_push E tx s \<and> r = Ok (tx_id E tx)"
  then have "list_all is_ok (fee_admission E s tx)" by (simp add: submit_checks_def)
  then have "pending_debits s (tx_sender tx) + calc_tx_debit E (height s + 1) s tx \<le> get_balance s (tx_sender tx)"
    using fee_admission_debit assms(1,2) by (auto simp: affordable_def)
  then show ?thesis
    using assms(1) c
    by (auto simp: affordable_def pending_debits_def pool_push_def tally_add_def dict_simps get_balance_def)
qed (use assms in simp)

section \<open>Eviction keeps the counters\<close>

lemma tally_of_positive: "list_all (\<lambda>p. 0 < snd p) (tally_of key (\<lambda>_. 1) xs)"
  unfolding tally_of_def
proof (rule fold_inv)
  show "list_all (\<lambda>p. 0 < snd p) (tally_add key (\<lambda>_. 1) x d)" if "list_all (\<lambda>p. 0 < snd p) d"
    for x d
    using that list_all_dget[of "\<lambda>p. 0 < snd p" d "key x"]
    by (auto simp: tally_add_def dget_or_def intro!: list_all_dset split: option.splits)
qed simp

lemma tally_of_dwf: "dwf (tally_of key weight xs)"
  unfolding tally_of_def by (rule fold_inv) (auto simp: tally_add_def)

lemma fold_tally_sub:
  assumes "dwf d" "list_all (\<lambda>p. 0 < snd p) d" "\<And>k. dget_or d k 0 \<le> dget_or c k 0"
  shows "dget_or (fold (\<lambda>(k, n). tally_sub k n) d c) k 0 = dget_or c k 0 - dget_or d k 0"
  using assms
proof (induction d arbitrary: c)
  case (Cons p d)
  obtain j n where p: "p = (j, n)" by (cases p)
  let ?c = "tally_sub j n c"
  have n: "0 < n" and nd: "dget_or d j 0 = 0" using Cons.prems(1,2) p by auto
  have "n \<le> dget_or c j 0" using Cons.prems(3)[of j] p by (simp add: dget_or_Cons)
  then have cn: "dget_or c j n = dget_or c j 0" using n by (auto simp: dget_or_def split: option.splits)
  then have sub: "dget_or ?c i 0 = dget_or c i 0 - (if i = j then n else 0)" for i
    using \<open>n \<le> dget_or c j 0\<close> by (auto simp: tally_sub_def Let_def dict_simps)
  have "dget_or d i 0 \<le> dget_or ?c i 0" for i
    using Cons.prems(3)[of i] nd \<open>n \<le> dget_or c j 0\<close> by (auto simp: sub p dget_or_Cons)
  then have "dget_or (fold (\<lambda>(k, n). tally_sub k n) d ?c) k 0 = dget_or ?c k 0 - dget_or d k 0"
    using Cons.IH[of ?c] Cons.prems(1,2) p by simp
  then show ?case using nd by (auto simp: p sub dget_or_Cons)
qed simp

lemma mined_split:
  assumes "distinct (map (tx_id E) pool)" "set txs \<subseteq> set pool" "distinct (map (tx_id E) txs)"
  shows "length (sender_txs a pool) =
    length (sender_txs a (filter (\<lambda>tx. tx_id E tx \<notin> tx_id E ` set txs) pool)) + length (sender_txs a txs)"
proof -
  let ?in = "filter (\<lambda>tx. tx_id E tx \<in> tx_id E ` set txs) pool"
  have inj: "x = y" if "x \<in> set pool" "y \<in> set pool" "tx_id E x = tx_id E y" for x y
    using assms(1) that by (auto simp: distinct_map inj_on_def)
  have "set ?in = set txs" using assms(2) inj by auto
  then have "set (sender_txs a ?in) = set (sender_txs a txs)" unfolding sender_txs_def set_filter by auto
  moreover have "distinct (sender_txs a ?in)" "distinct (sender_txs a txs)"
    using assms(1,3) by (auto simp: sender_txs_def distinct_map)
  ultimately have "length (sender_txs a ?in) = length (sender_txs a txs)" by (metis distinct_card)
  moreover have lf: "length (filter P xs) = length (filter (\<lambda>x. P x \<and> \<not> Q x) xs) + length (filter (\<lambda>x. P x \<and> Q x) xs)"
    for P Q and xs :: "transaction list"
    by (induction xs) auto
  ultimately show ?thesis
    using lf[of "\<lambda>tx. tx_sender tx = a" pool "\<lambda>tx. tx_id E tx \<in> tx_id E ` set txs"]
    by (simp add: sender_txs_def conj_commute)
qed

lemma drain_pool_ok:
  assumes "pool_ok E s" "set (b_txs b) \<subseteq> set (tx_pool s)" "distinct (map (tx_id E) (b_txs b))"
  shows "pool_ok E (drain_pool E b s)"
proof -
  let ?t = "drain_pool E b s" and ?ids = "tx_id E ` set (b_txs b)"
  let ?rem = "filter (\<lambda>tx. tx_id E tx \<notin> ?ids) (tx_pool s)"
  have f: "tx_pool ?t = ?rem" "pool_ids ?t = pool_ids s - ?ids" "height ?t = height s"
    "pool_sender_count ?t = fold (\<lambda>(k, n). tally_sub k n) (sender_counts (b_txs b)) (pool_sender_count s)"
    "pool_type_counts ?t = tally_of tx_type (\<lambda>_. 1) ?rem"
    "pending_debits_cache ?t = tally_of tx_sender (debit_under (dynamic_pool E (height s + 1) s)) ?rem"
    by (simp_all add: drain_pool_def rebuild_pending_debits_cache_def Let_def calc_tx_debit_def
        dynamic_pool_def)
  have d: "distinct (map (tx_id E) (tx_pool s))" using assms(1) by (simp add: pool_ok_def)
  have c: "dget_or (pool_sender_count s) a 0 = int (length (sender_txs a (tx_pool s)))" for a
    using assms(1) by (simp add: pool_ok_def senders.counts_def sender_weight)
  have m: "dget_or (sender_counts (b_txs b)) a 0 = int (length (sender_txs a (b_txs b)))" for a
    using senders.counts_of[of "b_txs b"] by (simp add: sender_counts_def senders.counts_def sender_weight)
  note split = mined_split[OF d assms(2,3)]
  have "dget_or (pool_sender_count ?t) a 0 = dget_or (pool_sender_count s) a 0 - dget_or (sender_counts (b_txs b)) a 0" for a
    unfolding f(4)
  proof (rule fold_tally_sub)
    show "dwf (sender_counts (b_txs b))" "list_all (\<lambda>p. 0 < snd p) (sender_counts (b_txs b))"
      by (simp_all add: sender_counts_def tally_of_dwf tally_of_positive)
  qed (simp add: c m split)
  then have "senders.counts (pool_sender_count ?t) (tx_pool ?t)"
    by (simp add: senders.counts_def sender_weight f(1) c m split)
  moreover have "types.counts (pool_type_counts ?t) (tx_pool ?t)"
    unfolding f(1,5) by (rule types.counts_of)
  moreover have "debits.counts (dynamic_pool E (height ?t + 1) ?t) (pending_debits_cache ?t) (tx_pool ?t)"
    unfolding f(1,6) dynamic_pool_def f(3) by (rule debits.counts_of)
  moreover have "pool_ids ?t = tx_id E ` set (tx_pool ?t)" using assms(1) by (auto simp: f pool_ok_def)
  moreover have "distinct (map (tx_id E) (tx_pool ?t))" using d by (auto simp: f distinct_map_filter)
  moreover have "length (tx_pool ?t) \<le> MAX_TX_POOL_SIZE" "list_all tx_good (tx_pool ?t)"
    using assms(1) le_trans[OF length_filter_le] by (auto simp: f pool_ok_def list_all_iff)
  ultimately show ?thesis by (simp add: pool_ok_def)
qed

end
