(* ===== verification/StateOps.thy ===== *)
theory StateOps
  imports PoolProps
begin

text \<open>
  \<open>core/state_ops.py\<close>: the state trie rebuilt from balances, nonces, token balances and token
  supplies, and the proofs served from it. The trie's \<open>_entries\<close> are cleared without marking it
  dirty, as the code does: the first \<open>set\<close> marks it.
\<close>

record chain = pool +
  state_trie :: trie
  state_snapshots :: "(int, (string, bytes) dict) dict"
  last_receipts_root :: string
  last_state_root :: string

section \<open>Rebuilding the trie\<close>

text \<open>\<open>^[0-9a-fA-F]{32}$\<close>, where \<open>$\<close> also matches before a final newline.\<close>

definition valid_token_id :: "string \<Rightarrow> bool" where
  "valid_token_id tid \<longleftrightarrow> length (chomp tid) = 32 \<and> list_all is_hex (chomp tid)"

definition balance_key :: "string \<Rightarrow> string" where
  "balance_key addr = ''balance:'' @ addr"

definition nonce_key :: "string \<Rightarrow> string" where
  "nonce_key addr = ''nonce:'' @ addr"

definition token_balance_key :: "string \<Rightarrow> string \<Rightarrow> string" where
  "token_balance_key tid addr = ''token:'' @ tid @ '':balance:'' @ addr"

definition token_supply_key :: "string \<Rightarrow> string" where
  "token_supply_key tid = ''token:'' @ tid @ '':supply''"

text \<open>\<open>trie.set(key, n.to_bytes(8, 'big'))\<close>.\<close>

definition trie_put :: "string \<times> int \<Rightarrow> ('a chain_scheme) act" where
  "trie_put kn s =
     (case to_bytes8 (snd kn) of
        None \<Rightarrow> (Some OverflowError, s)
      | Some b \<Rightarrow> (None, s\<lparr>state_trie := trie_set (state_trie s) (fst kn) b\<rparr>))"

definition trie_put_token :: "string \<Rightarrow> string \<times> int \<Rightarrow> ('a chain_scheme) act" where
  "trie_put_token tid kn s =
     (if \<not> valid_token_id tid then (Some (ve ''invalid token_id in state: {}'' [PStr tid]), s)
      else trie_put kn s)"

definition rebuild_state_trie :: "('a chain_scheme) act" where
  "rebuild_state_trie s =
     run_all
       ([pure (\<lambda>t. t\<lparr>state_trie := (state_trie t)\<lparr>entries := []\<rparr>\<rparr>)]
        @ map (\<lambda>(addr, bal). trie_put (balance_key addr, bal)) (filter (\<lambda>p. \<not> snd p < 0) (balances s))
        @ map (\<lambda>(addr, n). trie_put (nonce_key addr, n)) (filter (\<lambda>p. snd p \<ge> 0) (sender_nonce s))
        @ map (\<lambda>((tid, addr), bal). trie_put_token tid (token_balance_key tid addr, bal))
            (filter (\<lambda>p. snd p > 0) (token_balances s))
        @ map (\<lambda>(tid, reg). trie_put_token tid (token_supply_key tid, tk_minted reg)) (token_registry s)) s"

text \<open>\<open>self._state_trie.root().hex()\<close>, which also fills the trie's cache.\<close>

definition state_root :: "env \<Rightarrow> 'a chain_scheme \<Rightarrow> string \<times> 'a chain_scheme" where
  "state_root E s =
     (let (r, t) = trie_root (sha3 E) (state_trie s) in (hex r, s\<lparr>state_trie := t\<rparr>))"

definition get_state_proof ::
    "env \<Rightarrow> 'a chain_scheme \<Rightarrow> string \<Rightarrow> string \<Rightarrow> state_proof option" where
  "get_state_proof E s address key_type =
     (if key_type \<notin> {''balance'', ''nonce''} then None
      else fst (trie_get_proof (sha3 E) (state_trie s) (key_type @ '':'' @ address)))"

definition get_token_state_proof ::
    "env \<Rightarrow> 'a chain_scheme \<Rightarrow> string \<Rightarrow> string \<Rightarrow> state_proof option" where
  "get_token_state_proof E s token_id address =
     (if \<not> valid_token_id token_id then None
      else fst (trie_get_proof (sha3 E) (state_trie s) (token_balance_key token_id address)))"

text \<open>\<open>get_state_proof_at_block\<close> of \<open>core/query.py\<close>, at a block with a snapshot or at the tip.\<close>

definition get_state_proof_at_block ::
    "env \<Rightarrow> 'a chain_scheme \<Rightarrow> string \<Rightarrow> int option \<Rightarrow> (state_proof \<times> int) option" where
  "get_state_proof_at_block E s key block_index =
     (case block_index of
        Some i \<Rightarrow>
          (case dget (state_snapshots s) i of
             None \<Rightarrow> None
           | Some snap \<Rightarrow>
               map_option (\<lambda>p. (p, i)) (fst (trie_get_proof (sha3 E) (trie_restore trie_init snap) key)))
      | None \<Rightarrow>
          map_option (\<lambda>p. (p, height s)) (fst (trie_get_proof (sha3 E) (state_trie s) key)))"

section \<open>What the rebuilt trie holds\<close>

text \<open>The entries in the order they are set.\<close>

definition state_entries :: "'a tokens_scheme \<Rightarrow> (string \<times> int) list" where
  "state_entries s =
     map (\<lambda>(addr, bal). (balance_key addr, bal)) (filter (\<lambda>p. \<not> snd p < 0) (balances s))
     @ map (\<lambda>(addr, n). (nonce_key addr, n)) (filter (\<lambda>p. snd p \<ge> 0) (sender_nonce s))
     @ map (\<lambda>((tid, addr), bal). (token_balance_key tid addr, bal))
         (filter (\<lambda>p. snd p > 0) (token_balances s))
     @ map (\<lambda>(tid, reg). (token_supply_key tid, tk_minted reg)) (token_registry s)"

definition bytes8 :: "int \<Rightarrow> bytes" where
  "bytes8 n = the_default [] (to_bytes8 n)"

lemma trie_put_None:
  "trie_put kn s = (None, t) \<Longrightarrow>
     to_bytes8 (snd kn) \<noteq> None \<and> t = s\<lparr>state_trie := trie_set (state_trie s) (fst kn) (bytes8 (snd kn))\<rparr>"
  by (auto simp: trie_put_def bytes8_def split: option.splits)

lemma trie_put_token_None: "trie_put_token tid kn s = (None, t) \<Longrightarrow> trie_put kn s = (None, t)"
  by (auto simp: trie_put_token_def split: if_splits)

definition set_entries :: "(string \<times> int) list \<Rightarrow> trie \<Rightarrow> trie" where
  "set_entries kns t = fold (\<lambda>kn t. trie_set t (fst kn) (bytes8 (snd kn))) kns t"

lemma run_puts:
  assumes "run_all as s = (None, t)"
    and "list_all2 (\<lambda>a kn. \<forall>s t. a s = (None, t) \<longrightarrow> trie_put kn s = (None, t)) as kns"
  shows "t = s\<lparr>state_trie := set_entries kns (state_trie s)\<rparr>"
  using assms
proof (induction as arbitrary: s kns)
  case (Cons a as)
  obtain kn ks where k: "kns = kn # ks" using Cons.prems(2) by (cases kns) auto
  obtain u where u: "a s = (None, u)" "run_all as u = (None, t)"
    using Cons.prems(1) run_all_Cons_None[of a as s t] by blast
  have "u = s\<lparr>state_trie := trie_set (state_trie s) (fst kn) (bytes8 (snd kn))\<rparr>"
    using Cons.prems(2) k u(1) trie_put_None[of kn s u] by simp
  then show ?case using Cons.IH[OF u(2), of ks] Cons.prems(2) k by (simp add: set_entries_def)
qed (simp add: set_entries_def)

lemma puts_map:
  assumes "\<And>x s t. f x s = (None, t) \<Longrightarrow> trie_put (g x) s = (None, t)"
  shows "list_all2 (\<lambda>a kn. \<forall>s t. a s = (None, t) \<longrightarrow> trie_put kn s = (None, t)) (map f xs) (map g xs)"
  using assms by (induction xs) auto

lemma rebuild_entries:
  assumes "rebuild_state_trie s = (None, t)"
  shows "t = s\<lparr>state_trie := set_entries (state_entries s) ((state_trie s)\<lparr>entries := []\<rparr>)\<rparr>"
proof -
  let ?s = "s\<lparr>state_trie := (state_trie s)\<lparr>entries := []\<rparr>\<rparr>"
  let ?as = "map (\<lambda>(addr, bal). trie_put (balance_key addr, bal)) (filter (\<lambda>p. \<not> snd p < 0) (balances s))
        @ map (\<lambda>(addr, n). trie_put (nonce_key addr, n)) (filter (\<lambda>p. snd p \<ge> 0) (sender_nonce s))
        @ map (\<lambda>((tid, addr), bal). trie_put_token tid (token_balance_key tid addr, bal))
            (filter (\<lambda>p. snd p > 0) (token_balances s))
        @ map (\<lambda>(tid, reg). trie_put_token tid (token_supply_key tid, tk_minted reg)) (token_registry s)"
  have run: "run_all ?as ?s = (None, t)" using assms by (simp add: rebuild_state_trie_def)
  have "list_all2 (\<lambda>a kn. \<forall>s t. a s = (None, t) \<longrightarrow> trie_put kn s = (None, t)) ?as (state_entries s)"
    unfolding state_entries_def
    by (intro list_all2_appendI puts_map) (auto dest: trie_put_token_None)
  from run_puts[OF run this] show ?thesis by simp
qed

text \<open>Entries set over others: an absent key stays, a key of the list has its last value.\<close>

lemma set_entries_other:
  "k \<notin> fst ` set kns \<Longrightarrow> dget (entries (set_entries kns t)) k = dget (entries t) k"
  by (induction kns arbitrary: t) (auto simp: set_entries_def trie_store.look_put)

lemma set_entries_key:
  "(k, n) \<in> set kns \<Longrightarrow> distinct (map fst kns) \<Longrightarrow> dget (entries (set_entries kns t)) k = Some (bytes8 n)"
proof (induction kns arbitrary: t)
  case (Cons p kns)
  show ?case
  proof (cases "p = (k, n)")
    case True
    then have "k \<notin> fst ` set kns" using Cons.prems(2) by auto
    then show ?thesis
      using set_entries_other[of k kns "trie_set t k (bytes8 n)"] True
      by (simp add: set_entries_def trie_store.look_put)
  next
    case False
    then show ?thesis using Cons by (auto simp: set_entries_def)
  qed
qed simp

lemma set_entries_append: "set_entries (xs @ ys) t = set_entries ys (set_entries xs t)"
  by (simp add: set_entries_def)

lemma keys_apart:
  "balance_key a \<noteq> nonce_key b" "balance_key a \<noteq> token_balance_key t b" "balance_key a \<noteq> token_supply_key t"
  "nonce_key a \<noteq> token_balance_key t b" "nonce_key a \<noteq> token_supply_key t"
  "balance_key a = balance_key b \<longleftrightarrow> a = b" "nonce_key a = nonce_key b \<longleftrightarrow> a = b"
  by (auto simp: balance_key_def nonce_key_def token_balance_key_def token_supply_key_def)

lemma rebuilt_balance:
  assumes "dwf (balances s)" "dget (balances s) a = Some n" "0 \<le> n"
  shows "dget (entries (set_entries (state_entries s) t)) (balance_key a) = Some (bytes8 n)"
proof -
  let ?bs = "map (\<lambda>(addr, bal). (balance_key addr, bal)) (filter (\<lambda>p. \<not> snd p < 0) (balances s))"
  let ?rest = "map (\<lambda>(addr, n). (nonce_key addr, n)) (filter (\<lambda>p. snd p \<ge> 0) (sender_nonce s))
     @ map (\<lambda>((tid, addr), bal). (token_balance_key tid addr, bal))
         (filter (\<lambda>p. snd p > 0) (token_balances s))
     @ map (\<lambda>(tid, reg). (token_supply_key tid, tk_minted reg)) (token_registry s)"
  have e: "state_entries s = ?bs @ ?rest" by (simp add: state_entries_def)
  have r: "balance_key a \<notin> fst ` set ?rest" by (auto simp: keys_apart)
  have "distinct (map fst (filter (\<lambda>p. \<not> snd p < 0) (balances s)))"
    using assms(1) by (auto simp: dwf_def distinct_map_filter)
  then have "distinct (map balance_key (map fst (filter (\<lambda>p. \<not> snd p < 0) (balances s))))"
    by (subst distinct_map) (simp add: inj_on_def keys_apart)
  moreover have "map fst ?bs = map balance_key (map fst (filter (\<lambda>p. \<not> snd p < 0) (balances s)))"
    by (auto simp: o_def)
  ultimately have "distinct (map fst ?bs)" by (simp only:)
  moreover have "(balance_key a, n) \<in> set ?bs"
    using map_of_SomeD[OF assms(2)] assms(3) by (force simp: image_iff)
  ultimately have "dget (entries (set_entries ?bs t)) (balance_key a) = Some (bytes8 n)"
    by (intro set_entries_key)
  then show ?thesis using set_entries_other[OF r] unfolding e set_entries_append by simp
qed

end
