(* ===== verification/Chain.thy ===== *)
theory Chain
  imports StateOps
begin

text \<open>
  \<open>Blockchain._append_block_inner\<close> (\<open>core/blockchain.py\<close>, in-memory mode): a block is stored, then
  matured unbondings and the epoch boundary are processed, then its transactions in order (indices,
  fee, amount, effect of the type, events), then receipts, the block reward, the comparison with
  the roots the block claims, snapshots, pruning and finality. The method's local variables are the
  record \<open>locals\<close>, threaded with the chain's state; an exception leaves the state as it was at that
  point.
\<close>

section \<open>Local variables\<close>

record receipt_data =
  rd_index :: int
  rd_tx_id :: string
  rd_fee :: int
  rd_events :: "event list"

record locals =
  l_block_events :: "event list"
  l_data :: "receipt_data list"
  l_failed :: "string set"
  l_receipts :: "receipt list"

definition no_locals :: locals where
  "no_locals = \<lparr>l_block_events = [], l_data = [], l_failed = {}, l_receipts = []\<rparr>"

text \<open>An action on the chain beside the locals, and a local assignment that may read the chain.\<close>

definition on_chain :: "'s act \<Rightarrow> (locals \<times> 's) act" where
  "on_chain = lift snd (\<lambda>c p. (fst p, c))"

definition on_locals :: "('s \<Rightarrow> locals \<Rightarrow> locals) \<Rightarrow> (locals \<times> 's) act" where
  "on_locals f p = (None, (f (snd p) (fst p), snd p))"

section \<open>One transaction\<close>

text \<open>What the sender pays, under either fee model.\<close>

definition tx_fee_due :: "env \<Rightarrow> int \<Rightarrow> block \<Rightarrow> transaction \<Rightarrow> int" where
  "tx_fee_due E idx b tx =
     (if idx \<ge> dyn_height E
      then (let w = tx_weight (tx_type tx)
            in if w > 0 then compute_tx_fee (b_base_fee b) (tx_max_fee tx) (tx_max_prio tx) w else 0)
      else TX_FEES (tx_type tx))"

definition charge_fee :: "env \<Rightarrow> int \<Rightarrow> block \<Rightarrow> transaction \<Rightarrow> ('a chain_scheme) act" where
  "charge_fee E idx b tx =
     (let fee = tx_fee_due E idx b tx
      in if idx \<ge> dyn_height E
         then when_do (tx_weight (tx_type tx) > 0)
                (run_all [debit (tx_sender tx) fee, credit (b_validator b) fee])
         else when_do (fee > 0)
                (run_all [debit (tx_sender tx) fee, credit (b_validator b) (fee div 2),
                          pure (\<lambda>s. s\<lparr>total_burned := total_burned s + (fee - fee div 2)\<rparr>)]))"

definition move_amount :: "transaction \<Rightarrow> ('a chain_scheme) act" where
  "move_amount tx =
     (if tx_type tx = TRANSFER
      then run_all [debit (tx_sender tx) (amount_of tx), credit (tx_recipient tx) (amount_of tx)]
      else when_do (tx_type tx \<in> {STAKE, DELEGATE} \<and> amount_of tx > 0)
             (debit (tx_sender tx) (amount_of tx)))"

definition type_effect :: "env \<Rightarrow> int \<Rightarrow> transaction \<Rightarrow> ('a chain_scheme) act" where
  "type_effect E idx tx =
     (case tx_type tx of
        NOTARIZE \<Rightarrow> pure (apply_notarize E tx)
      | REGISTER_KEY \<Rightarrow> pure (apply_register_key tx)
      | REGISTER_VALIDATOR \<Rightarrow> apply_register_validator tx
      | REVOKE_KEY \<Rightarrow> pure (apply_revoke_key E tx)
      | STAKE \<Rightarrow> pure (apply_stake tx)
      | DELEGATE \<Rightarrow> pure (apply_stake tx)
      | UNSTAKE \<Rightarrow> pure (apply_unstake idx tx)
      | EVIDENCE \<Rightarrow> pure (process_evidence_tx E tx idx)
      | ISSUE_TOKEN \<Rightarrow> apply_issue_token E idx tx
      | MINT_TOKEN \<Rightarrow> apply_mint_token idx tx
      | TRANSFER_TOKEN \<Rightarrow> apply_transfer_token idx tx
      | _ \<Rightarrow> pass)"

definition apply_tx :: "env \<Rightarrow> int \<Rightarrow> block \<Rightarrow> int \<Rightarrow> transaction \<Rightarrow> ('a chain_scheme) act" where
  "apply_tx E idx b tx_idx tx s =
     run_all
       [pure (index_tx E idx tx_idx tx),
        when_do (idx > 0 \<and> financial_active s) (run_all [charge_fee E idx b tx, move_amount tx]),
        type_effect E idx tx] s"

text \<open>
  The fee and the events kept for the receipt. \<open>_process_evidence_tx\<close> always returns \<open>None\<close>, so
  that every EVIDENCE transaction counts as failed.
\<close>

definition note_receipt ::
    "env \<Rightarrow> int \<Rightarrow> block \<Rightarrow> int \<Rightarrow> transaction \<Rightarrow> 'a chain_scheme \<Rightarrow> locals \<Rightarrow> locals" where
  "note_receipt E idx b tx_idx tx s l =
     l\<lparr>l_data := l_data l @
         [\<lparr>rd_index = tx_idx, rd_tx_id = tx_id E tx,
           rd_fee = (if idx > 0 \<and> financial_active s then tx_fee_due E idx b tx else 0),
           rd_events = build_tx_events E s tx\<rparr>],
       l_failed := (if tx_type tx = EVIDENCE then insert (tx_id E tx) (l_failed l) else l_failed l)\<rparr>"

definition tx_step :: "env \<Rightarrow> int \<Rightarrow> block \<Rightarrow> nat \<times> transaction \<Rightarrow> (locals \<times> 'a chain_scheme) act" where
  "tx_step E idx b itx =
     run_all [on_chain (apply_tx E idx b (int (fst itx)) (snd itx)),
              on_locals (note_receipt E idx b (int (fst itx)) (snd itx))]"

section \<open>The parts of a block\<close>

text \<open>The epoch boundary, before the transactions; its event is kept for the block.\<close>

definition epoch_step :: "int \<Rightarrow> (locals \<times> 'a chain_scheme) act" where
  "epoch_step idx p =
     (let (l, s) = p; (e, t) = check_epoch_transition idx s
      in case e of
           Some x \<Rightarrow> (Some x, (l, t))
         | None \<Rightarrow>
             (None,
              (if current_epoch t > current_epoch s
               then l\<lparr>l_block_events := l_block_events l @
                       [build_event ''EpochTransition'' [(''epoch'', PInt (current_epoch t))]]\<rparr>
               else l, t)))"

text \<open>The receipt of one transaction, and the indices of its events.\<close>

definition receipt_step :: "int \<Rightarrow> receipt_data \<Rightarrow> (locals \<times> 'a chain_scheme) act" where
  "receipt_step idx rd p =
     (let (l, s) = p;
          tx_status = (if rd_tx_id rd \<in> l_failed l then ''failure'' else ''success'')
      in case mk_receipt (rd_tx_id rd) tx_status (rd_fee rd) idx (rd_index rd)
                (if tx_status = ''success'' then rd_events rd else []) of
           Inl e \<Rightarrow> (Some e, p)
         | Inr r \<Rightarrow>
             (None,
              (l\<lparr>l_receipts := l_receipts l @ [r]\<rparr>,
               s\<lparr>receipt_map := dset (receipt_map s) (rd_tx_id rd) r,
                 events_by_type :=
                   fold (\<lambda>ev d. if event_type_of ev \<noteq> [] then dappend d (event_type_of ev) (rd_tx_id rd) else d)
                     (rd_events rd) (events_by_type s),
                 events_by_block := dappend (events_by_block s) idx (rd_tx_id rd)\<rparr>)))"

definition receipts_step :: "int \<Rightarrow> (locals \<times> 'a chain_scheme) act" where
  "receipts_step idx p = run_all (map (receipt_step idx) (l_data (fst p))) p"

definition reward_step :: "int \<Rightarrow> block \<Rightarrow> (locals \<times> 'a chain_scheme) act" where
  "reward_step idx b p =
     (let (l, s) = p; reward = calc_block_reward s idx; v = b_validator b
      in if idx > 0 \<and> financial_active s \<and> reward > 0
         then
           (case credit v reward s of
              (Some e, s1) \<Rightarrow> (Some e, (l, s1))
            | (None, s1) \<Rightarrow>
                (None,
                 (l\<lparr>l_block_events := l_block_events l @
                      [build_event ''BlockReward'' [(''validator'', PStr v), (''amount'', PInt reward)]]\<rparr>,
                  s1\<lparr>total_minted := total_minted s1 + reward,
                     epoch_rewards := dset (epoch_rewards s1) v (dget_or (epoch_rewards s1) v 0 + reward)\<rparr>)))
         else (None, p))"

definition prune_before :: "int \<Rightarrow> int" where
  "prune_before idx = idx - MAX_REORG_DEPTH - 1"

text \<open>\<open>d.pop(prune_before, None)\<close> once the height has passed the reorganization window.\<close>

definition prune_at :: "int \<Rightarrow> (int, 'v) dict \<Rightarrow> (int, 'v) dict" where
  "prune_at idx d = (if prune_before idx \<ge> 0 then dpop d (prune_before idx) else d)"

definition store_block_events :: "int \<Rightarrow> locals \<times> 'a chain_scheme \<Rightarrow> locals \<times> 'a chain_scheme" where
  "store_block_events idx p =
     (fst p, (snd p)\<lparr>block_level_events :=
        prune_at idx (dset (block_level_events (snd p)) idx (l_block_events (fst p)))\<rparr>)"

definition receipts_root_step :: "env \<Rightarrow> int \<Rightarrow> block \<Rightarrow> (locals \<times> 'a chain_scheme) act" where
  "receipts_root_step E idx b p =
     (let computed = receipts_root E (l_receipts (fst p));
          s1 = (snd p)\<lparr>last_receipts_root := computed\<rparr>
      in if b_receipts_root b \<noteq> [] \<and> b_receipts_root b \<noteq> computed
         then (Some (ve ''Block #{} receiptsRoot mismatch: claimed {}... vs computed {}...''
                 [PInt idx, PStr (take 16 (b_receipts_root b)), PStr (take 16 computed)]), (fst p, s1))
         else (None, (fst p, s1)))"

definition state_root_step :: "env \<Rightarrow> int \<Rightarrow> block \<Rightarrow> ('a chain_scheme) act" where
  "state_root_step E idx b s =
     (let (computed, s1) = state_root E s; s2 = s1\<lparr>last_state_root := computed\<rparr>
      in if b_state_root b \<noteq> [] \<and> b_state_root b \<noteq> computed
         then (Some (ve ''Block #{} state_root mismatch: claimed {}... vs computed {}...''
                 [PInt idx, PStr (take 16 (b_state_root b)), PStr (take 16 computed)]), s2)
         else (None, s2))"

definition save_snapshot :: "int \<Rightarrow> 'a chain_scheme \<Rightarrow> 'a chain_scheme" where
  "save_snapshot idx s =
     s\<lparr>state_snapshots := prune_at idx (dset (state_snapshots s) idx (trie_snapshot (state_trie s)))\<rparr>"

text \<open>Events and receipts of a block that left the window; an event type without entries goes.\<close>

definition prune_events :: "int \<Rightarrow> 'a chain_scheme \<Rightarrow> 'a chain_scheme" where
  "prune_events idx s =
     (if prune_before idx < 0 then s
      else
        (let pruned = dget_or (events_by_block s) (prune_before idx) [];
             s1 = s\<lparr>events_by_block := dpop (events_by_block s) (prune_before idx)\<rparr>
         in if pruned = [] then s1
            else s1\<lparr>events_by_type :=
                     filter (\<lambda>p. snd p \<noteq> [])
                       (map (\<lambda>(ty, ids). (ty, filter (\<lambda>i. i \<notin> set pruned) ids)) (events_by_type s1)),
                   receipt_map := filter (\<lambda>p. fst p \<notin> set pruned) (receipt_map s1)\<rparr>))"

text \<open>The code compares epoch numbers with a block height here.\<close>

definition prune_distributions :: "int \<Rightarrow> 'a chain_scheme \<Rightarrow> 'a chain_scheme" where
  "prune_distributions idx s =
     (if prune_before idx < 0 then s
      else s\<lparr>last_distributions := filter (\<lambda>p. \<not> fst p < prune_before idx) (last_distributions s)\<rparr>)"

section \<open>The block\<close>

definition append_steps :: "env \<Rightarrow> int \<Rightarrow> block \<Rightarrow> (locals \<times> 'a chain_scheme) act list" where
  "append_steps E idx b =
     [on_chain (pure (push_block E b)), on_chain (process_mature_unbondings idx), epoch_step idx]
     @ map (tx_step E idx b) (enumerate 0 (b_txs b))
     @ [receipts_step idx, reward_step idx b, pure (store_block_events idx), receipts_root_step E idx b,
        on_chain rebuild_state_trie, on_chain (state_root_step E idx b), on_chain (pure (save_snapshot idx)),
        on_chain (pure (prune_events idx)), on_chain (pure (prune_distributions idx)),
        on_chain (pure (update_finality idx))]"

definition append_block_inner :: "env \<Rightarrow> block \<Rightarrow> ('a chain_scheme) act" where
  "append_block_inner E b s =
     (case run_all (append_steps E (height s + 1) b) (no_locals, s) of (e, (_, t)) \<Rightarrow> (e, t))"

end
