(* ===== verification/ChainFrames.thy ===== *)
theory ChainFrames
  imports Chain
begin

text \<open>
  What each step of an append leaves alone, as equalities of views: money (\<open>fin_view\<close>), stakes
  (\<open>stake_view\<close>), tokens (\<open>token_view\<close>) and the chain's indices (\<open>index_view\<close>).
\<close>

definition core_view where
  "core_view s = (fin_view s, stake_view s, token_view s, index_view s)"

lemma core_viewD:
  assumes "core_view t = core_view s"
  shows "fin_view t = fin_view s" "stake_view t = stake_view s" "token_view t = token_view s"
    "index_view t = index_view s"
  using assms by (simp_all add: core_view_def)

named_theorems core_simps \<open>steps that leave the core of the state alone\<close>

lemma core_fields:
  assumes "balances t = balances s" "total_minted t = total_minted s" "total_burned t = total_burned s"
    "financial_active t = financial_active s" "stakes t = stakes s" "total_stake t = total_stake s"
    "unbonding t = unbonding s" "epoch_rewards t = epoch_rewards s"
    "validator_commission t = validator_commission s" "token_registry t = token_registry s"
    "token_balances t = token_balances s" "token_by_symbol t = token_by_symbol s"
    "holders_by_token t = holders_by_token s" "tokens_by_address t = tokens_by_address s"
    "chain_list t = chain_list s" "height t = height s" "latest_block t = latest_block s"
    "tx_by_id t = tx_by_id s" "chain_tx_ids t = chain_tx_ids s" "sender_nonce t = sender_nonce s"
    "stale_nonces t = stale_nonces s" "poa_genesis_hash t = poa_genesis_hash s"
  shows "core_view t = core_view s"
  using assms by (simp add: core_view_def fin_view_def stake_view_def token_view_def index_view_def)

section \<open>Steps after the transactions\<close>

lemma core_receipt_step: "core_view (snd (snd (receipt_step idx rd p))) = core_view (snd p)"
  by (cases p) (auto simp: receipt_step_def Let_def intro!: core_fields split: sum.splits)

lemma core_receipts_step: "core_view (snd (snd (receipts_step idx p))) = core_view (snd p)"
  unfolding receipts_step_def
  by (rule run_all_inv_any[where I = "\<lambda>q. core_view (snd q) = core_view (snd p)"])
    (auto simp: core_receipt_step)

lemma core_store_events: "core_view (snd (store_block_events idx p)) = core_view (snd p)"
  by (rule core_fields) (simp_all add: store_block_events_def)

lemma core_receipts_root_step: "core_view (snd (snd (receipts_root_step E idx b p))) = core_view (snd p)"
  by (rule core_fields) (simp_all add: receipts_root_step_def Let_def)

lemma core_trie: "core_view (s\<lparr>state_trie := x\<rparr>) = core_view s"
  by (rule core_fields) simp_all

lemma core_rebuild: "rebuild_state_trie s = (None, t) \<Longrightarrow> core_view t = core_view s"
  by (drule rebuild_entries) (simp only: core_trie)

lemma core_state_root_step: "core_view (snd (state_root_step E idx b s)) = core_view s"
proof -
  have "\<exists>x y. snd (state_root_step E idx b s) = s\<lparr>state_trie := x, last_state_root := y\<rparr>"
    by (auto simp: state_root_step_def state_root_def Let_def split: prod.splits)
  then show ?thesis by (auto intro!: core_fields)
qed

lemma core_save_snapshot: "core_view (save_snapshot idx s) = core_view s"
  by (rule core_fields) (simp_all add: save_snapshot_def)

lemma core_prune_events: "core_view (prune_events idx s) = core_view s"
  by (rule core_fields) (simp_all add: prune_events_def Let_def)

lemma core_prune_distributions: "core_view (prune_distributions idx s) = core_view s"
  by (rule core_fields) (simp_all add: prune_distributions_def)

lemma core_update_finality: "core_view (update_finality n s) = core_view s"
proof -
  have "update_finality n s = s \<or> (\<exists>h. update_finality n s = s\<lparr>finalized_height := h\<rparr>)"
    by (auto simp: update_finality_def Let_def split: option.splits)
  then show ?thesis by (auto intro!: core_fields)
qed

section \<open>Purging the pool\<close>

lemma core_purge: "core_view (purge_sender E a s) = core_view s"
  by (rule core_fields) (simp_all add: purge_sender_def Let_def)

section \<open>Tokens beside the other operations\<close>

lemma token_view_frame [frame_simps]:
  "token_view (credited a n s) = token_view s"
  "token_view (debited a n s) = token_view s"
  "token_view (push_block E b s) = token_view s"
  "token_view (index_tx E idx j tx s) = token_view s"
  "token_view (apply_notarize E tx s) = token_view s"
  "token_view (apply_register_key tx s) = token_view s"
  "token_view (apply_revocation E tx s) = token_view s"
  "token_view (apply_stake tx s) = token_view s"
  "token_view (apply_unstake idx tx s) = token_view s"
  "token_view (freeze_epoch n s) = token_view s"
  by (simp_all add: token_view_def credited_def debited_def push_block_def index_tx_def apply_notarize_def
      apply_register_key_def apply_revocation_def remove_validator_def apply_stake_def
      apply_unstake_def freeze_epoch_def Let_def)

lemma token_view_register_validator [frame_simps]:
  "token_view (snd (apply_register_validator tx s)) = token_view s"
  by (auto simp: token_view_def apply_register_validator_def Let_def set_commission_def add_validator_def
      split: option.splits)

lemma token_view_evidence [frame_simps]: "token_view (process_evidence_tx E tx i s) = token_view s"
  by (auto simp: token_view_def process_evidence_tx_def slash_def Let_def remove_validator_def
      split: option.splits)

section \<open>What epoch rewards and unbondings leave alone\<close>

text \<open>
  A function of the state that credits, debits and the bookkeeping of stakes do not change is not
  changed by the operations built from them.
\<close>

locale staking_frame =
  fixes F :: "'a staking_scheme \<Rightarrow> 'v"
  assumes F_credited: "F (credited a n s) = F s"
    and F_debited: "F (debited a n s) = F s"
    and F_rewards: "F (s\<lparr>epoch_rewards := r\<rparr>) = F s"
    and F_distributions: "F (s\<lparr>epoch_rewards := r, last_distributions := d\<rparr>) = F s"
    and F_unbonding: "F (s\<lparr>unbonding := u\<rparr>) = F s"
    and F_freeze: "F (freeze_epoch n s) = F s"
begin

lemma F_credit: "credit a n s = (None, t) \<Longrightarrow> F t = F s"
  by (auto simp: credit_None F_credited)

lemma F_debit: "debit a n s = (None, t) \<Longrightarrow> F t = F s"
  by (auto simp: debit_None F_debited)

lemma F_credits: "run_all (map (\<lambda>x. credit (f x) (g x)) xs) s = (None, t) \<Longrightarrow> F t = F s"
  by (erule run_all_inv[where I = "\<lambda>t. F t = F s", rotated 2]) (auto dest: F_credit)

lemma F_distribute_one:
  assumes d: "distribute_one snap vs p = (None, q)"
  shows "F (snd q) = F (snd p)"
proof -
  obtain v st where vs: "vs = (v, st)" by (cases vs)
  obtain ds s where p: "p = (ds, s)" by (cases p)
  show ?thesis
    using d F_credits[where f = fst and g = snd]
    by (auto simp: distribute_one_def vs p Let_def F_rewards split: if_splits prod.splits option.splits
        dest: F_debit)
qed

lemma F_distribution:
  assumes "distribute_epoch_rewards n snap s = (None, t)"
  shows "F t = F s"
proof -
  obtain ds u where r: "run_all (map (distribute_one snap) (stakes s)) (\<lparr>ds_credits = [], ds_debits = []\<rparr>, s) = (None, (ds, u))"
    and t: "F t = F u"
    using assms by (auto simp: distribute_epoch_rewards_def F_distributions split: prod.splits option.splits)
  have "F (snd (ds, u)) = F s"
    by (rule run_all_inv[where I = "\<lambda>q. F (snd q) = F s", OF _ _ r]) (auto dest: F_distribute_one)
  then show ?thesis using t by simp
qed

lemma F_epoch: "check_epoch_transition idx s = (None, t) \<Longrightarrow> F t = F s"
  by (auto simp: check_epoch_transition_def Let_def when_do_eq F_freeze split: if_splits prod.splits
      option.splits dest: F_distribution)

lemma F_mature: "process_mature_unbondings idx s = (None, t) \<Longrightarrow> F t = F s"
  using F_credits[where f = ub_staker and g = ub_amount]
  by (auto simp: process_mature_unbondings_def when_do_eq F_unbonding split: if_splits prod.splits option.splits)

end

interpretation token_frame: staking_frame token_view
  by unfold_locales (simp_all add: frame_simps, simp_all add: token_view_def)

interpretation finality_frame: staking_frame finalized_height
  by unfold_locales (simp_all add: credited_def debited_def freeze_epoch_def Let_def)

interpretation index_frame: staking_frame index_view
  by unfold_locales (simp_all add: frame_simps, simp_all add: index_view_def)

interpretation commission_frame: staking_frame validator_commission
  by unfold_locales (simp_all add: credited_def debited_def freeze_epoch_def Let_def)

end
