(* ===== verification/ChainMoney.thy ===== *)
theory ChainMoney
  imports ChainFrames
begin

text \<open>
  Money across the append of a block: no balance goes below zero, the minted total stays under the
  cap and grows by the block reward alone, and what balances, stakes, unbondings and burned fees
  account for moves with what is minted.
\<close>

section \<open>Payments\<close>

text \<open>\<open>t\<close> comes from \<open>s\<close> by payments: only balances and the burned total may differ.\<close>

definition paid :: "'a chain_scheme \<Rightarrow> 'a chain_scheme \<Rightarrow> bool" where
  "paid s t \<longleftrightarrow>
     (money_ok s \<longrightarrow> money_ok t) \<and> total_minted t = total_minted s
     \<and> financial_active t = financial_active s \<and> stake_view t = stake_view s
     \<and> token_view t = token_view s \<and> index_view t = index_view s
     \<and> finalized_height t = finalized_height s"

lemma paid_refl [simp]: "paid s s"
  by (simp add: paid_def)

lemma paid_trans: "paid s t \<Longrightarrow> paid t u \<Longrightarrow> paid s u"
  by (auto simp: paid_def)

lemma money_ok_credit: "money_ok s \<Longrightarrow> 0 \<le> n \<Longrightarrow> money_ok (credited a n s)"
  using stake_ok_cong[of "credited a n s" s]
  by (auto simp: money_ok_def ledger_simps frame_simps intro: solvent_credited)

lemma money_ok_debit: "money_ok s \<Longrightarrow> n \<le> get_balance s a \<Longrightarrow> money_ok (debited a n s)"
  using stake_ok_cong[of "debited a n s" s]
  by (auto simp: money_ok_def ledger_simps frame_simps intro: solvent_debited)

lemma finalized_paid [simp]:
  "finalized_height (credited a n s) = finalized_height s"
  "finalized_height (debited a n s) = finalized_height s"
  by (simp_all add: credited_def debited_def Let_def)

lemma paid_credit: "credit a n s = (None, t) \<Longrightarrow> paid s t"
  by (auto simp: credit_None paid_def frame_simps money_ok_credit)

lemma paid_debit: "debit a n s = (None, t) \<Longrightarrow> paid s t"
  using money_ok_debit[of s n a] solvent_balance[of s a]
  by (auto simp: debit_None paid_def frame_simps money_ok_def)

lemma paid_burn: "paid s (s\<lparr>total_burned := n\<rparr>)"
  using stake_ok_cong[of "s\<lparr>total_burned := n\<rparr>" s]
  by (simp add: paid_def money_ok_def ledger_ok_def solvent_def stake_view_def token_view_def index_view_def)

text \<open>Sequences of payments, and what they do to the accounted total.\<close>

lemma paid_run:
  assumes "\<And>a s t. a \<in> set as \<Longrightarrow> a s = (None, t) \<Longrightarrow> paid s t" "run_all as s = (None, t)"
  shows "paid s t"
  by (rule run_all_inv[where I = "paid s", OF _ _ assms(2)]) (auto intro: paid_trans assms(1))

lemma charge_fee_paid: "charge_fee E idx b tx s = (None, t) \<Longrightarrow> paid s t"
proof -
  assume c: "charge_fee E idx b tx s = (None, t)"
  let ?fee = "tx_fee_due E idx b tx"
  let ?dyn = "[debit (tx_sender tx) ?fee, credit (b_validator b) ?fee]"
  let ?old = "[debit (tx_sender tx) ?fee, credit (b_validator b) (?fee div 2),
       pure (\<lambda>s. s\<lparr>total_burned := total_burned s + (?fee - ?fee div 2)\<rparr>)]"
  have "t = s \<or> run_all ?dyn s = (None, t) \<or> run_all ?old s = (None, t)"
    using c by (simp add: charge_fee_def Let_def when_do_eq del: run_all.simps split: if_split_asm)
  moreover have "paid s t" if "run_all ?dyn s = (None, t)"
    by (rule paid_run[OF _ that]) (auto intro: paid_debit paid_credit)
  moreover have "paid s t" if "run_all ?old s = (None, t)"
    by (rule paid_run[OF _ that]) (auto intro: paid_debit paid_credit paid_burn)
  ultimately show ?thesis by auto
qed

lemma move_amount_paid: "move_amount tx s = (None, t) \<Longrightarrow> paid s t"
proof -
  assume m: "move_amount tx s = (None, t)"
  let ?tr = "[debit (tx_sender tx) (amount_of tx), credit (tx_recipient tx) (amount_of tx)]"
  have "t = s \<or> run_all ?tr s = (None, t) \<or> debit (tx_sender tx) (amount_of tx) s = (None, t)"
    using m by (simp add: move_amount_def when_do_eq del: run_all.simps split: if_split_asm)
  moreover have "paid s t" if "run_all ?tr s = (None, t)"
    by (rule paid_run[OF _ that]) (auto intro: paid_debit paid_credit)
  ultimately show ?thesis by (auto intro: paid_debit)
qed

text \<open>A fee is taken from the sender and goes to the validator and the burned total.\<close>

lemma charge_fee_accounted:
  assumes "money_ok s" "charge_fee E idx b tx s = (None, t)"
  shows "accounted t = accounted s"
proof -
  let ?fee = "tx_fee_due E idx b tx" and ?a = "tx_sender tx" and ?v = "b_validator b"
  have l: "ledger_ok s" "ledger_ok (debited ?a ?fee s)" using assms(1) by (auto simp: money_ok_def ledger_simps)
  have st: "total_stake (credited x n u) = total_stake u" "total_stake (debited x n u) = total_stake u"
    "unbonding (credited x n u) = unbonding u" "unbonding (debited x n u) = unbonding u" for x n and u :: "'a chain_scheme"
    by (simp_all add: credited_def debited_def Let_def)
  have "t = s \<or> t = credited ?v ?fee (debited ?a ?fee s)
      \<or> (\<exists>u. u = credited ?v (?fee div 2) (debited ?a ?fee s)
            \<and> t = u\<lparr>total_burned := total_burned u + (?fee - ?fee div 2)\<rparr>)"
    using assms(2)
    by (auto simp: charge_fee_def Let_def when_do_eq debit_None credit_None split: if_splits option.splits prod.splits)
  then show ?thesis
    using funds_credited[OF l(2)] funds_debited[OF l(1)]
    by (auto simp: accounted_def unbonding_total_def st funds_def)
qed

text \<open>A transfer keeps the funds, a stake takes its amount out of them.\<close>

definition staked_amount :: "transaction \<Rightarrow> int" where
  "staked_amount tx = (if tx_type tx \<in> {STAKE, DELEGATE} \<and> amount_of tx > 0 then amount_of tx else 0)"

lemma move_amount_accounted:
  assumes "money_ok s" "move_amount tx s = (None, t)"
  shows "accounted t = accounted s - staked_amount tx"
proof -
  let ?n = "amount_of tx" and ?a = "tx_sender tx"
  have l: "ledger_ok s" "ledger_ok (debited ?a ?n s)" using assms(1) by (auto simp: money_ok_def ledger_simps)
  have st: "total_stake (credited x n u) = total_stake u" "total_stake (debited x n u) = total_stake u"
    "unbonding (credited x n u) = unbonding u" "unbonding (debited x n u) = unbonding u" for x n and u :: "'a chain_scheme"
    by (simp_all add: credited_def debited_def Let_def)
  have "t = s \<and> staked_amount tx = 0 \<or> t = credited (tx_recipient tx) ?n (debited ?a ?n s) \<and> staked_amount tx = 0
      \<or> t = debited ?a ?n s \<and> staked_amount tx = ?n"
    using assms(2)
    by (auto simp: move_amount_def staked_amount_def when_do_eq debit_None credit_None
        split: if_splits option.splits prod.splits)
  then show ?thesis
    using funds_credited[OF l(2)] funds_debited[OF l(1)]
    by (auto simp: accounted_def unbonding_total_def st)
qed

section \<open>Effects by type\<close>

lemma core_views_money:
  "core_view t = core_view s \<Longrightarrow> money_ok t = money_ok s \<and> accounted t = accounted s
     \<and> total_minted t = total_minted s \<and> financial_active t = financial_active s \<and> total_stake t = total_stake s"
  using money_ok_cong[of t s] accounted_cong[of t s]
  by (auto simp: core_view_def fin_view_def stake_view_def)

lemma fin_view_revoke [frame_simps]: "fin_view (apply_revoke_key E tx s) = fin_view s"
  "stake_view (apply_revoke_key E tx s) = stake_view s" "token_view (apply_revoke_key E tx s) = token_view s"
  "index_view (apply_revoke_key E tx s) = index_view s"
  using core_viewD[OF core_purge, of E "tx_sender tx" "apply_revocation E tx s"]
  by (simp_all add: apply_revoke_key_def Let_def frame_simps)

lemma finalized_effect:
  "type_effect E idx tx s = (None, t) \<Longrightarrow> finalized_height t = finalized_height s"
proof -
  assume e: "type_effect E idx tx s = (None, t)"
  have idx_tok: "finalized_height (update_token_index i a n u) = finalized_height u" for i a n and u :: "'a chain_scheme"
    by (simp add: update_token_index_def)
  have "finalized_height (snd (type_effect E idx tx s)) = finalized_height s"
    by (cases "tx_type tx")
      (simp_all add: type_effect_def apply_notarize_def apply_register_key_def apply_revoke_key_def
        purge_sender_def apply_revocation_def remove_validator_def apply_stake_def apply_unstake_def
        Let_def apply_register_validator_def set_commission_def add_validator_def process_evidence_tx_def
        slash_def apply_issue_token_def apply_mint_token_def minted_token_def apply_transfer_token_def
        token_debit_def token_credit_def idx_tok split: option.splits)
  then show ?thesis using e by simp
qed

lemma fin_view_effect: "fin_view (snd (type_effect E idx tx s)) = fin_view s"
  by (cases "tx_type tx") (simp_all add: type_effect_def frame_simps)

lemma index_view_effect: "index_view (snd (type_effect E idx tx s)) = index_view s"
  by (cases "tx_type tx") (simp_all add: type_effect_def frame_simps)

lemma stake_ok_register_validator:
  "stake_ok s \<Longrightarrow> stake_ok (snd (apply_register_validator tx s))"
proof -
  assume s: "stake_ok s"
  have "stakes (snd (apply_register_validator tx s)) = stakes s \<and> total_stake (snd (apply_register_validator tx s)) = total_stake s
     \<and> unbonding (snd (apply_register_validator tx s)) = unbonding s \<and> epoch_rewards (snd (apply_register_validator tx s)) = epoch_rewards s"
    by (simp add: apply_register_validator_def Let_def set_commission_def add_validator_def split: option.splits)
  then show ?thesis using s commissions_ok_register_validator[of s tx] by (simp add: stake_ok_def)
qed

lemma stake_ok_effect:
  assumes "stake_ok s"
  shows "stake_ok (snd (type_effect E idx tx s))"
proof (cases "tx_type tx \<in> {STAKE, DELEGATE, UNSTAKE, EVIDENCE, REGISTER_VALIDATOR}")
  case True
  then show ?thesis
    using assms stake_ok_register_validator[OF assms] stake_ok_apply_stake[OF assms]
      stake_ok_apply_unstake[OF assms] stake_ok_evidence[OF assms]
    by (auto simp: type_effect_def)
next
  case False
  then have "stake_view (snd (type_effect E idx tx s)) = stake_view s"
    by (cases "tx_type tx") (simp_all add: type_effect_def frame_simps)
  then show ?thesis using stake_ok_cong assms by metis
qed

lemma money_ok_effect: "money_ok s \<Longrightarrow> money_ok (snd (type_effect E idx tx s))"
  using ledger_view_cong[OF fin_view_effect[of E idx tx s]] stake_ok_effect[of s E idx tx]
  by (auto simp: money_ok_def)

section \<open>One transaction\<close>

lemma apply_tx_parts:
  assumes "apply_tx E idx b j tx s = (None, t)"
  obtains u v where "u = index_tx E idx j tx s"
    "if idx > 0 \<and> financial_active s then run_all [charge_fee E idx b tx, move_amount tx] u = (None, v) else v = u"
    "type_effect E idx tx v = (None, t)"
  using assms run_all_Cons_None[of "charge_fee E idx b tx" "[move_amount tx]"]
  by (auto simp: apply_tx_def when_do_eq run_all_Cons_None simp del: run_all.simps(2)
      split: if_splits prod.splits option.splits)

lemma index_tx_frame:
  "fin_view (index_tx E idx j tx s) = fin_view s" "stake_view (index_tx E idx j tx s) = stake_view s"
  "finalized_height (index_tx E idx j tx s) = finalized_height s"
  for s :: "'a chain_scheme"
  by (simp_all add: frame_simps) (simp add: index_tx_def Let_def)

lemma index_tx_money: "money_ok (index_tx E idx j tx s) = money_ok s"
  "accounted (index_tx E idx j tx s) = accounted s" "total_minted (index_tx E idx j tx s) = total_minted s"
  "financial_active (index_tx E idx j tx s) = financial_active s"
  "total_stake (index_tx E idx j tx s) = total_stake s"
  for s :: "'a chain_scheme"
proof -
  note v = index_tx_frame(1,2)[of E idx j tx s]
  show "money_ok (index_tx E idx j tx s) = money_ok s" by (rule money_ok_cong[OF v])
  show "accounted (index_tx E idx j tx s) = accounted s" by (rule accounted_cong[OF v])
qed (simp_all add: index_tx_def Let_def)

lemma pay_paid:
  assumes "run_all [charge_fee E idx b tx, move_amount tx] u = (None, v)"
  shows "paid u v"
  by (rule paid_run[OF _ assms]) (auto intro: charge_fee_paid move_amount_paid)

lemma pay_accounted:
  assumes "money_ok u" "run_all [charge_fee E idx b tx, move_amount tx] u = (None, v)"
  shows "accounted v = accounted u - staked_amount tx"
proof -
  obtain w where w: "charge_fee E idx b tx u = (None, w)" "move_amount tx w = (None, v)"
    using assms(2) run_all_Cons_None[of "charge_fee E idx b tx" "[move_amount tx]" u v]
      run_all_Cons_None[of "move_amount tx" "[]"] by auto
  have "money_ok w" using charge_fee_paid[OF w(1)] assms(1) by (simp add: paid_def)
  then show ?thesis
    using charge_fee_accounted[OF assms(1) w(1)] move_amount_accounted[OF _ w(2)] by simp
qed

lemma apply_tx_money:
  assumes "money_ok s" "apply_tx E idx b j tx s = (None, t)"
  shows "money_ok t" "total_minted t = total_minted s" "financial_active t = financial_active s"
    "finalized_height t = finalized_height s"
proof -
  from assms(2) obtain u v where u: "u = index_tx E idx j tx s"
    and v: "if idx > 0 \<and> financial_active s then run_all [charge_fee E idx b tx, move_amount tx] u = (None, v) else v = u"
    and t: "type_effect E idx tx v = (None, t)"
    by (rule apply_tx_parts)
  have p: "paid u v" using v pay_paid by (auto split: if_splits)
  have "money_ok v" using p assms(1) by (simp add: paid_def u index_tx_money)
  then show "money_ok t" using money_ok_effect[of v E idx tx] t by simp
  have "fin_view t = fin_view v" using fin_view_effect[of E idx tx v] t by simp
  then show "total_minted t = total_minted s" "financial_active t = financial_active s"
    using p by (simp_all add: paid_def u fin_view_def index_tx_money)
  show "finalized_height t = finalized_height s"
    using finalized_effect[OF t] p by (simp add: paid_def u index_tx_frame)
qed

text \<open>What unstaking asks for, per validator.\<close>

definition unstaked :: "string \<Rightarrow> transaction list \<Rightarrow> int" where
  "unstaked v txs =
     sum_list (map amount_of (filter (\<lambda>tx. tx_type tx = UNSTAKE \<and> str_field tx ''validator_address'' = v) txs))"

definition covered :: "transaction list \<Rightarrow> 'a staking_scheme \<Rightarrow> bool" where
  "covered txs s \<longleftrightarrow> (\<forall>v. unstaked v txs \<le> get_validator_stake s v)"

lemma valid_stake_address:
  assumes "is_ok (validate_payload E tx)" "tx_type tx \<in> {STAKE, DELEGATE, UNSTAKE}"
  shows "str_field tx ''validator_address'' \<noteq> []"
proof -
  have "list_all is_ok (check_stake tx)"
    using assms by (auto simp: validate_payload_def checks_ok type_checks_def)
  then show ?thesis
    by (auto simp: check_stake_def str_field_def Let_def elim: is_str.elims)
qed

lemma unstaked_nonneg: "list_all (\<lambda>tx. is_ok (validate_payload E tx)) txs \<Longrightarrow> 0 \<le> unstaked v txs"
  unfolding unstaked_def by (rule sum_list_nonneg) (auto simp: list_all_iff intro: valid_amount(1))

lemma effect_accounted:
  assumes "stake_ok s" "is_ok (validate_payload E tx)" "tx_type tx \<noteq> EVIDENCE"
    and "tx_type tx = UNSTAKE \<Longrightarrow> amount_of tx \<le> get_validator_stake s (str_field tx ''validator_address'')"
  shows "accounted (snd (type_effect E idx tx s)) = accounted s + staked_amount tx"
proof -
  let ?t = "snd (type_effect E idx tx s)"
  have f: "funds ?t = funds s" "total_burned ?t = total_burned s"
    using fin_view_effect[of E idx tx s] by (simp_all add: fin_view_def funds_def)
  have w: "dwf (total_stake s)" "dnonneg (total_stake s)" using assms(1) by (auto simp: stake_ok_def)
  consider "tx_type tx \<in> {STAKE, DELEGATE}" | "tx_type tx = UNSTAKE" | "tx_type tx \<notin> {STAKE, DELEGATE, UNSTAKE, EVIDENCE}"
    using assms(3) by blast
  then show ?thesis
  proof cases
    case 1
    then have "dsum (total_stake ?t) = dsum (total_stake s) + staked_amount tx" "unbonding ?t = unbonding s"
      using total_stake_apply_stake[OF w(1), of tx] valid_stake_address[OF assms(2)]
      by (auto simp: type_effect_def staked_amount_def apply_stake_def Let_def)
    then show ?thesis using f by (simp add: accounted_def unbonding_total_def)
  next
    case 2
    then have "dsum (total_stake ?t) + unbonding_total ?t = dsum (total_stake s) + unbonding_total s"
      using unstake_moves[OF w, of idx tx] assms(4) by (simp add: type_effect_def get_validator_stake_def)
    then show ?thesis using f 2 by (simp add: accounted_def staked_amount_def)
  next
    case 3
    have "total_stake ?t = total_stake s \<and> unbonding ?t = unbonding s"
    proof (cases "tx_type tx = REGISTER_VALIDATOR")
      case True
      then show ?thesis
        by (simp add: type_effect_def apply_register_validator_def Let_def set_commission_def
            add_validator_def split: option.splits)
    next
      case False
      then have "stake_view ?t = stake_view s"
        using 3 by (cases "tx_type tx") (simp_all add: type_effect_def frame_simps)
      then show ?thesis by (simp add: stake_view_def)
    qed
    then show ?thesis using f 3 by (auto simp: accounted_def unbonding_total_def staked_amount_def)
  qed
qed

lemma effect_covered:
  assumes "stake_ok s" "is_ok (validate_payload E tx)" "tx_type tx \<noteq> EVIDENCE" "covered (tx # txs) s"
    "list_all (\<lambda>tx. is_ok (validate_payload E tx)) txs"
  shows "covered txs (snd (type_effect E idx tx s))"
proof -
  let ?t = "snd (type_effect E idx tx s)" and ?v = "str_field tx ''validator_address''"
  have c: "unstaked v (tx # txs) \<le> get_validator_stake s v" for v using assms(4) by (simp add: covered_def)
  have nn: "0 \<le> amount_of tx" using valid_amount(1)[OF assms(2)] .
  have u: "unstaked v (tx # txs) = unstaked v txs + (if tx_type tx = UNSTAKE \<and> ?v = v then amount_of tx else 0)" for v
    by (simp add: unstaked_def)
  consider "tx_type tx \<in> {STAKE, DELEGATE}" | "tx_type tx = UNSTAKE" | "tx_type tx \<notin> {STAKE, DELEGATE, UNSTAKE, EVIDENCE}"
    using assms(3) by blast
  then show ?thesis
  proof cases
    case 1
    then have "get_validator_stake s v \<le> get_validator_stake ?t v" for v
      using nn by (auto simp: type_effect_def apply_stake_def Let_def get_validator_stake_def dict_simps)
    moreover have "unstaked v txs \<le> get_validator_stake s v" for v using c[of v] u[of v] 1 by auto
    ultimately show ?thesis unfolding covered_def using order_trans by blast
  next
    case 2
    have "get_validator_stake ?t v = (if ?v = v \<and> amount_of tx > 0 then max 0 (get_validator_stake s v - amount_of tx)
        else get_validator_stake s v)" for v
      using 2 valid_stake_address[OF assms(2)]
      by (auto simp: type_effect_def apply_unstake_def Let_def get_validator_stake_def dict_simps)
    moreover have "unstaked v txs \<le> get_validator_stake s v - (if ?v = v then amount_of tx else 0)" for v
      using c[of v] u[of v] 2 by auto
    ultimately show ?thesis unfolding covered_def using nn by (auto intro: order_trans) (smt (verit))+
  next
    case 3
    have "total_stake ?t = total_stake s"
    proof (cases "tx_type tx = REGISTER_VALIDATOR")
      case True
      then show ?thesis
        by (simp add: type_effect_def apply_register_validator_def Let_def set_commission_def
            add_validator_def split: option.splits)
    next
      case False
      then have "stake_view ?t = stake_view s"
        using 3 by (cases "tx_type tx") (simp_all add: type_effect_def frame_simps)
      then show ?thesis by (simp add: stake_view_def)
    qed
    moreover have "unstaked v txs \<le> get_validator_stake s v" for v using c[of v] u[of v] 3 by auto
    ultimately show ?thesis by (simp add: covered_def get_validator_stake_def)
  qed
qed

end
