(* ===== verification/ChainProps.thy ===== *)
theory ChainProps
  imports ChainMoney
begin

text \<open>
  Whole blocks: the parts an append that returns went through, and from them the invariants of
  money, supply, tokens, nonces, indices, finality and the state root.
\<close>

section \<open>The course of an append that returns\<close>

definition rewarded :: "int \<Rightarrow> block \<Rightarrow> 'a chain_scheme \<Rightarrow> 'a chain_scheme" where
  "rewarded idx b s =
     (let reward = calc_block_reward s idx; v = b_validator b
      in if idx > 0 \<and> financial_active s \<and> reward > 0
         then (credited v reward s)\<lparr>total_minted := total_minted s + reward,
                epoch_rewards := dset (epoch_rewards s) v (dget_or (epoch_rewards s) v 0 + reward)\<rparr>
         else s)"

lemma reward_step_None: "reward_step idx b p = (None, q) \<Longrightarrow> snd q = rewarded idx b (snd p)"
  by (cases p) (auto simp: reward_step_def rewarded_def Let_def credit_def credited_def split: if_splits)

lemma on_chain_None: "on_chain a p = (None, q) \<longleftrightarrow> (\<exists>c. a (snd p) = (None, c) \<and> q = (fst p, c))"
  by (auto simp: on_chain_def lift_None)

lemma tx_step_None:
  "tx_step E idx b (j, tx) p = (None, q) \<longleftrightarrow>
     (\<exists>t. apply_tx E idx b (int j) tx (snd p) = (None, t) \<and> q = (note_receipt E idx b (int j) tx t (fst p), t))"
  by (auto simp: tx_step_def run_all_Cons_None on_chain_None on_locals_def simp del: run_all.simps(2))

lemma epoch_step_None:
  "epoch_step idx p = (None, q) \<Longrightarrow> check_epoch_transition idx (snd p) = (None, snd q)"
  by (cases p) (auto simp: epoch_step_def Let_def split: prod.splits option.splits)

text \<open>The transactions, on the chain alone.\<close>

fun apply_txs :: "env \<Rightarrow> int \<Rightarrow> block \<Rightarrow> nat \<Rightarrow> transaction list \<Rightarrow> ('a chain_scheme) act" where
  "apply_txs E idx b j [] s = (None, s)"
| "apply_txs E idx b j (tx # txs) s =
     (case apply_tx E idx b (int j) tx s of
        (None, t) \<Rightarrow> apply_txs E idx b (Suc j) txs t
      | (Some e, t) \<Rightarrow> (Some e, t))"

lemma run_tx_steps:
  "run_all (map (tx_step E idx b) (enumerate j txs)) p = (None, q) \<Longrightarrow>
   apply_txs E idx b j txs (snd p) = (None, snd q)"
proof (induction txs arbitrary: j p)
  case (Cons tx txs)
  obtain u where u: "tx_step E idx b (j, tx) p = (None, u)"
    "run_all (map (tx_step E idx b) (enumerate (Suc j) txs)) u = (None, q)"
    using Cons.prems by (auto simp only: enumerate_simps list.map run_all_Cons_None)
  then show ?case using Cons.IH[OF u(2)] by (auto simp: tx_step_None)
qed simp

lemma append_course:
  fixes s t :: "'a chain_scheme"
  assumes "append_block_inner E b s = (None, t)" "idx = height s + 1"
  obtains s2 s3 s4 s5 s6 s7 s8 :: "'a chain_scheme" where
    "process_mature_unbondings idx (push_block E b s) = (None, s2)"
    "check_epoch_transition idx s2 = (None, s3)"
    "apply_txs E idx b 0 (b_txs b) s3 = (None, s4)"
    "core_view s5 = core_view s4" "finalized_height s5 = finalized_height s4"
    "core_view s6 = core_view (rewarded idx b s5)" "finalized_height s6 = finalized_height s5"
    "rebuild_state_trie s6 = (None, s7)" "state_root_step E idx b s7 = (None, s8)"
    "t = update_finality idx (prune_distributions idx (prune_events idx (save_snapshot idx s8)))"
proof -
  obtain lt where run: "run_all (append_steps E idx b) (no_locals, s) = (None, (lt, t))"
    using assms by (auto simp: append_block_inner_def split: prod.splits)
  let ?A = "[on_chain (pure (push_block E b)), on_chain (process_mature_unbondings idx), epoch_step idx]"
  let ?B = "map (tx_step E idx b) (enumerate 0 (b_txs b))"
  let ?C = "[receipts_step idx, reward_step idx b, pure (store_block_events idx), receipts_root_step E idx b,
        on_chain rebuild_state_trie, on_chain (state_root_step E idx b), on_chain (pure (save_snapshot idx)),
        on_chain (pure (prune_events idx)), on_chain (pure (prune_distributions idx)),
        on_chain (pure (update_finality idx))]"
  obtain p3 p4 where p3: "run_all ?A (no_locals, s) = (None, p3)" and p4: "run_all ?B p3 = (None, p4)"
    and C: "run_all ?C p4 = (None, (lt, t))"
    using run unfolding append_steps_def run_all_append_None by blast
  obtain s2 where s2: "process_mature_unbondings idx (push_block E b s) = (None, s2)"
    and e: "epoch_step idx (no_locals, s2) = (None, p3)"
    using p3 by (auto simp: run_all_Cons_None on_chain_None simp del: run_all.simps(2))
  obtain p5 p6 p7 s7 s8 where
    c: "receipts_step idx p4 = (None, p5)" "reward_step idx b p5 = (None, p6)"
      "receipts_root_step E idx b (store_block_events idx p6) = (None, p7)"
      "rebuild_state_trie (snd p7) = (None, s7)" "state_root_step E idx b s7 = (None, s8)"
      "t = update_finality idx (prune_distributions idx (prune_events idx (save_snapshot idx s8)))"
    using C by (auto simp: run_all_Cons_None on_chain_None simp del: run_all.simps(2))
  have fr: "finalized_height (snd (snd (receipts_step idx p4))) = finalized_height (snd p4)"
    unfolding receipts_step_def
    by (rule run_all_inv_any[where I = "\<lambda>q. finalized_height (snd q) = finalized_height (snd p4)"])
      (auto simp: receipt_step_def Let_def split: prod.splits sum.splits)
  have "core_view (snd p5) = core_view (snd p4)" using core_receipts_step[of idx p4] c(1) by simp
  moreover have "finalized_height (snd p5) = finalized_height (snd p4)" using fr c(1) by simp
  moreover have "core_view (snd p7) = core_view (rewarded idx b (snd p5))"
    using core_receipts_root_step[of E idx b "store_block_events idx p6"] core_store_events[of idx p6]
      reward_step_None[OF c(2)] c(3) by simp
  moreover have "finalized_height (snd p7) = finalized_height (snd p5)"
    using reward_step_None[OF c(2)] c(3)
    by (auto simp: receipts_root_step_def Let_def store_block_events_def rewarded_def split: if_splits)
  ultimately show ?thesis
    by (rule that[OF s2 epoch_step_None[OF e, unfolded snd_conv] run_tx_steps[OF p4] _ _ _ _ c(4,5,6)])
qed

section \<open>Money\<close>

lemma txs_money:
  assumes "money_ok s" "apply_txs E idx b j txs s = (None, t)"
  shows "money_ok t \<and> total_minted t = total_minted s \<and> financial_active t = financial_active s
    \<and> finalized_height t = finalized_height s"
  using assms
proof (induction txs arbitrary: j s)
  case (Cons tx txs)
  obtain u where u: "apply_tx E idx b (int j) tx s = (None, u)" "apply_txs E idx b (Suc j) txs u = (None, t)"
    using Cons.prems(2) by (auto split: prod.splits option.splits)
  note m = apply_tx_money[OF Cons.prems(1) u(1)]
  show ?case using Cons.IH[OF m(1) u(2)] m(2-4) by simp
qed simp

lemma txs_accounted:
  assumes "money_ok s" "financial_active s" "idx > 0" "list_all (\<lambda>tx. is_ok (validate_payload E tx)) txs"
    "list_all (\<lambda>tx. tx_type tx \<noteq> EVIDENCE) txs" "covered txs s" "apply_txs E idx b j txs s = (None, t)"
  shows "accounted t = accounted s"
  using assms
proof (induction txs arbitrary: j s)
  case (Cons tx txs)
  obtain w where w: "apply_tx E idx b (int j) tx s = (None, w)" "apply_txs E idx b (Suc j) txs w = (None, t)"
    using Cons.prems(7) by (auto split: prod.splits option.splits)
  obtain u v where u: "u = index_tx E idx (int j) tx s"
    and v: "if idx > 0 \<and> financial_active s then run_all [charge_fee E idx b tx, move_amount tx] u = (None, v) else v = u"
    and e: "type_effect E idx tx v = (None, w)"
    using w(1) by (rule apply_tx_parts)
  have run: "run_all [charge_fee E idx b tx, move_amount tx] u = (None, v)" using v Cons.prems(2,3) by simp
  have mu: "money_ok u" "accounted u = accounted s" "total_stake u = total_stake s"
    using Cons.prems(1) by (simp_all add: u index_tx_money)
  have p: "paid u v" by (rule pay_paid[OF run])
  then have mv: "money_ok v" "total_stake v = total_stake s"
    using mu by (auto simp: paid_def stake_view_def)
  then have sv: "stake_ok v" by (simp add: money_ok_def)
  have cv: "covered (tx # txs) v" using Cons.prems(6) mv(2) by (simp add: covered_def get_validator_stake_def)
  have vp: "is_ok (validate_payload E tx)" "tx_type tx \<noteq> EVIDENCE" using Cons.prems(4,5) by auto
  have am: "amount_of tx \<le> get_validator_stake v (str_field tx ''validator_address'')" if "tx_type tx = UNSTAKE"
  proof -
    have "0 \<le> unstaked (str_field tx ''validator_address'') txs" using Cons.prems(4) by (intro unstaked_nonneg[of E]) simp
    moreover have "unstaked (str_field tx ''validator_address'') (tx # txs) \<le> get_validator_stake v (str_field tx ''validator_address'')"
      using cv by (simp add: covered_def)
    ultimately show ?thesis using that by (simp add: unstaked_def)
  qed
  have "accounted w = accounted v + staked_amount tx"
    using effect_accounted[OF sv vp am, of idx] e by simp
  also have "\<dots> = accounted s" using pay_accounted[OF mu(1) run] mu(2) by simp
  finally have aw: "accounted w = accounted s" .
  have cw: "covered txs w" using effect_covered[OF sv vp cv, of idx] Cons.prems(4) e by simp
  note m = apply_tx_money[OF Cons.prems(1) w(1)]
  have "accounted t = accounted w"
    by (rule Cons.IH[OF m(1) _ Cons.prems(3) _ _ cw w(2)]) (use m(3) Cons.prems in auto)
  then show ?case using aw by simp
qed simp

lemma push_money:
  "money_ok (push_block E b s) = money_ok s" "accounted (push_block E b s) = accounted s"
  "total_minted (push_block E b s) = total_minted s" "financial_active (push_block E b s) = financial_active s"
  "total_stake (push_block E b s) = total_stake s" "finalized_height (push_block E b s) = finalized_height s"
  for s :: "'a chain_scheme"
proof -
  have v: "fin_view (push_block E b s) = fin_view s" "stake_view (push_block E b s) = stake_view s"
    by (simp_all add: frame_simps)
  show "money_ok (push_block E b s) = money_ok s" by (rule money_ok_cong[OF v])
  show "accounted (push_block E b s) = accounted s" by (rule accounted_cong[OF v])
qed (simp_all add: push_block_def)

lemma mature_money:
  assumes "money_ok s" "process_mature_unbondings idx s = (None, t)"
  shows "money_ok t" "total_minted t = total_minted s" "financial_active t = financial_active s"
    "total_stake t = total_stake s" "financial_active s \<Longrightarrow> accounted t = accounted s"
proof -
  have "money_ok t \<and> total_minted t = total_minted s \<and> financial_active t = financial_active s
      \<and> total_stake t = total_stake s \<and> (financial_active s \<longrightarrow> accounted t = accounted s)"
  proof (cases "financial_active s")
    case True
    then show ?thesis using mature_unbondings[OF assms(1) True, of idx] assms(2) by auto
  next
    case False
    then have "t = s\<lparr>unbonding := filter (\<lambda>e. \<not> ub_release e \<le> idx) (unbonding s)\<rparr>"
      using assms(2) by (simp add: process_mature_unbondings_def when_do_def)
    then show ?thesis
      using assms(1) False
      by (auto simp: money_ok_def ledger_ok_def solvent_def stake_ok_def commissions_ok_def list_all_iff)
  qed
  then show "money_ok t" "total_minted t = total_minted s" "financial_active t = financial_active s"
    "total_stake t = total_stake s" "financial_active s \<Longrightarrow> accounted t = accounted s" by auto
qed

lemma epoch_money:
  assumes "money_ok s" "check_epoch_transition idx s = (None, t)"
  shows "money_ok t" "accounted t = accounted s" "total_minted t = total_minted s"
    "financial_active t = financial_active s" "total_stake t = total_stake s"
  using epoch_transition_ok[OF assms(1), of idx] assms(2) by auto

lemma calc_block_reward_cong:
  "total_minted s = total_minted t \<Longrightarrow> calc_block_reward s i = calc_block_reward t i"
  by (simp add: calc_block_reward_def)

lemma rewarded_money:
  assumes "money_ok s"
  shows "money_ok (rewarded idx b s)"
    "accounted (rewarded idx b s) - total_minted (rewarded idx b s) = accounted s - total_minted s"
    "total_minted (rewarded idx b s) = total_minted s +
       (if idx > 0 \<and> financial_active s then calc_block_reward s idx else 0)"
    "finalized_height (rewarded idx b s) = finalized_height s"
proof -
  let ?r = "calc_block_reward s idx" and ?v = "b_validator b"
  let ?u = "(credited ?v ?r s)\<lparr>total_minted := total_minted s + ?r,
      epoch_rewards := dset (epoch_rewards s) ?v (dget_or (epoch_rewards s) ?v 0 + ?r)\<rparr>"
  have r0: "0 \<le> ?r" by (rule block_reward_nonneg)
  have cases: "rewarded idx b s = s \<and> \<not> (idx > 0 \<and> financial_active s \<and> ?r > 0) \<or> rewarded idx b s = ?u \<and> idx > 0 \<and> financial_active s \<and> ?r > 0"
    by (auto simp: rewarded_def Let_def)
  have c: "money_ok (credited ?v ?r s)" by (rule money_ok_credit[OF assms r0])
  have "dnonneg (dset (epoch_rewards s) ?v (dget_or (epoch_rewards s) ?v 0 + ?r))"
    using assms r0 by (auto simp: money_ok_def stake_ok_def intro!: dnonneg_dset add_nonneg_nonneg dget_or_nonneg)
  then have mu: "money_ok ?u"
    using c by (auto simp: money_ok_def stake_ok_def ledger_ok_def solvent_def commissions_ok_def)
  have "ledger_ok s" using assms by (simp add: money_ok_def)
  then have au: "accounted ?u = accounted s + ?r"
    using funds_credited[of s ?v ?r]
    by (simp add: accounted_def unbonding_total_def funds_def credited_def)
  show "money_ok (rewarded idx b s)" using cases mu assms by auto
  show "accounted (rewarded idx b s) - total_minted (rewarded idx b s) = accounted s - total_minted s"
    using cases au by auto
  show "total_minted (rewarded idx b s) = total_minted s +
       (if idx > 0 \<and> financial_active s then ?r else 0)"
    using cases r0 by auto
  show "finalized_height (rewarded idx b s) = finalized_height s" using cases by auto
qed

lemma late_core:
  "core_view (update_finality idx (prune_distributions idx (prune_events idx (save_snapshot idx s)))) = core_view s"
  by (simp add: core_update_finality core_prune_distributions core_prune_events core_save_snapshot)

text \<open>The whole block.\<close>

lemma append_money:
  fixes s t :: "'a chain_scheme"
  assumes "money_ok s" "append_block_inner E b s = (None, t)"
  shows "money_ok t" "financial_active t = financial_active s"
    "total_minted t = total_minted s +
       (if height s + 1 > 0 \<and> financial_active s then calc_block_reward s (height s + 1) else 0)"
    "finalized_height s \<le> finalized_height t"
proof -
  obtain s2 s3 s4 s5 s6 s7 s8 :: "'a chain_scheme" where
    c: "process_mature_unbondings (height s + 1) (push_block E b s) = (None, s2)"
      "check_epoch_transition (height s + 1) s2 = (None, s3)"
      "apply_txs E (height s + 1) b 0 (b_txs b) s3 = (None, s4)"
      "core_view s5 = core_view s4" "finalized_height s5 = finalized_height s4"
      "core_view s6 = core_view (rewarded (height s + 1) b s5)" "finalized_height s6 = finalized_height s5"
      "rebuild_state_trie s6 = (None, s7)" "state_root_step E (height s + 1) b s7 = (None, s8)"
      "t = update_finality (height s + 1) (prune_distributions (height s + 1) (prune_events (height s + 1)
             (save_snapshot (height s + 1) s8)))"
    by (rule append_course[OF assms(2) refl])
  note m2 = mature_money[OF assms(1)[folded push_money(1)[of E b s]] c(1)]
  note m3 = epoch_money[OF m2(1) c(2)]
  note m4 = txs_money[OF m3(1) c(3)]
  have m5: "money_ok s5" "total_minted s5 = total_minted s" "financial_active s5 = financial_active s"
    using core_views_money[OF c(4)] m4 m3 m2 by (simp_all add: push_money)
  note m6 = rewarded_money[OF m5(1), of "height s + 1" b]
  have ct: "core_view t = core_view (rewarded (height s + 1) b s5)"
    using c(6,8,9,10) late_core core_rebuild core_state_root_step by (metis snd_conv)
  note mt = core_views_money[OF ct]
  show "money_ok t" using mt m6 by simp
  show "financial_active t = financial_active s"
    using mt m5(3) by (simp add: rewarded_def Let_def)
  show "total_minted t = total_minted s +
       (if height s + 1 > 0 \<and> financial_active s then calc_block_reward s (height s + 1) else 0)"
    using mt m6(3) m5 calc_block_reward_cong[OF m5(2)] by simp
  have "finalized_height s2 = finalized_height s" using finality_frame.F_mature[OF c(1)] push_money(6) by simp
  moreover have "finalized_height s3 = finalized_height s2" by (rule finality_frame.F_epoch[OF c(2)])
  moreover have "finalized_height s7 = finalized_height s6" using rebuild_entries[OF c(8)] by simp
  moreover have "finalized_height s8 = finalized_height s7"
    using c(9) by (auto simp: state_root_step_def state_root_def Let_def split: prod.splits if_splits)
  moreover have "finalized_height (prune_distributions i (prune_events i (save_snapshot i s8))) = finalized_height s8" for i
    by (simp add: prune_distributions_def prune_events_def save_snapshot_def Let_def)
  ultimately have "finalized_height (prune_distributions i (prune_events i (save_snapshot i s8))) = finalized_height s" for i
    using c(5,7) m4 by simp
  then show "finalized_height s \<le> finalized_height t"
    using finality_monotone[of "prune_distributions (height s + 1) (prune_events (height s + 1) (save_snapshot (height s + 1) s8))"]
      c(10) by metis
qed

lemma append_accounted:
  fixes s t :: "'a chain_scheme"
  assumes "money_ok s" "append_block_inner E b s = (None, t)" "financial_active s" "0 \<le> height s"
    "list_all (\<lambda>tx. is_ok (validate_payload E tx)) (b_txs b)"
    "list_all (\<lambda>tx. tx_type tx \<noteq> EVIDENCE) (b_txs b)" "covered (b_txs b) s"
  shows "accounted t - total_minted t = accounted s - total_minted s"
proof -
  obtain s2 s3 s4 s5 s6 s7 s8 :: "'a chain_scheme" where
    c: "process_mature_unbondings (height s + 1) (push_block E b s) = (None, s2)"
      "check_epoch_transition (height s + 1) s2 = (None, s3)"
      "apply_txs E (height s + 1) b 0 (b_txs b) s3 = (None, s4)"
      "core_view s5 = core_view s4" "finalized_height s5 = finalized_height s4"
      "core_view s6 = core_view (rewarded (height s + 1) b s5)" "finalized_height s6 = finalized_height s5"
      "rebuild_state_trie s6 = (None, s7)" "state_root_step E (height s + 1) b s7 = (None, s8)"
      "t = update_finality (height s + 1) (prune_distributions (height s + 1) (prune_events (height s + 1)
             (save_snapshot (height s + 1) s8)))"
    by (rule append_course[OF assms(2) refl])
  note m2 = mature_money[OF assms(1)[folded push_money(1)[of E b s]] c(1)]
  note m3 = epoch_money[OF m2(1) c(2)]
  note m4 = txs_money[OF m3(1) c(3)]
  have f3: "financial_active s3" "total_stake s3 = total_stake s" using m2 m3 assms(3) by (simp_all add: push_money)
  have cov: "covered (b_txs b) s3" using assms(7) f3(2) by (simp add: covered_def get_validator_stake_def)
  have "accounted s4 = accounted s3"
    using txs_accounted[OF m3(1) f3(1) _ assms(5,6) cov c(3)] assms(4) by simp
  then have a4: "accounted s4 - total_minted s4 = accounted s - total_minted s"
    using m2 m3 m4 assms(3) by (simp add: push_money)
  have m5: "money_ok s5" "accounted s5 = accounted s4" "total_minted s5 = total_minted s4"
    using core_views_money[OF c(4)] m4 by simp_all
  have ct: "core_view t = core_view (rewarded (height s + 1) b s5)"
    using c(6,8,9,10) late_core core_rebuild core_state_root_step by (metis snd_conv)
  show ?thesis using core_views_money[OF ct] rewarded_money(2)[OF m5(1)] a4 m5 by simp
qed

end
