(* ===== verification/ChainState.thy ===== *)
theory ChainState
  imports ChainProps
begin

text \<open>
  Whole blocks, continued: tokens, nonces, the transaction index, and the state root with the
  proofs served from the trie behind it.
\<close>

section \<open>Tokens\<close>

text \<open>All the token operations need of a transaction: a positive amount where there is one.\<close>

definition token_amount_ok :: "transaction \<Rightarrow> bool" where
  "token_amount_ok tx \<longleftrightarrow> (tx_type tx \<in> {MINT_TOKEN, TRANSFER_TOKEN} \<longrightarrow> 0 < amount_of tx)"

lemma valid_token_amount: "is_ok (validate_payload E tx) \<Longrightarrow> token_amount_ok tx"
  using valid_amount(2)[of E tx] by (auto simp: token_amount_ok_def)

lemma effect_tokens:
  assumes "tokens_ok s" "token_amount_ok tx"
  shows "tokens_ok (snd (type_effect E idx tx s))"
proof -
  have amt: "tx_type tx \<in> {MINT_TOKEN, TRANSFER_TOKEN} \<Longrightarrow> 0 < amount_of tx"
    using assms(2) by (simp add: token_amount_ok_def)
  consider "tx_type tx = ISSUE_TOKEN" | "tx_type tx = MINT_TOKEN" | "tx_type tx = TRANSFER_TOKEN"
    | "tx_type tx \<notin> {ISSUE_TOKEN, MINT_TOKEN, TRANSFER_TOKEN}" by blast
  then show ?thesis
  proof cases
    case 1
    then show ?thesis using issue_token_ok[OF assms(1) prod.collapse[symmetric], of E idx tx] by (simp add: type_effect_def)
  next
    case 2
    then show ?thesis using mint_token_ok[OF assms(1) amt prod.collapse[symmetric], of idx] by (simp add: type_effect_def)
  next
    case 3
    then show ?thesis using transfer_token_ok[OF assms(1) amt prod.collapse[symmetric], of idx] by (simp add: type_effect_def)
  next
    case 4
    then have "token_view (snd (type_effect E idx tx s)) = token_view s"
      by (cases "tx_type tx") (simp_all add: type_effect_def frame_simps)
    then show ?thesis using assms(1) tokens_ok_cong by metis
  qed
qed

lemma apply_tx_tokens:
  assumes "tokens_ok s" "token_amount_ok tx" "apply_tx E idx b j tx s = (None, t)"
  shows "tokens_ok t"
proof -
  from assms(3) obtain u v where u: "u = index_tx E idx j tx s"
    and v: "if idx > 0 \<and> financial_active s then run_all [charge_fee E idx b tx, move_amount tx] u = (None, v) else v = u"
    and t: "type_effect E idx tx v = (None, t)"
    by (rule apply_tx_parts)
  have "paid u v" using v pay_paid by (auto split: if_splits)
  then have "token_view v = token_view s" by (simp add: paid_def u frame_simps)
  then have "tokens_ok v" using assms(1) tokens_ok_cong by metis
  then show ?thesis using effect_tokens[of v tx E idx] assms(2) t by simp
qed

lemma txs_tokens:
  "tokens_ok s \<Longrightarrow> list_all token_amount_ok txs \<Longrightarrow>
   apply_txs E idx b j txs s = (None, t) \<Longrightarrow> tokens_ok t"
proof (induction txs arbitrary: j s)
  case (Cons tx txs)
  obtain u where u: "apply_tx E idx b (int j) tx s = (None, u)" "apply_txs E idx b (Suc j) txs u = (None, t)"
    using Cons.prems(3) by (auto split: prod.splits option.splits)
  have "tokens_ok u" using apply_tx_tokens[OF Cons.prems(1) _ u(1)] Cons.prems(2) by simp
  then show ?case using Cons.IH[OF _ _ u(2)] Cons.prems(2) by simp
qed simp

lemma rewarded_views: "token_view (rewarded idx b s) = token_view s" "index_view (rewarded idx b s) = index_view s"
proof -
  have f: "token_view ((credited v r s)\<lparr>total_minted := m, epoch_rewards := e\<rparr>) = token_view s"
    "index_view ((credited v r s)\<lparr>total_minted := m, epoch_rewards := e\<rparr>) = index_view s" for v r m e
    by (simp_all add: token_view_def index_view_def credited_def)
  then show "token_view (rewarded idx b s) = token_view s" "index_view (rewarded idx b s) = index_view s"
    by (simp_all add: rewarded_def Let_def)
qed

lemma append_tokens:
  fixes s t :: "'a chain_scheme"
  assumes "tokens_ok s" "append_block_inner E b s = (None, t)"
    "list_all token_amount_ok (b_txs b)"
  shows "tokens_ok t"
proof -
  obtain s2 s3 s4 s5 s6 s7 s8 :: "'a chain_scheme" where
    c: "process_mature_unbondings (height s + 1) (push_block E b s) = (None, s2)"
      "check_epoch_transition (height s + 1) s2 = (None, s3)"
      "apply_txs E (height s + 1) b 0 (b_txs b) s3 = (None, s4)"
      "core_view s5 = core_view s4" "finalized_height s5 = finalized_height s4"
      "core_view s6 = core_view (rewarded (height s + 1) b s5)" "finalized_height s6 = finalized_height s5"
      "rebuild_state_trie s6 = (None, s7)" "state_root_step E (height s + 1) b s7 = (None, s8)"
      "t = update_finality (height s + 1) (prune_distributions (height s + 1) (prune_events (height s + 1)
             (save_snapshot (height s + 1) s8)))"
    by (rule append_course[OF assms(2) refl])
  have "token_view s3 = token_view s"
    using token_frame.F_mature[OF c(1)] token_frame.F_epoch[OF c(2)] by (simp add: frame_simps)
  then have "tokens_ok s3" using assms(1) tokens_ok_cong by metis
  then have "tokens_ok s4" using txs_tokens assms(3) c(3) by blast
  moreover have "token_view t = token_view s4"
  proof -
    have "core_view t = core_view (rewarded (height s + 1) b s5)"
      using c(6,8,9,10) late_core core_rebuild core_state_root_step by (metis snd_conv)
    then show ?thesis using core_viewD(3) c(4) rewarded_views(1) by metis
  qed
  ultimately show ?thesis using tokens_ok_cong by metis
qed

section \<open>Indices and nonces\<close>

lemma index_tx_cong:
  "index_view s = index_view u \<Longrightarrow> index_view (index_tx E idx j tx s) = index_view (index_tx E idx j tx u)"
  by (simp add: index_view_def index_tx_def Let_def)

lemma apply_tx_index:
  assumes "apply_tx E idx b j tx s = (None, t)"
  shows "index_view t = index_view (index_tx E idx j tx s)"
proof -
  from assms obtain u v where u: "u = index_tx E idx j tx s"
    and v: "if idx > 0 \<and> financial_active s then run_all [charge_fee E idx b tx, move_amount tx] u = (None, v) else v = u"
    and t: "type_effect E idx tx v = (None, t)"
    by (rule apply_tx_parts)
  have "paid u v" using v pay_paid by (auto split: if_splits)
  then have "index_view v = index_view u" by (simp add: paid_def)
  then show ?thesis using index_view_effect[of E idx tx v] t u by simp
qed

lemma txs_index:
  assumes "apply_txs E idx b j txs s = (None, t)" "index_view s = index_view u"
  shows "index_view t = index_view (fold (\<lambda>(i, tx). index_tx E idx (int i) tx) (enumerate j txs) u)"
  using assms
proof (induction txs arbitrary: j s u)
  case (Cons tx txs)
  obtain w where w: "apply_tx E idx b (int j) tx s = (None, w)" "apply_txs E idx b (Suc j) txs w = (None, t)"
    using Cons.prems(1) by (auto split: prod.splits option.splits)
  have "index_view w = index_view (index_tx E idx (int j) tx u)"
    using apply_tx_index[OF w(1)] index_tx_cong[OF Cons.prems(2)] by simp
  then show ?case using Cons.IH[OF w(2)] by simp
qed simp

lemma append_index:
  fixes s t :: "'a chain_scheme"
  assumes "append_block_inner E b s = (None, t)"
  shows "index_view t = index_view (fold (\<lambda>(i, tx). index_tx E (height s + 1) (int i) tx) (enumerate 0 (b_txs b)) (push_block E b s))"
proof -
  obtain s2 s3 s4 s5 s6 s7 s8 :: "'a chain_scheme" where
    c: "process_mature_unbondings (height s + 1) (push_block E b s) = (None, s2)"
      "check_epoch_transition (height s + 1) s2 = (None, s3)"
      "apply_txs E (height s + 1) b 0 (b_txs b) s3 = (None, s4)"
      "core_view s5 = core_view s4" "finalized_height s5 = finalized_height s4"
      "core_view s6 = core_view (rewarded (height s + 1) b s5)" "finalized_height s6 = finalized_height s5"
      "rebuild_state_trie s6 = (None, s7)" "state_root_step E (height s + 1) b s7 = (None, s8)"
      "t = update_finality (height s + 1) (prune_distributions (height s + 1) (prune_events (height s + 1)
             (save_snapshot (height s + 1) s8)))"
    by (rule append_course[OF assms refl])
  have "index_view s3 = index_view (push_block E b s)"
    using index_frame.F_mature[OF c(1)] index_frame.F_epoch[OF c(2)] by simp
  from txs_index[OF c(3) this] have "index_view s4 = index_view
      (fold (\<lambda>(i, tx). index_tx E (height s + 1) (int i) tx) (enumerate 0 (b_txs b)) (push_block E b s))" .
  moreover have "index_view t = index_view s4"
  proof -
    have "core_view t = core_view (rewarded (height s + 1) b s5)"
      using c(6,8,9,10) late_core core_rebuild core_state_root_step by (metis snd_conv)
    then show ?thesis using core_viewD(4) c(4) rewarded_views(2) by metis
  qed
  ultimately show ?thesis by simp
qed

lemma index_tx_fields:
  "chain_list (index_tx E idx j tx s) = chain_list s" "height (index_tx E idx j tx s) = height s"
  "latest_block (index_tx E idx j tx s) = latest_block s" "stale_nonces (index_tx E idx j tx s) = stale_nonces s"
  "chain_tx_ids (index_tx E idx j tx s) = insert (tx_id E tx) (chain_tx_ids s)"
  "tx_by_id (index_tx E idx j tx s) = dset (tx_by_id s) (tx_id E tx) (idx, j)"
  "sender_nonce (index_tx E idx j tx s) =
     (if idx > 0 \<and> tx_nonce tx > dget_or (sender_nonce s) (tx_sender tx) (- 1)
      then dset (sender_nonce s) (tx_sender tx) (tx_nonce tx) else sender_nonce s)"
  by (auto simp: index_tx_def Let_def)

lemma index_tx_chain:
  "chain_list (fold (\<lambda>(i, tx). index_tx E idx (int i) tx) itxs s) = chain_list s"
  "height (fold (\<lambda>(i, tx). index_tx E idx (int i) tx) itxs s) = height s"
  "latest_block (fold (\<lambda>(i, tx). index_tx E idx (int i) tx) itxs s) = latest_block s"
  "stale_nonces (fold (\<lambda>(i, tx). index_tx E idx (int i) tx) itxs s) = stale_nonces s"
  "chain_tx_ids (fold (\<lambda>(i, tx). index_tx E idx (int i) tx) itxs s) = chain_tx_ids s \<union> tx_id E ` snd ` set itxs"
  by (induction itxs arbitrary: s) (auto simp: index_tx_fields)

lemma index_txs_by_id:
  assumes "distinct (map (tx_id E) txs)"
  shows "dget (tx_by_id (fold (\<lambda>(i, tx). index_tx E idx (int i) tx) (enumerate j txs) s)) x =
    (if x \<in> tx_id E ` set txs then Some (idx, int (j + (THE k. k < length txs \<and> tx_id E (txs ! k) = x)))
     else dget (tx_by_id s) x)"
  using assms
proof (induction txs arbitrary: j s)
  case (Cons tx txs)
  let ?s = "index_tx E idx (int j) tx s"
  have g: "dget (tx_by_id ?s) x = (if x = tx_id E tx then Some (idx, int j) else dget (tx_by_id s) x)"
    by (simp add: index_tx_fields dict_simps)
  have IH: "dget (tx_by_id (fold (\<lambda>(i, tx). index_tx E idx (int i) tx) (enumerate (Suc j) txs) ?s)) x =
    (if x \<in> tx_id E ` set txs then Some (idx, int (Suc j + (THE k. k < length txs \<and> tx_id E (txs ! k) = x)))
     else dget (tx_by_id ?s) x)"
    using Cons by simp
  show ?case
  proof (cases "x \<in> tx_id E ` set txs")
    case True
    then obtain k where k: "k < length txs" "tx_id E (txs ! k) = x" by (auto simp: in_set_conv_nth)
    have u: "k' = k" if "k' < length txs" "tx_id E (txs ! k') = x" for k'
      using that k Cons.prems nth_eq_iff_index_eq[of "map (tx_id E) txs" k k'] by auto
    have "(THE k. k < length txs \<and> tx_id E (txs ! k) = x) = k" using k u by blast
    moreover have "(THE k. k < length (tx # txs) \<and> tx_id E ((tx # txs) ! k) = x) = Suc k"
    proof (rule the_equality)
      show "Suc k < length (tx # txs) \<and> tx_id E ((tx # txs) ! Suc k) = x" using k by simp
      fix k' assume "k' < length (tx # txs) \<and> tx_id E ((tx # txs) ! k') = x"
      then show "k' = Suc k" using u True Cons.prems by (cases k') auto
    qed
    ultimately show ?thesis using IH True by simp
  next
    case False
    moreover have "x = tx_id E tx \<Longrightarrow> (THE k. k < length (tx # txs) \<and> tx_id E ((tx # txs) ! k) = x) = 0"
    proof (rule the_equality)
      fix k' assume x: "x = tx_id E tx" and "k' < length (tx # txs) \<and> tx_id E ((tx # txs) ! k') = x"
      then show "k' = 0" using False nth_mem by (cases k') (fastforce simp: image_iff)+
    qed simp
    ultimately show ?thesis using IH g by auto
  qed
qed simp

lemma index_txs_at:
  assumes "distinct (map (tx_id E) txs)" "k < length txs"
  shows "dget (tx_by_id (fold (\<lambda>(i, tx). index_tx E idx (int i) tx) (enumerate 0 txs) s)) (tx_id E (txs ! k))
    = Some (idx, int k)"
proof -
  have "(THE k'. k' < length txs \<and> tx_id E (txs ! k') = tx_id E (txs ! k)) = k"
    using assms nth_eq_iff_index_eq[of "map (tx_id E) txs"] by (intro the_equality) auto
  then show ?thesis using index_txs_by_id[OF assms(1), of idx 0 s "tx_id E (txs ! k)"] assms(2) by auto
qed

text \<open>Every transaction is found where it was mined, the new ones included.\<close>

lemma append_indexed:
  fixes s t :: "'a chain_scheme"
  assumes "chain_ok s" "indexed E s" "append_block_inner E b s = (None, t)" "b_index b = height s + 1"
    "distinct (map (tx_id E) (b_txs b))"
    "\<And>i tx. i < length (chain_list s) \<Longrightarrow> tx \<in> set (b_txs (chain_list s ! i)) \<Longrightarrow> tx_id E tx \<notin> tx_id E ` set (b_txs b)"
  shows "chain_ok t \<and> indexed E t"
proof -
  let ?F = "fold (\<lambda>(i, tx). index_tx E (height s + 1) (int i) tx) (enumerate 0 (b_txs b)) (push_block E b s)"
  have v: "index_view t = index_view ?F" by (rule append_index[OF assms(3)])
  then have f: "chain_list t = chain_list s @ [b]" "height t = height s + 1" "latest_block t = Some b"
    "tx_by_id t = tx_by_id ?F"
    using index_tx_chain[of E "height s + 1" "enumerate 0 (b_txs b)" "push_block E b s"]
    by (simp_all add: index_view_def push_block_def)
  have h: "height s = int (length (chain_list s)) - 1" using assms(1) by (simp add: chain_ok_def)
  have "chain_ok t" using assms(1,4) f h by (auto simp: chain_ok_def nth_append less_Suc_eq)
  moreover have "indexed E t"
    unfolding indexed_def
  proof (intro allI impI)
    fix i j assume i: "i < length (chain_list t)" and j: "j < length (b_txs (chain_list t ! i))"
    show "dget (tx_by_id t) (tx_id E (b_txs (chain_list t ! i) ! j)) = Some (int i, int j)"
    proof (cases "i < length (chain_list s)")
      case True
      then have e: "chain_list t ! i = chain_list s ! i" by (simp add: f nth_append)
      have "tx_id E (b_txs (chain_list s ! i) ! j) \<notin> tx_id E ` set (b_txs b)"
        using assms(6)[OF True] j e by simp
      then have "dget (tx_by_id t) (tx_id E (b_txs (chain_list s ! i) ! j))
          = dget (tx_by_id s) (tx_id E (b_txs (chain_list s ! i) ! j))"
        using index_txs_by_id[OF assms(5), of "height s + 1" 0 "push_block E b s"] f(4)
        by (simp add: push_block_def)
      then show ?thesis using assms(2) True j e by (simp add: indexed_def)
    next
      case False
      then have e: "i = length (chain_list s)" "chain_list t ! i = b" using i by (simp_all add: f nth_append)
      then show ?thesis using index_txs_at[OF assms(5), of j "height s + 1" "push_block E b s"] j f(4) h by simp
    qed
  qed
  ultimately show ?thesis by simp
qed

text \<open>Nonces advance by the transactions a sender has in the block.\<close>

lemma index_txs_nonce:
  assumes "idx > 0" "consecutive_from (get_next_nonce s a) (map tx_nonce (sender_txs a txs))"
  shows "get_next_nonce (fold (\<lambda>(i, tx). index_tx E idx (int i) tx) (enumerate j txs) s) a
    = get_next_nonce s a + int (length (sender_txs a txs))"
  using assms(2)
proof (induction txs arbitrary: j s)
  case (Cons tx txs)
  let ?s = "index_tx E idx (int j) tx s"
  show ?case
  proof (cases "tx_sender tx = a")
    case True
    then have "tx_nonce tx = get_next_nonce s a" "consecutive_from (get_next_nonce s a + 1) (map tx_nonce (sender_txs a txs))"
      using Cons.prems by (auto simp: sender_txs_def consecutive_Cons)
    moreover from this have "get_next_nonce ?s a = get_next_nonce s a + 1"
      using True assms(1) by (simp add: index_tx_fields get_next_nonce_def dict_simps)
    ultimately show ?thesis using Cons.IH[of ?s "Suc j"] True by (simp add: sender_txs_def)
  next
    case False
    then have "get_next_nonce ?s a = get_next_nonce s a"
      by (simp add: index_tx_fields get_next_nonce_def dict_simps)
    then show ?thesis using Cons.IH[of ?s "Suc j"] False Cons.prems by (simp add: sender_txs_def)
  qed
qed (simp add: sender_txs_def)

lemma append_nonces:
  fixes s t :: "'a chain_scheme"
  assumes "append_block_inner E b s = (None, t)" "0 \<le> height s"
    "consecutive_from (get_next_nonce s a) (map tx_nonce (sender_txs a (b_txs b)))"
  shows "get_next_nonce t a = get_next_nonce s a + int (length (sender_txs a (b_txs b)))"
proof -
  let ?s = "push_block E b s"
  have n: "get_next_nonce ?s a = get_next_nonce s a" by (simp add: push_block_def get_next_nonce_def)
  have "get_next_nonce t a = get_next_nonce (fold (\<lambda>(i, tx). index_tx E (height s + 1) (int i) tx) (enumerate 0 (b_txs b)) ?s) a"
    using append_index[OF assms(1)] by (simp add: index_view_def get_next_nonce_def)
  then show ?thesis
    using index_txs_nonce[of "height s + 1" ?s a "b_txs b" E 0] assms(2,3) n by simp
qed

section \<open>The state root\<close>

lemma set_entries_dirty: "dirty t \<Longrightarrow> dirty (set_entries kns t)"
  unfolding set_entries_def by (rule fold_inv) (auto simp: trie_set_def Let_def)

lemma set_entries_dwf: "dwf (entries t) \<Longrightarrow> dwf (entries (set_entries kns t))"
  unfolding set_entries_def by (rule fold_inv) (auto simp: trie_set_def Let_def)

text \<open>A rebuilt trie with at least one entry is coherent, whatever its cache held before.\<close>

lemma rebuilt_trie_ok: "kns \<noteq> [] \<Longrightarrow> trie_ok h (set_entries kns (t\<lparr>entries := []\<rparr>))"
proof (cases kns)
  case (Cons kn ks)
  let ?u = "trie_set (t\<lparr>entries := []\<rparr>) (fst kn) (bytes8 (snd kn))"
  have "dirty ?u" "dwf (entries ?u)" by (simp_all add: trie_set_def Let_def)
  then have "dirty (set_entries ks ?u)" "dwf (entries (set_entries ks ?u))"
    by (simp_all add: set_entries_dirty set_entries_dwf)
  then show ?thesis using Cons by (simp add: trie_ok_def set_entries_def)
qed simp

lemma state_entries_cong: "core_view s = core_view t \<Longrightarrow> state_entries s = state_entries t"
  by (simp add: core_view_def fin_view_def token_view_def index_view_def state_entries_def)

lemma set_entries_entries: "entries t = entries u \<Longrightarrow> entries (set_entries kns t) = entries (set_entries kns u)"
proof (induction kns arbitrary: t u)
  case (Cons kn kns)
  have "entries (trie_set t k v) = entries (trie_set u k v)" for k v
    using Cons.prems by (simp add: trie_set_def Let_def)
  from Cons.IH[OF this[of "fst kn" "bytes8 (snd kn)"]] show ?case by (simp only: set_entries_def fold_simps)
qed (simp add: set_entries_def)

definition state_map :: "'a tokens_scheme \<Rightarrow> (string, bytes) dict" where
  "state_map s = entries (set_entries (state_entries s) trie_init)"

lemma append_state_root:
  fixes s t :: "'a chain_scheme"
  assumes "append_block_inner E b s = (None, t)" "state_entries t \<noteq> []"
  shows "entries (state_trie t) = state_map t" "trie_ok (sha3 E) (state_trie t)"
    "b_state_root b = [] \<or> b_state_root b = hex (computed_root (sha3 E) (state_map t))"
    "last_state_root t = hex (computed_root (sha3 E) (state_map t))"
proof -
  obtain s2 s3 s4 s5 s6 s7 s8 :: "'a chain_scheme" where
    c: "process_mature_unbondings (height s + 1) (push_block E b s) = (None, s2)"
      "check_epoch_transition (height s + 1) s2 = (None, s3)"
      "apply_txs E (height s + 1) b 0 (b_txs b) s3 = (None, s4)"
      "core_view s5 = core_view s4" "finalized_height s5 = finalized_height s4"
      "core_view s6 = core_view (rewarded (height s + 1) b s5)" "finalized_height s6 = finalized_height s5"
      "rebuild_state_trie s6 = (None, s7)" "state_root_step E (height s + 1) b s7 = (None, s8)"
      "t = update_finality (height s + 1) (prune_distributions (height s + 1) (prune_events (height s + 1)
             (save_snapshot (height s + 1) s8)))"
    by (rule append_course[OF assms(1) refl])
  have "core_view t = core_view s8" by (simp only: c(10) late_core)
  moreover have "core_view s8 = core_view s7" using core_state_root_step[of E "height s + 1" b s7] c(9) by simp
  moreover have "core_view s7 = core_view s6" by (rule core_rebuild[OF c(8)])
  ultimately have "core_view t = core_view s6" by simp
  then have se: "state_entries s6 = state_entries t" using state_entries_cong by metis
  let ?T = "set_entries (state_entries t) ((state_trie s6)\<lparr>entries := []\<rparr>)"
  have s7: "s7 = s6\<lparr>state_trie := ?T\<rparr>" using rebuild_entries[OF c(8)] se by simp
  have ok: "trie_ok (sha3 E) ?T" by (rule rebuilt_trie_ok[OF assms(2)])
  have en: "entries ?T = state_map t"
    unfolding state_map_def by (rule set_entries_entries) (simp add: trie_init_def)
  have root: "fst (trie_root (sha3 E) ?T) = computed_root (sha3 E) (state_map t)"
    using trie_root_value[OF ok] en by simp
  have s8: "state_trie s8 = snd (trie_root (sha3 E) ?T)" "last_state_root s8 = hex (fst (trie_root (sha3 E) ?T))"
    "b_state_root b = [] \<or> b_state_root b = hex (fst (trie_root (sha3 E) ?T))"
    using c(9) by (auto simp: s7 state_root_step_def state_root_def Let_def split: prod.splits if_splits)
  have fin: "state_trie (update_finality i u) = state_trie u \<and> last_state_root (update_finality i u) = last_state_root u"
    for i and u :: "'a chain_scheme"
    by (auto simp: update_finality_def Let_def split: option.splits)
  have tt: "state_trie t = state_trie s8" "last_state_root t = last_state_root s8"
    using fin by (simp_all add: c(10) prune_distributions_def prune_events_def save_snapshot_def Let_def)
  show "entries (state_trie t) = state_map t" using tt s8 en by simp
  show "trie_ok (sha3 E) (state_trie t)" using tt s8 trie_ok_root[OF ok] by simp
  show "b_state_root b = [] \<or> b_state_root b = hex (computed_root (sha3 E) (state_map t))"
    using s8(3) root by simp
  show "last_state_root t = hex (computed_root (sha3 E) (state_map t))" using s8(2) tt root by simp
qed

text \<open>A balance proof served after the block verifies against that root.\<close>

definition decode_path :: "(string \<times> bool) list \<Rightarrow> (bytes \<times> bool) list" where
  "decode_path path = map (\<lambda>(h, l). (the_default [] (fromhex h), l)) path"

lemma decode_encoded_path: "decode_path (map (\<lambda>(s, l). (hex s, l)) path) = path"
  by (induction path) (auto simp: decode_path_def)

lemma balance_proof:
  assumes "trie_ok (sha3 E) (state_trie t)" "entries (state_trie t) = state_map t" "dwf (balances t)"
    "dget (balances t) a = Some n" "0 \<le> n"
  shows "\<exists>p. get_state_proof E t a ''balance'' = Some p \<and> sp_value p = hex (bytes8 n)
    \<and> sp_root p = hex (computed_root (sha3 E) (state_map t))
    \<and> trie_verify_proof (sha3 E) (balance_key a) (bytes8 n) (decode_path (sp_proof p))
        (computed_root (sha3 E) (state_map t))"
proof -
  have g: "dget (entries (state_trie t)) (balance_key a) = Some (bytes8 n)"
    unfolding assms(2) state_map_def by (rule rebuilt_balance[OF assms(3,4,5)])
  obtain p where p: "fst (trie_get_proof (sha3 E) (state_trie t) (balance_key a)) = Some p"
    using g by (cases "trie_root (sha3 E) (state_trie t)") (simp add: trie_get_proof_def Let_def)
  then obtain t' where pt: "trie_get_proof (sha3 E) (state_trie t) (balance_key a) = (Some p, t')"
    by (metis prod.collapse)
  from pt obtain v where v: "dget (entries (state_trie t)) (balance_key a) = Some v" "sp_value p = hex v"
    "sp_proof p = map (\<lambda>(s, l). (hex s, l)) (merkle_proof (sha3 E) (sorted_leaves (sha3 E) (entries (state_trie t)))
       (int (bisect_left (sorted_keys (entries (state_trie t))) (balance_key a))))"
    "sp_root p = hex (fst (trie_root (sha3 E) (state_trie t)))"
    by (rule trie_get_proof_cases)
  have "get_state_proof E t a ''balance'' = Some p" using p by (simp add: get_state_proof_def balance_key_def)
  moreover have "sp_root p = hex (computed_root (sha3 E) (state_map t))"
    using v(4) trie_root_value[OF assms(1)] assms(2) by simp
  moreover have "trie_verify_proof (sha3 E) (balance_key a) (bytes8 n) (decode_path (sp_proof p))
        (computed_root (sha3 E) (state_map t))"
    unfolding v(3) decode_encoded_path using trie_proof_verifies[OF assms(1) g] assms(2) by simp
  ultimately show ?thesis using v(1,2) g by auto
qed

end
