(* ===== verification/Genesis.thy ===== *)
theory Genesis
  imports ChainState
begin

text \<open>
  The beginning of a chain (in-memory mode): the state \<open>Blockchain.__init__\<close> builds and
  \<open>activate_financial_layer\<close> of \<open>core/ledger.py\<close>, with the invariants they establish.
\<close>

section \<open>Facts the properties share\<close>

lemma money_ok_amounts:
  assumes "money_ok s"
  shows "0 \<le> get_balance s a" "0 \<le> get_validator_stake s v" "0 \<le> get_staker_info s a v"
proof -
  have "list_all (\<lambda>p. dnonneg (snd p)) (stakes s)"
    using assms by (auto simp: money_ok_def stake_ok_def list_all_iff)
  then have "dnonneg (dget_or (stakes s) v [])" by (rule list_all_dget_or) simp
  then show "0 \<le> get_staker_info s a v" by (simp add: get_staker_info_def dget_or_nonneg)
  show "0 \<le> get_balance s a" using assms by (simp add: money_ok_def solvent_balance)
  show "0 \<le> get_validator_stake s v"
    using assms by (simp add: money_ok_def stake_ok_def get_validator_stake_def dget_or_nonneg)
qed

lemma valid_block_payloads:
  assumes "is_ok (validate_block E s now b (Some p))" "b_index b \<noteq> 0"
  shows "list_all (\<lambda>tx. is_ok (validate_payload E tx)) (b_txs b)"
proof -
  obtain fin where "validate_txs E s b {} [] [] (b_txs b) = Inr fin"
    using assms by (rule validate_block_cases)
  from validate_txs_sound[OF this] show ?thesis by (simp add: list_all_iff)
qed

lemma valid_block_token_amounts:
  assumes "is_ok (validate_block E s now b (Some p))" "b_index b \<noteq> 0"
  shows "list_all token_amount_ok (b_txs b)"
  using valid_block_payloads[OF assms] valid_token_amount by (auto simp: list_all_iff)

lemma balance_entry_nonempty: "dget (balances s) a = Some n \<Longrightarrow> 0 \<le> n \<Longrightarrow> state_entries s \<noteq> []"
proof -
  assume "dget (balances s) a = Some n" "0 \<le> n"
  then have "(a, n) \<in> set (filter (\<lambda>p. \<not> snd p < 0) (balances s))" by (auto dest: map_of_SomeD)
  then show ?thesis by (auto simp: state_entries_def simp del: set_filter)
qed

section \<open>The empty chain\<close>

text \<open>Every index empty; \<open>consensus._chain_nonces\<close> is the same object as \<open>_sender_nonce\<close>.\<close>

definition new_chain :: chain where
  "new_chain =
     \<lparr>balances = [], total_minted = 0, total_burned = 0, financial_active = False,
      chain_list = [], height = - 1, latest_block = None, block_by_hash = [], tx_by_id = [],
      txs_by_sender = [], txs_by_recipient = [], notarizations = [], notarizations_by_hash = [],
      notarization_count = [], sender_nonce = [], key_registry = [], key_history = [],
      validator_registry = [], validator_commission = [], revoked_keys = [], poa_validators = [],
      poa_genesis_hash = [], chain_tx_ids = {}, stale_nonces = None,
      stakes = [], total_stake = [], unbonding = [], current_epoch = 0, epoch_validators = [],
      epochs = [], slashed_validators = {}, slashing_events = [], processed_evidence = {},
      epoch_rewards = [], last_distributions = [],
      token_registry = [], token_balances = [], token_by_symbol = [], holders_by_token = [],
      tokens_by_address = [],
      receipt_map = [], events_by_type = [], events_by_block = [], block_level_events = [],
      finalized_height = - 1,
      tx_pool = [], pool_ids = {}, pool_sender_count = [], pending_debits_cache = [],
      pool_type_counts = [],
      state_trie = trie_init, state_snapshots = [], last_receipts_root = [], last_state_root = []\<rparr>"

definition genesis_allocation :: int where
  "genesis_allocation = GENESIS_BALANCE_QBIT * QUBIT_PER_QBIT"

definition allocate_genesis :: "string \<Rightarrow> ('a chain_scheme) act" where
  "allocate_genesis validator_address =
     run_all [credit validator_address genesis_allocation,
              pure (\<lambda>s. s\<lparr>total_minted := total_minted s + genesis_allocation\<rparr>)]"

definition activate_financial_layer :: "string \<Rightarrow> ('a chain_scheme) act" where
  "activate_financial_layer validator_address s =
     (if financial_active s then (None, s)
      else run_all
        [pure (\<lambda>s. s\<lparr>financial_active := True\<rparr>),
         when_do (validator_address \<noteq> [] \<and> get_balance s validator_address = 0)
           (allocate_genesis validator_address),
         rebuild_state_trie,
         pure (\<lambda>s. if height s \<ge> 0
                   then s\<lparr>state_snapshots := dset (state_snapshots s) (height s) (trie_snapshot (state_trie s))\<rparr>
                   else s)] s)"

section \<open>The invariants hold at the start\<close>

lemma new_chain_money: "money_ok new_chain" "accounted new_chain = 0" "total_minted new_chain = 0"
  by (simp_all add: new_chain_def money_ok_def ledger_ok_def solvent_def stake_ok_def commissions_ok_def
      accounted_def funds_def unbonding_total_def)

lemma new_chain_tokens: "tokens_ok new_chain"
  by (simp add: new_chain_def tokens_ok_def conserved_def caps_ok_def index_agrees_def symbols_ok_def
      minted_of_def get_token_balance_def)

lemma new_chain_index: "chain_ok new_chain" "indexed E new_chain"
  by (simp_all add: new_chain_def chain_ok_def indexed_def)

lemma new_chain_pool: "pool_ok E new_chain" "pool_nonces new_chain" "affordable new_chain"
  by (simp_all add: new_chain_def pool_ok_def pool_nonces_def affordable_def pending_debits_def
      get_balance_def senders.counts_def types.counts_def debits.counts_def weight_of_def
      sender_txs_def consecutive_from_def MAX_TX_POOL_SIZE_def)

lemma allocation_pos: "0 \<le> genesis_allocation" "genesis_allocation \<le> MAX_SUPPLY"
  by (simp_all add: genesis_allocation_def economics_defs)

lemma core_snapshot: "core_view (s\<lparr>state_snapshots := x\<rparr>) = core_view s"
  by (rule core_fields) simp_all

text \<open>What activation changes, apart from the trie and its snapshot.\<close>

definition activated :: "string \<Rightarrow> 'a ledger_scheme \<Rightarrow> 'a ledger_scheme" where
  "activated v s =
     (let s1 = s\<lparr>financial_active := True\<rparr>
      in if v \<noteq> [] \<and> get_balance s v = 0
         then (credited v genesis_allocation s1)\<lparr>total_minted := total_minted s + genesis_allocation\<rparr> else s1)"

lemma activate_course:
  assumes "activate_financial_layer v s = (None, t)"
  shows "financial_active s \<and> t = s \<or> \<not> financial_active s \<and> core_view t = core_view (activated v s)"
proof (cases "financial_active s")
  case False
  then obtain u where r: "rebuild_state_trie (activated v s) = (None, u)" and t: "core_view t = core_view u"
    using assms
    by (auto simp: activate_financial_layer_def allocate_genesis_def activated_def Let_def run_all_Cons_None
        when_do_eq credit_None core_snapshot simp del: run_all.simps(2) split: if_splits)
  then show ?thesis using False core_rebuild[OF r] by simp
qed (use assms in \<open>simp add: activate_financial_layer_def\<close>)

lemma activated_views: "token_view (activated v s) = token_view s" "index_view (activated v s) = index_view s"
  by (simp_all add: activated_def token_view_def index_view_def credited_def Let_def)

lemma activate_index: "activate_financial_layer v s = (None, t) \<Longrightarrow> index_view t = index_view s"
  using activate_course core_viewD(4) activated_views(2) by metis

text \<open>Activation keeps money and tokens sound and mints what it credits.\<close>

lemma activate_ok:
  fixes s t :: "'a chain_scheme"
  assumes "money_ok s" "activate_financial_layer v s = (None, t)"
  shows "money_ok t" "accounted t - total_minted t = accounted s - total_minted s"
    "financial_active t"
    "total_minted t = total_minted s \<or> \<not> financial_active s \<and> total_minted t = total_minted s + genesis_allocation"
    "token_view t = token_view s" "index_view t = index_view s"
proof -
  have "money_ok t \<and> accounted t - total_minted t = accounted s - total_minted s \<and> financial_active t
    \<and> (total_minted t = total_minted s \<or> \<not> financial_active s \<and> total_minted t = total_minted s + genesis_allocation)
    \<and> token_view t = token_view s \<and> index_view t = index_view s"
  proof (cases "financial_active s")
    case True
    then show ?thesis using assms by (simp add: activate_financial_layer_def)
  next
    case False
    let ?s1 = "s\<lparr>financial_active := True\<rparr>"
    let ?s2 = "activated v s"
    have ct: "core_view t = core_view ?s2" using activate_course[OF assms(2)] False by blast
    have m1: "money_ok ?s1" "accounted ?s1 = accounted s"
      using assms(1) by (auto simp: money_ok_def ledger_ok_def solvent_def stake_ok_def commissions_ok_def
          accounted_def funds_def unbonding_total_def)
    have mc: "money_ok (credited v genesis_allocation ?s1)"
      by (rule money_ok_credit[OF m1(1) allocation_pos(1)])
    have ac: "accounted (credited v genesis_allocation ?s1) = accounted s + genesis_allocation"
      using funds_credited[of ?s1 v genesis_allocation] m1
      by (simp add: accounted_def money_ok_def unbonding_total_def credited_def)
    have m2: "money_ok ?s2" "accounted ?s2 - total_minted ?s2 = accounted s - total_minted s"
      using m1 mc ac by (auto simp: activated_def Let_def money_ok_def ledger_ok_def solvent_def stake_ok_def
          commissions_ok_def accounted_def funds_def unbonding_total_def)
    have "financial_active ?s2"
      "total_minted ?s2 = total_minted s \<or> total_minted ?s2 = total_minted s + genesis_allocation"
      by (simp_all add: activated_def Let_def)
    then show ?thesis
      using core_views_money[OF ct] m2 core_viewD(3,4)[OF ct] activated_views[of v s] False by simp
  qed
  then show "money_ok t" "accounted t - total_minted t = accounted s - total_minted s"
    "financial_active t"
    "total_minted t = total_minted s \<or> \<not> financial_active s \<and> total_minted t = total_minted s + genesis_allocation"
    "token_view t = token_view s" "index_view t = index_view s" by auto
qed

end
