(* ===== verification/Rollback.thy ===== *)
theory Rollback
  imports Genesis
begin

text \<open>
  \<open>core/rollback.py\<close> (in-memory mode): the inverse of a block, part by part in the order of
  \<open>_rollback_block\<close>, \<open>_rollback_to\<close> with its checks on balances and supply, and the wrapper
  \<open>_append_block_inner_safe\<close> of \<open>core/blockchain.py\<close> that calls it when a block is refused.
\<close>

section \<open>Receipts and events\<close>

text \<open>\<open>if v in xs: xs.remove(v)\<close> on the list under a key, which stays when it becomes empty.\<close>

definition dremove :: "('k, 'v list) dict \<Rightarrow> 'k \<Rightarrow> 'v \<Rightarrow> ('k, 'v list) dict" where
  "dremove d k v = (case dget d k of None \<Rightarrow> d | Some vs \<Rightarrow> dset d k (remove1 v vs))"

definition undo_receipt :: "env \<Rightarrow> transaction \<Rightarrow> 'a receipts_scheme \<Rightarrow> 'a receipts_scheme" where
  "undo_receipt E tx s =
     (case dget (receipt_map s) (tx_id E tx) of
        None \<Rightarrow> s
      | Some r \<Rightarrow>
          s\<lparr>receipt_map := dpop (receipt_map s) (tx_id E tx),
            events_by_type :=
              fold (\<lambda>ev d. if event_type_of ev \<noteq> [] then dremove d (event_type_of ev) (tx_id E tx) else d)
                (rc_events r) (events_by_type s)\<rparr>)"

definition undo_receipts :: "env \<Rightarrow> block \<Rightarrow> 'a receipts_scheme \<Rightarrow> 'a receipts_scheme" where
  "undo_receipts E b s =
     (let idx = b_index b; s1 = fold (undo_receipt E) (b_txs b) s
      in s1\<lparr>events_by_block := dpop (events_by_block s1) idx,
            block_level_events := dpop (block_level_events s1) idx,
            finalized_height := (if finalized_height s1 \<ge> idx then idx - 1 else finalized_height s1)\<rparr>)"

section \<open>Balances\<close>

definition undo_reward :: "int \<Rightarrow> block \<Rightarrow> 'a staking_scheme \<Rightarrow> 'a staking_scheme" where
  "undo_reward idx b s =
     (let reward = calc_block_reward s idx; v = b_validator b; s1 = rollback_debit v reward s
      in if reward > 0
         then s1\<lparr>total_minted := total_minted s1 - reward,
                 epoch_rewards := dset (epoch_rewards s1) v (max 0 (dget_or (epoch_rewards s1) v 0 - reward))\<rparr>
         else s)"

definition undo_amount :: "transaction \<Rightarrow> ('a staking_scheme) act" where
  "undo_amount tx =
     (if tx_type tx \<in> {STAKE, DELEGATE} then when_do (amount_of tx > 0) (credit (tx_sender tx) (amount_of tx))
      else if tx_type tx = TRANSFER
      then run_all [pure (rollback_debit (tx_recipient tx) (amount_of tx)), credit (tx_sender tx) (amount_of tx)]
      else pass)"

definition undo_fee :: "env \<Rightarrow> int \<Rightarrow> block \<Rightarrow> transaction \<Rightarrow> ('a staking_scheme) act" where
  "undo_fee E idx b tx =
     (if idx \<ge> dyn_height E
      then
        (let w = tx_weight (tx_type tx);
             fee = compute_tx_fee (b_base_fee b) (tx_max_fee tx) (tx_max_prio tx) w
         in when_do (w > 0) (run_all [pure (rollback_debit (b_validator b) fee), credit (tx_sender tx) fee]))
      else
        (let fee = TX_FEES (tx_type tx)
         in when_do (fee > 0)
              (run_all [pure (rollback_debit (b_validator b) (fee div 2)),
                        pure (\<lambda>s. s\<lparr>total_burned := total_burned s - (fee - fee div 2)\<rparr>),
                        credit (tx_sender tx) fee])))"

definition undo_tx_money :: "env \<Rightarrow> int \<Rightarrow> block \<Rightarrow> transaction \<Rightarrow> ('a staking_scheme) act" where
  "undo_tx_money E idx b tx = run_all [undo_amount tx, undo_fee E idx b tx]"

definition undo_balances :: "env \<Rightarrow> block \<Rightarrow> ('a staking_scheme) act" where
  "undo_balances E b s =
     (if b_index b > 0 \<and> financial_active s
      then run_all (pure (undo_reward (b_index b) b) # map (undo_tx_money E (b_index b) b) (rev (b_txs b))) s
      else (None, s))"

section \<open>Indices and the effect of each type\<close>

definition undo_index :: "env \<Rightarrow> transaction \<Rightarrow> 'a registry_scheme \<Rightarrow> 'a registry_scheme" where
  "undo_index E tx s =
     (let i = tx_id E tx
      in s\<lparr>tx_by_id := dpop (tx_by_id s) i, chain_tx_ids := chain_tx_ids s - {i},
           txs_by_sender := dremove (txs_by_sender s) (tx_sender tx) i,
           txs_by_recipient := (if tx_recipient tx \<noteq> [] then dremove (txs_by_recipient s) (tx_recipient tx) i
                                else txs_by_recipient s)\<rparr>)"

definition undo_notarize :: "env \<Rightarrow> transaction \<Rightarrow> 'a registry_scheme \<Rightarrow> 'a registry_scheme" where
  "undo_notarize E tx s =
     (let dh = str_field tx ''documentHash''; i = tx_id E tx;
          firsts = (if dget (notarizations s) dh = Some i then dpop (notarizations s) dh else notarizations s);
          by_hash = dremove (notarizations_by_hash s) dh i;
          left_ids = dget_or by_hash dh [];
          s1 = (if dh \<noteq> []
                then s\<lparr>notarizations := (if \<not> dmem dh firsts \<and> left_ids \<noteq> [] then dset firsts dh (hd left_ids)
                                        else firsts),
                       notarizations_by_hash := by_hash\<rparr>
                else s);
          cnt = dget_or (notarization_count s1) (tx_sender tx) 1 - 1
      in s1\<lparr>notarization_count := (if cnt \<le> 0 then dpop (notarization_count s1) (tx_sender tx)
                                   else dset (notarization_count s1) (tx_sender tx) cnt)\<rparr>)"

definition undo_register_key :: "transaction \<Rightarrow> 'a registry_scheme \<Rightarrow> 'a registry_scheme" where
  "undo_register_key tx s =
     (let epk = str_field tx ''encryption_pk''; a = tx_sender tx;
          hist = dremove (key_history s) a epk; history = dget_or hist a []
      in if epk = [] then s
         else s\<lparr>key_history := hist,
                key_registry := (if history \<noteq> [] then dset (key_registry s) a (last history)
                                 else dpop (key_registry s) a)\<rparr>)"

definition undo_register_validator :: "transaction \<Rightarrow> 'a registry_scheme \<Rightarrow> 'a registry_scheme" where
  "undo_register_validator tx s =
     (let vaddr = str_field tx ''validator_address''
      in if vaddr = [] then s
         else remove_validator vaddr (s\<lparr>validator_registry := dpop (validator_registry s) vaddr\<rparr>))"

text \<open>\<open>_find_validator_pk_in_chain\<close>: the registry, else the first decodable registration in the chain.\<close>

definition registered_pk :: "string \<Rightarrow> transaction \<Rightarrow> bytes option" where
  "registered_pk address tx =
     (if tx_type tx = REGISTER_VALIDATOR \<and> pget tx ''validator_address'' PNone = PStr address
         \<and> str_field tx ''validator_pubkey'' \<noteq> []
      then fromhex (str_field tx ''validator_pubkey'') else None)"

definition find_validator_pk_in_chain :: "'a registry_scheme \<Rightarrow> string \<Rightarrow> bytes option" where
  "find_validator_pk_in_chain s address =
     (case dget (validator_registry s) address of
        Some pk \<Rightarrow> Some pk
      | None \<Rightarrow>
          (case List.map_filter (registered_pk address) (concat (map b_txs (chain_list s))) of
             [] \<Rightarrow> None
           | pk # _ \<Rightarrow> Some pk))"

definition undo_revoke_key :: "transaction \<Rightarrow> 'a registry_scheme \<Rightarrow> 'a registry_scheme" where
  "undo_revoke_key tx s =
     (let key_type = str_field tx ''key_type''; rk = revoked_key (tx_sender tx) key_type;
          s1 = s\<lparr>revoked_keys := dpop (revoked_keys s) rk\<rparr>
      in if dmem rk (revoked_keys s) \<and> key_type = ''validator''
         then
           (case find_validator_pk_in_chain s1 (tx_sender tx) of
              None \<Rightarrow> s1
            | Some vpk \<Rightarrow>
                (if vpk = [] then s1
                 else add_validator (tx_sender tx) vpk
                        (s1\<lparr>validator_registry := dset (validator_registry s1) (tx_sender tx) vpk\<rparr>)))
         else s1)"

definition undo_stake :: "transaction \<Rightarrow> 'a staking_scheme \<Rightarrow> 'a staking_scheme" where
  "undo_stake tx s =
     (let vaddr = str_field tx ''validator_address''; amount = amount_of tx; staker = tx_sender tx
      in if vaddr \<noteq> [] \<and> amount > 0
         then
           (let stakes' =
                  (case dget (stakes s) vaddr of
                     None \<Rightarrow> stakes s
                   | Some mine \<Rightarrow>
                       (case dget mine staker of
                          None \<Rightarrow> stakes s
                        | Some n \<Rightarrow> dset (stakes s) vaddr
                            (if n - amount \<le> 0 then dpop mine staker else dset mine staker (n - amount))));
                new_total = max 0 (dget_or (total_stake s) vaddr 0 - amount)
            in s\<lparr>stakes := stakes',
                 total_stake := (if new_total = 0 then dpop (total_stake s) vaddr
                                 else dset (total_stake s) vaddr new_total)\<rparr>)
         else s)"

definition undo_unstake :: "int \<Rightarrow> transaction \<Rightarrow> 'a staking_scheme \<Rightarrow> 'a staking_scheme" where
  "undo_unstake idx tx s =
     (let vaddr = str_field tx ''validator_address''; amount = amount_of tx; staker = tx_sender tx
      in if vaddr \<noteq> [] \<and> amount > 0
         then
           (let mine = dget_or (stakes s) vaddr []
            in s\<lparr>stakes := dset (stakes s) vaddr (dset mine staker (dget_or mine staker 0 + amount)),
                 total_stake := dset (total_stake s) vaddr (dget_or (total_stake s) vaddr 0 + amount),
                 unbonding := filter (\<lambda>e. \<not> (ub_staker e = staker \<and> ub_validator e = vaddr
                     \<and> ub_amount e = amount \<and> ub_release e = idx + UNBONDING_PERIOD)) (unbonding s)\<rparr>)
         else s)"

definition undo_evidence :: "env \<Rightarrow> transaction \<Rightarrow> 'a staking_scheme \<Rightarrow> 'a staking_scheme" where
  "undo_evidence E tx s =
     (let vaddr = str_field tx ''validator_address''
      in if vaddr = [] then s
         else s\<lparr>slashed_validators := slashed_validators s - {vaddr},
                processed_evidence := processed_evidence s - {vaddr},
                slashing_events := filter (\<lambda>e. se_evidence_tx e \<noteq> tx_id E tx) (slashing_events s)\<rparr>)"

definition undo_issue_token :: "env \<Rightarrow> transaction \<Rightarrow> 'a tokens_scheme \<Rightarrow> 'a tokens_scheme" where
  "undo_issue_token E tx s =
     (let token_id = token_id_of E tx;
          s1 = s\<lparr>token_registry := dpop (token_registry s) token_id,
                 token_by_symbol := dpop (token_by_symbol s) (str_field tx ''symbol'')\<rparr>;
          to_del = filter (\<lambda>k. fst k = token_id) (dkeys (token_balances s1))
      in fold (\<lambda>k t. update_token_index token_id (snd k) 0
                 (t\<lparr>token_balances := dpop (token_balances t) k\<rparr>)) to_del s1)"

text \<open>The balance a token rollback leaves an address: none at zero or below.\<close>

definition take_tokens :: "string \<Rightarrow> string \<Rightarrow> int \<Rightarrow> 'a tokens_scheme \<Rightarrow> 'a tokens_scheme" where
  "take_tokens tid address amount s =
     (let key = (tid, address); new_bal = dget_or (token_balances s) key 0 - amount
      in update_token_index tid address (max 0 new_bal)
           (s\<lparr>token_balances := (if new_bal \<le> 0 then dpop (token_balances s) key
                                 else dset (token_balances s) key new_bal)\<rparr>))"

definition undo_mint_token :: "transaction \<Rightarrow> 'a tokens_scheme \<Rightarrow> 'a tokens_scheme" where
  "undo_mint_token tx s =
     (let tid = str_field tx ''token_id''; amount = amount_of tx
      in take_tokens tid (tx_recipient tx) amount
           (case dget (token_registry s) tid of
              None \<Rightarrow> s
            | Some reg \<Rightarrow> s\<lparr>token_registry :=
                dset (token_registry s) tid (reg\<lparr>tk_minted := max 0 (tk_minted reg - amount)\<rparr>)\<rparr>))"

definition undo_transfer_token :: "transaction \<Rightarrow> 'a tokens_scheme \<Rightarrow> 'a tokens_scheme" where
  "undo_transfer_token tx s =
     (let tid = str_field tx ''token_id''; amount = amount_of tx
      in token_credit tid (tx_sender tx) amount (take_tokens tid (tx_recipient tx) amount s))"

definition undo_type :: "env \<Rightarrow> int \<Rightarrow> transaction \<Rightarrow> 'a tokens_scheme \<Rightarrow> 'a tokens_scheme" where
  "undo_type E idx tx s =
     (case tx_type tx of
        NOTARIZE \<Rightarrow> undo_notarize E tx s
      | REGISTER_KEY \<Rightarrow> undo_register_key tx s
      | REGISTER_VALIDATOR \<Rightarrow> undo_register_validator tx s
      | REVOKE_KEY \<Rightarrow> undo_revoke_key tx s
      | STAKE \<Rightarrow> undo_stake tx s
      | DELEGATE \<Rightarrow> undo_stake tx s
      | UNSTAKE \<Rightarrow> undo_unstake idx tx s
      | EVIDENCE \<Rightarrow> undo_evidence E tx s
      | ISSUE_TOKEN \<Rightarrow> undo_issue_token E tx s
      | MINT_TOKEN \<Rightarrow> undo_mint_token tx s
      | TRANSFER_TOKEN \<Rightarrow> undo_transfer_token tx s
      | _ \<Rightarrow> s)"

definition undo_tx :: "env \<Rightarrow> int \<Rightarrow> transaction \<Rightarrow> 'a tokens_scheme \<Rightarrow> 'a tokens_scheme" where
  "undo_tx E idx tx s = undo_type E idx tx (undo_index E tx s)"

section \<open>Nonces, epochs, trie and tip\<close>

text \<open>The highest nonce of the sender that is left, transactions of the genesis block aside.\<close>

definition left_nonces :: "'a registry_scheme \<Rightarrow> string list \<Rightarrow> int list" where
  "left_nonces s ids =
     List.map_filter (\<lambda>i. case get_tx s i of
        None \<Rightarrow> None
      | Some tx \<Rightarrow> if get_tx_block s i \<noteq> Some 0 then Some (tx_nonce tx) else None) ids"

definition recompute_nonce :: "transaction \<Rightarrow> 'a registry_scheme \<Rightarrow> 'a registry_scheme" where
  "recompute_nonce tx s =
     (let a = tx_sender tx; remaining = dget_or (txs_by_sender s) a []; ns = left_nonces s remaining
      in if remaining \<noteq> []
         then s\<lparr>sender_nonce := dset (sender_nonce s) a (if ns = [] then - 1 else Max (set ns))\<rparr>
         else s\<lparr>sender_nonce := dpop (sender_nonce s) a\<rparr>)"

definition undo_distribution :: "int \<Rightarrow> ('a staking_scheme) act" where
  "undo_distribution epoch s =
     (let rec = dget_or (last_distributions s) epoch \<lparr>ds_credits = [], ds_debits = []\<rparr>
      in run_all
           ([pure (\<lambda>s. s\<lparr>last_distributions := dpop (last_distributions s) epoch\<rparr>)]
            @ map (\<lambda>(a, n). pure (rollback_debit a n)) (ds_credits rec)
            @ map (\<lambda>(a, n). credit a n) (ds_debits rec)) s)"

definition undo_epoch :: "block \<Rightarrow> ('a staking_scheme) act" where
  "undo_epoch b s =
     (if b_index b mod EPOCH_LENGTH = 0
      then
        (let epoch = b_index b div EPOCH_LENGTH
         in run_all
              [when_do (epoch > 0 \<and> financial_active s) (undo_distribution (epoch - 1)),
               pure (\<lambda>s. let es = dpop (epochs s) epoch
                    in if epoch > 0
                       then s\<lparr>epochs := es, current_epoch := epoch - 1,
                              epoch_validators := dget_or es (epoch - 1) []\<rparr>
                       else s\<lparr>epochs := es, current_epoch := 0, epoch_validators := []\<rparr>)] s)
      else (None, s))"

definition restore_trie :: "block \<Rightarrow> ('a chain_scheme) act" where
  "restore_trie b s =
     (let snaps = dpop (state_snapshots s) (b_index b); s1 = s\<lparr>state_snapshots := snaps\<rparr>
      in case (if b_index b - 1 \<ge> 0 then dget snaps (b_index b - 1) else None) of
           Some snap \<Rightarrow> (None, s1\<lparr>state_trie := trie_restore (state_trie s1) snap\<rparr>)
         | None \<Rightarrow> rebuild_state_trie s1)"

definition step_back :: "('a registry_scheme) act" where
  "step_back s =
     (let s1 = s\<lparr>height := height s - 1\<rparr>
      in if height s1 \<ge> 0
         then (if chain_list s1 = [] then (Some IndexError, s1)
               else (None, s1\<lparr>latest_block := Some (last (chain_list s1))\<rparr>))
         else (None, s1\<lparr>latest_block := None\<rparr>))"

section \<open>One block, and all blocks down to a height\<close>

definition rollback_block :: "env \<Rightarrow> block \<Rightarrow> ('a chain_scheme) act" where
  "rollback_block E b =
     run_all
       [pure (undo_receipts E b), undo_balances E b,
        pure (\<lambda>s. s\<lparr>block_by_hash := dpop (block_by_hash s) (block_hash E b)\<rparr>),
        pure (fold (undo_tx E (b_index b)) (b_txs b)),
        pure (fold recompute_nonce (b_txs b)),
        undo_epoch b, restore_trie b, step_back]"

definition pop_block :: "'a registry_scheme \<Rightarrow> 'a registry_scheme" where
  "pop_block s = s\<lparr>chain_list := butlast (chain_list s)\<rparr>"

definition negative_addrs :: "'a ledger_scheme \<Rightarrow> (string \<times> int) list" where
  "negative_addrs s = filter (\<lambda>p. snd p < 0) (balances s)"

text \<open>The blocks from the tip down to \<open>target\<close>; popping an empty list raises.\<close>

definition rollback_steps :: "env \<Rightarrow> int \<Rightarrow> block list \<Rightarrow> ('a chain_scheme) act list" where
  "rollback_steps E target bs =
     concat (map (\<lambda>b. [pure pop_block, rollback_block E b]) (rev (drop (nat target) bs)))
     @ (if target < 0 then [raise IndexError] else [])"

definition rollback_to :: "env \<Rightarrow> int \<Rightarrow> 'a chain_scheme \<Rightarrow> (exn + transaction list) \<times> 'a chain_scheme" where
  "rollback_to E target s =
     (case run_all (rollback_steps E target (chain_list s)) s of
        (Some e, t) \<Rightarrow> (Inl e, t)
      | (None, t) \<Rightarrow>
          (if negative_addrs t \<noteq> []
           then (Inl (ve ''Balance conservation violation after rollback: {} account(s) with negative balance''
                   [PInt (int (length (negative_addrs t)))]), t)
           else if financial_active s \<and> accounted t - total_minted t \<noteq> accounted s - total_minted s
           then (Inl (ve ''Supply conservation violation after rollback: invariant shifted by {} qubits''
                   [PInt ((accounted t - total_minted t) - (accounted s - total_minted s))]), t)
           else (Inr (concat (map b_txs (rev (drop (nat target) (chain_list s))))), t)))"

definition get_blocks_range :: "'a registry_scheme \<Rightarrow> int \<Rightarrow> int \<Rightarrow> block list" where
  "get_blocks_range s start end' = take (nat end' - nat start) (drop (nat start) (chain_list s))"

section \<open>Appending with rollback on failure\<close>

definition drop_refused :: "block \<Rightarrow> 'a registry_scheme \<Rightarrow> 'a registry_scheme" where
  "drop_refused b s =
     (let s1 = (if chain_list s \<noteq> [] \<and> last (chain_list s) = b then pop_block s else s)
      in s1\<lparr>latest_block := (if height s1 \<ge> 0 then get_block_by_index s1 (height s1) else None)\<rparr>)"

text \<open>Only a ValueError is caught; every other exception leaves the state as it was when it was raised.\<close>

definition append_block :: "env \<Rightarrow> block \<Rightarrow> ('a chain_scheme) act" where
  "append_block E b s =
     (case append_block_inner E b s of
        (Some (ValueError m), t) \<Rightarrow>
          (case rollback_block E b t of
             (Some e, u) \<Rightarrow> (Some e, u)
           | (None, u) \<Rightarrow> (Some (ValueError m), drop_refused b u))
      | r \<Rightarrow> r)"

end
