(* ===== verification/Node.thy ===== *)
theory Node
  imports Rollback
begin

text \<open>
  The operations of a node on its chain (\<open>core/blockchain.py\<close>, in-memory mode): genesis, block
  production from the pool, blocks received from the network, and the reorganization to a longer
  fork with its restoration paths. The clock and the validator's keys are arguments.
\<close>

section \<open>Genesis\<close>

text \<open>The roots are stamped on a block after it was applied, and the block is signed again.\<close>

definition stamp :: "env \<Rightarrow> bytes \<Rightarrow> string \<Rightarrow> string \<Rightarrow> block \<Rightarrow> block" where
  "stamp E sk sroot rroot b = block_sign E (b\<lparr>b_state_root := sroot, b_receipts_root := rroot\<rparr>) sk"

text \<open>The stamped block takes the place of the old one in the indices, in the chain and at the tip.\<close>

definition replace_block :: "env \<Rightarrow> block \<Rightarrow> block \<Rightarrow> 'a registry_scheme \<Rightarrow> 'a registry_scheme" where
  "replace_block E old b s =
     s\<lparr>block_by_hash := dset (dpop (block_by_hash s) (block_hash E old)) (block_hash E b) (b_index b),
       chain_list := (if b_index b < int (length (chain_list s)) then (chain_list s)[nat (b_index b) := b]
                      else chain_list s),
       latest_block := Some b\<rparr>"

definition genesis_txs :: "env \<Rightarrow> string \<Rightarrow> bytes \<Rightarrow> bytes \<Rightarrow> int \<Rightarrow> transaction list" where
  "genesis_txs E validator_address sk pk now =
     (if pk = [] then []
      else [tx_sign E (mk_register_validator validator_address pk validator_address 0 0 0 now) sk pk])"

definition auto_stake :: "string \<Rightarrow> 'a staking_scheme \<Rightarrow> 'a staking_scheme" where
  "auto_stake v s =
     s\<lparr>stakes := dset (stakes s) v (dset (dget_or (stakes s) v []) v MIN_STAKE),
       total_stake := dset (total_stake s) v MIN_STAKE\<rparr>"

definition stamp_genesis :: "env \<Rightarrow> bytes \<Rightarrow> block \<Rightarrow> 'a chain_scheme \<Rightarrow> 'a chain_scheme" where
  "stamp_genesis E sk genesis s =
     (let (sroot, s1) = state_root E s; g = stamp E sk sroot (last_receipts_root s1) genesis
      in (replace_block E genesis g s1)\<lparr>poa_genesis_hash := block_hash E g\<rparr>)"

definition init_chain :: "env \<Rightarrow> int \<Rightarrow> string \<Rightarrow> bytes \<Rightarrow> bytes \<Rightarrow> ('a chain_scheme) act" where
  "init_chain E now validator_address sk validator_pk s =
     (if height s \<ge> 0 then (None, s)
      else
        (let pk = (if validator_pk \<noteq> [] then validator_pk else dget_or (poa_validators s) validator_address []);
             genesis = block_sign E (genesis_block E validator_address
                         (genesis_txs E validator_address sk pk now) now) sk
         in run_all
              [append_block E genesis,
               when_do (validator_pk \<noteq> []) (pure (auto_stake validator_address)),
               pure (stamp_genesis E sk genesis)] s))"

text \<open>\<open>consensus.set_genesis_hash\<close>: from then on only this genesis block is accepted.\<close>

definition set_genesis_hash :: "string \<Rightarrow> 'a registry_scheme \<Rightarrow> 'a registry_scheme" where
  "set_genesis_hash h s = s\<lparr>poa_genesis_hash := h\<rparr>"

section \<open>Choosing the transactions of a block\<close>

text \<open>Under dynamic fees: the pool's transactions that offer the base fee, grouped by sender.\<close>

definition eligible :: "int \<Rightarrow> transaction list \<Rightarrow> transaction list" where
  "eligible base_fee = filter (\<lambda>tx. TX_WEIGHTS (tx_type tx) = 0 \<or> tx_max_fee tx \<ge> base_fee)"

definition sender_queues :: "transaction list \<Rightarrow> (string, transaction list) dict" where
  "sender_queues txs =
     map (\<lambda>(a, q). (a, sort_key tx_nonce q)) (fold (\<lambda>tx d. dappend d (tx_sender tx) tx) txs [])"

text \<open>The best effective priority among a sender's weighted transactions.\<close>

definition sender_priority :: "int \<Rightarrow> transaction list \<Rightarrow> int" where
  "sender_priority base_fee q =
     fold (\<lambda>tx best. if TX_WEIGHTS (tx_type tx) > 0
             then max best (max 0 (min (tx_max_prio tx) (tx_max_fee tx - base_fee))) else best) q 0"

definition sorted_senders :: "int \<Rightarrow> (string, transaction list) dict \<Rightarrow> string list" where
  "sorted_senders base_fee queues =
     sort_key (\<lambda>a. - sender_priority base_fee (dget_or queues a [])) (dkeys queues)"

text \<open>The inner loop: it stops at the first transaction of the queue that does not fit.\<close>

fun take_queue :: "transaction list \<Rightarrow> transaction list \<times> int \<Rightarrow> transaction list \<times> int" where
  "take_queue [] acc = acc"
| "take_queue (tx # q) (txs, total_weight) =
     (let w = TX_WEIGHTS (tx_type tx)
      in if length txs \<ge> MAX_TX_PER_BLOCK \<or> total_weight + w > MAX_BLOCK_WEIGHT then (txs, total_weight)
         else take_queue q (txs @ [tx], total_weight + w))"

definition select_dynamic :: "int \<Rightarrow> transaction list \<Rightarrow> transaction list" where
  "select_dynamic base_fee pool_txs =
     (let queues = sender_queues (eligible base_fee pool_txs)
      in fst (fold (\<lambda>a. take_queue (dget_or queues a [])) (sorted_senders base_fee queues) ([], 0)))"

section \<open>Block production\<close>

definition select_txs :: "env \<Rightarrow> block \<Rightarrow> 'a pool_scheme \<Rightarrow> transaction list \<times> int" where
  "select_txs E parent s =
     (let next_idx = b_index parent + 1
      in if dynamic_at E next_idx
         then (let base_fee = next_base_fee E next_idx parent in (select_dynamic base_fee (tx_pool s), base_fee))
         else (take MAX_TX_PER_BLOCK (tx_pool s), 0))"

text \<open>After the block was applied: stamp it, put the stamped block in place, drain the pool.\<close>

definition finish_block :: "env \<Rightarrow> bytes \<Rightarrow> block \<Rightarrow> 'a chain_scheme \<Rightarrow> block \<times> 'a chain_scheme" where
  "finish_block E sk b s =
     (let b' = stamp E sk (last_state_root s) (last_receipts_root s) b
      in (b', drain_pool E b' (replace_block E b b' s)))"

definition build_block :: "env \<Rightarrow> int \<Rightarrow> string \<Rightarrow> bytes \<Rightarrow> block \<Rightarrow> 'a pool_scheme \<Rightarrow> block" where
  "build_block E now validator_address sk parent s =
     block_sign E
       (mk_block E (b_index parent + 1) (block_hash E parent) (fst (select_txs E parent s)) validator_address
          (max now (b_timestamp parent + 1)) [] (snd (select_txs E parent s)) [] []) sk"

definition produce_block ::
    "env \<Rightarrow> int \<Rightarrow> string \<Rightarrow> bytes \<Rightarrow> 'a chain_scheme \<Rightarrow> (exn + block option) \<times> 'a chain_scheme" where
  "produce_block E now validator_address sk s =
     (case latest_block s of
        None \<Rightarrow> (Inr None, s)
      | Some parent \<Rightarrow>
          (let next_idx = b_index parent + 1;
               expected = the_default [] (select_validator E s now next_idx None (block_hash E parent) None);
               b = build_block E now validator_address sk parent s
           in if height s < 0 then (Inr None, s)
              else if expected \<noteq> [] \<and> expected \<noteq> validator_address then (Inr None, s)
              else if is_key_revoked s validator_address ''signing'' then (Inr None, s)
              else if b_txs b = [] \<and> \<not> dynamic_at E next_idx then (Inr None, s)
              else
                (case validate_block E s now b (Some parent) of
                   Raise e \<Rightarrow> (Inl e, s)
                 | Fail _ \<Rightarrow> (Inr None, s)
                 | Ok _ \<Rightarrow>
                     (case append_block E b s of
                        (Some e, t) \<Rightarrow> (Inl e, t)
                      | (None, t) \<Rightarrow> (case finish_block E sk b t of (b', u) \<Rightarrow> (Inr (Some b'), u))))))"

section \<open>Blocks from the network\<close>

definition evaluate_fork :: "block \<Rightarrow> outcome" where
  "evaluate_fork b =
     Fail (Msg ''first-seen wins: already have block at index {}, use try_reorg() with a longer fork chain''
       [PInt (b_index b)])"

definition add_block :: "env \<Rightarrow> int \<Rightarrow> block \<Rightarrow> 'a chain_scheme \<Rightarrow> outcome \<times> 'a chain_scheme" where
  "add_block E now b s =
     (let expected_index = height s + 1
      in if dmem (block_hash E b) (block_by_hash s) then (Fail (Msg ''already have this block'' []), s)
         else if b_index b = expected_index
         then
           (case validate_block E s now b (if b_index b > 0 then latest_block s else None) of
              Ok _ \<Rightarrow>
                (if b_index b > 0 \<and> b_state_root b = []
                 then (Fail (Msg ''missing state_root: received blocks must include state_root'' []), s)
                 else
                   (case append_block E b s of
                      (None, t) \<Rightarrow> (Ok [], drain_pool E b t)
                    | (Some (ValueError m), t) \<Rightarrow> (Fail m, t)
                    | (Some e, t) \<Rightarrow> (Raise e, t)))
            | r \<Rightarrow> (r, s))
         else if 0 < b_index b \<and> b_index b < expected_index then (evaluate_fork b, s)
         else (Fail (Msg ''out-of-order block: expected index {}, got {}''
                 [PInt expected_index, PInt (b_index b)]), s))"

section \<open>Reorganization\<close>

text \<open>The checks before anything is touched, and the common ancestor.\<close>

definition reorg_ancestor :: "env \<Rightarrow> block list \<Rightarrow> 'a registry_scheme \<Rightarrow> msg + block" where
  "reorg_ancestor E fork_blocks s =
     (case fork_blocks of
        [] \<Rightarrow> Inl (Msg ''empty fork'' [])
      | fb # _ \<Rightarrow>
          (let fork_start = b_index fb; chain_len = height s + 1; depth = chain_len - fork_start
           in if fork_start = 0 \<or> fork_start > chain_len then Inl (Msg ''invalid fork start'' [])
              else if depth > MAX_REORG_DEPTH
              then Inl (Msg ''reorg too deep: {} > {}'' [PInt depth, PInt MAX_REORG_DEPTH])
              else
                (case get_block_by_index s (fork_start - 1) of
                   None \<Rightarrow> Inl (Msg ''common ancestor not found'' [])
                 | Some ancestor \<Rightarrow>
                     (if b_prev_hash fb \<noteq> block_hash E ancestor
                      then Inl (Msg (''fork doesn'' @ [CHR 0x27] @ ''t connect to our chain'') [])
                      else if int (length fork_blocks) \<le> depth
                      then Inl (Msg ''fork not longer: {} blocks vs our {} blocks (first-seen wins on tie)''
                             [PInt (int (length fork_blocks)), PInt depth])
                      else Inr ancestor))))"

text \<open>
  The state put back when the rolled-back trie does not match the ancestor's snapshot. The restored
  \<open>_sender_nonce\<close> is a new dict: consensus keeps the one the rollback has changed.
\<close>

definition restore_saved :: "'a chain_scheme \<Rightarrow> int \<Rightarrow> block list \<Rightarrow> 'a chain_scheme \<Rightarrow> 'a chain_scheme" where
  "restore_saved saved fork_start saved_chain t =
     t\<lparr>stale_nonces := (case stale_nonces t of None \<Rightarrow> Some (sender_nonce t) | Some d \<Rightarrow> Some d),
       balances := balances saved, sender_nonce := sender_nonce saved, total_minted := total_minted saved,
       total_burned := total_burned saved, stakes := stakes saved, total_stake := total_stake saved,
       unbonding := unbonding saved, state_trie := trie_restore (state_trie t) (trie_snapshot (state_trie saved)),
       height := height saved, latest_block := latest_block saved, state_snapshots := state_snapshots saved,
       token_registry := token_registry saved, token_balances := token_balances saved,
       token_by_symbol := token_by_symbol saved, holders_by_token := holders_by_token saved,
       tokens_by_address := tokens_by_address saved,
       chain_list := take (nat fork_start) (chain_list t) @ saved_chain\<rparr>"

text \<open>Does the rolled-back trie match the ancestor's snapshot? Its root is computed, hence cached.\<close>

definition check_ancestor :: "env \<Rightarrow> int \<Rightarrow> 'a chain_scheme \<Rightarrow> (string \<times> string) option \<times> 'a chain_scheme" where
  "check_ancestor E ancestor_idx t =
     (case dget (state_snapshots t) ancestor_idx of
        None \<Rightarrow> (None, t)
      | Some snap \<Rightarrow>
          (let expected_root = hex (fst (trie_root (sha3 E) (trie_restore trie_init snap)));
               (root, t1) = state_root E t
           in (if root \<noteq> expected_root then Some (expected_root, root) else None, t1)))"

text \<open>Undo the fork blocks applied so far, then put the original blocks back.\<close>

definition abandon_fork ::
    "env \<Rightarrow> int \<Rightarrow> block list \<Rightarrow> bool \<Rightarrow> msg \<Rightarrow> 'a chain_scheme \<Rightarrow> outcome \<times> 'a chain_scheme" where
  "abandon_fork E fork_start saved_chain applied m t =
     (case (if applied then rollback_to E fork_start t else (Inr [], t)) of
        (Inl e, u) \<Rightarrow> (Raise e, u)
      | (Inr _, u) \<Rightarrow>
          (case run_all (map (append_block E) saved_chain) u of
             (Some e, v) \<Rightarrow> (Raise e, v)
           | (None, v) \<Rightarrow> (Fail m, v)))"

fun apply_fork ::
    "env \<Rightarrow> int \<Rightarrow> int \<Rightarrow> block list \<Rightarrow> block option \<Rightarrow> bool \<Rightarrow> block list \<Rightarrow> 'a chain_scheme \<Rightarrow> outcome \<times> 'a chain_scheme" where
  "apply_fork E now fork_start saved_chain parent applied [] t = (Ok [], t)"
| "apply_fork E now fork_start saved_chain parent applied (fb # fbs) t =
     (if b_index fb > 0 \<and> b_state_root fb = []
      then abandon_fork E fork_start saved_chain applied
             (Msg ''fork block #{} missing state_root'' [PInt (b_index fb)]) t
      else
        (case validate_block E t now fb parent of
           Raise e \<Rightarrow> (Raise e, t)
         | Fail (Msg f as) \<Rightarrow>
             abandon_fork E fork_start saved_chain applied
               (Msg (''fork block #{} invalid: '' @ f) (PInt (b_index fb) # as)) t
         | Ok _ \<Rightarrow>
             (case append_block E fb t of
                (None, u) \<Rightarrow> apply_fork E now fork_start saved_chain (Some fb) True fbs u
              | (Some (ValueError (Msg f as)), u) \<Rightarrow>
                  abandon_fork E fork_start saved_chain applied
                    (Msg (''fork block #{} rejected: '' @ f) (PInt (b_index fb) # as)) u
              | (Some e, u) \<Rightarrow> (Raise e, u))))"

text \<open>A displaced transaction returns to the pool when it is the sender's next; no type count moves.\<close>

definition readmit :: "env \<Rightarrow> string set \<Rightarrow> transaction \<Rightarrow> 'a pool_scheme \<Rightarrow> 'a pool_scheme" where
  "readmit E mined tx s =
     (let i = tx_id E tx; pending = dget_or (pool_sender_count s) (tx_sender tx) 0
      in if i \<in> mined \<or> dmem i (tx_by_id s) then s
         else if tx_nonce tx = get_next_nonce s (tx_sender tx) + pending
         then s\<lparr>tx_pool := tx_pool s @ [tx], pool_ids := insert i (pool_ids s),
                pool_sender_count := dset (pool_sender_count s) (tx_sender tx) (pending + 1),
                pending_debits_cache :=
                  dset (pending_debits_cache s) (tx_sender tx)
                    (dget_or (pending_debits_cache s) (tx_sender tx) 0 + calc_tx_debit E (height s + 1) s tx)\<rparr>
         else s)"

definition readmit_all :: "env \<Rightarrow> block list \<Rightarrow> transaction list \<Rightarrow> 'a pool_scheme \<Rightarrow> 'a pool_scheme" where
  "readmit_all E fork_blocks displaced s =
     (let mined = tx_id E ` set (concat (map b_txs fork_blocks))
      in rebuild_pending_debits_cache E
           (fold (readmit E mined) (sort_key (\<lambda>tx. (tx_sender tx, tx_nonce tx)) displaced) s))"

definition try_reorg :: "env \<Rightarrow> int \<Rightarrow> block list \<Rightarrow> 'a chain_scheme \<Rightarrow> outcome \<times> 'a chain_scheme" where
  "try_reorg E now fork_blocks s =
     (case reorg_ancestor E fork_blocks s of
        Inl m \<Rightarrow> (Fail m, s)
      | Inr ancestor \<Rightarrow>
          (let fork_start = b_index (hd fork_blocks);
               saved_chain = get_blocks_range s fork_start (height s + 1)
           in case rollback_to E fork_start s of
                (Inl e, t) \<Rightarrow> (Raise e, t)
              | (Inr displaced, t) \<Rightarrow>
                  (case check_ancestor E (fork_start - 1) t of
                     (Some (expected_root, root), t1) \<Rightarrow>
                       (Fail (Msg ''state root mismatch after rollback: expected {}..., got {}...''
                          [PStr (take 16 expected_root), PStr (take 16 root)]),
                        restore_saved s fork_start saved_chain t1)
                   | (None, t1) \<Rightarrow>
                       (case apply_fork E now fork_start saved_chain (latest_block t1) False fork_blocks t1 of
                          (Ok _, u) \<Rightarrow>
                            (let v = readmit_all E fork_blocks displaced u
                             in (Ok (''reorg complete: '' @ int_str fork_start @ '' -> '' @ int_str (height v)), v))
                        | r \<Rightarrow> r))))"

end
