(* ===== verification/Sync.thy ===== *)
theory Sync
  imports HttpText P2P Node
begin

text \<open>
  \<open>network/sync.py\<close>, the state of a \<open>SyncManager\<close> and its operations that do not wait: the transition
  table, the table of pending responses, the heights peers report, the choice of a source. The
  constants \<open>SYNC_\<dots>\<close> are imported from \<open>config.py\<close>, which does not define them: they are the
  parameter \<open>sync_limits\<close>. A future is \<open>None\<close> while it waits. Counters of statistics are left out.
\<close>

record sync_limits =
  sl_batch :: int
  sl_block_batch :: nat
  sl_timeout :: rat
  sl_threshold :: int
  sl_parallel :: nat
  sl_retries :: int
  sl_checkpoint :: int
  sl_cross_peers :: nat

datatype sync_state = Idle | Header_sync | Block_sync | Synced

fun transitions :: "sync_state \<Rightarrow> sync_state set" where
  "transitions Idle = {Header_sync}"
| "transitions Header_sync = {Block_sync, Idle}"
| "transitions Block_sync = {Synced, Header_sync}"
| "transitions Synced = {Header_sync, Idle}"

record sync =
  sy_state :: sync_state
  sy_target :: int
  sy_source :: string
  sy_queue :: "fields list"
  sy_checkpoint :: int
  sy_running :: bool
  sy_responses :: "(string, pyval option) dict"
  sy_timestamps :: "(string, rat) dict"
  sy_executor :: bool
  sy_fork_source :: string

definition new_sync :: sync where
  "new_sync =
     \<lparr>sy_state = Idle, sy_target = - 1, sy_source = [], sy_queue = [], sy_checkpoint = - 1,
      sy_running = False, sy_responses = [], sy_timestamps = [], sy_executor = False, sy_fork_source = []\<rparr>"

text \<open>\<open>_transition\<close>: a transition the table does not list changes nothing.\<close>

definition transition :: "sync_state \<Rightarrow> sync \<Rightarrow> bool \<times> sync" where
  "transition new_state s =
     (if new_state \<notin> transitions (sy_state s) then (False, s) else (True, s\<lparr>sy_state := new_state\<rparr>))"

definition is_syncing :: "sync \<Rightarrow> bool" where
  "is_syncing s \<longleftrightarrow> sy_state s \<in> {Header_sync, Block_sync}"

definition sync_start :: "sync \<Rightarrow> sync" where
  "sync_start s = (if sy_running s then s else s\<lparr>sy_running := True, sy_executor := True\<rparr>)"

definition sync_stop :: "sync \<Rightarrow> sync" where
  "sync_stop s = s\<lparr>sy_running := False, sy_responses := [], sy_timestamps := [], sy_executor := False\<rparr>"

fun state_name :: "sync_state \<Rightarrow> string" where
  "state_name Idle = ''idle''"
| "state_name Header_sync = ''header_sync''"
| "state_name Block_sync = ''block_sync''"
| "state_name Synced = ''synced''"

text \<open>\<open>progress\<close> without the float \<open>percent\<close> and the statistics.\<close>

definition sync_progress :: "int \<Rightarrow> sync \<Rightarrow> fields" where
  "sync_progress local_h s =
     [(''state'', PStr (state_name (sy_state s))), (''local_height'', PInt local_h),
      (''target_height'', PInt (max (sy_target s) local_h)),
      (''headers_queued'', PInt (int (length (sy_queue s)))), (''sync_source'', PStr (sy_source s))]"

section \<open>Pending responses\<close>

definition begin_request :: "rat \<Rightarrow> string \<Rightarrow> sync \<Rightarrow> sync" where
  "begin_request now rid s =
     s\<lparr>sy_responses := dset (sy_responses s) rid None, sy_timestamps := dset (sy_timestamps s) rid now\<rparr>"

definition end_request :: "string \<Rightarrow> sync \<Rightarrow> sync" where
  "end_request rid s = s\<lparr>sy_responses := dpop (sy_responses s) rid, sy_timestamps := dpop (sy_timestamps s) rid\<rparr>"

text \<open>
  \<open>on_headers_response\<close>, \<open>on_block_bodies_response\<close>, \<open>on_chain_info_response\<close>: the first response wins.
  An unhashable request_id raises TypeError, data that is no dict AttributeError.
\<close>

definition on_response :: "pyval \<Rightarrow> sync act" where
  "on_response data s =
     (if \<not> is_dict data then (Some AttributeError, s)
      else (let rid = dget_or (dict_of_py data) ''request_id'' PNone
            in if \<not> truthy rid then (None, s)
               else if \<not> hashable rid then (Some TypeError, s)
               else if is_str rid \<and> dget (sy_responses s) (str_of_py rid) = Some None
               then (None, s\<lparr>sy_responses := dset (sy_responses s) (str_of_py rid) (Some data)\<rparr>)
               else (None, s)))"

definition on_peer_status :: "int \<Rightarrow> sync \<Rightarrow> sync" where
  "on_peer_status h s = (if h > sy_target s then s\<lparr>sy_target := h\<rparr> else s)"

definition cleanup_stale_pending :: "sync_limits \<Rightarrow> rat \<Rightarrow> sync \<Rightarrow> sync" where
  "cleanup_stale_pending L now s =
     (let stale_ids = map fst (filter (\<lambda>(rid, ts). ts < now - sl_timeout L * 3) (sy_timestamps s))
      in fold end_request stale_ids s)"

section \<open>Peers\<close>

definition live_peers :: "p2p_node \<Rightarrow> nat list" where
  "live_peers P =
     map snd (filter (\<lambda>(k, i). pr_connected (pn_peer P i) \<and> pr_height (pn_peer P i) \<ge> 0) (pn_peers P))"

text \<open>
  \<open>_select_sync_source\<close> and \<open>_get_sync_peers\<close> sort by \<open>self._p2p.reputation.score(p.addr)\<close>, a method
  \<open>PeerReputation\<close> does not have: as soon as there is a peer to choose, AttributeError is raised.
\<close>

definition select_sync_source :: "p2p_node \<Rightarrow> exn + nat option" where
  "select_sync_source P = (if live_peers P = [] then Inr None else Inl AttributeError)"

definition get_sync_peers :: "p2p_node \<Rightarrow> exn + nat list" where
  "get_sync_peers P = (if live_peers P = [] then Inr [] else Inl AttributeError)"

definition get_peer :: "string \<Rightarrow> p2p_node \<Rightarrow> nat option" where
  "get_peer addr P =
     (case dget (pn_peers P) addr of
        Some i \<Rightarrow> if pr_connected (pn_peer P i) then Some i else None
      | None \<Rightarrow> None)"

section \<open>Waiting for peers\<close>

definition choose_source :: "p2p_node \<Rightarrow> sync \<Rightarrow> (exn + bool) \<times> sync" where
  "choose_source P s =
     (case select_sync_source P of
        Inl e \<Rightarrow> (Inl e, s)
      | Inr None \<Rightarrow> (Inr False, s)
      | Inr (Some i) \<Rightarrow>
          (Inr True, snd (transition Header_sync
             (s\<lparr>sy_source := peer_addr (pn_peer P i), sy_target := pr_height (pn_peer P i)\<rparr>))))"

text \<open>\<open>_check_peers\<close> and \<open>_follow_tip\<close>, from the end of their first sleep.\<close>

definition check_peers :: "sync_limits \<Rightarrow> int \<Rightarrow> p2p_node \<Rightarrow> sync act" where
  "check_peers L local_height P s =
     (let best_height = best_peer_height P;
          settle = (\<lambda>s. if 0 \<le> best_height \<and> best_height \<le> local_height + sl_threshold L
                           \<and> connected_count P > 0
                        then s\<lparr>sy_state := Synced\<rparr> else s)
      in if best_height > local_height + sl_threshold L
         then (case choose_source P s of
                 (Inl e, t) \<Rightarrow> (Some e, t)
               | (Inr True, t) \<Rightarrow> (None, t)
               | (Inr False, t) \<Rightarrow> (None, settle t))
         else (None, settle s))"

definition follow_tip :: "sync_limits \<Rightarrow> int \<Rightarrow> p2p_node \<Rightarrow> sync act" where
  "follow_tip L local_height P s =
     (let best_height = best_peer_height P;
          lonely = (\<lambda>s. if connected_count P = 0 then snd (transition Idle s) else s)
      in if best_height > local_height + sl_threshold L
         then (case choose_source P s of
                 (Inl e, t) \<Rightarrow> (Some e, t)
               | (Inr True, t) \<Rightarrow> (None, t)
               | (Inr False, t) \<Rightarrow> (None, lonely t))
         else (None, lonely s))"

end
