(* ===== verification/WebSocket.thy ===== *)
theory WebSocket
  imports HttpText Complex_Main
begin

text \<open>
  \<open>network/websocket.py\<close>: subscriptions of WebSocket clients to channels. A client is the number
  \<open>id(ws)\<close>. \<open>ws_inbox\<close> records what was handed to a client's socket. A broadcast works on a snapshot
  of the subscribers and drops the dead ones at its end, with other tasks in between, so it is two
  operations. What a socket does (sent, closed, timed out, broken) is an argument; \<open>time.monotonic()\<close>
  is a rational argument; the upgrade of the connection and heartbeats belong to aiohttp.
\<close>

section \<open>State\<close>

definition MAX_WS_CONNECTIONS :: nat where "MAX_WS_CONNECTIONS = 100"
definition MAX_SUBSCRIPTIONS_PER_CLIENT :: nat where "MAX_SUBSCRIPTIONS_PER_CLIENT = 10"
definition WS_RATE_LIMIT :: nat where "WS_RATE_LIMIT = 10"
definition VALID_CHANNELS :: "string list" where
  "VALID_CHANNELS = [''new_block'', ''new_tx'', ''chain_stats'', ''finalized'']"

record ws_manager =
  ws_subscribers :: "(string, nat set) dict"
  ws_client_channels :: "(nat, string set) dict"
  ws_clients :: "nat set"
  ws_client_rate :: "(nat, rat list) dict"
  ws_inbox :: "nat \<Rightarrow> (string \<times> pyval) list list"

definition new_ws_manager :: ws_manager where
  "new_ws_manager =
     \<lparr>ws_subscribers = map (\<lambda>ch. (ch, {})) VALID_CHANNELS, ws_client_channels = [], ws_clients = {},
      ws_client_rate = [], ws_inbox = (\<lambda>_. [])\<rparr>"

definition subscribers :: "ws_manager \<Rightarrow> string \<Rightarrow> nat set" where
  "subscribers s ch = dget_or (ws_subscribers s) ch {}"

definition channels_of :: "ws_manager \<Rightarrow> nat \<Rightarrow> string set" where
  "channels_of s w = dget_or (ws_client_channels s) w {}"

definition ws_connected_count :: "ws_manager \<Rightarrow> nat" where
  "ws_connected_count s = card (ws_clients s)"

section \<open>Subscriptions\<close>

definition add_subscriber :: "nat \<Rightarrow> string \<Rightarrow> ws_manager \<Rightarrow> (bool \<times> msg) \<times> ws_manager" where
  "add_subscriber w ch s =
     (if ch \<notin> set VALID_CHANNELS then ((False, Msg ''unknown channel: {}'' [PStr ch]), s)
      else if ch \<in> channels_of s w then ((False, Msg ''already subscribed to {}'' [PStr ch]), s)
      else if card (channels_of s w) \<ge> MAX_SUBSCRIPTIONS_PER_CLIENT
      then ((False, Msg ''max subscriptions ({}) reached'' [PInt (int MAX_SUBSCRIPTIONS_PER_CLIENT)]), s)
      else ((True, Msg ''subscribed to {}'' [PStr ch]),
            s\<lparr>ws_subscribers := dset (ws_subscribers s) ch (insert w (subscribers s ch)),
              ws_client_channels := dset (ws_client_channels s) w (insert ch (channels_of s w))\<rparr>))"

definition remove_subscriber :: "nat \<Rightarrow> string \<Rightarrow> ws_manager \<Rightarrow> (bool \<times> msg) \<times> ws_manager" where
  "remove_subscriber w ch s =
     (if ch \<notin> set VALID_CHANNELS then ((False, Msg ''unknown channel: {}'' [PStr ch]), s)
      else if ch \<notin> channels_of s w then ((False, Msg ''not subscribed to {}'' [PStr ch]), s)
      else ((True, Msg ''unsubscribed from {}'' [PStr ch]),
            s\<lparr>ws_subscribers := dset (ws_subscribers s) ch (subscribers s ch - {w}),
              ws_client_channels := dset (ws_client_channels s) w (channels_of s w - {ch})\<rparr>))"

definition remove_all :: "nat \<Rightarrow> ws_manager \<Rightarrow> ws_manager" where
  "remove_all w s =
     s\<lparr>ws_subscribers := map (\<lambda>(ch, ws). (ch, if ch \<in> channels_of s w then ws - {w} else ws)) (ws_subscribers s),
       ws_client_channels := dpop (ws_client_channels s) w,
       ws_clients := ws_clients s - {w},
       ws_client_rate := dpop (ws_client_rate s) w\<rparr>"

section \<open>Rate limit\<close>

definition ws_check_rate :: "rat \<Rightarrow> nat \<Rightarrow> ws_manager \<Rightarrow> bool \<times> ws_manager" where
  "ws_check_rate now w s =
     (let timestamps = filter (\<lambda>t. t > now - 1) (dget_or (ws_client_rate s) w []) @ [now]
      in (length timestamps \<le> WS_RATE_LIMIT, s\<lparr>ws_client_rate := dset (ws_client_rate s) w timestamps\<rparr>))"

section \<open>Broadcast\<close>

datatype socket = Delivered | Was_closed | Timed_out | Broken

definition event_message :: "string \<Rightarrow> (string \<times> pyval) list \<Rightarrow> (string \<times> pyval) list" where
  "event_message ch data = [(''type'', PStr ''event''), (''channel'', PStr ch), (''data'', PDict data)]"

definition put_inbox :: "nat set \<Rightarrow> (string \<times> pyval) list \<Rightarrow> ws_manager \<Rightarrow> ws_manager" where
  "put_inbox ws m s = s\<lparr>ws_inbox := (\<lambda>w. if w \<in> ws then ws_inbox s w @ [m] else ws_inbox s w)\<rparr>"

text \<open>The sends of a broadcast: the clients found dead, and the new state.\<close>

definition ws_send :: "(nat \<Rightarrow> socket) \<Rightarrow> string \<Rightarrow> (string \<times> pyval) list \<Rightarrow> ws_manager \<Rightarrow> nat set \<times> ws_manager" where
  "ws_send sock ch data s =
     (let subs = subscribers s ch
      in ({w \<in> subs. sock w \<noteq> Delivered}, put_inbox {w \<in> subs. sock w = Delivered} (event_message ch data) s))"

definition ws_drop :: "nat list \<Rightarrow> ws_manager \<Rightarrow> ws_manager" where
  "ws_drop dead s = fold remove_all dead s"

definition ws_stop :: "ws_manager \<Rightarrow> ws_manager" where
  "ws_stop s =
     s\<lparr>ws_clients := {}, ws_client_channels := [], ws_client_rate := [],
       ws_subscribers := map (\<lambda>(ch, ws). (ch, {})) (ws_subscribers s)\<rparr>"

section \<open>The handler of a connection\<close>

text \<open>\<open>_check_ws_auth\<close>: comparing a token that is not ASCII raises.\<close>

definition check_ws_auth :: "string \<Rightarrow> string \<Rightarrow> exn + bool" where
  "check_ws_auth expected auth =
     (if expected = [] then Inr True
      else if \<not> starts_with auth ''Bearer '' then Inr False
      else (let token = strip (drop 7 auth)
            in if token = [] then Inr False else compare_digest token expected))"

text \<open>Before the upgrade, and after it: the count is not checked again.\<close>

definition ws_admits :: "string \<Rightarrow> string \<Rightarrow> ws_manager \<Rightarrow> exn + bool" where
  "ws_admits expected auth s =
     and_then (check_ws_auth expected auth) (\<lambda>ok. Inr (ok \<and> ws_connected_count s < MAX_WS_CONNECTIONS))"

definition ws_join :: "nat \<Rightarrow> ws_manager \<Rightarrow> ws_manager" where
  "ws_join w s = s\<lparr>ws_clients := insert w (ws_clients s)\<rparr>"

definition ws_reply :: "nat \<Rightarrow> (string \<times> pyval) list \<Rightarrow> ws_manager \<Rightarrow> ws_manager" where
  "ws_reply w m s = put_inbox {w} m s"

definition ws_error :: "nat \<Rightarrow> msg \<Rightarrow> ws_manager \<Rightarrow> ws_manager" where
  "ws_error w m s = ws_reply w [(''type'', PStr ''error''), (''message'', PStr (msg_text m))] s"

definition answer :: "string \<Rightarrow> nat \<Rightarrow> string \<Rightarrow> (bool \<times> msg) \<times> ws_manager \<Rightarrow> ws_manager" where
  "answer word w ch r =
     (case r of ((True, m), t) \<Rightarrow> ws_reply w [(''type'', PStr word), (''channel'', PStr ch)] t
              | ((False, m), t) \<Rightarrow> ws_error w m t)"

definition ws_command :: "nat \<Rightarrow> (string \<times> pyval) list \<Rightarrow> ws_manager \<Rightarrow> ws_manager" where
  "ws_command w data s =
     (let msg_type = dget_or data ''type'' PNone; channel = dget_or data ''channel'' PNone;
          bad_channel = ws_error w (Msg ''missing or invalid 'channel' field'' []) s
      in if \<not> is_str msg_type then ws_error w (Msg ''missing or invalid 'type' field'' []) s
         else if msg_type = PStr ''ping'' then ws_reply w [(''type'', PStr ''pong'')] s
         else if msg_type = PStr ''subscribe''
         then (if \<not> is_str channel then bad_channel
               else answer ''subscribed'' w (str_of_py channel) (add_subscriber w (str_of_py channel) s))
         else if msg_type = PStr ''unsubscribe''
         then (if \<not> is_str channel then bad_channel
               else answer ''unsubscribed'' w (str_of_py channel) (remove_subscriber w (str_of_py channel) s))
         else ws_error w (Msg ''unknown message type: {}'' [msg_type]) s)"

text \<open>One text message; \<open>None\<close>: \<open>json.loads\<close> refuses it.\<close>

definition ws_text :: "rat \<Rightarrow> nat \<Rightarrow> pyval option \<Rightarrow> ws_manager \<Rightarrow> ws_manager" where
  "ws_text now w parsed s =
     (case ws_check_rate now w s of
        (False, t) \<Rightarrow> ws_error w (Msg ''rate limit exceeded'' []) t
      | (True, t) \<Rightarrow>
          (case parsed of
             None \<Rightarrow> ws_error w (Msg ''invalid JSON'' []) t
           | Some data \<Rightarrow>
               if is_dict data then ws_command w (dict_of_py data) t
               else ws_error w (Msg ''message must be a JSON object'' []) t))"

section \<open>The subscriptions\<close>

text \<open>What the manager promises: a set of (client, channel) pairs, and an inbox per client.\<close>

definition subscriptions :: "ws_manager \<Rightarrow> (nat \<times> string) set" where
  "subscriptions s = {(w, ch). w \<in> subscribers s ch}"

definition ws_ok :: "ws_manager \<Rightarrow> bool" where
  "ws_ok s \<longleftrightarrow> map fst (ws_subscribers s) = VALID_CHANNELS
     \<and> (\<forall>w ch. w \<in> subscribers s ch \<longleftrightarrow> ch \<in> channels_of s w)"

lemma valid_distinct: "distinct VALID_CHANNELS"
  by (simp add: VALID_CHANNELS_def)

lemma new_ws_ok: "ws_ok new_ws_manager" "subscriptions new_ws_manager = {}"
  by (auto simp: ws_ok_def subscriptions_def new_ws_manager_def subscribers_def channels_of_def VALID_CHANNELS_def dget_or_Cons)

lemma keys_dset: "k \<in> set (map fst d) \<Longrightarrow> map fst (dset d k v) = map fst d"
  by (induction d) auto

lemma channels_valid:
  assumes "ws_ok s"
  shows "channels_of s w \<subseteq> set VALID_CHANNELS"
proof
  fix ch assume "ch \<in> channels_of s w"
  then have "w \<in> subscribers s ch" using assms by (simp add: ws_ok_def)
  then have "ch \<in> fst ` set (ws_subscribers s)"
    unfolding subscribers_def by (rule contrapos_pp) simp
  then show "ch \<in> set VALID_CHANNELS" using assms by (metis list.set_map ws_ok_def)
qed

text \<open>A client never reaches the limit on subscriptions: there are four channels.\<close>

lemma below_limit:
  assumes "ws_ok s"
  shows "card (channels_of s w) < MAX_SUBSCRIPTIONS_PER_CLIENT"
proof -
  have "card (channels_of s w) \<le> card (set VALID_CHANNELS)"
    by (rule card_mono) (use channels_valid[OF assms] in simp_all)
  also have "\<dots> < MAX_SUBSCRIPTIONS_PER_CLIENT"
    by (simp add: VALID_CHANNELS_def MAX_SUBSCRIPTIONS_PER_CLIENT_def)
  finally show ?thesis .
qed

lemma ws_views [simp]:
  "subscribers (put_inbox ws m s) = subscribers s" "channels_of (put_inbox ws m s) = channels_of s"
  "subscribers (ws_join w s) = subscribers s" "channels_of (ws_join w s) = channels_of s"
  "ws_subscribers (put_inbox ws m s) = ws_subscribers s" "ws_subscribers (ws_join w s) = ws_subscribers s"
  by (simp_all add: put_inbox_def ws_join_def subscribers_def channels_of_def fun_eq_iff)

lemma ws_ok_views [simp]:
  "ws_ok (put_inbox ws m s) = ws_ok s" "subscriptions (put_inbox ws m s) = subscriptions s"
  "ws_ok (ws_join w s) = ws_ok s" "subscriptions (ws_join w s) = subscriptions s"
  by (simp_all add: ws_ok_def subscriptions_def)

lemma ws_reply_views [simp]:
  "ws_ok (ws_reply w m s) = ws_ok s" "subscriptions (ws_reply w m s) = subscriptions s"
  "ws_ok (ws_error w e s) = ws_ok s" "subscriptions (ws_error w e s) = subscriptions s"
  by (simp_all add: ws_reply_def ws_error_def)

lemma rate_views [simp]:
  "ws_ok (snd (ws_check_rate now w s)) = ws_ok s"
  "subscriptions (snd (ws_check_rate now w s)) = subscriptions s"
  by (simp_all add: ws_check_rate_def Let_def ws_ok_def subscriptions_def subscribers_def channels_of_def)

lemma add_subscriber_spec:
  assumes ok: "ws_ok s"
  shows "ws_ok (snd (add_subscriber w ch s))"
    "subscriptions (snd (add_subscriber w ch s)) = subscriptions s \<union> (if ch \<in> set VALID_CHANNELS then {(w, ch)} else {})"
    "fst (fst (add_subscriber w ch s)) \<longleftrightarrow> ch \<in> set VALID_CHANNELS \<and> (w, ch) \<notin> subscriptions s"
proof -
  have k: "ch \<in> set VALID_CHANNELS \<Longrightarrow> map fst (dset (ws_subscribers s) ch v) = VALID_CHANNELS" for v
    using ok keys_dset[of ch "ws_subscribers s" v] by (simp add: ws_ok_def)
  have m: "ch \<in> channels_of s w \<longleftrightarrow> (w, ch) \<in> subscriptions s" using ok by (simp add: ws_ok_def subscriptions_def)
  note lim = below_limit[OF ok, of w]
  show "ws_ok (snd (add_subscriber w ch s))"
    using ok k lim by (auto simp: add_subscriber_def ws_ok_def subscribers_def channels_of_def dict_simps)
  show "subscriptions (snd (add_subscriber w ch s)) = subscriptions s \<union> (if ch \<in> set VALID_CHANNELS then {(w, ch)} else {})"
    using m lim by (auto simp: add_subscriber_def subscriptions_def subscribers_def dict_simps split: if_splits)
  show "fst (fst (add_subscriber w ch s)) \<longleftrightarrow> ch \<in> set VALID_CHANNELS \<and> (w, ch) \<notin> subscriptions s"
    using m lim by (simp add: add_subscriber_def)
qed

lemma remove_subscriber_spec:
  assumes ok: "ws_ok s"
  shows "ws_ok (snd (remove_subscriber w ch s))"
    "subscriptions (snd (remove_subscriber w ch s)) = subscriptions s - {(w, ch)}"
    "fst (fst (remove_subscriber w ch s)) \<longleftrightarrow> (w, ch) \<in> subscriptions s"
proof -
  have m: "ch \<in> channels_of s w \<longleftrightarrow> (w, ch) \<in> subscriptions s" using ok by (simp add: ws_ok_def subscriptions_def)
  have v: "ch \<in> channels_of s w \<Longrightarrow> ch \<in> set VALID_CHANNELS" using channels_valid[OF ok] by auto
  have k: "ch \<in> set VALID_CHANNELS \<Longrightarrow> map fst (dset (ws_subscribers s) ch x) = VALID_CHANNELS" for x
    using ok keys_dset[of ch "ws_subscribers s" x] by (simp add: ws_ok_def)
  show "ws_ok (snd (remove_subscriber w ch s))"
    using ok k by (auto simp: remove_subscriber_def ws_ok_def subscribers_def channels_of_def dict_simps)
  show "subscriptions (snd (remove_subscriber w ch s)) = subscriptions s - {(w, ch)}"
    using m v by (auto simp: remove_subscriber_def subscriptions_def subscribers_def dict_simps split: if_splits)
  show "fst (fst (remove_subscriber w ch s)) \<longleftrightarrow> (w, ch) \<in> subscriptions s"
    using m v by (simp add: remove_subscriber_def)
qed

lemma dget_map_values: "dget (map (\<lambda>(k, v). (k, f k v)) d) k = map_option (f k) (dget d k)"
  by (induction d) auto

lemma remove_all_spec:
  assumes ok: "ws_ok s"
  shows "ws_ok (remove_all w s)" "subscriptions (remove_all w s) = subscriptions s - {w} \<times> UNIV"
proof -
  have sub: "subscribers (remove_all w s) ch = subscribers s ch - {w}" for ch
  proof -
    have "subscribers (remove_all w s) ch
        = (if ch \<in> channels_of s w then subscribers s ch - {w} else subscribers s ch)"
      by (simp add: subscribers_def remove_all_def dget_or_def
          dget_map_values[where f = "\<lambda>ch ws. if ch \<in> channels_of s w then ws - {w} else ws"] split: option.splits)
    moreover have "ch \<in> channels_of s w \<longleftrightarrow> w \<in> subscribers s ch" using ok by (simp add: ws_ok_def)
    ultimately show ?thesis by auto
  qed
  have "channels_of (remove_all w s) v = (if v = w then {} else channels_of s v)" for v
    by (simp add: channels_of_def remove_all_def dict_simps)
  moreover have "map fst (ws_subscribers (remove_all w s)) = map fst (ws_subscribers s)"
    by (simp add: remove_all_def case_prod_beta comp_def)
  ultimately show "ws_ok (remove_all w s)" using ok sub by (auto simp: ws_ok_def)
  show "subscriptions (remove_all w s) = subscriptions s - {w} \<times> UNIV"
    using sub by (auto simp: subscriptions_def)
qed

lemma ws_drop_spec:
  assumes "ws_ok s"
  shows "ws_ok (ws_drop dead s)" "subscriptions (ws_drop dead s) = subscriptions s - set dead \<times> UNIV"
  using assms by (induction dead arbitrary: s) (auto simp: ws_drop_def remove_all_spec)

lemma ws_stop_spec:
  assumes "ws_ok s"
  shows "ws_ok (ws_stop s)" "subscriptions (ws_stop s) = {}"
proof -
  have e: "subscribers (ws_stop s) ch = {}" for ch
    by (simp add: subscribers_def ws_stop_def dget_or_def dget_map_values[where f = "\<lambda>ch ws. {}"] split: option.splits)
  then show "subscriptions (ws_stop s) = {}" by (simp add: subscriptions_def)
  show "ws_ok (ws_stop s)"
    using assms e by (auto simp: ws_ok_def ws_stop_def channels_of_def case_prod_beta comp_def)
qed

section \<open>A run of the server against its specification\<close>

datatype ws_event =
    Join nat
  | Text rat nat "pyval option"
  | Publish "nat \<Rightarrow> socket" string "(string \<times> pyval) list"
  | Drop "nat list"
  | Leave nat
  | Shut_down

fun ws_do :: "ws_event \<Rightarrow> ws_manager \<Rightarrow> ws_manager" where
  "ws_do (Join w) s = ws_join w s"
| "ws_do (Text now w parsed) s = ws_text now w parsed s"
| "ws_do (Publish sock ch data) s = snd (ws_send sock ch data s)"
| "ws_do (Drop dead) s = ws_drop dead s"
| "ws_do (Leave w) s = remove_all w s"
| "ws_do Shut_down s = ws_stop s"

text \<open>
  The specification: the pairs subscribed, and the times of all text messages of a client since it
  was last removed. A message counts when at most ten, itself included, came in the second before it.
\<close>

record ws_spec =
  sp_pairs :: "(nat \<times> string) set"
  sp_times :: "nat \<Rightarrow> rat list"

definition asked :: "nat \<Rightarrow> pyval option \<Rightarrow> (nat \<times> string) set \<Rightarrow> (nat \<times> string) set" where
  "asked w parsed S =
     (case parsed of
        Some (PDict data) \<Rightarrow>
          (case (dget_or data ''type'' PNone, dget_or data ''channel'' PNone) of
             (PStr t, PStr ch) \<Rightarrow>
               if t = ''subscribe'' then S \<union> (if ch \<in> set VALID_CHANNELS then {(w, ch)} else {})
               else if t = ''unsubscribe'' then S - {(w, ch)} else S
           | _ \<Rightarrow> S)
      | _ \<Rightarrow> S)"

definition counted :: "rat \<Rightarrow> rat list \<Rightarrow> bool" where
  "counted now ts \<longleftrightarrow> length (filter (\<lambda>t. t > now - 1) ts) < 10"

definition forget :: "nat set \<Rightarrow> ws_spec \<Rightarrow> ws_spec" where
  "forget gone p = \<lparr>sp_pairs = sp_pairs p - gone \<times> UNIV, sp_times = (\<lambda>w. if w \<in> gone then [] else sp_times p w)\<rparr>"

fun spec_do :: "ws_event \<Rightarrow> ws_spec \<Rightarrow> ws_spec" where
  "spec_do (Join w) p = p"
| "spec_do (Text now w parsed) p =
     \<lparr>sp_pairs = (if counted now (sp_times p w) then asked w parsed (sp_pairs p) else sp_pairs p),
      sp_times = (sp_times p)(w := sp_times p w @ [now])\<rparr>"
| "spec_do (Publish sock ch data) p = p"
| "spec_do (Drop dead) p = forget (set dead) p"
| "spec_do (Leave w) p = forget {w} p"
| "spec_do Shut_down p = forget UNIV p"

definition empty_spec :: ws_spec where
  "empty_spec = \<lparr>sp_pairs = {}, sp_times = (\<lambda>_. [])\<rparr>"

text \<open>The timestamps kept are the recent part of the history, as long as the clock does not go back.\<close>

definition follows :: "rat \<Rightarrow> ws_manager \<Rightarrow> ws_spec \<Rightarrow> bool" where
  "follows T s p \<longleftrightarrow> ws_ok s \<and> subscriptions s = sp_pairs p
     \<and> (\<forall>w. \<exists>c \<le> T - 1. dget_or (ws_client_rate s) w [] = filter (\<lambda>t. t > c) (sp_times p w))"

lemma ws_rate_views [simp]:
  "ws_client_rate (put_inbox ws m s) = ws_client_rate s" "ws_client_rate (ws_join w s) = ws_client_rate s"
  "ws_client_rate (ws_reply w m s) = ws_client_rate s" "ws_client_rate (ws_error w e s) = ws_client_rate s"
  "ws_client_rate (snd (add_subscriber w ch s)) = ws_client_rate s"
  "ws_client_rate (snd (remove_subscriber w ch s)) = ws_client_rate s"
  by (simp_all add: put_inbox_def ws_join_def ws_reply_def ws_error_def add_subscriber_def remove_subscriber_def)

lemma answer_views [simp]:
  "ws_client_rate (answer word w ch r) = ws_client_rate (snd r)"
  "ws_ok (answer word w ch r) = ws_ok (snd r)"
  "subscriptions (answer word w ch r) = subscriptions (snd r)"
  by (auto simp: answer_def split: prod.splits bool.split)

lemma ws_command_spec:
  assumes "ws_ok s"
  shows "ws_ok (ws_command w data s)"
    "subscriptions (ws_command w data s) = asked w (Some (PDict data)) (subscriptions s)"
    "ws_client_rate (ws_command w data s) = ws_client_rate s"
proof -
  note specs = add_subscriber_spec[OF assms] remove_subscriber_spec[OF assms]
  show "ws_ok (ws_command w data s)"
    using assms by (simp add: ws_command_def Let_def specs)
  show "ws_client_rate (ws_command w data s) = ws_client_rate s"
    by (simp add: ws_command_def Let_def)
  show "subscriptions (ws_command w data s) = asked w (Some (PDict data)) (subscriptions s)"
    by (cases "dget_or data ''type'' PNone"; cases "dget_or data ''channel'' PNone")
      (simp_all add: ws_command_def asked_def Let_def specs)
qed

definition recent :: "rat \<Rightarrow> nat \<Rightarrow> ws_manager \<Rightarrow> rat list" where
  "recent now w s = filter (\<lambda>t. t > now - 1) (dget_or (ws_client_rate s) w [])"

lemma ws_text_spec:
  assumes "ws_ok s"
  shows "ws_ok (ws_text now w parsed s)"
    "subscriptions (ws_text now w parsed s)
       = (if length (recent now w s) < 10 then asked w parsed (subscriptions s) else subscriptions s)"
    "ws_client_rate (ws_text now w parsed s) = dset (ws_client_rate s) w (recent now w s @ [now])"
proof -
  define t where "t = snd (ws_check_rate now w s)"
  have c: "ws_check_rate now w s = (length (recent now w s) < 10, t)"
    by (simp add: t_def ws_check_rate_def Let_def recent_def WS_RATE_LIMIT_def less_eq_Suc_le[symmetric] Suc_le_eq)
  have t: "ws_ok t" "subscriptions t = subscriptions s" "ws_client_rate t = dset (ws_client_rate s) w (recent now w s @ [now])"
    using assms(1) by (simp_all add: t_def) (simp add: ws_check_rate_def Let_def recent_def)
  note cmd = ws_command_spec[OF t(1)]
  show "ws_ok (ws_text now w parsed s)"
    using t cmd by (auto simp: ws_text_def c split: bool.split option.splits)
  show "ws_client_rate (ws_text now w parsed s) = dset (ws_client_rate s) w (recent now w s @ [now])"
    using t cmd by (auto simp: ws_text_def c split: bool.split option.splits)
  have "asked w (Some data) S = S" if "\<not> is_dict data" for data S
    using that by (cases data) (simp_all add: asked_def)
  moreover have "asked w None S = S" for S by (simp add: asked_def)
  moreover have "is_dict data \<Longrightarrow> PDict (dict_of_py data) = data" for data by (cases data) simp_all
  ultimately show "subscriptions (ws_text now w parsed s)
       = (if length (recent now w s) < 10 then asked w parsed (subscriptions s) else subscriptions s)"
    using t cmd by (auto simp: ws_text_def c split: bool.split option.splits)
qed

text \<open>The clock of an event, if it reads the clock.\<close>

fun event_time :: "rat \<Rightarrow> ws_event \<Rightarrow> rat" where
  "event_time T (Text now w parsed) = now"
| "event_time T e = T"

lemma filter_above: "(c :: rat) \<le> d \<Longrightarrow> filter (\<lambda>t. t > d) (filter (\<lambda>t. t > c) xs) = filter (\<lambda>t. t > d) xs"
  by (induction xs) auto

lemma remove_all_rate: "ws_client_rate (remove_all w s) = dpop (ws_client_rate s) w"
  by (simp add: remove_all_def)

lemma ws_drop_rate: "dget_or (ws_client_rate (ws_drop dead s)) w [] = (if w \<in> set dead then [] else dget_or (ws_client_rate s) w [])"
  by (induction dead arbitrary: s) (auto simp: ws_drop_def remove_all_rate dict_simps)

lemma follows_step:
  assumes "follows T s p" "T \<le> event_time T e"
  shows "follows (event_time T e) (ws_do e s) (spec_do e p)"
proof -
  have ok: "ws_ok s" "subscriptions s = sp_pairs p"
    and rate: "\<exists>c \<le> T - 1. dget_or (ws_client_rate s) w [] = filter (\<lambda>t. t > c) (sp_times p w)" for w
    using assms(1) by (simp_all add: follows_def)
  have e: "\<exists>c \<le> T - 1. [] = filter (\<lambda>t. t > c) ([] :: rat list)" by (rule exI[of _ "T - 1"]) simp
  show ?thesis
  proof (cases e)
    case (Text now w parsed)
    have le: "T \<le> now" using assms(2) Text by simp
    have f: "filter (\<lambda>t. t > now - 1) (dget_or (ws_client_rate s) w []) = filter (\<lambda>t. t > now - 1) (sp_times p w)"
    proof -
      obtain c where c: "c \<le> T - 1" "dget_or (ws_client_rate s) w [] = filter (\<lambda>t. t > c) (sp_times p w)"
        using rate by blast
      have "c \<le> now - 1" using c(1) le by linarith
      then show ?thesis unfolding c(2) by (rule filter_above)
    qed
    have "\<exists>c \<le> now - 1. dget_or (ws_client_rate (ws_text now w parsed s)) v []
        = filter (\<lambda>t. t > c) (((sp_times p)(w := sp_times p w @ [now])) v)" for v
    proof (cases "v = w")
      case True
      have "filter (\<lambda>t. t > now - 1) [now] = [now]" by simp
      then show ?thesis using True
        by (intro exI[of _ "now - 1"]) (simp add: ws_text_spec(3)[OF ok(1)] recent_def f dict_simps)
    next
      case False
      obtain c where c: "c \<le> T - 1" "dget_or (ws_client_rate s) v [] = filter (\<lambda>t. t > c) (sp_times p v)"
        using rate by blast
      then show ?thesis using False le
        by (intro exI[of _ c]) (simp add: ws_text_spec(3)[OF ok(1)] dict_simps)
    qed
    then show ?thesis
      using ok Text by (simp add: follows_def ws_text_spec(1,2)[OF ok(1)] recent_def f counted_def)
  next
    case (Drop dead)
    then show ?thesis using ok rate e by (simp add: follows_def ws_drop_spec ws_drop_rate forget_def)
  next
    case (Leave w)
    then show ?thesis
      using ok rate e by (simp add: follows_def remove_all_spec remove_all_rate forget_def dict_simps)
  next
    case Shut_down
    have "ws_client_rate (ws_stop s) = []" by (simp add: ws_stop_def)
    then show ?thesis using ok e Shut_down by (simp add: follows_def ws_stop_spec forget_def)
  next
    case (Publish sock ch data)
    then show ?thesis using assms(1) by (simp add: follows_def ws_send_def Let_def)
  next
    case (Join w)
    then show ?thesis using assms(1) by (simp add: follows_def)
  qed
qed

fun clocked :: "rat \<Rightarrow> ws_event list \<Rightarrow> bool" where
  "clocked T [] \<longleftrightarrow> True"
| "clocked T (e # es) \<longleftrightarrow> T \<le> event_time T e \<and> clocked (event_time T e) es"

lemma follows_run:
  "follows T s p \<Longrightarrow> clocked T es \<Longrightarrow> \<exists>U. follows U (fold ws_do es s) (fold spec_do es p)"
proof (induction es arbitrary: T s p)
  case (Cons e es)
  then show ?case using follows_step[of T s p e] Cons.IH[of "event_time T e" "ws_do e s" "spec_do e p"] by simp
qed auto

lemma follows_start: "follows T new_ws_manager empty_spec"
  using new_ws_ok by (auto simp: follows_def empty_spec_def new_ws_manager_def intro: exI[of _ "T - 1"])

lemma ws_send_inbox:
  "ws_inbox (snd (ws_send sock ch data s)) w =
     (if (w, ch) \<in> subscriptions s \<and> sock w = Delivered then ws_inbox s w @ [event_message ch data] else ws_inbox s w)"
  by (simp add: ws_send_def Let_def put_inbox_def subscriptions_def)

text \<open>The limit on connections is tested before the upgrade and not after it.\<close>

lemma two_join:
  assumes "ws_admits expected auth s = Inr True" "finite (ws_clients s)" "v \<noteq> w" "{v, w} \<inter> ws_clients s = {}"
    and "ws_connected_count s = MAX_WS_CONNECTIONS - 1"
  shows "MAX_WS_CONNECTIONS < ws_connected_count (ws_join w (ws_join v s))"
  using assms(2-) by (auto simp: ws_join_def ws_connected_count_def MAX_WS_CONNECTIONS_def)

end
