(* ===== verification/Webhooks.thy ===== *)
theory Webhooks
  imports HttpText P2P
begin

text \<open>
  \<open>network/webhooks.py\<close>: registration of webhooks and the life of their deliveries. A delivery is a
  task that tries up to three times and sleeps in between, so tasks are kept in the state and one
  attempt is one step. What an HTTP request gives is an argument. The hash of the signature, the
  classification of addresses (\<open>ipaddress\<close>, \<open>None\<close> where it raises) and random identifiers are parameters.
\<close>

section \<open>Addresses\<close>

text \<open>What the code asks of an address, after unwrapping an IPv4 address mapped into IPv6.\<close>

record address_class =
  ac_v4 :: bool
  ac_private :: bool
  ac_loopback :: bool
  ac_link_local :: bool
  ac_reserved :: bool
  ac_multicast :: bool
  ac_unspecified :: bool

definition forbidden_address :: "address_class \<Rightarrow> bool" where
  "forbidden_address a \<longleftrightarrow> ac_private a \<or> ac_loopback a \<or> ac_link_local a \<or> ac_reserved a
     \<or> ac_multicast a \<or> ac_unspecified a"

text \<open>
  \<open>urlparse(url).hostname\<close> of an http or https URL: the network location ends at the first of
  \<open>/?#\<close>, the host follows the last \<open>@\<close> and ends at the bracket or the colon. Tabs and line ends are
  removed first. \<open>Inl\<close>: unbalanced brackets, or a bracketed text that is no IPv6 address.
\<close>

definition netloc_of :: "string \<Rightarrow> string" where
  "netloc_of url =
     (let clean = filter (\<lambda>c. code c \<notin> {9, 10, 13}) url;
          rest = (if starts_with clean ''https://'' then drop 8 clean else drop 7 clean)
      in takeWhile (\<lambda>c. c \<notin> {CHR ''/'', CHR ''?'', CHR 0x23}) rest)"

definition after_last :: "char \<Rightarrow> string \<Rightarrow> string" where
  "after_last c s = rev (takeWhile (\<lambda>d. d \<noteq> c) (rev s))"

definition before :: "char \<Rightarrow> string \<Rightarrow> string" where
  "before c s = takeWhile (\<lambda>d. d \<noteq> c) s"

definition after_first :: "char \<Rightarrow> string \<Rightarrow> string" where
  "after_first c s = drop 1 (dropWhile (\<lambda>d. d \<noteq> c) s)"

definition lower :: "string \<Rightarrow> string" where
  "lower s = map (\<lambda>c. if is_upper c \<or> 192 \<le> code c \<and> code c \<le> 222 \<and> code c \<noteq> 215
                     then char_of (code c + 32) else c) s"

definition url_hostname :: "(string \<Rightarrow> address_class option) \<Rightarrow> string \<Rightarrow> exn + string" where
  "url_hostname classify url =
     (let netloc = netloc_of url; opening = (CHR 0x5B \<in> set netloc); closing = (CHR 0x5D \<in> set netloc);
          bracketed = before (CHR 0x5D) (after_first (CHR 0x5B) netloc);
          info = after_last (CHR ''@'') netloc;
          host = (if CHR 0x5B \<in> set info then before (CHR 0x5D) (after_first (CHR 0x5B) info)
                  else before (CHR 0x3A) info)
      in unless_raise (opening \<noteq> closing) (ve ''Invalid IPv6 URL'' [])
        (unless_raise (opening \<and> closing \<and>
            (case classify bracketed of None \<Rightarrow> True | Some a \<Rightarrow> ac_v4 a))
          (ve ''Invalid IPv6 URL'' []) (Inr (lower host))))"

text \<open>The resolver of the session: every address a name resolves to must be allowed.\<close>

definition resolver_allows :: "(string \<Rightarrow> address_class option) \<Rightarrow> string list \<Rightarrow> bool" where
  "resolver_allows classify ips \<longleftrightarrow>
     list_all (\<lambda>ip. case classify ip of None \<Rightarrow> False | Some a \<Rightarrow> \<not> forbidden_address a) ips"

section \<open>State\<close>

definition MAX_WEBHOOKS :: int where "MAX_WEBHOOKS = 100"
definition MAX_URL_LENGTH :: int where "MAX_URL_LENGTH = 2048"
definition MAX_SECRET_LENGTH :: int where "MAX_SECRET_LENGTH = 256"
definition MAX_EVENTS_PER_HOOK :: int where "MAX_EVENTS_PER_HOOK = 20"
definition RETRY_COUNT :: nat where "RETRY_COUNT = 3"
definition CONSECUTIVE_FAIL_DISABLE :: int where "CONSECUTIVE_FAIL_DISABLE = 10"

definition VALID_EVENT_TYPES :: "string list" where
  "VALID_EVENT_TYPES =
     [''Transfer'', ''Notarize'', ''Store'', ''Share'', ''Stake'', ''Delegate'', ''Unstake'', ''KeyRegistered'',
      ''ValidatorRegistered'', ''KeyRevoked'', ''Slashed'', ''BlockReward'', ''EpochTransition'',
      ''TokenIssued'', ''TokenMinted'', ''TokenTransferred'']"

datatype hook_status = Active | Failing | Disabled | Deleted

record webhook =
  wk_url :: string
  wk_events :: "string list"
  wk_secret :: string
  wk_created :: rat
  wk_status :: hook_status
  wk_failures :: int

text \<open>An event is a dict with a type; a task is the hook, the event, the block and the attempts made.\<close>

record delivery =
  dl_hook :: string
  dl_event :: "(string \<times> pyval) list"
  dl_block :: int
  dl_attempt :: nat

record hooks =
  hk_webhooks :: "(string, webhook) dict"
  hk_tasks :: "delivery list"

definition new_hooks :: hooks where
  "new_hooks = \<lparr>hk_webhooks = [], hk_tasks = []\<rparr>"

section \<open>Registration\<close>

definition url_checks :: "(string \<Rightarrow> address_class option) \<Rightarrow> pyval \<Rightarrow> outcome list" where
  "url_checks classify url =
     (let u = str_of_py url; host = url_hostname classify u; h = (case host of Inl _ \<Rightarrow> [] | Inr x \<Rightarrow> x)
      in [raise_if (\<not> is_str url \<or> u = []) (ve ''url must be a non-empty string'' []),
          raise_if (int (length u) > MAX_URL_LENGTH) (ve ''url exceeds {} characters'' [PInt MAX_URL_LENGTH]),
          raise_if (\<not> starts_with u ''http://'' \<and> \<not> starts_with u ''https://'')
            (ve ''url must start with http:// or https://'' []),
          (case host of Inl e \<Rightarrow> Raise e | Inr _ \<Rightarrow> Ok []),
          raise_if (h = []) (ve ''url must contain a valid hostname'' []),
          raise_if (h \<in> {''localhost'', ''127.0.0.1'', ''::1'', ''[::1]'', ''0.0.0.0'', ''metadata.google.internal'',
                          ''169.254.169.254''})
            (ve ''webhook url must not target localhost or metadata endpoints'' []),
          raise_if (case classify h of None \<Rightarrow> False | Some a \<Rightarrow> forbidden_address a)
            (ve ''webhook url must not target private/loopback/link-local/multicast/unspecified addresses'' [])])"

definition event_checks :: "pyval list \<Rightarrow> outcome list" where
  "event_checks events =
     concat (map (\<lambda>ev.
       [raise_if (\<not> is_str ev) (ve ''each event must be a string'' []),
        raise_if (str_of_py ev \<notin> set VALID_EVENT_TYPES)
          (ve ''unknown event type: {}. Valid types: {}''
             [ev, PList (map PStr (sort_key id VALID_EVENT_TYPES))])]) events)"

fun list_of_pyval :: "pyval \<Rightarrow> pyval list" where
  "list_of_pyval (PList vs) = vs"
| "list_of_pyval _ = []"

definition active_hooks :: "hooks \<Rightarrow> int" where
  "active_hooks s = int (length (filter (\<lambda>(k, w). wk_status w \<noteq> Deleted) (hk_webhooks s)))"

definition register_checks :: "(string \<Rightarrow> address_class option) \<Rightarrow> pyval \<Rightarrow> pyval \<Rightarrow> pyval \<Rightarrow> hooks \<Rightarrow> outcome list" where
  "register_checks classify url events secret s =
     (let evs = list_of_pyval events; sec = str_of_py secret
      in url_checks classify url
         @ [raise_if (evs = []) (ve ''events must be a non-empty list'' []),
            raise_if (int (length evs) > MAX_EVENTS_PER_HOOK) (ve ''max {} events per webhook'' [PInt MAX_EVENTS_PER_HOOK])]
         @ event_checks evs
         @ [raise_if (\<not> is_str secret \<or> sec = []) (ve ''secret must be a non-empty string'' []),
            raise_if (int (length sec) > MAX_SECRET_LENGTH) (ve ''secret exceeds {} characters'' [PInt MAX_SECRET_LENGTH]),
            raise_if (active_hooks s \<ge> MAX_WEBHOOKS) (ve ''max {} webhooks reached'' [PInt MAX_WEBHOOKS])])"

record hook_info =
  hi_id :: string
  hi_url :: string
  hi_events :: "string list"
  hi_created :: rat
  hi_status :: hook_status
  hi_failures :: int

definition safe_webhook :: "string \<times> webhook \<Rightarrow> hook_info" where
  "safe_webhook kw =
     (case kw of (k, w) \<Rightarrow>
        \<lparr>hi_id = k, hi_url = wk_url w, hi_events = wk_events w, hi_created = wk_created w,
         hi_status = wk_status w, hi_failures = wk_failures w\<rparr>)"

definition register_hook ::
  "(string \<Rightarrow> address_class option) \<Rightarrow> string \<Rightarrow> rat \<Rightarrow> pyval \<Rightarrow> pyval \<Rightarrow> pyval \<Rightarrow> hooks \<Rightarrow> (exn + hook_info) \<times> hooks" where
  "register_hook classify new_id now url events secret s =
     (case checks (register_checks classify url events secret s) of
        Ok _ \<Rightarrow>
          (let w = \<lparr>wk_url = str_of_py url, wk_events = map str_of_py (list_of_pyval events),
                    wk_secret = str_of_py secret, wk_created = now, wk_status = Active, wk_failures = 0\<rparr>
           in (Inr (safe_webhook (new_id, w)), s\<lparr>hk_webhooks := dset (hk_webhooks s) new_id w\<rparr>))
      | Raise e \<Rightarrow> (Inl e, s)
      | Fail m \<Rightarrow> (Inl (ValueError m), s))"

definition list_hooks :: "hooks \<Rightarrow> hook_info list" where
  "list_hooks s = map safe_webhook (filter (\<lambda>(k, w). wk_status w \<noteq> Deleted) (hk_webhooks s))"

definition get_hook :: "hooks \<Rightarrow> string \<Rightarrow> hook_info option" where
  "get_hook s k =
     (case dget (hk_webhooks s) k of
        None \<Rightarrow> None
      | Some w \<Rightarrow> if wk_status w = Deleted then None else Some (safe_webhook (k, w)))"

definition set_hook :: "string \<Rightarrow> webhook \<Rightarrow> hooks \<Rightarrow> hooks" where
  "set_hook k w s = s\<lparr>hk_webhooks := dset (hk_webhooks s) k w\<rparr>"

definition delete_hook :: "pyval \<Rightarrow> hooks \<Rightarrow> (exn + bool) \<times> hooks" where
  "delete_hook webhook_id s =
     (if \<not> is_str webhook_id then (Inl (ve ''webhook_id must be a string'' []), s)
      else
        (case dget (hk_webhooks s) (str_of_py webhook_id) of
           None \<Rightarrow> (Inr False, s)
         | Some w \<Rightarrow>
             if wk_status w = Deleted then (Inr False, s)
             else (Inr True, set_hook (str_of_py webhook_id) (w\<lparr>wk_status := Deleted\<rparr>) s)))"

section \<open>Delivery\<close>

definition event_type_in :: "string list \<Rightarrow> (string \<times> pyval) list \<Rightarrow> bool" where
  "event_type_in types e \<longleftrightarrow> (case dget e ''type'' of Some (PStr t) \<Rightarrow> t \<in> set types | _ \<Rightarrow> False)"

definition new_tasks :: "(string \<times> pyval) list list \<Rightarrow> int \<Rightarrow> string \<times> webhook \<Rightarrow> delivery list" where
  "new_tasks events block_index kw =
     (case kw of (k, w) \<Rightarrow>
        if wk_status w \<notin> {Active, Failing} then []
        else map (\<lambda>e. \<lparr>dl_hook = k, dl_event = e, dl_block = block_index, dl_attempt = 0\<rparr>)
               (filter (event_type_in (wk_events w)) events))"

definition deliver :: "(string \<times> pyval) list list \<Rightarrow> int \<Rightarrow> hooks \<Rightarrow> hooks" where
  "deliver events block_index s =
     s\<lparr>hk_tasks := hk_tasks s @ concat (map (new_tasks events block_index) (hk_webhooks s))\<rparr>"

text \<open>What one request gives: a status, an address the resolver refuses, or another error.\<close>

datatype response = Status int | Blocked | Failed

definition request_body :: "rat \<Rightarrow> (rat \<Rightarrow> string) \<Rightarrow> delivery \<Rightarrow> string" where
  "request_body now float_text d =
     ''{'' @ json_str ''event'' @ '': '' @ json_spaced (PDict (dl_event d)) @ '', ''
       @ json_str ''block_index'' @ '': '' @ int_str (dl_block d) @ '', ''
       @ json_str ''timestamp'' @ '': '' @ float_text now @ ''}''"

definition webhook_signature :: "(bytes \<Rightarrow> bytes \<Rightarrow> bytes) \<Rightarrow> string \<Rightarrow> string \<Rightarrow> string" where
  "webhook_signature hmac_sha256 secret payload = hex (hmac_sha256 (encode secret) (encode payload))"

definition succeeded :: "webhook \<Rightarrow> webhook" where
  "succeeded w = w\<lparr>wk_failures := 0, wk_status := if wk_status w = Failing then Active else wk_status w\<rparr>"

definition exhausted :: "webhook \<Rightarrow> webhook" where
  "exhausted w =
     (let n = wk_failures w + 1
      in w\<lparr>wk_failures := n,
          wk_status := (if n \<ge> CONSECUTIVE_FAIL_DISABLE then Disabled
                        else if wk_status w = Active then Failing else wk_status w)\<rparr>)"

text \<open>
  The \<open>i\<close>-th task runs to its next sleep or to its end: first a look at the status, then a request,
  during which other tasks run (\<open>between\<close>), then what follows from the response.
\<close>

definition end_task :: "nat \<Rightarrow> hooks \<Rightarrow> hooks" where
  "end_task i s = s\<lparr>hk_tasks := take i (hk_tasks s) @ drop (Suc i) (hk_tasks s)\<rparr>"

definition on_hook :: "(webhook \<Rightarrow> webhook) \<Rightarrow> string \<Rightarrow> hooks \<Rightarrow> hooks" where
  "on_hook f k s = (case dget (hk_webhooks s) k of None \<Rightarrow> s | Some w \<Rightarrow> set_hook k (f w) s)"

text \<open>Before a request: does the task go on?\<close>

definition attempt_starts :: "delivery \<Rightarrow> hooks \<Rightarrow> bool" where
  "attempt_starts d s \<longleftrightarrow> (case dget (hk_webhooks s) (dl_hook d) of None \<Rightarrow> False | Some w \<Rightarrow> wk_status w \<noteq> Deleted)"

text \<open>After the response to a request of the \<open>i\<close>-th task.\<close>

definition attempt_ends :: "nat \<Rightarrow> response \<Rightarrow> hooks \<Rightarrow> hooks" where
  "attempt_ends i r s =
     (let d = hk_tasks s ! i
      in case r of
           Blocked \<Rightarrow> end_task i s
         | Status n \<Rightarrow>
             if 200 \<le> n \<and> n < 300 then end_task i (on_hook succeeded (dl_hook d) s)
             else if Suc (dl_attempt d) < RETRY_COUNT
             then s\<lparr>hk_tasks := (hk_tasks s)[i := d\<lparr>dl_attempt := Suc (dl_attempt d)\<rparr>]\<rparr>
             else end_task i (on_hook exhausted (dl_hook d) s)
         | Failed \<Rightarrow>
             if Suc (dl_attempt d) < RETRY_COUNT
             then s\<lparr>hk_tasks := (hk_tasks s)[i := d\<lparr>dl_attempt := Suc (dl_attempt d)\<rparr>]\<rparr>
             else end_task i (on_hook exhausted (dl_hook d) s))"

definition stop_hooks :: "hooks \<Rightarrow> hooks" where
  "stop_hooks s = s\<lparr>hk_tasks := []\<rparr>"

section \<open>Steps\<close>

inductive hook_step :: "(string \<Rightarrow> address_class option) \<Rightarrow> hooks \<Rightarrow> hooks \<Rightarrow> bool" for classify where
  Register: "\<not> dmem new_id (hk_webhooks s)
    \<Longrightarrow> hook_step classify s (snd (register_hook classify new_id now url events secret s))"
| Delete: "hook_step classify s (snd (delete_hook webhook_id s))"
| Deliver: "hook_step classify s (deliver events block_index s)"
| Give_up: "i < length (hk_tasks s) \<Longrightarrow> \<not> attempt_starts (hk_tasks s ! i) s \<Longrightarrow> hook_step classify s (end_task i s)"
| Answer: "i < length (hk_tasks s) \<Longrightarrow> hook_step classify s (attempt_ends i r s)"
| Stop: "hook_step classify s (stop_hooks s)"

inductive_cases hook_stepE: "hook_step classify s t"

inductive hook_run :: "(string \<Rightarrow> address_class option) \<Rightarrow> hooks \<Rightarrow> hooks \<Rightarrow> bool" for classify where
  Start: "hook_run classify s s"
| Step: "hook_run classify s t \<Longrightarrow> hook_step classify t u \<Longrightarrow> hook_run classify s u"

inductive_simps hook_run_iff: "hook_run classify s t"

section \<open>Invariant\<close>

definition hook_ok :: "webhook \<Rightarrow> bool" where
  "hook_ok w \<longleftrightarrow> 0 \<le> wk_failures w \<and> (wk_status w = Active \<longrightarrow> wk_failures w = 0)
     \<and> (wk_status w = Failing \<longrightarrow> 1 \<le> wk_failures w \<and> wk_failures w < CONSECUTIVE_FAIL_DISABLE)
     \<and> wk_events w \<noteq> [] \<and> set (wk_events w) \<subseteq> set VALID_EVENT_TYPES \<and> int (length (wk_events w)) \<le> MAX_EVENTS_PER_HOOK
     \<and> wk_secret w \<noteq> [] \<and> (starts_with (wk_url w) ''http://'' \<or> starts_with (wk_url w) ''https://'')"

definition task_ok :: "(string, webhook) dict \<Rightarrow> delivery \<Rightarrow> bool" where
  "task_ok ws d \<longleftrightarrow> dl_attempt d < RETRY_COUNT
     \<and> (\<exists>w. dget ws (dl_hook d) = Some w \<and> event_type_in (wk_events w) (dl_event d))"

definition hooks_ok :: "hooks \<Rightarrow> bool" where
  "hooks_ok s \<longleftrightarrow> dwf (hk_webhooks s) \<and> list_all (\<lambda>kw. hook_ok (snd kw)) (hk_webhooks s)
     \<and> list_all (task_ok (hk_webhooks s)) (hk_tasks s)"

lemma new_hooks_ok: "hooks_ok new_hooks"
  by (simp add: hooks_ok_def new_hooks_def)

text \<open>Replacing a hook by one with the same events, or adding one, keeps the tasks in order.\<close>

lemma tasks_set_hook:
  assumes "list_all (task_ok ws) ts" "case dget ws k of None \<Rightarrow> True | Some v \<Rightarrow> wk_events w = wk_events v"
  shows "list_all (task_ok (dset ws k w)) ts"
  using assms by (auto simp: list_all_iff task_ok_def dict_simps split: option.splits)

lemma set_hook_ok:
  assumes "hooks_ok s" "hook_ok w" "case dget (hk_webhooks s) k of None \<Rightarrow> True | Some v \<Rightarrow> wk_events w = wk_events v"
  shows "hooks_ok (set_hook k w s)"
  using assms tasks_set_hook[where ws = "hk_webhooks s" and ts = "hk_tasks s" and k = k and w = w]
  by (simp add: hooks_ok_def set_hook_def list_all_dset)

lemma on_hook_ok:
  assumes "hooks_ok s" "\<And>w. hook_ok w \<Longrightarrow> hook_ok (f w)" "\<And>w. wk_events (f w) = wk_events w"
  shows "hooks_ok (on_hook f k s)"
proof (cases "dget (hk_webhooks s) k")
  case (Some w)
  then have "hook_ok w" using assms(1) list_all_dget[of "\<lambda>kw. hook_ok (snd kw)"] by (fastforce simp: hooks_ok_def)
  then show ?thesis using Some assms by (simp add: on_hook_def set_hook_ok)
qed (use assms(1) in \<open>simp add: on_hook_def\<close>)

lemma succeeded_ok: "hook_ok w \<Longrightarrow> hook_ok (succeeded w)" "wk_events (succeeded w) = wk_events w"
  by (auto simp: hook_ok_def succeeded_def)

lemma exhausted_ok: "hook_ok w \<Longrightarrow> hook_ok (exhausted w)" "wk_events (exhausted w) = wk_events w"
  by (auto simp: hook_ok_def exhausted_def Let_def CONSECUTIVE_FAIL_DISABLE_def)

lemma deleted_ok: "hook_ok w \<Longrightarrow> hook_ok (w\<lparr>wk_status := Deleted\<rparr>)"
  by (simp add: hook_ok_def)

lemma end_task_ok: "hooks_ok s \<Longrightarrow> hooks_ok (end_task i s)"
  by (auto simp: hooks_ok_def end_task_def list_all_iff dest: in_set_takeD in_set_dropD)

lemma attempt_ends_ok:
  assumes ok: "hooks_ok s" and i: "i < length (hk_tasks s)"
  shows "hooks_ok (attempt_ends i r s)"
proof -
  have t: "task_ok (hk_webhooks s) (hk_tasks s ! i)" using ok i by (simp add: hooks_ok_def list_all_length)
  then have "Suc (dl_attempt (hk_tasks s ! i)) < RETRY_COUNT \<Longrightarrow>
      task_ok (hk_webhooks s) ((hk_tasks s ! i)\<lparr>dl_attempt := Suc (dl_attempt (hk_tasks s ! i))\<rparr>)"
    by (simp add: task_ok_def)
  then have again: "Suc (dl_attempt (hk_tasks s ! i)) < RETRY_COUNT \<Longrightarrow>
      hooks_ok (s\<lparr>hk_tasks := (hk_tasks s)[i := (hk_tasks s ! i)\<lparr>dl_attempt := Suc (dl_attempt (hk_tasks s ! i))\<rparr>]\<rparr>)"
    using ok i by (auto simp: hooks_ok_def list_all_length nth_list_update)
  show ?thesis
    using ok again end_task_ok on_hook_ok[OF ok succeeded_ok] on_hook_ok[OF ok exhausted_ok]
    by (simp add: attempt_ends_def Let_def split: response.split)
qed

lemma registered_ok:
  assumes "list_all is_ok (register_checks classify url events secret s)"
  shows "hook_ok \<lparr>wk_url = str_of_py url, wk_events = map str_of_py (list_of_pyval events),
     wk_secret = str_of_py secret, wk_created = now, wk_status = Active, wk_failures = 0\<rparr>"
proof -
  have "list_all is_ok (url_checks classify url)" "list_all is_ok (event_checks (list_of_pyval events))"
    "list_of_pyval events \<noteq> []" "int (length (list_of_pyval events)) \<le> MAX_EVENTS_PER_HOOK" "str_of_py secret \<noteq> []"
    using assms by (simp_all add: register_checks_def Let_def)
  moreover from this(2) have "set (map str_of_py (list_of_pyval events)) \<subseteq> set VALID_EVENT_TYPES"
    by (auto simp: event_checks_def list_all_iff)
  ultimately show ?thesis by (auto simp: hook_ok_def url_checks_def Let_def)
qed

lemma register_hook_ok:
  assumes "hooks_ok s" "\<not> dmem new_id (hk_webhooks s)"
  shows "hooks_ok (snd (register_hook classify new_id now url events secret s))"
proof (cases "checks (register_checks classify url events secret s)")
  case (Ok x)
  then have "is_ok (checks (register_checks classify url events secret s))" by simp
  then have "list_all is_ok (register_checks classify url events secret s)" unfolding checks_ok .
  from registered_ok[OF this] show ?thesis
    using set_hook_ok[OF assms(1), of _ new_id] assms(2) Ok
    by (simp add: register_hook_def Let_def set_hook_def[symmetric] dmem_def)
qed (use assms in \<open>simp_all add: register_hook_def\<close>)

lemma deliver_ok:
  assumes "hooks_ok s"
  shows "hooks_ok (deliver events block_index s)"
proof -
  have "task_ok (hk_webhooks s) d" if d: "(k, w) \<in> set (hk_webhooks s)" "d \<in> set (new_tasks events block_index (k, w))" for d k w
  proof -
    have "dget (hk_webhooks s) k = Some w" using assms d(1) by (simp add: hooks_ok_def dwf_def)
    then show ?thesis using d(2) by (auto simp: new_tasks_def task_ok_def RETRY_COUNT_def split: if_splits)
  qed
  then show ?thesis using assms by (fastforce simp: hooks_ok_def deliver_def list_all_iff)
qed

lemma stop_hooks_ok: "hooks_ok s \<Longrightarrow> hooks_ok (stop_hooks s)"
  by (simp add: stop_hooks_def hooks_ok_def)

lemma hook_step_ok: "hook_step classify s t \<Longrightarrow> hooks_ok s \<Longrightarrow> hooks_ok t"
proof (induction rule: hook_step.induct)
  case (Delete s webhook_id)
  have "hook_ok w" if "dget (hk_webhooks s) k = Some w" for k w
    using that Delete list_all_dget[of "\<lambda>kw. hook_ok (snd kw)"] by (fastforce simp: hooks_ok_def)
  then show ?case
    using Delete by (auto simp: delete_hook_def intro!: set_hook_ok deleted_ok split: option.split)
qed (simp_all add: register_hook_ok deliver_ok end_task_ok attempt_ends_ok stop_hooks_ok)

lemma hook_run_ok: "hook_run classify s t \<Longrightarrow> hooks_ok s \<Longrightarrow> hooks_ok t"
  by (induction rule: hook_run.induct) (auto dest: hook_step_ok)

text \<open>A delivery makes one task per hook that listens and event it subscribed to.\<close>

lemma deliver_tasks:
  assumes "hooks_ok s"
  shows "hk_webhooks (deliver events h s) = hk_webhooks s"
    "d \<in> set (hk_tasks (deliver events h s)) \<longleftrightarrow> d \<in> set (hk_tasks s) \<or>
       (\<exists>w. dget (hk_webhooks s) (dl_hook d) = Some w \<and> wk_status w \<in> {Active, Failing}
          \<and> dl_event d \<in> set events \<and> event_type_in (wk_events w) (dl_event d) \<and> dl_block d = h \<and> dl_attempt d = 0)"
proof -
  have "dget (hk_webhooks s) k = Some w \<longleftrightarrow> (k, w) \<in> set (hk_webhooks s)" for k w
    using assms by (simp add: hooks_ok_def dwf_def)
  moreover have "d \<in> set (new_tasks events h (k, w)) \<longleftrightarrow> k = dl_hook d \<and> wk_status w \<in> {Active, Failing}
      \<and> dl_event d \<in> set events \<and> event_type_in (wk_events w) (dl_event d) \<and> dl_block d = h \<and> dl_attempt d = 0" for k w
    by (cases d) (auto simp: new_tasks_def)
  ultimately show "d \<in> set (hk_tasks (deliver events h s)) \<longleftrightarrow> d \<in> set (hk_tasks s) \<or>
       (\<exists>w. dget (hk_webhooks s) (dl_hook d) = Some w \<and> wk_status w \<in> {Active, Failing}
          \<and> dl_event d \<in> set events \<and> event_type_in (wk_events w) (dl_event d) \<and> dl_block d = h \<and> dl_attempt d = 0)"
    by (fastforce simp: deliver_def)
qed (simp add: deliver_def)

text \<open>The tenth exhausted delivery in a row disables a hook, and only then.\<close>

lemma exhausted_disables:
  assumes "hook_ok w" "wk_status w \<in> {Active, Failing}"
  shows "wk_status (exhausted w) = Disabled \<longleftrightarrow> wk_failures w = 9"
  using assms by (auto simp: exhausted_def Let_def hook_ok_def CONSECUTIVE_FAIL_DISABLE_def)

text \<open>A hook deleted while the last request of a task is under way can come back as disabled.\<close>

lemma deleted_hook_returns:
  assumes "dget (hk_webhooks s) (dl_hook (hk_tasks s ! i)) = Some w" "wk_status w = Deleted"
    and "wk_failures w \<ge> 9" "dl_attempt (hk_tasks s ! i) = 2"
  shows "get_hook s (dl_hook (hk_tasks s ! i)) = None"
    "get_hook (attempt_ends i Failed s) (dl_hook (hk_tasks s ! i)) \<noteq> None"
  using assms
  by (simp_all add: get_hook_def attempt_ends_def Let_def RETRY_COUNT_def end_task_def on_hook_def set_hook_def
      exhausted_def CONSECUTIVE_FAIL_DISABLE_def dict_simps)

end
