(* ===== verification/HeaderSync.thy ===== *)
theory HeaderSync
  imports Registry
begin

text \<open>
  Header-first synchronization: \<open>Blockchain.validate_header_chain\<close> (\<open>core/blockchain.py\<close>), the
  structural check of the headers a peer sends. A header is a JSON object whose fields may hold any
  value, so Python's \<open>==\<close>, \<open><\<close> and slicing are modelled on all values, with the TypeErrors they raise.
\<close>

section \<open>Comparing values\<close>

text \<open>\<open>a == b\<close>: a bool equals the int it stands for, dicts compare without order.\<close>

fun py_eq :: "pyval \<Rightarrow> pyval \<Rightarrow> bool" where
  "py_eq PNone b = (b = PNone)"
| "py_eq (PStr s) b = (b = PStr s)"
| "py_eq (PList xs) b = (case b of PList ys \<Rightarrow> list_all2 py_eq xs ys | _ \<Rightarrow> False)"
| "py_eq (PDict d) b =
     (case b of
        PDict e \<Rightarrow> length d = length e
          \<and> list_all (\<lambda>p. case dget e (fst p) of None \<Rightarrow> False | Some w \<Rightarrow> py_eq (snd p) w) d
      | _ \<Rightarrow> False)"
| "py_eq a b = (is_int b \<and> int_of_py a = int_of_py b)"

text \<open>\<open>a < b\<close>: \<open>None\<close> where Python raises TypeError.\<close>

fun py_less :: "pyval \<Rightarrow> pyval \<Rightarrow> bool option" where
  "py_less (PStr s) (PStr t) = Some (s < t)"
| "py_less (PList []) (PList ys) = Some (ys \<noteq> [])"
| "py_less (PList (x # xs)) (PList []) = Some False"
| "py_less (PList (x # xs)) (PList (y # ys)) =
     (if py_eq x y then py_less (PList xs) (PList ys) else py_less x y)"
| "py_less a b = (if is_int a \<and> is_int b then Some (int_of_py a < int_of_py b) else None)"

lemma py_eq_str [simp]: "py_eq (PStr s) b \<longleftrightarrow> b = PStr s" "py_eq a (PStr s) \<longleftrightarrow> a = PStr s"
  by (cases a; auto)+

lemma py_eq_int [simp]: "py_eq (PInt i) (PInt j) \<longleftrightarrow> i = j"
  by simp

lemma py_less_int [simp]: "py_less (PInt i) (PInt j) = Some (i < j)"
  by simp

text \<open>A value \<open>x[:16]\<close> can be cut from, and a value a dict can be asked for.\<close>

fun sliceable :: "pyval \<Rightarrow> bool" where
  "sliceable (PStr s) = True"
| "sliceable (PList vs) = True"
| "sliceable _ = False"

fun hashable_val :: "pyval \<Rightarrow> bool" where
  "hashable_val (PList vs) = False"
| "hashable_val (PDict d) = False"
| "hashable_val _ = True"

section \<open>The header chain\<close>

type_synonym header = "(string \<times> pyval) list"

abbreviation field :: "header \<Rightarrow> string \<Rightarrow> pyval" where
  "field hdr k \<equiv> dget_or hdr k PNone"

definition header_fields :: "string list" where
  "header_fields = [''index'', ''timestamp'', ''prevHash'', ''hash'', ''validator'']"

text \<open>A mismatch whose message slices a value that cannot be sliced raises instead.\<close>

definition mismatch :: "pyval list \<Rightarrow> msg \<Rightarrow> outcome" where
  "mismatch sliced m = (if list_all sliceable sliced then Fail m else Raise TypeError)"

definition basic_field_checks :: "int \<Rightarrow> header \<Rightarrow> outcome list" where
  "basic_field_checks i hdr =
     map (\<lambda>f. reject_if (\<not> dmem f hdr) ''header at position {} missing field {}'' [PInt i, PStr f]) header_fields
     @ [reject_if (\<not> is_int (field hdr ''index'') \<or> int_of_py (field hdr ''index'') < 0)
          ''invalid index at position {}'' [PInt i]]"

definition connect_checks :: "string \<Rightarrow> header \<Rightarrow> outcome list" where
  "connect_checks start_prev_hash hdr =
     (if start_prev_hash \<noteq> [] \<and> \<not> py_eq (field hdr ''prevHash'') (PStr start_prev_hash)
      then [mismatch [field hdr ''prevHash'']
              (Msg ''header chain does not connect: expected prevHash {}..., got {}...''
                 [PStr start_prev_hash, field hdr ''prevHash''])]
      else [])"

definition link_checks :: "header \<Rightarrow> header \<Rightarrow> outcome list" where
  "link_checks prev hdr =
     [if \<not> py_eq (field hdr ''prevHash'') (field prev ''hash'')
      then mismatch [field prev ''hash'', field hdr ''prevHash'']
             (Msg ''broken prev_hash linkage at index {}: expected {}..., got {}...''
                [field hdr ''index'', field prev ''hash'', field hdr ''prevHash''])
      else Ok [],
      reject_if (int_of_py (field hdr ''index'') \<noteq> int_of_py (field prev ''index'') + 1)
        ''non-consecutive indices: {} -> {}'' [field prev ''index'', field hdr ''index''],
      (case py_less (field hdr ''timestamp'') (field prev ''timestamp'') of
         None \<Rightarrow> Raise TypeError
       | Some earlier \<Rightarrow> reject_if earlier ''non-monotonic timestamp at index {}: {} < {}''
           [field hdr ''index'', field hdr ''timestamp'', field prev ''timestamp''])]"

definition validator_checks :: "'a registry_scheme \<Rightarrow> header \<Rightarrow> outcome list" where
  "validator_checks s hdr =
     (let v = dget_or hdr ''validator'' (PStr [])
      in if truthy v \<and> int_of_py (field hdr ''index'') > 0
         then [raise_if (\<not> hashable_val v) TypeError,
               reject_if (\<not> (is_str v \<and> dmem (str_of_py v) (validator_registry s)))
                 ''unknown validator {} at index {}'' [v, field hdr ''index'']]
         else [])"

definition header_entry_checks :: "'a registry_scheme \<Rightarrow> string \<Rightarrow> int \<Rightarrow> header option \<Rightarrow> header \<Rightarrow> outcome list" where
  "header_entry_checks s start_prev_hash i prev hdr =
     basic_field_checks i hdr
     @ (case prev of None \<Rightarrow> connect_checks start_prev_hash hdr | Some p \<Rightarrow> link_checks p hdr)
     @ validator_checks s hdr"

fun header_loop :: "'a registry_scheme \<Rightarrow> string \<Rightarrow> int \<Rightarrow> header option \<Rightarrow> header list \<Rightarrow> outcome" where
  "header_loop s start_prev_hash i prev [] = Ok []"
| "header_loop s start_prev_hash i prev (hdr # hdrs) =
     (case checks (header_entry_checks s start_prev_hash i prev hdr) of
        Ok _ \<Rightarrow> header_loop s start_prev_hash (i + 1) (Some hdr) hdrs
      | r \<Rightarrow> r)"

definition validate_header_chain :: "'a registry_scheme \<Rightarrow> header list \<Rightarrow> string \<Rightarrow> outcome" where
  "validate_header_chain s headers start_prev_hash = header_loop s start_prev_hash 0 None headers"

section \<open>What acceptance means\<close>

definition linked_headers :: "header \<Rightarrow> header \<Rightarrow> bool" where
  "linked_headers p h \<longleftrightarrow> py_eq (field h ''prevHash'') (field p ''hash'')
     \<and> int_of_py (field h ''index'') = int_of_py (field p ''index'') + 1
     \<and> py_less (field h ''timestamp'') (field p ''timestamp'') = Some False"

definition known_validator :: "'a registry_scheme \<Rightarrow> header \<Rightarrow> bool" where
  "known_validator s h \<longleftrightarrow>
     int_of_py (field h ''index'') > 0 \<and> truthy (field h ''validator'')
       \<longrightarrow> (\<exists>v. field h ''validator'' = PStr v \<and> dmem v (validator_registry s))"

definition headers_ok :: "'a registry_scheme \<Rightarrow> string \<Rightarrow> header list \<Rightarrow> bool" where
  "headers_ok s start hdrs \<longleftrightarrow>
     (hdrs \<noteq> [] \<and> start \<noteq> [] \<longrightarrow> field (hd hdrs) ''prevHash'' = PStr start)
     \<and> (\<forall>i < length hdrs - 1. linked_headers (hdrs ! i) (hdrs ! Suc i))
     \<and> list_all (\<lambda>h. list_all (\<lambda>f. dmem f h) header_fields \<and> is_int (field h ''index'')
          \<and> 0 \<le> int_of_py (field h ''index'') \<and> known_validator s h) hdrs"

lemma mismatch_not_ok [simp]: "\<not> is_ok (mismatch vs m)"
  by (simp add: mismatch_def)

lemma basic_fields_ok:
  "list_all is_ok (basic_field_checks i h) \<longleftrightarrow>
     list_all (\<lambda>f. dmem f h) header_fields \<and> is_int (field h ''index'') \<and> 0 \<le> int_of_py (field h ''index'')"
  by (auto simp: basic_field_checks_def list_all_iff)

lemma connect_ok:
  "list_all is_ok (connect_checks start h) \<longleftrightarrow> (start \<noteq> [] \<longrightarrow> field h ''prevHash'' = PStr start)"
  by (simp add: connect_checks_def)

lemma link_ok: "list_all is_ok (link_checks p h) \<longleftrightarrow> linked_headers p h"
  by (auto simp: link_checks_def linked_headers_def split: option.splits)

lemma validator_ok:
  assumes "dmem ''validator'' h"
  shows "list_all is_ok (validator_checks s h) \<longleftrightarrow> known_validator s h"
proof -
  have "dget_or h ''validator'' (PStr []) = field h ''validator''"
    using assms by (auto simp: dget_or_def dmem_def)
  then show ?thesis
    by (cases "field h ''validator''") (auto simp: validator_checks_def known_validator_def Let_def)
qed

lemma entry_ok:
  "is_ok (checks (header_entry_checks s start i prev h)) \<longleftrightarrow>
     headers_ok s [] [h]
     \<and> (case prev of None \<Rightarrow> start \<noteq> [] \<longrightarrow> field h ''prevHash'' = PStr start | Some p \<Rightarrow> linked_headers p h)"
proof -
  have v: "list_all (\<lambda>f. dmem f h) header_fields \<Longrightarrow> dmem ''validator'' h"
    by (simp add: header_fields_def)
  show ?thesis
    unfolding checks_ok header_entry_checks_def list_all_append basic_fields_ok headers_ok_def
    using v by (auto simp: validator_ok connect_ok link_ok split: option.splits)
qed

lemma header_loop_ok:
  "is_ok (header_loop s start i (Some p) hdrs) \<longleftrightarrow>
     headers_ok s [] hdrs \<and> (hdrs \<noteq> [] \<longrightarrow> linked_headers p (hd hdrs))"
proof (induction hdrs arbitrary: i p)
  case Nil
  then show ?case by (simp add: headers_ok_def)
next
  case (Cons h hs)
  have "headers_ok s [] (h # hs) \<longleftrightarrow>
      headers_ok s [] [h] \<and> headers_ok s [] hs \<and> (hs \<noteq> [] \<longrightarrow> linked_headers h (hd hs))"
    by (cases hs) (auto simp: headers_ok_def nth_Cons' less_Suc_eq_0_disj All_less_Suc2)
  then show ?case
    using entry_ok[of s start i "Some p" h] Cons.IH[of "i + 1" h]
    by (auto simp: is_ok_def split: outcome.splits)
qed

text \<open>The headers that pass are exactly the well-linked ones.\<close>

lemma validate_header_chain_iff:
  "is_ok (validate_header_chain s hdrs start) \<longleftrightarrow> headers_ok s start hdrs"
proof (cases hdrs)
  case Nil
  then show ?thesis by (simp add: validate_header_chain_def headers_ok_def)
next
  case (Cons h hs)
  have "headers_ok s start (h # hs) \<longleftrightarrow>
      headers_ok s [] [h] \<and> headers_ok s [] hs \<and> (hs \<noteq> [] \<longrightarrow> linked_headers h (hd hs))
      \<and> (start \<noteq> [] \<longrightarrow> field h ''prevHash'' = PStr start)"
    by (cases hs) (auto simp: headers_ok_def nth_Cons' less_Suc_eq_0_disj All_less_Suc2)
  then show ?thesis
    using entry_ok[of s start 0 None h] header_loop_ok[of s start 1 h hs] Cons
    by (auto simp: validate_header_chain_def is_ok_def split: outcome.splits)
qed

text \<open>For headers of blocks the conditions are those of the blocks.\<close>

lemma header_of_block:
  "field (to_header_dict E b) ''prevHash'' = PStr (b_prev_hash b)"
  "field (to_header_dict E b) ''hash'' = PStr (block_hash E b)"
  "field (to_header_dict E b) ''index'' = PInt (b_index b)"
  "field (to_header_dict E b) ''timestamp'' = PInt (b_timestamp b)"
  "field (to_header_dict E b) ''validator'' = PStr (b_validator b)"
  "f \<in> set header_fields \<Longrightarrow> dmem f (to_header_dict E b)"
  by (auto simp: to_header_dict_def dget_or_def dmem_def header_fields_def)

lemma block_headers_iff:
  "is_ok (validate_header_chain s (map (to_header_dict E) bs) start) \<longleftrightarrow>
     (bs \<noteq> [] \<and> start \<noteq> [] \<longrightarrow> b_prev_hash (hd bs) = start)
     \<and> (\<forall>i < length bs - 1. b_prev_hash (bs ! Suc i) = block_hash E (bs ! i)
           \<and> b_index (bs ! Suc i) = b_index (bs ! i) + 1 \<and> b_timestamp (bs ! i) \<le> b_timestamp (bs ! Suc i))
     \<and> (\<forall>b \<in> set bs. 0 \<le> b_index b
           \<and> (0 < b_index b \<and> b_validator b \<noteq> [] \<longrightarrow> dmem (b_validator b) (validator_registry s)))"
proof -
  have l: "linked_headers (to_header_dict E b) (to_header_dict E c) \<longleftrightarrow>
      b_prev_hash c = block_hash E b \<and> b_index c = b_index b + 1 \<and> b_timestamp b \<le> b_timestamp c" for b c
    by (auto simp: linked_headers_def header_of_block)
  have k: "known_validator s (to_header_dict E b) \<longleftrightarrow>
      (0 < b_index b \<and> b_validator b \<noteq> [] \<longrightarrow> dmem (b_validator b) (validator_registry s))" for b
    by (auto simp: known_validator_def header_of_block)
  have h: "bs \<noteq> [] \<Longrightarrow> hd (map (to_header_dict E) bs) = to_header_dict E (hd bs)" by (simp add: hd_map)
  have n: "(\<forall>i < length bs - 1. linked_headers (map (to_header_dict E) bs ! i) (map (to_header_dict E) bs ! Suc i))
      \<longleftrightarrow> (\<forall>i < length bs - 1. linked_headers (to_header_dict E (bs ! i)) (to_header_dict E (bs ! Suc i)))"
    by (intro all_cong) simp
  show ?thesis
    unfolding validate_header_chain_iff headers_ok_def length_map n l
    using h by (auto simp: list_all_iff header_of_block k)
qed

end
