(* ===== verification/Query.thy ===== *)
theory Query
  imports StateOps HeaderSync
begin

text \<open>
  The read-only queries of \<open>core/query.py\<close> in in-memory mode that the other theories do not hold:
  registries, pages of transactions, notarizations, shares, token lists and holders, block headers
  and receipt proofs. Results keep the shape of the JSON objects the code returns. A Python set is
  iterated in an unspecified order: where it shows, the order is the parameter \<open>enum\<close>.
\<close>

text \<open>\<open>xs[i:j]\<close>, negative bounds counting from the end.\<close>

definition py_slice :: "'v list \<Rightarrow> int \<Rightarrow> int \<Rightarrow> 'v list" where
  "py_slice xs i j =
     (let n = int (length xs); norm = (\<lambda>k. if k < 0 then max 0 (k + n) else min k n)
      in take (nat (norm j - norm i)) (drop (nat (norm i)) xs))"

lemma py_slice_nonneg: "0 \<le> i \<Longrightarrow> i \<le> j \<Longrightarrow> py_slice xs i j = take (nat (j - i)) (drop (nat i) xs)"
  by (cases "j \<le> int (length xs)")
    (auto simp: py_slice_def Let_def min_def nat_diff_distrib)

section \<open>Registries and pages\<close>

definition get_encryption_pk :: "'a registry_scheme \<Rightarrow> string \<Rightarrow> string option" where
  "get_encryption_pk s address = dget (key_registry s) address"

definition get_validator_pk :: "'a registry_scheme \<Rightarrow> string \<Rightarrow> bytes option" where
  "get_validator_pk s address = dget (validator_registry s) address"

definition get_revocation_info :: "'a registry_scheme \<Rightarrow> string \<Rightarrow> string \<Rightarrow> revocation option" where
  "get_revocation_info s address key_type = dget (revoked_keys s) (revoked_key address key_type)"

definition get_notarization_count :: "'a registry_scheme \<Rightarrow> string \<Rightarrow> int" where
  "get_notarization_count s address = dget_or (notarization_count s) address 0"

definition get_txs_by_sender :: "'a registry_scheme \<Rightarrow> string \<Rightarrow> string list" where
  "get_txs_by_sender s address = dget_or (txs_by_sender s) address []"

definition get_txs_by_sender_count :: "'a registry_scheme \<Rightarrow> string \<Rightarrow> int" where
  "get_txs_by_sender_count s address = int (length (dget_or (txs_by_sender s) address []))"

definition get_txs_by_sender_page :: "'a registry_scheme \<Rightarrow> string \<Rightarrow> int \<Rightarrow> int \<Rightarrow> string list" where
  "get_txs_by_sender_page s address offset limit =
     py_slice (dget_or (txs_by_sender s) address []) offset (offset + limit)"

definition get_txs_by_recipient :: "'a registry_scheme \<Rightarrow> string \<Rightarrow> string list" where
  "get_txs_by_recipient s address = dget_or (txs_by_recipient s) address []"

definition get_txs_by_recipient_count :: "'a registry_scheme \<Rightarrow> string \<Rightarrow> int" where
  "get_txs_by_recipient_count s address = int (length (dget_or (txs_by_recipient s) address []))"

section \<open>Documents\<close>

definition verify_document :: "env \<Rightarrow> 'a registry_scheme \<Rightarrow> string \<Rightarrow> (string \<times> pyval) list option" where
  "verify_document E s document_hash =
     (case dget (notarizations s) document_hash of
        None \<Rightarrow> None
      | Some tid \<Rightarrow>
          (if tid = [] then None
           else
             (case (get_tx s tid, get_tx_block s tid) of
                (Some tx, Some block_idx) \<Rightarrow>
                  map_option
                    (\<lambda>b. [(''tx_id'', PStr tid), (''block_index'', PInt block_idx),
                          (''block_hash'', PStr (block_hash E b)),
                          (''timestamp'', PInt (tx_timestamp tx)), (''sender'', PStr (tx_sender tx))])
                    (get_block_by_index s block_idx)
              | _ \<Rightarrow> None)))"

definition notarization_entry :: "'a registry_scheme \<Rightarrow> string \<Rightarrow> (int \<times> (string \<times> pyval) list) list" where
  "notarization_entry s tid =
     (case get_tx s tid of
        None \<Rightarrow> []
      | Some tx \<Rightarrow>
          [(tx_timestamp tx,
            [(''tx_id'', PStr tid),
             (''block_index'', case get_tx_block s tid of None \<Rightarrow> PNone | Some i \<Rightarrow> PInt i),
             (''timestamp'', PInt (tx_timestamp tx)), (''sender'', PStr (tx_sender tx))])])"

definition get_all_notarizations :: "'a registry_scheme \<Rightarrow> string \<Rightarrow> (string \<times> pyval) list list" where
  "get_all_notarizations s document_hash =
     map snd (sort_key fst (concat (map (notarization_entry s)
       (dget_or (notarizations_by_hash s) document_hash []))))"

text \<open>\<open>expires == 0 or expires > now\<close>; \<open>None\<close> where the comparison raises TypeError.\<close>

definition unexpired :: "int \<Rightarrow> pyval \<Rightarrow> bool option" where
  "unexpired now expires = (if py_eq expires (PInt 0) then Some True else py_less (PInt now) expires)"

fun shared_loop :: "env \<Rightarrow> 'a registry_scheme \<Rightarrow> int \<Rightarrow> string list \<Rightarrow> (string \<times> pyval) list list option" where
  "shared_loop E s now [] = Some []"
| "shared_loop E s now (tid # tids) =
     (case get_tx s tid of
        None \<Rightarrow> shared_loop E s now tids
      | Some tx \<Rightarrow>
          (if tx_type tx \<noteq> SHARE then shared_loop E s now tids
           else
             (case unexpired now (pget tx ''expires'' (PInt 0)) of
                None \<Rightarrow> None
              | Some True \<Rightarrow> map_option ((#) (tx_to_dict E tx)) (shared_loop E s now tids)
              | Some False \<Rightarrow> shared_loop E s now tids)))"

definition get_shared_with :: "env \<Rightarrow> 'a registry_scheme \<Rightarrow> int \<Rightarrow> string \<Rightarrow> (string \<times> pyval) list list option" where
  "get_shared_with E s now address = shared_loop E s now (get_txs_by_recipient s address)"

section \<open>Tokens\<close>

definition list_tokens :: "'a tokens_scheme \<Rightarrow> int \<Rightarrow> int \<Rightarrow> (string \<times> token_info) list" where
  "list_tokens s page limit =
     (let start = (page - 1) * limit
      in py_slice (sort_key fst (token_registry s)) start (start + limit))"

definition TOKEN_HOLDER_MAX_PAGE :: int where
  "TOKEN_HOLDER_MAX_PAGE = 100"

text \<open>The sort keys \<open>(-amount, addr)\<close> of the holders with a positive balance.\<close>

definition positive_holders :: "'a tokens_scheme \<Rightarrow> string \<Rightarrow> (int \<times> string) set" where
  "positive_holders s token_id =
     (\<lambda>a. (- get_token_balance s token_id a, a))
       ` {a \<in> dget_or (holders_by_token s) token_id {}. get_token_balance s token_id a > 0}"

definition get_token_holders :: "'a tokens_scheme \<Rightarrow> string \<Rightarrow> int \<Rightarrow> int \<Rightarrow> (string \<times> int) list \<times> int" where
  "get_token_holders s token_id page limit =
     (let page = max 1 page; limit = max 1 (min limit TOKEN_HOLDER_MAX_PAGE);
          total = int (card (positive_holders s token_id)); start = (page - 1) * limit;
          top_n = take (nat (start + limit)) (sorted_list_of_set (positive_holders s token_id))
      in (map (\<lambda>(neg_amt, addr). (addr, - neg_amt)) (drop (nat start) top_n), total))"

definition token_entry :: "'a tokens_scheme \<Rightarrow> string \<Rightarrow> string \<Rightarrow> (string \<times> pyval) list list" where
  "token_entry s address tid =
     (let amount = get_token_balance s tid address; reg = dget (token_registry s) tid
      in if amount > 0
         then [[(''token_id'', PStr tid),
                (''symbol'', PStr (case reg of None \<Rightarrow> [] | Some r \<Rightarrow> tk_symbol r)),
                (''name'', PStr (case reg of None \<Rightarrow> [] | Some r \<Rightarrow> tk_name r)),
                (''decimals'', PInt (case reg of None \<Rightarrow> 0 | Some r \<Rightarrow> tk_decimals r)),
                (''amount'', PInt amount)]]
         else [])"

definition get_address_tokens ::
    "(string set \<Rightarrow> string list) \<Rightarrow> 'a tokens_scheme \<Rightarrow> string \<Rightarrow> int \<Rightarrow> int \<Rightarrow> (string \<times> pyval) list list" where
  "get_address_tokens enum s address page limit =
     (let page = max 1 page; limit = max 1 (min limit 100); start = (page - 1) * limit;
          tids = dget_or (tokens_by_address s) address {}
      in if tids = {} then []
         else py_slice (concat (map (token_entry s address) (enum tids))) start (start + limit))"

section \<open>Light client queries\<close>

definition get_block_headers :: "env \<Rightarrow> 'a registry_scheme \<Rightarrow> int \<Rightarrow> int \<Rightarrow> (string \<times> pyval) list list" where
  "get_block_headers E s start count =
     (let stop = min (start + min count 100) (height s + 1)
      in concat (map (\<lambda>i. case get_block_by_index s i of None \<Rightarrow> [] | Some b \<Rightarrow> [to_header_dict E b])
           [max 0 start..stop - 1]))"

record receipt_proof_doc =
  rp_tx_id :: string
  rp_receipt :: "(string \<times> pyval) list"
  rp_proof :: "(string \<times> bool) list"
  rp_root :: string
  rp_block_index :: int

text \<open>The receipts the node still has of the transactions of a block.\<close>

definition block_receipts :: "env \<Rightarrow> 'a receipts_scheme \<Rightarrow> block \<Rightarrow> receipt list" where
  "block_receipts E s b = List.map_filter (\<lambda>tx. dget (receipt_map s) (tx_id E tx)) (b_txs b)"

definition get_receipt_proof :: "env \<Rightarrow> 'a receipts_scheme \<Rightarrow> string \<Rightarrow> receipt_proof_doc option" where
  "get_receipt_proof E s tid =
     (case dget (receipt_map s) tid of
        None \<Rightarrow> None
      | Some r \<Rightarrow>
          (case get_block_by_index s (rc_block_index r) of
             None \<Rightarrow> None
           | Some b \<Rightarrow>
               Some \<lparr>rp_tx_id = tid, rp_receipt = receipt_to_dict E r,
                     rp_proof = map (\<lambda>(h, side). (hex h, side))
                       (receipt_proof E (block_receipts E s b) (rc_tx_index r)),
                     rp_root = b_receipts_root b, rp_block_index = rc_block_index r\<rparr>))"

section \<open>The pages of holders\<close>

lemma finite_positive_holders:
  assumes "tokens_ok s"
  shows "finite (positive_holders s tid)"
proof -
  have "{a. get_token_balance s tid a > 0} \<subseteq> snd ` fst ` set (token_balances s)"
  proof
    fix a assume "a \<in> {a. get_token_balance s tid a > 0}"
    then have "dget (token_balances s) (tid, a) \<noteq> None"
      by (auto simp: get_token_balance_def dget_or_def split: option.splits)
    then obtain v where "((tid, a), v) \<in> set (token_balances s)" by (auto dest: map_of_SomeD)
    then show "a \<in> snd ` fst ` set (token_balances s)" by force
  qed
  then have "finite {a. get_token_balance s tid a > 0}" using finite_subset by blast
  then show ?thesis by (simp add: positive_holders_def)
qed

lemma positive_holders_mem:
  assumes "tokens_ok s"
  shows "(- n, a) \<in> positive_holders s tid \<longleftrightarrow> n = get_token_balance s tid a \<and> n > 0"
  using assms by (auto simp: positive_holders_def tokens_ok_def index_agrees_def)

text \<open>One page is a window of the list of all holders, largest amount first.\<close>

definition all_holders :: "'a tokens_scheme \<Rightarrow> string \<Rightarrow> (string \<times> int) list" where
  "all_holders s tid = map (\<lambda>(neg_amt, addr). (addr, - neg_amt)) (sorted_list_of_set (positive_holders s tid))"

lemma holders_page:
  assumes "1 \<le> page" "1 \<le> limit" "limit \<le> TOKEN_HOLDER_MAX_PAGE"
  shows "get_token_holders s tid page limit =
     (take (nat limit) (drop (nat ((page - 1) * limit)) (all_holders s tid)), int (card (positive_holders s tid)))"
proof -
  have "0 \<le> (page - 1) * limit" using assms by simp
  then have n: "nat ((page - 1) * limit + limit) = nat limit + nat ((page - 1) * limit)"
    using assms(2) by (simp add: nat_add_distrib)
  have "max 1 page = page" "max 1 (min limit TOKEN_HOLDER_MAX_PAGE) = limit" using assms by auto
  then show ?thesis
    by (simp add: get_token_holders_def all_holders_def Let_def n drop_map take_map drop_take)
qed

lemma all_holders_facts:
  assumes "tokens_ok s"
  shows "set (all_holders s tid) = {(a, n). n = get_token_balance s tid a \<and> n > 0}"
    "distinct (map fst (all_holders s tid))" "int (length (all_holders s tid)) = int (card (positive_holders s tid))"
    "sorted (map (\<lambda>h. - snd h) (all_holders s tid))"
proof -
  let ?l = "sorted_list_of_set (positive_holders s tid)"
  note fin = finite_positive_holders[OF assms, of tid]
  have l: "set ?l = positive_holders s tid" "sorted ?l" "distinct ?l" using fin by simp_all
  have "(a, n) \<in> set (all_holders s tid) \<longleftrightarrow> (- n, a) \<in> positive_holders s tid" for a n
    using l(1) by (force simp: all_holders_def)
  then show m: "set (all_holders s tid) = {(a, n). n = get_token_balance s tid a \<and> n > 0}"
    using positive_holders_mem[OF assms] by auto
  have inj: "inj_on snd (positive_holders s tid)" by (auto simp: inj_on_def positive_holders_def)
  have "map fst (all_holders s tid) = map snd ?l" by (simp add: all_holders_def case_prod_beta)
  then show "distinct (map fst (all_holders s tid))" using l inj by (simp add: distinct_map)
  show "int (length (all_holders s tid)) = int (card (positive_holders s tid))"
    by (simp add: all_holders_def)
  have "map (\<lambda>h. - snd h) (all_holders s tid) = map fst ?l" by (simp add: all_holders_def case_prod_beta)
  moreover have "sorted (map fst ?l)"
    unfolding sorted_wrt_map using l(2) by (rule sorted_wrt_mono_rel[rotated]) (auto simp: less_eq_prod_def)
  ultimately show "sorted (map (\<lambda>h. - snd h) (all_holders s tid))" by simp
qed

text \<open>Consecutive pages make up the whole list.\<close>

lemma pages_concat:
  "0 < n \<Longrightarrow> concat (map (\<lambda>p. take n (drop (p * n) xs)) [0..<k]) = take (k * n) xs"
  by (induction k) (simp_all add: take_add add.commute[of n])

lemma holders_pages:
  assumes "tokens_ok s" "1 \<le> limit" "limit \<le> TOKEN_HOLDER_MAX_PAGE"
    and "int (card (positive_holders s tid)) \<le> int k * limit"
  shows "concat (map (\<lambda>p. fst (get_token_holders s tid (int p + 1) limit)) [0..<k]) = all_holders s tid"
proof -
  have "fst (get_token_holders s tid (int p + 1) limit)
      = take (nat limit) (drop (p * nat limit) (all_holders s tid))" for p
  proof -
    have "nat (int p * limit) = p * nat limit" using assms(2) by (simp add: nat_mult_distrib)
    then show ?thesis using holders_page[of "int p + 1" limit s tid] assms(2,3) by simp
  qed
  then have "concat (map (\<lambda>p. fst (get_token_holders s tid (int p + 1) limit)) [0..<k])
      = take (k * nat limit) (all_holders s tid)"
    using pages_concat[of "nat limit" "all_holders s tid" k] assms(2) by simp
  moreover have "length (all_holders s tid) \<le> k * nat limit"
  proof -
    have "int (length (all_holders s tid)) \<le> int (k * nat limit)"
      using assms(2,4) all_holders_facts(3)[OF assms(1), of tid] by simp
    then show ?thesis by (simp only: of_nat_le_iff)
  qed
  ultimately show ?thesis by simp
qed

section \<open>Receipt proofs\<close>

text \<open>
  The proof served for a receipt verifies against the receipts root of its block, provided the node
  has the receipts of all transactions of the block, each under its own index.
\<close>

lemma block_receipts_all:
  assumes "list_all2 (\<lambda>tx r. dget (receipt_map s) (tx_id E tx) = Some r) (b_txs b) rs"
  shows "block_receipts E s b = rs"
proof -
  have "list_all2 (\<lambda>tx r. dget (receipt_map s) (tx_id E tx) = Some r) txs rs
     \<Longrightarrow> List.map_filter (\<lambda>tx. dget (receipt_map s) (tx_id E tx)) txs = rs" for txs
    by (induction txs rs rule: list_all2_induct) (simp_all add: List.map_filter_simps)
  then show ?thesis using assms by (simp add: block_receipts_def)
qed

lemma served_receipt_proof:
  assumes "list_all2 (\<lambda>tx r. dget (receipt_map s) (tx_id E tx) = Some r) (b_txs b) rs"
    and "i < length rs" "rc_tx_index (rs ! i) = int i" "rc_block_index (rs ! i) = h"
    and "get_block_by_index s h = Some b" "b_receipts_root b = receipts_root E rs"
  shows "\<exists>d. get_receipt_proof E s (tx_id E (b_txs b ! i)) = Some d
    \<and> verify_receipt_proof E (receipt_hash E (rs ! i)) (map (\<lambda>(x, side). (the (fromhex x), side)) (rp_proof d))
       (rp_root d) = Some True"
proof -
  have r: "dget (receipt_map s) (tx_id E (b_txs b ! i)) = Some (rs ! i)"
    using assms(1,2) by (simp add: list_all2_conv_all_nth)
  have m: "map (\<lambda>(x, side). (the (fromhex x), side)) (map (\<lambda>(h, side). (hex h, side)) p) = p" for p :: "(bytes \<times> bool) list"
    by (induction p) auto
  show ?thesis
    using r assms(3-6) block_receipts_all[OF assms(1)] receipt_proof_verifies[OF assms(2), of E]
    by (simp add: get_receipt_proof_def m del: map_map)
qed

section \<open>Headers\<close>

text \<open>A page of headers holds at most 100 and exactly the blocks of the range.\<close>

lemma block_headers_page:
  assumes "height s + 1 = int (length (chain_list s))" "0 \<le> start" "0 \<le> count"
  shows "get_block_headers E s start count =
     map (to_header_dict E) (take (nat (min count 100)) (drop (nat start) (chain_list s)))"
proof -
  let ?n = "int (length (chain_list s))" and ?c = "min count 100"
  let ?e = "min (start + ?c) ?n"
  have "concat (map (\<lambda>i. case get_block_by_index s i of None \<Rightarrow> [] | Some b \<Rightarrow> [to_header_dict E b]) [start..?e - 1])
      = map (\<lambda>i. to_header_dict E (chain_list s ! nat i)) [start..?e - 1]"
  proof -
    have "(case get_block_by_index s i of None \<Rightarrow> [] | Some b \<Rightarrow> [to_header_dict E b])
        = [to_header_dict E (chain_list s ! nat i)]" if "i \<in> set [start..?e - 1]" for i
      using that assms(2) by (simp add: get_block_by_index_def)
    then have "concat (map (\<lambda>i. case get_block_by_index s i of None \<Rightarrow> [] | Some b \<Rightarrow> [to_header_dict E b]) [start..?e - 1])
        = concat (map (\<lambda>i. [to_header_dict E (chain_list s ! nat i)]) [start..?e - 1])"
      by (intro arg_cong[where f = concat] map_cong refl)
    then show ?thesis by simp
  qed
  also have "\<dots> = map (to_header_dict E) (take (nat ?c) (drop (nat start) (chain_list s)))"
  proof (rule nth_equalityI)
    show "length (map (\<lambda>i. to_header_dict E (chain_list s ! nat i)) [start..?e - 1])
        = length (map (to_header_dict E) (take (nat ?c) (drop (nat start) (chain_list s))))"
      using assms(2,3) by auto
  next
    fix i assume "i < length (map (\<lambda>i. to_header_dict E (chain_list s ! nat i)) [start..?e - 1])"
    then have i: "i < nat ?c" "nat start + i < length (chain_list s)" "start + int i \<le> ?e - 1"
      using assms(2,3) by auto
    then have "[start..?e - 1] ! i = start + int i" "nat (start + int i) = nat start + i"
      using assms(2) by (simp_all add: nth_upto nat_add_distrib)
    then show "map (\<lambda>i. to_header_dict E (chain_list s ! nat i)) [start..?e - 1] ! i
        = map (to_header_dict E) (take (nat ?c) (drop (nat start) (chain_list s))) ! i"
      using i assms(2) by simp
  qed
  finally show ?thesis using assms(1,2) by (simp add: get_block_headers_def Let_def max_def)
qed

end
