(* ===== verification/Reach.thy ===== *)
theory Reach
  imports Node
begin

text \<open>
  The node as a state machine: its operations are the steps, and a state is reachable when a
  sequence of steps that raise nothing leads to it from the empty chain. Invariants of the values
  (money, tokens) share the locale \<open>value_invariant\<close>; the linkage of the chain is proved by rule
  induction. The transactions of a genesis block are not validated by the code: of a genesis block
  received from the network a step asks that its token amounts are positive.
\<close>

section \<open>Steps\<close>

inductive node_step :: "env \<Rightarrow> chain \<Rightarrow> chain \<Rightarrow> bool" for E where
  submit: "submit_tx E now tx s = (r, t) \<Longrightarrow> node_step E s t"
| genesis: "init_chain E now v sk pk s = (None, t) \<Longrightarrow> node_step E s t"
| activate: "activate_financial_layer v s = (None, t) \<Longrightarrow> node_step E s t"
| produce: "produce_block E now v sk s = (Inr r, t) \<Longrightarrow> node_step E s t"
| receive: "add_block E now b s = (Ok x, t) \<Longrightarrow> b_index b = 0 \<longrightarrow> list_all token_amount_ok (b_txs b) \<Longrightarrow>
     node_step E s t"
| validator: "node_step E s (add_validator v pk s)"
| lock: "node_step E s (set_genesis_hash h s)"
| query: "node_step E s (snd (state_root E s))"

inductive reachable :: "env \<Rightarrow> chain \<Rightarrow> bool" for E where
  start: "reachable E new_chain"
| step: "reachable E s \<Longrightarrow> node_step E s t \<Longrightarrow> reachable E t"

inductive_cases node_stepE: "node_step E s t"
inductive_simps reachable_iff: "reachable E s"

section \<open>What each operation does to the chain\<close>

lemma append_block_None: "append_block E b s = (None, t) \<longleftrightarrow> append_block_inner E b s = (None, t)"
  by (auto simp: append_block_def split: prod.splits option.splits exn.splits)

lemma core_drain: "core_view (drain_pool E b s) = core_view s"
  by (rule core_fields) (simp_all add: drain_pool_def rebuild_pending_debits_cache_def Let_def)

lemma core_submit: "submit_tx E now tx s = (r, t) \<Longrightarrow> core_view t = core_view s"
  by (rule core_fields) (auto simp: submit_tx_def pool_push_def split: outcome.splits)

text \<open>Money, stakes and tokens, without the indices.\<close>

definition value_view where
  "value_view s = (fin_view s, stake_view s, token_view s)"

lemma core_value: "core_view t = core_view s \<Longrightarrow> value_view t = value_view s"
  by (simp add: core_view_def value_view_def)

lemma value_replace: "value_view (replace_block E old b s) = value_view s"
  by (simp add: value_view_def replace_block_def fin_view_def stake_view_def token_view_def)

lemma value_finish: "value_view (snd (finish_block E sk b s)) = value_view s"
  by (simp add: finish_block_def Let_def core_value[OF core_drain] value_replace)

lemma value_stamp_genesis: "value_view (stamp_genesis E sk g s) = value_view s"
  by (simp add: value_view_def stamp_genesis_def replace_block_def fin_view_def stake_view_def
      token_view_def state_root_def Let_def split: prod.splits)

lemma value_admin:
  "value_view (add_validator v pk s) = value_view s" "value_view (set_genesis_hash h s) = value_view s"
  "value_view (snd (state_root E s)) = value_view s"
  by (simp_all add: value_view_def add_validator_def set_genesis_hash_def state_root_def Let_def
      fin_view_def stake_view_def token_view_def split: prod.splits)

text \<open>A block that production or reception put on the chain was validated against the tip.\<close>

lemma produce_block_cases:
  assumes "produce_block E now v sk s = (Inr r, t)"
  obtains (idle) "r = None" "t = s"
  | (made) parent b u where "latest_block s = Some parent" "0 \<le> height s"
      "b = build_block E now v sk parent s" "is_ok (validate_block E s now b (Some parent))"
      "append_block_inner E b s = (None, u)" "finish_block E sk b u = (the r, t)" "r \<noteq> None"
  using assms
  by (auto simp: produce_block_def Let_def append_block_None split: option.splits if_splits outcome.splits prod.splits)

lemma add_block_Ok:
  assumes "add_block E now b s = (Ok x, t)"
  obtains u where "b_index b = height s + 1"
    "is_ok (validate_block E s now b (if b_index b > 0 then latest_block s else None))"
    "b_index b > 0 \<Longrightarrow> b_state_root b \<noteq> []"
    "append_block_inner E b s = (None, u)" "t = drain_pool E b u"
  using assms
  by (auto simp: add_block_def Let_def append_block_None evaluate_fork_def
      split: option.splits if_splits outcome.splits prod.splits exn.splits)

lemma init_chain_cases:
  assumes "init_chain E now v sk pk s = (None, t)"
  obtains (already) "t = s" "0 \<le> height s"
  | (made) g u where "height s < 0" "append_block_inner E g s = (None, u)" "b_index g = 0"
      "list_all token_amount_ok (b_txs g)"
      "t = stamp_genesis E sk g (if pk \<noteq> [] then auto_stake v u else u)"
proof (cases "0 \<le> height s")
  case True
  then show ?thesis using that(1) assms by (simp add: init_chain_def)
next
  case False
  let ?pk = "if pk \<noteq> [] then pk else dget_or (poa_validators s) v []"
  let ?g = "block_sign E (genesis_block E v (genesis_txs E v sk ?pk now) now) sk"
  obtain u where u: "append_block E ?g s = (None, u)"
    "t = stamp_genesis E sk ?g (if pk \<noteq> [] then auto_stake v u else u)"
    using assms False
    by (auto simp: init_chain_def Let_def run_all_Cons_None when_do_eq simp del: run_all.simps(2) split: if_splits)
  have "list_all token_amount_ok (b_txs ?g)"
    by (simp add: block_sign_def genesis_block_def mk_block_def genesis_txs_def tx_sign_def
        mk_register_validator_def new_tx_def token_amount_ok_def)
  then show ?thesis
    using that(2)[of ?g u] False u by (simp add: append_block_None block_sign_def genesis_block_def mk_block_def)
qed

lemma produced_fields:
  "b_index (build_block E now v sk parent s) = b_index parent + 1"
  "b_prev_hash (build_block E now v sk parent s) = block_hash E parent"
  "b_timestamp (build_block E now v sk parent s) = max now (b_timestamp parent + 1)"
  by (simp_all add: build_block_def block_sign_def mk_block_def)

lemma valid_positive_index:
  "is_ok (validate_block E s now b (Some p)) \<Longrightarrow> b_index b \<noteq> 0 \<Longrightarrow>
   b_index b = b_index p + 1 \<and> b_prev_hash b = block_hash E p \<and> b_timestamp p < b_timestamp b
     \<and> dmem (b_validator b) (poa_validators s) \<and> \<not> is_key_revoked s (b_validator b) ''signing''"
proof (erule validate_block_cases, assumption)
  fix fin assume "is_ok (checks (header_checks E s now b p @ fee_checks E b p @ size_checks E b))"
  then have "list_all is_ok (header_checks E s now b p)" by (simp only: checks_ok list_all_append)
  then show ?thesis by (simp add: header_checks_def Let_def)
qed

lemma append_chain:
  fixes s t :: "'a chain_scheme"
  assumes "append_block_inner E b s = (None, t)"
  shows "chain_list t = chain_list s @ [b]" "height t = height s + 1" "latest_block t = Some b"
    "stale_nonces t = stale_nonces s"
  using append_index[OF assms] index_tx_chain[of E "height s + 1" "enumerate 0 (b_txs b)" "push_block E b s"]
  by (simp_all add: index_view_def push_block_def)

section \<open>The chain is linked\<close>

text \<open>Numbered from zero, each block naming the hash of the one before it, with growing timestamps.\<close>

definition chain_linked :: "env \<Rightarrow> 'a registry_scheme \<Rightarrow> bool" where
  "chain_linked E s \<longleftrightarrow> chain_ok s \<and>
     (\<forall>i. Suc i < length (chain_list s) \<longrightarrow>
        b_prev_hash (chain_list s ! Suc i) = block_hash E (chain_list s ! i)
        \<and> b_timestamp (chain_list s ! i) < b_timestamp (chain_list s ! Suc i))"

lemma chain_linked_cong: "index_view s = index_view t \<Longrightarrow> chain_linked E s = chain_linked E t"
  by (simp add: chain_linked_def chain_ok_def index_view_def)

lemma chain_linked_core: "core_view t = core_view s \<Longrightarrow> chain_linked E t = chain_linked E s"
  by (rule chain_linked_cong) (rule core_viewD(4))

lemma linked_admin:
  "chain_linked E (add_validator v pk s) = chain_linked E s" "chain_linked E (set_genesis_hash h s) = chain_linked E s"
  "chain_linked E (snd (state_root E s)) = chain_linked E s"
  by (simp_all add: chain_linked_def chain_ok_def add_validator_def set_genesis_hash_def state_root_def Let_def
      split: prod.splits)

lemma linked_append:
  assumes "chain_linked E s" "chain_list t = chain_list s @ [b]" "height t = height s + 1"
    "latest_block t = Some b" "b_index b = height s + 1"
    "chain_list s \<noteq> [] \<Longrightarrow> b_prev_hash b = block_hash E (last (chain_list s))
       \<and> b_timestamp (last (chain_list s)) < b_timestamp b"
  shows "chain_linked E t"
proof -
  have e: "Suc i = length (chain_list s) \<Longrightarrow> chain_list s ! i = last (chain_list s)" for i
    by (metis diff_Suc_1 last_conv_nth length_0_conv nat.simps(3))
  have ne: "Suc i = length (chain_list s) \<Longrightarrow> chain_list s \<noteq> []" for i by auto
  show ?thesis
    using assms(1-5) assms(6)[OF ne]
    by (auto simp: chain_linked_def chain_ok_def nth_append less_Suc_eq e)
qed

lemma linked_tip:
  assumes "chain_linked E s" "latest_block s = Some p"
  shows "chain_list s \<noteq> [] \<and> last (chain_list s) = p \<and> b_index p = height s \<and> 0 \<le> height s"
proof -
  have "chain_list s \<noteq> []" "last (chain_list s) = p"
    using assms by (auto simp: chain_linked_def chain_ok_def split: if_splits)
  moreover from this have "length (chain_list s) - 1 < length (chain_list s)"
    "p = chain_list s ! (length (chain_list s) - 1)" by (simp_all add: last_conv_nth)
  ultimately show ?thesis using assms(1) by (simp add: chain_linked_def chain_ok_def Suc_le_eq of_nat_diff)
qed

text \<open>Replacing the tip by a block with the same number, parent and time keeps the chain linked.\<close>

lemma linked_replace:
  assumes "chain_linked E s" "latest_block s = Some b" "b_index b' = b_index b" "b_prev_hash b' = b_prev_hash b"
    "b_timestamp b' = b_timestamp b"
  shows "chain_linked E (replace_block E old b' s)"
proof -
  let ?n = "length (chain_list s) - 1"
  have ne: "chain_list s \<noteq> []" "last (chain_list s) = b" "b_index b = int ?n"
    using assms(1,2) by (auto simp: chain_linked_def chain_ok_def last_conv_nth split: if_splits)
  have l: "chain_list (replace_block E old b' s) = (chain_list s)[?n := b']"
    using ne assms(3) by (simp add: replace_block_def)
  have o: "height (replace_block E old b' s) = height s" "latest_block (replace_block E old b' s) = Some b'"
    by (simp_all add: replace_block_def)
  have u: "last ((chain_list s)[?n := b']) = b'" "(chain_list s)[?n := b'] \<noteq> []"
    using ne by (simp_all add: last_list_update)
  show ?thesis
    using assms ne
    by (auto simp: chain_linked_def chain_ok_def l o u nth_list_update last_conv_nth)
qed

lemma stamp_fields:
  "b_index (stamp E sk r q b) = b_index b" "b_prev_hash (stamp E sk r q b) = b_prev_hash b"
  "b_timestamp (stamp E sk r q b) = b_timestamp b" "b_txs (stamp E sk r q b) = b_txs b"
  by (simp_all add: stamp_def block_sign_def)

lemma linked_step:
  assumes "chain_linked E s" "node_step E s t"
  shows "chain_linked E t"
  using assms(2)
proof (cases rule: node_step.cases)
  case (submit now tx r)
  then show ?thesis using assms(1) chain_linked_core core_submit by blast
next
  case (genesis now v sk pk)
  then show ?thesis
  proof (cases rule: init_chain_cases)
    case (made g u)
    let ?w = "if pk \<noteq> [] then auto_stake v u else u"
    note c = append_chain[OF made(2)]
    have "chain_list s = []" "height s = - 1"
      using assms(1) made(1) by (auto simp: chain_linked_def chain_ok_def)
    then have u: "chain_linked E u" using linked_append[OF assms(1) c(1-3)] made(3) by simp
    obtain r tr where r: "state_root E ?w = (r, ?w\<lparr>state_trie := tr\<rparr>)"
      by (cases "trie_root (sha3 E) (state_trie ?w)") (simp add: state_root_def)
    have "index_view (?w\<lparr>state_trie := tr\<rparr>) = index_view u"
      by (simp add: index_view_def auto_stake_def)
    then have w: "chain_linked E (?w\<lparr>state_trie := tr\<rparr>)" "latest_block (?w\<lparr>state_trie := tr\<rparr>) = Some g"
      using chain_linked_cong u c(3) by (blast, simp add: auto_stake_def)
    have "chain_linked E (replace_block E g (stamp E sk r (last_receipts_root ?w) g) (?w\<lparr>state_trie := tr\<rparr>))"
      by (rule linked_replace[OF w stamp_fields(1-3)])
    then show ?thesis
      unfolding made(5) stamp_genesis_def r by (simp add: chain_linked_def chain_ok_def Let_def)
  qed (simp add: assms(1))
next
  case (activate v)
  then have "index_view t = index_view s" by (rule activate_index)
  then show ?thesis using chain_linked_cong assms(1) by blast
next
  case (produce now v sk r)
  then show ?thesis
  proof (cases rule: produce_block_cases)
    case (made parent b u)
    note l = linked_tip[OF assms(1) made(1)]
    note c = append_chain[OF made(5)]
    have "chain_linked E u"
      using linked_append[OF assms(1) c(1-3)] l by (simp add: made(3) produced_fields)
    then have "chain_linked E (replace_block E b (stamp E sk (last_state_root u) (last_receipts_root u) b) u)"
      by (rule linked_replace[OF _ c(3) stamp_fields(1-3)])
    then show ?thesis using made(6) by (auto simp: finish_block_def Let_def chain_linked_core[OF core_drain])
  qed (simp add: assms(1))
next
  case (receive now b x)
  from receive(1) show ?thesis
  proof (cases rule: add_block_Ok)
    case (1 u)
    note c = append_chain[OF 1(4)]
    have "b_prev_hash b = block_hash E (last (chain_list s)) \<and> b_timestamp (last (chain_list s)) < b_timestamp b"
      if ne: "chain_list s \<noteq> []"
    proof -
      have "latest_block s = Some (last (chain_list s))" "0 \<le> height s"
        using assms(1) ne by (auto simp: chain_linked_def chain_ok_def Suc_le_eq)
      then show ?thesis using valid_positive_index[of E s now b "last (chain_list s)"] 1(1,2) by simp
    qed
    then have "chain_linked E u" using linked_append[OF assms(1) c(1-3) 1(1)] by blast
    then show ?thesis using chain_linked_core[OF core_drain] 1(5) by blast
  qed
qed (simp_all add: assms(1) linked_admin)

lemma reachable_linked: "reachable E s \<Longrightarrow> chain_linked E s"
proof (induction rule: reachable.induct)
  case start
  then show ?case by (simp add: chain_linked_def new_chain_index) (simp add: new_chain_def)
qed (blast intro: linked_step)

section \<open>Invariants of the values\<close>

locale value_invariant =
  fixes I :: "chain \<Rightarrow> bool"
  assumes I_start: "I new_chain"
    and I_view: "value_view t = value_view s \<Longrightarrow> I s \<Longrightarrow> I t"
    and I_append: "I s \<Longrightarrow> list_all token_amount_ok (b_txs b) \<Longrightarrow> append_block_inner E b s = (None, t) \<Longrightarrow> I t"
    and I_stake: "I s \<Longrightarrow> I (auto_stake v s)"
    and I_activate: "I s \<Longrightarrow> activate_financial_layer v s = (None, t) \<Longrightarrow> I t"
begin

lemma I_received:
  assumes "I s" "is_ok (validate_block E s now b (if b_index b > 0 then q else None))"
    "append_block_inner E b s = (None, t)" "b_index b = 0 \<longrightarrow> list_all token_amount_ok (b_txs b)"
  shows "I t"
proof (cases "b_index b = 0")
  case True
  then show ?thesis using I_append[OF assms(1) _ assms(3)] assms(4) by simp
next
  case False
  then obtain p where "is_ok (validate_block E s now b (Some p))"
    using assms(2) by (cases q) (auto simp: validate_block_def split: if_splits)
  then show ?thesis using I_append[OF assms(1) valid_block_token_amounts assms(3)] False by blast
qed

lemma I_step: "chain_linked E s \<Longrightarrow> I s \<Longrightarrow> node_step E s t \<Longrightarrow> I t"
proof (erule node_stepE)
  fix now tx r assume "I s" "submit_tx E now tx s = (r, t)"
  then show "I t" using I_view core_value core_submit by blast
next
  fix now v sk pk assume s: "I s" and i: "init_chain E now v sk pk s = (None, t)"
  from i show "I t"
  proof (cases rule: init_chain_cases)
    case (made g u)
    have u: "I u" by (rule I_append[OF s made(4,2)])
    then have "I (if pk \<noteq> [] then auto_stake v u else u)" using I_stake by simp
    then show ?thesis using made(5) I_view[OF value_stamp_genesis] by simp
  qed (simp add: s)
next
  fix v assume "I s" "activate_financial_layer v s = (None, t)"
  then show "I t" by (rule I_activate)
next
  fix now v sk r assume l: "chain_linked E s" and s: "I s" and p: "produce_block E now v sk s = (Inr r, t)"
  from p show "I t"
  proof (cases rule: produce_block_cases)
    case (made parent b u)
    have "b_index b \<noteq> 0"
      using linked_tip[OF l made(1)] made(3) produced_fields(1)[of E now v sk parent s] by simp
    then have "list_all token_amount_ok (b_txs b)" using made(4) valid_block_token_amounts by blast
    then have "I u" by (rule I_append[OF s _ made(5)])
    then show ?thesis using I_view[of t u] value_finish[of E sk b u] made(6) by simp
  qed (simp add: s)
next
  fix now b x assume s: "I s" and a: "add_block E now b s = (Ok x, t)"
    and g: "b_index b = 0 \<longrightarrow> list_all token_amount_ok (b_txs b)"
  from a show "I t"
  proof (cases rule: add_block_Ok)
    case (1 u)
    have "I u" by (rule I_received[OF s 1(2,4) g])
    then show ?thesis using I_view[OF core_value[OF core_drain]] 1(5) by simp
  qed
qed (use I_view[OF value_admin(1)] I_view[OF value_admin(2)] I_view[OF value_admin(3)] in blast)+

lemma I_reachable: "reachable E s \<Longrightarrow> I s"
  by (induction rule: reachable.induct) (blast intro: I_start I_step reachable_linked)+

end

lemma value_viewD:
  assumes "value_view t = value_view s"
  shows "fin_view t = fin_view s" "stake_view t = stake_view s" "token_view t = token_view s"
  using assms by (simp_all add: value_view_def)

definition money_invariant :: "chain \<Rightarrow> bool" where
  "money_invariant s \<longleftrightarrow> money_ok s \<and> total_minted s \<le> MAX_SUPPLY
     \<and> (financial_active s \<or> total_minted s = 0)"

lemma auto_stake_money: "money_ok s \<Longrightarrow> money_ok (auto_stake v s)"
proof -
  assume m: "money_ok s"
  have "list_all (\<lambda>p. dwf (snd p) \<and> dnonneg (snd p)) (stakes s)" using m by (simp add: money_ok_def stake_ok_def)
  then have "dwf (dget_or (stakes s) v []) \<and> dnonneg (dget_or (stakes s) v [])"
    by (rule list_all_dget_or) simp
  then show ?thesis
    using m by (auto simp: auto_stake_def money_ok_def ledger_ok_def solvent_def stake_ok_def commissions_ok_def
        MIN_STAKE_def intro!: list_all_dset dnonneg_dset)
qed

interpretation money_steps: value_invariant money_invariant
proof
  show "money_invariant new_chain"
    using new_chain_money by (simp add: money_invariant_def economics_defs)
next
  fix s t :: chain assume v: "value_view t = value_view s" and "money_invariant s"
  moreover have "total_minted t = total_minted s" "financial_active t = financial_active s"
    using value_viewD(1)[OF v] by (simp_all add: fin_view_def)
  ultimately show "money_invariant t"
    using money_ok_cong[OF value_viewD(1,2)[OF v]] by (simp add: money_invariant_def)
next
  fix s t :: chain and b E assume "money_invariant s" "append_block_inner E b s = (None, t)"
  then show "money_invariant t"
    using append_money[of s E b t] block_reward_cap[of s "height s + 1"] by (auto simp: money_invariant_def)
next
  fix s :: chain and v assume "money_invariant s"
  then show "money_invariant (auto_stake v s)"
    using auto_stake_money[of s v] by (simp add: money_invariant_def auto_stake_def)
next
  fix s t :: chain and v assume "money_invariant s" "activate_financial_layer v s = (None, t)"
  then show "money_invariant t"
    using activate_ok[of s v t] allocation_pos(2) by (auto simp: money_invariant_def)
qed

interpretation token_steps: value_invariant tokens_ok
proof
  show "tokens_ok new_chain" by (rule new_chain_tokens)
next
  fix s t :: chain assume v: "value_view t = value_view s" and "tokens_ok s"
  then show "tokens_ok t" using tokens_ok_cong value_viewD(3)[OF v] by blast
next
  fix s t :: chain and b E
  assume "tokens_ok s" "list_all token_amount_ok (b_txs b)" "append_block_inner E b s = (None, t)"
  then show "tokens_ok t" using append_tokens by blast
next
  fix s :: chain and v assume "tokens_ok s"
  moreover have "token_view (auto_stake v s) = token_view s" by (simp add: auto_stake_def token_view_def)
  ultimately show "tokens_ok (auto_stake v s)" using tokens_ok_cong by blast
next
  fix s t :: chain and v assume "tokens_ok s" "activate_financial_layer v s = (None, t)"
  then show "tokens_ok t"
    using activate_course[of v s t] activated_views(1)[of v s] core_viewD(3) tokens_ok_cong by metis
qed

end
