(* ===== verification/Handshake.thy ===== *)
theory Handshake
  imports P2P
begin

text \<open>
  \<open>network/p2p.py\<close>: the mutual authentication of two nodes and the set-up of the encrypted channel,
  one function per handler. A handler gives what it returned (or the exception that escaped) and the
  node afterwards. Each handler is one step: the source awaits its own writes in between, but no
  other task touches the fields of a connection, the closing of duplicates apart. JSON numbers are
  integers.
\<close>

section \<open>Authentication messages\<close>

definition build_auth_message :: "bytes \<Rightarrow> string \<Rightarrow> bytes" where
  "build_auth_message challenge address = AUTH_DOMAIN @ challenge @ encode address"

definition derive_session_key :: "net \<Rightarrow> bytes \<Rightarrow> bytes" where
  "derive_session_key N shared_secret = sha3 (net_env N) shared_secret"

text \<open>\<open>bytes.fromhex(data.get(k, ''))\<close>, \<open>None\<close> if the value is no str or not hexadecimal.\<close>

definition hex_of_py :: "pyval \<Rightarrow> bytes option" where
  "hex_of_py v = (if is_str v then fromhex (str_of_py v) else None)"

definition hex_data :: "fields \<Rightarrow> string \<Rightarrow> bytes option" where
  "hex_data data k = hex_of_py (dget_or data k (PStr []))"

definition resolve_peer_pubkey :: "pyval \<Rightarrow> bytes option" where
  "resolve_peer_pubkey pk_hex =
     (case hex_of_py pk_hex of
        None \<Rightarrow> None
      | Some pk_bytes \<Rightarrow> if length pk_bytes \<noteq> 1952 then None else Some pk_bytes)"

definition resolve_encryption_pk :: "pyval \<Rightarrow> bytes option" where
  "resolve_encryption_pk pk_hex =
     (if pk_hex = PStr [] then None
      else case hex_of_py pk_hex of
             None \<Rightarrow> None
           | Some pk_bytes \<Rightarrow> if length pk_bytes \<noteq> 1184 then None else Some pk_bytes)"

text \<open>\<open>peer.encryption_pk\<close> and \<open>peer.node_id\<close>, set from a message if it has a usable value.\<close>

definition store_encryption_pk :: "fields \<Rightarrow> peer \<Rightarrow> peer" where
  "store_encryption_pk data p =
     (case resolve_encryption_pk (dget_or data ''encryption_pk'' (PStr [])) of
        None \<Rightarrow> p
      | Some pk \<Rightarrow> p\<lparr>pr_encryption_pk := Some pk\<rparr>)"

definition store_node_id :: "fields \<Rightarrow> peer \<Rightarrow> peer" where
  "store_node_id data p =
     (let node_id = dget_or data ''node_id'' (PStr [])
      in if is_str node_id then p\<lparr>pr_node_id := node_id\<rparr> else p)"

definition encryption_field :: "p2p_node \<Rightarrow> fields" where
  "encryption_field S =
     (if has_encryption_keys S then [(''encryption_pk'', PStr (hex (pn_encryption_pk S)))] else [])"

definition hello_fields :: "net \<Rightarrow> rat \<Rightarrow> bytes \<Rightarrow> bytes \<Rightarrow> p2p_node \<Rightarrow> fields" where
  "hello_fields N wall challenge proof_sig S =
     [(''protocol_version'', PInt PROTOCOL_VERSION),
      (''wire_format'', PStr (preferred_wire_format (net_wire N))), (''node_id'', PStr (pn_id S)),
      (''port'', PInt (pn_port S)), (''chain_id'', PStr CHAIN_ID), (''challenge'', PStr (hex challenge)),
      (''timestamp'', PInt \<lfloor>wall\<rfloor>), (''signing_pk'', PStr (hex (pn_signing_pk S))),
      (''proof'', PStr (hex proof_sig))] @ encryption_field S"

definition response_fields :: "net \<Rightarrow> bytes \<Rightarrow> bytes \<Rightarrow> p2p_node \<Rightarrow> fields" where
  "response_fields N challenge_sig counter_challenge S =
     [(''protocol_version'', PInt PROTOCOL_VERSION),
      (''wire_format'', PStr (preferred_wire_format (net_wire N))), (''node_id'', PStr (pn_id S)),
      (''port'', PInt (pn_port S)), (''challenge_sig'', PStr (hex challenge_sig)),
      (''counter_challenge'', PStr (hex counter_challenge)),
      (''signing_pk'', PStr (hex (pn_signing_pk S)))] @ encryption_field S"

section \<open>Outbound connections\<close>

text \<open>
  \<open>connect\<close>, once the socket is open: the handshake starts, or the plain greeting is sent. When the
  proof cannot be signed the new entry is popped again and its writer closed, which leaves no
  reference to the peer object: the node is as before. Any other exception is only logged.
\<close>

definition connect :: "net \<Rightarrow> rat \<Rightarrow> rat \<Rightarrow> bytes \<Rightarrow> string \<Rightarrow> int \<Rightarrow> p2p_node \<Rightarrow> p2p_node" where
  "connect N now wall challenge host port S =
     (let addr = host @ '':'' @ int_str port
      in if length (pn_peers S) \<ge> MAX_PEERS then S
         else if dmem addr (pn_peers S) then S
         else if \<not> is_safe_peer N host port (pn_host S) (pn_port S) then S
         else (let (i, S1) = new_connection (new_peer host (PInt port) True) addr S
               in if has_signing_keys S1
                  then (let S2 = upd i (\<lambda>p. p\<lparr>pr_challenge := challenge, pr_deadline := now + AUTH_TIMEOUT,
                                              pr_version := PROTOCOL_VERSION\<rparr>) S1
                        in case mldsa_sign_key N (pn_signing_sk S2) (build_auth_message challenge (pn_address S2)) of
                             Inl (RuntimeError m) \<Rightarrow> S
                           | Inl e \<Rightarrow> S2
                           | Inr proof_sig \<Rightarrow> send N i ''hello_auth'' (hello_fields N wall challenge proof_sig S2) S2)
                  else send N i ''hello'' [(''node_id'', PStr (pn_id S1)), (''port'', PInt (pn_port S1))] S1))"

section \<open>The responder's side\<close>

text \<open>The checks of \<open>_handle_hello_auth_inbound\<close>, in order: version, challenge, key.\<close>

definition check_hello :: "net \<Rightarrow> rat \<Rightarrow> fields \<Rightarrow> (int \<times> bytes \<times> bytes) option" where
  "check_hello N wall data =
     (let pv = dget_or data ''protocol_version'' (PInt 1); ts = dget_or data ''timestamp'' (PInt 0)
      in if \<not> is_int pv \<or> int_of_py pv < 2 then None
         else if \<not> is_int ts then None
         else if \<bar>wall - of_int (int_of_py ts)\<bar> > of_int MAX_BLOCK_DRIFT then None
         else if dget_or data ''chain_id'' (PStr []) \<noteq> PStr CHAIN_ID then None
         else case hex_data data ''challenge'' of
                None \<Rightarrow> None
              | Some peer_challenge \<Rightarrow>
                  if length peer_challenge \<noteq> CHALLENGE_LEN then None
                  else case resolve_peer_pubkey (dget_or data ''signing_pk'' (PStr [])) of
                         None \<Rightarrow> None
                       | Some peer_pk \<Rightarrow>
                           (case hex_data data ''proof'' of
                              None \<Rightarrow> None
                            | Some proof_bytes \<Rightarrow>
                                if dget_or data ''proof'' (PStr []) = PStr [] then None
                                else if \<not> verify_sig (net_env N) peer_pk
                                       (build_auth_message peer_challenge (derive_address (net_env N) peer_pk))
                                       proof_bytes then None
                                else Some (int_of_py pv, peer_challenge, peer_pk)))"

definition accept_hello :: "fields \<Rightarrow> int \<Rightarrow> peer \<Rightarrow> peer" where
  "accept_hello data pv p =
     (store_node_id data (store_encryption_pk data p))
       \<lparr>pr_version := min pv PROTOCOL_VERSION, pr_pending_wire := dget_or data ''wire_format'' (PStr ''json'')\<rparr>"

definition handle_hello_auth_inbound ::
  "net \<Rightarrow> rat \<Rightarrow> rat \<Rightarrow> bytes \<Rightarrow> nat \<Rightarrow> fields \<Rightarrow> p2p_node \<Rightarrow> (exn + bool) \<times> p2p_node" where
  "handle_hello_auth_inbound N now wall counter_challenge i data S =
     (if \<not> has_signing_keys S then (Inr False, S)
      else case check_hello N wall data of
             None \<Rightarrow> (Inr False, S)
           | Some (pv, peer_challenge, peer_pk) \<Rightarrow>
               (let S1 = upd i (accept_hello data pv) S
                in case mldsa_sign_key N (pn_signing_sk S1) (build_auth_message peer_challenge (pn_address S1)) of
                     Inl (RuntimeError m) \<Rightarrow> (Inr False, S1)
                   | Inl e \<Rightarrow> (Inl e, S1)
                   | Inr challenge_sig \<Rightarrow>
                       (let S2 = upd i (\<lambda>p. p\<lparr>pr_challenge := counter_challenge, pr_deadline := now + AUTH_TIMEOUT,
                                              pr_remote_pubkey := peer_pk,
                                              pr_remote_address := derive_address (net_env N) peer_pk\<rparr>) S1
                        in (Inr True, send N i ''auth_response''
                                        (response_fields N challenge_sig counter_challenge S2) S2))))"

section \<open>After authentication\<close>

definition check_validator_status :: "net \<Rightarrow> nat \<Rightarrow> p2p_node \<Rightarrow> p2p_node" where
  "check_validator_status N i S =
     (let pk = pr_remote_pubkey (pn_peer S i)
      in if pk = [] then S
         else upd i (pr_is_validator_update
                (\<lambda>_. dmem (derive_address (net_env N) pk) (pn_validators S))) S)"

text \<open>
  \<open>_dedup_connection\<close>: the first other authenticated connection to the same address decides. \<open>True\<close>:
  this connection is the one to close.
\<close>

definition duplicate_of :: "nat \<Rightarrow> p2p_node \<Rightarrow> (string \<times> nat) option" where
  "duplicate_of i S =
     find (\<lambda>(k, j). j \<noteq> i \<and> pr_authenticated (pn_peer S j)
               \<and> pr_remote_address (pn_peer S j) = pr_remote_address (pn_peer S i)) (pn_peers S)"

definition drop_other :: "string \<Rightarrow> nat \<Rightarrow> p2p_node \<Rightarrow> p2p_node" where
  "drop_other other_key j S = close_peer j (S\<lparr>pn_peers := dpop (pn_peers S) other_key\<rparr>)"

definition dedup_connection :: "nat \<Rightarrow> p2p_node \<Rightarrow> bool \<times> p2p_node" where
  "dedup_connection i S =
     (let p = pn_peer S i
      in if pr_remote_address p = [] \<or> pn_address S = [] then (False, S)
         else case duplicate_of i S of
                None \<Rightarrow> (False, S)
              | Some (other_key, j) \<Rightarrow>
                  if pn_address S < pr_remote_address p
                  then (if pr_is_initiator p then (False, drop_other other_key j S) else (True, S))
                  else (if pr_is_initiator p then (True, S) else (False, drop_other other_key j S)))"

definition initiate_encrypted_channel :: "net \<Rightarrow> nat \<Rightarrow> p2p_node \<Rightarrow> p2p_node" where
  "initiate_encrypted_channel N i S =
     (if \<not> has_encryption_keys S then S
      else case pr_encryption_pk (pn_peer S i) of
             None \<Rightarrow> S
           | Some pk \<Rightarrow>
               (case encapsulate (net_suite N) pk of
                  Inl e \<Rightarrow> S
                | Inr (ct, shared_secret) \<Rightarrow>
                    (let S1 = upd i (pr_session_key_update (\<lambda>_. Some (derive_session_key N shared_secret))) S;
                         S2 = send N i ''session_key''
                                [(''ciphertext'', PStr (hex ct)), (''encryption_pk'', PStr (hex (pn_encryption_pk S)))] S1
                     in upd i (pr_encrypted_update (\<lambda>_. True)) S2)))"

definition negotiate_wire :: "net \<Rightarrow> nat \<Rightarrow> pyval \<Rightarrow> p2p_node \<Rightarrow> p2p_node" where
  "negotiate_wire N i remote_wire S =
     upd i (\<lambda>p. p\<lparr>pr_wire := negotiate (net_wire N) (pr_version p) (pr_version p)
                             (preferred_wire_format (net_wire N)) remote_wire\<rparr>) S"

section \<open>The initiator's side\<close>

definition clear_challenge :: "nat \<Rightarrow> p2p_node \<Rightarrow> p2p_node" where
  "clear_challenge i S = upd i (pr_challenge_update (\<lambda>_. [])) S"

text \<open>The end of \<open>_handle_auth_response\<close>, from the moment the peer counts as authenticated.\<close>

definition store_port :: "fields \<Rightarrow> peer \<Rightarrow> peer" where
  "store_port data p =
     (let new_port = dget_or data ''port'' (PInt 0)
      in if port_in_range new_port then p\<lparr>pr_port := new_port\<rparr> else p)"

definition complete_initiator ::
  "net \<Rightarrow> nat \<Rightarrow> bytes \<Rightarrow> fields \<Rightarrow> p2p_node \<Rightarrow> (exn + bool) \<times> p2p_node" where
  "complete_initiator N i responder_pk data S =
     (let S1 = upd i (\<lambda>p. p\<lparr>pr_authenticated := True, pr_remote_pubkey := responder_pk,
                             pr_remote_address := derive_address (net_env N) responder_pk, pr_deadline := 0\<rparr>) S;
          pv = dget_or data ''protocol_version'' (PInt 1)
      in if \<not> is_int pv then (Inl TypeError, S1)
         else (let S2 = upd i (\<lambda>p. store_encryption_pk data (store_port data (store_node_id data
                                  (p\<lparr>pr_version := min (int_of_py pv) PROTOCOL_VERSION\<rparr>)))) S1;
                   (duplicate, S3) = dedup_connection i (check_validator_status N i S2)
               in if duplicate then (Inr False, S3)
                  else (Inr True, negotiate_wire N i (dget_or data ''wire_format'' (PStr ''json''))
                                    (initiate_encrypted_channel N i S3))))"

definition handle_auth_response ::
  "net \<Rightarrow> rat \<Rightarrow> nat \<Rightarrow> fields \<Rightarrow> p2p_node \<Rightarrow> (exn + bool) \<times> p2p_node" where
  "handle_auth_response N now i data S =
     (let p = pn_peer S i; S1 = clear_challenge i S
      in if pr_challenge p = [] then (Inr False, S)
         else if now > pr_deadline p then (Inr False, S1)
         else case resolve_peer_pubkey (dget_or data ''signing_pk'' (PStr [])) of
                None \<Rightarrow> (Inr False, S1)
              | Some responder_pk \<Rightarrow>
                  (case hex_data data ''challenge_sig'' of
                     None \<Rightarrow> (Inr False, S1)
                   | Some challenge_sig \<Rightarrow>
                       if \<not> verify_sig (net_env N) responder_pk
                              (build_auth_message (pr_challenge p) (derive_address (net_env N) responder_pk))
                              challenge_sig then (Inr False, S1)
                       else (case hex_data data ''counter_challenge'' of
                               None \<Rightarrow> (Inr False, S1)
                             | Some counter_challenge \<Rightarrow>
                                 if length counter_challenge \<noteq> CHALLENGE_LEN then (Inr False, S1)
                                 else (case mldsa_sign_key N (pn_signing_sk S1)
                                              (build_auth_message counter_challenge (pn_address S1)) of
                                         Inl (RuntimeError m) \<Rightarrow> (Inr False, S1)
                                       | Inl e \<Rightarrow> (Inl e, S1)
                                       | Inr counter_sig \<Rightarrow>
                                           complete_initiator N i responder_pk data
                                             (send N i ''auth_confirm''
                                                [(''challenge_sig'', PStr (hex counter_sig))] S1)))))"

section \<open>The responder completes\<close>

definition complete_responder :: "net \<Rightarrow> nat \<Rightarrow> p2p_node \<Rightarrow> (exn + bool) \<times> p2p_node" where
  "complete_responder N i S =
     (let S1 = upd i (\<lambda>p. p\<lparr>pr_authenticated := True, pr_deadline := 0,
                             pr_remote_address := derive_address (net_env N) (pr_remote_pubkey p)\<rparr>) S;
          (duplicate, S2) = dedup_connection i (check_validator_status N i
                              (negotiate_wire N i (pr_pending_wire (pn_peer S1 i)) S1))
      in (Inr (\<not> duplicate), S2))"

definition handle_auth_confirm ::
  "net \<Rightarrow> rat \<Rightarrow> nat \<Rightarrow> fields \<Rightarrow> p2p_node \<Rightarrow> (exn + bool) \<times> p2p_node" where
  "handle_auth_confirm N now i data S =
     (let p = pn_peer S i; S1 = clear_challenge i S
      in if pr_challenge p = [] then (Inr False, S)
         else if pr_remote_pubkey p = [] then (Inr False, S1)
         else if now > pr_deadline p then (Inr False, S1)
         else case hex_data data ''challenge_sig'' of
                None \<Rightarrow> (Inr False, S1)
              | Some challenge_sig \<Rightarrow>
                  if \<not> verify_sig (net_env N) (pr_remote_pubkey p)
                         (build_auth_message (pr_challenge p) (derive_address (net_env N) (pr_remote_pubkey p)))
                         challenge_sig
                  then (Inr False, upd i (pr_remote_pubkey_update (\<lambda>_. [])) S1)
                  else complete_responder N i S1)"

section \<open>The encrypted channel\<close>

definition handle_session_key :: "net \<Rightarrow> nat \<Rightarrow> fields \<Rightarrow> p2p_node \<Rightarrow> bool \<times> p2p_node" where
  "handle_session_key N i data S =
     (if \<not> has_encryption_keys S then (False, S)
      else if \<not> pr_authenticated (pn_peer S i) then (False, S)
      else case hex_data data ''ciphertext'' of
             None \<Rightarrow> (False, S)
           | Some ct \<Rightarrow>
               if length ct \<noteq> 1088 then (False, S)
               else (let S1 = upd i (store_encryption_pk data) S
                     in case decapsulate (net_suite N) (pn_encryption_sk S1) ct of
                          Inl e \<Rightarrow> (False, S1)
                        | Inr shared_secret \<Rightarrow>
                            (True, upd i (\<lambda>p. p\<lparr>pr_session_key := Some (derive_session_key N shared_secret),
                                               pr_encrypted := True\<rparr>) S1)))"

text \<open>
  \<open>_decrypt_message\<close>: \<open>Inr None\<close> where it returns None; an inner message that is no dict raises
  AttributeError.
\<close>

definition decrypt_message :: "net \<Rightarrow> nat \<Rightarrow> fields \<Rightarrow> p2p_node \<Rightarrow> exn + (pyval \<times> pyval) option" where
  "decrypt_message N i data S =
     (case pr_session_key (pn_peer S i) of
        None \<Rightarrow> Inr None
      | Some key \<Rightarrow>
          if key = [] then Inr None
          else case hex_data data ''data'' of
                 None \<Rightarrow> Inr None
               | Some ct \<Rightarrow>
                   (case aes_decrypt (net_suite N) key ct [] of
                      None \<Rightarrow> Inr None
                    | Some plaintext \<Rightarrow>
                        (case loads (net_wire N) plaintext of
                           None \<Rightarrow> Inr None
                         | Some (PDict inner) \<Rightarrow>
                             Inr (Some (dget_or inner ''type'' (PStr []), dget_or inner ''data'' (PDict [])))
                         | Some other \<Rightarrow> Inl AttributeError)))"

end
