(* ===== verification/P2PLoop.thy ===== *)
theory P2PLoop
  imports Handshake
begin

text \<open>
  \<open>network/p2p.py\<close>: the tasks that read from a connection. \<open>on_connect\<close> is the beginning of
  \<open>_on_connect\<close>, up to and including the first message; \<open>receive\<close> is one round of the loop in
  \<open>_on_connect\<close> and in \<open>_read_loop\<close>, which differ in the authentication message they take;
  \<open>finish_inbound\<close> and \<open>finish_outbound\<close> are their \<open>finally\<close> blocks. A message is its type and its
  data as parsed, of any JSON value. What a round ends with is a \<open>verdict\<close>: read on, stop, or hand
  the message to the handler registered for its type and read on. The exception of a handler ends the
  loop, as \<open>except Exception\<close> does.
\<close>

datatype verdict = Continue | Stop | Deliver pyval pyval

section \<open>One message\<close>

definition status_height :: "pyval \<Rightarrow> peer \<Rightarrow> peer" where
  "status_height h p =
     (if is_int h \<and> - 1 \<le> int_of_py h \<and> int_of_py h \<le> 10000000 then p\<lparr>pr_height := int_of_py h\<rparr> else p)"

definition check_auth_gate :: "string \<Rightarrow> peer \<Rightarrow> bool" where
  "check_auth_gate msg_type p =
     (if msg_type \<notin> set AUTH_REQUIRED_MSGS then True
      else if pr_version p < 2 then True
      else pr_authenticated p)"

text \<open>The type of a message as a key: a list or a dict raises TypeError, other values match no name.\<close>

definition type_key :: "pyval \<Rightarrow> string" where
  "type_key mt = (if is_str mt then str_of_py mt else [])"

definition is_type :: "pyval \<Rightarrow> string \<Rightarrow> bool" where
  "is_type mt name \<longleftrightarrow> mt = PStr name"

text \<open>\<open>data.get\<close> on what is no dict raises AttributeError.\<close>

definition with_fields :: "pyval \<Rightarrow> p2p_node \<Rightarrow> (fields \<Rightarrow> verdict \<times> p2p_node) \<Rightarrow> verdict \<times> p2p_node" where
  "with_fields data S f = (if is_dict data then f (dict_of_py data) else (Stop, S))"

text \<open>The authentication message of a direction: the responder waits for auth_confirm.\<close>

definition auth_type :: "bool \<Rightarrow> string" where
  "auth_type outbound = (if outbound then ''auth_response'' else ''auth_confirm'')"

definition handle_auth ::
  "net \<Rightarrow> rat \<Rightarrow> bool \<Rightarrow> nat \<Rightarrow> fields \<Rightarrow> p2p_node \<Rightarrow> (exn + bool) \<times> p2p_node" where
  "handle_auth N now outbound i data S =
     (if outbound then handle_auth_response N now i data S else handle_auth_confirm N now i data S)"

definition auth_step :: "net \<Rightarrow> rat \<Rightarrow> bool \<Rightarrow> nat \<Rightarrow> fields \<Rightarrow> p2p_node \<Rightarrow> verdict \<times> p2p_node" where
  "auth_step N now outbound i data S =
     (case handle_auth N now outbound i data S of
        (Inl e, T) \<Rightarrow> (Stop, T)
      | (Inr ok, T) \<Rightarrow> if ok then (Continue, T) else (Stop, record_peer now i ''auth_failed'' T))"

text \<open>A message after rate limiting and decryption.\<close>

definition note_status :: "nat \<Rightarrow> pyval \<Rightarrow> pyval \<Rightarrow> p2p_node \<Rightarrow> (p2p_node \<Rightarrow> verdict \<times> p2p_node) \<Rightarrow> verdict \<times> p2p_node" where
  "note_status i mt data S k =
     (if is_type mt ''status''
      then with_fields data S (\<lambda>d. k (upd i (status_height (dget_or d ''height'' (PInt (- 1)))) S))
      else k S)"

definition process_plain :: "net \<Rightarrow> rat \<Rightarrow> bool \<Rightarrow> nat \<Rightarrow> pyval \<Rightarrow> pyval \<Rightarrow> p2p_node \<Rightarrow> verdict \<times> p2p_node" where
  "process_plain N now outbound i mt data S =
     note_status i mt data S (\<lambda>S.
       if is_type mt ''session_key''
       then with_fields data S (\<lambda>d. (Continue, snd (handle_session_key N i d S)))
       else if is_type mt (auth_type outbound)
       then with_fields data S (\<lambda>d. auth_step N now outbound i d S)
       else if \<not> check_reputation i S then (Stop, S)
       else if \<not> hashable mt then (Stop, S)
       else if \<not> check_auth_gate (type_key mt) (pn_peer S i) then (Continue, S)
       else (Deliver mt data, S))"

definition receive :: "net \<Rightarrow> rat \<Rightarrow> bool \<Rightarrow> nat \<Rightarrow> pyval \<Rightarrow> pyval \<Rightarrow> p2p_node \<Rightarrow> verdict \<times> p2p_node" where
  "receive N now outbound i mt data S =
     (if \<not> hashable mt then (Stop, S)
      else (let (allowed, S1) = check_rate_limit now i (type_key mt) S
            in if \<not> allowed
               then (let (disconnect, S2) = should_disconnect_rate now i S1
                     in (if disconnect then Stop else Continue, S2))
               else if is_type mt ''encrypted''
               then with_fields data S1 (\<lambda>d.
                      case decrypt_message N i d S1 of
                        Inl e \<Rightarrow> (Stop, S1)
                      | Inr None \<Rightarrow> (Continue, S1)
                      | Inr (Some (mt', data')) \<Rightarrow> process_plain N now outbound i mt' data' S1)
               else process_plain N now outbound i mt data S1))"

section \<open>Accepting a connection\<close>

text \<open>
  The first line of an inbound connection: the time ran out or nothing came (\<open>No_line\<close>), the line does
  not parse (\<open>Unparsed\<close>), or it is a message. \<open>json.loads\<close> giving anything but a dict raises, which
  ends the task like \<open>No_line\<close>.
\<close>

datatype first_line = No_line | Unparsed | Message pyval pyval

definition first_message ::
  "net \<Rightarrow> rat \<Rightarrow> rat \<Rightarrow> bytes \<Rightarrow> nat \<Rightarrow> string \<Rightarrow> pyval \<Rightarrow> pyval \<Rightarrow> p2p_node \<Rightarrow> verdict \<times> string \<times> p2p_node" where
  "first_message N now wall counter_challenge i temp_key mt data S =
     (let host = pr_host (pn_peer S i)
      in if is_type mt ''hello_auth''
         then (case check_auth_rate now host S of
                 (False, S1) \<Rightarrow> (Stop, temp_key, S1)
               | (True, S1) \<Rightarrow>
                   if \<not> is_dict data then (Stop, temp_key, S1)
                   else (let d = dict_of_py data;
                             (key, S2) = update_peer_key i temp_key temp_key (dget_or d ''port'' (PInt 0)) S1
                         in case handle_hello_auth_inbound N now wall counter_challenge i d S2 of
                              (Inl e, S3) \<Rightarrow> (Stop, key, S3)
                            | (Inr False, S3) \<Rightarrow> (Stop, key, record_peer now i ''auth_failed'' S3)
                            | (Inr True, S3) \<Rightarrow> (Deliver mt data, key, S3)))
         else if is_type mt ''hello''
         then (if \<not> is_dict data then (Stop, temp_key, S)
               else (let d = dict_of_py data;
                         S1 = upd i (\<lambda>p. p\<lparr>pr_node_id := dget_or d ''node_id'' (PStr []), pr_version := 1\<rparr>) S;
                         (key, S2) = update_peer_key i temp_key temp_key (dget_or d ''port'' (PInt 0)) S1
                     in (Deliver mt data, key,
                         send N i ''hello'' [(''node_id'', PStr (pn_id S)), (''port'', PInt (pn_port S))] S2)))
         else if hashable mt then (Deliver mt data, temp_key, S) else (Stop, temp_key, S))"

text \<open>\<open>ident\<close> is \<open>id(writer)\<close>. \<open>None\<close>: the connection is refused before it gets a peer object.\<close>

definition on_connect ::
  "net \<Rightarrow> rat \<Rightarrow> rat \<Rightarrow> bytes \<Rightarrow> string \<Rightarrow> nat \<Rightarrow> first_line \<Rightarrow> p2p_node
     \<Rightarrow> (nat \<times> verdict \<times> string) option \<times> p2p_node" where
  "on_connect N now wall counter_challenge host ident line S =
     (if length (pn_peers S) \<ge> MAX_PEERS then (None, S)
      else if is_banned (pn_reputation S) host then (None, S)
      else if \<not> is_safe_inbound_ip N host then (None, S)
      else (let temp_key = ''_inbound_'' @ host @ ''_'' @ dec_nat ident;
                (i, S1) = new_connection (new_peer host (PInt 0) False) temp_key S
            in case line of
                 No_line \<Rightarrow> (Some (i, Stop, temp_key), S1)
               | Unparsed \<Rightarrow> (Some (i, Continue, temp_key), S1)
               | Message mt data \<Rightarrow>
                   (case first_message N now wall counter_challenge i temp_key mt data S1 of
                      (v, key, S2) \<Rightarrow> (Some (i, v, key), S2))))"

definition finish_inbound :: "nat \<Rightarrow> string \<Rightarrow> p2p_node \<Rightarrow> p2p_node" where
  "finish_inbound i peer_key S =
     (let S1 = upd i (pr_connected_update (\<lambda>_. False)) S in S1\<lparr>pn_peers := dpop (pn_peers S1) peer_key\<rparr>)"

definition finish_outbound :: "nat \<Rightarrow> p2p_node \<Rightarrow> p2p_node" where
  "finish_outbound i S =
     (let S1 = upd i (pr_connected_update (\<lambda>_. False)) S
      in S1\<lparr>pn_peers := dpop (pn_peers S1) (peer_addr (pn_peer S1 i))\<rparr>)"

text \<open>An oversized line costs the peer reputation before the task ends.\<close>

definition oversized :: "rat \<Rightarrow> nat \<Rightarrow> p2p_node \<Rightarrow> p2p_node" where
  "oversized now i S = record_peer now i ''protocol_error'' S"

text \<open>\<open>stop\<close>: every connection is closed, the table cleared and the secret keys zeroed.\<close>

definition stop_node :: "p2p_node \<Rightarrow> p2p_node" where
  "stop_node S =
     (let S1 = fold (\<lambda>(k, i) T. close_peer i T) (pn_peers S) S
      in S1\<lparr>pn_peers := [], pn_signing_sk := sb_zero (pn_signing_sk S1),
            pn_encryption_sk := sb_zero (pn_encryption_sk S1)\<rparr>)"

section \<open>The node as a state machine\<close>

text \<open>
  Any peer may send anything at any time. Inbound and outbound tasks are told apart by
  \<open>pr_is_initiator\<close>; challenges come from \<open>os.urandom(32)\<close>.
\<close>

inductive p2p_step :: "net \<Rightarrow> p2p_node \<Rightarrow> p2p_node \<Rightarrow> bool" for N where
  Connect: "length challenge = CHALLENGE_LEN \<Longrightarrow> p2p_step N S (connect N now wall challenge host port S)"
| Accept: "length challenge = CHALLENGE_LEN
    \<Longrightarrow> p2p_step N S (snd (on_connect N now wall challenge host ident line S))"
| Receive: "i < pn_next S \<Longrightarrow> p2p_step N S (snd (receive N now (pr_is_initiator (pn_peer S i)) i mt data S))"
| Oversized: "p2p_step N S (oversized now i S)"
| Finish_inbound: "p2p_step N S (finish_inbound i key S)"
| Finish_outbound: "p2p_step N S (finish_outbound i S)"
| Broadcast: "p2p_step N S (broadcast N nonce msg_type data exclude S)"
| Stopped: "p2p_step N S (stop_node S)"
| Cleanup: "p2p_step N S (rate_cleanup now S)"

inductive p2p_run :: "net \<Rightarrow> p2p_node \<Rightarrow> p2p_node \<Rightarrow> bool" for N where
  Start: "p2p_run N S S"
| Step: "p2p_run N S T \<Longrightarrow> p2p_step N T U \<Longrightarrow> p2p_run N S U"

inductive_cases p2p_stepE: "p2p_step N S T"
inductive_simps p2p_run_iff: "p2p_run N S T"

text \<open>A node before it has any connection.\<close>

definition no_connections :: "p2p_node \<Rightarrow> bool" where
  "no_connections S \<longleftrightarrow> pn_next S = 0 \<and> pn_peers S = [] \<and> pn_sent S = []
     \<and> (\<forall>i. pn_peer S i = new_peer [] (PInt 0) False)"

end
