(* ===== verification/FullNode.thy ===== *)
theory FullNode
  imports Sync WebSocket Webhooks Query Reach P2PLoop
begin

text \<open>
  \<open>node.py\<close>: the node that ties the chain, the peers and the servers together. This theory has its
  state, the helpers the RPC methods share, the notifications of WebSocket clients and webhooks, and
  the handlers of P2P messages. What a call takes from outside (clocks, random bytes, the behaviour of
  sockets) is in the record \<open>world\<close>. A handler gives the exception that left it, if any; \<open>None\<close>
  where the message has a shape \<open>TxWire\<close> or \<open>Block\<close> leave outside the model. Metrics and logging are left out.
\<close>

section \<open>State\<close>

record world =
  wd_net :: net
  wd_time :: rat
  wd_monotonic :: rat
  wd_nonce :: "nat \<Rightarrow> bytes"
  wd_challenge :: "nat \<Rightarrow> bytes"
  wd_hex :: string
  wd_socket :: "nat \<Rightarrow> socket"
  wd_classify :: "string \<Rightarrow> address_class option"
  wd_limits :: "sync_limits option"
  wd_keys :: "bytes \<times> bytes \<times> bytes \<times> bytes"
  wd_units :: "int \<Rightarrow> string"
  wd_enum :: "string set \<Rightarrow> string list"

abbreviation wd_env :: "world \<Rightarrow> env" where
  "wd_env X \<equiv> net_env (wd_net X)"

definition int_time :: "world \<Rightarrow> int" where
  "int_time X = \<lfloor>wd_time X\<rfloor>"

record fullnode =
  fn_chain :: chain
  fn_p2p :: p2p_node
  fn_sync :: sync
  fn_ws :: ws_manager
  fn_hooks :: hooks
  fn_wallets :: "(string, wallet) dict"
  fn_validator :: "wallet option"
  fn_pending :: "(string, rat) dict"
  fn_secrets :: "(string, bytes) dict"
  fn_locks :: "(string, bool) dict"
  fn_running :: bool

definition MAX_SHARED_SECRETS :: nat where "MAX_SHARED_SECRETS = 10000"
definition MAX_WALLET_LOCKS :: nat where "MAX_WALLET_LOCKS = 10000"

text \<open>Assigning a known key of an OrderedDict keeps its place; the oldest entries go first.\<close>

definition store_shared_secret :: "string \<Rightarrow> bytes \<Rightarrow> fullnode \<Rightarrow> fullnode" where
  "store_shared_secret tx ss S =
     (let d = dset (fn_secrets S) tx ss in S\<lparr>fn_secrets := drop (length d - MAX_SHARED_SECRETS) d\<rparr>)"

definition on_chain_state :: "(chain \<Rightarrow> chain) \<Rightarrow> fullnode \<Rightarrow> fullnode" where
  "on_chain_state f S = S\<lparr>fn_chain := f (fn_chain S)\<rparr>"

definition on_p2p :: "(p2p_node \<Rightarrow> p2p_node) \<Rightarrow> fullnode \<Rightarrow> fullnode" where
  "on_p2p f S = S\<lparr>fn_p2p := f (fn_p2p S)\<rparr>"

section \<open>Helpers\<close>

definition lock_genesis_if_needed :: "env \<Rightarrow> chain \<Rightarrow> chain" where
  "lock_genesis_if_needed E s =
     (if height s \<ge> 0 \<and> poa_genesis_hash s = []
      then (case get_block_by_index s 0 of
              None \<Rightarrow> s
            | Some genesis \<Rightarrow> set_genesis_hash (block_hash E genesis) s)
      else s)"

definition get_wallet :: "pyval \<Rightarrow> fullnode \<Rightarrow> exn + wallet" where
  "get_wallet address S =
     unless_raise (\<not> is_str address) (ve ''wallet address must be string'' [])
       (case dget (fn_wallets S) (str_of_py address) of
          None \<Rightarrow> Inl (ve ''wallet not found: {}...'' [PStr (take 16 (str_of_py address))])
        | Some w \<Rightarrow> Inr w)"

text \<open>
  \<open>_lock_for\<close>: the locks by address, oldest first, each with whether it is held. No wait lies between
  taking a lock and submitting, so a lock is free again before another task runs.
\<close>

fun evict_unlocked :: "(string, bool) dict \<Rightarrow> (string, bool) dict option" where
  "evict_unlocked [] = None"
| "evict_unlocked ((k, locked) # d) = (if \<not> locked then Some d else map_option ((#) (k, locked)) (evict_unlocked d))"

function make_room :: "(string, bool) dict \<Rightarrow> (string, bool) dict option" where
  "make_room d =
     (if length d < MAX_WALLET_LOCKS then Some d
      else (case evict_unlocked d of None \<Rightarrow> None | Some d' \<Rightarrow> make_room d'))"
  by auto

lemma evict_length: "evict_unlocked d = Some d' \<Longrightarrow> length d = Suc (length d')"
  by (induction d arbitrary: d') (auto split: if_splits)

termination make_room
  by (relation "measure length") (auto dest: evict_length)

declare make_room.simps [simp del]

definition lock_for :: "string \<Rightarrow> fullnode \<Rightarrow> exn option \<times> fullnode" where
  "lock_for address S =
     (case dget (fn_locks S) address of
        Some locked \<Rightarrow> (None, S\<lparr>fn_locks := dpop (fn_locks S) address @ [(address, locked)]\<rparr>)
      | None \<Rightarrow>
          (case make_room (fn_locks S) of
             None \<Rightarrow> (Some (ve ''wallet lock pool exhausted: all slots in use, try again later'' []), S)
           | Some d \<Rightarrow> (None, S\<lparr>fn_locks := d @ [(address, False)]\<rparr>)))"

definition next_nonce :: "'a pool_scheme \<Rightarrow> string \<Rightarrow> int" where
  "next_nonce s address = get_next_nonce s address + dget_or (pool_sender_count s) address 0"

definition validate_fee_param :: "pyval \<Rightarrow> string \<Rightarrow> exn + int option" where
  "validate_fee_param value name =
     (if value = PNone then Inr None
      else unless_raise (is_bool value \<or> \<not> is_int value) (ve ''{} must be an integer'' [PStr name])
          (unless_raise (int_of_py value < 0) (ve ''{} must be non-negative, got {}'' [PStr name, value])
          (unless_raise (int_of_py value > 2 ^ 63) (ve ''{} exceeds maximum allowed value'' [PStr name])
             (Inr (Some (int_of_py value))))))"

definition dynamic_active :: "env \<Rightarrow> 'a registry_scheme \<Rightarrow> bool" where
  "dynamic_active E s \<longleftrightarrow> height s \<ge> 0 \<and> height s + 1 \<ge> dyn_height E"

definition compute_fee_defaults :: "env \<Rightarrow> pyval \<Rightarrow> pyval \<Rightarrow> 'a registry_scheme \<Rightarrow> exn + int \<times> int" where
  "compute_fee_defaults E max_fee max_prio s =
     and_then (validate_fee_param max_fee ''max_fee_per_weight'') (\<lambda>mf.
     and_then (validate_fee_param max_prio ''max_priority_fee'') (\<lambda>mp.
       Inr (let current_bf = current_base_fee E s; active = dynamic_active E s
            in (the_default (if active then current_bf * 2 else 0) mf,
                the_default (if active then max 1 (current_bf div 10) else 0) mp))))"

section \<open>Notifications\<close>

text \<open>A broadcast to the WebSocket clients, whose dead clients are dropped at its end.\<close>

definition ws_broadcast :: "world \<Rightarrow> string \<Rightarrow> fields \<Rightarrow> fullnode \<Rightarrow> fullnode" where
  "ws_broadcast X ch data S =
     (let (dead, w) = ws_send (wd_socket X) ch data (fn_ws S)
      in S\<lparr>fn_ws := ws_drop (sorted_list_of_set dead) w\<rparr>)"

definition chain_stats :: "fullnode \<Rightarrow> fields" where
  "chain_stats S =
     [(''height'', PInt (height (fn_chain S))), (''tx_count'', PInt (int (length (tx_by_id (fn_chain S))))),
      (''pool_size'', PInt (int (length (tx_pool (fn_chain S))))), (''peers'', PInt (connected_count (fn_p2p S)))]"

text \<open>One round of \<open>_stats_loop\<close>.\<close>

definition stats_round :: "world \<Rightarrow> fullnode \<Rightarrow> fullnode" where
  "stats_round X S =
     (if subscribers (fn_ws S) ''chain_stats'' = {} then S else ws_broadcast X ''chain_stats'' (chain_stats S) S)"

definition hook_event :: "event \<Rightarrow> fields" where
  "hook_event ev = [(''type'', dget_or ev ''type'' PNone), (''data'', dget_or ev ''data'' (PDict []))]"

definition block_hook_events :: "env \<Rightarrow> 'a receipts_scheme \<Rightarrow> block \<Rightarrow> fields list" where
  "block_hook_events E s b =
     concat (map (\<lambda>tx. case get_receipt s (tx_id E tx) of
               None \<Rightarrow> []
             | Some r \<Rightarrow> map (\<lambda>ev. hook_event ev @ [(''tx_id'', PStr (tx_id E tx))]) (rc_events r)) (b_txs b))
     @ map hook_event (get_block_level_events s (b_index b))"

definition deliver_block_webhooks :: "env \<Rightarrow> block \<Rightarrow> fullnode \<Rightarrow> fullnode" where
  "deliver_block_webhooks E b S =
     (let events = block_hook_events E (fn_chain S) b
      in if events = [] then S else S\<lparr>fn_hooks := deliver events (b_index b) (fn_hooks S)\<rparr>)"

definition ws_notify_block :: "world \<Rightarrow> block \<Rightarrow> fullnode \<Rightarrow> fullnode" where
  "ws_notify_block X b S =
     (let E = wd_env X; fh = finalized_height (fn_chain S);
          S1 = ws_broadcast X ''new_block'' (block_to_dict E b) S;
          S2 = (if fh \<ge> 0 then ws_broadcast X ''finalized'' [(''finalized_height'', PInt fh)] S1 else S1)
      in deliver_block_webhooks E b S2)"

definition ws_notify_tx :: "world \<Rightarrow> transaction \<Rightarrow> fullnode \<Rightarrow> fullnode" where
  "ws_notify_tx X tx S = ws_broadcast X ''new_tx'' (tx_to_dict (wd_env X) tx) S"

definition gossip :: "world \<Rightarrow> string \<Rightarrow> fields \<Rightarrow> string \<Rightarrow> fullnode \<Rightarrow> fullnode" where
  "gossip X msg_type data exclude S = on_p2p (broadcast (wd_net X) (wd_nonce X) msg_type data exclude) S"

definition penalize :: "world \<Rightarrow> nat \<Rightarrow> string \<Rightarrow> fullnode \<Rightarrow> fullnode" where
  "penalize X i event S = on_p2p (record_peer (wd_monotonic X) i event) S"

section \<open>Blocks and transactions from peers\<close>

fun contains :: "string \<Rightarrow> string \<Rightarrow> bool" where
  "contains [] p \<longleftrightarrow> p = []"
| "contains (c # cs) p \<longleftrightarrow> starts_with (c # cs) p \<or> contains cs p"

definition block_event :: "msg \<Rightarrow> string" where
  "block_event m = (if contains (msg_text m) ''state_root mismatch'' then ''state_root_mismatch'' else ''invalid_block'')"

text \<open>\<open>from_dict(data[key])\<close>: whatever is wrong with the shape raises.\<close>

definition parsed_item :: "(fields \<Rightarrow> (exn + 'v) option) \<Rightarrow> string \<Rightarrow> pyval \<Rightarrow> (exn + 'v) option" where
  "parsed_item from_dict key data =
     (case data of
        PDict d \<Rightarrow>
          (case dget d key of
             None \<Rightarrow> Some (Inl (KeyError key))
           | Some (PDict v) \<Rightarrow> from_dict v
           | Some v \<Rightarrow> Some (Inl AttributeError))
      | _ \<Rightarrow> Some (Inl TypeError))"

text \<open>What the chain and the peer's score become; the second component tells whether the block was taken.\<close>

definition take_block :: "world \<Rightarrow> nat \<Rightarrow> block \<Rightarrow> fullnode \<Rightarrow> bool \<times> fullnode" where
  "take_block X i b S =
     (case add_block (wd_env X) (int_time X) b (fn_chain S) of
        (Ok _, c) \<Rightarrow>
          (True, on_chain_state (lock_genesis_if_needed (wd_env X)) (penalize X i ''valid_block'' (S\<lparr>fn_chain := c\<rparr>)))
      | (Fail m, c) \<Rightarrow> (False, penalize X i (block_event m) (S\<lparr>fn_chain := c\<rparr>))
      | (Raise e, c) \<Rightarrow> (False, penalize X i ''invalid_block'' (S\<lparr>fn_chain := c\<rparr>)))"

definition p2p_new_block :: "world \<Rightarrow> nat \<Rightarrow> pyval \<Rightarrow> fullnode \<Rightarrow> fullnode option" where
  "p2p_new_block X i data S =
     (case parsed_item (block_from_dict (wd_env X)) ''block'' data of
        None \<Rightarrow> None
      | Some (Inl e) \<Rightarrow> Some (penalize X i ''invalid_block'' S)
      | Some (Inr b) \<Rightarrow>
          (case take_block X i b S of
             (False, T) \<Rightarrow> Some T
           | (True, T) \<Rightarrow>
               (let U = (if is_syncing (fn_sync T) then T
                         else gossip X ''new_block'' [(''block'', PDict (block_to_dict (wd_env X) b))]
                                (peer_addr (pn_peer (fn_p2p T) i)) T)
                in Some (ws_notify_block X b U))))"

definition p2p_new_tx :: "world \<Rightarrow> nat \<Rightarrow> pyval \<Rightarrow> fullnode \<Rightarrow> fullnode option" where
  "p2p_new_tx X i data S =
     (case parsed_item tx_from_dict ''tx'' data of
        None \<Rightarrow> None
      | Some (Inl e) \<Rightarrow> Some (penalize X i ''invalid_tx'' S)
      | Some (Inr tx) \<Rightarrow>
          (case submit_tx (wd_env X) (int_time X) tx (fn_chain S) of
             (Ok _, c) \<Rightarrow>
               (let T = penalize X i ''valid_tx'' (S\<lparr>fn_chain := c\<rparr>)
                in Some (ws_notify_tx X tx
                     (gossip X ''new_tx'' [(''tx'', PDict (tx_to_dict (wd_env X) tx))]
                        (peer_addr (pn_peer (fn_p2p T) i)) T)))
           | (_, c) \<Rightarrow> Some (penalize X i ''invalid_tx'' (S\<lparr>fn_chain := c\<rparr>))))"

section \<open>Serving blocks\<close>

text \<open>\<open>resp["request_id"] = req_id\<close> where the request had one.\<close>

definition echo_request :: "fields \<Rightarrow> fields \<Rightarrow> fields" where
  "echo_request data resp =
     (let req_id = dget_or data ''request_id'' PNone
      in if truthy req_id then resp @ [(''request_id'', req_id)] else resp)"

definition reply :: "world \<Rightarrow> nat \<Rightarrow> string \<Rightarrow> fields \<Rightarrow> fullnode \<Rightarrow> fullnode" where
  "reply X i msg_type data S = on_p2p (send (wd_net X) i msg_type data) S"

definition with_dict :: "pyval \<Rightarrow> fullnode \<Rightarrow> (fields \<Rightarrow> exn option \<times> fullnode) \<Rightarrow> exn option \<times> fullnode" where
  "with_dict data S f = (if is_dict data then f (dict_of_py data) else (Some AttributeError, S))"

definition blocks_from :: "env \<Rightarrow> 'a registry_scheme \<Rightarrow> int \<Rightarrow> int \<Rightarrow> pyval list" where
  "blocks_from E s start count =
     List.map_filter (\<lambda>i. map_option (\<lambda>b. PDict (block_to_dict E b)) (get_block_by_index s i))
       [start..min (start + count) (height s + 1) - 1]"

definition p2p_get_blocks :: "world \<Rightarrow> nat \<Rightarrow> pyval \<Rightarrow> fullnode \<Rightarrow> exn option \<times> fullnode" where
  "p2p_get_blocks X i data S =
     with_dict data S (\<lambda>d.
       case (py_int (dget_or d ''from'' (PInt 0)), py_int (dget_or d ''count'' (PInt 50))) of
         (Inr from_, Inr count) \<Rightarrow>
           (None, reply X i ''blocks''
             (echo_request d [(''blocks'', PList (blocks_from (wd_env X) (fn_chain S) (max 0 from_) (min count 100)))]) S)
       | _ \<Rightarrow> (None, S))"

definition p2p_get_chain_info :: "world \<Rightarrow> nat \<Rightarrow> pyval \<Rightarrow> fullnode \<Rightarrow> exn option \<times> fullnode" where
  "p2p_get_chain_info X i data S =
     with_dict data S (\<lambda>d.
       let s = fn_chain S
       in (None, reply X i ''chain_info''
            (echo_request d
               [(''height'', PInt (height s)),
                (''head_hash'', PStr (case latest_block s of Some tip \<Rightarrow> block_hash (wd_env X) tip
                                                           | None \<Rightarrow> replicate 64 (CHR ''0''))),
                (''finalized_height'', PInt (max 0 (height s - 6))),
                (''epoch'', PInt (current_epoch s))]) S))"

text \<open>
  \<open>get_block_headers_for_sync\<close> and \<open>get_blocks_for_sync\<close> import their limits from \<open>config.py\<close>; without
  them the import raises, after the arguments were read and before anything is looked up.
\<close>

definition headers_for_sync :: "env \<Rightarrow> sync_limits \<Rightarrow> 'a registry_scheme \<Rightarrow> int \<Rightarrow> int \<Rightarrow> pyval list" where
  "headers_for_sync E L s start count =
     List.map_filter (\<lambda>i. map_option (\<lambda>b. PDict (to_header_dict E b)) (get_block_by_index s i))
       [max 0 start..min (start + min count (sl_batch L)) (height s + 1) - 1]"

definition blocks_for_sync :: "env \<Rightarrow> sync_limits \<Rightarrow> 'a registry_scheme \<Rightarrow> pyval list \<Rightarrow> pyval list" where
  "blocks_for_sync E L s heights =
     List.map_filter (\<lambda>h. if \<not> is_int h \<or> int_of_py h < 0 then None
                        else map_option (\<lambda>b. PDict (block_to_dict E b)) (get_block_by_index s (int_of_py h)))
       (take (sl_block_batch L) heights)"

definition p2p_get_headers :: "world \<Rightarrow> nat \<Rightarrow> pyval \<Rightarrow> fullnode \<Rightarrow> exn option \<times> fullnode" where
  "p2p_get_headers X i data S =
     with_dict data S (\<lambda>d.
       case (py_int (dget_or d ''from_height'' (PInt 0)), py_int (dget_or d ''count'' (PInt 100))) of
         (Inr from_, Inr count) \<Rightarrow>
           (case wd_limits X of
              None \<Rightarrow> (Some (ImportError ''SYNC_BATCH_SIZE''), S)
            | Some L \<Rightarrow>
                (None, reply X i ''headers''
                   (echo_request d [(''headers'', PList (headers_for_sync (wd_env X) L (fn_chain S) from_ count))]) S))
       | _ \<Rightarrow> (None, S))"

definition p2p_get_block_bodies :: "world \<Rightarrow> nat \<Rightarrow> pyval \<Rightarrow> fullnode \<Rightarrow> exn option \<times> fullnode" where
  "p2p_get_block_bodies X i data S =
     with_dict data S (\<lambda>d.
       let heights = dget_or d ''heights'' (PList [])
       in if \<not> is_list heights then (None, S)
          else (case wd_limits X of
                  None \<Rightarrow> (Some (ImportError ''SYNC_BLOCK_BATCH''), S)
                | Some L \<Rightarrow>
                    (None, reply X i ''block_bodies''
                       (echo_request d [(''blocks'', PList (blocks_for_sync (wd_env X) L (fn_chain S) (list_of_py heights)))]) S)))"

section \<open>Receiving a batch of blocks\<close>

definition parsed_block :: "env \<Rightarrow> pyval \<Rightarrow> (exn + block) option" where
  "parsed_block E v = (if is_dict v then block_from_dict E (dict_of_py v) else Some (Inl AttributeError))"

text \<open>The loop over the batch ends at the first block that is not taken.\<close>

fun import_blocks :: "world \<Rightarrow> nat \<Rightarrow> pyval list \<Rightarrow> fullnode \<Rightarrow> fullnode option" where
  "import_blocks X i [] S = Some S"
| "import_blocks X i (v # vs) S =
     (case parsed_block (wd_env X) v of
        None \<Rightarrow> None
      | Some (Inl e) \<Rightarrow> Some (penalize X i ''invalid_block'' S)
      | Some (Inr b) \<Rightarrow>
          (case take_block X i b S of (True, T) \<Rightarrow> import_blocks X i vs T | (False, T) \<Rightarrow> Some T))"

text \<open>A batch counts only once for each request the node has sent.\<close>

definition p2p_blocks :: "world \<Rightarrow> nat \<Rightarrow> pyval \<Rightarrow> fullnode \<Rightarrow> (exn option \<times> fullnode) option" where
  "p2p_blocks X i data S =
     (if \<not> is_dict data then Some (Some AttributeError, S)
      else (let d = dict_of_py data; req_id = dget_or d ''request_id'' PNone;
                batch = dget_or d ''blocks'' (PList []); T = S\<lparr>fn_pending := dpop (fn_pending S) (str_of_py req_id)\<rparr>
            in if \<not> truthy req_id then Some (None, S)
               else if \<not> hashable req_id then Some (Some TypeError, S)
               else if \<not> (is_str req_id \<and> dmem (str_of_py req_id) (fn_pending S)) then Some (None, S)
               else if \<not> is_list batch then Some (None, T)
               else map_option (Pair None) (import_blocks X i (take 100 (list_of_py batch)) T)))"

section \<open>Peers and status\<close>

definition p2p_get_peers :: "world \<Rightarrow> nat \<Rightarrow> pyval \<Rightarrow> fullnode \<Rightarrow> fullnode" where
  "p2p_get_peers X i data S =
     (let addrs = map fst (filter (\<lambda>(a, j). pr_connected (pn_peer (fn_p2p S) j) \<and> \<not> starts_with a ''_'')
                    (pn_peers (fn_p2p S)))
      in reply X i ''peers'' [(''peers'', PList (map PStr addrs))] S)"

text \<open>\<open>addr.split(":")\<close> with exactly two parts and a numeric port.\<close>

definition split_addr :: "string \<Rightarrow> (string \<times> int) option" where
  "split_addr addr =
     (let host = before (CHR 0x3A) addr; rest = after_first (CHR 0x3A) addr
      in if CHR 0x3A \<notin> set addr \<or> CHR 0x3A \<in> set rest then None
         else map_option (Pair host) (int_of_text rest))"

definition connect_to :: "world \<Rightarrow> nat \<Rightarrow> string \<times> int \<Rightarrow> p2p_node \<Rightarrow> p2p_node" where
  "connect_to X k hp P =
     (case hp of (host, port) \<Rightarrow>
        if is_safe_peer (wd_net X) host port (pn_host P) (pn_port P)
        then connect (wd_net X) (wd_monotonic X) (wd_time X) (wd_challenge X k) host port P else P)"

fun connect_all :: "world \<Rightarrow> nat \<Rightarrow> pyval list \<Rightarrow> p2p_node act" where
  "connect_all X k [] P = (None, P)"
| "connect_all X k (a # as) P =
     (if \<not> is_str a then (Some AttributeError, P)
      else connect_all X (Suc k) as
             (case split_addr (str_of_py a) of None \<Rightarrow> P | Some hp \<Rightarrow> connect_to X k hp P))"

definition p2p_peers :: "world \<Rightarrow> nat \<Rightarrow> pyval \<Rightarrow> fullnode \<Rightarrow> exn option \<times> fullnode" where
  "p2p_peers X i data S =
     with_dict data S (\<lambda>d.
       let peers_list = dget_or d ''peers'' (PList [])
       in if \<not> is_list peers_list then (None, S)
          else (case connect_all X 0 (take 50 (list_of_py peers_list)) (fn_p2p S) of
                  (e, P) \<Rightarrow> (e, S\<lparr>fn_p2p := P\<rparr>)))"

definition p2p_status :: "world \<Rightarrow> nat \<Rightarrow> pyval \<Rightarrow> fullnode \<Rightarrow> exn option \<times> fullnode" where
  "p2p_status X i data S =
     with_dict data S (\<lambda>d.
       let h = dget_or d ''height'' (PInt (- 1))
       in if is_int h \<and> - 1 \<le> int_of_py h \<and> int_of_py h \<le> 10000000
          then (None, (on_p2p (upd i (\<lambda>p. p\<lparr>pr_height := int_of_py h\<rparr>)) S)
                        \<lparr>fn_sync := on_peer_status (int_of_py h) (fn_sync S)\<rparr>)
          else (None, S))"

definition p2p_sync_response :: "pyval \<Rightarrow> fullnode \<Rightarrow> exn option \<times> fullnode" where
  "p2p_sync_response data S = (case on_response data (fn_sync S) of (e, s) \<Rightarrow> (e, S\<lparr>fn_sync := s\<rparr>))"

section \<open>The table of handlers\<close>

text \<open>\<open>_register_p2p\<close>: a message of any other type has no handler.\<close>

definition handle_p2p :: "world \<Rightarrow> nat \<Rightarrow> string \<Rightarrow> pyval \<Rightarrow> fullnode \<Rightarrow> (exn option \<times> fullnode) option" where
  "handle_p2p X i msg_type data S =
     (if msg_type = ''new_block'' then map_option (Pair None) (p2p_new_block X i data S)
      else if msg_type = ''new_tx'' then map_option (Pair None) (p2p_new_tx X i data S)
      else if msg_type = ''get_blocks'' then Some (p2p_get_blocks X i data S)
      else if msg_type = ''blocks'' then p2p_blocks X i data S
      else if msg_type = ''get_peers'' then Some (None, p2p_get_peers X i data S)
      else if msg_type = ''peers'' then Some (p2p_peers X i data S)
      else if msg_type = ''status'' then Some (p2p_status X i data S)
      else if msg_type = ''get_chain_info'' then Some (p2p_get_chain_info X i data S)
      else if msg_type = ''get_headers'' then Some (p2p_get_headers X i data S)
      else if msg_type = ''get_block_bodies'' then Some (p2p_get_block_bodies X i data S)
      else if msg_type \<in> {''chain_info'', ''headers'', ''block_bodies''} then Some (p2p_sync_response data S)
      else Some (None, S))"

end
