(* ===== verification/NodeRpc.thy ===== *)
theory NodeRpc
  imports FullNode
begin

text \<open>
  The RPC methods of \<open>node.py\<close>. A method takes its arguments as JSON values, as the server passes
  them, and gives a result or the exception that left it, with the new state; \<open>None\<close> where an argument
  has a shape the transaction record cannot hold (a bool for an amount, a recipient that is no str).
  Of \<open>world\<close> they use in addition: \<open>wd_keys\<close>, the keys a new wallet gets; \<open>wd_units\<close>, the text
  \<open>f"{amount / QUBIT_PER_QBIT:.8f}"\<close>; \<open>wd_enum\<close>, the order in which a set is iterated. The saving of
  wallet files is left out.
\<close>

type_synonym call = "fullnode \<Rightarrow> ((exn + pyval) \<times> fullnode) option"

section \<open>Building blocks\<close>

definition query :: "(fullnode \<Rightarrow> exn + pyval) \<Rightarrow> call" where
  "query q S = Some (q S, S)"

definition guarded :: "outcome list \<Rightarrow> call \<Rightarrow> call" where
  "guarded cs k S =
     (case checks cs of Ok _ \<Rightarrow> k S | Raise e \<Rightarrow> Some (Inl e, S) | Fail m \<Rightarrow> Some (Inl (ValueError m), S))"

definition outside_if :: "bool \<Rightarrow> call \<Rightarrow> call" where
  "outside_if c k S = (if c then None else k S)"

definition must_str :: "pyval \<Rightarrow> string \<Rightarrow> outcome" where
  "must_str v text = raise_if (\<not> is_str v) (ve text [])"

definition must_text :: "pyval \<Rightarrow> string \<Rightarrow> outcome" where
  "must_text v text = raise_if (\<not> is_str v \<or> str_of_py v = []) (ve text [])"

definition must_int :: "pyval \<Rightarrow> int \<Rightarrow> string \<Rightarrow> outcome" where
  "must_int v low text = raise_if (\<not> is_int v \<or> int_of_py v < low) (ve text [])"

text \<open>\<open>tx.sign(w.signing_sk, w.signing_pk)\<close> with the wallet's buffer.\<close>

definition sign_with :: "net \<Rightarrow> wallet \<Rightarrow> transaction \<Rightarrow> exn + transaction" where
  "sign_with N w tx =
     and_then (mldsa_sign_key N (w_signing_sk w) (signable_bytes tx)) (\<lambda>sig.
       Inr (tx\<lparr>tx_pubkey := w_signing_pk w, tx_signature := sig\<rparr>))"

text \<open>\<open>submit_tx\<close>, then the broadcast and (but for evidence) the notification of WebSocket clients.\<close>

definition submit_and_tell :: "world \<Rightarrow> bool \<Rightarrow> transaction \<Rightarrow> fullnode \<Rightarrow> (exn + string) \<times> fullnode" where
  "submit_and_tell X notify tx S =
     (case submit_tx (wd_env X) (int_time X) tx (fn_chain S) of
        (Ok tid, c) \<Rightarrow>
          (let T = gossip X ''new_tx'' [(''tx'', PDict (tx_to_dict (wd_env X) tx))] [] (S\<lparr>fn_chain := c\<rparr>)
           in (Inr tid, if notify then ws_notify_tx X tx T else T))
      | (Fail m, c) \<Rightarrow> (Inl (ValueError m), S\<lparr>fn_chain := c\<rparr>)
      | (Raise e, c) \<Rightarrow> (Inl e, S\<lparr>fn_chain := c\<rparr>))"

text \<open>Under the wallet's lock: build with the next nonce, sign, submit.\<close>

definition submit_built ::
  "world \<Rightarrow> bool \<Rightarrow> wallet \<Rightarrow> (int \<Rightarrow> transaction) \<Rightarrow> fullnode \<Rightarrow> (exn + string \<times> transaction) \<times> fullnode" where
  "submit_built X notify w mk S =
     (case lock_for (w_address w) S of
        (Some e, T) \<Rightarrow> (Inl e, T)
      | (None, T) \<Rightarrow>
          (case sign_with (wd_net X) w (mk (next_nonce (fn_chain T) (w_address w))) of
             Inl e \<Rightarrow> (Inl e, T)
           | Inr tx \<Rightarrow>
               (case submit_and_tell X notify tx T of
                  (Inl e, U) \<Rightarrow> (Inl e, U)
                | (Inr tid, U) \<Rightarrow> (Inr (tid, tx), U))))"

text \<open>The common course of the methods that submit: wallet, further checks, fees, transaction, result.\<close>

definition wallet_and_fees ::
  "world \<Rightarrow> pyval \<Rightarrow> (wallet \<Rightarrow> chain \<Rightarrow> outcome) \<Rightarrow> pyval \<Rightarrow> pyval \<Rightarrow> fullnode \<Rightarrow> exn + wallet \<times> int \<times> int" where
  "wallet_and_fees X address test mf mp S =
     and_then (get_wallet address S) (\<lambda>w.
       case test w (fn_chain S) of
         Ok _ \<Rightarrow> and_then (compute_fee_defaults (wd_env X) mf mp (fn_chain S)) (\<lambda>(f, p). Inr (w, f, p))
       | Fail m \<Rightarrow> Inl (ValueError m)
       | Raise e \<Rightarrow> Inl e)"

definition submit_with ::
  "world \<Rightarrow> bool \<Rightarrow> pyval \<Rightarrow> (wallet \<Rightarrow> chain \<Rightarrow> outcome) \<Rightarrow> pyval \<Rightarrow> pyval
     \<Rightarrow> (wallet \<Rightarrow> int \<Rightarrow> int \<Rightarrow> int \<Rightarrow> int \<Rightarrow> transaction) \<Rightarrow> (string \<Rightarrow> transaction \<Rightarrow> fields) \<Rightarrow> call" where
  "submit_with X notify address test mf mp mk result S =
     (case wallet_and_fees X address test mf mp S of
        Inl e \<Rightarrow> Some (Inl e, S)
      | Inr (w, f, p) \<Rightarrow>
          (case submit_built X notify w (\<lambda>nonce. mk w nonce f p (int_time X)) S of
             (Inl e, T) \<Rightarrow> Some (Inl e, T)
           | (Inr (tid, tx), T) \<Rightarrow> Some (Inr (PDict (result tid tx)), T)))"

definition no_test :: "wallet \<Rightarrow> chain \<Rightarrow> outcome" where
  "no_test w s = Ok []"

section \<open>Keys and validators\<close>

definition rpc_register_key :: "world \<Rightarrow> pyval \<Rightarrow> pyval \<Rightarrow> pyval \<Rightarrow> call" where
  "rpc_register_key X wallet_address mf mp =
     submit_with X True wallet_address no_test mf mp
       (\<lambda>w n f p now. mk_register_key (w_address w) (w_encryption_pk w) n f p now)
       (\<lambda>tid tx. [(''tx_id'', PStr tid)])"

definition rpc_register_validator :: "world \<Rightarrow> pyval \<Rightarrow> pyval \<Rightarrow> pyval \<Rightarrow> call" where
  "rpc_register_validator X wallet_address mf mp =
     submit_with X True wallet_address
       (\<lambda>w s. raise_if (is_registered_validator s (w_address w))
                (ve ''validator already registered: {}...'' [PStr (take 16 (w_address w))])) mf mp
       (\<lambda>w n f p now. mk_register_validator (w_address w) (w_signing_pk w) (w_address w) n f p now)
       (\<lambda>tid tx. [(''tx_id'', PStr tid), (''validator_address'', PStr (tx_sender tx))])"

definition rpc_revoke_key :: "world \<Rightarrow> pyval \<Rightarrow> pyval \<Rightarrow> pyval \<Rightarrow> pyval \<Rightarrow> pyval \<Rightarrow> call" where
  "rpc_revoke_key X wallet_address key_type reason mf mp =
     guarded
       [must_str key_type ''key_type must be string'', must_str reason ''reason must be string'',
        raise_if (str_of_py key_type \<notin> {''signing'', ''encryption'', ''validator''})
          (ve ''key_type must be one of {}'' [PList [PStr ''encryption'', PStr ''signing'', PStr ''validator'']]),
        raise_if (str_of_py reason \<notin> {''compromised'', ''rotation'', ''decommission''})
          (ve ''reason must be one of {}'' [PList [PStr ''compromised'', PStr ''decommission'', PStr ''rotation'']])]
     (submit_with X True wallet_address no_test mf mp
       (\<lambda>w n f p now. mk_revoke_key (w_address w) (str_of_py key_type) (str_of_py reason) n f p now)
       (\<lambda>tid tx. [(''tx_id'', PStr tid), (''key_type'', key_type), (''reason'', reason)]))"

section \<open>Staking\<close>

definition stake_args :: "pyval \<Rightarrow> pyval \<Rightarrow> outcome list" where
  "stake_args validator_address amount =
     [must_text validator_address ''validator_address must be non-empty string'',
      must_int amount 1 ''amount must be positive integer'']"

definition stake_result :: "pyval \<Rightarrow> pyval \<Rightarrow> string \<Rightarrow> transaction \<Rightarrow> fields" where
  "stake_result validator_address amount tid tx =
     [(''tx_id'', PStr tid), (''validator_address'', validator_address), (''amount'', amount)]"

definition rpc_stake :: "world \<Rightarrow> pyval \<Rightarrow> pyval \<Rightarrow> pyval \<Rightarrow> pyval \<Rightarrow> pyval \<Rightarrow> call" where
  "rpc_stake X wallet_address validator_address amount mf mp =
     outside_if (is_bool amount) (guarded (stake_args validator_address amount)
     (submit_with X True wallet_address no_test mf mp
       (\<lambda>w n f p now. mk_stake (w_address w) (str_of_py validator_address) (int_of_py amount) n f p now)
       (stake_result validator_address amount)))"

definition rpc_delegate :: "world \<Rightarrow> pyval \<Rightarrow> pyval \<Rightarrow> pyval \<Rightarrow> pyval \<Rightarrow> pyval \<Rightarrow> call" where
  "rpc_delegate X wallet_address validator_address amount mf mp =
     outside_if (is_bool amount) (guarded (stake_args validator_address amount)
     (submit_with X True wallet_address
       (\<lambda>w s. raise_if (w_address w = str_of_py validator_address)
                (ve ''self-delegation is not allowed; use qv_stake for self-staking'' [])) mf mp
       (\<lambda>w n f p now. mk_delegate (w_address w) (str_of_py validator_address) (int_of_py amount) n f p now)
       (stake_result validator_address amount)))"

definition rpc_unstake :: "world \<Rightarrow> pyval \<Rightarrow> pyval \<Rightarrow> pyval \<Rightarrow> pyval \<Rightarrow> pyval \<Rightarrow> call" where
  "rpc_unstake X wallet_address validator_address amount mf mp =
     outside_if (is_bool amount) (guarded (stake_args validator_address amount)
     (submit_with X True wallet_address no_test mf mp
       (\<lambda>w n f p now. mk_unstake (w_address w) (str_of_py validator_address) (int_of_py amount) n f p now)
       (stake_result validator_address amount)))"

section \<open>Documents\<close>

text \<open>The values of these payloads are checked by the pool, not here: any JSON value is signed.\<close>

definition rpc_notarize :: "world \<Rightarrow> pyval \<Rightarrow> pyval \<Rightarrow> pyval \<Rightarrow> pyval \<Rightarrow> pyval \<Rightarrow> call" where
  "rpc_notarize X wallet_address document_hash metadata mf mp =
     submit_with X True wallet_address no_test mf mp
       (\<lambda>w n f p now. new_tx NOTARIZE (w_address w) []
          [(''documentHash'', document_hash), (''metadata'', metadata)] n f p now)
       (\<lambda>tid tx. [(''tx_id'', PStr tid)])"

definition rpc_store :: "world \<Rightarrow> pyval \<Rightarrow> pyval \<Rightarrow> pyval \<Rightarrow> pyval \<Rightarrow> pyval \<Rightarrow> pyval \<Rightarrow> call" where
  "rpc_store X wallet_address document_hash cid metadata mf mp =
     submit_with X True wallet_address no_test mf mp
       (\<lambda>w n f p now. new_tx STORE (w_address w) []
          [(''documentHash'', document_hash), (''cid'', cid), (''metadata'', metadata)] n f p now)
       (\<lambda>tid tx. [(''tx_id'', PStr tid)])"

definition share_key :: "world \<Rightarrow> string \<Rightarrow> pyval \<Rightarrow> chain \<Rightarrow> exn + bytes \<times> bytes" where
  "share_key X recipient_address recipient_pk s =
     and_then (if truthy recipient_pk then Inr recipient_pk
               else case get_encryption_pk s recipient_address of
                      None \<Rightarrow> Inl (ve ''no encryption key for {}... (register with qv_registerKey first)''
                                   [PStr (take 16 recipient_address)])
                    | Some pk \<Rightarrow>
                        unless_raise (pk = []) (ve ''no encryption key for {}... (register with qv_registerKey first)''
                                                  [PStr (take 16 recipient_address)]) (Inr (PStr pk)))
       (\<lambda>pk. and_then (hex_value pk) (encapsulate (net_suite (wd_net X))))"

definition rpc_share ::
  "world \<Rightarrow> pyval \<Rightarrow> pyval \<Rightarrow> pyval \<Rightarrow> pyval \<Rightarrow> pyval \<Rightarrow> pyval \<Rightarrow> pyval \<Rightarrow> call" where
  "rpc_share X wallet_address recipient_address cid recipient_pk expires mf mp S =
     outside_if (\<not> is_str recipient_address) (\<lambda>S.
       case and_then (get_wallet wallet_address S) (\<lambda>w.
              share_key X (str_of_py recipient_address) recipient_pk (fn_chain S)) of
         Inl e \<Rightarrow> Some (Inl e, S)
       | Inr (ciphertext, shared_secret) \<Rightarrow>
           (case submit_with X True wallet_address no_test mf mp
                   (\<lambda>w n f p now. new_tx SHARE (w_address w) (str_of_py recipient_address)
                      [(''cid'', cid), (''encapsulatedKey'', PStr (hex ciphertext)), (''expires'', expires)] n f p now)
                   (\<lambda>tid tx. [(''tx_id'', PStr tid), (''shared_secret_stored'', PBool True)]) S of
              Some (Inr (PDict d), T) \<Rightarrow>
                Some (Inr (PDict d), store_shared_secret (str_of_py (dget_or d ''tx_id'' PNone)) shared_secret T)
            | r \<Rightarrow> r)) S"

section \<open>Transfers and tokens\<close>

definition rpc_transfer ::
  "world \<Rightarrow> pyval \<Rightarrow> pyval \<Rightarrow> pyval \<Rightarrow> pyval \<Rightarrow> pyval \<Rightarrow> pyval \<Rightarrow> call" where
  "rpc_transfer X wallet_address to_address amount memo mf mp =
     outside_if (is_bool amount) (guarded
       [must_text wallet_address ''wallet_address must be non-empty string'',
        must_text to_address ''to_address must be non-empty string'',
        must_int amount 1 ''amount must be a positive integer'',
        must_str memo ''memo must be a string'',
        raise_if (length (str_of_py memo) > 256) (ve ''memo exceeds 256 characters'' [])]
     (submit_with X True wallet_address
       (\<lambda>w s. raise_if (w_address w = str_of_py to_address) (ve ''cannot transfer to self'' [])) mf mp
       (\<lambda>w n f p now. mk_transfer (w_address w) (str_of_py to_address) (int_of_py amount) (str_of_py memo) n f p now)
       (\<lambda>tid tx. [(''tx_id'', PStr tid), (''amount'', amount), (''to'', to_address)])))"

definition rpc_issue_token ::
  "world \<Rightarrow> pyval \<Rightarrow> pyval \<Rightarrow> pyval \<Rightarrow> pyval \<Rightarrow> pyval \<Rightarrow> pyval \<Rightarrow> pyval \<Rightarrow> pyval \<Rightarrow> call" where
  "rpc_issue_token X wallet_address name symbol decimals max_supply transferable mf mp =
     outside_if (is_bool decimals \<or> is_bool max_supply) (guarded
       [must_text wallet_address ''wallet_address must be non-empty string'',
        must_text name ''name must be non-empty string'',
        must_text symbol ''symbol must be non-empty string'',
        must_int decimals 0 ''decimals must be a non-negative integer'',
        must_int max_supply 0 ''max_supply must be a non-negative integer'',
        raise_if (\<not> is_bool transferable) (ve ''transferable must be a boolean'' [])]
     (submit_with X True wallet_address no_test mf mp
       (\<lambda>w n f p now. mk_issue_token (w_address w) (str_of_py name) (str_of_py symbol) (int_of_py decimals)
          (int_of_py max_supply) (truthy transferable) n f p now)
       (\<lambda>tid tx. [(''tx_id'', PStr tid),
          (''token_id'', PStr (take 32 (hex (sha3 (wd_env X)
             (encode (tx_sender tx @ str_of_py symbol @ int_str (tx_nonce tx))))))), (''symbol'', symbol)])))"

definition token_args :: "pyval \<Rightarrow> pyval \<Rightarrow> pyval \<Rightarrow> pyval \<Rightarrow> outcome list" where
  "token_args wallet_address token_id recipient amount =
     [must_text wallet_address ''wallet_address must be non-empty string'',
      must_text token_id ''token_id must be non-empty string'',
      must_text recipient ''recipient must be non-empty string'',
      must_int amount 1 ''amount must be a positive integer'']"

definition token_result :: "pyval \<Rightarrow> pyval \<Rightarrow> pyval \<Rightarrow> string \<Rightarrow> transaction \<Rightarrow> fields" where
  "token_result token_id amount recipient tid tx =
     [(''tx_id'', PStr tid), (''token_id'', token_id), (''amount'', amount), (''recipient'', recipient)]"

definition rpc_mint_token ::
  "world \<Rightarrow> pyval \<Rightarrow> pyval \<Rightarrow> pyval \<Rightarrow> pyval \<Rightarrow> pyval \<Rightarrow> pyval \<Rightarrow> call" where
  "rpc_mint_token X wallet_address token_id recipient amount mf mp =
     outside_if (is_bool amount) (guarded (token_args wallet_address token_id recipient amount)
     (submit_with X True wallet_address no_test mf mp
       (\<lambda>w n f p now. mk_mint_token (w_address w) (str_of_py recipient) (str_of_py token_id) (int_of_py amount) n f p now)
       (token_result token_id amount recipient)))"

text \<open>\<open>memo\<close> is passed on unchecked: a str is assumed, anything else is outside the model.\<close>

definition rpc_transfer_token ::
  "world \<Rightarrow> pyval \<Rightarrow> pyval \<Rightarrow> pyval \<Rightarrow> pyval \<Rightarrow> pyval \<Rightarrow> pyval \<Rightarrow> pyval \<Rightarrow> call" where
  "rpc_transfer_token X wallet_address token_id recipient amount memo mf mp =
     outside_if (is_bool amount \<or> \<not> is_str memo) (guarded (token_args wallet_address token_id recipient amount)
     (submit_with X True wallet_address no_test mf mp
       (\<lambda>w n f p now. mk_transfer_token (w_address w) (str_of_py recipient) (str_of_py token_id) (int_of_py amount)
          (str_of_py memo) n f p now)
       (token_result token_id amount recipient)))"

section \<open>Evidence and raw transactions\<close>

text \<open>This one broadcasts but does not notify the WebSocket clients.\<close>

definition rpc_submit_evidence ::
  "world \<Rightarrow> pyval \<Rightarrow> pyval \<Rightarrow> pyval \<Rightarrow> (string \<Rightarrow> pyval) \<Rightarrow> pyval \<Rightarrow> pyval \<Rightarrow> call" where
  "rpc_submit_evidence X wallet_address validator_address block_index arg mf mp =
     outside_if (is_bool block_index) (guarded
       ([must_text wallet_address ''wallet_address required'',
         must_text validator_address ''validator_address required'',
         must_int block_index 0 ''block_index must be non-negative integer'']
        @ map (\<lambda>name. must_text (arg name) (name @ '' must be non-empty string''))
            [''block_a_hash'', ''block_b_hash'', ''block_a_sig'', ''block_b_sig'', ''block_a_header'', ''block_b_header''])
     (submit_with X False wallet_address no_test mf mp
       (\<lambda>w n f p now. mk_evidence (w_address w) (str_of_py validator_address) (int_of_py block_index)
          (str_of_py (arg ''block_a_hash'')) (str_of_py (arg ''block_b_hash''))
          (str_of_py (arg ''block_a_sig'')) (str_of_py (arg ''block_b_sig''))
          (str_of_py (arg ''block_a_header'')) (str_of_py (arg ''block_b_header'')) n f p now)
       (\<lambda>tid tx. [(''tx_id'', PStr tid), (''validator_address'', validator_address)])))"

definition rpc_send_raw_tx :: "world \<Rightarrow> pyval \<Rightarrow> call" where
  "rpc_send_raw_tx X tx_data =
     guarded [raise_if (\<not> is_dict tx_data) (ve ''tx_data must be a JSON object'' [])] (\<lambda>S.
       case tx_from_dict (dict_of_py tx_data) of
         None \<Rightarrow> None
       | Some (Inl e) \<Rightarrow> Some (Inl e, S)
       | Some (Inr tx) \<Rightarrow>
           (case lock_for (tx_sender tx) S of
              (Some e, T) \<Rightarrow> Some (Inl e, T)
            | (None, T) \<Rightarrow>
                (case submit_and_tell X True tx T of
                   (Inl e, U) \<Rightarrow> Some (Inl e, U)
                 | (Inr tid, U) \<Rightarrow> Some (Inr (PDict [(''tx_id'', PStr tid)]), U))))"

section \<open>Secrets and wallets\<close>

definition rpc_shared_with_me :: "world \<Rightarrow> pyval \<Rightarrow> call" where
  "rpc_shared_with_me X address =
     guarded [must_str address ''address must be string''] (query (\<lambda>S.
       case get_shared_with (wd_env X) (fn_chain S) (int_time X) (str_of_py address) of
         None \<Rightarrow> Inl TypeError
       | Some ds \<Rightarrow> Inr (PList (map PDict ds))))"

definition rpc_get_shared_secret :: "pyval \<Rightarrow> call" where
  "rpc_get_shared_secret tid = query (\<lambda>S.
     unless_raise (\<not> hashable tid) TypeError
       (case dget (fn_secrets S) (str_of_py tid) of
          Some ss \<Rightarrow>
            unless_raise (\<not> is_str tid \<or> ss = [])
              (ve ''shared secret not found (only available to sender on this node)'' [])
              (Inr (PDict [(''shared_secret'', PStr (hex ss))]))
        | None \<Rightarrow> Inl (ve ''shared secret not found (only available to sender on this node)'' [])))"

definition rpc_decapsulate_shared :: "world \<Rightarrow> pyval \<Rightarrow> pyval \<Rightarrow> call" where
  "rpc_decapsulate_shared X wallet_address tid =
     guarded [must_str tid ''tx_id must be string''] (query (\<lambda>S.
       and_then (get_wallet wallet_address S) (\<lambda>w.
         case get_tx (fn_chain S) (str_of_py tid) of
           None \<Rightarrow> Inl (ve ''tx not found: {}...'' [PStr (take 16 (str_of_py tid))])
         | Some tx \<Rightarrow>
             (let ct_hex = pget tx ''encapsulatedKey'' (PStr [])
              in unless_raise (tx_type tx \<noteq> SHARE) (ve ''not a SHARE transaction'' [])
                (unless_raise (tx_recipient tx \<noteq> w_address w) (ve ''wallet is not the recipient'' [])
                (unless_raise (\<not> truthy ct_hex) (ve ''no encapsulatedKey in tx'' [])
                (and_then (hex_value ct_hex) (\<lambda>ct.
                 and_then (decapsulate (net_suite (wd_net X)) (w_encryption_sk w) ct) (\<lambda>ss.
                   Inr (PDict [(''shared_secret'', PStr (hex ss))]))))))))))"

definition wallet_info :: "wallet \<Rightarrow> pyval" where
  "wallet_info w =
     PDict [(''address'', PStr (w_address w)), (''signing_pk'', PStr (hex (w_signing_pk w))),
            (''encryption_pk'', PStr (hex (w_encryption_pk w)))]"

definition rpc_new_wallet :: "world \<Rightarrow> call" where
  "rpc_new_wallet X S =
     (case wd_keys X of (ssk, spk, esk, epk) \<Rightarrow>
        (let w = mk_wallet (wd_env X) ssk spk esk epk
         in Some (Inr (wallet_info w), S\<lparr>fn_wallets := dset (fn_wallets S) (w_address w) w\<rparr>)))"

definition rpc_list_wallets :: call where
  "rpc_list_wallets = query (\<lambda>S. Inr (PList (map PStr (dkeys (fn_wallets S)))))"

definition rpc_get_wallet_keys :: "pyval \<Rightarrow> call" where
  "rpc_get_wallet_keys address =
     guarded [must_str address ''address must be string''] (query (\<lambda>S.
       case dget (fn_wallets S) (str_of_py address) of
         None \<Rightarrow> Inl (ve ''wallet not found: {}...'' [PStr (take 16 (str_of_py address))])
       | Some w \<Rightarrow> Inr (wallet_info w)))"

section \<open>Webhooks\<close>

fun status_name :: "hook_status \<Rightarrow> string" where
  "status_name Active = ''active''"
| "status_name Failing = ''failing''"
| "status_name Disabled = ''disabled''"
| "status_name Deleted = ''deleted''"

text \<open>\<open>created_at\<close> is a float; the model leaves it out of the JSON value.\<close>

definition hook_py :: "hook_info \<Rightarrow> pyval" where
  "hook_py h =
     PDict [(''id'', PStr (hi_id h)), (''url'', PStr (hi_url h)), (''events'', PList (map PStr (hi_events h))),
            (''status'', PStr (status_name (hi_status h))), (''consecutive_failures'', PInt (hi_failures h))]"

definition rpc_register_webhook :: "world \<Rightarrow> pyval \<Rightarrow> pyval \<Rightarrow> pyval \<Rightarrow> call" where
  "rpc_register_webhook X url events secret =
     guarded [must_text url ''url must be non-empty string'',
              raise_if (\<not> is_list events) (ve ''events must be a list'' []),
              must_text secret ''secret must be non-empty string'']
       (\<lambda>S. case register_hook (wd_classify X) (wd_hex X) (wd_time X) url events secret (fn_hooks S) of
               (Inl e, h) \<Rightarrow> Some (Inl e, S\<lparr>fn_hooks := h\<rparr>)
             | (Inr info, h) \<Rightarrow> Some (Inr (hook_py info), S\<lparr>fn_hooks := h\<rparr>))"

definition rpc_list_webhooks :: call where
  "rpc_list_webhooks = query (\<lambda>S. Inr (PList (map hook_py (list_hooks (fn_hooks S)))))"

definition rpc_delete_webhook :: "pyval \<Rightarrow> call" where
  "rpc_delete_webhook webhook_id =
     guarded [must_text webhook_id ''webhook_id must be non-empty string'']
       (\<lambda>S. case delete_hook webhook_id (fn_hooks S) of
               (Inl e, h) \<Rightarrow> Some (Inl e, S\<lparr>fn_hooks := h\<rparr>)
             | (Inr deleted, h) \<Rightarrow>
                 Some (if deleted then Inr (PDict [(''deleted'', PBool True)]) else Inl (ve ''webhook not found'' []),
                       S\<lparr>fn_hooks := h\<rparr>))"

end
