(* ===== verification/RpcServer.thy ===== *)
theory RpcServer
  imports NodeRpc
begin

text \<open>
  The public RPC methods of \<open>node.py\<close>, the table of methods (\<open>_register_rpc\<close>) and the JSON-RPC server
  of \<open>network/rpc.py\<close>: parameters, authentication, the TLS requirement, errors, batches, rate limit.
  aiohttp, the dashboard's files and certificates are left out; \<open>json.loads\<close> is a parameter.
\<close>

section \<open>Blocks, transactions and documents\<close>

definition rpc_block_number :: call where
  "rpc_block_number = query (\<lambda>S. Inr (PInt (height (fn_chain S))))"

definition get_block :: "'a registry_scheme \<Rightarrow> pyval \<Rightarrow> block option" where
  "get_block s key =
     (if is_int key then get_block_by_index s (int_of_py key)
      else if is_str key then get_block_of_hash s (str_of_py key) else None)"

definition rpc_get_block :: "world \<Rightarrow> pyval \<Rightarrow> pyval \<Rightarrow> call" where
  "rpc_get_block X index hash =
     (let found = (\<lambda>key. query (\<lambda>S. Inr (case get_block (fn_chain S) key of
                    None \<Rightarrow> PNone | Some b \<Rightarrow> PDict (block_to_dict (wd_env X) b))))
      in if index \<noteq> PNone \<and> hash \<noteq> PNone
         then query (\<lambda>S. Inl (ve ''ambiguous: provide either index or block_hash, not both'' []))
         else if index \<noteq> PNone
         then guarded [raise_if (\<not> is_int index) (ve ''index must be integer'' [])] (found index)
         else if hash \<noteq> PNone then guarded [must_str hash ''block_hash must be string''] (found hash)
         else query (\<lambda>S. Inr PNone))"

definition effective_fee :: "env \<Rightarrow> 'a registry_scheme \<Rightarrow> transaction \<Rightarrow> int \<Rightarrow> fields" where
  "effective_fee E s tx block_idx =
     (let w = tx_weight (tx_type tx)
      in case get_block_by_index s block_idx of
           None \<Rightarrow> []
         | Some b \<Rightarrow>
             if block_idx \<ge> dyn_height E \<and> w > 0
             then [(''effectiveFee'', PInt (compute_tx_fee (b_base_fee b) (tx_max_fee tx) (tx_max_prio tx) w))]
             else [])"

definition rpc_get_tx :: "world \<Rightarrow> pyval \<Rightarrow> call" where
  "rpc_get_tx X tid =
     guarded [must_str tid ''tx_id must be string''] (query (\<lambda>S.
       let s = fn_chain S
       in Inr (case (get_tx s (str_of_py tid), get_tx_block s (str_of_py tid)) of
                 (Some tx, Some i) \<Rightarrow>
                   PDict (tx_to_dict (wd_env X) tx @ [(''block_index'', PInt i)] @ effective_fee (wd_env X) s tx i)
               | (Some tx, None) \<Rightarrow> PDict (tx_to_dict (wd_env X) tx @ [(''block_index'', PNone)])
               | (None, _) \<Rightarrow> PNone)))"

definition rpc_pending_count :: call where
  "rpc_pending_count = query (\<lambda>S. Inr (PInt (int (length (tx_pool (fn_chain S))))))"

definition rpc_verify_document :: "world \<Rightarrow> pyval \<Rightarrow> call" where
  "rpc_verify_document X document_hash =
     guarded [must_str document_hash ''document_hash must be string''] (query (\<lambda>S.
       Inr (case verify_document (wd_env X) (fn_chain S) (str_of_py document_hash) of
              None \<Rightarrow> PNone | Some d \<Rightarrow> PDict d)))"

definition rpc_get_encryption_pk :: "pyval \<Rightarrow> call" where
  "rpc_get_encryption_pk address =
     guarded [must_str address ''address must be string''] (query (\<lambda>S.
       let pk = the_default [] (get_encryption_pk (fn_chain S) (str_of_py address))
       in unless_raise (pk = []) (ve ''no encryption key registered for {}...'' [PStr (take 16 (str_of_py address))])
            (Inr (PDict [(''address'', address), (''encryption_pk'', PStr pk)]))))"

definition rpc_txs_by_sender :: "pyval \<Rightarrow> call" where
  "rpc_txs_by_sender address =
     guarded [must_str address ''address must be string''] (query (\<lambda>S.
       Inr (PList (map PStr (get_txs_by_sender (fn_chain S) (str_of_py address))))))"

definition rpc_txs_by_recipient :: "pyval \<Rightarrow> call" where
  "rpc_txs_by_recipient address =
     guarded [must_str address ''address must be string''] (query (\<lambda>S.
       Inr (PList (map PStr (get_txs_by_recipient (fn_chain S) (str_of_py address))))))"

section \<open>The node\<close>

definition VERSION :: string where "VERSION = ''0.8.0''"

definition rpc_peer_count :: call where
  "rpc_peer_count = query (\<lambda>S. Inr (PInt (connected_count (fn_p2p S))))"

definition known_validators :: "'a registry_scheme \<Rightarrow> string list" where
  "known_validators s = sort (remdups (dkeys (poa_validators s) @ dkeys (validator_registry s)))"

definition rpc_validators :: call where
  "rpc_validators = query (\<lambda>S. Inr (PList (map PStr (known_validators (fn_chain S)))))"

definition rpc_node_info :: call where
  "rpc_node_info = query (\<lambda>S.
     let s = fn_chain S
     in Inr (PDict
          [(''version'', PStr VERSION), (''chain_height'', PInt (height s)),
           (''pending_txs'', PInt (int (length (tx_pool s)))), (''peers'', PInt (connected_count (fn_p2p S))),
           (''validator'', case fn_validator S of None \<Rightarrow> PNone | Some w \<Rightarrow> PStr (w_address w)),
           (''validators'', PList (map PStr (known_validators s))),
           (''registered_validators'', PList (map PStr (sort (dkeys (validator_registry s))))),
           (''wallets'', PInt (int (length (fn_wallets S))))]))"

definition rpc_get_sync_status :: call where
  "rpc_get_sync_status = query (\<lambda>S. Inr (PDict (sync_progress (height (fn_chain S)) (fn_sync S))))"

section \<open>Stakes, balances and fees\<close>

definition pairs_py :: "string \<Rightarrow> string \<Rightarrow> (string \<times> int) list \<Rightarrow> pyval" where
  "pairs_py a n ps = PList (map (\<lambda>(addr, amount). PDict [(a, PStr addr), (n, PInt amount)]) ps)"

definition rpc_get_stake :: "pyval \<Rightarrow> call" where
  "rpc_get_stake validator_address =
     guarded [must_str validator_address ''validator_address must be string''] (query (\<lambda>S.
       let s = fn_chain S; v = str_of_py validator_address
       in Inr (PDict [(''validator_address'', validator_address), (''total_stake'', PInt (get_validator_stake s v)),
                      (''stakers'', PDict (map (map_prod id PInt) (dget_or (stakes s) v [])))])))"

definition rpc_get_validator_stakes :: call where
  "rpc_get_validator_stakes =
     query (\<lambda>S. Inr (pairs_py ''validator'' ''total_stake'' (get_active_validators (fn_chain S))))"

definition rpc_get_epoch :: call where
  "rpc_get_epoch = query (\<lambda>S.
     let epoch = current_epoch (fn_chain S)
     in Inr (PDict [(''epoch'', PInt epoch),
          (''validators'', pairs_py ''address'' ''stake'' (get_epoch_validators (fn_chain S) (Some epoch)))]))"

definition slash_py :: "slash_event \<Rightarrow> pyval" where
  "slash_py e =
     PDict [(''validator'', PStr (se_validator e)), (''evidence_tx_id'', PStr (se_evidence_tx e)),
            (''amount_slashed'', PInt (se_amount e)), (''block_index'', PInt (se_block e))]"

definition rpc_get_slashing_events :: "pyval \<Rightarrow> call" where
  "rpc_get_slashing_events validator =
     guarded [must_str validator ''validator must be string''] (query (\<lambda>S.
       Inr (PList (map slash_py (get_slashing_events (fn_chain S) (str_of_py validator))))))"

definition rpc_get_balance :: "world \<Rightarrow> pyval \<Rightarrow> call" where
  "rpc_get_balance X address =
     guarded [must_text address ''address must be non-empty string''] (query (\<lambda>S.
       let balance = get_balance (fn_chain S) (str_of_py address)
       in Inr (PDict [(''address'', address), (''balance'', PInt balance),
                      (''formatted'', PStr (wd_units X balance @ '' QBIT''))])))"

definition fee_model :: "env \<Rightarrow> 'a registry_scheme \<Rightarrow> pyval" where
  "fee_model E s = PStr (if dynamic_active E s then ''dynamic'' else ''fixed'')"

definition rpc_get_supply :: "world \<Rightarrow> call" where
  "rpc_get_supply X = query (\<lambda>S.
     let s = fn_chain S; supply = get_total_supply s (total_stake s)
     in Inr (PDict
          [(''total_minted'', PInt (sup_total_minted supply)), (''total_burned'', PInt (sup_total_burned supply)),
           (''circulating'', PInt (sup_circulating supply)), (''max_supply'', PInt MAX_SUPPLY),
           (''formatted_circulating'', PStr (wd_units X (sup_circulating supply) @ '' QBIT'')),
           (''fee_model'', fee_model (wd_env X) s)]))"

text \<open>The types in the order of \<open>TX_WEIGHTS\<close>.\<close>

definition weighted_types :: "txtype list" where
  "weighted_types = [TRANSFER, NOTARIZE, STORE, SHARE, REGISTER_KEY, REGISTER_VALIDATOR, STAKE, DELEGATE, UNSTAKE,
                     REVOKE_KEY, EVIDENCE, ISSUE_TOKEN, MINT_TOKEN, TRANSFER_TOKEN]"

definition fee_estimate :: "int \<Rightarrow> int \<Rightarrow> int \<Rightarrow> pyval" where
  "fee_estimate current_bf priority weight =
     (if weight = 0 then PDict [(''min'', PInt 0), (''suggested'', PInt 0)]
      else PDict [(''min'', PInt (current_bf * weight)), (''suggested'', PInt ((current_bf + priority) * weight))])"

definition rpc_get_fee_info :: "world \<Rightarrow> call" where
  "rpc_get_fee_info X = query (\<lambda>S.
     let s = fn_chain S; E = wd_env X;
         current_bf = (if dynamic_active E s then current_base_fee E s else 0);
         next_bf = (if dynamic_active E s
                    then (case latest_block s of
                            None \<Rightarrow> INITIAL_BASE_FEE
                          | Some parent \<Rightarrow> compute_base_fee current_bf
                              (effective_block_weight (weigh (b_txs parent)) (b_validator parent)))
                    else INITIAL_BASE_FEE);
         priority = max 1 (current_bf div 10)
     in Inr (PDict
          [(''base_fee'', PInt current_bf), (''next_base_fee'', PInt next_bf),
           (''suggested_priority_fee'', PInt priority),
           (''weights'', PDict (map (\<lambda>t. (type_value t, PInt (TX_WEIGHTS t))) weighted_types)),
           (''estimated_fees'', PDict (map (\<lambda>t. (type_value t, fee_estimate current_bf priority (TX_WEIGHTS t))) weighted_types)),
           (''fee_model'', fee_model E s)]))"

section \<open>State proofs\<close>

definition proof_fields :: "state_proof \<Rightarrow> fields" where
  "proof_fields p =
     [(''key'', PStr (sp_key p)), (''value'', PStr (sp_value p)),
      (''proof'', PList (map (\<lambda>(h, left). PList [PStr h, PBool left]) (sp_proof p))), (''root'', PStr (sp_root p))]"

text \<open>A proof from the current trie fills the trie's cache, as a query of the root does.\<close>

definition proof_effect :: "env \<Rightarrow> string \<Rightarrow> chain \<Rightarrow> chain" where
  "proof_effect E key s = s\<lparr>state_trie := snd (trie_get_proof (sha3 E) (state_trie s) key)\<rparr>"

definition rpc_get_state_proof :: "world \<Rightarrow> pyval \<Rightarrow> pyval \<Rightarrow> call" where
  "rpc_get_state_proof X address key_type =
     guarded [must_text address ''address must be a non-empty string'', must_str key_type ''key_type must be a string'',
              raise_if (str_of_py key_type \<notin> {''balance'', ''nonce''}) (ve (''key_type must be 'balance' or 'nonce'' @ [CHR 0x27]) [])]
       (\<lambda>S. Some (Inr (PDict (case get_state_proof (wd_env X) (fn_chain S) (str_of_py address) (str_of_py key_type) of
             None \<Rightarrow> [(''error'', PStr ''key not found in state trie'')]
           | Some p \<Rightarrow> proof_fields p)),
          on_chain_state (proof_effect (wd_env X) (str_of_py key_type @ '':'' @ str_of_py address)) S))"

definition rpc_get_state_root :: "world \<Rightarrow> call" where
  "rpc_get_state_root X S =
     (case state_root (wd_env X) (fn_chain S) of
        (r, c) \<Rightarrow> Some (Inr (PDict [(''state_root'', PStr r)]), S\<lparr>fn_chain := c\<rparr>))"

definition optional_int :: "pyval \<Rightarrow> int option" where
  "optional_int v = (if v = PNone then None else Some (int_of_py v))"

definition rpc_get_state_proof_at :: "world \<Rightarrow> pyval \<Rightarrow> pyval \<Rightarrow> call" where
  "rpc_get_state_proof_at X key block_index =
     guarded [must_text key ''key must be a non-empty string'',
              raise_if (block_index \<noteq> PNone \<and> \<not> is_int block_index) (ve ''block_index must be an integer or null'' []),
              raise_if (\<not> starts_with (str_of_py key) ''balance:'' \<and> \<not> starts_with (str_of_py key) ''nonce:'')
                (ve ''only balance: and nonce: key prefixes are allowed; use the authenticated REST endpoint for token state proofs'' [])]
       (\<lambda>S. Some (Inr (case get_state_proof_at_block (wd_env X) (fn_chain S) (str_of_py key) (optional_int block_index) of
             None \<Rightarrow> PNone
           | Some (p, i) \<Rightarrow> PDict (proof_fields p @ [(''block_index'', PInt i)])),
          if block_index = PNone then on_chain_state (proof_effect (wd_env X) (str_of_py key)) S else S))"

section \<open>Tokens\<close>

definition token_fields :: "token_info \<Rightarrow> fields" where
  "token_fields t =
     [(''issuer'', PStr (tk_issuer t)), (''name'', PStr (tk_name t)), (''symbol'', PStr (tk_symbol t)),
      (''decimals'', PInt (tk_decimals t)), (''max_supply'', PInt (tk_max_supply t)),
      (''total_minted'', PInt (tk_minted t)), (''transferable'', PBool (tk_transferable t)),
      (''created_block'', PInt (tk_created_block t)), (''created_tx'', PStr (tk_created_tx t))]"

definition rpc_get_token_info :: "pyval \<Rightarrow> call" where
  "rpc_get_token_info token_id =
     guarded [must_text token_id ''token_id must be a non-empty string''] (query (\<lambda>S.
       Inr (case get_token_info (fn_chain S) (str_of_py token_id) of None \<Rightarrow> PNone | Some t \<Rightarrow> PDict (token_fields t))))"

definition rpc_get_token_balance :: "pyval \<Rightarrow> pyval \<Rightarrow> call" where
  "rpc_get_token_balance token_id address =
     guarded [must_text token_id ''token_id must be a non-empty string'',
              must_text address ''address must be a non-empty string''] (query (\<lambda>S.
       Inr (PDict [(''token_id'', token_id), (''address'', address),
                   (''amount'', PInt (get_token_balance (fn_chain S) (str_of_py token_id) (str_of_py address)))])))"

definition rpc_list_tokens :: "pyval \<Rightarrow> pyval \<Rightarrow> call" where
  "rpc_list_tokens page limit =
     guarded [must_int page 1 ''page must be a positive integer'',
              raise_if (\<not> is_int limit \<or> int_of_py limit < 1 \<or> int_of_py limit > 100) (ve ''limit must be 1-100'' [])]
       (query (\<lambda>S. Inr (PDict
          [(''tokens'', PList (map (\<lambda>(tid, t). PDict (token_fields t @ [(''token_id'', PStr tid)]))
              (list_tokens (fn_chain S) (int_of_py page) (int_of_py limit)))),
           (''total'', PInt (int (length (token_registry (fn_chain S)))))])))"

definition rpc_get_address_tokens :: "world \<Rightarrow> pyval \<Rightarrow> pyval \<Rightarrow> pyval \<Rightarrow> call" where
  "rpc_get_address_tokens X address page limit =
     guarded [must_text address ''address must be a non-empty string'', must_int page 1 ''page must be a positive integer'',
              must_int limit 1 ''limit must be a positive integer''] (query (\<lambda>S.
       Inr (PList (map PDict (get_address_tokens (wd_enum X) (fn_chain S) (str_of_py address) (int_of_py page)
                               (min (int_of_py limit) 100))))))"

section \<open>Headers, receipts and events\<close>

definition rpc_get_block_headers :: "world \<Rightarrow> pyval \<Rightarrow> pyval \<Rightarrow> call" where
  "rpc_get_block_headers X start count =
     guarded [must_int start 0 ''start must be a non-negative integer'',
              raise_if (\<not> is_int count \<or> int_of_py count < 1 \<or> int_of_py count > 100) (ve ''count must be 1-100'' [])]
       (query (\<lambda>S. Inr (PList (map PDict (get_block_headers (wd_env X) (fn_chain S) (int_of_py start) (int_of_py count))))))"

definition rpc_get_receipt_proof :: "world \<Rightarrow> pyval \<Rightarrow> call" where
  "rpc_get_receipt_proof X tid =
     guarded [must_text tid ''tx_id must be a non-empty string''] (query (\<lambda>S.
       Inr (case get_receipt_proof (wd_env X) (fn_chain S) (str_of_py tid) of
              None \<Rightarrow> PNone
            | Some d \<Rightarrow> PDict
                [(''tx_id'', PStr (rp_tx_id d)), (''receipt'', PDict (rp_receipt d)),
                 (''proof'', PList (map (\<lambda>(h, right). PList [PStr h, PBool right]) (rp_proof d))),
                 (''receiptsRoot'', PStr (rp_root d)), (''block_index'', PInt (rp_block_index d))])))"

definition rpc_get_receipt :: "world \<Rightarrow> pyval \<Rightarrow> call" where
  "rpc_get_receipt X tid =
     guarded [must_text tid ''tx_id must be a non-empty string''] (query (\<lambda>S.
       Inr (case get_receipt (fn_chain S) (str_of_py tid) of
              None \<Rightarrow> PNone | Some r \<Rightarrow> PDict (receipt_to_dict (wd_env X) r))))"

definition rpc_get_finalized :: call where
  "rpc_get_finalized = query (\<lambda>S. Inr (PDict [(''finalized_height'', PInt (finalized_height (fn_chain S)))]))"

definition rpc_get_logs :: "pyval \<Rightarrow> pyval \<Rightarrow> pyval \<Rightarrow> pyval \<Rightarrow> call" where
  "rpc_get_logs event_type block_index sender limit =
     guarded [must_str event_type ''event_type must be a string'',
              raise_if (str_of_py event_type \<noteq> [] \<and> str_of_py event_type \<notin> set VALID_EVENT_TYPES)
                (ve ''unknown event_type '{}'; valid types: {}''
                   [event_type, PList (map PStr (sort VALID_EVENT_TYPES))]),
              raise_if (block_index \<noteq> PNone \<and> \<not> is_int block_index) (ve ''block_index must be an integer or null'' []),
              must_str sender ''sender must be a string'', must_int limit 1 ''limit must be a positive integer'']
       (query (\<lambda>S. Inr (PList (map (\<lambda>fe. PDict [(''tx_id'', PStr (fe_tx_id fe)), (''block_index'', PInt (fe_block_index fe)),
                                                  (''event'', PDict (fe_event fe))])
          (get_events (fn_chain S) (str_of_py event_type) (optional_int block_index) (str_of_py sender)
             (min (int_of_py limit) 100))))))"

section \<open>The table of methods\<close>

text \<open>A method: its parameters with their defaults, and its code over the bound parameters.\<close>

record rpc_method =
  rm_params :: fields
  rm_code :: "(string \<Rightarrow> pyval) \<Rightarrow> call"

definition fee_params :: fields where
  "fee_params = [(''max_fee_per_weight'', PNone), (''max_priority_fee'', PNone)]"

definition sends :: "fields \<Rightarrow> ((string \<Rightarrow> pyval) \<Rightarrow> pyval \<Rightarrow> pyval \<Rightarrow> call) \<Rightarrow> rpc_method" where
  "sends params f =
     \<lparr>rm_params = (''wallet_address'', PStr []) # params @ fee_params,
      rm_code = (\<lambda>a. f a (a ''max_fee_per_weight'') (a ''max_priority_fee''))\<rparr>"

definition reads :: "fields \<Rightarrow> ((string \<Rightarrow> pyval) \<Rightarrow> call) \<Rightarrow> rpc_method" where
  "reads params f = \<lparr>rm_params = params, rm_code = f\<rparr>"

definition evidence_params :: fields where
  "evidence_params =
     (''validator_address'', PStr []) # (''block_index'', PInt 0)
     # map (\<lambda>k. (k, PStr [])) [''block_a_hash'', ''block_b_hash'', ''block_a_sig'', ''block_b_sig'',
                                ''block_a_header'', ''block_b_header'']"

definition public_methods :: "world \<Rightarrow> (string, rpc_method) dict" where
  "public_methods X =
     [(''qv_blockNumber'', reads [] (\<lambda>a. rpc_block_number)),
      (''qv_getBlock'', reads [(''index'', PNone), (''block_hash'', PNone)] (\<lambda>a. rpc_get_block X (a ''index'') (a ''block_hash''))),
      (''qv_getTransaction'', reads [(''tx_id'', PStr [])] (\<lambda>a. rpc_get_tx X (a ''tx_id''))),
      (''qv_pendingTxCount'', reads [] (\<lambda>a. rpc_pending_count)),
      (''qv_verifyDocument'', reads [(''document_hash'', PStr [])] (\<lambda>a. rpc_verify_document X (a ''document_hash''))),
      (''qv_getEncryptionPk'', reads [(''address'', PStr [])] (\<lambda>a. rpc_get_encryption_pk (a ''address''))),
      (''qv_peerCount'', reads [] (\<lambda>a. rpc_peer_count)),
      (''qv_nodeInfo'', reads [] (\<lambda>a. rpc_node_info)),
      (''qv_validators'', reads [] (\<lambda>a. rpc_validators)),
      (''qv_getTxsBySender'', reads [(''address'', PStr [])] (\<lambda>a. rpc_txs_by_sender (a ''address''))),
      (''qv_getTxsByRecipient'', reads [(''address'', PStr [])] (\<lambda>a. rpc_txs_by_recipient (a ''address''))),
      (''qv_getStake'', reads [(''validator_address'', PStr [])] (\<lambda>a. rpc_get_stake (a ''validator_address''))),
      (''qv_getValidatorStakes'', reads [] (\<lambda>a. rpc_get_validator_stakes)),
      (''qv_getEpoch'', reads [] (\<lambda>a. rpc_get_epoch)),
      (''qv_getSlashingEvents'', reads [(''validator'', PStr [])] (\<lambda>a. rpc_get_slashing_events (a ''validator''))),
      (''qv_getBalance'', reads [(''address'', PStr [])] (\<lambda>a. rpc_get_balance X (a ''address''))),
      (''qv_getSupply'', reads [] (\<lambda>a. rpc_get_supply X)),
      (''qv_getFeeInfo'', reads [] (\<lambda>a. rpc_get_fee_info X)),
      (''qv_getStateProof'', reads [(''address'', PStr []), (''key_type'', PStr ''balance'')]
         (\<lambda>a. rpc_get_state_proof X (a ''address'') (a ''key_type''))),
      (''qv_getStateRoot'', reads [] (\<lambda>a. rpc_get_state_root X)),
      (''qv_getReceipt'', reads [(''tx_id'', PStr [])] (\<lambda>a. rpc_get_receipt X (a ''tx_id''))),
      (''qv_getFinalized'', reads [] (\<lambda>a. rpc_get_finalized)),
      (''qv_getLogs'', reads [(''event_type'', PStr []), (''block_index'', PNone), (''sender'', PStr []), (''limit'', PInt 20)]
         (\<lambda>a. rpc_get_logs (a ''event_type'') (a ''block_index'') (a ''sender'') (a ''limit''))),
      (''qv_getTokenInfo'', reads [(''token_id'', PStr [])] (\<lambda>a. rpc_get_token_info (a ''token_id''))),
      (''qv_getTokenBalance'', reads [(''token_id'', PStr []), (''address'', PStr [])]
         (\<lambda>a. rpc_get_token_balance (a ''token_id'') (a ''address''))),
      (''qv_listTokens'', reads [(''page'', PInt 1), (''limit'', PInt 50)] (\<lambda>a. rpc_list_tokens (a ''page'') (a ''limit''))),
      (''qv_getAddressTokens'', reads [(''address'', PStr []), (''page'', PInt 1), (''limit'', PInt 100)]
         (\<lambda>a. rpc_get_address_tokens X (a ''address'') (a ''page'') (a ''limit''))),
      (''qv_getBlockHeaders'', reads [(''start'', PInt 0), (''count'', PInt 20)]
         (\<lambda>a. rpc_get_block_headers X (a ''start'') (a ''count''))),
      (''qv_getStateProofAt'', reads [(''key'', PStr []), (''block_index'', PNone)]
         (\<lambda>a. rpc_get_state_proof_at X (a ''key'') (a ''block_index''))),
      (''qv_getReceiptProof'', reads [(''tx_id'', PStr [])] (\<lambda>a. rpc_get_receipt_proof X (a ''tx_id''))),
      (''qv_getSyncStatus'', reads [] (\<lambda>a. rpc_get_sync_status))]"

definition protected_methods :: "world \<Rightarrow> (string, rpc_method) dict" where
  "protected_methods X =
     [(''qv_notarize'', sends [(''document_hash'', PStr []), (''metadata'', PStr [])]
         (\<lambda>a. rpc_notarize X (a ''wallet_address'') (a ''document_hash'') (a ''metadata''))),
      (''qv_store'', sends [(''document_hash'', PStr []), (''cid'', PStr []), (''metadata'', PStr [])]
         (\<lambda>a. rpc_store X (a ''wallet_address'') (a ''document_hash'') (a ''cid'') (a ''metadata''))),
      (''qv_share'', sends [(''recipient_address'', PStr []), (''cid'', PStr []), (''recipient_encryption_pk'', PStr []), (''expires'', PInt 0)]
         (\<lambda>a. rpc_share X (a ''wallet_address'') (a ''recipient_address'') (a ''cid'') (a ''recipient_encryption_pk'') (a ''expires''))),
      (''qv_registerKey'', sends [] (\<lambda>a. rpc_register_key X (a ''wallet_address''))),
      (''qv_registerValidator'', sends [] (\<lambda>a. rpc_register_validator X (a ''wallet_address''))),
      (''qv_revokeKey'', sends [(''key_type'', PStr []), (''reason'', PStr [])]
         (\<lambda>a. rpc_revoke_key X (a ''wallet_address'') (a ''key_type'') (a ''reason''))),
      (''qv_stake'', sends [(''validator_address'', PStr []), (''amount'', PInt 0)]
         (\<lambda>a. rpc_stake X (a ''wallet_address'') (a ''validator_address'') (a ''amount''))),
      (''qv_delegate'', sends [(''validator_address'', PStr []), (''amount'', PInt 0)]
         (\<lambda>a. rpc_delegate X (a ''wallet_address'') (a ''validator_address'') (a ''amount''))),
      (''qv_unstake'', sends [(''validator_address'', PStr []), (''amount'', PInt 0)]
         (\<lambda>a. rpc_unstake X (a ''wallet_address'') (a ''validator_address'') (a ''amount''))),
      (''qv_submitEvidence'', sends evidence_params
         (\<lambda>a. rpc_submit_evidence X (a ''wallet_address'') (a ''validator_address'') (a ''block_index'') a)),
      (''qv_transfer'', sends [(''to_address'', PStr []), (''amount'', PInt 0), (''memo'', PStr [])]
         (\<lambda>a. rpc_transfer X (a ''wallet_address'') (a ''to_address'') (a ''amount'') (a ''memo''))),
      (''qv_getSharedWithMe'', reads [(''address'', PStr [])] (\<lambda>a. rpc_shared_with_me X (a ''address''))),
      (''qv_getSharedSecret'', reads [(''tx_id'', PStr [])] (\<lambda>a. rpc_get_shared_secret (a ''tx_id''))),
      (''qv_decapsulateShared'', reads [(''wallet_address'', PStr []), (''tx_id'', PStr [])]
         (\<lambda>a. rpc_decapsulate_shared X (a ''wallet_address'') (a ''tx_id''))),
      (''qv_sendRawTransaction'', reads [(''tx_data'', PNone)] (\<lambda>a. rpc_send_raw_tx X (a ''tx_data''))),
      (''qv_newWallet'', reads [] (\<lambda>a. rpc_new_wallet X)),
      (''qv_listWallets'', reads [] (\<lambda>a. rpc_list_wallets)),
      (''qv_getWalletKeys'', reads [(''address'', PStr [])] (\<lambda>a. rpc_get_wallet_keys (a ''address''))),
      (''qv_registerWebhook'', reads [(''url'', PStr []), (''events'', PNone), (''secret'', PStr [])]
         (\<lambda>a. rpc_register_webhook X (a ''url'') (a ''events'') (a ''secret''))),
      (''qv_listWebhooks'', reads [] (\<lambda>a. rpc_list_webhooks)),
      (''qv_deleteWebhook'', reads [(''webhook_id'', PStr [])] (\<lambda>a. rpc_delete_webhook (a ''webhook_id''))),
      (''qv_issueToken'', sends [(''name'', PStr []), (''symbol'', PStr []), (''decimals'', PInt 0), (''max_supply'', PInt 0),
                                 (''transferable'', PBool True)]
         (\<lambda>a. rpc_issue_token X (a ''wallet_address'') (a ''name'') (a ''symbol'') (a ''decimals'') (a ''max_supply'')
                (a ''transferable''))),
      (''qv_mintToken'', sends [(''token_id'', PStr []), (''recipient'', PStr []), (''amount'', PInt 0)]
         (\<lambda>a. rpc_mint_token X (a ''wallet_address'') (a ''token_id'') (a ''recipient'') (a ''amount''))),
      (''qv_transferToken'', sends [(''token_id'', PStr []), (''recipient'', PStr []), (''amount'', PInt 0), (''memo'', PStr [])]
         (\<lambda>a. rpc_transfer_token X (a ''wallet_address'') (a ''token_id'') (a ''recipient'') (a ''amount'') (a ''memo'')))]"

section \<open>The server\<close>

definition PROTECTED_METHODS :: "string list" where
  "PROTECTED_METHODS =
     [''qv_newWallet'', ''qv_listWallets'', ''qv_getWalletKeys'', ''qv_notarize'', ''qv_store'', ''qv_share'',
      ''qv_registerKey'', ''qv_sendRawTransaction'', ''qv_getSharedSecret'', ''qv_decapsulateShared'',
      ''qv_getSharedWithMe'', ''qv_submitEvidence'', ''qv_registerValidator'', ''qv_revokeKey'', ''qv_stake'',
      ''qv_delegate'', ''qv_unstake'', ''qv_transfer'', ''qv_issueToken'', ''qv_mintToken'', ''qv_transferToken'',
      ''qv_registerWebhook'', ''qv_listWebhooks'', ''qv_deleteWebhook'']"

definition TLS_REQUIRED_METHODS :: "string list" where
  "TLS_REQUIRED_METHODS = [''qv_getSharedSecret'', ''qv_decapsulateShared'']"

definition MAX_RPC_BODY :: nat where "MAX_RPC_BODY = 1024 * 1024"
definition MAX_RPC_BATCH :: nat where "MAX_RPC_BATCH = 50"

record rpc_config =
  rc_token :: string
  rc_tls :: bool
  rc_parse :: "bytes \<Rightarrow> pyval option"

definition rpc_methods :: "world \<Rightarrow> (string, rpc_method) dict" where
  "rpc_methods X = public_methods X @ protected_methods X"

datatype rpc_answer = Result pyval pyval | Error pyval int string | Internal pyval exn

text \<open>
  \<open>fn(**params)\<close>: a name the method does not have raises TypeError. Positional parameters are given
  their names first; any other value of \<open>params\<close> calls the method without parameters.
\<close>

definition bind_params :: "fields \<Rightarrow> fields \<Rightarrow> exn + (string \<Rightarrow> pyval)" where
  "bind_params declared params =
     unless_raise (\<not> set (dkeys params) \<subseteq> set (dkeys declared)) TypeError
       (Inr (\<lambda>k. dget_or params k (dget_or declared k PNone)))"

definition params_py :: "fields \<Rightarrow> pyval \<Rightarrow> (int \<times> int) + fields" where
  "params_py declared params =
     (case params of
        PList vs \<Rightarrow> if length vs > length declared then Inl (int (length declared), int (length vs))
                   else Inr (zip (dkeys declared) vs)
      | PDict d \<Rightarrow> Inr d
      | _ \<Rightarrow> Inr [])"

text \<open>
  The text of an exception is modelled for those the code raises itself; a message longer than 200
  characters is cut. Of the exceptions of the interpreter the text is left open (\<open>Internal\<close>).
\<close>

definition error_text :: "string \<Rightarrow> string" where
  "error_text text = (if length text > 200 then take 200 text @ ''...'' else text)"

definition error_of :: "pyval \<Rightarrow> exn \<Rightarrow> rpc_answer" where
  "error_of rid e =
     (case e of
        ValueError m \<Rightarrow> Error rid (- 32603) (error_text (msg_text m))
      | RuntimeError m \<Rightarrow> Error rid (- 32603) (error_text (msg_text m))
      | KeyError k \<Rightarrow> Error rid (- 32603) (error_text (repr_str k))
      | _ \<Rightarrow> Internal rid e)"

definition call_method :: "rpc_method \<Rightarrow> pyval \<Rightarrow> pyval \<Rightarrow> fullnode \<Rightarrow> (rpc_answer \<times> fullnode) option" where
  "call_method m rid params S =
     (case params_py (rm_params m) params of
        Inl (n, got) \<Rightarrow>
          Some (Error rid (- 32602) (msg_text (Msg ''too many positional params: expected at most {}, got {}''
                  [PInt n, PInt got])), S)
      | Inr d \<Rightarrow>
          (case bind_params (rm_params m) d of
             Inl e \<Rightarrow> Some (error_of rid e, S)
           | Inr a \<Rightarrow>
               (case rm_code m a S of
                  None \<Rightarrow> None
                | Some (Inl e, T) \<Rightarrow> Some (error_of rid e, T)
                | Some (Inr v, T) \<Rightarrow> Some (Result rid v, T))))"

text \<open>
  \<open>_exec\<close>. \<open>Inl\<close>: an exception that leaves the method (a request that is no object, a method that is
  not hashable, a token that is not ASCII) and ends the HTTP request with status 500.
\<close>

definition exec_request ::
  "world \<Rightarrow> rpc_config \<Rightarrow> string \<Rightarrow> pyval \<Rightarrow> fullnode \<Rightarrow> ((exn + rpc_answer) \<times> fullnode) option" where
  "exec_request X C token req S =
     (let d = dict_of_py req; rid = dget_or d ''id'' PNone; name = dget_or d ''method'' (PStr []);
          params = dget_or d ''params'' (PDict [])
      in if \<not> is_dict req then Some (Inl AttributeError, S)
         else if \<not> hashable name then Some (Inl TypeError, S)
         else
           (case (if is_str name then dget (rpc_methods X) (str_of_py name) else None) of
              None \<Rightarrow> Some (Inr (Error rid (- 32601) (msg_text (Msg ''unknown method: {}'' [name]))), S)
            | Some m \<Rightarrow>
                (case (if str_of_py name \<in> set PROTECTED_METHODS then compare_digest token (rc_token C) else Inr True) of
                   Inl e \<Rightarrow> Some (Inl e, S)
                 | Inr False \<Rightarrow> Some (Inr (Error rid (- 32600) ''authentication required for this method''), S)
                 | Inr True \<Rightarrow>
                     if str_of_py name \<in> set TLS_REQUIRED_METHODS \<and> \<not> rc_tls C
                     then Some (Inr (Error rid (- 32600) (msg_text (Msg
                            ''{} requires TLS. Start node with --tls-cert/--tls-key or --tls-self-signed'' [name]))), S)
                     else map_option (map_prod Inr id) (call_method m rid params S))))"

text \<open>
  A batch is run in order, each request with its own times and randomness; an exception that leaves one
  request loses the answers of all.
\<close>

fun exec_batch ::
  "(nat \<Rightarrow> world) \<Rightarrow> rpc_config \<Rightarrow> string \<Rightarrow> pyval list \<Rightarrow> fullnode \<Rightarrow> ((exn + rpc_answer list) \<times> fullnode) option" where
  "exec_batch X C token [] S = Some (Inr [], S)"
| "exec_batch X C token (r # rs) S =
     (case exec_request (X 0) C token r S of
        None \<Rightarrow> None
      | Some (Inl e, T) \<Rightarrow> Some (Inl e, T)
      | Some (Inr ans, T) \<Rightarrow>
          (case exec_batch (\<lambda>k. X (Suc k)) C token rs T of
             None \<Rightarrow> None
           | Some (Inl e, U) \<Rightarrow> Some (Inl e, U)
           | Some (Inr anss, U) \<Rightarrow> Some (Inr (ans # anss), U)))"

datatype http_answer = One rpc_answer | Many "rpc_answer list" | Server_error exn

definition handle_post :: "(nat \<Rightarrow> world) \<Rightarrow> rpc_config \<Rightarrow> string \<Rightarrow> bytes \<Rightarrow> fullnode \<Rightarrow> (http_answer \<times> fullnode) option" where
  "handle_post X C authorization raw S =
     (let token = bearer_token authorization
      in if length raw > MAX_RPC_BODY then Some (One (Error PNone (- 32600) ''request body too large''), S)
         else
           (case rc_parse C raw of
              None \<Rightarrow> Some (One (Error PNone (- 32700) ''Parse error''), S)
            | Some (PList rs) \<Rightarrow>
                if length rs > MAX_RPC_BATCH
                then Some (One (Error PNone (- 32600) (msg_text (Msg ''batch too large: {} > {}''
                             [PInt (int (length rs)), PInt (int MAX_RPC_BATCH)]))), S)
                else map_option (map_prod (\<lambda>r. case r of Inl e \<Rightarrow> Server_error e | Inr anss \<Rightarrow> Many anss) id)
                       (exec_batch X C token rs S)
            | Some body \<Rightarrow>
                map_option (map_prod (\<lambda>r. case r of Inl e \<Rightarrow> Server_error e | Inr ans \<Rightarrow> One ans) id)
                  (exec_request (X 0) C token body S)))"

definition info_methods :: "world \<Rightarrow> string list" where
  "info_methods X = sort (filter (\<lambda>m. m \<notin> set PROTECTED_METHODS) (dkeys (rpc_methods X)))"

definition RATE_EXEMPT_PATHS :: "string list" where
  "RATE_EXEMPT_PATHS = [''/'', ''/api/v1/health'', ''/api/v1/info'']"

text \<open>\<open>_rate_limit_middleware\<close>: may the request go on?\<close>

definition rate_gate :: "rat \<Rightarrow> string \<Rightarrow> string \<Rightarrow> string \<Rightarrow> limiter \<Rightarrow> bool \<times> limiter" where
  "rate_gate now http_method path remote l =
     (if http_method = ''GET'' \<and> path \<in> set RATE_EXEMPT_PATHS then (True, l)
      else if is_localhost remote then (True, l)
      else check now remote l)"

end
