(* ===== verification/RestApi.thy ===== *)
theory RestApi
  imports RpcServer
begin

text \<open>
  \<open>network/rest_api.py\<close>: the REST gateway of a node. A request comes with the canonical path of the route
  it matched (\<open>None\<close>: no route, and the status of the router), the parts of the path, the query and the
  body as \<open>json.loads\<close> reads it. Left out are the text of \<open>/metrics\<close>, the routing and the HTTP parsing of
  aiohttp. A HEAD request runs the handler of GET.
\<close>

section \<open>Requests and answers\<close>

record rest_request =
  rq_method :: string
  rq_route :: "string option"
  rq_missed :: int
  rq_match :: "(string, string) dict"
  rq_query :: "(string, string) dict"
  rq_auth :: string
  rq_body :: "pyval option"

text \<open>
  \<open>_ok\<close> and \<open>_err\<close> (whose code is always the status); an exception that leaves the handler, which aiohttp
  answers with 500; answers without a JSON body.
\<close>

datatype rest_answer = Data int pyval | Err int string | Crashed exn | Bare int | Metrics_text

type_synonym rest_call = "fullnode \<Rightarrow> (rest_answer \<times> fullnode) option"

definition say :: "rest_answer \<Rightarrow> rest_call" where
  "say a S = Some (a, S)"

definition look :: "(fullnode \<Rightarrow> rest_answer) \<Rightarrow> rest_call" where
  "look f S = Some (f S, S)"

definition not_found :: "string \<Rightarrow> rest_answer" where
  "not_found text = Err 404 text"

text \<open>
  How a handler passes on the exceptions of the node: ValueError as 400 and anything else as 500
  (\<open>asked_of\<close>), everything as 500 (\<open>shielded\<close>), or not at all (\<open>exposed\<close>).
\<close>

definition finish :: "(exn \<Rightarrow> rest_answer) \<Rightarrow> (pyval \<Rightarrow> rest_answer) \<Rightarrow> call \<Rightarrow> rest_call" where
  "finish failed shape k S =
     (case k S of
        None \<Rightarrow> None
      | Some (Inr v, T) \<Rightarrow> Some (shape v, T)
      | Some (Inl e, T) \<Rightarrow> Some (failed e, T))"

definition rest_error :: "string \<Rightarrow> exn \<Rightarrow> rest_answer" where
  "rest_error text e = (case e of ValueError m \<Rightarrow> Err 400 (msg_text m) | _ \<Rightarrow> Err 500 text)"

definition asked_of :: "(pyval \<Rightarrow> rest_answer) \<Rightarrow> call \<Rightarrow> rest_call" where
  "asked_of = finish (rest_error ''internal server error'')"

definition shielded :: "(pyval \<Rightarrow> rest_answer) \<Rightarrow> call \<Rightarrow> rest_call" where
  "shielded = finish (\<lambda>e. Err 500 ''internal server error'')"

definition exposed :: "(pyval \<Rightarrow> rest_answer) \<Rightarrow> call \<Rightarrow> rest_call" where
  "exposed = finish Crashed"

text \<open>The checks of a handler: the first that fails answers with status 400.\<close>

fun demand :: "(bool \<times> string) list \<Rightarrow> rest_call \<Rightarrow> rest_call" where
  "demand [] k S = k S"
| "demand ((bad, text) # cs) k S = (if bad then Some (Err 400 text, S) else demand cs k S)"

definition matched :: "rest_request \<Rightarrow> string \<Rightarrow> string" where
  "matched rq name = dget_or (rq_match rq) name []"

definition int_param :: "rest_request \<Rightarrow> string \<Rightarrow> int \<Rightarrow> int option" where
  "int_param rq name dflt =
     (case dget (rq_query rq) name of None \<Rightarrow> Some dflt | Some text \<Rightarrow> int_of_text text)"

definition must_match :: "rest_request \<Rightarrow> string \<Rightarrow> string \<Rightarrow> (string \<Rightarrow> rest_call) \<Rightarrow> rest_call" where
  "must_match rq name text k = demand [(matched rq name = [], text)] (k (matched rq name))"

section \<open>Pagination\<close>

definition REST_MAX_LIMIT :: int where "REST_MAX_LIMIT = 100"
definition TOKEN_MAX_LIMIT :: int where "TOKEN_MAX_LIMIT = 1000"

definition parse_pagination :: "rest_request \<Rightarrow> (int \<Rightarrow> int \<Rightarrow> rest_call) \<Rightarrow> rest_call" where
  "parse_pagination rq k =
     (let page = int_param rq ''page'' 1; psize = int_param rq ''limit'' 20
      in demand
           [(page = None, ''page must be an integer''), (psize = None, ''limit must be an integer''),
            (the page < 1, ''page must be >= 1''),
            (the psize < 1 \<or> the psize > REST_MAX_LIMIT, ''limit must be 1-100'')]
           (k (the page) (the psize)))"

definition parse_token_pagination :: "rest_request \<Rightarrow> (int \<Rightarrow> int \<Rightarrow> rest_call) \<Rightarrow> rest_call" where
  "parse_token_pagination rq k =
     (let offset = int_param rq ''offset'' 0; psize = int_param rq ''limit'' 100
      in demand
           [(offset = None, ''offset must be an integer''), (psize = None, ''limit must be an integer''),
            (the offset < 0, ''offset must be >= 0''),
            (the psize < 1 \<or> the psize > TOKEN_MAX_LIMIT, ''limit must be 1-1000'')]
           (k (the offset) (the psize)))"

section \<open>Authentication\<close>

definition rest_check_auth :: "string \<Rightarrow> string \<Rightarrow> exn + bool" where
  "rest_check_auth auth_token auth =
     (if \<not> starts_with auth ''Bearer '' then Inr False
      else (let token = strip (drop 7 auth)
            in if token = [] then Inr False else compare_digest token auth_token))"

definition PUBLIC_ROUTES :: "string list" where
  "PUBLIC_ROUTES =
     [''/info'', ''/health'', ''/health/ready'', ''/metrics'', ''/blocks'', ''/blocks/latest'',
      ''/blocks/hash/{hash}'', ''/blocks/{index}'', ''/txs/sender/{addr}'', ''/txs/{txid}'', ''/address/{addr}'',
      ''/notarizations/{hash}'', ''/validators'', ''/stakes'', ''/stakes/{validator}'', ''/balance/{addr}'',
      ''/supply'', ''/fee'', ''/pool'', ''/pool/count'', ''/verify'', ''/epochs/current'', ''/slashing-events'',
      ''/state-proof/{addr}'', ''/state-root'', ''/receipt/{txid}'', ''/events'', ''/finalized'', ''/tokens'',
      ''/tokens/{token_id}'', ''/tokens/{token_id}/holders'', ''/address/{addr}/tokens'', ''/headers'',
      ''/headers/{index}'', ''/proofs/state/{key}'', ''/proofs/receipt/{txid}'']"

section \<open>Node and blocks\<close>

definition data_ok :: "pyval \<Rightarrow> rest_answer" where
  "data_ok v = Data 200 v"

definition block_py :: "env \<Rightarrow> block option \<Rightarrow> string \<Rightarrow> rest_answer" where
  "block_py E found text = (case found of None \<Rightarrow> not_found text | Some b \<Rightarrow> data_ok (PDict (block_to_dict E b)))"

definition rest_info :: rest_call where
  "rest_info = exposed data_ok rpc_node_info"

definition rest_health :: rest_call where
  "rest_health = look (\<lambda>S.
     let s = fn_chain S
     in data_ok (PDict
          [(''status'', PStr ''ok''), (''chain_height'', PInt (height s)), (''peers'', PInt (connected_count (fn_p2p S))),
           (''last_block_time'', case get_block_by_index s (height s) of
               None \<Rightarrow> PNone | Some b \<Rightarrow> if height s \<ge> 0 then PInt (b_timestamp b) else PNone),
           (''synced'', PBool (best_peer_height (fn_p2p S) \<le> height s)),
           (''tx_pool_size'', PInt (int (length (tx_pool s))))]))"

definition rest_readiness :: rest_call where
  "rest_readiness = look (\<lambda>S.
     let h = height (fn_chain S); peers = connected_count (fn_p2p S); synced = (best_peer_height (fn_p2p S) \<le> h);
         ready = (synced \<and> (peers > 0 \<or> h \<ge> 0))
     in Data (if ready then 200 else 503)
          (PDict [(''ready'', PBool ready), (''chain_height'', PInt h), (''peers'', PInt peers), (''synced'', PBool synced)]))"

text \<open>Blocks without their transactions.\<close>

definition rest_list_blocks :: "world \<Rightarrow> rest_request \<Rightarrow> rest_call" where
  "rest_list_blocks X rq = parse_pagination rq (\<lambda>page psize. look (\<lambda>S.
     let s = fn_chain S; whole = (if height s \<ge> 0 then height s + 1 else 0); start = (page - 1) * psize;
         stop = min (start + psize) whole
     in data_ok (PDict
          [(''blocks'', PList (List.map_filter
              (\<lambda>i. map_option (\<lambda>b. PDict (dpop (block_to_dict (wd_env X) b) ''transactions'')) (get_block_by_index s i))
              [start..stop - 1])),
           (''total'', PInt whole), (''page'', PInt page), (''limit'', PInt psize)])))"

definition rest_latest_block :: "world \<Rightarrow> rest_call" where
  "rest_latest_block X = look (\<lambda>S. block_py (wd_env X) (latest_block (fn_chain S)) ''no blocks in chain'')"

definition rest_block_by_index :: "world \<Rightarrow> rest_request \<Rightarrow> rest_call" where
  "rest_block_by_index X rq =
     (let index = int_of_text (matched rq ''index'')
      in demand [(index = None, ''index must be an integer''), (the index < 0, ''index must be >= 0'')]
           (look (\<lambda>S. block_py (wd_env X) (get_block_by_index (fn_chain S) (the index))
              (msg_text (Msg ''block {} not found'' [PInt (the index)])))))"

definition rest_block_by_hash :: "world \<Rightarrow> rest_request \<Rightarrow> rest_call" where
  "rest_block_by_hash X rq = must_match rq ''hash'' ''hash is required'' (\<lambda>h.
     demand [(\<not> hex_re h, ''invalid hash format'')]
       (look (\<lambda>S. block_py (wd_env X) (get_block_of_hash (fn_chain S) h) ''block not found'')))"

section \<open>Transactions and addresses\<close>

definition rest_get_tx :: "world \<Rightarrow> rest_request \<Rightarrow> rest_call" where
  "rest_get_tx X rq = must_match rq ''txid'' ''txid is required'' (\<lambda>txid.
     exposed (\<lambda>v. if v = PNone then not_found (msg_text (Msg ''transaction {}... not found'' [PStr (take 16 txid)])) else data_ok v)
       (rpc_get_tx X (PStr txid)))"

definition rest_txs_by_sender :: "world \<Rightarrow> rest_request \<Rightarrow> rest_call" where
  "rest_txs_by_sender X rq = must_match rq ''addr'' ''address is required'' (\<lambda>addr. parse_pagination rq (\<lambda>page psize. look (\<lambda>S.
     let s = fn_chain S; whole = get_txs_by_sender_count s addr; start = (page - 1) * psize;
         ids = (if start < whole then get_txs_by_sender_page s addr start psize else [])
     in data_ok (PDict
          [(''transactions'', PList (List.map_filter (\<lambda>tid.
              map_option (\<lambda>tx. PDict (tx_to_dict (wd_env X) tx
                  @ [(''block_index'', case get_tx_block s tid of None \<Rightarrow> PNone | Some i \<Rightarrow> PInt i)])) (get_tx s tid)) ids)),
           (''total'', PInt whole), (''page'', PInt page), (''limit'', PInt psize)]))))"

definition rest_address_info :: "rest_request \<Rightarrow> rest_call" where
  "rest_address_info rq = must_match rq ''addr'' ''address is required'' (\<lambda>addr. look (\<lambda>S.
     let s = fn_chain S
     in data_ok (PDict
          [(''address'', PStr addr), (''balance'', PInt (get_balance s addr)), (''next_nonce'', PInt (get_next_nonce s addr)),
           (''encryption_pk'', case get_encryption_pk s addr of None \<Rightarrow> PNone | Some k \<Rightarrow> PStr k),
           (''sent_tx_count'', PInt (get_txs_by_sender_count s addr)),
           (''received_tx_count'', PInt (get_txs_by_recipient_count s addr)),
           (''notarization_count'', PInt (get_notarization_count s addr)),
           (''is_validator'', PBool (is_registered_validator s addr))])))"

definition rest_notarization_proof :: "world \<Rightarrow> rest_request \<Rightarrow> rest_call" where
  "rest_notarization_proof X rq = must_match rq ''hash'' ''document hash is required'' (\<lambda>doc. look (\<lambda>S.
     case verify_document (wd_env X) (fn_chain S) doc of
       None \<Rightarrow> not_found (msg_text (Msg ''no notarization found for hash {}...'' [PStr (take 16 doc)]))
     | Some first \<Rightarrow>
         (let every = get_all_notarizations (fn_chain S) doc
          in data_ok (PDict [(''first_notarization'', PDict first), (''all_notarizations'', PList (map PDict every)),
                             (''total'', PInt (int (length every)))]))))"

definition counted_as :: "string \<Rightarrow> pyval \<Rightarrow> rest_answer" where
  "counted_as name v = data_ok (PDict [(name, v), (''total'', PInt (int (length (list_of_py v))))])"

definition rest_pool_summary :: rest_call where
  "rest_pool_summary = look (\<lambda>S. data_ok (PDict
     [(''count'', PInt (int (length (tx_pool (fn_chain S))))),
      (''by_type'', PDict (map (\<lambda>(ty, n). (type_value ty, PInt n)) (pool_type_counts (fn_chain S))))]))"

definition rest_pool_count :: rest_call where
  "rest_pool_count = look (\<lambda>S. data_ok (PDict [(''count'', PInt (int (length (tx_pool (fn_chain S)))))]))"

definition query_str :: "rest_request \<Rightarrow> string \<Rightarrow> string \<Rightarrow> pyval" where
  "query_str rq name dflt = PStr (dget_or (rq_query rq) name dflt)"

definition rest_state_proof :: "world \<Rightarrow> rest_request \<Rightarrow> rest_call" where
  "rest_state_proof X rq = must_match rq ''addr'' ''address is required'' (\<lambda>addr.
     asked_of data_ok (rpc_get_state_proof X (PStr addr) (query_str rq ''key'' ''balance'')))"

definition rest_get_balance :: "world \<Rightarrow> rest_request \<Rightarrow> rest_call" where
  "rest_get_balance X rq = must_match rq ''addr'' ''address is required'' (\<lambda>addr.
     asked_of data_ok (rpc_get_balance X (PStr addr)))"

definition rest_get_receipt :: "world \<Rightarrow> rest_request \<Rightarrow> rest_call" where
  "rest_get_receipt X rq = must_match rq ''txid'' ''txid is required'' (\<lambda>txid.
     demand [(\<not> hex_re txid, ''invalid txid format'')]
       (asked_of (\<lambda>v. if v = PNone then not_found (msg_text (Msg ''receipt for {}... not found'' [PStr (take 16 txid)]))
                      else data_ok v) (rpc_get_receipt X (PStr txid))))"

definition rest_get_events :: "rest_request \<Rightarrow> rest_call" where
  "rest_get_events rq =
     (let psize = int_param rq ''limit'' 20; at_block = dget (rq_query rq) ''block_index'';
          index = (case at_block of None \<Rightarrow> None | Some text \<Rightarrow> int_of_text text);
          sender = dget_or (rq_query rq) ''from'' (dget_or (rq_query rq) ''sender'' [])
      in demand [(psize = None, ''limit must be an integer''), (the psize < 1 \<or> the psize > REST_MAX_LIMIT, ''limit must be 1-100''),
                 (at_block \<noteq> None \<and> index = None, ''block_index must be an integer'')]
           (asked_of (counted_as ''events'')
              (rpc_get_logs (query_str rq ''type'' []) (case index of None \<Rightarrow> PNone | Some i \<Rightarrow> PInt i) (PStr sender) (PInt (the psize)))))"

definition rest_validator_stake :: "rest_request \<Rightarrow> rest_call" where
  "rest_validator_stake rq = must_match rq ''validator'' ''validator address required'' (\<lambda>v.
     asked_of data_ok (rpc_get_stake (PStr v)))"

section \<open>Bodies\<close>

text \<open>Most handlers refuse a body that is no object; the token handlers call \<open>body.get\<close> on it.\<close>

definition with_body :: "string \<Rightarrow> rest_request \<Rightarrow> (fields \<Rightarrow> rest_call) \<Rightarrow> rest_call" where
  "with_body text rq k =
     (case rq_body rq of
        None \<Rightarrow> say (Err 400 ''invalid JSON body'')
      | Some v \<Rightarrow> if is_dict v then k (dict_of_py v) else say (Err 400 text))"

definition with_any_body :: "rest_request \<Rightarrow> (fields \<Rightarrow> rest_call) \<Rightarrow> rest_call" where
  "with_any_body rq k =
     (case rq_body rq of
        None \<Rightarrow> say (Err 400 ''invalid JSON body'')
      | Some v \<Rightarrow> if is_dict v then k (dict_of_py v) else say (Crashed AttributeError))"

definition json_object :: string where "json_object = ''request body must be a JSON object''"

definition text_needed :: "fields \<Rightarrow> string \<Rightarrow> bool \<times> string" where
  "text_needed d name =
     (\<not> is_str (dget_or d name (PStr [])) \<or> dget_or d name (PStr []) = PStr [], name @ '' is required and must be a string'')"

definition text_allowed :: "fields \<Rightarrow> string \<Rightarrow> bool \<times> string" where
  "text_allowed d name = (\<not> is_str (dget_or d name (PStr [])), name @ '' must be a string'')"

definition positive_needed :: "fields \<Rightarrow> string \<Rightarrow> bool \<times> string" where
  "positive_needed d name =
     (let v = dget_or d name (PInt 0) in (\<not> is_int v \<or> int_of_py v < 1, name @ '' must be a positive integer''))"

definition created :: "pyval \<Rightarrow> rest_answer" where
  "created v = Data 201 v"

abbreviation str_in :: "fields \<Rightarrow> string \<Rightarrow> pyval" where
  "str_in d name \<equiv> dget_or d name (PStr [])"

abbreviation fee_in :: "fields \<Rightarrow> pyval" where
  "fee_in d \<equiv> dget_or d ''max_fee_per_weight'' PNone"

abbreviation prio_in :: "fields \<Rightarrow> pyval" where
  "prio_in d \<equiv> dget_or d ''max_priority_fee'' PNone"

section \<open>Handlers that need the token\<close>

definition rest_transfer :: "world \<Rightarrow> rest_request \<Rightarrow> rest_call" where
  "rest_transfer X rq = with_body json_object rq (\<lambda>d.
     demand [text_needed d ''wallet_address'', text_needed d ''to_address'', positive_needed d ''amount'', text_allowed d ''memo'']
       (asked_of created (rpc_transfer X (str_in d ''wallet_address'') (str_in d ''to_address'')
          (dget_or d ''amount'' (PInt 0)) (str_in d ''memo'') (fee_in d) (prio_in d))))"

definition EVIDENCE_FIELDS :: "string list" where
  "EVIDENCE_FIELDS =
     [''block_a_hash'', ''block_b_hash'', ''block_a_sig'', ''block_b_sig'', ''block_a_header'', ''block_b_header'']"

definition rest_submit_evidence :: "world \<Rightarrow> rest_request \<Rightarrow> rest_call" where
  "rest_submit_evidence X rq = with_body ''body must be JSON object'' rq (\<lambda>d.
     let allowed = [''wallet_address'', ''validator_address'', ''block_index'', ''max_fee_per_weight'', ''max_priority_fee'']
                   @ EVIDENCE_FIELDS;
         unknown = sort (filter (\<lambda>k. k \<notin> set allowed) (dkeys d)); index = dget_or d ''block_index'' (PInt 0)
     in demand
          ([(unknown \<noteq> [], msg_text (Msg ''unknown fields: {}'' [PList (map PStr unknown)])),
            text_needed d ''wallet_address'', text_needed d ''validator_address'',
            (\<not> is_int index \<or> int_of_py index < 0, ''block_index must be a non-negative integer'')]
           @ map (\<lambda>k. (\<not> is_str (str_in d k) \<or> str_in d k = PStr [], k @ '' must be a non-empty string'')) EVIDENCE_FIELDS)
          (finish (rest_error ''internal error'') created
             (rpc_submit_evidence X (str_in d ''wallet_address'') (str_in d ''validator_address'') index (str_in d)
                (fee_in d) (prio_in d))))"

definition rest_submit_tx :: "world \<Rightarrow> rest_request \<Rightarrow> rest_call" where
  "rest_submit_tx X rq = with_body json_object rq (\<lambda>d. asked_of created (rpc_send_raw_tx X (PDict d)))"

definition rest_notarize :: "world \<Rightarrow> rest_request \<Rightarrow> rest_call" where
  "rest_notarize X rq = with_body json_object rq (\<lambda>d.
     demand [text_needed d ''wallet_address'', text_needed d ''document_hash'', text_allowed d ''metadata'']
       (asked_of created (rpc_notarize X (str_in d ''wallet_address'') (str_in d ''document_hash'') (str_in d ''metadata'')
          PNone PNone)))"

definition rest_verify :: "world \<Rightarrow> rest_request \<Rightarrow> rest_call" where
  "rest_verify X rq = with_body json_object rq (\<lambda>d.
     demand [text_needed d ''document_hash'']
       (asked_of (\<lambda>v. data_ok (PDict [(''verified'', PBool (v \<noteq> PNone)), (''proof'', v)]))
          (rpc_verify_document X (str_in d ''document_hash''))))"

definition rest_store :: "world \<Rightarrow> rest_request \<Rightarrow> rest_call" where
  "rest_store X rq = with_body json_object rq (\<lambda>d.
     demand [text_needed d ''wallet_address'', text_needed d ''document_hash'', text_allowed d ''cid'', text_allowed d ''metadata'']
       (asked_of created (rpc_store X (str_in d ''wallet_address'') (str_in d ''document_hash'') (str_in d ''cid'')
          (str_in d ''metadata'') (fee_in d) (prio_in d))))"

definition rest_share :: "world \<Rightarrow> rest_request \<Rightarrow> rest_call" where
  "rest_share X rq = with_body json_object rq (\<lambda>d.
     demand [text_needed d ''wallet_address'', text_needed d ''recipient_address'', text_allowed d ''cid'',
             text_allowed d ''recipient_encryption_pk'',
             (\<not> is_int (dget_or d ''expires'' (PInt 0)), ''expires must be an integer'')]
       (asked_of created (rpc_share X (str_in d ''wallet_address'') (str_in d ''recipient_address'') (str_in d ''cid'')
          (str_in d ''recipient_encryption_pk'') (dget_or d ''expires'' (PInt 0)) (fee_in d) (prio_in d))))"

definition rest_register_validator :: "world \<Rightarrow> rest_request \<Rightarrow> rest_call" where
  "rest_register_validator X rq = with_body json_object rq (\<lambda>d.
     demand [text_needed d ''wallet_address'']
       (asked_of created (rpc_register_validator X (str_in d ''wallet_address'') (fee_in d) (prio_in d))))"

definition rest_staking :: "(pyval \<Rightarrow> pyval \<Rightarrow> pyval \<Rightarrow> pyval \<Rightarrow> pyval \<Rightarrow> call) \<Rightarrow> rest_request \<Rightarrow> rest_call" where
  "rest_staking rpc rq = with_body json_object rq (\<lambda>d.
     demand [text_needed d ''wallet_address'', text_needed d ''validator_address'', positive_needed d ''amount'']
       (asked_of created (rpc (str_in d ''wallet_address'') (str_in d ''validator_address'') (dget_or d ''amount'' (PInt 0))
          (fee_in d) (prio_in d))))"

definition rest_stake :: "world \<Rightarrow> rest_request \<Rightarrow> rest_call" where "rest_stake X = rest_staking (rpc_stake X)"
definition rest_delegate :: "world \<Rightarrow> rest_request \<Rightarrow> rest_call" where "rest_delegate X = rest_staking (rpc_delegate X)"
definition rest_unstake :: "world \<Rightarrow> rest_request \<Rightarrow> rest_call" where "rest_unstake X = rest_staking (rpc_unstake X)"

section \<open>Webhooks\<close>

definition rest_register_webhook :: "world \<Rightarrow> rest_request \<Rightarrow> rest_call" where
  "rest_register_webhook X rq = with_body json_object rq (\<lambda>d.
     let events = dget_or d ''events'' (PList [])
     in demand [text_needed d ''url'', (\<not> is_list events \<or> list_of_py events = [], ''events is required and must be a non-empty list''),
                (\<not> is_str (str_in d ''secret'') \<or> str_in d ''secret'' = PStr [], ''secret is required and must be a non-empty string'')]
       (asked_of created (\<lambda>S.
          case register_hook (wd_classify X) (wd_hex X) (wd_time X) (str_in d ''url'') events (str_in d ''secret'') (fn_hooks S) of
            (Inl e, h) \<Rightarrow> Some (Inl e, S\<lparr>fn_hooks := h\<rparr>)
          | (Inr info, h) \<Rightarrow> Some (Inr (hook_py info), S\<lparr>fn_hooks := h\<rparr>))))"

definition rest_list_webhooks :: rest_call where
  "rest_list_webhooks = shielded (counted_as ''webhooks'') rpc_list_webhooks"

definition rest_delete_webhook :: "rest_request \<Rightarrow> rest_call" where
  "rest_delete_webhook rq = must_match rq ''id'' ''webhook id is required'' (\<lambda>i.
     asked_of (\<lambda>v. if v = PBool True then data_ok (PDict [(''deleted'', PBool True)]) else not_found ''webhook not found'') (\<lambda>S.
       case delete_hook (PStr i) (fn_hooks S) of
         (Inl e, h) \<Rightarrow> Some (Inl e, S\<lparr>fn_hooks := h\<rparr>)
       | (Inr deleted, h) \<Rightarrow> Some (Inr (PBool deleted), S\<lparr>fn_hooks := h\<rparr>)))"

section \<open>Tokens\<close>

text \<open>The page is computed from the offset, so an offset that is no multiple of the limit is rounded down.\<close>

definition token_page :: "int \<Rightarrow> int \<Rightarrow> int" where
  "token_page offset psize = offset div psize + 1"

definition rest_list_tokens :: "rest_request \<Rightarrow> rest_call" where
  "rest_list_tokens rq = parse_token_pagination rq (\<lambda>offset psize. look (\<lambda>S.
     data_ok (PDict
       [(''tokens'', PList (map (\<lambda>(tid, t). PDict (token_fields t @ [(''token_id'', PStr tid)]))
           (list_tokens (fn_chain S) (token_page offset psize) psize))),
        (''offset'', PInt offset), (''limit'', PInt psize), (''total'', PInt (int (length (token_registry (fn_chain S)))))])))"

definition rest_get_token :: "rest_request \<Rightarrow> rest_call" where
  "rest_get_token rq = must_match rq ''token_id'' ''token_id is required'' (\<lambda>tid. look (\<lambda>S.
     case get_token_info (fn_chain S) tid of
       None \<Rightarrow> not_found ''token not found'' | Some t \<Rightarrow> data_ok (PDict (token_fields t))))"

definition rest_get_token_holders :: "rest_request \<Rightarrow> rest_call" where
  "rest_get_token_holders rq = must_match rq ''token_id'' ''token_id is required'' (\<lambda>tid S.
     if \<not> dmem tid (token_registry (fn_chain S)) then say (not_found ''token not found'') S
     else parse_token_pagination rq (\<lambda>offset psize. look (\<lambda>S.
       case get_token_holders (fn_chain S) tid (token_page offset psize) psize of
         (holders, whole) \<Rightarrow> data_ok (PDict
           [(''token_id'', PStr tid),
            (''holders'', PList (map (\<lambda>(a, n). PDict [(''address'', PStr a), (''amount'', PInt n)]) holders)),
            (''total'', PInt whole), (''offset'', PInt offset), (''limit'', PInt psize)]))) S)"

definition rest_get_address_tokens :: "world \<Rightarrow> rest_request \<Rightarrow> rest_call" where
  "rest_get_address_tokens X rq = must_match rq ''addr'' ''address is required'' (\<lambda>addr.
     parse_token_pagination rq (\<lambda>offset psize. look (\<lambda>S. data_ok (PDict
       [(''address'', PStr addr),
        (''tokens'', PList (map PDict (get_address_tokens (wd_enum X) (fn_chain S) addr (token_page offset psize) psize))),
        (''offset'', PInt offset), (''limit'', PInt psize)]))))"

definition whole_amount :: "fields \<Rightarrow> bool \<times> string" where
  "whole_amount d =
     (let v = dget_or d ''amount'' PNone in (\<not> is_int v \<or> is_bool v \<or> int_of_py v < 1, ''amount must be a positive integer''))"

definition rest_issue_token :: "world \<Rightarrow> rest_request \<Rightarrow> rest_call" where
  "rest_issue_token X rq = with_any_body rq (\<lambda>d.
     let decimals = dget_or d ''decimals'' PNone; max_supply = dget_or d ''max_supply'' (PInt 0);
         transferable = dget_or d ''transferable'' (PBool True)
     in demand
          [text_needed d ''wallet'', text_needed d ''name'', text_needed d ''symbol'',
           (\<not> is_int decimals \<or> is_bool decimals, ''decimals is required and must be an integer''),
           (int_of_py decimals < 0, ''decimals must be >= 0''),
           (\<not> is_int max_supply \<or> is_bool max_supply, ''max_supply must be an integer''),
           (int_of_py max_supply < 0, ''max_supply must be >= 0''),
           (\<not> is_bool transferable, ''transferable must be a boolean'')]
          (asked_of created (rpc_issue_token X (str_in d ''wallet'') (str_in d ''name'') (str_in d ''symbol'') decimals max_supply
             transferable (fee_in d) (prio_in d))))"

definition rest_mint_token :: "world \<Rightarrow> rest_request \<Rightarrow> rest_call" where
  "rest_mint_token X rq = with_any_body rq (\<lambda>d.
     demand [text_needed d ''wallet'', text_needed d ''token_id'', text_needed d ''recipient'', whole_amount d]
       (asked_of created (rpc_mint_token X (str_in d ''wallet'') (str_in d ''token_id'') (str_in d ''recipient'')
          (dget_or d ''amount'' PNone) (fee_in d) (prio_in d))))"

definition rest_transfer_token :: "world \<Rightarrow> rest_request \<Rightarrow> rest_call" where
  "rest_transfer_token X rq = with_any_body rq (\<lambda>d.
     demand [text_needed d ''wallet'', text_needed d ''token_id'', text_needed d ''recipient'', whole_amount d,
             text_allowed d ''memo'']
       (asked_of created (rpc_transfer_token X (str_in d ''wallet'') (str_in d ''token_id'') (str_in d ''recipient'')
          (dget_or d ''amount'' PNone) (str_in d ''memo'') (fee_in d) (prio_in d))))"

section \<open>Light clients\<close>

definition rest_list_headers :: "world \<Rightarrow> rest_request \<Rightarrow> rest_call" where
  "rest_list_headers X rq =
     (let start = int_param rq ''start'' 0; count = int_param rq ''count'' 20
      in demand [(start = None \<or> count = None, ''start and count must be integers''), (the start < 0, ''start must be >= 0''),
                 (the count < 1 \<or> the count > 100, ''count must be 1-100'')]
           (look (\<lambda>S. let headers = get_block_headers (wd_env X) (fn_chain S) (the start) (the count)
              in data_ok (PDict [(''headers'', PList (map PDict headers)), (''start'', PInt (the start)),
                   (''count'', PInt (int (length headers))), (''height'', PInt (height (fn_chain S)))]))))"

definition rest_get_header :: "world \<Rightarrow> rest_request \<Rightarrow> rest_call" where
  "rest_get_header X rq =
     (let index = (case dget (rq_match rq) ''index'' of None \<Rightarrow> Some (- 1) | Some text \<Rightarrow> int_of_text text)
      in demand [(index = None, ''index must be an integer'')]
           (look (\<lambda>S. case get_block_by_index (fn_chain S) (the index) of
              None \<Rightarrow> not_found ''block not found'' | Some b \<Rightarrow> data_ok (PDict (to_header_dict (wd_env X) b)))))"

text \<open>Keys of balances and nonces are public, those of tokens need the token, others are refused.\<close>

definition state_proof_of :: "world \<Rightarrow> rest_request \<Rightarrow> string \<Rightarrow> rest_call" where
  "state_proof_of X rq key =
     (let at_block = dget (rq_query rq) ''block''; index = (case at_block of None \<Rightarrow> None | Some text \<Rightarrow> int_of_text text)
      in demand [(at_block \<noteq> None \<and> index = None, ''block must be an integer'')]
           (\<lambda>S. Some
             ((case get_state_proof_at_block (wd_env X) (fn_chain S) key index of
                 None \<Rightarrow> not_found ''key not found or block snapshot unavailable''
               | Some (p, i) \<Rightarrow> data_ok (PDict (proof_fields p @ [(''block_index'', PInt i)]))),
              if index = None then on_chain_state (proof_effect (wd_env X) key) S else S)))"

definition rest_state_proof_by_key :: "world \<Rightarrow> string \<Rightarrow> rest_request \<Rightarrow> rest_call" where
  "rest_state_proof_by_key X auth_token rq = must_match rq ''key'' ''key is required'' (\<lambda>key.
     if starts_with key ''balance:'' \<or> starts_with key ''nonce:'' then state_proof_of X rq key
     else if starts_with key ''token:''
     then (case rest_check_auth auth_token (rq_auth rq) of
             Inl e \<Rightarrow> say (Crashed e)
           | Inr False \<Rightarrow> say (Err 403 ''authentication required for token state proofs'')
           | Inr True \<Rightarrow> state_proof_of X rq key)
     else say (Err 403 ''state proof key prefix not allowed''))"

definition rest_receipt_proof :: "world \<Rightarrow> rest_request \<Rightarrow> rest_call" where
  "rest_receipt_proof X rq = must_match rq ''txid'' ''txid is required'' (\<lambda>txid.
     exposed (\<lambda>v. if v = PNone then not_found ''receipt not found'' else data_ok v) (rpc_get_receipt_proof X (PStr txid)))"

section \<open>Handlers that only pass a query on\<close>

definition rest_validators :: rest_call where
  "rest_validators = exposed (counted_as ''validators'') rpc_validators"

definition rest_all_stakes :: rest_call where
  "rest_all_stakes = shielded (counted_as ''validators'') rpc_get_validator_stakes"

definition rest_current_epoch :: rest_call where
  "rest_current_epoch = exposed data_ok rpc_get_epoch"

definition rest_slashing_events :: "rest_request \<Rightarrow> rest_call" where
  "rest_slashing_events rq = exposed data_ok (rpc_get_slashing_events (query_str rq ''validator'' []))"

definition rest_state_root :: "world \<Rightarrow> rest_call" where
  "rest_state_root X = shielded data_ok (rpc_get_state_root X)"

definition rest_get_supply :: "world \<Rightarrow> rest_call" where
  "rest_get_supply X = shielded data_ok (rpc_get_supply X)"

definition rest_get_fee_info :: "world \<Rightarrow> rest_call" where
  "rest_get_fee_info X = shielded data_ok (rpc_get_fee_info X)"

definition rest_get_finalized :: rest_call where
  "rest_get_finalized = shielded data_ok rpc_get_finalized"

definition rest_create_wallet :: "world \<Rightarrow> rest_call" where
  "rest_create_wallet X = shielded created (rpc_new_wallet X)"

definition rest_list_wallets :: rest_call where
  "rest_list_wallets = shielded (counted_as ''wallets'') rpc_list_wallets"

section \<open>Routes\<close>

text \<open>
  \<open>_register_routes\<close>, by the method and the path of a route. \<open>auth_token\<close> is used by the one handler that
  checks it itself.
\<close>

type_synonym route = "string \<times> string"

definition on_get :: "string \<Rightarrow> (rest_request \<Rightarrow> rest_call) \<Rightarrow> route \<times> (rest_request \<Rightarrow> rest_call)" where
  "on_get path h = ((''GET'', path), h)"

definition on_post :: "string \<Rightarrow> (rest_request \<Rightarrow> rest_call) \<Rightarrow> route \<times> (rest_request \<Rightarrow> rest_call)" where
  "on_post path h = ((''POST'', path), h)"

definition on_delete :: "string \<Rightarrow> (rest_request \<Rightarrow> rest_call) \<Rightarrow> route \<times> (rest_request \<Rightarrow> rest_call)" where
  "on_delete path h = ((''DELETE'', path), h)"

definition public_routes :: "world \<Rightarrow> string \<Rightarrow> (route, rest_request \<Rightarrow> rest_call) dict" where
  "public_routes X auth_token =
     [on_get ''/info'' (\<lambda>rq. rest_info),
      on_get ''/health'' (\<lambda>rq. rest_health),
      on_get ''/health/ready'' (\<lambda>rq. rest_readiness),
      on_get ''/metrics'' (\<lambda>rq. say Metrics_text),
      on_get ''/blocks'' (rest_list_blocks X),
      on_get ''/blocks/latest'' (\<lambda>rq. rest_latest_block X),
      on_get ''/blocks/hash/{hash}'' (rest_block_by_hash X),
      on_get ''/blocks/{index}'' (rest_block_by_index X),
      on_get ''/txs/sender/{addr}'' (rest_txs_by_sender X),
      on_get ''/txs/{txid}'' (rest_get_tx X),
      on_get ''/address/{addr}'' rest_address_info,
      on_get ''/notarizations/{hash}'' (rest_notarization_proof X),
      on_get ''/validators'' (\<lambda>rq. rest_validators),
      on_get ''/stakes'' (\<lambda>rq. rest_all_stakes),
      on_get ''/stakes/{validator}'' rest_validator_stake,
      on_get ''/balance/{addr}'' (rest_get_balance X),
      on_get ''/supply'' (\<lambda>rq. rest_get_supply X),
      on_get ''/fee'' (\<lambda>rq. rest_get_fee_info X),
      on_get ''/pool'' (\<lambda>rq. rest_pool_summary),
      on_get ''/pool/count'' (\<lambda>rq. rest_pool_count),
      on_post ''/verify'' (rest_verify X),
      on_get ''/epochs/current'' (\<lambda>rq. rest_current_epoch),
      on_get ''/slashing-events'' rest_slashing_events,
      on_get ''/state-proof/{addr}'' (rest_state_proof X),
      on_get ''/state-root'' (\<lambda>rq. rest_state_root X),
      on_get ''/receipt/{txid}'' (rest_get_receipt X),
      on_get ''/events'' rest_get_events,
      on_get ''/finalized'' (\<lambda>rq. rest_get_finalized),
      on_get ''/tokens'' rest_list_tokens,
      on_get ''/tokens/{token_id}'' rest_get_token,
      on_get ''/tokens/{token_id}/holders'' rest_get_token_holders,
      on_get ''/address/{addr}/tokens'' (rest_get_address_tokens X),
      on_get ''/headers'' (rest_list_headers X),
      on_get ''/headers/{index}'' (rest_get_header X),
      on_get ''/proofs/state/{key}'' (rest_state_proof_by_key X auth_token),
      on_get ''/proofs/receipt/{txid}'' (rest_receipt_proof X)]"

definition protected_routes :: "world \<Rightarrow> (route, rest_request \<Rightarrow> rest_call) dict" where
  "protected_routes X =
     [on_post ''/webhooks'' (rest_register_webhook X),
      on_get ''/webhooks'' (\<lambda>rq. rest_list_webhooks),
      on_delete ''/webhooks/{id}'' rest_delete_webhook,
      on_post ''/transfer'' (rest_transfer X),
      on_post ''/txs'' (rest_submit_tx X),
      on_post ''/evidence'' (rest_submit_evidence X),
      on_post ''/wallets'' (\<lambda>rq. rest_create_wallet X),
      on_get ''/wallets'' (\<lambda>rq. rest_list_wallets),
      on_post ''/notarize'' (rest_notarize X),
      on_post ''/store'' (rest_store X),
      on_post ''/share'' (rest_share X),
      on_post ''/register-validator'' (rest_register_validator X),
      on_post ''/stake'' (rest_stake X),
      on_post ''/delegate'' (rest_delegate X),
      on_post ''/unstake'' (rest_unstake X),
      on_post ''/issue-token'' (rest_issue_token X),
      on_post ''/mint-token'' (rest_mint_token X),
      on_post ''/transfer-token'' (rest_transfer_token X)]"

definition rest_routes :: "world \<Rightarrow> string \<Rightarrow> (route, rest_request \<Rightarrow> rest_call) dict" where
  "rest_routes X auth_token = public_routes X auth_token @ protected_routes X"

section \<open>The gateway\<close>

record rest_config =
  rs_token :: string
  rs_cors :: string

text \<open>The path of the route that was matched, without the prefix under which the API is mounted.\<close>

definition route_path :: "rest_request \<Rightarrow> string option" where
  "route_path rq =
     map_option (\<lambda>c. if starts_with c ''/api/v1'' then drop (length ''/api/v1'') c else c) (rq_route rq)"

definition route_method :: "rest_request \<Rightarrow> string" where
  "route_method rq = (if rq_method rq = ''HEAD'' then ''GET'' else rq_method rq)"

text \<open>A request that matches no route ends in the status the router raises (404 or 405).\<close>

definition rest_handler :: "world \<Rightarrow> rest_config \<Rightarrow> rest_request \<Rightarrow> rest_call" where
  "rest_handler X C rq =
     (case Option.bind (route_path rq) (\<lambda>path. dget (rest_routes X (rs_token C)) (route_method rq, path)) of
        None \<Rightarrow> say (Bare (rq_missed rq))
      | Some h \<Rightarrow> h rq)"

definition auth_middleware :: "rest_config \<Rightarrow> rest_request \<Rightarrow> rest_call \<Rightarrow> rest_call" where
  "auth_middleware C rq handler =
     (if route_path rq \<in> Some ` set PUBLIC_ROUTES then handler
      else (case rest_check_auth (rs_token C) (rq_auth rq) of
              Inl e \<Rightarrow> say (Crashed e)
            | Inr False \<Rightarrow> say (Err 401 ''authentication required'')
            | Inr True \<Rightarrow> handler))"

definition cors_headers :: "string \<Rightarrow> (string, string) dict" where
  "cors_headers origins =
     [(''Access-Control-Allow-Origin'', origins),
      (''Access-Control-Allow-Methods'', ''GET, POST, OPTIONS''),
      (''Access-Control-Allow-Headers'', if origins = ''*'' then ''Content-Type'' else ''Authorization, Content-Type''),
      (''Access-Control-Max-Age'', ''86400'')]"

text \<open>The answer with the CORS headers; an exception that passes the middleware carries none.\<close>

definition cors_middleware ::
  "rest_config \<Rightarrow> rest_request \<Rightarrow> rest_call \<Rightarrow> fullnode \<Rightarrow> ((rest_answer \<times> (string, string) dict) \<times> fullnode) option" where
  "cors_middleware C rq handler S =
     (if rs_cors C = []
      then (if rq_method rq = ''OPTIONS'' then Some ((Bare 403, []), S)
            else map_option (map_prod (\<lambda>a. (a, [])) id) (handler S))
      else (if rq_method rq = ''OPTIONS'' then Some ((Bare 204, cors_headers (rs_cors C)), S)
            else map_option (map_prod (\<lambda>a. (a, case a of Crashed e \<Rightarrow> [] | _ \<Rightarrow> cors_headers (rs_cors C))) id) (handler S)))"

definition rest_serve ::
  "world \<Rightarrow> rest_config \<Rightarrow> rest_request \<Rightarrow> fullnode \<Rightarrow> ((rest_answer \<times> (string, string) dict) \<times> fullnode) option" where
  "rest_serve X C rq = cors_middleware C rq (auth_middleware C rq (rest_handler X C rq))"

end
