(* ===== verification/NodeRun.thy ===== *)
theory NodeRun
  imports RestApi
begin

text \<open>
  \<open>node.py\<close>: start, stop and the periodic tasks of a node (one round each), and the node as a state
  machine over all its inputs. The node is in in-memory mode: what a stored chain gives on start is
  the argument \<open>stored\<close>, wallet files are the argument \<open>loaded\<close>, saving is left out.
\<close>

section \<open>Start\<close>

definition add_wallet :: "wallet \<Rightarrow> fullnode \<Rightarrow> fullnode" where
  "add_wallet w S = S\<lparr>fn_wallets := dset (fn_wallets S) (w_address w) w\<rparr>"

text \<open>The keys of the validator become those of the connections.\<close>

definition use_validator :: "wallet \<Rightarrow> fullnode \<Rightarrow> fullnode" where
  "use_validator w S =
     (add_wallet w S)
       \<lparr>fn_validator := Some w,
        fn_chain := add_validator (w_address w) (w_signing_pk w) (fn_chain S),
        fn_p2p := (fn_p2p S)\<lparr>pn_signing_sk := w_signing_sk w, pn_signing_pk := w_signing_pk w,
                    pn_address := w_address w, pn_encryption_sk := w_encryption_sk w,
                    pn_encryption_pk := w_encryption_pk w\<rparr>\<rparr>"

text \<open>A new chain: genesis, the financial layer, and the validator's key in the pool.\<close>

definition register_own_key :: "world \<Rightarrow> wallet \<Rightarrow> chain act" where
  "register_own_key X w s =
     (case sign_with (wd_net X) w (mk_register_key (w_address w) (w_encryption_pk w) 0 0 0 (int_time X)) of
        Inl e \<Rightarrow> (Some e, s)
      | Inr tx \<Rightarrow>
          (case submit_tx (wd_env X) (int_time X) tx s of (Raise e, t) \<Rightarrow> (Some e, t) | (r, t) \<Rightarrow> (None, t)))"

definition found_chain :: "world \<Rightarrow> wallet \<Rightarrow> chain act" where
  "found_chain X w s =
     (case sb_bytes (w_signing_sk w) of
        Inl e \<Rightarrow> (Some e, s)
      | Inr sk \<Rightarrow>
          run_all [init_chain (wd_env X) (int_time X) (w_address w) sk (w_signing_pk w),
                   activate_financial_layer (w_address w),
                   register_own_key X w] s)"

definition lock_genesis :: "env \<Rightarrow> chain \<Rightarrow> chain" where
  "lock_genesis E s =
     (if height s \<ge> 0
      then (case get_block_by_index s 0 of None \<Rightarrow> s | Some g \<Rightarrow> set_genesis_hash (block_hash E g) s) else s)"

fun connect_bootstrap :: "world \<Rightarrow> nat \<Rightarrow> string list \<Rightarrow> p2p_node \<Rightarrow> p2p_node" where
  "connect_bootstrap X k [] P = P"
| "connect_bootstrap X k (a # as) P =
     connect_bootstrap X (Suc k) as
       (case split_addr a of
          None \<Rightarrow> P
        | Some (host, port) \<Rightarrow> connect (wd_net X) (wd_monotonic X) (wd_time X) (wd_challenge X k) host port P)"

definition first_sync :: "world \<Rightarrow> fullnode \<Rightarrow> fullnode" where
  "first_sync X S =
     (if connected_count (fn_p2p S) > 0
      then gossip X ''get_blocks''
             [(''from'', PInt (height (fn_chain S) + 1)), (''count'', PInt 50), (''request_id'', PStr (wd_hex X))] []
             ((gossip X ''status'' [(''height'', PInt (height (fn_chain S)))] [] S)
                \<lparr>fn_pending := dset (fn_pending S) (wd_hex X) (wd_time X)\<rparr>)
      else S)"

definition start_node ::
  "world \<Rightarrow> wallet list \<Rightarrow> wallet option \<Rightarrow> chain option \<Rightarrow> string list \<Rightarrow> fullnode \<Rightarrow> exn option \<times> fullnode" where
  "start_node X loaded validator stored bootstrap S =
     (let S1 = fold add_wallet loaded S;
          S2 = (case validator of None \<Rightarrow> S1 | Some w \<Rightarrow> use_validator w S1);
          S3 = (case stored of None \<Rightarrow> S2 | Some c \<Rightarrow> S2\<lparr>fn_chain := c\<rparr>);
          (e, c) = (case (validator, stored) of (Some w, None) \<Rightarrow> found_chain X w (fn_chain S3) | _ \<Rightarrow> (None, fn_chain S3));
          S4 = S3\<lparr>fn_chain := c\<rparr>
      in case e of
           Some x \<Rightarrow> (Some x, S4)
         | None \<Rightarrow>
             (let S5 = on_chain_state (lock_genesis (wd_env X)) S4;
                  S6 = first_sync X (on_p2p (connect_bootstrap X 0 bootstrap) S5)
              in (None, S6\<lparr>fn_running := True, fn_sync := sync_start (fn_sync S6)\<rparr>)))"

section \<open>Periodic tasks\<close>

text \<open>One round of \<open>_block_loop\<close>; an exception is logged and the loop goes on.\<close>

definition block_round :: "world \<Rightarrow> fullnode \<Rightarrow> fullnode" where
  "block_round X S =
     (case fn_validator S of
        None \<Rightarrow> S
      | Some w \<Rightarrow>
          (if is_syncing (fn_sync S) then S
           else (case sb_bytes (w_signing_sk w) of
                   Inl e \<Rightarrow> S
                 | Inr sk \<Rightarrow>
                     (case produce_block (wd_env X) (int_time X) (w_address w) sk (fn_chain S) of
                        (Inl e, c) \<Rightarrow> S\<lparr>fn_chain := c\<rparr>
                      | (Inr None, c) \<Rightarrow> S\<lparr>fn_chain := c\<rparr>
                      | (Inr (Some b), c) \<Rightarrow>
                          ws_notify_block X b
                            (gossip X ''new_block'' [(''block'', PDict (block_to_dict (wd_env X) b))] [] (S\<lparr>fn_chain := c\<rparr>))))))"

text \<open>\<open>max(peers, key=height)\<close>: the first of the highest.\<close>

definition highest_peer :: "p2p_node \<Rightarrow> nat option" where
  "highest_peer P =
     fold (\<lambda>i best. case best of
             None \<Rightarrow> Some i
           | Some j \<Rightarrow> if pr_height (pn_peer P i) > pr_height (pn_peer P j) then Some i else best)
       (live_peers P) None"

text \<open>One round of \<open>_sync_loop\<close>.\<close>

definition sync_round :: "world \<Rightarrow> fullnode \<Rightarrow> fullnode" where
  "sync_round X S =
     (let pending = filter (\<lambda>(rid, ts). \<not> wd_time X - ts > 60) (fn_pending S);
          my_height = height (fn_chain S);
          T = gossip X ''status'' [(''height'', PInt my_height)] [] (S\<lparr>fn_pending := pending\<rparr>);
          best = best_peer_height (fn_p2p T)
      in if best > my_height
         then (case highest_peer (fn_p2p T) of
                 None \<Rightarrow> T
               | Some i \<Rightarrow>
                   reply X i ''get_blocks''
                     [(''from'', PInt (my_height + 1)), (''count'', PInt (min (best - my_height) 100)),
                      (''request_id'', PStr (wd_hex X))]
                     (T\<lparr>fn_pending := dset (fn_pending T) (wd_hex X) (wd_time X)\<rparr>))
         else T)"

section \<open>Stop\<close>

definition stop_fullnode :: "fullnode \<Rightarrow> fullnode" where
  "stop_fullnode S =
     (if \<not> fn_running S then S
      else S\<lparr>fn_running := False, fn_sync := sync_stop (fn_sync S), fn_hooks := stop_hooks (fn_hooks S),
             fn_ws := ws_stop (fn_ws S), fn_p2p := stop_node (fn_p2p S),
             fn_wallets := map (map_prod id wallet_close) (fn_wallets S),
             fn_validator := map_option wallet_close (fn_validator S)\<rparr>)"

section \<open>The state machine\<close>

text \<open>
  A block is applied cleanly when the chain takes it whole (a genesis block with positive token
  amounts, which the code does not check) or refuses it without a change. The runs below are those in
  which every block is: what a refusal in the middle of a block leaves behind is the subject of
  the theorem on refused blocks.
\<close>

definition clean_block :: "env \<Rightarrow> int \<Rightarrow> block \<Rightarrow> chain \<Rightarrow> bool" where
  "clean_block E now b s \<longleftrightarrow>
     (case add_block E now b s of
        (Ok _, t) \<Rightarrow> b_index b = 0 \<longrightarrow> list_all token_amount_ok (b_txs b)
      | (_, t) \<Rightarrow> t = s)"

fun clean_batch :: "world \<Rightarrow> nat \<Rightarrow> pyval list \<Rightarrow> fullnode \<Rightarrow> bool" where
  "clean_batch X i [] S \<longleftrightarrow> True"
| "clean_batch X i (v # vs) S \<longleftrightarrow>
     (case parsed_block (wd_env X) v of
        Some (Inr b) \<Rightarrow> clean_block (wd_env X) (int_time X) b (fn_chain S)
          \<and> (fst (take_block X i b S) \<longrightarrow> clean_batch X i vs (snd (take_block X i b S)))
      | _ \<Rightarrow> True)"

definition clean_message :: "world \<Rightarrow> nat \<Rightarrow> string \<Rightarrow> pyval \<Rightarrow> fullnode \<Rightarrow> bool" where
  "clean_message X i msg_type data S \<longleftrightarrow>
     (msg_type = ''new_block'' \<longrightarrow>
        (case parsed_item (block_from_dict (wd_env X)) ''block'' data of
           Some (Inr b) \<Rightarrow> clean_block (wd_env X) (int_time X) b (fn_chain S)
         | _ \<Rightarrow> True))
     \<and> (msg_type = ''blocks'' \<longrightarrow>
          clean_batch X i (take 100 (list_of_py (dget_or (dict_of_py data) ''blocks'' (PList []))))
            (S\<lparr>fn_pending := dpop (fn_pending S) (str_of_py (dget_or (dict_of_py data) ''request_id'' PNone))\<rparr>))"

text \<open>The same for a round of block production and for the founding of a chain.\<close>

definition clean_round :: "world \<Rightarrow> fullnode \<Rightarrow> bool" where
  "clean_round X S \<longleftrightarrow>
     (\<forall>w sk e c. fn_validator S = Some w \<longrightarrow> sb_bytes (w_signing_sk w) = Inr sk \<longrightarrow>
        produce_block (wd_env X) (int_time X) (w_address w) sk (fn_chain S) = (Inl e, c) \<longrightarrow> c = fn_chain S)"

text \<open>What the random source gives: challenges of 32 bytes.\<close>

definition world_ok :: "net \<Rightarrow> world \<Rightarrow> bool" where
  "world_ok N X \<longleftrightarrow> wd_net X = N \<and> (\<forall>k. length (wd_challenge X k) = CHALLENGE_LEN)"

inductive fullnode_step :: "net \<Rightarrow> fullnode \<Rightarrow> fullnode \<Rightarrow> bool" for N where
  Message: "world_ok N X \<Longrightarrow> handle_p2p X i msg_type data S = Some (e, T) \<Longrightarrow> clean_message X i msg_type data S
    \<Longrightarrow> fullnode_step N S T"
| Connections: "p2p_step N (fn_p2p S) P \<Longrightarrow> fullnode_step N S (S\<lparr>fn_p2p := P\<rparr>)"
| Post: "world_ok N X \<Longrightarrow> \<not> dmem (wd_hex X) (hk_webhooks (fn_hooks S))
    \<Longrightarrow> exec_request X C token req S = Some (r, T) \<Longrightarrow> fullnode_step N S T"
| Rest: "world_ok N X \<Longrightarrow> \<not> dmem (wd_hex X) (hk_webhooks (fn_hooks S))
    \<Longrightarrow> rest_serve X C rq S = Some (r, T) \<Longrightarrow> fullnode_step N S T"
| Block_round: "world_ok N X \<Longrightarrow> clean_round X S \<Longrightarrow> fullnode_step N S (block_round X S)"
| Sync_round: "world_ok N X \<Longrightarrow> fullnode_step N S (sync_round X S)"
| Stats_round: "world_ok N X \<Longrightarrow> fullnode_step N S (stats_round X S)"
| Clients: "fullnode_step N S (S\<lparr>fn_ws := ws_do e (fn_ws S)\<rparr>)"
| Hooks: "hook_step classify (fn_hooks S) h \<Longrightarrow> fullnode_step N S (S\<lparr>fn_hooks := h\<rparr>)"
| Start: "world_ok N X \<Longrightarrow> start_node X loaded validator None bootstrap S = (None, T) \<Longrightarrow> fullnode_step N S T"
| Stop: "fullnode_step N S (stop_fullnode S)"

inductive fullnode_run :: "net \<Rightarrow> fullnode \<Rightarrow> fullnode \<Rightarrow> bool" for N where
  Begin: "fullnode_run N S S"
| Next: "fullnode_run N S T \<Longrightarrow> fullnode_step N T U \<Longrightarrow> fullnode_run N S U"

inductive_cases fullnode_stepE: "fullnode_step N S T"
inductive_simps fullnode_run_iff: "fullnode_run N S T"

definition new_fullnode :: "p2p_node \<Rightarrow> fullnode" where
  "new_fullnode P =
     \<lparr>fn_chain = new_chain, fn_p2p = P, fn_sync = new_sync, fn_ws = new_ws_manager, fn_hooks = new_hooks,
      fn_wallets = [], fn_validator = None, fn_pending = [], fn_secrets = [], fn_locks = [], fn_running = False\<rparr>"

end
