(* ===== verification/RpcProps.thy ===== *)
theory RpcProps
  imports NodeRun
begin

text \<open>
  What RPC calls do to a node. The locale \<open>rpc_effect\<close> is the interface between the methods and what
  is claimed of all of them: a relation between the state before, the result and the state after that
  holds where nothing changes, and for each of the few things a method can do. It then holds for every
  method of the table; its interpretations are the read-only methods, the pool and the wallets.
\<close>

section \<open>Effects\<close>

definition effect :: "(fullnode \<Rightarrow> exn + pyval \<Rightarrow> fullnode \<Rightarrow> bool) \<Rightarrow> call \<Rightarrow> bool" where
  "effect R k \<longleftrightarrow> (\<forall>S v T. k S = Some (v, T) \<longrightarrow> R S v T)"

lemma effectD: "effect R k \<Longrightarrow> k S = Some (v, T) \<Longrightarrow> R S v T"
  by (simp add: effect_def)

text \<open>A method that reads may fill the root cache of the state trie, and changes nothing else.\<close>

definition idle :: "world \<Rightarrow> fullnode \<Rightarrow> exn + pyval \<Rightarrow> fullnode \<Rightarrow> bool" where
  "idle X S v T \<longleftrightarrow> T = S \<or> T = on_chain_state (\<lambda>s. snd (state_root (wd_env X) s)) S"

lemma idle_query: "effect (idle X) (query q)"
  by (simp add: effect_def idle_def query_def)

lemma idle_guarded: "effect (idle X) k \<Longrightarrow> effect (idle X) (guarded cs k)"
  by (simp add: effect_def idle_def guarded_def split: outcome.split)

lemma idle_get_block: "effect (idle X) (rpc_get_block X i h)"
  by (simp add: rpc_get_block_def Let_def idle_query idle_guarded)

lemma idle_root: "effect (idle X) (rpc_get_state_root X)"
  by (auto simp: effect_def idle_def rpc_get_state_root_def on_chain_state_def split: prod.splits)

lemma proof_effect_cases: "proof_effect E key s = s \<or> proof_effect E key s = snd (state_root E s)"
  by (auto simp: proof_effect_def trie_get_proof_def state_root_def Let_def split: option.splits prod.splits)

lemma idle_proof: "idle X S v (on_chain_state (proof_effect (wd_env X) key) S)"
  using proof_effect_cases[of "wd_env X" key "fn_chain S"] by (auto simp: idle_def on_chain_state_def)

lemma idle_proofs: "effect (idle X) (rpc_get_state_proof X a b)" "effect (idle X) (rpc_get_state_proof_at X a c)"
  unfolding rpc_get_state_proof_def rpc_get_state_proof_at_def
  by (rule idle_guarded, use idle_proof in \<open>simp add: effect_def idle_def\<close>)+

lemmas public_defs =
  rpc_block_number_def rpc_get_tx_def rpc_pending_count_def rpc_verify_document_def
  rpc_get_encryption_pk_def rpc_peer_count_def rpc_node_info_def rpc_validators_def rpc_txs_by_sender_def
  rpc_txs_by_recipient_def rpc_get_stake_def rpc_get_validator_stakes_def rpc_get_epoch_def
  rpc_get_slashing_events_def rpc_get_balance_def rpc_get_supply_def rpc_get_fee_info_def
  rpc_get_receipt_def rpc_get_finalized_def rpc_get_logs_def rpc_get_token_info_def rpc_get_token_balance_def
  rpc_list_tokens_def rpc_get_address_tokens_def rpc_get_block_headers_def
  rpc_get_receipt_proof_def rpc_get_sync_status_def

text \<open>What every entry of a table satisfies, but for one that is named.\<close>

definition entry_ok :: "(call \<Rightarrow> bool) \<Rightarrow> string \<Rightarrow> (string, rpc_method) dict \<Rightarrow> bool" where
  "entry_ok Q skip ms \<longleftrightarrow> list_all (\<lambda>(name, m). name = skip \<or> (\<forall>a. Q (rm_code m a))) ms"

lemma entry_ok_simps:
  "entry_ok Q skip [] = True"
  "entry_ok Q skip ((name, reads ps f) # ms) = ((name = skip \<or> (\<forall>a. Q (f a))) \<and> entry_ok Q skip ms)"
  "entry_ok Q skip ((name, sends ps g) # ms) =
     ((name = skip \<or> (\<forall>a. Q (g a (a ''max_fee_per_weight'') (a ''max_priority_fee'')))) \<and> entry_ok Q skip ms)"
  by (simp_all add: entry_ok_def reads_def sends_def)

lemma entry_okD: "entry_ok Q skip ms \<Longrightarrow> (name, m) \<in> set ms \<Longrightarrow> name \<noteq> skip \<Longrightarrow> Q (rm_code m a)"
  by (fastforce simp: entry_ok_def list_all_iff)

lemma public_table: "entry_ok (effect (idle X)) [] (public_methods X)"
  unfolding public_methods_def entry_ok_simps
  by (intro conjI; (rule disjI2)?; (rule TrueI)?; intro allI;
      (rule idle_get_block idle_root idle_proofs)?; (unfold public_defs)?; intro idle_query idle_guarded)

lemma public_names: "(name, m) \<in> set (public_methods X) \<Longrightarrow> name \<noteq> []"
  by (auto simp: public_methods_def)

lemma public_idle: "(name, m) \<in> set (public_methods X) \<Longrightarrow> effect (idle X) (rm_code m a)"
  using entry_okD[OF public_table] public_names by blast

locale rpc_effect =
  fixes X :: world and R :: "fullnode \<Rightarrow> exn + pyval \<Rightarrow> fullnode \<Rightarrow> bool"
  assumes unchanged: "R S v S"
    and rooted: "R S v (on_chain_state (\<lambda>s. snd (state_root (wd_env X) s)) S)"
    and submitted: "submit_with X notify address test mf mp mk result S = Some (v, T) \<Longrightarrow>
      (\<And>w n f p now. tx_sender (mk w n f p now) = w_address w \<and> tx_nonce (mk w n f p now) = n) \<Longrightarrow> R S v T"
    and stored: "R S v T \<Longrightarrow> R S v (store_shared_secret k ss T)"
    and new_wallet: "rpc_new_wallet X S = Some (v, T) \<Longrightarrow> R S v T"
    and hooked: "hook_step (wd_classify X) (fn_hooks S) hs \<or> dmem (wd_hex X) (hk_webhooks (fn_hooks S))
      \<Longrightarrow> R S v (S\<lparr>fn_hooks := hs\<rparr>)"
begin

lemma R_query: "effect R (query q)"
  by (simp add: effect_def query_def unchanged)

lemma R_guarded: "effect R k \<Longrightarrow> effect R (guarded cs k)"
  by (auto simp: effect_def guarded_def unchanged split: outcome.splits)

lemma R_outside: "effect R k \<Longrightarrow> effect R (outside_if c k)"
  by (simp add: effect_def outside_if_def)

lemma R_submit:
  "(\<And>w n f p now. tx_sender (mk w n f p now) = w_address w \<and> tx_nonce (mk w n f p now) = n)
    \<Longrightarrow> effect R (submit_with X notify address test mf mp mk result)"
  unfolding effect_def using submitted by blast

lemma R_share: "effect R (rpc_share X wa ra cid pk ex mf mp)"
  unfolding effect_def
proof (intro allI impI)
  fix S v T assume r: "rpc_share X wa ra cid pk ex mf mp S = Some (v, T)"
  have s: "effect R (submit_with X True wa no_test mf mp
      (\<lambda>w n f p now. new_tx SHARE (w_address w) (str_of_py ra)
         [(''cid'', cid), (''encapsulatedKey'', PStr (hex ct)), (''expires'', ex)] n f p now)
      (\<lambda>tid tx. [(''tx_id'', PStr tid), (''shared_secret_stored'', PBool True)]))" for ct
    by (rule R_submit) (simp add: new_tx_def)
  show "R S v T"
    using r unchanged stored effectD[OF s]
    by (fastforce simp: rpc_share_def outside_if_def split: if_splits sum.splits prod.splits option.splits pyval.splits)
qed

lemma R_hook: "effect R (rpc_register_webhook X url evs sec)" "effect R (rpc_delete_webhook i)"
proof -
  have reg: "R S v (S\<lparr>fn_hooks := snd (register_hook (wd_classify X) (wd_hex X) t url evs sec (fn_hooks S))\<rparr>)" for S v t
    by (rule hooked) (use hook_step.Register in blast)
  show "effect R (rpc_register_webhook X url evs sec)"
    unfolding rpc_register_webhook_def by (rule R_guarded) (auto simp: effect_def split: prod.splits sum.splits, (metis reg snd_conv)+)
  have del: "R S v (S\<lparr>fn_hooks := snd (delete_hook i (fn_hooks S))\<rparr>)" for S v
    by (rule hooked) (use hook_step.Delete in blast)
  show "effect R (rpc_delete_webhook i)"
    unfolding rpc_delete_webhook_def by (rule R_guarded) (auto simp: effect_def split: prod.splits sum.splits, (metis del snd_conv)+)
qed

lemma R_sends:
  "effect R (rpc_notarize X a1 a2 a3 a4 a5)" "effect R (rpc_store X a1 a2 a3 a4 a5 a6)"
  "effect R (rpc_register_key X a1 a2 a3)" "effect R (rpc_register_validator X a1 a2 a3)"
  "effect R (rpc_revoke_key X a1 a2 a3 a4 a5)" "effect R (rpc_stake X a1 a2 a3 a4 a5)"
  "effect R (rpc_delegate X a1 a2 a3 a4 a5)" "effect R (rpc_unstake X a1 a2 a3 a4 a5)"
  "effect R (rpc_submit_evidence X a1 a2 a3 arg a4 a5)" "effect R (rpc_transfer X a1 a2 a3 a4 a5 a6)"
  "effect R (rpc_issue_token X a1 a2 a3 a4 a5 a6 a7 a8)" "effect R (rpc_mint_token X a1 a2 a3 a4 a5 a6)"
  "effect R (rpc_transfer_token X a1 a2 a3 a4 a5 a6 a7)"
  unfolding rpc_notarize_def rpc_store_def rpc_register_key_def rpc_register_validator_def rpc_revoke_key_def
    rpc_stake_def rpc_delegate_def rpc_unstake_def rpc_submit_evidence_def rpc_transfer_def rpc_issue_token_def
    rpc_mint_token_def rpc_transfer_token_def
  by (intro R_outside R_guarded R_submit; simp add: factory_defs)+

lemma R_reads:
  "effect R (rpc_new_wallet X)" "effect R (rpc_shared_with_me X b)" "effect R (rpc_get_shared_secret b)"
  "effect R (rpc_decapsulate_shared X b c)" "effect R rpc_list_wallets" "effect R (rpc_get_wallet_keys b)"
  "effect R rpc_list_webhooks"
  subgoal unfolding effect_def using new_wallet by blast
  by (unfold rpc_shared_with_me_def rpc_get_shared_secret_def rpc_decapsulate_shared_def rpc_list_wallets_def
        rpc_get_wallet_keys_def rpc_list_webhooks_def; intro R_query R_guarded)+

lemma protected_table: "entry_ok (effect R) ''qv_sendRawTransaction'' (protected_methods X)"
  unfolding protected_methods_def entry_ok_simps
  by (intro conjI; (rule disjI1, rule refl)?; (rule disjI2)?; (rule TrueI)?; intro allI;
      rule R_sends R_share R_hook R_reads)

lemma R_protected:
  "(name, m) \<in> set (protected_methods X) \<Longrightarrow> name \<noteq> ''qv_sendRawTransaction'' \<Longrightarrow> effect R (rm_code m a)"
  by (rule entry_okD[OF protected_table])

lemma R_public: "(name, m) \<in> set (public_methods X) \<Longrightarrow> effect R (rm_code m a)"
  using public_idle unchanged rooted unfolding effect_def idle_def by metis

end

section \<open>Requests\<close>

lemma method_lookup:
  assumes "dget (rpc_methods X) name = Some m"
  shows "(name, m) \<in> set (public_methods X) \<or> (name, m) \<in> set (protected_methods X)"
  using map_of_SomeD[OF assms] by (auto simp: rpc_methods_def)

lemma call_method_runs:
  assumes "call_method m rid params S = Some (ans, T)"
  shows "T = S \<or> (\<exists>a v. rm_code m a S = Some (v, T))"
  using assms by (auto simp: call_method_def split: sum.splits option.splits prod.splits)

lemma is_str_PStr: "is_str v \<Longrightarrow> PStr (str_of_py v) = v"
  by (cases v) simp_all

text \<open>A request changes the state only by running a method it may run.\<close>

lemma exec_request_cases:
  assumes "exec_request X C token req S = Some (r, T)"
  obtains (nothing) "T = S"
  | (run) name m a v where "dget (rpc_methods X) name = Some m" "rm_code m a S = Some (v, T)"
      "name \<in> set PROTECTED_METHODS \<longrightarrow> token = rc_token C"
      "PStr name = dget_or (dict_of_py req) ''method'' (PStr [])"
proof -
  have "T = S \<or> (\<exists>name m rid params ans. PStr name = dget_or (dict_of_py req) ''method'' (PStr [])
      \<and> dget (rpc_methods X) name = Some m \<and> call_method m rid params S = Some (ans, T)
      \<and> (name \<in> set PROTECTED_METHODS \<longrightarrow> token = rc_token C))"
    using assms compare_digest_True[of token "rc_token C"] is_str_PStr
    by (fastforce simp: exec_request_def Let_def split: if_splits option.splits sum.splits bool.splits)
  then show ?thesis using that call_method_runs by metis
qed

text \<open>The method the table lemmas leave out.\<close>

lemma raw_entry:
  "(''qv_sendRawTransaction'', m) \<in> set (protected_methods X) \<Longrightarrow> rm_code m a = rpc_send_raw_tx X (a ''tx_data'')"
  by (simp add: protected_methods_def reads_def)

text \<open>The two lists the code keeps apart agree.\<close>

lemma protected_names [simp]: "set (dkeys (protected_methods X)) = set PROTECTED_METHODS"
  "set (dkeys (public_methods X)) \<inter> set PROTECTED_METHODS = {}"
  by (auto simp: protected_methods_def public_methods_def PROTECTED_METHODS_def)

section \<open>What a request may do to the chain\<close>

text \<open>
  A method that sends: one transaction, in the name of a wallet of the node, with its key and the next
  nonce of its address, which the pool has accepted.
\<close>

definition submission :: "world \<Rightarrow> fullnode \<Rightarrow> exn + pyval \<Rightarrow> fullnode \<Rightarrow> bool" where
  "submission X S v T \<longleftrightarrow>
     fn_chain T = fn_chain S \<or> fn_chain T = snd (state_root (wd_env X) (fn_chain S))
     \<or> (\<exists>w tx. w \<in> snd ` set (fn_wallets S) \<and> tx_sender tx = w_address w \<and> tx_pubkey tx = w_signing_pk w
          \<and> tx_nonce tx = next_nonce (fn_chain S) (w_address w)
          \<and> submit_tx (wd_env X) (int_time X) tx (fn_chain S) = (Ok (tx_id (wd_env X) tx), fn_chain T))"

lemma gossip_chain: "fn_chain (gossip X t d e S) = fn_chain S"
  by (simp add: gossip_def on_p2p_def)

lemma ws_notify_chain: "fn_chain (ws_notify_tx X tx S) = fn_chain S"
  by (simp add: ws_notify_tx_def ws_broadcast_def split: prod.splits)

lemma submit_and_tell_chain:
  assumes "submit_and_tell X notify tx S = (v, T)"
  shows "fn_chain T = fn_chain S
    \<or> submit_tx (wd_env X) (int_time X) tx (fn_chain S) = (Ok (tx_id (wd_env X) tx), fn_chain T)"
proof -
  obtain r c where s: "submit_tx (wd_env X) (int_time X) tx (fn_chain S) = (r, c)" by fastforce
  show ?thesis
    using assms s submit_cases[OF s]
    by (auto simp: submit_and_tell_def Let_def gossip_chain ws_notify_chain split: outcome.splits if_splits)
qed

lemma sign_with_fields: "sign_with N w tx = Inr tx' \<Longrightarrow> tx_sender tx' = tx_sender tx \<and> tx_nonce tx' = tx_nonce tx
    \<and> tx_pubkey tx' = w_signing_pk w"
  by (auto simp: sign_with_def and_then_Inr)

lemma lock_for_chain: "fn_chain (snd (lock_for a S)) = fn_chain S"
  by (auto simp: lock_for_def split: option.splits)

lemma wallet_and_fees_wallet: "wallet_and_fees X a test mf mp S = Inr (w, f, p) \<Longrightarrow> w \<in> snd ` set (fn_wallets S)"
  by (force simp: wallet_and_fees_def get_wallet_def and_then_Inr unless_raise_Inr
      split: option.splits outcome.splits dest: map_of_SomeD)

lemma submission_sent:
  assumes r: "submit_with X notify address test mf mp mk result S = Some (v, T)"
    and mk: "\<And>w n f p now. tx_sender (mk w n f p now) = w_address w \<and> tx_nonce (mk w n f p now) = n"
  shows "submission X S v T"
proof (cases "wallet_and_fees X address test mf mp S")
  case (Inr wfp)
  obtain w f p where [simp]: "wfp = (w, f, p)" by (cases wfp)
  have w: "w \<in> snd ` set (fn_wallets S)" using Inr wallet_and_fees_wallet by simp
  obtain e U where l: "lock_for (w_address w) S = (e, U)" by fastforce
  then have c: "fn_chain U = fn_chain S" using lock_for_chain[of "w_address w" S] by simp
  show ?thesis
  proof (cases "e = None \<and> (\<exists>tx. sign_with (wd_net X) w (mk w (next_nonce (fn_chain U) (w_address w)) f p (int_time X)) = Inr tx)")
    case True
    then obtain tx where tx: "sign_with (wd_net X) w (mk w (next_nonce (fn_chain U) (w_address w)) f p (int_time X)) = Inr tx" by blast
    obtain x V where t: "submit_and_tell X notify tx U = (x, V)" by fastforce
    then have "T = V" using r Inr l True tx by (auto simp: submit_with_def submit_built_def split: sum.splits)
    then show ?thesis
      using submit_and_tell_chain[OF t] w sign_with_fields[OF tx] mk c by (auto simp: submission_def)
  next
    case False
    then have "fn_chain T = fn_chain S"
      using r Inr l c by (auto simp: submit_with_def submit_built_def split: sum.splits option.splits)
    then show ?thesis by (simp add: submission_def)
  qed
qed (use r in \<open>simp add: submit_with_def submission_def\<close>)

interpretation rpc_submissions: rpc_effect X "submission X" for X
  by unfold_locales
    (auto simp: submission_sent[simplified] store_shared_secret_def rpc_new_wallet_def Let_def
      split: prod.splits, auto simp: submission_def on_chain_state_def Let_def)


section \<open>Posts\<close>

lemma not_None_pair:
  assumes "x \<noteq> None"
  obtains (pair) a b where "x = Some (a, b)"
  using assms by (cases x) auto

text \<open>What holds of every request holds of a body of them: at most \<open>MAX_RPC_BATCH\<close>, in order.\<close>

lemma post_cases:
  assumes step: "\<And>k r a S T. exec_request (X k) C token r S = Some (a, T) \<Longrightarrow> Q 1 S T"
    and none: "\<And>n S. Q n S S" and trans: "\<And>m n S T U. Q m S T \<Longrightarrow> Q n T U \<Longrightarrow> Q (m + n) S U"
    and mono: "\<And>m n S T. m \<le> n \<Longrightarrow> Q m S T \<Longrightarrow> Q n S T"
    and post: "handle_post X C auth raw S = Some (ans, T)" and token: "token = bearer_token auth"
  shows "Q MAX_RPC_BATCH S T"
proof -
  have batch: "exec_batch Y C token rs S = Some (a, T) \<Longrightarrow> (\<And>k. Y k \<in> range X) \<Longrightarrow> Q (length rs) S T" for Y rs S T a
  proof (induction rs arbitrary: Y S T a)
    case (Cons r rs)
    have e: "exec_request (Y 0) C token r S \<noteq> None" using Cons.prems(1) by (auto split: option.splits)
    obtain k where k: "Y 0 = X k" using Cons.prems(2)[of 0] by blast
    show ?case
      using e
    proof (cases rule: not_None_pair)
      case (pair b U)
      then have u: "Q 1 S U" using step k by simp
      show ?thesis
      proof (cases b)
        case (Inl x)
        then have "T = U" using Cons.prems(1) pair by simp
        then show ?thesis using mono[OF _ u] by simp
      next
        case (Inr x)
        then obtain c where "exec_batch (\<lambda>k. Y (Suc k)) C token rs U = Some (c, T)"
          using Cons.prems(1) pair by (auto split: option.splits prod.splits sum.splits)
        then have "Q (length rs) U T" by (rule Cons.IH) (use Cons.prems(2) in simp)
        then show ?thesis using trans[OF u] by simp
      qed
    qed
  qed (simp add: none)
  have one: "Q MAX_RPC_BATCH S T" if "exec_request (X 0) C token r S = Some (a, T)" for r a
    using mono[OF _ step[OF that]] by (simp add: MAX_RPC_BATCH_def)
  have many: "Q MAX_RPC_BATCH S T" if "exec_batch X C token rs S = Some (a, T)" "length rs \<le> MAX_RPC_BATCH" for rs a
    using mono[OF that(2) batch[OF that(1)]] by simp
  show ?thesis
    using post none one many unfolding token
    by (auto simp: handle_post_def Let_def split: if_splits option.splits pyval.splits)
qed

text \<open>Nothing but the root cache of the state trie has changed.\<close>

definition caches_only :: "fullnode \<Rightarrow> fullnode \<Rightarrow> bool" where
  "caches_only S T \<longleftrightarrow>
     (\<exists>t. entries t = entries (state_trie (fn_chain S)) \<and> T = S\<lparr>fn_chain := (fn_chain S)\<lparr>state_trie := t\<rparr>\<rparr>)"

lemma caches_refl: "caches_only S S"
  unfolding caches_only_def by (rule exI[of _ "state_trie (fn_chain S)"]) simp

lemma caches_trans: "caches_only S T \<Longrightarrow> caches_only T U \<Longrightarrow> caches_only S U"
  by (auto simp: caches_only_def)

lemma state_root_caches: "caches_only S (on_chain_state (\<lambda>s. snd (state_root E s)) S)"
proof -
  have "entries (snd (trie_root h t)) = entries t" for h t
    by (simp add: trie_root_def Let_def split: option.split bool.split)
  then show ?thesis
    unfolding caches_only_def on_chain_state_def state_root_def
    by (intro exI[of _ "snd (trie_root (sha3 E) (state_trie (fn_chain S)))"]) (simp add: case_prod_beta Let_def)
qed

lemma table_public: "dget (rpc_methods X) name = Some m \<Longrightarrow> name \<notin> set PROTECTED_METHODS \<Longrightarrow> (name, m) \<in> set (public_methods X)"
  using method_lookup[of X name m] protected_names(1)[of X] by (metis fst_conv image_eqI list.set_map)

lemma request_without_token:
  assumes "exec_request X C token req S = Some (r, T)" "token \<noteq> rc_token C"
  shows "caches_only S T"
  using assms(1)
proof (cases rule: exec_request_cases)
  case (run name m a v)
  then have "effect (idle X) (rm_code m a)" using public_idle table_public assms(2) by blast
  then show ?thesis using effectD[of "idle X" "rm_code m a" S v T] run(2) caches_refl state_root_caches by (auto simp: idle_def)
qed (simp add: caches_refl)

section \<open>What a post may submit\<close>

text \<open>At most \<open>n\<close> transactions have joined the pool, all with valid signatures; the chain itself is as it was.\<close>

definition only_submits :: "env \<Rightarrow> nat \<Rightarrow> fullnode \<Rightarrow> fullnode \<Rightarrow> bool" where
  "only_submits E n S T \<longleftrightarrow>
     (\<exists>txs. tx_pool (fn_chain T) = tx_pool (fn_chain S) @ txs \<and> length txs \<le> n \<and> list_all (tx_verify E) txs)
     \<and> core_view (fn_chain T) = core_view (fn_chain S)"

lemma only_submits_same: "fn_chain T = fn_chain S \<Longrightarrow> only_submits E n S T"
  by (simp add: only_submits_def)

lemma only_submits_trans: "only_submits E m S T \<Longrightarrow> only_submits E n T U \<Longrightarrow> only_submits E (m + n) S U"
  unfolding only_submits_def by (fastforce simp: add_mono)

lemma only_submits_mono: "m \<le> n \<Longrightarrow> only_submits E m S T \<Longrightarrow> only_submits E n S T"
  unfolding only_submits_def by (meson le_trans)

lemma root_view:
  "core_view (snd (state_root E s)) = core_view s" "tx_pool (snd (state_root E s)) = tx_pool s"
  by (simp_all add: state_root_def Let_def core_view_def fin_view_def stake_view_def token_view_def index_view_def case_prod_beta)

lemma only_submits_root: "fn_chain T = snd (state_root E' (fn_chain S)) \<Longrightarrow> only_submits E n S T"
  by (simp add: only_submits_def root_view)

lemma only_submits_tx:
  assumes "submit_tx E now tx (fn_chain S) = (Ok tid, fn_chain T)"
  shows "only_submits E 1 S T"
proof -
  have s: "list_all is_ok (submit_checks E (fn_chain S) now tx)" "fn_chain T = pool_push E tx (fn_chain S)"
    using submit_cases[OF assms] by simp_all
  then have "tx_verify E tx" by (simp add: submit_checks_def basic_admission_def Let_def reject_if_def split: if_splits)
  moreover have "tx_pool (fn_chain T) = tx_pool (fn_chain S) @ [tx]" using s(2) by (simp add: pool_push_def Let_def)
  ultimately show ?thesis using core_submit[OF assms] by (simp add: only_submits_def)
qed

lemma only_submits_submission: "submission X S v T \<Longrightarrow> only_submits (wd_env X) 1 S T"
  unfolding submission_def using only_submits_same only_submits_root only_submits_tx by blast

lemma raw_tx_submits:
  assumes "rpc_send_raw_tx X d S = Some (v, T)"
  shows "only_submits (wd_env X) 1 S T"
proof -
  have "fn_chain T = fn_chain S \<or> (\<exists>tx. submit_tx (wd_env X) (int_time X) tx (fn_chain S) = (Ok (tx_id (wd_env X) tx), fn_chain T))"
    using assms submit_and_tell_chain lock_for_chain
    by (auto simp: rpc_send_raw_tx_def guarded_def split: outcome.splits option.splits sum.splits prod.splits)
      (metis snd_conv)+
  then show ?thesis using only_submits_same only_submits_tx by blast
qed

lemma request_submits:
  assumes "exec_request X C token req S = Some (r, T)"
  shows "only_submits (wd_env X) 1 S T"
  using assms
proof (cases rule: exec_request_cases)
  case (run name m a v)
  have "(name, m) \<in> set (public_methods X) \<or> (name, m) \<in> set (protected_methods X)" by (rule method_lookup[OF run(1)])
  then consider "effect (submission X) (rm_code m a)" | "rm_code m a = rpc_send_raw_tx X (a ''tx_data'')"
    using rpc_submissions.R_public rpc_submissions.R_protected raw_entry by blast
  then show ?thesis
  proof cases
    case 1
    then show ?thesis using effectD[of "submission X" "rm_code m a" S v T] run(2) only_submits_submission by blast
  qed (use raw_tx_submits run(2) in simp)
qed (simp add: only_submits_same)

text \<open>A request for any other method than \<open>qv_sendRawTransaction\<close>.\<close>

lemma request_submission:
  assumes "exec_request X C token req S = Some (r, T)"
    and "dget_or (dict_of_py req) ''method'' (PStr []) \<noteq> PStr ''qv_sendRawTransaction''"
  shows "submission X S v T"
  using assms(1)
proof (cases rule: exec_request_cases)
  case (run name m a u)
  have "(name, m) \<in> set (public_methods X) \<or> (name, m) \<in> set (protected_methods X)" by (rule method_lookup[OF run(1)])
  then have "effect (submission X) (rm_code m a)"
    using rpc_submissions.R_public rpc_submissions.R_protected run(4) assms(2) by metis
  then have "submission X S u T" using effectD[of "submission X" "rm_code m a" S u T] run(2) by blast
  then show ?thesis by (simp add: submission_def)
qed (simp add: submission_def)

end
