(* ===== verification/RestProps.thy ===== *)
theory RestProps
  imports RpcProps
begin

text \<open>
  What REST requests do to a node. The effects of the RPC methods carry over: a handler runs one of them
  or only looks at the state, so a relation that the locale \<open>rpc_effect\<close> accepts holds of every route.
\<close>

section \<open>Effects of handlers\<close>

definition rest_effect :: "(fullnode \<Rightarrow> exn + pyval \<Rightarrow> fullnode \<Rightarrow> bool) \<Rightarrow> rest_call \<Rightarrow> bool" where
  "rest_effect R k \<longleftrightarrow> (\<forall>S a T. k S = Some (a, T) \<longrightarrow> (\<exists>v. R S v T))"

lemma rest_effectD: "rest_effect R k \<Longrightarrow> k S = Some (a, T) \<Longrightarrow> \<exists>v. R S v T"
  by (simp add: rest_effect_def)

lemma rest_effect_finish: "effect R k \<Longrightarrow> rest_effect R (finish failed shape k)"
  unfolding effect_def rest_effect_def finish_def by (fastforce split: option.splits prod.splits sum.splits)

lemma rest_effect_asks: "effect R k \<Longrightarrow> rest_effect R (asked_of shape k)"
  "effect R k \<Longrightarrow> rest_effect R (shielded shape k)" "effect R k \<Longrightarrow> rest_effect R (exposed shape k)"
  by (simp_all add: asked_of_def shielded_def exposed_def rest_effect_finish)

lemma rest_effect_if: "rest_effect R k \<Longrightarrow> rest_effect R h \<Longrightarrow> rest_effect R (\<lambda>S. if P S then k S else h S)"
  by (simp add: rest_effect_def)

text \<open>All that the building blocks of the handlers ask of a relation.\<close>

locale still =
  fixes R :: "fullnode \<Rightarrow> exn + pyval \<Rightarrow> fullnode \<Rightarrow> bool"
  assumes unchanged_still: "R S v S"
begin

lemma R_say: "rest_effect R (say a)"
  by (auto simp: rest_effect_def say_def intro: unchanged_still)

lemma R_look: "rest_effect R (look f)"
  by (auto simp: rest_effect_def look_def intro: unchanged_still)

lemma R_demand: "rest_effect R k \<Longrightarrow> rest_effect R (demand cs k)"
proof (induction cs)
  case (Cons c cs)
  obtain bad t where "c = (bad, t)" by fastforce
  then show ?case using Cons unchanged_still by (auto simp: rest_effect_def)
qed (simp add: rest_effect_def)

lemma R_must_match: "(\<And>x. rest_effect R (k x)) \<Longrightarrow> rest_effect R (must_match rq name text k)"
  by (simp add: must_match_def R_demand)

lemma R_pages:
  "(\<And>p l. rest_effect R (k p l)) \<Longrightarrow> rest_effect R (parse_pagination rq k)"
  "(\<And>p l. rest_effect R (k p l)) \<Longrightarrow> rest_effect R (parse_token_pagination rq k)"
  by (simp_all add: parse_pagination_def parse_token_pagination_def Let_def R_demand)

lemma R_bodies:
  "(\<And>d. rest_effect R (k d)) \<Longrightarrow> rest_effect R (with_body text rq k)"
  "(\<And>d. rest_effect R (k d)) \<Longrightarrow> rest_effect R (with_any_body rq k)"
  by (simp_all add: with_body_def with_any_body_def R_say split: option.split)

end

interpretation idle_still: still "idle X" for X
  by unfold_locales (simp add: idle_def)

sublocale rpc_effect \<subseteq> still R
  by unfold_locales (rule unchanged)

section \<open>Every route\<close>

definition routes_ok :: "(rest_call \<Rightarrow> bool) \<Rightarrow> route \<Rightarrow> (route, rest_request \<Rightarrow> rest_call) dict \<Rightarrow> bool" where
  "routes_ok Q skip rs \<longleftrightarrow> list_all (\<lambda>(r, h). r = skip \<or> (\<forall>rq. Q (h rq))) rs"

lemma routes_ok_simps:
  "routes_ok Q skip [] = True"
  "routes_ok Q skip (on_get p h # rs) = (((''GET'', p) = skip \<or> (\<forall>rq. Q (h rq))) \<and> routes_ok Q skip rs)"
  "routes_ok Q skip (on_post p h # rs) = (((''POST'', p) = skip \<or> (\<forall>rq. Q (h rq))) \<and> routes_ok Q skip rs)"
  "routes_ok Q skip (on_delete p h # rs) = (((''DELETE'', p) = skip \<or> (\<forall>rq. Q (h rq))) \<and> routes_ok Q skip rs)"
  by (simp_all add: routes_ok_def on_get_def on_post_def on_delete_def)

lemma routes_okD: "routes_ok Q skip rs \<Longrightarrow> (r, h) \<in> set rs \<Longrightarrow> r \<noteq> skip \<Longrightarrow> Q (h rq)"
  by (fastforce simp: routes_ok_def list_all_iff)

lemma idle_state_proof: "rest_effect (idle X) (state_proof_of X rq key)"
  unfolding state_proof_of_def Let_def
  by (rule idle_still.R_demand) (auto simp: rest_effect_def intro: idle_proof idle_still.unchanged_still)

lemma idle_state_proof_by_key: "rest_effect (idle X) (rest_state_proof_by_key X auth_token rq)"
  unfolding rest_state_proof_by_key_def
  by (rule idle_still.R_must_match) (auto simp: idle_state_proof idle_still.R_say split: sum.split bool.split)

lemmas read_handler_defs =
  rest_info_def rest_health_def rest_readiness_def rest_list_blocks_def rest_latest_block_def rest_block_by_index_def
  rest_block_by_hash_def rest_get_tx_def rest_txs_by_sender_def rest_address_info_def rest_notarization_proof_def
  rest_pool_summary_def rest_pool_count_def rest_state_proof_def rest_get_balance_def rest_get_receipt_def
  rest_get_events_def rest_validator_stake_def rest_verify_def rest_list_tokens_def rest_get_token_def
  rest_get_token_holders_def rest_get_address_tokens_def rest_list_headers_def rest_get_header_def rest_receipt_proof_def
  rest_validators_def rest_all_stakes_def rest_current_epoch_def rest_slashing_events_def rest_state_root_def
  rest_get_supply_def rest_get_fee_info_def rest_get_finalized_def

lemmas idle_parts =
  idle_still.R_say idle_still.R_look idle_still.R_demand idle_still.R_must_match idle_still.R_pages idle_still.R_bodies
  rest_effect_asks rest_effect_if idle_root idle_proofs idle_state_proof_by_key

lemma public_routes_idle: "routes_ok (rest_effect (idle X)) ([], []) (public_routes X auth_token)"
  unfolding public_routes_def routes_ok_simps read_handler_defs Let_def
  by (intro conjI; (rule disjI2)?; (rule TrueI)?; intro allI; intro idle_parts;
      (unfold public_defs)?; intro idle_query idle_guarded)

context rpc_effect
begin

lemma R_rest_webhooks: "rest_effect R (rest_register_webhook X rq)" "rest_effect R (rest_delete_webhook rq)"
proof -
  have reg: "R S v (S\<lparr>fn_hooks := snd (register_hook (wd_classify X) (wd_hex X) t url evs sec (fn_hooks S))\<rparr>)"
    for S v t url evs sec
    by (rule hooked) (use hook_step.Register in blast)
  show "rest_effect R (rest_register_webhook X rq)"
    unfolding rest_register_webhook_def Let_def
    by (intro R_bodies R_demand rest_effect_asks) (auto simp: effect_def split: prod.splits sum.splits, (metis reg snd_conv)+)
  have del: "R S v (S\<lparr>fn_hooks := snd (delete_hook i (fn_hooks S))\<rparr>)" for S v i
    by (rule hooked) (use hook_step.Delete in blast)
  show "rest_effect R (rest_delete_webhook rq)"
    unfolding rest_delete_webhook_def
    by (intro R_must_match rest_effect_asks) (auto simp: effect_def split: prod.splits sum.splits, (metis del snd_conv)+)
qed

lemma protected_routes_effect: "routes_ok (rest_effect R) (''POST'', ''/txs'') (protected_routes X)"
  unfolding protected_routes_def routes_ok_simps rest_transfer_def rest_submit_evidence_def rest_notarize_def rest_store_def
    rest_share_def rest_register_validator_def rest_stake_def rest_delegate_def rest_unstake_def rest_staking_def
    rest_issue_token_def rest_mint_token_def rest_transfer_token_def rest_list_webhooks_def rest_create_wallet_def
    rest_list_wallets_def Let_def
  by (intro conjI; (rule disjI1, rule refl)?; (rule disjI2)?; (rule TrueI)?; intro allI;
      intro R_rest_webhooks R_bodies R_demand rest_effect_asks rest_effect_finish R_sends R_share R_reads)

lemma R_idle: "rest_effect (idle X) k \<Longrightarrow> rest_effect R k"
  unfolding rest_effect_def idle_def using unchanged rooted by metis

end

section \<open>Requests\<close>

lemma finish_runs: "finish failed shape k S = Some (a, T) \<Longrightarrow> \<exists>v. k S = Some (v, T)"
  by (auto simp: finish_def split: option.splits prod.splits sum.splits)

lemma raw_route:
  assumes "rest_submit_tx X rq S = Some (a, T)"
  shows "T = S \<or> (\<exists>d v. rpc_send_raw_tx X d S = Some (v, T))"
  using assms finish_runs by (fastforce simp: rest_submit_tx_def with_body_def say_def asked_of_def split: option.splits if_splits)

text \<open>No path is in both tables, so the list of public paths and the routes agree.\<close>

definition PROTECTED_PATHS :: "string list" where
  "PROTECTED_PATHS =
      [''/webhooks'', ''/webhooks'', ''/webhooks/{id}'', ''/transfer'', ''/txs'', ''/evidence'',
       ''/wallets'', ''/wallets'', ''/notarize'', ''/store'', ''/share'', ''/register-validator'',
       ''/stake'', ''/delegate'', ''/unstake'', ''/issue-token'', ''/mint-token'', ''/transfer-token'']"

lemma protected_path_list: "map (\<lambda>(r, h). snd r) (protected_routes X) = PROTECTED_PATHS"
  by (simp add: protected_routes_def on_get_def on_post_def on_delete_def PROTECTED_PATHS_def)

lemma protected_not_public: "list_all (\<lambda>p. p \<notin> set PUBLIC_ROUTES) PROTECTED_PATHS"
  by code_simp

lemma protected_paths: "(r, h) \<in> set (protected_routes X) \<Longrightarrow> snd r \<notin> set PUBLIC_ROUTES"
  using protected_not_public unfolding protected_path_list[of X, symmetric] list_all_iff by fastforce

lemma public_paths: "(r, h) \<in> set (public_routes X auth_token) \<Longrightarrow> snd r \<in> set PUBLIC_ROUTES \<and> r \<noteq> ([], [])"
  by (auto simp: public_routes_def on_get_def on_post_def PUBLIC_ROUTES_def)

lemma raw_route_handler: "((''POST'', ''/txs''), h) \<in> set (protected_routes X) \<Longrightarrow> h = rest_submit_tx X"
  by (auto simp: protected_routes_def on_get_def on_post_def on_delete_def)

lemma public_route_idle: "(r, h) \<in> set (public_routes X auth_token) \<Longrightarrow> rest_effect (idle X) (h rq)"
  using routes_okD[OF public_routes_idle] public_paths by blast

text \<open>A request changes the state only by running the handler of a route it may use.\<close>

lemma rest_serve_cases:
  assumes "rest_serve X C rq S = Some (r, T)"
  obtains (nothing) "T = S"
  | (idle) h a where "rest_effect (idle X) h" "h S = Some (a, T)"
  | (change) route h a where "(route, h) \<in> set (protected_routes X)" "h rq S = Some (a, T)"
      "rest_check_auth (rs_token C) (rq_auth rq) = Inr True" "route = (route_method rq, the (route_path rq))"
proof -
  have "T = S \<or> (\<exists>a. auth_middleware C rq (rest_handler X C rq) S = Some (a, T))"
    using assms by (auto simp: rest_serve_def cors_middleware_def split: if_splits)
  then have "T = S \<or> (\<exists>a. rest_handler X C rq S = Some (a, T)
      \<and> (route_path rq \<notin> Some ` set PUBLIC_ROUTES \<longrightarrow> rest_check_auth (rs_token C) (rq_auth rq) = Inr True))"
    by (auto simp: auth_middleware_def say_def split: if_splits sum.splits bool.splits)
  then have "T = S \<or> (\<exists>path h a. route_path rq = Some path \<and> dget (rest_routes X (rs_token C)) (route_method rq, path) = Some h
      \<and> h rq S = Some (a, T) \<and> (path \<notin> set PUBLIC_ROUTES \<longrightarrow> rest_check_auth (rs_token C) (rq_auth rq) = Inr True))"
    by (auto simp: rest_handler_def say_def split: option.splits bind_splits)
  then consider "T = S" | path h a where "route_path rq = Some path"
      "dget (rest_routes X (rs_token C)) (route_method rq, path) = Some h" "h rq S = Some (a, T)"
      "path \<notin> set PUBLIC_ROUTES \<longrightarrow> rest_check_auth (rs_token C) (rq_auth rq) = Inr True" by blast
  then show ?thesis
  proof cases
    case (2 path h a)
    from map_of_SomeD[OF 2(2)] consider
      "((route_method rq, path), h) \<in> set (public_routes X (rs_token C))"
      | "((route_method rq, path), h) \<in> set (protected_routes X)" by (auto simp: rest_routes_def)
    then show ?thesis
      by cases (use 2 public_route_idle that(2) that(3) protected_paths in fastforce)+
  qed (rule that(1))
qed

lemma idle_caches: "idle X S v T \<Longrightarrow> caches_only S T"
  using caches_refl state_root_caches by (auto simp: idle_def)

lemma rest_without_token:
  assumes "rest_serve X C rq S = Some (r, T)" "rest_check_auth (rs_token C) (rq_auth rq) \<noteq> Inr True"
  shows "caches_only S T"
  using assms(1) by (cases rule: rest_serve_cases) (use assms(2) caches_refl idle_caches rest_effectD in blast)+

lemma rest_submission:
  assumes "rest_serve X C rq S = Some (r, T)" "(route_method rq, route_path rq) \<noteq> (''POST'', Some ''/txs'')"
  shows "\<exists>v. submission X S v T"
  using assms(1)
proof (cases rule: rest_serve_cases)
  case (idle h a)
  then show ?thesis using rpc_submissions.R_idle rest_effectD by blast
next
  case (change route h a)
  show ?thesis
  proof (cases "route = (''POST'', ''/txs'')")
    case False
    then show ?thesis using routes_okD[OF rpc_submissions.protected_routes_effect change(1)] change(2) rest_effectD by blast
  next
    case True
    then have "route_path rq = None" using assms(2) change(4) by (cases "route_path rq") auto
    then show ?thesis using assms(1) by (auto simp: submission_def rest_serve_def cors_middleware_def auth_middleware_def
        rest_handler_def say_def split: if_splits sum.splits bool.splits)
  qed
qed (simp add: submission_def)

lemma rest_submits:
  assumes "rest_serve X C rq S = Some (r, T)"
  shows "only_submits (wd_env X) 1 S T"
  using assms
proof (cases rule: rest_serve_cases)
  case (idle h a)
  then show ?thesis using rpc_submissions.R_idle rest_effectD only_submits_submission by blast
next
  case (change route h a)
  show ?thesis
  proof (cases "route = (''POST'', ''/txs'')")
    case False
    then show ?thesis
      using routes_okD[OF rpc_submissions.protected_routes_effect change(1)] change(2) rest_effectD only_submits_submission by blast
  next
    case True
    then have "h = rest_submit_tx X" using change(1) raw_route_handler by blast
    then show ?thesis using raw_route change(2) raw_tx_submits only_submits_same by metis
  qed
qed (simp add: only_submits_same)

lemma rest_refused:
  assumes "rest_serve X C rq S = Some (r, T)"
  shows "rest_check_auth (rs_token C) (rq_auth rq) = Inr False \<and> rq_method rq \<noteq> ''OPTIONS''
      \<and> route_path rq \<notin> Some ` set PUBLIC_ROUTES \<longrightarrow> fst r = Err 401 ''authentication required'' \<and> T = S"
  using assms by (auto simp: rest_serve_def cors_middleware_def auth_middleware_def say_def split: if_splits)

section \<open>Pages of tokens\<close>

text \<open>
  The pages start where the offset, rounded down to a multiple of the limit, says. Holders are served
  by at most 100, so that beyond a limit of 100 a page does not start at the offset and the pages leave gaps.
\<close>

lemma token_page_start: "(token_page offset n - 1) * n = offset - offset mod n"
  by (simp add: token_page_def minus_mod_eq_div_mult)

lemma token_pages_disagree:
  "token_page 150 100 = token_page 100 100" "token_page 1000 1000 = 2"
  by (simp_all add: token_page_def)

lemma holders_page_capped:
  assumes "get_token_holders s tid (token_page offset n) n = (holders, whole)" "1 \<le> n" "0 \<le> offset"
  shows "length holders \<le> 100"
  using assms by (auto simp: get_token_holders_def Let_def TOKEN_HOLDER_MAX_PAGE_def max_def min_def)

end
