(* ===== verification/P2PProps.thy ===== *)
theory P2PProps
  imports P2PLoop
begin

text \<open>
  What the handshake guarantees and what it does not. The invariant of a node: a connection counts as
  authenticated only after a signature, by the key it is recorded under, over a challenge this node
  sent on that connection; a challenge is used up by the answer to it. Then two honest nodes come out
  of the handshake authenticated with one session key, and the same steps show what the signed
  message leaves open.
\<close>

section \<open>Frames\<close>

lemma upd_fields [simp]:
  "pn_peer (upd i f S) = (pn_peer S)(i := f (pn_peer S i))" "pn_sent (upd i f S) = pn_sent S"
  "pn_validators (upd i f S) = pn_validators S" "pn_next (upd i f S) = pn_next S"
  "pn_peers (upd i f S) = pn_peers S" "pn_address (upd i f S) = pn_address S"
  "pn_signing_sk (upd i f S) = pn_signing_sk S" "pn_signing_pk (upd i f S) = pn_signing_pk S"
  "pn_encryption_sk (upd i f S) = pn_encryption_sk S" "pn_encryption_pk (upd i f S) = pn_encryption_pk S"
  "pn_id (upd i f S) = pn_id S" "pn_port (upd i f S) = pn_port S" "pn_host (upd i f S) = pn_host S"
  "pn_reputation (upd i f S) = pn_reputation S" "pn_limiter (upd i f S) = pn_limiter S"
  "pn_attempts (upd i f S) = pn_attempts S"
  by (simp_all add: upd_def)

text \<open>What no operation on the connections changes: the identity of the node and its validators.\<close>

definition identity :: "p2p_node \<Rightarrow> string \<times> secure_bytes \<times> bytes \<times> string \<times> secure_bytes \<times> bytes \<times> (string, bytes) dict" where
  "identity S = (pn_id S, pn_signing_sk S, pn_signing_pk S, pn_address S, pn_encryption_sk S,
                 pn_encryption_pk S, pn_validators S)"

lemma identityD:
  assumes "identity T = identity S"
  shows "pn_signing_sk T = pn_signing_sk S" "pn_signing_pk T = pn_signing_pk S" "pn_address T = pn_address S"
    "pn_encryption_sk T = pn_encryption_sk S" "pn_encryption_pk T = pn_encryption_pk S"
    "pn_validators T = pn_validators S"
  using assms by (auto simp: identity_def)

lemma identity_upd [simp]: "identity (upd i f S) = identity S"
  by (simp add: identity_def)

section \<open>The invariant\<close>

text \<open>The challenges a node has sent on a connection.\<close>

definition issued :: "(nat \<times> string \<times> fields) list \<Rightarrow> nat \<Rightarrow> bytes \<Rightarrow> bool" where
  "issued msgs i c \<longleftrightarrow>
     list_ex (\<lambda>(j, t, d). j = i \<and> (t = ''hello_auth'' \<and> dget d ''challenge'' = Some (PStr (hex c))
                               \<or> t = ''auth_response'' \<and> dget d ''counter_challenge'' = Some (PStr (hex c)))) msgs"

text \<open>The peer of connection \<open>i\<close> has shown that it holds the key it is recorded under.\<close>

definition proved_key :: "net \<Rightarrow> (nat \<times> string \<times> fields) list \<Rightarrow> nat \<Rightarrow> peer \<Rightarrow> bool" where
  "proved_key N msgs i p \<longleftrightarrow>
     pr_remote_address p = derive_address (net_env N) (pr_remote_pubkey p)
     \<and> (\<exists>c sig. length c = CHALLENGE_LEN \<and> issued msgs i c
          \<and> verify_sig (net_env N) (pr_remote_pubkey p) (build_auth_message c (pr_remote_address p)) sig)"

definition peer_ok :: "net \<Rightarrow> (string, bytes) dict \<Rightarrow> (nat \<times> string \<times> fields) list \<Rightarrow> nat \<Rightarrow> peer \<Rightarrow> bool" where
  "peer_ok N V msgs i p \<longleftrightarrow>
     (pr_challenge p \<noteq> [] \<longrightarrow>
        length (pr_challenge p) = CHALLENGE_LEN \<and> issued msgs i (pr_challenge p) \<and> \<not> pr_authenticated p)
     \<and> (pr_authenticated p \<longrightarrow> proved_key N msgs i p)
     \<and> (pr_is_validator p \<longrightarrow> pr_authenticated p \<and> dmem (pr_remote_address p) V)
     \<and> (pr_encrypted p \<longrightarrow> pr_authenticated p \<and> pr_session_key p \<noteq> None)"

definition node_ok :: "net \<Rightarrow> p2p_node \<Rightarrow> bool" where
  "node_ok N S \<longleftrightarrow> (\<forall>i. peer_ok N (pn_validators S) (pn_sent S) i (pn_peer S i))"

lemma issued_append: "issued msgs i c \<Longrightarrow> issued (msgs @ rest) i c"
  by (simp add: issued_def)

lemma proved_key_append: "proved_key N msgs i p \<Longrightarrow> proved_key N (msgs @ rest) i p"
  unfolding proved_key_def using issued_append by blast

lemma peer_ok_append: "peer_ok N V msgs i p \<Longrightarrow> peer_ok N V (msgs @ rest) i p"
  by (auto simp: peer_ok_def intro: proved_key_append issued_append)

lemma proved_key_updates [simp]:
  "proved_key N msgs i (pr_is_validator_update f p) = proved_key N msgs i p"
  "proved_key N msgs i (pr_challenge_update g p) = proved_key N msgs i p"
  "proved_key N msgs i (pr_session_key_update h p) = proved_key N msgs i p"
  "proved_key N msgs i (pr_encrypted_update f p) = proved_key N msgs i p"
  by (simp_all add: proved_key_def)

lemma proved_key_address: "proved_key N msgs i p \<Longrightarrow> pr_remote_address p = derive_address (net_env N) (pr_remote_pubkey p)"
  by (simp add: proved_key_def)

lemma new_peer_ok [simp]: "peer_ok N V msgs i (new_peer host port initiator)"
  by (simp add: peer_ok_def new_peer_def)

text \<open>A change of fields the invariant does not read.\<close>

definition auth_view :: "peer \<Rightarrow> bytes \<times> bool \<times> bytes \<times> string \<times> bool \<times> bool \<times> bytes option" where
  "auth_view p = (pr_challenge p, pr_authenticated p, pr_remote_pubkey p, pr_remote_address p,
                  pr_is_validator p, pr_encrypted p, pr_session_key p)"

lemma peer_ok_view: "auth_view p = auth_view q \<Longrightarrow> peer_ok N V msgs i p = peer_ok N V msgs i q"
  by (simp add: auth_view_def peer_ok_def proved_key_def)

lemma node_okD: "node_ok N S \<Longrightarrow> peer_ok N (pn_validators S) (pn_sent S) i (pn_peer S i)"
  by (simp add: node_ok_def)

lemma node_ok_upd:
  assumes "node_ok N S" and "peer_ok N (pn_validators S) (pn_sent S) i (f (pn_peer S i))"
  shows "node_ok N (upd i f S)"
  using assms by (simp add: node_ok_def)

lemma node_ok_upd_view:
  assumes "node_ok N S" and "auth_view (f (pn_peer S i)) = auth_view (pn_peer S i)"
  shows "node_ok N (upd i f S)"
  using assms peer_ok_view[OF assms(2)] by (simp add: node_ok_def)

lemma node_ok_cong:
  assumes "node_ok N S" and "pn_peer T = pn_peer S" "pn_validators T = pn_validators S" "pn_sent T = pn_sent S"
  shows "node_ok N T"
  using assms by (simp add: node_ok_def)

lemma node_ok_updates [simp]:
  "node_ok N (pn_peers_update f S) = node_ok N S" "node_ok N (pn_limiter_update g S) = node_ok N S"
  "node_ok N (pn_attempts_update h S) = node_ok N S" "node_ok N (pn_reputation_update k S) = node_ok N S"
  by (simp_all add: node_ok_def)

lemma send_cases:
  "send N i t d S = S \<or> send N i t d S = upd i (pr_connected_update (\<lambda>_. False)) S
   \<or> send N i t d S = S\<lparr>pn_sent := pn_sent S @ [(i, t, d)]\<rparr>"
  by (simp add: send_def)

lemma send_json: "pr_open (pn_peer S i) \<Longrightarrow> pr_wire (pn_peer S i) = ''json''
    \<Longrightarrow> send N i t d S = S\<lparr>pn_sent := pn_sent S @ [(i, t, d)]\<rparr>"
  by (simp add: send_def)

lemma identity_send [simp]: "identity (send N i t d S) = identity S"
  using send_cases[of N i t d S] by (auto simp: identity_def)

lemma send_view:
  "auth_view (pn_peer (send N i t d S) j) = auth_view (pn_peer S j)" "pn_peers (send N i t d S) = pn_peers S"
  "pn_next (send N i t d S) = pn_next S"
  using send_cases[of N i t d S] by (auto simp: auth_view_def split: if_splits)

lemma node_ok_send [intro]: "node_ok N S \<Longrightarrow> node_ok N (send N i t d S)"
proof -
  assume ok: "node_ok N S"
  have "node_ok N (upd i (pr_connected_update (\<lambda>_. False)) S)"
    by (rule node_ok_upd_view[OF ok]) (simp add: auth_view_def)
  moreover have "node_ok N (S\<lparr>pn_sent := pn_sent S @ [(i, t, d)]\<rparr>)"
    using ok by (simp add: node_ok_def peer_ok_append)
  ultimately show ?thesis using ok send_cases[of N i t d S] by metis
qed

section \<open>Every handler keeps the invariant\<close>

lemma node_ok_close: "node_ok N S \<Longrightarrow> node_ok N (close_peer j S)"
  unfolding close_peer_def by (rule node_ok_upd_view) (simp_all add: auth_view_def)

lemma node_ok_dedup: "node_ok N S \<Longrightarrow> node_ok N (snd (dedup_connection i S))"
proof -
  assume ok: "node_ok N S"
  have "node_ok N (drop_other k j S)" for k j
    unfolding drop_other_def
    by (intro node_ok_close node_ok_cong[OF ok]) simp_all
  then show ?thesis
    using ok by (auto simp: dedup_connection_def Let_def split: option.splits)
qed

lemma clear_challenge_ok:
  assumes "node_ok N S" shows "node_ok N (clear_challenge i S)"
proof -
  have "peer_ok N (pn_validators S) (pn_sent S) i (pn_peer S i)"
    using assms by (simp add: node_ok_def)
  then show ?thesis
    unfolding clear_challenge_def
    by (intro node_ok_upd[OF assms]) (auto simp: peer_ok_def)
qed

lemma validator_status_ok:
  assumes "node_ok N S" "pr_authenticated (pn_peer S i)"
  shows "node_ok N (check_validator_status N i S)"
proof -
  have p: "peer_ok N (pn_validators S) (pn_sent S) i (pn_peer S i)"
    using assms by (simp add: node_ok_def)
  show ?thesis
    using assms p
    by (auto simp: check_validator_status_def Let_def peer_ok_def proved_key_address intro!: node_ok_upd)
qed

lemma channel_ok:
  assumes "node_ok N S" "pr_authenticated (pn_peer S i)"
  shows "node_ok N (initiate_encrypted_channel N i S)"
proof -
  have step: "node_ok N (upd i (pr_encrypted_update (\<lambda>_. True))
      (send N i t d (upd i (pr_session_key_update (\<lambda>_. Some key)) S)))" for t d key
  proof -
    let ?S1 = "upd i (pr_session_key_update (\<lambda>_. Some key)) S"
    have ok: "node_ok N (send N i t d ?S1)"
      using assms(1) by (intro node_ok_send node_ok_upd) (auto simp: node_ok_def peer_ok_def)
    have v: "auth_view (pn_peer (send N i t d ?S1) i) = auth_view (pn_peer ?S1 i)"
      by (rule send_view)
    have p: "peer_ok N (pn_validators (send N i t d ?S1)) (pn_sent (send N i t d ?S1)) i (pn_peer (send N i t d ?S1) i)"
      using ok by (simp add: node_ok_def)
    show ?thesis
      using p v assms(2) by (intro node_ok_upd[OF ok]) (auto simp: peer_ok_def auth_view_def)
  qed
  then show ?thesis
    using assms(1)
    by (auto simp: initiate_encrypted_channel_def Let_def split: option.splits sum.splits)
qed

lemma negotiate_wire_ok: "node_ok N S \<Longrightarrow> node_ok N (negotiate_wire N i w S)"
  unfolding negotiate_wire_def by (rule node_ok_upd_view) (simp_all add: auth_view_def)

lemma store_views [simp]:
  "auth_view (store_encryption_pk d p) = auth_view p" "auth_view (store_node_id d p) = auth_view p"
  "auth_view (store_port d p) = auth_view p" "auth_view (pr_version_update f p) = auth_view p"
  "auth_view (pr_pending_wire_update g p) = auth_view p" "auth_view (pr_port_update g p) = auth_view p"
  "auth_view (pr_node_id_update g p) = auth_view p" "auth_view (pr_connected_update h p) = auth_view p"
  "auth_view (pr_open_update h p) = auth_view p" "auth_view (status_height v p) = auth_view p"
  by (auto simp: auth_view_def store_encryption_pk_def store_node_id_def store_port_def
        status_height_def Let_def split: option.splits)

lemma drop_other_view: "auth_view (pn_peer (drop_other k j S) i) = auth_view (pn_peer S i)"
  by (simp add: drop_other_def close_peer_def)

lemma dedup_view: "auth_view (pn_peer (snd (dedup_connection i S)) j) = auth_view (pn_peer S j)"
  by (auto simp: dedup_connection_def Let_def drop_other_view split: option.splits)

lemma auth_viewD: "auth_view p = auth_view q \<Longrightarrow> pr_authenticated p = pr_authenticated q"
  by (simp add: auth_view_def)

lemma validator_status_authenticated:
  "pr_authenticated (pn_peer (check_validator_status N i S) j) = pr_authenticated (pn_peer S j)"
  by (simp add: check_validator_status_def Let_def)

lemma complete_initiator_ok:
  assumes ok: "node_ok N S" and unused: "pr_challenge (pn_peer S i) = []" "\<not> pr_authenticated (pn_peer S i)"
    and sig: "length c = CHALLENGE_LEN" "issued (pn_sent S) i c"
      "verify_sig (net_env N) pk (build_auth_message c (derive_address (net_env N) pk)) sig"
  shows "node_ok N (snd (complete_initiator N i pk data S))"
proof -
  let ?S1 = "upd i (\<lambda>p. p\<lparr>pr_authenticated := True, pr_remote_pubkey := pk,
                 pr_remote_address := derive_address (net_env N) pk, pr_deadline := 0\<rparr>) S"
  let ?S2 = "upd i (\<lambda>p. store_encryption_pk data (store_port data (store_node_id data
                 (p\<lparr>pr_version := min (int_of_py (dget_or data ''protocol_version'' (PInt 1))) PROTOCOL_VERSION\<rparr>)))) ?S1"
  let ?S3 = "snd (dedup_connection i (check_validator_status N i ?S2))"
  have p: "peer_ok N (pn_validators S) (pn_sent S) i (pn_peer S i)" using ok by (simp add: node_ok_def)
  have ok1: "node_ok N ?S1"
    using p unused sig by (intro node_ok_upd[OF ok]) (auto simp: peer_ok_def proved_key_def)
  have auth2: "pr_authenticated (pn_peer ?S2 i)"
    by (rule auth_viewD[THEN iffD1, of "pn_peer ?S1 i"]) simp_all
  have ok3: "node_ok N ?S3"
    using auth2 by (intro node_ok_dedup validator_status_ok node_ok_upd_view[OF ok1]) simp_all
  have auth3: "pr_authenticated (pn_peer ?S3 i)"
    using auth2 auth_viewD[OF dedup_view] by (simp add: validator_status_authenticated)
  show ?thesis
    using ok1 ok3 negotiate_wire_ok[OF channel_ok[OF ok3 auth3]]
    by (simp add: complete_initiator_def Let_def split_beta)
qed

lemma handle_auth_response_ok:
  assumes ok: "node_ok N S"
  shows "node_ok N (snd (handle_auth_response N now i data S))"
proof (cases "pr_challenge (pn_peer S i) = []")
  case False
  let ?S1 = "clear_challenge i S"
  let ?c = "pr_challenge (pn_peer S i)"
  have p: "length ?c = CHALLENGE_LEN" "issued (pn_sent S) i ?c" "\<not> pr_authenticated (pn_peer S i)"
    using ok False by (auto simp: node_ok_def peer_ok_def)
  have ok1: "node_ok N ?S1" by (rule clear_challenge_ok[OF ok])
  have finish: "node_ok N (snd (complete_initiator N i pk data (send N i t d ?S1)))"
    if "verify_sig (net_env N) pk (build_auth_message ?c (derive_address (net_env N) pk)) sig" for pk sig t d
  proof -
    have v: "auth_view (pn_peer (send N i t d ?S1) i) = auth_view (pn_peer ?S1 i)" by (rule send_view)
    have "issued (pn_sent (send N i t d ?S1)) i ?c"
      using send_cases[of N i t d ?S1] p(2) by (auto simp: clear_challenge_def issued_append)
    then show ?thesis
      using v p that
      by (intro complete_initiator_ok[OF node_ok_send[OF ok1]]) (auto simp: auth_view_def clear_challenge_def)
  qed
  show ?thesis
    using ok ok1 finish
    by (simp add: handle_auth_response_def Let_def split: option.splits sum.splits exn.splits)
qed (simp add: handle_auth_response_def Let_def ok)

lemma complete_responder_ok:
  assumes ok: "node_ok N S" and unused: "pr_challenge (pn_peer S i) = []" "\<not> pr_authenticated (pn_peer S i)"
    and sig: "length c = CHALLENGE_LEN" "issued (pn_sent S) i c"
      "verify_sig (net_env N) (pr_remote_pubkey (pn_peer S i))
         (build_auth_message c (derive_address (net_env N) (pr_remote_pubkey (pn_peer S i)))) sig"
  shows "node_ok N (snd (complete_responder N i S))"
proof -
  let ?S1 = "upd i (\<lambda>p. p\<lparr>pr_authenticated := True, pr_deadline := 0,
                 pr_remote_address := derive_address (net_env N) (pr_remote_pubkey p)\<rparr>) S"
  have p: "peer_ok N (pn_validators S) (pn_sent S) i (pn_peer S i)" using ok by (simp add: node_ok_def)
  have ok1: "node_ok N ?S1"
    using p unused sig by (intro node_ok_upd[OF ok]) (auto simp: peer_ok_def proved_key_def)
  have "pr_authenticated (pn_peer (negotiate_wire N i w ?S1) i)" for w
    by (simp add: negotiate_wire_def)
  then show ?thesis
    using ok1 by (auto simp: complete_responder_def Let_def split_beta
        intro!: node_ok_dedup validator_status_ok negotiate_wire_ok)
qed

lemma handle_auth_confirm_ok:
  assumes ok: "node_ok N S"
  shows "node_ok N (snd (handle_auth_confirm N now i data S))"
proof (cases "pr_challenge (pn_peer S i) = []")
  case False
  let ?S1 = "clear_challenge i S"
  have p: "length (pr_challenge (pn_peer S i)) = CHALLENGE_LEN" "issued (pn_sent S) i (pr_challenge (pn_peer S i))"
      "\<not> pr_authenticated (pn_peer S i)"
    using ok False by (auto simp: node_ok_def peer_ok_def)
  have ok1: "node_ok N ?S1" by (rule clear_challenge_ok[OF ok])
  have same: "pn_sent ?S1 = pn_sent S" "pr_challenge (pn_peer ?S1 i) = []" "\<not> pr_authenticated (pn_peer ?S1 i)"
      "pr_remote_pubkey (pn_peer ?S1 i) = pr_remote_pubkey (pn_peer S i)"
    using p by (simp_all add: clear_challenge_def)
  have finish: "node_ok N (snd (complete_responder N i ?S1))"
    if "verify_sig (net_env N) (pr_remote_pubkey (pn_peer S i)) (build_auth_message (pr_challenge (pn_peer S i))
          (derive_address (net_env N) (pr_remote_pubkey (pn_peer S i)))) sig" for sig
    using complete_responder_ok[where N = N and S = ?S1 and i = i and c = "pr_challenge (pn_peer S i)" and sig = sig]
      ok1 p same that by simp
  have bad: "node_ok N (upd i (pr_remote_pubkey_update (\<lambda>_. [])) ?S1)"
    using node_okD[OF ok1, of i] same by (intro node_ok_upd[OF ok1]) (simp add: peer_ok_def)
  show ?thesis
    using ok ok1 finish bad by (simp add: handle_auth_confirm_def Let_def split: option.splits)
qed (simp add: handle_auth_confirm_def Let_def ok)

lemma handle_session_key_ok:
  assumes ok: "node_ok N S"
  shows "node_ok N (snd (handle_session_key N i data S))"
proof -
  let ?S1 = "upd i (store_encryption_pk data) S"
  have ok1: "node_ok N ?S1" by (rule node_ok_upd_view[OF ok]) simp
  have "node_ok N (upd i (\<lambda>p. p\<lparr>pr_session_key := Some key, pr_encrypted := True\<rparr>) ?S1)"
    if "pr_authenticated (pn_peer S i)" for key
  proof -
    have "pr_authenticated (pn_peer ?S1 i)"
      using that auth_viewD[OF store_views(1)] by simp
    then show ?thesis
      using node_okD[OF ok1, of i] by (intro node_ok_upd[OF ok1]) (simp add: peer_ok_def)
  qed
  then show ?thesis
    using ok ok1 by (simp add: handle_session_key_def Let_def split: option.splits sum.splits)
qed

text \<open>A greeting on a fresh connection: the counter-challenge is sent where it is stored.\<close>

definition fresh_conn :: "peer \<Rightarrow> bool" where
  "fresh_conn p \<longleftrightarrow> pr_open p \<and> pr_wire p = ''json'' \<and> \<not> pr_authenticated p"

lemma store_fresh [simp]:
  "fresh_conn (store_encryption_pk d p) = fresh_conn p" "fresh_conn (store_node_id d p) = fresh_conn p"
  "fresh_conn (pr_port_update g p) = fresh_conn p" "fresh_conn (new_peer host port initiator)"
  by (auto simp: fresh_conn_def store_encryption_pk_def store_node_id_def new_peer_def Let_def split: option.splits)

lemma accept_hello_view: "auth_view (accept_hello d pv p) = auth_view p" "fresh_conn (accept_hello d pv p) = fresh_conn p"
proof -
  have "auth_view (q\<lparr>pr_version := v, pr_pending_wire := w\<rparr>) = auth_view q"
    "fresh_conn (q\<lparr>pr_version := v, pr_pending_wire := w\<rparr>) = fresh_conn q" for q v w
    by (simp_all add: auth_view_def fresh_conn_def)
  then show "auth_view (accept_hello d pv p) = auth_view p" "fresh_conn (accept_hello d pv p) = fresh_conn p"
    by (simp_all add: accept_hello_def)
qed

text \<open>A challenge is stored and sent in one step.\<close>

lemma issue_ok:
  assumes ok: "node_ok N S" and fresh: "fresh_conn (pn_peer S i)" "fresh_conn (f (pn_peer S i))"
    and f: "pr_challenge (f (pn_peer S i)) = c" "pr_is_validator (f (pn_peer S i)) = pr_is_validator (pn_peer S i)"
      "pr_encrypted (f (pn_peer S i)) = pr_encrypted (pn_peer S i)"
    and c: "length c = CHALLENGE_LEN" "issued [(i, t, d)] i c"
  shows "node_ok N (send N i t d (upd i f S))"
proof -
  have sent: "send N i t d (upd i f S) = (upd i f S)\<lparr>pn_sent := pn_sent S @ [(i, t, d)]\<rparr>"
    using fresh(2) by (subst send_json) (simp_all add: fresh_conn_def)
  have "issued (pn_sent S @ [(i, t, d)]) i c" using c(2) by (auto simp: issued_def)
  then have "peer_ok N (pn_validators S) (pn_sent S @ [(i, t, d)]) i (f (pn_peer S i))"
    using node_okD[OF ok, of i] fresh f c(1) by (simp add: peer_ok_def fresh_conn_def)
  then show ?thesis
    unfolding sent using ok by (simp add: node_ok_def peer_ok_append)
qed

lemma handle_hello_ok:
  assumes ok: "node_ok N S" and fresh: "fresh_conn (pn_peer S i)" and cc: "length cc = CHALLENGE_LEN"
  shows "node_ok N (snd (handle_hello_auth_inbound N now wall cc i data S))"
proof -
  let ?S1 = "\<lambda>pv. upd i (accept_hello data pv) S"
  have ok1: "node_ok N (?S1 pv)" for pv by (rule node_ok_upd_view[OF ok]) (rule accept_hello_view)
  have "fresh_conn (pn_peer (?S1 pv) i)" for pv using fresh by (simp add: accept_hello_view)
  then have "node_ok N (send N i ''auth_response'' (response_fields N sig cc T)
      (upd i (\<lambda>p. p\<lparr>pr_challenge := cc, pr_deadline := now + AUTH_TIMEOUT, pr_remote_pubkey := pk,
                  pr_remote_address := derive_address (net_env N) pk\<rparr>) (?S1 pv)))" for sig pk pv T
    using ok1 cc by (intro issue_ok) (simp_all add: fresh_conn_def issued_def response_fields_def)
  then show ?thesis
    using ok ok1
    by (simp add: handle_hello_auth_inbound_def Let_def split: option.splits sum.splits exn.splits)
qed

lemma outbound_connect_ok:
  assumes ok: "node_ok N S" and c: "length challenge = CHALLENGE_LEN"
  shows "node_ok N (connect N now wall challenge host port S)"
proof -
  let ?p = "new_peer host (PInt port) True" and ?addr = "host @ '':'' @ int_str port"
  let ?S1 = "snd (new_connection ?p ?addr S)"
  let ?f = "\<lambda>p. p\<lparr>pr_challenge := challenge, pr_deadline := now + AUTH_TIMEOUT, pr_version := PROTOCOL_VERSION\<rparr>"
  have ok1: "node_ok N ?S1" using ok by (simp add: node_ok_def new_connection_def)
  have fresh: "fresh_conn (pn_peer ?S1 (pn_next S))" by (simp add: new_connection_def)
  have hello: "node_ok N (send N (pn_next S) ''hello_auth'' (hello_fields N wall challenge sig T) (upd (pn_next S) ?f ?S1))"
    for sig T
    using ok1 fresh c by (intro issue_ok) (simp_all add: fresh_conn_def issued_def hello_fields_def)
  have key: "\<exists>raw. sb_bytes (pn_signing_sk S) = Inr raw" if "has_signing_keys S"
    using that by (simp add: has_signing_keys_def sb_true_def sb_bytes_def)
  have runtime: "\<exists>m. e = RuntimeError m" if "has_signing_keys S" "mldsa_sign_key N (pn_signing_sk S) m = Inl e" for e m
    using key[OF that(1)] that(2) by (auto simp: mldsa_sign_key_def split: option.splits)
  have same: "has_signing_keys ?S1 = has_signing_keys S" "pn_signing_sk ?S1 = pn_signing_sk S"
      "fst (new_connection ?p ?addr S) = pn_next S"
    by (simp_all add: new_connection_def has_signing_keys_def)
  have plain: "node_ok N (send N (pn_next S) ''hello'' d ?S1)" for d using ok1 by blast
  show ?thesis
    using ok ok1 hello plain same
    by (auto simp: connect_def Let_def split_beta split: sum.splits exn.splits dest: runtime)
qed

section \<open>Every step keeps the invariant\<close>

lemma record_peer_fields [simp]:
  "pn_peer (record_peer now i e S) = pn_peer S" "pn_sent (record_peer now i e S) = pn_sent S"
  "pn_validators (record_peer now i e S) = pn_validators S" "pn_next (record_peer now i e S) = pn_next S"
  "pn_peers (record_peer now i e S) = pn_peers S" "identity (record_peer now i e S) = identity S"
  by (simp_all add: record_peer_def identity_def)

lemma node_ok_record [intro]: "node_ok N S \<Longrightarrow> node_ok N (record_peer now i e S)"
  by (rule node_ok_cong) simp_all

lemma auth_step_ok: "node_ok N S \<Longrightarrow> node_ok N (snd (auth_step N now outbound i d S))"
  using handle_auth_response_ok[of N S now i d] handle_auth_confirm_ok[of N S now i d]
  by (auto simp: auth_step_def handle_auth_def split: prod.splits sum.splits)

lemma process_plain_ok:
  assumes ok: "node_ok N S"
  shows "node_ok N (snd (process_plain N now outbound i mt data S))"
proof -
  have "node_ok N (upd i (status_height h) S)" for h by (rule node_ok_upd_view[OF ok]) simp
  then show ?thesis
    using ok handle_session_key_ok auth_step_ok
    by (auto simp: process_plain_def note_status_def with_fields_def is_type_def)
qed

lemma receive_ok:
  assumes ok: "node_ok N S"
  shows "node_ok N (snd (receive N now outbound i mt data S))"
proof -
  have ok1: "node_ok N (snd (check_rate_limit now i (type_key mt) S))"
    by (rule node_ok_cong[OF ok]) (auto simp: check_rate_limit_def Let_def split: prod.splits)
  have ok2: "node_ok N (snd (should_disconnect_rate now i S1))" if "node_ok N S1" for S1
    using that by (auto simp: should_disconnect_rate_def)
  show ?thesis
    using ok ok1 ok2[OF ok1] process_plain_ok[OF ok1]
    by (auto simp: receive_def Let_def with_fields_def split: prod.splits sum.splits option.splits)
qed

lemma update_peer_key_ok:
  assumes "node_ok N S"
  shows "node_ok N (snd (update_peer_key i k t v S))"
    "fresh_conn (pn_peer S i) \<Longrightarrow> fresh_conn (pn_peer (snd (update_peer_key i k t v S)) i)"
proof -
  have "node_ok N (upd i (pr_port_update (\<lambda>_. v)) (S\<lparr>pn_peers := d\<rparr>))" for d
    using assms by (intro node_ok_upd_view) simp_all
  then show "node_ok N (snd (update_peer_key i k t v S))"
    using assms by (simp add: update_peer_key_def Let_def)
qed (simp add: update_peer_key_def Let_def)

lemma check_auth_rate_fields:
  "pn_peer (snd (check_auth_rate now host S)) = pn_peer S"
  "node_ok N S \<Longrightarrow> node_ok N (snd (check_auth_rate now host S))"
  by (simp_all add: check_auth_rate_def Let_def)

lemma first_message_ok:
  assumes ok: "node_ok N S" and fresh: "fresh_conn (pn_peer S i)" and cc: "length cc = CHALLENGE_LEN"
  shows "node_ok N (snd (snd (first_message N now wall cc i temp mt data S)))"
proof -
  let ?S1 = "snd (check_auth_rate now (pr_host (pn_peer S i)) S)"
  have ok1: "node_ok N ?S1" "fresh_conn (pn_peer ?S1 i)"
    using check_auth_rate_fields ok fresh by simp_all
  have auth: "node_ok N (snd (handle_hello_auth_inbound N now wall cc i d (snd (update_peer_key i temp temp v ?S1))))"
    for d v
    by (rule handle_hello_ok[OF update_peer_key_ok(1)[OF ok1(1)] update_peer_key_ok(2)[OF ok1] cc])
  have hello: "node_ok N (upd i (\<lambda>p. p\<lparr>pr_node_id := v, pr_version := 1\<rparr>) S)" for v
    by (rule node_ok_upd_view[OF ok]) (simp add: auth_view_def)
  have "node_ok N (send N i ''hello'' d
      (snd (update_peer_key i temp temp w (upd i (\<lambda>p. p\<lparr>pr_node_id := v, pr_version := 1\<rparr>) S))))" for d v w
    by (intro node_ok_send update_peer_key_ok(1)[OF hello])
  then show ?thesis
    using ok ok1 auth
    by (auto simp: first_message_def Let_def split_beta split: prod.splits sum.splits bool.splits)
qed

lemma on_connect_ok:
  assumes ok: "node_ok N S" and cc: "length cc = CHALLENGE_LEN"
  shows "node_ok N (snd (on_connect N now wall cc host ident line S))"
proof -
  let ?k = "''_inbound_'' @ host @ ''_'' @ dec_nat ident"
  let ?S1 = "snd (new_connection (new_peer host (PInt 0) False) ?k S)"
  have "node_ok N ?S1" "fresh_conn (pn_peer ?S1 (pn_next S))"
    using ok by (simp_all add: node_ok_def new_connection_def)
  then show ?thesis
    using ok first_message_ok[OF _ _ cc, of N ?S1 "pn_next S"]
    by (auto simp: on_connect_def Let_def new_connection_def split_beta split: first_line.splits)
qed

lemma send_encrypted_ok: "node_ok N S \<Longrightarrow> node_ok N (send_encrypted N nonce i t d S)"
  by (auto simp: send_encrypted_def Let_def split: option.split bool.split)

lemma disconnected_ok: "node_ok N S \<Longrightarrow> node_ok N (upd i (pr_connected_update (\<lambda>_. False)) S)"
  by (rule node_ok_upd_view) simp_all

lemma broadcast_ok: "node_ok N S \<Longrightarrow> node_ok N (broadcast N nonce t d exclude S)"
  unfolding broadcast_def by (rule fold_inv[where I = "node_ok N"]) (auto intro: send_encrypted_ok)

lemma stop_ok: "node_ok N S \<Longrightarrow> node_ok N (stop_node S)"
proof -
  assume ok: "node_ok N S"
  have "node_ok N (fold (\<lambda>(k, i) T. close_peer i T) (pn_peers S) S)"
    by (rule fold_inv[where I = "node_ok N"]) (auto intro: node_ok_close ok)
  then show "node_ok N (stop_node S)" by (simp add: stop_node_def Let_def node_ok_def)
qed

lemma step_ok: "p2p_step N S T \<Longrightarrow> node_ok N S \<Longrightarrow> node_ok N T"
  by (induction rule: p2p_step.induct)
    (simp_all add: outbound_connect_ok on_connect_ok receive_ok broadcast_ok stop_ok oversized_def node_ok_record
      finish_inbound_def finish_outbound_def rate_cleanup_def disconnected_ok)

lemma run_ok: "p2p_run N S T \<Longrightarrow> node_ok N S \<Longrightarrow> node_ok N T"
  by (induction rule: p2p_run.induct) (auto dest: step_ok)

lemma start_ok: "no_connections S \<Longrightarrow> node_ok N S"
  by (simp add: no_connections_def node_ok_def)

text \<open>A challenge is used up by the first answer, right or wrong.\<close>

lemma challenge_of_view: "auth_view p = auth_view q \<Longrightarrow> pr_challenge p = pr_challenge q"
  by (simp add: auth_view_def)

lemma challenge_send: "pr_challenge (pn_peer (send N i t d S) j) = pr_challenge (pn_peer S j)"
  by (rule challenge_of_view[OF send_view(1)])

lemma challenge_frames:
  "pr_challenge (pn_peer (check_validator_status N i S) j) = pr_challenge (pn_peer S j)"
  "pr_challenge (pn_peer (negotiate_wire N i w S) j) = pr_challenge (pn_peer S j)"
  "pr_challenge (pn_peer (snd (dedup_connection i S)) j) = pr_challenge (pn_peer S j)"
  "pr_challenge (pn_peer (initiate_encrypted_channel N i S) j) = pr_challenge (pn_peer S j)"
  by (simp_all add: check_validator_status_def negotiate_wire_def initiate_encrypted_channel_def Let_def
      challenge_send challenge_of_view[OF dedup_view] split: option.splits sum.splits)

lemma challenge_complete_initiator:
  "pr_challenge (pn_peer (snd (complete_initiator N i pk data S)) i) = pr_challenge (pn_peer S i)"
proof -
  have "pr_challenge (store_encryption_pk d (store_port d (store_node_id d p))) = pr_challenge p" for d p
    by (rule challenge_of_view) simp
  then show ?thesis
    by (simp add: complete_initiator_def Let_def split_beta challenge_frames)
qed

lemma challenge_single_use:
  "pr_challenge (pn_peer (snd (handle_auth_response N now i data S)) i) = []"
  "pr_challenge (pn_peer (snd (handle_auth_confirm N now i data S)) i) = []"
proof -
  have clear: "pr_challenge (pn_peer (clear_challenge i S) i) = []" by (simp add: clear_challenge_def)
  show "pr_challenge (pn_peer (snd (handle_auth_response N now i data S)) i) = []"
    by (simp add: handle_auth_response_def Let_def clear challenge_complete_initiator challenge_send
        split: option.splits sum.splits exn.splits)
  show "pr_challenge (pn_peer (snd (handle_auth_confirm N now i data S)) i) = []"
    by (simp add: handle_auth_confirm_def complete_responder_def Let_def split_beta clear challenge_frames
        split: option.splits)
qed

text \<open>
  The gate: a message about blocks or transactions reaches a handler only from a peer that is
  authenticated or that speaks version 1.
\<close>

lemma delivered_process:
  assumes "process_plain N now outbound i mt data S = (Deliver (PStr t) d, T)"
  shows "check_auth_gate t (pn_peer T i)"
  using assms
  by (auto simp: process_plain_def note_status_def with_fields_def auth_step_def handle_auth_def type_key_def
      split: if_splits prod.splits sum.splits)

lemma delivered_gate:
  assumes "receive N now outbound i mt data S = (Deliver (PStr t) d, T)"
  shows "check_auth_gate t (pn_peer T i)"
  using assms
  by (auto simp: receive_def Let_def with_fields_def
      split: if_splits prod.splits sum.splits option.splits dest: delivered_process)

text \<open>
  Without a greeting the gate is open: a first line that does not parse, or a message of any other
  type, leads into the loop of a peer of version 1.
\<close>

lemma no_greeting_needed:
  assumes "length (pn_peers S) < MAX_PEERS" "\<not> is_banned (pn_reputation S) host" "is_safe_inbound_ip N host"
  shows "\<exists>key T. on_connect N now wall cc host ident Unparsed S = (Some (pn_next S, Continue, key), T)
       \<and> check_auth_gate t (pn_peer T (pn_next S)) \<and> \<not> pr_authenticated (pn_peer T (pn_next S))"
  using assms by (simp add: on_connect_def new_connection_def Let_def check_auth_gate_def new_peer_def)

text \<open>A stopped node signs and decrypts nothing any more.\<close>

lemma stopped_node: "\<not> has_signing_keys (stop_node S) \<and> \<not> has_encryption_keys (stop_node S) \<and> pn_peers (stop_node S) = []"
  by (simp add: stop_node_def Let_def has_signing_keys_def has_encryption_keys_def sb_true_def sb_zero_def)

section \<open>The key of an outbound connection\<close>

text \<open>
  The task of an outbound connection removes the entry under the address the peer has at the end. The
  port in the answer of the responder changes that address but not the key: if they differ the entry
  stays, the slot is lost and the node never connects to that address again.
\<close>

lemma drop_other_key:
  assumes "dget (pn_peers S) k = Some i" "duplicate_of i S = Some (other, j)" "dwf (pn_peers S)"
  shows "dget (pn_peers (drop_other other j S)) k = Some i"
proof -
  have "(other, j) \<in> set (pn_peers S)" "j \<noteq> i"
    using assms(2) by (auto simp: duplicate_of_def find_Some_iff in_set_conv_nth)
  then have "dget (pn_peers S) other = Some j" using assms(3) by (simp add: dwf_def)
  then have "other \<noteq> k" using assms(1) \<open>j \<noteq> i\<close> by auto
  then show ?thesis using assms(1) by (simp add: drop_other_def close_peer_def dget_dpop)
qed

lemma dedup_key:
  assumes "dget (pn_peers S) k = Some i" "dwf (pn_peers S)"
  shows "dget (pn_peers (snd (dedup_connection i S))) k = Some i"
  using assms drop_other_key[OF assms(1) _ assms(2)]
  by (auto simp: dedup_connection_def Let_def split: option.splits)

text \<open>The host and the port of a peer.\<close>

definition place :: "peer \<Rightarrow> string \<times> pyval" where
  "place p = (pr_host p, pr_port p)"

lemma place_wire: "place (pr_wire_update f p) = place p"
  by (simp add: place_def)

lemma place_frames:
  "place (pn_peer (send N i t d S) j) = place (pn_peer S j)" "pn_peers (send N i t d S) = pn_peers S"
  "place (pn_peer (initiate_encrypted_channel N i S) j) = place (pn_peer S j)"
  "pn_peers (initiate_encrypted_channel N i S) = pn_peers S"
  "place (pn_peer (snd (dedup_connection i S)) j) = place (pn_peer S j)"
  "place (pn_peer (check_validator_status N i S) j) = place (pn_peer S j)"
  "pn_peers (check_validator_status N i S) = pn_peers S"
proof -
  show s: "place (pn_peer (send N i t d S) j) = place (pn_peer S j)" "pn_peers (send N i t d S) = pn_peers S" for t d S
    using send_cases[of N i t d S] by (auto simp: place_def split: if_splits)
  show "place (pn_peer (initiate_encrypted_channel N i S) j) = place (pn_peer S j)"
    "pn_peers (initiate_encrypted_channel N i S) = pn_peers S"
    using s by (auto simp: initiate_encrypted_channel_def Let_def place_def split: option.splits sum.splits)
qed (auto simp: dedup_connection_def drop_other_def close_peer_def check_validator_status_def Let_def place_def
      split: option.splits)

lemma complete_initiator_place:
  assumes "complete_initiator N i pk d S = (Inr True, T)" "port_in_range (dget_or d ''port'' (PInt 0))"
    and "dget (pn_peers S) k = Some i" "dwf (pn_peers S)"
  shows "place (pn_peer T i) = (pr_host (pn_peer S i), dget_or d ''port'' (PInt 0)) \<and> dget (pn_peers T) k = Some i"
proof -
  have host: "pr_host (store_encryption_pk d p) = pr_host p" "pr_port (store_encryption_pk d p) = pr_port p"
    "pr_host (store_node_id d p) = pr_host p" for p
    by (simp_all add: store_encryption_pk_def store_node_id_def Let_def split: option.splits)
  have port: "place (store_encryption_pk d (store_port d (store_node_id d p))) = (pr_host p, dget_or d ''port'' (PInt 0))" for p
    using assms(2) by (simp add: place_def host store_port_def)
  let ?S2 = "\<lambda>v. upd i (\<lambda>p. store_encryption_pk d (store_port d (store_node_id d (p\<lparr>pr_version := v\<rparr>))))
     (upd i (\<lambda>p. p\<lparr>pr_authenticated := True, pr_remote_pubkey := pk,
                    pr_remote_address := derive_address (net_env N) pk, pr_deadline := 0\<rparr>) S)"
  have key: "dget (pn_peers (snd (dedup_connection i (check_validator_status N i (?S2 v))))) k = Some i" for v
    using assms(3,4) by (intro dedup_key) (simp_all add: place_frames)
  have pl: "place (pn_peer (snd (dedup_connection i (check_validator_status N i (?S2 v)))) i)
      = (pr_host (pn_peer S i), dget_or d ''port'' (PInt 0))" for v
    by (simp add: place_frames port)
  show ?thesis
    using assms(1) key pl
    by (auto simp: complete_initiator_def Let_def split_beta negotiate_wire_def place_frames place_wire
        split: if_splits)
qed

lemma answer_moves_peer:
  assumes "handle_auth_response N now i d S = (Inr True, T)" "port_in_range (dget_or d ''port'' (PInt 0))"
    and "dget (pn_peers S) k = Some i" "dwf (pn_peers S)"
  shows "place (pn_peer T i) = (pr_host (pn_peer S i), dget_or d ''port'' (PInt 0)) \<and> dget (pn_peers T) k = Some i"
proof -
  obtain pk msg where c: "complete_initiator N i pk d (send N i ''auth_confirm'' msg (clear_challenge i S)) = (Inr True, T)"
    using assms(1) by (auto simp: handle_auth_response_def Let_def split: if_splits option.splits sum.splits exn.splits)
  have same: "place (pn_peer (send N i ''auth_confirm'' msg (clear_challenge i S)) i) = place (pn_peer S i)"
      "pn_peers (send N i ''auth_confirm'' msg (clear_challenge i S)) = pn_peers S"
    by (simp_all add: place_frames clear_challenge_def) (simp add: place_def)
  show ?thesis
    using complete_initiator_place[OF c assms(2)] same assms(3,4) by (simp add: place_def)
qed

lemma entry_leaks:
  assumes ans: "handle_auth_response N now i d S = (Inr True, T)" "port_in_range (dget_or d ''port'' (PInt 0))"
    and key: "dget (pn_peers S) (host @ '':'' @ int_str port) = Some i" "dwf (pn_peers S)"
    and moved: "host @ '':'' @ int_str port \<noteq> pr_host (pn_peer S i) @ '':'' @ port_str (dget_or d ''port'' (PInt 0))"
  shows "dmem (host @ '':'' @ int_str port) (pn_peers (finish_outbound i T))
     \<and> connect N now' wall c host port (finish_outbound i T) = finish_outbound i T"
proof -
  let ?k = "host @ '':'' @ int_str port"
  have T: "pr_host (pn_peer T i) = pr_host (pn_peer S i)" "pr_port (pn_peer T i) = dget_or d ''port'' (PInt 0)"
      "dget (pn_peers T) ?k = Some i"
    using answer_moves_peer[OF ans key] by (simp_all add: place_def)
  have "peer_addr (pn_peer T i) \<noteq> ?k" using moved T by (simp add: peer_addr_def)
  then have "dmem ?k (pn_peers (finish_outbound i T))"
    using T(3) by (simp add: finish_outbound_def Let_def dmem_def dget_dpop peer_addr_def)
  then show ?thesis by (simp add: connect_def Let_def)
qed

end
