(* ===== verification/NodeProps.thy ===== *)
theory NodeProps
  imports RestProps P2PProps
begin

text \<open>
  Lemmas on the composed node. The locale \<open>component_invariants\<close> states what the parts of a node
  promise: predicates on the chain, the connections, the WebSocket clients and the webhooks that every
  operation of that part keeps. Inside it every operation of the node is shown to keep all four; it
  is interpreted below on the invariants of the components.
\<close>

section \<open>What the node's operations leave alone\<close>

lemma frame_ops [simp]:
  "fn_chain (gossip X t d e S) = fn_chain S" "fn_ws (gossip X t d e S) = fn_ws S"
  "fn_hooks (gossip X t d e S) = fn_hooks S" "fn_sync (gossip X t d e S) = fn_sync S"
  "fn_chain (penalize X i ev S) = fn_chain S" "fn_ws (penalize X i ev S) = fn_ws S"
  "fn_hooks (penalize X i ev S) = fn_hooks S" "fn_sync (penalize X i ev S) = fn_sync S"
  "fn_chain (reply X i t d S) = fn_chain S" "fn_ws (reply X i t d S) = fn_ws S"
  "fn_hooks (reply X i t d S) = fn_hooks S" "fn_sync (reply X i t d S) = fn_sync S"
  "fn_chain (on_p2p f S) = fn_chain S" "fn_ws (on_p2p f S) = fn_ws S" "fn_hooks (on_p2p f S) = fn_hooks S"
  "fn_p2p (on_p2p f S) = f (fn_p2p S)" "fn_sync (on_p2p f S) = fn_sync S"
  "fn_chain (on_chain_state g S) = g (fn_chain S)" "fn_p2p (on_chain_state g S) = fn_p2p S"
  "fn_ws (on_chain_state g S) = fn_ws S" "fn_hooks (on_chain_state g S) = fn_hooks S"
  "fn_sync (on_chain_state g S) = fn_sync S"
  by (simp_all add: gossip_def penalize_def reply_def on_p2p_def on_chain_state_def)

lemma frame_wallets [simp]:
  "fn_wallets (gossip X t d e S) = fn_wallets S" "fn_wallets (penalize X i ev S) = fn_wallets S"
  "fn_wallets (reply X i t d S) = fn_wallets S" "fn_wallets (on_p2p f S) = fn_wallets S"
  "fn_wallets (on_chain_state g S) = fn_wallets S"
  by (simp_all add: gossip_def penalize_def reply_def on_p2p_def on_chain_state_def)

lemma frame_ws [simp]:
  "fn_chain (ws_broadcast X ch d S) = fn_chain S" "fn_p2p (ws_broadcast X ch d S) = fn_p2p S"
  "fn_hooks (ws_broadcast X ch d S) = fn_hooks S" "fn_sync (ws_broadcast X ch d S) = fn_sync S"
  "fn_wallets (ws_broadcast X ch d S) = fn_wallets S"
  by (simp_all add: ws_broadcast_def split: prod.splits)

lemma frame_notify [simp]:
  "fn_chain (ws_notify_tx X tx S) = fn_chain S" "fn_p2p (ws_notify_tx X tx S) = fn_p2p S"
  "fn_hooks (ws_notify_tx X tx S) = fn_hooks S" "fn_wallets (ws_notify_tx X tx S) = fn_wallets S"
  "fn_chain (ws_notify_block X b S) = fn_chain S" "fn_p2p (ws_notify_block X b S) = fn_p2p S"
  "fn_chain (deliver_block_webhooks E b S) = fn_chain S" "fn_p2p (deliver_block_webhooks E b S) = fn_p2p S"
  "fn_ws (deliver_block_webhooks E b S) = fn_ws S"
  by (simp_all add: ws_notify_tx_def ws_notify_block_def deliver_block_webhooks_def Let_def)

lemma lock_for_frame:
  "fn_chain (snd (lock_for a S)) = fn_chain S" "fn_p2p (snd (lock_for a S)) = fn_p2p S"
  "fn_ws (snd (lock_for a S)) = fn_ws S" "fn_hooks (snd (lock_for a S)) = fn_hooks S"
  "fn_wallets (snd (lock_for a S)) = fn_wallets S"
  by (auto simp: lock_for_def split: option.splits)

text \<open>What a parser gives: outside the model, an exception, or a value.\<close>

lemma parsed_cases:
  assumes "m \<noteq> None"
  obtains (bad) e where "m = Some (Inl e)" | (good) v where "m = Some (Inr v)"
  using assms by (metis not_None_eq sum.exhaust)

text \<open>The handlers a message can reach.\<close>

lemma handle_p2p_cases:
  assumes "handle_p2p X i t data S = Some (e, T)"
  obtains (block) "t = ''new_block''" "p2p_new_block X i data S = Some T"
  | (tx) "p2p_new_tx X i data S = Some T"
  | (blocks) "t = ''blocks''" "p2p_blocks X i data S = Some (e, T)"
  | (served) "p2p_get_blocks X i data S = (e, T) \<or> p2p_get_chain_info X i data S = (e, T) \<or> p2p_get_headers X i data S = (e, T)
      \<or> p2p_get_block_bodies X i data S = (e, T) \<or> p2p_status X i data S = (e, T) \<or> T = p2p_get_peers X i data S"
  | (peers) "p2p_peers X i data S = (e, T)"
  | (answered) "p2p_sync_response data S = (e, T)"
  | (ignored) "T = S"
  using assms unfolding handle_p2p_def
  by (simp only: map_option_eq_Some option.inject prod.inject split: if_split_asm) blast+

section \<open>Invariants of the parts\<close>

locale component_invariants =
  fixes N :: net and C :: "chain \<Rightarrow> bool" and P :: "p2p_node \<Rightarrow> bool"
    and W :: "ws_manager \<Rightarrow> bool" and H :: "hooks \<Rightarrow> bool"
  assumes chain_step: "C s \<Longrightarrow> node_step (net_env N) s t \<Longrightarrow> C t"
    and p2p_step: "P p \<Longrightarrow> p2p_step N p q \<Longrightarrow> P q"
    and p2p_send: "P p \<Longrightarrow> P (send N i msg_type data p)"
    and p2p_record: "P p \<Longrightarrow> P (record_peer now i event p)"
    and p2p_height: "P p \<Longrightarrow> P (upd i (\<lambda>q. q\<lparr>pr_height := n\<rparr>) p)"
    and p2p_keys: "P p \<Longrightarrow> P (p\<lparr>pn_signing_sk := sk, pn_signing_pk := pk, pn_address := a,
                               pn_encryption_sk := esk, pn_encryption_pk := epk\<rparr>)"
    and ws_event: "W w \<Longrightarrow> W (ws_do e w)"
    and hooks_step: "H hs \<Longrightarrow> hook_step classify hs hs' \<Longrightarrow> H hs'"
begin

definition parts_ok :: "fullnode \<Rightarrow> bool" where
  "parts_ok S \<longleftrightarrow> C (fn_chain S) \<and> P (fn_p2p S) \<and> W (fn_ws S) \<and> H (fn_hooks S)"

lemma parts_cong:
  "fn_chain T = fn_chain S \<Longrightarrow> fn_p2p T = fn_p2p S \<Longrightarrow> fn_ws T = fn_ws S \<Longrightarrow> fn_hooks T = fn_hooks S
    \<Longrightarrow> parts_ok S \<Longrightarrow> parts_ok T"
  by (simp add: parts_ok_def)

lemma parts_updates [simp]:
  "parts_ok (fn_pending_update f S) = parts_ok S" "parts_ok (fn_secrets_update g S) = parts_ok S"
  "parts_ok (fn_locks_update h S) = parts_ok S" "parts_ok (fn_wallets_update k S) = parts_ok S"
  "parts_ok (fn_sync_update l S) = parts_ok S" "parts_ok (fn_running_update m S) = parts_ok S"
  by (simp_all add: parts_ok_def)

lemma gossip_parts: "wd_net X = N \<Longrightarrow> parts_ok S \<Longrightarrow> parts_ok (gossip X t d e S)"
  using p2p_step[OF _ p2p_step.Broadcast] by (simp add: parts_ok_def) (simp add: gossip_def)

lemma reply_parts: "wd_net X = N \<Longrightarrow> parts_ok S \<Longrightarrow> parts_ok (reply X i t d S)"
  using p2p_send by (simp add: parts_ok_def) (simp add: reply_def)

lemma penalize_parts: "parts_ok S \<Longrightarrow> parts_ok (penalize X i ev S)"
  using p2p_record by (simp add: parts_ok_def) (simp add: penalize_def)

lemma ws_broadcast_parts: "parts_ok S \<Longrightarrow> parts_ok (ws_broadcast X ch d S)"
proof -
  assume ok: "parts_ok S"
  have "W (ws_drop dead (snd (ws_send sock ch d (fn_ws S))))" for dead sock
    using ws_event[of _ "Drop dead"] ws_event[of _ "Publish sock ch d"] ok by (simp add: parts_ok_def)
  then show ?thesis using ok by (simp add: parts_ok_def) (simp add: ws_broadcast_def Let_def case_prod_beta)
qed

lemma ws_notify_tx_parts: "parts_ok S \<Longrightarrow> parts_ok (ws_notify_tx X tx S)"
  unfolding ws_notify_tx_def by (rule ws_broadcast_parts)

lemma deliver_parts: "parts_ok S \<Longrightarrow> parts_ok (deliver_block_webhooks E b S)"
  using hooks_step[OF _ hook_step.Deliver] by (simp add: parts_ok_def) (simp add: deliver_block_webhooks_def Let_def)

lemma ws_notify_block_parts: "parts_ok S \<Longrightarrow> parts_ok (ws_notify_block X b S)"
  unfolding ws_notify_block_def Let_def by (intro deliver_parts) (simp add: ws_broadcast_parts)

lemma chain_parts: "parts_ok S \<Longrightarrow> node_step (net_env N) (fn_chain S) c \<Longrightarrow> parts_ok (S\<lparr>fn_chain := c\<rparr>)"
  using chain_step[of "fn_chain S" c] by (simp add: parts_ok_def)

section \<open>Messages\<close>

lemma lock_genesis_step:
  "lock_genesis_if_needed E s = s \<or> node_step E s (lock_genesis_if_needed E s)"
  by (auto simp: lock_genesis_if_needed_def split: option.splits intro: node_step.lock)

lemma lock_genesis_parts:
  assumes "parts_ok S" shows "parts_ok (on_chain_state (lock_genesis_if_needed (net_env N)) S)"
  using assms lock_genesis_step[of "net_env N" "fn_chain S"] chain_parts[OF assms]
  by (auto simp: on_chain_state_def)

lemma clean_block_parts:
  assumes "parts_ok S" "clean_block (net_env N) now b (fn_chain S)"
  shows "parts_ok (S\<lparr>fn_chain := snd (add_block (net_env N) now b (fn_chain S))\<rparr>)"
proof (cases "add_block (net_env N) now b (fn_chain S)")
  case (Pair r t)
  show ?thesis
  proof (cases r)
    case (Ok x)
    then have "node_step (net_env N) (fn_chain S) t"
      using Pair assms(2) by (intro node_step.receive[of _ now b _ x]) (simp_all add: clean_block_def)
    then show ?thesis using chain_parts[OF assms(1)] Pair by simp
  qed (use assms Pair in \<open>simp_all add: clean_block_def\<close>)
qed

lemma take_block_parts:
  assumes "wd_net X = N" "parts_ok S" "clean_block (wd_env X) (int_time X) b (fn_chain S)"
  shows "parts_ok (snd (take_block X i b S))"
proof -
  have "parts_ok (S\<lparr>fn_chain := snd (add_block (wd_env X) (int_time X) b (fn_chain S))\<rparr>)"
    using clean_block_parts assms by simp
  then show ?thesis
    using lock_genesis_parts penalize_parts assms(1)
    by (cases "add_block (wd_env X) (int_time X) b (fn_chain S)") (simp add: take_block_def split: outcome.split)
qed

lemma import_parts:
  assumes "wd_net X = N"
  shows "parts_ok S \<Longrightarrow> clean_batch X i vs S \<Longrightarrow> import_blocks X i vs S = Some T \<Longrightarrow> parts_ok T"
proof (induction vs arbitrary: S)
  case (Cons v vs)
  have "parsed_block (wd_env X) v \<noteq> None" using Cons.prems(3) by (auto split: option.splits)
  then show ?case
  proof (cases rule: parsed_cases)
    case bad
    then show ?thesis using Cons.prems penalize_parts by simp blast
  next
    case (good b)
    have "parts_ok (snd (take_block X i b S))"
      using take_block_parts[OF assms Cons.prems(1)] Cons.prems(2) good by simp
    then show ?thesis
      using Cons.IH[of "snd (take_block X i b S)"] Cons.prems(2,3) good
      by (cases "take_block X i b S") (auto split: bool.splits)
  qed
qed simp

lemma new_block_parts:
  assumes X: "wd_net X = N" and ok: "parts_ok S" and r: "p2p_new_block X i data S = Some T"
    and clean: "clean_message X i ''new_block'' data S"
  shows "parts_ok T"
proof -
  have "parsed_item (block_from_dict (wd_env X)) ''block'' data \<noteq> None"
    using r by (auto simp: p2p_new_block_def split: option.splits)
  then show ?thesis
  proof (cases rule: parsed_cases)
    case bad
    then show ?thesis using r penalize_parts[OF ok] by (auto simp: p2p_new_block_def)
  next
    case (good b)
    have "clean_block (wd_env X) (int_time X) b (fn_chain S)" using clean good by (simp add: clean_message_def)
    then have t: "parts_ok (snd (take_block X i b S))" by (rule take_block_parts[OF X ok])
    then show ?thesis
      using r good gossip_parts[OF X t] ws_notify_block_parts
      by (cases "take_block X i b S") (auto simp: p2p_new_block_def Let_def split: bool.splits if_splits)
  qed
qed

lemma submit_parts:
  "wd_net X = N \<Longrightarrow> parts_ok S \<Longrightarrow> submit_tx (wd_env X) now tx (fn_chain S) = (r, c) \<Longrightarrow> parts_ok (S\<lparr>fn_chain := c\<rparr>)"
  using chain_parts node_step.submit by blast

lemma new_tx_parts:
  assumes X: "wd_net X = N" and ok: "parts_ok S" and r: "p2p_new_tx X i data S = Some T"
  shows "parts_ok T"
proof -
  have "parsed_item tx_from_dict ''tx'' data \<noteq> None" using r by (auto simp: p2p_new_tx_def split: option.splits)
  then show ?thesis
  proof (cases rule: parsed_cases)
    case bad
    then show ?thesis using r penalize_parts[OF ok] by (auto simp: p2p_new_tx_def)
  next
    case (good tx)
    obtain res c where s: "submit_tx (wd_env X) (int_time X) tx (fn_chain S) = (res, c)" by fastforce
    note sub = penalize_parts[OF submit_parts[OF X ok s]]
    show ?thesis
      using r good s sub ws_notify_tx_parts gossip_parts[OF X sub]
      by (auto simp: p2p_new_tx_def Let_def split: outcome.splits)
  qed
qed

lemma world_net: "world_ok N X \<Longrightarrow> wd_net X = N"
  by (simp add: world_ok_def)

lemma connect_P: "world_ok N X \<Longrightarrow> P p \<Longrightarrow> P (connect (wd_net X) t u (wd_challenge X k) host port p)"
  using p2p_step[OF _ p2p_step.Connect] by (simp add: world_ok_def)

lemma connect_all_P: "world_ok N X \<Longrightarrow> P p \<Longrightarrow> P (snd (connect_all X k as p))"
  by (induction as arbitrary: k p) (auto simp: connect_to_def connect_P split: option.split prod.split)

lemma sync_response_parts: "parts_ok S \<Longrightarrow> p2p_sync_response data S = (e, T) \<Longrightarrow> parts_ok T"
  by (auto simp: p2p_sync_response_def split: prod.splits)

lemma p2p_blocks_parts:
  assumes X: "wd_net X = N" and ok: "parts_ok S" and r: "p2p_blocks X i data S = Some (e, T)"
    and clean: "clean_message X i ''blocks'' data S"
  shows "parts_ok T"
proof -
  define U where "U = S\<lparr>fn_pending := dpop (fn_pending S) (str_of_py (dget_or (dict_of_py data) ''request_id'' PNone))\<rparr>"
  define vs where "vs = take 100 (list_of_py (dget_or (dict_of_py data) ''blocks'' (PList [])))"
  have U: "parts_ok U" using ok by (simp add: U_def)
  have c: "clean_batch X i vs U" using clean by (simp add: clean_message_def U_def vs_def)
  have "T = S \<or> T = U \<or> import_blocks X i vs U = Some T"
    using r unfolding U_def vs_def by (auto simp: p2p_blocks_def Let_def split: if_splits)
  then show ?thesis using ok U import_parts[OF X U c] by blast
qed

lemma height_parts: "parts_ok S \<Longrightarrow> parts_ok (on_p2p (upd i (\<lambda>q. q\<lparr>pr_height := n\<rparr>)) S)"
  using p2p_height by (simp add: parts_ok_def)

lemma serve_parts:
  assumes X: "wd_net X = N" and ok: "parts_ok S"
  shows "p2p_get_blocks X i data S = (e, T) \<Longrightarrow> parts_ok T" "p2p_get_chain_info X i data S = (e, T) \<Longrightarrow> parts_ok T"
    "p2p_get_headers X i data S = (e, T) \<Longrightarrow> parts_ok T" "p2p_get_block_bodies X i data S = (e, T) \<Longrightarrow> parts_ok T"
    "p2p_status X i data S = (e, T) \<Longrightarrow> parts_ok T" "parts_ok (p2p_get_peers X i data S)"
  using reply_parts[OF X ok] height_parts[OF ok] ok
  by (auto simp: p2p_get_blocks_def p2p_get_chain_info_def p2p_get_headers_def p2p_get_block_bodies_def p2p_status_def
      p2p_get_peers_def with_dict_def Let_def split: sum.splits if_splits option.splits)

lemma peers_parts:
  assumes X: "world_ok N X" and ok: "parts_ok S" and r: "p2p_peers X i data S = (e, T)"
  shows "parts_ok T"
proof -
  have q: "parts_ok (S\<lparr>fn_p2p := snd (connect_all X 0 as (fn_p2p S))\<rparr>)" for as
    using ok connect_all_P[OF X] by (simp add: parts_ok_def)
  show ?thesis
    using r q ok by (auto simp: p2p_peers_def with_dict_def Let_def split: prod.splits if_splits) (metis snd_conv)
qed

text \<open>Every message keeps the four predicates.\<close>

theorem message_parts:
  assumes X: "world_ok N X" and ok: "parts_ok S" and r: "handle_p2p X i t data S = Some (e, T)"
    and clean: "clean_message X i t data S"
  shows "parts_ok T"
  using r
proof (cases rule: handle_p2p_cases)
  case block
  then show ?thesis using new_block_parts[OF world_net[OF X] ok] clean by blast
next
  case tx
  then show ?thesis using new_tx_parts[OF world_net[OF X] ok] by blast
next
  case blocks
  then show ?thesis using p2p_blocks_parts[OF world_net[OF X] ok] clean by blast
next
  case served
  then show ?thesis using serve_parts[OF world_net[OF X] ok] by metis
next
  case peers
  then show ?thesis using peers_parts[OF X ok] by blast
next
  case answered
  then show ?thesis using sync_response_parts[OF ok] by blast
qed (use ok in simp)

section \<open>Requests\<close>

lemma lock_for_parts: "parts_ok S \<Longrightarrow> parts_ok (snd (lock_for a S))"
  by (simp add: parts_ok_def lock_for_frame)

lemma submit_and_tell_parts:
  assumes X: "wd_net X = N" and ok: "parts_ok S" and r: "submit_and_tell X notify tx S = (v, T)"
  shows "parts_ok T"
proof -
  obtain res c where s: "submit_tx (wd_env X) (int_time X) tx (fn_chain S) = (res, c)" by fastforce
  note sub = submit_parts[OF X ok s]
  show ?thesis
    using r s sub gossip_parts[OF X sub] ws_notify_tx_parts
    by (auto simp: submit_and_tell_def Let_def split: outcome.splits if_splits)
qed

lemma submit_with_parts:
  assumes X: "wd_net X = N" and ok: "parts_ok S"
    and r: "submit_with X notify address test mf mp mk result S = Some (v, T)"
  shows "parts_ok T"
proof -
  have "parts_ok U" if b: "submit_built X notify w f S = (x, U)" for w f x U
    using b lock_for_parts[OF ok] submit_and_tell_parts[OF X]
    by (auto simp: submit_built_def split: option.splits sum.splits prod.splits) (metis snd_conv)+
  then show ?thesis
    using r ok by (auto simp: submit_with_def split: sum.splits prod.splits)
qed

definition kept :: "world \<Rightarrow> fullnode \<Rightarrow> exn + pyval \<Rightarrow> fullnode \<Rightarrow> bool" where
  "kept X S v T \<longleftrightarrow> (\<not> dmem (wd_hex X) (hk_webhooks (fn_hooks S)) \<longrightarrow> parts_ok S \<longrightarrow> parts_ok T)"

lemma hooks_parts: "parts_ok S \<Longrightarrow> hook_step classify (fn_hooks S) hs \<Longrightarrow> parts_ok (S\<lparr>fn_hooks := hs\<rparr>)"
  using hooks_step[of "fn_hooks S" classify hs] by (simp add: parts_ok_def)

lemma root_parts:
  "wd_net X = N \<Longrightarrow> parts_ok S \<Longrightarrow> parts_ok (on_chain_state (\<lambda>s. snd (state_root (wd_env X) s)) S)"
  using chain_parts[OF _ node_step.query] by (simp add: on_chain_state_def)

lemma kept_effect: "world_ok N X \<Longrightarrow> rpc_effect X (kept X)"
  by unfold_locales
    (auto simp: kept_def store_shared_secret_def rpc_new_wallet_def Let_def
      split: prod.splits intro: hooks_parts root_parts[OF world_net] submit_with_parts[OF world_net])

lemma raw_tx_parts:
  assumes X: "wd_net X = N" and ok: "parts_ok S" and r: "rpc_send_raw_tx X d S = Some (v, T)"
  shows "parts_ok T"
  using r ok lock_for_parts[OF ok] submit_and_tell_parts[OF X]
  by (auto simp: rpc_send_raw_tx_def guarded_def split: outcome.splits option.splits sum.splits prod.splits)
    (metis snd_conv)+

text \<open>Every method of the table keeps the four predicates.\<close>

theorem method_parts:
  assumes X: "world_ok N X" and fresh: "\<not> dmem (wd_hex X) (hk_webhooks (fn_hooks S))" and ok: "parts_ok S"
    and m: "dget (rpc_methods X) name = Some m" and r: "rm_code m a S = Some (v, T)"
  shows "parts_ok T"
proof -
  note eff = kept_effect[OF X]
  have table: "(name, m) \<in> set (public_methods X) \<or> (name, m) \<in> set (protected_methods X)"
    by (rule method_lookup[OF m])
  consider (raw) "rm_code m a = rpc_send_raw_tx X (a ''tx_data'')"
    | (other) "effect (kept X) (rm_code m a)"
    using table rpc_effect.R_public[OF eff] rpc_effect.R_protected[OF eff] raw_entry by metis
  then show ?thesis
  proof cases
    case raw then show ?thesis using raw_tx_parts[OF world_net[OF X] ok] r by simp
  next
    case other then show ?thesis using effectD[OF other r] fresh ok by (simp add: kept_def)
  qed
qed

lemma request_parts:
  assumes X: "world_ok N X" and fresh: "\<not> dmem (wd_hex X) (hk_webhooks (fn_hooks S))" and ok: "parts_ok S"
    and r: "exec_request X C' token req S = Some (ans, T)"
  shows "parts_ok T"
  using r by (cases rule: exec_request_cases) (use ok method_parts[OF X fresh ok] in blast)+

lemma rest_parts:
  assumes X: "world_ok N X" and fresh: "\<not> dmem (wd_hex X) (hk_webhooks (fn_hooks S))" and ok: "parts_ok S"
    and r: "rest_serve X C' rq S = Some (ans, T)"
  shows "parts_ok T"
proof -
  note eff = kept_effect[OF X]
  have kept: "parts_ok T" if "rest_effect (kept X) h" "h S = Some (a, T)" for h a
    using rest_effectD[OF that] fresh ok by (auto simp: kept_def)
  show ?thesis
    using r
  proof (cases rule: rest_serve_cases)
    case (idle h a)
    then show ?thesis using kept rpc_effect.R_idle[OF eff] by blast
  next
    case (change route h a)
    show ?thesis
    proof (cases "route = (''POST'', ''/txs'')")
      case True
      then have "h = rest_submit_tx X" using change(1) raw_route_handler by blast
      then show ?thesis using raw_route change(2) raw_tx_parts[OF world_net[OF X] ok] ok by blast
    next
      case False
      then show ?thesis
        using routes_okD[OF rpc_effect.protected_routes_effect[OF eff] change(1)] kept change(2) by blast
    qed
  qed (use ok in simp)
qed

section \<open>Periodic tasks\<close>

lemma broadcast_chain_parts:
  "wd_net X = N \<Longrightarrow> parts_ok S \<Longrightarrow> node_step (net_env N) (fn_chain S) c \<Longrightarrow> parts_ok (gossip X t d e (S\<lparr>fn_chain := c\<rparr>))"
  by (intro gossip_parts chain_parts)

lemma block_round_parts:
  assumes X: "wd_net X = N" and ok: "parts_ok S" and clean: "clean_round X S"
  shows "parts_ok (block_round X S)"
proof (cases "fn_validator S")
  case (Some w)
  show ?thesis
  proof (cases "is_syncing (fn_sync S) \<or> (\<exists>e. sb_bytes (w_signing_sk w) = Inl e)")
    case True
    then show ?thesis using Some ok by (auto simp: block_round_def)
  next
    case False
    then obtain sk where sk: "sb_bytes (w_signing_sk w) = Inr sk" by (metis sum.exhaust)
    obtain r c where p: "produce_block (wd_env X) (int_time X) (w_address w) sk (fn_chain S) = (r, c)" by fastforce
    show ?thesis
    proof (cases r)
      case (Inl e)
      then have "c = fn_chain S" using clean Some sk p by (simp add: clean_round_def)
      then show ?thesis using False Some sk p Inl ok by (simp add: block_round_def)
    next
      case (Inr b)
      have st: "node_step (net_env N) (fn_chain S) c"
        using p X Inr node_step.produce by blast
      show ?thesis
        using chain_parts[OF ok st] ws_notify_block_parts[OF broadcast_chain_parts[OF X ok st]] False Some sk p Inr
        by (auto simp: block_round_def split: option.split)
    qed
  qed
qed (use ok in \<open>simp add: block_round_def\<close>)

lemma sync_round_parts: "wd_net X = N \<Longrightarrow> parts_ok S \<Longrightarrow> parts_ok (sync_round X S)"
  by (auto simp: sync_round_def Let_def split: option.split intro!: gossip_parts reply_parts)

lemma stats_round_parts: "parts_ok S \<Longrightarrow> parts_ok (stats_round X S)"
  by (simp add: stats_round_def ws_broadcast_parts)

section \<open>Start and stop\<close>

lemma use_validator_parts: "parts_ok S \<Longrightarrow> parts_ok (use_validator w S)"
  using chain_step[OF _ node_step.validator] p2p_keys
  by (simp add: use_validator_def add_wallet_def parts_ok_def)

lemma add_wallets_parts: "parts_ok S \<Longrightarrow> parts_ok (fold add_wallet ws S)"
  by (rule fold_inv[where I = parts_ok]) (simp_all add: add_wallet_def)

lemma found_chain_C:
  assumes X: "wd_net X = N" and C: "C s" and r: "found_chain X w s = (None, t)"
  shows "C t"
proof -
  obtain sk u v where i: "init_chain (wd_env X) (int_time X) (w_address w) sk (w_signing_pk w) s = (None, u)"
    and a: "activate_financial_layer (w_address w) u = (None, v)" and k: "register_own_key X w v = (None, t)"
    using r unfolding found_chain_def run_all_Cons_None by (auto simp: run_all_Cons_None split: sum.splits simp del: run_all.simps(2))
  have v: "C v"
    using chain_step[OF chain_step[OF C node_step.genesis[OF i[unfolded X]]] node_step.activate[OF a]] by simp
  show ?thesis
    using k v X chain_step[OF v node_step.submit]
    by (auto simp: register_own_key_def split: sum.splits prod.splits outcome.splits)
qed

lemma bootstrap_P: "world_ok N X \<Longrightarrow> P p \<Longrightarrow> P (connect_bootstrap X k as p)"
  by (induction as arbitrary: k p) (auto simp: connect_P split: option.split)

lemma first_sync_parts: "wd_net X = N \<Longrightarrow> parts_ok S \<Longrightarrow> parts_ok (first_sync X S)"
  by (simp add: first_sync_def gossip_parts)

lemma lock_parts: "parts_ok S \<Longrightarrow> parts_ok (on_chain_state (lock_genesis (net_env N)) S)"
  using chain_parts[OF _ node_step.lock]
  by (auto simp: on_chain_state_def lock_genesis_def split: option.splits)

lemma start_parts:
  assumes X: "world_ok N X" and ok: "parts_ok S"
    and r: "start_node X loaded validator None bootstrap S = (None, T)"
  shows "parts_ok T"
proof -
  define S2 where "S2 = (case validator of None \<Rightarrow> fold add_wallet loaded S | Some w \<Rightarrow> use_validator w (fold add_wallet loaded S))"
  define ec where "ec = (case validator of Some w \<Rightarrow> found_chain X w (fn_chain S2) | _ \<Rightarrow> (None, fn_chain S2))"
  note n = world_net[OF X]
  have S2: "parts_ok S2" using ok by (auto simp: S2_def add_wallets_parts use_validator_parts split: option.split)
  have e: "fst ec = None" and T: "T = (let S5 = on_chain_state (lock_genesis (wd_env X)) (S2\<lparr>fn_chain := snd ec\<rparr>);
                  S6 = first_sync X (on_p2p (connect_bootstrap X 0 bootstrap) S5)
              in S6\<lparr>fn_running := True, fn_sync := sync_start (fn_sync S6)\<rparr>)"
    using r by (auto simp: start_node_def Let_def S2_def ec_def split: option.splits prod.splits)
  have "C (snd ec)"
    using e S2 found_chain_C[OF n, of "fn_chain S2" _ "snd ec"]
    by (auto simp: ec_def parts_ok_def prod_eq_iff split: option.splits)
  then have "parts_ok (S2\<lparr>fn_chain := snd ec\<rparr>)" using S2 by (simp add: parts_ok_def)
  then have "parts_ok (on_chain_state (lock_genesis (wd_env X)) (S2\<lparr>fn_chain := snd ec\<rparr>))" using lock_parts n by simp
  then have "parts_ok (on_p2p (connect_bootstrap X 0 bootstrap) (on_chain_state (lock_genesis (wd_env X)) (S2\<lparr>fn_chain := snd ec\<rparr>)))"
    using bootstrap_P[OF X] by (simp add: parts_ok_def)
  then show ?thesis using T first_sync_parts[OF n] by (simp add: Let_def)
qed

lemma stop_parts: "parts_ok S \<Longrightarrow> parts_ok (stop_fullnode S)"
  using p2p_step[OF _ p2p_step.Stopped] ws_event[of _ Shut_down] hooks_step[OF _ hook_step.Stop]
  by (simp add: stop_fullnode_def parts_ok_def)

section \<open>Runs\<close>

theorem step_parts: "fullnode_step N S T \<Longrightarrow> parts_ok S \<Longrightarrow> parts_ok T"
proof (induction rule: fullnode_step.induct)
  case (Connections S p)
  then show ?case using p2p_step[of "fn_p2p S" p] by (simp add: parts_ok_def)
next
  case (Message X i msg_type data S e T)
  then show ?case using message_parts by blast
next
  case (Post X S c token req r T)
  then show ?case using request_parts by blast
next
  case (Rest X S c rq r T)
  then show ?case using rest_parts by blast
next
  case (Block_round X S)
  then show ?case using block_round_parts[OF world_net] by blast
next
  case (Sync_round X S)
  then show ?case using sync_round_parts[OF world_net] by blast
next
  case (Stats_round X S)
  then show ?case using stats_round_parts by blast
next
  case (Clients S e)
  then show ?case using ws_event[of "fn_ws S" e] by (simp add: parts_ok_def)
next
  case (Hooks classify S h)
  then show ?case using hooks_parts by blast
next
  case (Start X loaded validator bootstrap S T)
  then show ?case using start_parts by blast
next
  case (Stop S)
  then show ?case using stop_parts by blast
qed

theorem run_parts: "fullnode_run N S T \<Longrightarrow> parts_ok S \<Longrightarrow> parts_ok T"
  by (induction rule: fullnode_run.induct) (auto intro: step_parts)

end

section \<open>The parts of a node\<close>

lemma ws_do_ok: "ws_ok s \<Longrightarrow> ws_ok (ws_do e s)"
  by (cases e) (simp_all add: ws_text_spec ws_drop_spec remove_all_spec ws_stop_spec ws_send_def Let_def)

lemma node_ok_keys:
  "node_ok N p \<Longrightarrow> node_ok N (p\<lparr>pn_signing_sk := sk, pn_signing_pk := pk, pn_address := a,
      pn_encryption_sk := esk, pn_encryption_pk := epk\<rparr>)"
  by (simp add: node_ok_def)

interpretation node_parts: component_invariants N "reachable (net_env N)" "node_ok N" ws_ok hooks_ok for N
  by unfold_locales
    (auto intro: reachable.step step_ok node_ok_upd_view node_ok_keys ws_do_ok hook_step_ok simp: auth_view_def)

section \<open>Blocks a node already has\<close>

text \<open>The score of a peer after an event.\<close>

lemma record_score:
  assumes "peer_id \<noteq> []" "dget REPUTATION_EVENTS event = Some d"
  shows "get_score (snd (record_event now peer_id event r)) peer_id = get_score r peer_id + d"
    "get_score r peer_id + d \<le> BAN_THRESHOLD \<Longrightarrow> is_banned (snd (record_event now peer_id event r)) peer_id"
  using assms by (simp_all add: record_event_def get_score_def is_banned_def dget_or_def dict_simps Let_def split: option.split)

lemma known_block_refused:
  assumes "dmem (block_hash E b) (block_by_hash s)"
  shows "add_block E now b s = (Fail (Msg ''already have this block'' []), s)"
  using assms by (simp add: add_block_def Let_def)

lemma known_block_event: "block_event (Msg ''already have this block'' []) = ''invalid_block''"
  by code_simp

lemma invalid_block_event: "dget REPUTATION_EVENTS ''invalid_block'' = Some (- 50)"
  by (simp add: REPUTATION_EVENTS_def)

lemma known_block_penalized:
  assumes "parsed_item (block_from_dict (wd_env X)) ''block'' data = Some (Inr b)"
    and "dmem (block_hash (wd_env X) b) (block_by_hash (fn_chain S))"
  shows "p2p_new_block X i data S = Some (penalize X i ''invalid_block'' S)"
  using assms by (simp add: p2p_new_block_def take_block_def known_block_refused known_block_event)

lemma penalize_peer: "pn_peer (fn_p2p (penalize X i event S)) = pn_peer (fn_p2p S)"
  by (simp add: penalize_def on_p2p_def record_peer_def)

definition score_of :: "nat \<Rightarrow> fullnode \<Rightarrow> rat" where
  "score_of i S = get_score (pn_reputation (fn_p2p S)) (peer_addr (pn_peer (fn_p2p S) i))"

lemma penalize_score:
  assumes "peer_addr (pn_peer (fn_p2p S) i) \<noteq> []" "dget REPUTATION_EVENTS event = Some d"
  shows "score_of i (penalize X i event S) = score_of i S + d"
    "score_of i S + d \<le> BAN_THRESHOLD \<Longrightarrow> \<not> check_reputation i (fn_p2p (penalize X i event S))"
  using record_score[OF assms] by (simp_all add: score_of_def penalize_def on_p2p_def record_peer_def check_reputation_def)

text \<open>The same message, received once in each of a list of worlds.\<close>

fun received :: "world list \<Rightarrow> nat \<Rightarrow> pyval \<Rightarrow> fullnode \<Rightarrow> fullnode option" where
  "received [] i data S = Some S"
| "received (X # Xs) i data S = (case p2p_new_block X i data S of None \<Rightarrow> None | Some T \<Rightarrow> received Xs i data T)"

lemma known_block_received:
  assumes "parsed_item (block_from_dict E) ''block'' data = Some (Inr b)"
    and "\<forall>X \<in> set Xs. wd_env X = E" "peer_addr (pn_peer (fn_p2p S) i) \<noteq> []"
    and "dmem (block_hash E b) (block_by_hash (fn_chain S))"
  shows "\<exists>T. received Xs i data S = Some T \<and> fn_chain T = fn_chain S \<and> score_of i T = score_of i S - 50 * of_nat (length Xs)
      \<and> (Xs \<noteq> [] \<and> score_of i T \<le> BAN_THRESHOLD \<longrightarrow> \<not> check_reputation i (fn_p2p T))"
  using assms(2-)
proof (induction Xs arbitrary: S)
  case (Cons X Xs)
  let ?U = "penalize X i ''invalid_block'' S"
  have r: "p2p_new_block X i data S = Some ?U" by (rule known_block_penalized) (use assms(1) Cons.prems in simp_all)
  note sc = penalize_score[OF Cons.prems(2) invalid_block_event, of X]
  have "\<forall>X \<in> set Xs. wd_env X = E" "peer_addr (pn_peer (fn_p2p ?U) i) \<noteq> []"
    "dmem (block_hash E b) (block_by_hash (fn_chain ?U))"
    using Cons.prems by (simp_all add: penalize_peer)
  from Cons.IH[OF this] obtain T where T: "received Xs i data ?U = Some T" "fn_chain T = fn_chain ?U"
    "score_of i T = score_of i ?U - 50 * of_nat (length Xs)"
    "Xs \<noteq> [] \<and> score_of i T \<le> BAN_THRESHOLD \<longrightarrow> \<not> check_reputation i (fn_p2p T)"
    by blast
  have "score_of i T = score_of i S - 50 * of_nat (length (X # Xs))" using T(3) sc(1) by (simp add: algebra_simps)
  moreover have "\<not> check_reputation i (fn_p2p T)" if "score_of i T \<le> BAN_THRESHOLD"
  proof (cases "Xs = []")
    case True
    then have "T = ?U" using T(1) by simp
    then show ?thesis using sc that by simp
  qed (use T(4) that in simp)
  ultimately show ?case using r T(1,2) by auto
qed simp

end
