(* ===== verification/RollbackProps.thy ===== *)
theory RollbackProps
  imports Reach
begin

text \<open>
  Rolling a block back: the money moved by its transactions and its reward returns where it came
  from. A step is described by what it adds to each balance (\<open>moves\<close>); the inverse of a step moves
  the opposite.
\<close>

section \<open>Steps described by what they add\<close>

definition moves :: "(string \<Rightarrow> int) \<Rightarrow> int \<Rightarrow> 'a ledger_scheme \<Rightarrow> 'a ledger_scheme \<Rightarrow> bool" where
  "moves d k s t \<longleftrightarrow>
     (\<forall>a. get_balance t a = get_balance s a + d a) \<and> total_burned t = total_burned s + k
     \<and> total_minted t = total_minted s \<and> financial_active t = financial_active s"

definition at :: "string \<Rightarrow> int \<Rightarrow> string \<Rightarrow> int" where
  "at a n x = (if x = a then n else 0)"

lemma moves_refl [simp]: "moves (\<lambda>a. 0) 0 s s"
  by (simp add: moves_def)

lemma moves_trans: "moves d k s t \<Longrightarrow> moves e m t u \<Longrightarrow> moves (\<lambda>a. d a + e a) (k + m) s u"
  by (simp add: moves_def)

lemma moves_credited: "moves (at a n) 0 s (credited a n s)"
  by (simp add: moves_def ledger_simps at_def)

lemma moves_debited: "moves (at a (- n)) 0 s (debited a n s)"
  by (simp add: moves_def ledger_simps at_def)

lemma moves_rollback_debit: "0 \<le> n \<Longrightarrow> moves (at a (- n)) 0 s (rollback_debit a n s)"
  by (cases "n = 0") (simp_all add: rollback_debit_def moves_debited, simp add: moves_def at_def)

lemma moves_burned: "moves (\<lambda>a. 0) k s (s\<lparr>total_burned := total_burned s + k\<rparr>)"
  by (simp add: moves_def get_balance_def)

lemma moves_fin: "fin_view s = fin_view s' \<Longrightarrow> fin_view t = fin_view t' \<Longrightarrow> moves d k s t = moves d k s' t'"
  by (simp add: moves_def fin_view_def get_balance_def)

lemma moves_cong: "moves d k s t \<Longrightarrow> (\<And>a. d a = e a) \<Longrightarrow> k = m \<Longrightarrow> moves e m s t"
  by (simp add: moves_def)

section \<open>One transaction\<close>

definition fee_burn :: "env \<Rightarrow> int \<Rightarrow> transaction \<Rightarrow> int" where
  "fee_burn E idx tx =
     (if idx \<ge> dyn_height E then 0 else TX_FEES (tx_type tx) - TX_FEES (tx_type tx) div 2)"

definition fee_delta :: "env \<Rightarrow> int \<Rightarrow> block \<Rightarrow> transaction \<Rightarrow> string \<Rightarrow> int" where
  "fee_delta E idx b tx a =
     (let fee = tx_fee_due E idx b tx
      in at (tx_sender tx) (- fee) a + at (b_validator b) (fee - fee_burn E idx tx) a)"

definition amount_delta :: "transaction \<Rightarrow> string \<Rightarrow> int" where
  "amount_delta tx a =
     (if tx_type tx = TRANSFER then at (tx_sender tx) (- amount_of tx) a + at (tx_recipient tx) (amount_of tx) a
      else if tx_type tx \<in> {STAKE, DELEGATE} \<and> amount_of tx > 0 then at (tx_sender tx) (- amount_of tx) a else 0)"

lemma charge_fee_moves:
  assumes "charge_fee E idx b tx s = (None, t)"
  shows "moves (fee_delta E idx b tx) (fee_burn E idx tx) s t"
proof (cases "idx \<ge> dyn_height E")
  case True
  show ?thesis
  proof (cases "tx_weight (tx_type tx) > 0")
    case True': True
    then show ?thesis
      using assms True
      by (auto simp: charge_fee_def Let_def run_all_Cons_None credit_None debit_None moves_def fee_delta_def
          fee_burn_def at_def ledger_simps simp del: run_all.simps(2))
  next
    case False
    then show ?thesis
      using assms True by (simp add: charge_fee_def Let_def moves_def fee_delta_def fee_burn_def at_def tx_fee_due_def)
  qed
next
  case False
  show ?thesis
  proof (cases "TX_FEES (tx_type tx) > 0")
    case True
    then show ?thesis
      using assms False
      by (auto simp: charge_fee_def Let_def run_all_Cons_None credit_None debit_None moves_def fee_delta_def
          fee_burn_def tx_fee_due_def at_def ledger_simps get_balance_def[of "_\<lparr>total_burned := _\<rparr>"]
          simp flip: get_balance_def simp del: run_all.simps(2))
  next
    case False': False
    then have "TX_FEES (tx_type tx) = 0" using TX_FEES_nonneg[of "tx_type tx"] by simp
    then show ?thesis
      using assms False by (simp add: charge_fee_def Let_def moves_def fee_delta_def fee_burn_def at_def tx_fee_due_def)
  qed
qed

lemma move_amount_moves:
  assumes "move_amount tx s = (None, t)"
  shows "moves (amount_delta tx) 0 s t"
  using assms
  by (auto simp: move_amount_def run_all_Cons_None credit_None debit_None when_do_eq moves_def amount_delta_def
      at_def ledger_simps simp del: run_all.simps(2) split: if_splits)

text \<open>The inverse, wherever the transaction itself went through.\<close>

lemma undo_amount_moves:
  assumes "move_amount tx s = (None, t)"
  shows "\<exists>v. undo_amount tx u = (None, v) \<and> moves (\<lambda>a. - amount_delta tx a) 0 u v"
proof -
  have n: "tx_type tx = TRANSFER \<Longrightarrow> 0 \<le> amount_of tx"
    using assms by (auto simp: move_amount_def run_all_Cons_None debit_None simp del: run_all.simps(2))
  consider "tx_type tx = TRANSFER" | "tx_type tx \<in> {STAKE, DELEGATE}" | "tx_type tx \<notin> {TRANSFER, STAKE, DELEGATE}"
    by blast
  then show ?thesis
  proof cases
    case 1
    have "moves (\<lambda>a. at (tx_recipient tx) (- amount_of tx) a + at (tx_sender tx) (amount_of tx) a) (0 + 0) u
        (credited (tx_sender tx) (amount_of tx) (rollback_debit (tx_recipient tx) (amount_of tx) u))"
      by (rule moves_trans[OF moves_rollback_debit[OF n[OF 1]] moves_credited])
    then have "moves (\<lambda>a. - amount_delta tx a) 0 u
        (credited (tx_sender tx) (amount_of tx) (rollback_debit (tx_recipient tx) (amount_of tx) u))"
      by (rule moves_cong) (simp_all add: amount_delta_def 1 at_def)
    then show ?thesis using n[OF 1] by (simp add: undo_amount_def 1 credit_def)
  next
    case 2
    show ?thesis
    proof (cases "amount_of tx > 0")
      case True
      have "moves (\<lambda>a. - amount_delta tx a) 0 u (credited (tx_sender tx) (amount_of tx) u)"
        by (rule moves_cong[OF moves_credited]) (use 2 True in \<open>auto simp: amount_delta_def at_def\<close>)
      then show ?thesis using 2 True by (auto simp: undo_amount_def credit_def)
    next
      case False
      then have "moves (\<lambda>a. - amount_delta tx a) 0 u u" using 2 by (auto simp: amount_delta_def moves_def)
      then show ?thesis using 2 False by (auto simp: undo_amount_def)
    qed
  next
    case 3
    then show ?thesis by (auto simp: undo_amount_def amount_delta_def moves_def)
  qed
qed

lemma undo_fee_moves:
  assumes "charge_fee E idx b tx s = (None, t)"
  shows "\<exists>v. undo_fee E idx b tx u = (None, v) \<and> moves (\<lambda>a. - fee_delta E idx b tx a) (- fee_burn E idx tx) u v"
proof -
  let ?fee = "tx_fee_due E idx b tx" and ?v = "b_validator b" and ?a = "tx_sender tx"
  have n: "tx_weight (tx_type tx) > 0 \<Longrightarrow> idx \<ge> dyn_height E \<Longrightarrow> 0 \<le> ?fee"
    using assms by (auto simp: charge_fee_def Let_def run_all_Cons_None debit_None simp del: run_all.simps(2))
  have undone: "moves (\<lambda>a. - fee_delta E idx b tx a) (- fee_burn E idx tx) u
      (credited ?a ?fee ((rollback_debit ?v (?fee - k) u)\<lparr>total_burned := total_burned u - k\<rparr>))"
    if k: "k = fee_burn E idx tx" and f: "0 \<le> ?fee - k" for k
  proof -
    let ?w = "rollback_debit ?v (?fee - k) u"
    have w: "moves (at ?v (- (?fee - k))) 0 u ?w" by (rule moves_rollback_debit[OF f])
    have b: "total_burned u - k = total_burned ?w + (- k)" using w by (simp add: moves_def)
    have "moves (\<lambda>a. (at ?v (- (?fee - k)) a + 0) + at ?a ?fee a) ((0 + (- k)) + 0) u
        (credited ?a ?fee (?w\<lparr>total_burned := total_burned u - k\<rparr>))"
      unfolding b by (rule moves_trans[OF moves_trans[OF w moves_burned] moves_credited])
    then show ?thesis by (rule moves_cong) (auto simp: fee_delta_def at_def k)
  qed
  show ?thesis
  proof (cases "idx \<ge> dyn_height E")
    case True
    then have b: "fee_burn E idx tx = 0" by (simp add: fee_burn_def)
    show ?thesis
    proof (cases "tx_weight (tx_type tx) > 0")
      case w: True
      have e: "compute_tx_fee (b_base_fee b) (tx_max_fee tx) (tx_max_prio tx) (tx_weight (tx_type tx)) = ?fee"
        using True w by (simp add: tx_fee_due_def)
      have "(rollback_debit ?v ?fee u)\<lparr>total_burned := total_burned u\<rparr> = rollback_debit ?v ?fee u"
        by (simp add: rollback_debit_def debited_def Let_def)
      then show ?thesis
        using undone[of 0] n[OF w True] True w by (simp add: undo_fee_def Let_def b e credit_def)
    next
      case False
      then show ?thesis using True by (simp add: undo_fee_def Let_def b fee_delta_def tx_fee_due_def at_def moves_def)
    qed
  next
    case False
    then have e: "?fee = TX_FEES (tx_type tx)" "fee_burn E idx tx = TX_FEES (tx_type tx) - TX_FEES (tx_type tx) div 2"
      by (simp_all add: tx_fee_due_def fee_burn_def)
    let ?f = "TX_FEES (tx_type tx)"
    show ?thesis
    proof (cases "?f > 0")
      case True
      have "total_burned (rollback_debit ?v (?f div 2) u) = total_burned u"
        by (simp add: rollback_debit_def)
      then show ?thesis
        using undone[of "?f - ?f div 2"] False True by (simp add: undo_fee_def Let_def e credit_def)
    next
      case f: False
      then have "?f = 0" using TX_FEES_nonneg[of "tx_type tx"] by simp
      then show ?thesis using False by (simp add: undo_fee_def Let_def e fee_delta_def at_def moves_def)
    qed
  qed
qed

definition tx_delta :: "env \<Rightarrow> int \<Rightarrow> block \<Rightarrow> transaction \<Rightarrow> string \<Rightarrow> int" where
  "tx_delta E idx b tx a = fee_delta E idx b tx a + amount_delta tx a"

lemma pay_moves:
  assumes "run_all [charge_fee E idx b tx, move_amount tx] s = (None, t)"
  shows "moves (tx_delta E idx b tx) (fee_burn E idx tx) s t"
    "\<exists>v. undo_tx_money E idx b tx u = (None, v) \<and> moves (\<lambda>a. - tx_delta E idx b tx a) (- fee_burn E idx tx) u v"
proof -
  obtain w where c: "charge_fee E idx b tx s = (None, w)" and m: "move_amount tx w = (None, t)"
    using assms by (auto simp: run_all_Cons_None simp del: run_all.simps(2))
  show "moves (tx_delta E idx b tx) (fee_burn E idx tx) s t"
    by (rule moves_cong[OF moves_trans[OF charge_fee_moves[OF c] move_amount_moves[OF m]]])
      (simp_all add: tx_delta_def)
  obtain x where x: "undo_amount tx u = (None, x)" "moves (\<lambda>a. - amount_delta tx a) 0 u x"
    using undo_amount_moves[OF m] by blast
  obtain y where y: "undo_fee E idx b tx x = (None, y)" "moves (\<lambda>a. - fee_delta E idx b tx a) (- fee_burn E idx tx) x y"
    using undo_fee_moves[OF c] by blast
  have "moves (\<lambda>a. - tx_delta E idx b tx a) (- fee_burn E idx tx) u y"
    by (rule moves_cong[OF moves_trans[OF x(2) y(2)]]) (simp_all add: tx_delta_def)
  then show "\<exists>v. undo_tx_money E idx b tx u = (None, v) \<and> moves (\<lambda>a. - tx_delta E idx b tx a) (- fee_burn E idx tx) u v"
    using x(1) y(1) by (simp add: undo_tx_money_def)
qed

section \<open>All transactions of a block\<close>

definition txs_delta :: "env \<Rightarrow> int \<Rightarrow> block \<Rightarrow> transaction list \<Rightarrow> string \<Rightarrow> int" where
  "txs_delta E idx b txs a = sum_list (map (\<lambda>tx. tx_delta E idx b tx a) txs)"

definition txs_burn :: "env \<Rightarrow> int \<Rightarrow> transaction list \<Rightarrow> int" where
  "txs_burn E idx txs = sum_list (map (fee_burn E idx) txs)"

lemma type_effect_fin: "fin_view (snd (type_effect E idx tx s)) = fin_view s"
  by (cases "tx_type tx") (simp_all add: type_effect_def frame_simps)

lemma apply_tx_moves:
  assumes "apply_tx E idx b j tx s = (None, t)" "idx > 0" "financial_active s"
  shows "moves (tx_delta E idx b tx) (fee_burn E idx tx) s t"
    "\<exists>v. undo_tx_money E idx b tx u = (None, v) \<and> moves (\<lambda>a. - tx_delta E idx b tx a) (- fee_burn E idx tx) u v"
proof -
  from assms(1) obtain w v where w: "w = index_tx E idx j tx s"
    and v: "if idx > 0 \<and> financial_active s then run_all [charge_fee E idx b tx, move_amount tx] w = (None, v) else v = w"
    and t: "type_effect E idx tx v = (None, t)"
    by (rule apply_tx_parts)
  have r: "run_all [charge_fee E idx b tx, move_amount tx] w = (None, v)" using v assms(2,3) by simp
  have "fin_view s = fin_view w" "fin_view t = fin_view v"
    using type_effect_fin[of E idx tx v] t by (simp_all add: w frame_simps)
  then show "moves (tx_delta E idx b tx) (fee_burn E idx tx) s t"
    using pay_moves(1)[OF r] moves_fin[of s w t v] by simp
  show "\<exists>v. undo_tx_money E idx b tx u = (None, v) \<and> moves (\<lambda>a. - tx_delta E idx b tx a) (- fee_burn E idx tx) u v"
    by (rule pay_moves(2)[OF r])
qed

lemma apply_txs_moves:
  fixes s t :: "'a chain_scheme"
  assumes "apply_txs E idx b j txs s = (None, t)" "idx > 0" "financial_active s"
  shows "moves (txs_delta E idx b txs) (txs_burn E idx txs) s t
    \<and> (\<forall>u :: 'a chain_scheme. \<exists>v. run_all (map (undo_tx_money E idx b) (rev txs)) u = (None, v)
            \<and> moves (\<lambda>a. - txs_delta E idx b txs a) (- txs_burn E idx txs) u v)"
  using assms
proof (induction txs arbitrary: j s)
  case Nil
  then show ?case by (simp add: moves_def txs_delta_def txs_burn_def)
next
  case (Cons tx txs)
  obtain w where w: "apply_tx E idx b (int j) tx s = (None, w)" "apply_txs E idx b (Suc j) txs w = (None, t)"
    using Cons.prems(1) by (auto split: prod.splits option.splits)
  note m = apply_tx_moves[OF w(1) Cons.prems(2,3)]
  have "financial_active w" using m(1) Cons.prems(3) by (simp add: moves_def)
  note IH = Cons.IH[OF w(2) Cons.prems(2) this]
  have "moves (txs_delta E idx b (tx # txs)) (txs_burn E idx (tx # txs)) s t"
    by (rule moves_cong[OF moves_trans[OF m(1) conjunct1[OF IH]]]) (simp_all add: txs_delta_def txs_burn_def)
  moreover have "\<exists>v. run_all (map (undo_tx_money E idx b) (rev (tx # txs))) u = (None, v)
      \<and> moves (\<lambda>a. - txs_delta E idx b (tx # txs) a) (- txs_burn E idx (tx # txs)) u v" for u :: "'a chain_scheme"
  proof -
    obtain x where x: "run_all (map (undo_tx_money E idx b) (rev txs)) u = (None, x)"
      "moves (\<lambda>a. - txs_delta E idx b txs a) (- txs_burn E idx txs) u x"
      using conjunct2[OF IH] by blast
    obtain y where y: "undo_tx_money E idx b tx x = (None, y)"
      "moves (\<lambda>a. - tx_delta E idx b tx a) (- fee_burn E idx tx) x y" using m(2) by blast
    have "moves (\<lambda>a. - txs_delta E idx b (tx # txs) a) (- txs_burn E idx (tx # txs)) u y"
      by (rule moves_cong[OF moves_trans[OF x(2) y(2)]]) (simp_all add: txs_delta_def txs_burn_def)
    then show ?thesis using x(1) y(1) by (simp add: run_all_append)
  qed
  ultimately show ?case by blast
qed

section \<open>What the undoing leaves alone\<close>

text \<open>
  A function of the state that no credit or debit changes, nor the supply counters, is not changed
  by the undoing of balances.
\<close>

locale undo_frame = staking_frame +
  assumes F_burned: "F (s\<lparr>total_burned := k\<rparr>) = F s"
    and F_minted: "F (s\<lparr>total_minted := m, epoch_rewards := r\<rparr>) = F s"
begin

lemma F_rollback_debit: "F (rollback_debit a n s) = F s"
  by (simp add: rollback_debit_def F_debited)

lemma F_undo_money:
  assumes "undo_tx_money E idx b tx s = (None, t)"
  shows "F t = F s"
proof -
  obtain u where a: "undo_amount tx s = (None, u)" and f: "undo_fee E idx b tx u = (None, t)"
    using assms by (auto simp: undo_tx_money_def run_all_Cons_None simp del: run_all.simps(2))
  have "F u = F s"
    using a by (auto simp: undo_amount_def run_all_Cons_None when_do_eq credit_None F_credited F_rollback_debit
        simp del: run_all.simps(2) split: if_splits)
  moreover have "F t = F u"
    using f by (auto simp: undo_fee_def Let_def run_all_Cons_None when_do_eq credit_None F_credited
        F_rollback_debit F_burned simp del: run_all.simps(2) split: if_splits)
  ultimately show ?thesis by simp
qed

lemma F_undo_reward: "F (undo_reward idx b s) = F s"
  by (simp add: undo_reward_def Let_def F_minted F_rollback_debit)

lemma F_undo_balances:
  assumes "undo_balances E b s = (None, t)"
  shows "F t = F s"
proof (cases "b_index b > 0 \<and> financial_active s")
  case True
  then have r: "run_all (map (undo_tx_money E (b_index b) b) (rev (b_txs b))) (undo_reward (b_index b) b s) = (None, t)"
    using assms by (simp add: undo_balances_def)
  have "F t = F s"
    by (rule run_all_inv[where I = "\<lambda>u. F u = F s", OF _ F_undo_reward r]) (auto dest: F_undo_money)
  then show ?thesis .
qed (use assms in \<open>auto simp: undo_balances_def\<close>)

end

definition tip_view where
  "tip_view s = (chain_list s, height s, state_snapshots s)"

interpretation tip_undo: undo_frame tip_view
  by unfold_locales (simp_all add: tip_view_def credited_def debited_def freeze_epoch_def Let_def)

text \<open>The rest of a rollback does not touch money, nor what \<open>tip_view\<close> shows.\<close>

definition rest_frame where
  "rest_frame s = (fin_view s, tip_view s)"

lemma undo_receipts_frame: "rest_frame (undo_receipts E b s) = rest_frame s"
proof -
  have one: "rest_frame (undo_receipt E tx u) = rest_frame u" for tx and u :: "'a chain_scheme"
    by (auto simp: undo_receipt_def rest_frame_def tip_view_def fin_view_def split: option.splits)
  have "rest_frame (fold (undo_receipt E) txs s) = rest_frame s" for txs
    by (rule fold_inv[where I = "\<lambda>u. rest_frame u = rest_frame s"]) (simp_all add: one)
  then show ?thesis by (simp add: undo_receipts_def Let_def rest_frame_def tip_view_def fin_view_def)
qed

lemma take_tokens_frame: "rest_frame (take_tokens tid a n s) = rest_frame s"
  by (simp add: take_tokens_def update_token_index_def Let_def rest_frame_def tip_view_def fin_view_def)

lemma undo_issue_frame: "rest_frame (undo_issue_token E tx s) = rest_frame s"
proof -
  have "rest_frame (fold (\<lambda>k t. update_token_index tid (snd k) 0 (t\<lparr>token_balances := dpop (token_balances t) k\<rparr>)) ks u)
      = rest_frame u" for tid ks and u :: "'a chain_scheme"
    by (rule fold_inv[where I = "\<lambda>t. rest_frame t = rest_frame u"])
      (simp_all add: rest_frame_def tip_view_def fin_view_def update_token_index_def)
  then show ?thesis by (simp add: undo_issue_token_def Let_def) (simp add: rest_frame_def tip_view_def fin_view_def)
qed

lemma undo_mint_frame: "rest_frame (undo_mint_token tx s) = rest_frame s"
  by (auto simp: undo_mint_token_def Let_def take_tokens_frame split: option.splits)
    (simp add: rest_frame_def tip_view_def fin_view_def)

lemma undo_transfer_frame: "rest_frame (undo_transfer_token tx s) = rest_frame s"
proof -
  have "rest_frame (token_credit tid a n u) = rest_frame u" for tid a n and u :: "'a chain_scheme"
    by (simp add: token_credit_def update_token_index_def Let_def rest_frame_def tip_view_def fin_view_def)
  then show ?thesis by (simp add: undo_transfer_token_def Let_def take_tokens_frame)
qed

lemma undo_tx_frame: "rest_frame (undo_tx E idx tx s) = rest_frame s"
proof -
  have i: "rest_frame (undo_index E tx s) = rest_frame s"
    by (simp add: undo_index_def Let_def rest_frame_def tip_view_def fin_view_def)
  have "rest_frame (undo_type E idx tx u) = rest_frame u" for u :: "'a chain_scheme"
    by (cases "tx_type tx")
      (simp_all add: undo_type_def undo_issue_frame undo_mint_frame undo_transfer_frame,
       auto simp: rest_frame_def tip_view_def fin_view_def undo_notarize_def undo_register_key_def
         undo_register_validator_def undo_revoke_key_def undo_stake_def undo_unstake_def undo_evidence_def
         remove_validator_def add_validator_def Let_def split: option.splits)
  then show ?thesis using i by (simp add: undo_tx_def)
qed

lemma undo_txs_frame: "rest_frame (fold recompute_nonce ts (fold (undo_tx E idx) txs s)) = rest_frame s"
proof -
  have n: "rest_frame (recompute_nonce tx u) = rest_frame u" for tx and u :: "'a chain_scheme"
    by (simp add: recompute_nonce_def Let_def rest_frame_def tip_view_def fin_view_def)
  have "rest_frame (fold recompute_nonce ts u) = rest_frame u" for u :: "'a chain_scheme"
    by (rule fold_inv[where I = "\<lambda>v. rest_frame v = rest_frame u"]) (simp_all add: n)
  moreover have "rest_frame (fold (undo_tx E idx) txs s) = rest_frame s"
    by (rule fold_inv[where I = "\<lambda>u. rest_frame u = rest_frame s"]) (simp_all add: undo_tx_frame)
  ultimately show ?thesis by simp
qed

section \<open>A block appended and rolled back\<close>

lemma rest_frameD:
  assumes "rest_frame t = rest_frame s"
  shows "fin_view t = fin_view s" "chain_list t = chain_list s" "height t = height s"
    "state_snapshots t = state_snapshots s"
  using assms by (simp_all add: rest_frame_def tip_view_def)

text \<open>A rollback off an epoch boundary, onto a block whose snapshot is kept.\<close>

lemma rollback_block_moves:
  fixes p :: "'a chain_scheme"
  assumes "undo_balances E b (undo_receipts E b p) = (None, q)" "b_index b mod EPOCH_LENGTH \<noteq> 0"
    "b_index b \<ge> 1" "height p \<ge> 1" "chain_list p \<noteq> []" "dget (state_snapshots p) (b_index b - 1) = Some snap"
  shows "\<exists>u. rollback_block E b p = (None, u) \<and> fin_view u = fin_view q \<and> chain_list u = chain_list p
    \<and> height u = height p - 1 \<and> latest_block u = Some (last (chain_list p)) \<and> entries (state_trie u) = snap"
proof -
  let ?q = "q\<lparr>block_by_hash := dpop (block_by_hash q) (block_hash E b)\<rparr>"
  let ?r = "fold recompute_nonce (b_txs b) (fold (undo_tx E (b_index b)) (b_txs b) ?q)"
  let ?w = "?r\<lparr>state_snapshots := dpop (state_snapshots ?r) (b_index b),
      state_trie := trie_restore (state_trie ?r) snap\<rparr>"
  have tq: "tip_view q = tip_view p"
    using tip_undo.F_undo_balances[OF assms(1)] undo_receipts_frame[of E b p] by (simp add: rest_frame_def)
  have "rest_frame ?r = rest_frame ?q" by (rule undo_txs_frame)
  also have "\<dots> = rest_frame q" by (simp add: rest_frame_def tip_view_def fin_view_def)
  finally have r: "rest_frame ?r = rest_frame q" .
  then have rp: "chain_list ?r = chain_list p" "height ?r = height p" "state_snapshots ?r = state_snapshots p"
    "fin_view ?r = fin_view q"
    using tq by (simp_all add: rest_frame_def tip_view_def)
  have e: "undo_epoch b ?r = (None, ?r)" using assms(2) by (simp add: undo_epoch_def)
  have t: "restore_trie b ?r = (None, ?w)"
    using assms(3,6) rp(3) by (simp add: restore_trie_def Let_def dict_simps)
  have "step_back ?w = (None, ?w\<lparr>height := height p - 1, latest_block := Some (last (chain_list p))\<rparr>)"
    using assms(4,5) rp(1,2) by (simp add: step_back_def Let_def)
  then have "rollback_block E b p = (None, ?w\<lparr>height := height p - 1, latest_block := Some (last (chain_list p))\<rparr>)"
    using assms(1) e t by (simp add: rollback_block_def)
  then show ?thesis using rp by (simp add: fin_view_def trie_restore_def)
qed

lemma append_balances:
  fixes s t :: "'a chain_scheme"
  assumes "append_block_inner E b s = (None, t)" "0 \<le> height s" "financial_active s"
    "list_all (\<lambda>e. ub_release e > height s + 1) (unbonding s)"
    "(height s + 1) div EPOCH_LENGTH \<le> current_epoch s"
  defines "r \<equiv> calc_block_reward s (height s + 1)"
  shows "\<forall>a. get_balance t a = get_balance s a + (txs_delta E (height s + 1) b (b_txs b) a + at (b_validator b) r a)"
    "total_burned t = total_burned s + txs_burn E (height s + 1) (b_txs b)"
    "total_minted t = total_minted s + r" "financial_active t"
    "\<exists>v. run_all (map (undo_tx_money E (height s + 1) b) (rev (b_txs b))) u = (None, v)
       \<and> moves (\<lambda>a. - txs_delta E (height s + 1) b (b_txs b) a) (- txs_burn E (height s + 1) (b_txs b)) (u :: 'a chain_scheme) v"
proof -
  obtain s2 s3 s4 s5 s6 s7 s8 :: "'a chain_scheme" where
    c: "process_mature_unbondings (height s + 1) (push_block E b s) = (None, s2)"
      "check_epoch_transition (height s + 1) s2 = (None, s3)"
      "apply_txs E (height s + 1) b 0 (b_txs b) s3 = (None, s4)"
      "core_view s5 = core_view s4" "finalized_height s5 = finalized_height s4"
      "core_view s6 = core_view (rewarded (height s + 1) b s5)" "finalized_height s6 = finalized_height s5"
      "rebuild_state_trie s6 = (None, s7)" "state_root_step E (height s + 1) b s7 = (None, s8)"
      "t = update_finality (height s + 1) (prune_distributions (height s + 1) (prune_events (height s + 1)
             (save_snapshot (height s + 1) s8)))"
    by (rule append_course[OF assms(1) refl])
  have "matured (height s + 1) (push_block E b s) = []"
    using assms(4) by (auto simp: matured_def filter_empty_conv list_all_iff push_block_def)
  then have s2: "fin_view s2 = fin_view s" "current_epoch s2 = current_epoch s"
    using c(1) by (auto simp: process_mature_unbondings_def when_do_eq fin_view_def push_block_def split: if_splits)
  then have s3: "s3 = s2" using c(2) assms(2,5) by (simp add: check_epoch_transition_def Let_def)
  have f3: "financial_active s3" using s2 s3 assms(3) by (simp add: fin_view_def)
  note m = apply_txs_moves[OF c(3) _ f3]
  have m4: "moves (txs_delta E (height s + 1) b (b_txs b)) (txs_burn E (height s + 1) (b_txs b)) s s5"
    using m assms(2) moves_fin[of s s3 s5 s4] s2(1) s3 core_viewD(1)[OF c(4)] by simp
  have r: "calc_block_reward s5 (height s + 1) = r"
    using m4 calc_block_reward_cong[of s5 s] by (simp add: r_def moves_def)
  have "0 \<le> r" by (simp add: r_def block_reward_nonneg)
  then have rw: "\<forall>a. get_balance (rewarded (height s + 1) b s5) a = get_balance s5 a + at (b_validator b) r a"
    "total_minted (rewarded (height s + 1) b s5) = total_minted s5 + r"
    "total_burned (rewarded (height s + 1) b s5) = total_burned s5"
    "financial_active (rewarded (height s + 1) b s5) = financial_active s5"
    using m4 assms(2,3) by (auto simp: rewarded_def Let_def r at_def moves_def get_balance_def[of "_\<lparr>total_minted := _, epoch_rewards := _\<rparr>"]
        ledger_simps simp flip: get_balance_def)
  have ct: "core_view t = core_view (rewarded (height s + 1) b s5)"
    using c(6,8,9,10) late_core core_rebuild core_state_root_step by (metis snd_conv)
  then have ft: "fin_view t = fin_view (rewarded (height s + 1) b s5)" by (rule core_viewD(1))
  show "\<forall>a. get_balance t a = get_balance s a + (txs_delta E (height s + 1) b (b_txs b) a + at (b_validator b) r a)"
    using ft rw(1) m4 by (simp add: fin_view_def get_balance_def moves_def)
  show "total_burned t = total_burned s + txs_burn E (height s + 1) (b_txs b)"
    "total_minted t = total_minted s + r" "financial_active t"
    using ft rw m4 assms(3) by (simp_all add: fin_view_def moves_def)
  show "\<exists>v. run_all (map (undo_tx_money E (height s + 1) b) (rev (b_txs b))) u = (None, v)
       \<and> moves (\<lambda>a. - txs_delta E (height s + 1) b (b_txs b) a) (- txs_burn E (height s + 1) (b_txs b)) (u :: 'a chain_scheme) v"
    using m assms(2) by simp
qed

text \<open>The snapshots an append leaves: the new one, less the one that left the window.\<close>

interpretation snapshot_frame: undo_frame state_snapshots
  by unfold_locales (simp_all add: credited_def debited_def freeze_epoch_def Let_def)

lemma snapshots_pay:
  assumes "run_all [charge_fee E idx b tx, move_amount tx] s = (None, t)"
  shows "state_snapshots t = state_snapshots s"
proof -
  obtain u where c: "charge_fee E idx b tx s = (None, u)" and m: "move_amount tx u = (None, t)"
    using assms by (auto simp: run_all_Cons_None simp del: run_all.simps(2))
  note F = snapshot_frame.F_credited snapshot_frame.F_debited
  have "state_snapshots u = state_snapshots s"
    using c by (auto simp: charge_fee_def Let_def run_all_Cons_None when_do_eq credit_None debit_None F
        simp del: run_all.simps(2) split: if_splits)
  moreover have "state_snapshots t = state_snapshots u"
    using m by (auto simp: move_amount_def run_all_Cons_None when_do_eq credit_None debit_None F
        simp del: run_all.simps(2) split: if_splits)
  ultimately show ?thesis by simp
qed

lemma snapshots_effect: "state_snapshots (snd (type_effect E idx tx s)) = state_snapshots s"
  by (cases "tx_type tx")
    (auto simp: type_effect_def apply_notarize_def apply_register_key_def apply_register_validator_def
      set_commission_def add_validator_def remove_validator_def apply_revoke_key_def apply_revocation_def
      purge_sender_def apply_stake_def apply_unstake_def process_evidence_tx_def slash_def
      apply_issue_token_def apply_mint_token_def minted_token_def apply_transfer_token_def token_credit_def
      token_debit_def update_token_index_def Let_def split: option.splits)

lemma snapshots_apply_tx: "apply_tx E idx b j tx s = (None, t) \<Longrightarrow> state_snapshots t = state_snapshots s"
proof (erule apply_tx_parts)
  fix u v assume u: "u = index_tx E idx j tx s"
    and v: "if idx > 0 \<and> financial_active s then run_all [charge_fee E idx b tx, move_amount tx] u = (None, v) else v = u"
    and t: "type_effect E idx tx v = (None, t)"
  have "state_snapshots v = state_snapshots u" using v snapshots_pay by (auto split: if_splits)
  moreover have "state_snapshots u = state_snapshots s" by (simp add: u index_tx_def Let_def)
  ultimately show ?thesis using snapshots_effect[of E idx tx v] t by simp
qed

lemma snapshots_txs: "apply_txs E idx b j txs s = (None, t) \<Longrightarrow> state_snapshots t = state_snapshots s"
proof (induction txs arbitrary: j s)
  case (Cons tx txs)
  obtain w where w: "apply_tx E idx b (int j) tx s = (None, w)" "apply_txs E idx b (Suc j) txs w = (None, t)"
    using Cons.prems by (auto split: prod.splits option.splits)
  show ?case using Cons.IH[OF w(2)] snapshots_apply_tx[OF w(1)] by simp
qed simp

lemma append_snapshots:
  fixes s t :: "'a chain_scheme"
  assumes "append_block_inner E b s = (None, t)"
  shows "\<exists>x. state_snapshots t = prune_at (height s + 1) (dset (state_snapshots s) (height s + 1) x)"
proof -
  let ?idx = "height s + 1"
  let ?A = "[on_chain (pure (push_block E b)), on_chain (process_mature_unbondings ?idx), epoch_step ?idx]"
  let ?B = "map (tx_step E ?idx b) (enumerate 0 (b_txs b))"
  let ?C = "[receipts_step ?idx, reward_step ?idx b, pure (store_block_events ?idx), receipts_root_step E ?idx b,
        on_chain rebuild_state_trie, on_chain (state_root_step E ?idx b), on_chain (pure (save_snapshot ?idx)),
        on_chain (pure (prune_events ?idx)), on_chain (pure (prune_distributions ?idx)),
        on_chain (pure (update_finality ?idx))]"
  obtain lt where "run_all (?A @ ?B @ ?C) (no_locals, s) = (None, (lt, t))"
    using assms by (auto simp: append_block_inner_def append_steps_def split: prod.splits)
  then obtain p3 p4 where p3: "run_all ?A (no_locals, s) = (None, p3)" and p4: "run_all ?B p3 = (None, p4)"
    and C: "run_all ?C p4 = (None, (lt, t))"
    unfolding run_all_append_None by blast
  obtain s2 where s2: "process_mature_unbondings ?idx (push_block E b s) = (None, s2)"
    and e: "epoch_step ?idx (no_locals, s2) = (None, p3)"
    using p3 by (auto simp: run_all_Cons_None on_chain_None simp del: run_all.simps(2))
  obtain p5 p6 p7 s7 s8 where
    c: "receipts_step ?idx p4 = (None, p5)" "reward_step ?idx b p5 = (None, p6)"
      "receipts_root_step E ?idx b (store_block_events ?idx p6) = (None, p7)"
      "rebuild_state_trie (snd p7) = (None, s7)" "state_root_step E ?idx b s7 = (None, s8)"
      "t = update_finality ?idx (prune_distributions ?idx (prune_events ?idx (save_snapshot ?idx s8)))"
    using C by (auto simp: run_all_Cons_None on_chain_None simp del: run_all.simps(2))
  have "state_snapshots (push_block E b s) = state_snapshots s" by (simp add: push_block_def)
  then have a: "state_snapshots (snd p4) = state_snapshots s"
    using snapshot_frame.F_mature[OF s2] snapshot_frame.F_epoch[OF epoch_step_None[OF e, unfolded snd_conv]]
      snapshots_txs[OF run_tx_steps[OF p4]] by simp
  have "state_snapshots (snd (snd (receipts_step ?idx p4))) = state_snapshots (snd p4)"
    unfolding receipts_step_def
    by (rule run_all_inv_any[where I = "\<lambda>q. state_snapshots (snd q) = state_snapshots (snd p4)"])
      (auto simp: receipt_step_def Let_def split: prod.splits sum.splits)
  then have "state_snapshots (snd p7) = state_snapshots s"
    using a c(1,3) reward_step_None[OF c(2)]
    by (auto simp: receipts_root_step_def Let_def store_block_events_def rewarded_def credited_def split: if_splits)
  then have s8: "state_snapshots s8 = state_snapshots s"
    using rebuild_entries[OF c(4)] c(5)
    by (auto simp: state_root_step_def state_root_def Let_def split: prod.splits if_splits)
  have fin: "state_snapshots (update_finality i u) = state_snapshots u" for i and u :: "'a chain_scheme"
    by (auto simp: update_finality_def Let_def split: option.splits)
  have "state_snapshots t = prune_at ?idx (dset (state_snapshots s8) ?idx (trie_snapshot (state_trie s8)))"
    by (simp add: c(6) fin prune_distributions_def prune_events_def save_snapshot_def Let_def)
  then show ?thesis using s8 by auto
qed

lemma append_rollback:
  fixes s t :: "'a chain_scheme"
  assumes "append_block_inner E b s = (None, t)" "chain_ok s" "b_index b = height s + 1" "0 \<le> height s"
    and "financial_active s" "list_all (\<lambda>e. ub_release e > height s + 1) (unbonding s)"
    and "(height s + 1) mod EPOCH_LENGTH \<noteq> 0" "(height s + 1) div EPOCH_LENGTH \<le> current_epoch s"
    and "dget (state_snapshots s) (height s) = Some snap"
    and "total_minted s + 2 * halved_reward (height s + 1) \<le> MAX_SUPPLY"
  shows "\<exists>u. rollback_block E b (pop_block t) = (None, u) \<and> (\<forall>a. get_balance u a = get_balance s a)
    \<and> total_minted u = total_minted s \<and> total_burned u = total_burned s \<and> chain_list u = chain_list s
    \<and> height u = height s \<and> latest_block u = latest_block s \<and> entries (state_trie u) = snap"
proof -
  let ?idx = "height s + 1" and ?v = "b_validator b"
  let ?p = "pop_block t"
  define r where "r = calc_block_reward s ?idx"
  note ab = append_balances[OF assms(1,4,5,6,8), folded r_def]
  have hr: "0 \<le> halved_reward ?idx" by (simp add: halved_reward_def economics_defs pos_imp_zdiv_nonneg_iff)
  then have rv: "r = halved_reward ?idx" "0 \<le> r" using assms(4,10) by (simp_all add: r_def calc_block_reward_def)
  note ch = append_chain[OF assms(1)]
  have ne: "chain_list s \<noteq> []" "latest_block s = Some (last (chain_list s))"
    using assms(2,4) by (auto simp: chain_ok_def)
  have p: "fin_view ?p = fin_view t" "chain_list ?p = chain_list s" "height ?p = ?idx"
    "state_snapshots ?p = state_snapshots t"
    using ch by (simp_all add: pop_block_def fin_view_def)
  let ?q0 = "undo_receipts E b ?p"
  have q0: "fin_view ?q0 = fin_view t" using undo_receipts_frame[of E b ?p] p(1) by (simp add: rest_frame_def)
  then have q0': "get_balance ?q0 = get_balance t" "total_minted ?q0 = total_minted t"
    "total_burned ?q0 = total_burned t" "financial_active ?q0"
    using ab(4) by (simp_all add: fin_view_def get_balance_def fun_eq_iff)
  let ?q1 = "undo_reward ?idx b ?q0"
  have "calc_block_reward ?q0 ?idx = r"
    using assms(4,10) rv q0' ab(3) by (simp add: calc_block_reward_def)
  then have q1: "\<forall>a. get_balance ?q1 a = get_balance t a - at ?v r a"
    "total_minted ?q1 = total_minted s" "total_burned ?q1 = total_burned t"
    using rv(2) q0' ab(3)
    by (auto simp: undo_reward_def Let_def rollback_debit_def at_def ledger_simps
        get_balance_def[of "_\<lparr>total_minted := _, epoch_rewards := _\<rparr>"] simp flip: get_balance_def)
  obtain q where q: "run_all (map (undo_tx_money E ?idx b) (rev (b_txs b))) ?q1 = (None, q)"
    and m: "moves (\<lambda>a. - txs_delta E ?idx b (b_txs b) a) (- txs_burn E ?idx (b_txs b)) ?q1 q"
    using ab(5)[of ?q1] by blast
  have ub: "undo_balances E b ?q0 = (None, q)"
    using q q0'(4) assms(3,4) by (simp add: undo_balances_def)
  obtain x where "state_snapshots t = prune_at ?idx (dset (state_snapshots s) ?idx x)"
    using append_snapshots[OF assms(1)] by blast
  then have sn: "dget (state_snapshots ?p) (b_index b - 1) = Some snap"
    using assms(3,9) p(4) by (simp add: prune_at_def prune_before_def MAX_REORG_DEPTH_def dict_simps)
  obtain u where u: "rollback_block E b ?p = (None, u)" "fin_view u = fin_view q" "chain_list u = chain_list ?p"
    "height u = height ?p - 1" "latest_block u = Some (last (chain_list ?p))" "entries (state_trie u) = snap"
    using rollback_block_moves[OF ub _ _ _ _ sn] assms(3,4,7) p ne by auto
  have "\<forall>a. get_balance u a = get_balance s a" "total_minted u = total_minted s" "total_burned u = total_burned s"
    using u(2) m q1 ab(1,2) by (simp_all add: moves_def fin_view_def get_balance_def)
  then show ?thesis using u p ne by auto
qed

end
