(* ===== verification/ReorgProps.thy ===== *)
theory ReorgProps
  imports RollbackProps
begin

text \<open>
  The list of blocks across refusals and reorganizations: an appended block is at the end, a
  refused one is gone again, a reorganization that succeeds ends with the fork, and one that is
  abandoned ends with the original blocks.
\<close>

section \<open>Whatever the outcome\<close>

text \<open>Functions of the state that the staking operations leave alone even when they raise.\<close>

locale outcome_frame = undo_frame +
  assumes F_epochs: "F (s\<lparr>epochs := es, current_epoch := n, epoch_validators := vs\<rparr>) = F s"
    and F_last: "F (s\<lparr>last_distributions := d\<rparr>) = F s"
begin

lemma F_credit_any: "F (snd (credit a n s)) = F s"
  by (simp add: credit_def F_credited)

lemma F_debit_any: "F (snd (debit a n s)) = F s"
  using F_debited by (simp add: debit_def)

lemma F_credits_any: "F (snd (run_all (map (\<lambda>x. credit (f x) (g x)) xs) s)) = F s"
  by (rule run_all_inv_any[where I = "\<lambda>u. F u = F s"]) (auto simp: F_credit_any)

lemma F_mature_any: "F (snd (process_mature_unbondings idx s)) = F s"
  unfolding process_mature_unbondings_def
  by (rule run_all_inv_any[where I = "\<lambda>u. F u = F s"]) (auto simp: when_do_eq F_credits_any F_unbonding)

lemma F_distribute_one_any: "F (snd (snd (distribute_one snap vs p))) = F (snd p)"
proof -
  obtain v st where vs: "vs = (v, st)" by (cases vs)
  obtain ds s where p: "p = (ds, s)" by (cases p)
  let ?sh = "delegator_shares v (delegator_pool snap v s) st"
  have c: "F (snd (run_all (map (\<lambda>p. credit (fst p) (snd p)) ?sh) s)) = F s" by (rule F_credits_any)
  obtain e s1 where e: "run_all (map (\<lambda>p. credit (fst p) (snd p)) ?sh) s = (e, s1)" by fastforce
  obtain e2 s2 where e2: "(if sum_list (map snd ?sh) > 0 then debit v (sum_list (map snd ?sh)) s1 else (None, s1)) = (e2, s2)"
    by fastforce
  have "F s1 = F s" using c e by simp
  moreover have "F s2 = F s1" using e2 F_debit_any[of v "sum_list (map snd ?sh)" s1] by (auto split: if_splits)
  ultimately show ?thesis
    by (cases e; cases e2) (simp_all add: distribute_one_def vs p Let_def e e2 F_rewards)
qed

lemma F_distribution_any: "F (snd (distribute_epoch_rewards n snap s)) = F s"
proof -
  have "F (snd (snd (run_all (map (distribute_one snap) (stakes s)) (\<lparr>ds_credits = [], ds_debits = []\<rparr>, s)))) = F s"
    by (rule run_all_inv_any[where I = "\<lambda>q. F (snd q) = F s"]) (auto simp: F_distribute_one_any)
  then show ?thesis
    by (auto simp: distribute_epoch_rewards_def F_distributions split: prod.splits option.splits)
qed

lemma F_epoch_any: "F (snd (check_epoch_transition idx s)) = F s"
proof (cases "idx div EPOCH_LENGTH > current_epoch s \<or> idx = 0 \<and> epochs s = []")
  case True
  have "F (snd (run_all [when_do c (distribute_epoch_rewards n snap), pure (freeze_epoch k)] s)) = F s" for c n snap k
    by (rule run_all_inv_any[where I = "\<lambda>u. F u = F s"]) (auto simp: when_do_eq F_distribution_any F_freeze)
  then show ?thesis using True by (simp add: check_epoch_transition_def Let_def del: run_all.simps)
next
  case False
  then show ?thesis by (auto simp: check_epoch_transition_def Let_def F_freeze)
qed

lemma F_undo_amount_any: "F (snd (undo_amount tx s)) = F s"
proof -
  have "F (snd (run_all [pure (rollback_debit a n), credit v m] u)) = F u" for a n v m u
    by (rule run_all_inv_any[where I = "\<lambda>w. F w = F u"]) (auto simp: F_rollback_debit F_credit_any)
  then show ?thesis by (simp add: undo_amount_def when_do_eq F_credit_any del: run_all.simps)
qed

lemma F_undo_fee_any: "F (snd (undo_fee E idx b tx s)) = F s"
proof -
  have "F (snd (run_all [pure (rollback_debit a n), credit v m] u)) = F u"
    "F (snd (run_all [pure (rollback_debit a n), pure (\<lambda>s. s\<lparr>total_burned := total_burned s - k\<rparr>), credit v m] u)) = F u"
    for a n k v m u
    by (rule run_all_inv_any[where I = "\<lambda>w. F w = F u"]; auto simp: F_rollback_debit F_credit_any F_burned)+
  then show ?thesis by (simp add: undo_fee_def Let_def when_do_eq del: run_all.simps)
qed

lemma F_undo_balances_any: "F (snd (undo_balances E b s)) = F s"
proof -
  have m: "F (snd (undo_tx_money E idx b tx u)) = F u" for idx tx u
    unfolding undo_tx_money_def
    by (rule run_all_inv_any[where I = "\<lambda>w. F w = F u"]) (auto simp: F_undo_amount_any F_undo_fee_any)
  show ?thesis
    unfolding undo_balances_def
    by (auto simp del: run_all.simps intro!: run_all_inv_any[where I = "\<lambda>w. F w = F s"] simp: m F_undo_reward)
qed

lemma F_undo_epoch: "F (snd (undo_epoch b s)) = F s"
proof -
  have d: "F (snd (undo_distribution n u)) = F u" for n u
    unfolding undo_distribution_def Let_def
    by (rule run_all_inv_any[where I = "\<lambda>v. F v = F u"]) (auto simp: F_last F_rollback_debit F_credit_any)
  show ?thesis
  proof (cases "b_index b mod EPOCH_LENGTH = 0")
    case True
    have "F (snd (run_all [when_do c (undo_distribution n), pure (\<lambda>s. let es = dpop (epochs s) k
                    in if k > 0 then s\<lparr>epochs := es, current_epoch := k - 1, epoch_validators := dget_or es (k - 1) []\<rparr>
                       else s\<lparr>epochs := es, current_epoch := 0, epoch_validators := []\<rparr>)] s)) = F s" for c n k
      by (rule run_all_inv_any[where I = "\<lambda>u. F u = F s"]) (auto simp: when_do_eq d Let_def F_epochs)
    then show ?thesis using True by (simp add: undo_epoch_def Let_def del: run_all.simps)
  qed (simp add: undo_epoch_def)
qed

end

definition blocks_view where
  "blocks_view s = (chain_list s, height s)"

interpretation blocks_frame: outcome_frame blocks_view
  by unfold_locales (simp_all add: blocks_view_def credited_def debited_def freeze_epoch_def Let_def)

section \<open>The list of blocks\<close>

text \<open>After its first statement, no statement of an append touches the list, whatever it raises.\<close>

lemma blocks_burn: "blocks_view (s\<lparr>total_burned := k\<rparr>) = blocks_view s"
  and blocks_index: "blocks_view (index_tx E idx j tx s) = blocks_view s"
  by (simp_all add: blocks_view_def index_tx_def Let_def)

lemma blocks_charge: "blocks_view (snd (charge_fee E idx b tx s)) = blocks_view s"
proof -
  note F = blocks_frame.F_credit_any blocks_frame.F_debit_any
  have "blocks_view (snd (run_all [debit a n, credit v m] u)) = blocks_view u"
    "blocks_view (snd (run_all [debit a n, credit v m, pure (\<lambda>s. s\<lparr>total_burned := total_burned s + k\<rparr>)] u)) = blocks_view u"
    for a v n m k and u :: "'a chain_scheme"
    by (rule run_all_inv_any[where I = "\<lambda>w. blocks_view w = blocks_view u"]; auto simp: F blocks_burn)+
  then show ?thesis by (simp add: charge_fee_def Let_def when_do_eq del: run_all.simps)
qed

lemma blocks_move: "blocks_view (snd (move_amount tx s)) = blocks_view s"
proof -
  note F = blocks_frame.F_credit_any blocks_frame.F_debit_any
  have "blocks_view (snd (run_all [debit a n, credit v m] u)) = blocks_view u" for a v n m and u :: "'a chain_scheme"
    by (rule run_all_inv_any[where I = "\<lambda>w. blocks_view w = blocks_view u"]) (auto simp: F)
  then show ?thesis by (simp add: move_amount_def when_do_eq F del: run_all.simps)
qed

lemma blocks_effect: "blocks_view (snd (type_effect E idx tx s)) = blocks_view s"
  by (cases "tx_type tx")
    (auto simp: type_effect_def blocks_view_def apply_notarize_def apply_register_key_def apply_register_validator_def
      set_commission_def add_validator_def remove_validator_def apply_revoke_key_def apply_revocation_def
      purge_sender_def apply_stake_def apply_unstake_def process_evidence_tx_def slash_def
      apply_issue_token_def apply_mint_token_def minted_token_def apply_transfer_token_def token_credit_def
      token_debit_def update_token_index_def Let_def split: option.splits)

lemma blocks_apply_tx: "blocks_view (snd (apply_tx E idx b j tx s)) = blocks_view s"
proof -
  have p: "blocks_view (snd (run_all [charge_fee E idx b tx, move_amount tx] u)) = blocks_view u" for u :: "'a chain_scheme"
    by (rule run_all_inv_any[where I = "\<lambda>w. blocks_view w = blocks_view u"]) (auto simp: blocks_charge blocks_move)
  show ?thesis
    unfolding apply_tx_def
    by (rule run_all_inv_any[where I = "\<lambda>w. blocks_view w = blocks_view s"])
      (auto simp: when_do_eq p blocks_effect blocks_index simp del: run_all.simps)
qed

lemma blocks_rebuild: "blocks_view (snd (rebuild_state_trie s)) = blocks_view s"
proof -
  have put: "blocks_view (snd (trie_put kn u)) = blocks_view u" "blocks_view (snd (trie_put_token tid kn u)) = blocks_view u"
    "blocks_view (u\<lparr>state_trie := x\<rparr>) = blocks_view u" for kn tid x and u :: "'a chain_scheme"
    by (auto simp: trie_put_token_def trie_put_def blocks_view_def split: option.splits)
  show ?thesis
    unfolding rebuild_state_trie_def
    by (rule run_all_inv_any[where I = "\<lambda>w. blocks_view w = blocks_view s"]) (auto simp: put)
qed

lemma snd_on_chain: "snd (snd (on_chain a p)) = snd (a (snd p))"
  by (simp add: on_chain_def snd_lift)

lemma blocks_later:
  assumes "a \<in> set (tl (append_steps E idx b))"
  shows "blocks_view (snd (snd (a p))) = blocks_view (snd p)"
proof -
  obtain l s where p: "p = (l, s)" by (cases p)
  have rcp: "blocks_view (snd (snd (receipts_step idx p))) = blocks_view (snd p)"
    unfolding receipts_step_def
    by (rule run_all_inv_any[where I = "\<lambda>q. blocks_view (snd q) = blocks_view (snd p)"])
      (auto simp: receipt_step_def blocks_view_def Let_def split: prod.splits sum.splits)
  have tx: "blocks_view (snd (snd (tx_step E idx b itx p))) = blocks_view (snd p)" for itx
    unfolding tx_step_def
    by (rule run_all_inv_any[where I = "\<lambda>q. blocks_view (snd q) = blocks_view (snd p)"])
      (auto simp: snd_on_chain blocks_apply_tx on_locals_def)
  have ep: "blocks_view (snd (snd (epoch_step idx p))) = blocks_view (snd p)"
    using blocks_frame.F_epoch_any[of idx s]
    by (cases "check_epoch_transition idx s") (auto simp: epoch_step_def p split: option.splits)
  have rw: "blocks_view (snd (snd (reward_step idx b p))) = blocks_view (snd p)"
    using blocks_frame.F_credit_any[of "b_validator b" "calc_block_reward s idx" s]
    by (auto simp: reward_step_def p Let_def blocks_view_def split: prod.splits option.splits)
  have rest: "blocks_view (snd (snd (receipts_root_step E idx b p))) = blocks_view (snd p)"
    "blocks_view (snd (state_root_step E idx b u)) = blocks_view u"
    "blocks_view (save_snapshot idx u) = blocks_view u" "blocks_view (prune_events idx u) = blocks_view u"
    "blocks_view (prune_distributions idx u) = blocks_view u" "blocks_view (update_finality idx u) = blocks_view u"
    "blocks_view (snd (store_block_events idx p)) = blocks_view (snd p)" for u :: "'a chain_scheme"
    by (auto simp: blocks_view_def receipts_root_step_def state_root_step_def state_root_def save_snapshot_def
        prune_events_def prune_distributions_def update_finality_def store_block_events_def Let_def
        split: prod.splits option.splits)
  show ?thesis
    using assms
    by (auto simp: append_steps_def snd_on_chain blocks_frame.F_mature_any ep tx rcp rw blocks_rebuild rest)
qed

lemma inner_chain_any:
  "blocks_view (snd (append_block_inner E b s)) = (chain_list s @ [b], height s + 1)"
proof -
  let ?A = "append_steps E (height s + 1) b"
  let ?p = "(no_locals, push_block E b s)"
  have "run_all ?A (no_locals, s) = run_all (tl ?A) ?p"
    by (simp add: append_steps_def on_chain_def lift_def)
  moreover have "blocks_view (snd (snd (run_all (tl ?A) ?p))) = blocks_view (snd ?p)"
    by (rule run_all_inv_any[where I = "\<lambda>q. blocks_view (snd q) = blocks_view (snd ?p)"]) (auto simp: blocks_later)
  ultimately show ?thesis
    by (auto simp: append_block_inner_def blocks_view_def push_block_def split: prod.splits)
qed

lemma step_back_chain: "chain_list (snd (step_back s)) = chain_list s"
  by (simp add: step_back_def Let_def)

lemma rollback_parts:
  assumes "rollback_block E b s = (e, t)"
  shows "chain_list t = chain_list s" "e = None \<Longrightarrow> height t = height s - 1"
    "e = None \<Longrightarrow> latest_block t = (if height s - 1 \<ge> 0 then Some (last (chain_list s)) else None)"
proof -
  let ?pre = "[pure (undo_receipts E b), undo_balances E b,
        pure (\<lambda>s. s\<lparr>block_by_hash := dpop (block_by_hash s) (block_hash E b)\<rparr>),
        pure (fold (undo_tx E (b_index b)) (b_txs b)), pure (fold recompute_nonce (b_txs b)),
        undo_epoch b, restore_trie b]"
  have a: "blocks_view (undo_receipts E b u) = blocks_view u"
    "blocks_view (fold (undo_tx E (b_index b)) (b_txs b) u) = blocks_view u"
    "blocks_view (fold recompute_nonce (b_txs b) u) = blocks_view u"
    "blocks_view (u\<lparr>block_by_hash := d\<rparr>) = blocks_view u" for d and u :: "'a chain_scheme"
    using rest_frameD[OF undo_receipts_frame[of E b u]] rest_frameD[OF undo_txs_frame[of "[]" E "b_index b" "b_txs b" u]]
      rest_frameD[OF undo_txs_frame[of "b_txs b" E 0 "[]" u]]
    by (simp_all add: blocks_view_def)
  have bal: "blocks_view (snd (undo_balances E b u)) = blocks_view u" for u :: "'a chain_scheme"
    by (rule blocks_frame.F_undo_balances_any)
  have tr: "blocks_view (snd (restore_trie b u)) = blocks_view u" for u :: "'a chain_scheme"
    using blocks_rebuild[of "u\<lparr>state_snapshots := dpop (state_snapshots u) (b_index b)\<rparr>"]
    by (auto simp: restore_trie_def blocks_view_def Let_def split: option.splits)
  have pre: "blocks_view (snd (run_all ?pre s)) = blocks_view s"
    by (rule run_all_inv_any[where I = "\<lambda>u. blocks_view u = blocks_view s"])
      (auto simp: a bal tr blocks_frame.F_undo_epoch simp del: fold.simps)
  have "rollback_block E b s = (case run_all ?pre s of (None, u) \<Rightarrow> step_back u | r \<Rightarrow> r)"
    by (simp add: rollback_block_def run_all_append[of ?pre "[step_back]" s, simplified append.simps]
        del: run_all.simps split: prod.splits option.splits) (auto split: prod.splits option.splits)
  then show "chain_list t = chain_list s" "e = None \<Longrightarrow> height t = height s - 1"
    "e = None \<Longrightarrow> latest_block t = (if height s - 1 \<ge> 0 then Some (last (chain_list s)) else None)"
    using assms pre
    by (auto simp: step_back_def Let_def blocks_view_def simp del: run_all.simps
        split: prod.splits option.splits if_splits)
qed

section \<open>Rolling back to a height\<close>

lemma all_less_step: "(\<forall>i < Suc n. P i) \<longleftrightarrow> P n \<and> (\<forall>i < n. P i)"
  by (auto simp: less_Suc_eq)

lemma chain_ok_pop:
  assumes "chain_ok s" "chain_list s \<noteq> []" "rollback_block E b (pop_block s) = (None, t)"
  shows "chain_ok t \<and> chain_list t = butlast (chain_list s)"
proof -
  obtain ys y where ys: "chain_list s = ys @ [y]" using assms(2) by (cases "chain_list s" rule: rev_cases) auto
  have ix: "\<forall>i < length ys. b_index (ys ! i) = int i" and h: "height s = int (length ys)"
    using assms(1) by (simp_all add: chain_ok_def ys nth_append all_less_step)
  show ?thesis
    using rollback_parts[OF assms(3)] ix h by (auto simp: chain_ok_def pop_block_def ys)
qed

lemma rollback_pop_None:
  "run_all (pure pop_block # rollback_block E b # xs) s = (None, t) \<longleftrightarrow>
     (\<exists>u. rollback_block E b (pop_block s) = (None, u) \<and> run_all xs u = (None, t))"
  unfolding run_all_Cons_None pure_eq by blast

lemma rollback_all:
  assumes "chain_ok s" "length xs \<le> length (chain_list s)"
    "run_all (concat (map (\<lambda>b. [pure pop_block, rollback_block E b]) xs)) s = (None, t)"
  shows "chain_ok t \<and> chain_list t = take (length (chain_list s) - length xs) (chain_list s)"
  using assms
proof (induction xs arbitrary: s)
  case (Cons b xs)
  from Cons.prems(3) obtain u where u: "rollback_block E b (pop_block s) = (None, u)"
    "run_all (concat (map (\<lambda>b. [pure pop_block, rollback_block E b]) xs)) u = (None, t)"
    unfolding list.map concat.simps append.simps rollback_pop_None by blast
  have "chain_list s \<noteq> []" using Cons.prems(2) by auto
  note p = chain_ok_pop[OF Cons.prems(1) this u(1)]
  then have "length xs \<le> length (chain_list u)" using Cons.prems(2) by auto
  note IH = Cons.IH[OF conjunct1[OF p] this u(2)]
  have "take (length (butlast (chain_list s)) - length xs) (butlast (chain_list s))
      = take (length (chain_list s) - length (b # xs)) (chain_list s)"
    using \<open>chain_list s \<noteq> []\<close> by (cases "chain_list s" rule: rev_cases) simp_all
  then show ?case using IH p by simp
qed simp

lemma rollback_to_list:
  assumes "chain_ok s" "rollback_to E n s = (Inr txs, t)"
  shows "chain_ok t \<and> chain_list t = take (nat n) (chain_list s) \<and> 0 \<le> n"
proof -
  obtain u where r: "run_all (rollback_steps E n (chain_list s)) s = (None, u)" "t = u"
    using assms(2) by (auto simp: rollback_to_def Let_def split: prod.splits option.splits if_splits)
  then obtain w where w: "run_all (concat (map (\<lambda>b. [pure pop_block, rollback_block E b])
      (rev (drop (nat n) (chain_list s))))) s = (None, w)"
    "run_all (if n < 0 then [raise IndexError] else []) w = (None, u)"
    unfolding rollback_steps_def run_all_append_None by blast
  then have n: "0 \<le> n" "u = w" by (auto split: if_splits)
  have "length (chain_list s) - length (rev (drop (nat n) (chain_list s))) = min (nat n) (length (chain_list s))"
    by simp
  then have "take (length (chain_list s) - length (rev (drop (nat n) (chain_list s)))) (chain_list s)
      = take (nat n) (chain_list s)" by (simp add: min_def)
  then show ?thesis using rollback_all[OF assms(1) _ w(1)] n r by simp
qed

section \<open>A refused block\<close>

lemma refused_block_chain:
  assumes "chain_ok s" "append_block_inner E b s = (Some (ValueError m), u)" "rollback_block E b u = (None, w)"
  shows "append_block E b s = (Some (ValueError m), drop_refused b w)"
    "chain_list (drop_refused b w) = chain_list s" "height (drop_refused b w) = height s"
    "latest_block (drop_refused b w) = latest_block s"
proof -
  show "append_block E b s = (Some (ValueError m), drop_refused b w)"
    by (simp add: append_block_def assms(2,3))
  have u: "chain_list u = chain_list s @ [b]" "height u = height s + 1"
    using inner_chain_any[of E b s] assms(2) by (simp_all add: blocks_view_def)
  note r = rollback_parts[OF assms(3)]
  then show "chain_list (drop_refused b w) = chain_list s" "height (drop_refused b w) = height s"
    using u by (simp_all add: drop_refused_def pop_block_def Let_def)
  have "get_block_by_index (pop_block w) (height s) = (if chain_list s = [] then None else Some (last (chain_list s)))"
    using assms(1) r u 
    by (cases "chain_list s" rule: rev_cases) (auto simp: get_block_by_index_def pop_block_def chain_ok_def butlast_append nth_append)
  then show "latest_block (drop_refused b w) = latest_block s"
    using assms(1) r u by (auto simp: drop_refused_def pop_block_def chain_ok_def Let_def)
qed

section \<open>Reorganization\<close>

text \<open>
  The fork's blocks are validated one against the other. A block numbered 0 would be taken for a
  genesis block there and its header not be looked at: the lemmas ask that the fork has none.
\<close>

lemma abandon_not_ok: "fst (abandon_fork E n saved ap m t) \<noteq> Ok x"
  by (auto simp: abandon_fork_def split: prod.splits sum.splits option.splits)

lemma apply_fork_linked:
  fixes t u :: "'a chain_scheme"
  assumes "chain_linked E t" "latest_block t = parent" "list_all (\<lambda>b. b_index b \<noteq> 0) fbs"
    "apply_fork E now n saved parent ap fbs t = (Ok x, u)"
  shows "chain_linked E u \<and> chain_list u = chain_list t @ fbs"
  using assms
proof (induction fbs arbitrary: t parent ap)
  case (Cons fb fbs)
  have not_ok: "abandon_fork E n saved ap m w \<noteq> (Ok x, u)" for m w
    using abandon_not_ok[of E n saved ap m w x] by auto
  have v: "is_ok (validate_block E t now fb parent)"
    using Cons.prems(4) not_ok by (auto split: if_splits outcome.splits msg.splits)
  obtain w where w: "append_block_inner E fb t = (None, w)" "apply_fork E now n saved (Some fb) True fbs w = (Ok x, u)"
    using Cons.prems(4) not_ok
    by (auto simp: append_block_None split: if_splits outcome.splits msg.splits prod.splits option.splits exn.splits)
  obtain p where p: "parent = Some p"
    using v Cons.prems(3) by (cases parent) (auto simp: validate_block_def)
  note l = linked_tip[OF Cons.prems(1) Cons.prems(2)[unfolded p]]
  note h = valid_positive_index[OF v[unfolded p]]
  note c = append_chain[OF w(1)]
  have "chain_linked E w"
    by (rule linked_append[OF Cons.prems(1) c(1-3)]) (use h l Cons.prems(3) in auto)
  then show ?case using Cons.IH[OF _ c(3) _ w(2)] Cons.prems(3) c(1) by simp
qed simp

lemma linked_take:
  assumes "chain_linked E s" "chain_ok t" "chain_list t = take n (chain_list s)"
  shows "chain_linked E t"
  using assms by (simp add: chain_linked_def)

lemma blocks_readmit: "index_view (readmit_all E fbs txs s) = index_view s"
proof -
  have one: "index_view (readmit E m tx u) = index_view u" for m tx and u :: "'a pool_scheme"
    by (simp add: readmit_def Let_def index_view_def)
  have "index_view (fold (readmit E m) ts u) = index_view u" for m ts and u :: "'a pool_scheme"
    by (rule fold_inv[where I = "\<lambda>w. index_view w = index_view u"]) (simp_all add: one)
  then show ?thesis
    by (simp add: readmit_all_def rebuild_pending_debits_cache_def Let_def index_view_def)
qed

lemma reorg_ancestor_Inr:
  assumes "reorg_ancestor E fbs s = Inr a"
  shows "fbs \<noteq> []" "0 < b_index (hd fbs)" "b_index (hd fbs) \<le> height s + 1"
    "height s + 1 - b_index (hd fbs) \<le> MAX_REORG_DEPTH"
    "height s + 1 - b_index (hd fbs) < int (length fbs)" "b_prev_hash (hd fbs) = block_hash E a"
proof -
  show "fbs \<noteq> []" using assms by (auto simp: reorg_ancestor_def)
  then obtain fb rest where f: "fbs = fb # rest" by (cases fbs) auto
  have "0 \<le> b_index fb - 1"
    using assms by (auto simp: reorg_ancestor_def f Let_def get_block_by_index_def split: if_splits option.splits)
  then show "0 < b_index (hd fbs)" by (simp add: f)
qed (use assms in \<open>auto simp: reorg_ancestor_def Let_def split: list.splits if_splits option.splits\<close>)

lemma check_ancestor_frame: "check_ancestor E i t = (r, u) \<Longrightarrow> index_view u = index_view t"
  by (auto simp: check_ancestor_def state_root_def Let_def index_view_def split: option.splits prod.splits)

lemma reorg_linked:
  fixes s t :: "'a chain_scheme"
  assumes "chain_linked E s" "list_all (\<lambda>b. b_index b \<noteq> 0) fbs" "try_reorg E now fbs s = (Ok x, t)"
  shows "chain_linked E t" "chain_list t = take (nat (b_index (hd fbs))) (chain_list s) @ fbs"
    "height s < height t" "height s + 1 - b_index (hd fbs) \<le> MAX_REORG_DEPTH"
proof -
  obtain a txs t0 t1 u y where r: "reorg_ancestor E fbs s = Inr a"
    "rollback_to E (b_index (hd fbs)) s = (Inr txs, t0)" "check_ancestor E (b_index (hd fbs) - 1) t0 = (None, t1)"
    "apply_fork E now (b_index (hd fbs)) (get_blocks_range s (b_index (hd fbs)) (height s + 1)) (latest_block t1)
       False fbs t1 = (Ok y, u)" "t = readmit_all E fbs txs u"
    using assms(3)
    by (auto simp: try_reorg_def Let_def split: sum.splits prod.splits option.splits outcome.splits)
  note a = reorg_ancestor_Inr[OF r(1)]
  have ok: "chain_ok s" using assms(1) by (simp add: chain_linked_def)
  note t0 = rollback_to_list[OF ok r(2)]
  note v1 = check_ancestor_frame[OF r(3)]
  have l1: "chain_list t1 = take (nat (b_index (hd fbs))) (chain_list s)"
    using v1 t0 by (simp add: index_view_def)
  have "chain_linked E t0" using linked_take[OF assms(1)] t0 by blast
  then have "chain_linked E t1" using chain_linked_cong[OF v1] by simp
  note u = apply_fork_linked[OF this refl assms(2) r(4)]
  note v = blocks_readmit[of E fbs txs u, folded r(5)]
  show lt: "chain_linked E t" using u chain_linked_cong[OF v] by simp
  show ct: "chain_list t = take (nat (b_index (hd fbs))) (chain_list s) @ fbs"
    using u v l1 by (simp add: index_view_def)
  have "height t = int (length (chain_list t)) - 1" "height s = int (length (chain_list s)) - 1"
    using lt ok by (simp_all add: chain_linked_def chain_ok_def)
  then show "height s < height t" using a(2,3,5) by (simp add: ct)
  show "height s + 1 - b_index (hd fbs) \<le> MAX_REORG_DEPTH" by (rule a(4))
qed

end
