(* ===== verification/Selection.thy ===== *)
theory Selection
  imports ReorgProps
begin

text \<open>
  The transactions block production chooses under dynamic fees: they come from the pool, offer the
  base fee, and stay within the count and the weight of a block.
\<close>

definition total_weight_of :: "transaction list \<Rightarrow> int" where
  "total_weight_of txs = sum_list (map (\<lambda>tx. TX_WEIGHTS (tx_type tx)) txs)"

lemma total_weight_append: "total_weight_of (xs @ ys) = total_weight_of xs + total_weight_of ys"
  by (simp add: total_weight_of_def)

text \<open>What the loop over the senders keeps: the running weight is that of the list.\<close>

definition fits :: "transaction set \<Rightarrow> transaction list \<times> int \<Rightarrow> bool" where
  "fits P acc \<longleftrightarrow> set (fst acc) \<subseteq> P \<and> length (fst acc) \<le> MAX_TX_PER_BLOCK
     \<and> snd acc = total_weight_of (fst acc) \<and> snd acc \<le> MAX_BLOCK_WEIGHT"

lemma take_queue_fits: "fits P acc \<Longrightarrow> set q \<subseteq> P \<Longrightarrow> fits P (take_queue q acc)"
proof (induction q acc rule: take_queue.induct)
  case (2 tx q txs w)
  let ?w = "TX_WEIGHTS (tx_type tx)"
  show ?case
  proof (cases "length txs \<ge> MAX_TX_PER_BLOCK \<or> w + ?w > MAX_BLOCK_WEIGHT")
    case True
    then show ?thesis using 2 by auto
  next
    case False
    then have "fits P (txs @ [tx], w + ?w)"
      using 2(2,3) by (simp add: fits_def total_weight_append) (simp add: total_weight_of_def)
    then show ?thesis using 2 False by simp
  qed
qed simp

definition queued :: "('k, 'v list) dict \<Rightarrow> 'v set" where
  "queued d = (\<Union>p \<in> set d. set (snd p))"

lemma queued_dget: "set (dget_or d k []) \<subseteq> queued d"
  by (cases "dget d k") (auto simp: queued_def dget_or_def dest!: map_of_SomeD)

lemma queued_dset: "queued (dset d k v) \<subseteq> queued d \<union> set v"
  by (induction d) (auto simp: queued_def)

lemma queued_dappend: "queued (dappend d k x) \<subseteq> queued d \<union> {x}"
  using queued_dset[of k "dget_or d k [] @ [x]" d] queued_dget[of d k] by (auto simp: dappend_def)

lemma queued_fold: "queued (fold (\<lambda>tx d. dappend d (key tx) tx) txs d) \<subseteq> queued d \<union> set txs"
proof (induction txs arbitrary: d)
  case (Cons tx txs)
  have "queued (fold (\<lambda>tx d. dappend d (key tx) tx) txs (dappend d (key tx) tx)) \<subseteq> queued (dappend d (key tx) tx) \<union> set txs"
    by (rule Cons.IH)
  also have "\<dots> \<subseteq> queued d \<union> set (tx # txs)" using queued_dappend[of d "key tx" tx] by auto
  finally show ?case by simp
qed simp

lemma sender_queue_subset: "set (dget_or (sender_queues txs) a []) \<subseteq> set txs"
proof -
  have "queued (sender_queues txs) = queued (fold (\<lambda>tx d. dappend d (tx_sender tx) tx) txs [])"
    by (auto simp: sender_queues_def queued_def)
  then show ?thesis using queued_dget[of "sender_queues txs" a] queued_fold[of tx_sender txs "[]"]
    by (auto simp: queued_def[of "[]"])
qed

lemma select_dynamic_fits:
  "set (select_dynamic base_fee txs) \<subseteq> {tx \<in> set txs. TX_WEIGHTS (tx_type tx) = 0 \<or> tx_max_fee tx \<ge> base_fee}
   \<and> length (select_dynamic base_fee txs) \<le> MAX_TX_PER_BLOCK
   \<and> total_weight_of (select_dynamic base_fee txs) \<le> MAX_BLOCK_WEIGHT"
proof -
  let ?P = "set (eligible base_fee txs)" and ?q = "sender_queues (eligible base_fee txs)"
  have "fits ?P (fold (\<lambda>a. take_queue (dget_or ?q a [])) as acc)" if "fits ?P acc" for as acc
    using that sender_queue_subset[of "eligible base_fee txs"]
    by (rule_tac fold_inv[where I = "fits ?P"]) (auto intro: take_queue_fits)
  moreover have "fits ?P ([], 0)" by (simp add: fits_def total_weight_of_def MAX_BLOCK_WEIGHT_def)
  ultimately have "fits ?P (fold (\<lambda>a. take_queue (dget_or ?q a [])) (sorted_senders base_fee ?q) ([], 0))" by blast
  then show ?thesis by (auto simp: select_dynamic_def Let_def fits_def eligible_def)
qed

text \<open>A type heavier than a whole block is never chosen.\<close>

lemma heavy_never_selected:
  assumes "TX_WEIGHTS (tx_type tx) > MAX_BLOCK_WEIGHT"
  shows "tx \<notin> set (select_dynamic base_fee txs)"
proof
  assume "tx \<in> set (select_dynamic base_fee txs)"
  then have "TX_WEIGHTS (tx_type tx) \<le> total_weight_of (select_dynamic base_fee txs)"
    unfolding total_weight_of_def
    by (intro member_le_sum_list) (auto simp: TX_WEIGHTS_nonneg)
  then show False using select_dynamic_fits[of base_fee txs] assms by linarith
qed

lemma heavy_types: "TX_WEIGHTS REGISTER_VALIDATOR > MAX_BLOCK_WEIGHT" "TX_WEIGHTS ISSUE_TOKEN > MAX_BLOCK_WEIGHT"
  by (simp_all add: MAX_BLOCK_WEIGHT_def)

text \<open>Nor is a block with one valid.\<close>

lemma heavy_block_refused:
  assumes "TX_WEIGHTS (tx_type tx) > MAX_BLOCK_WEIGHT" "dynamic_at E (b_index b)" "tx \<in> set (b_txs b)"
  shows "\<not> is_ok (validate_block E s now b (Some p))"
proof
  assume v: "is_ok (validate_block E s now b (Some p))"
  have "b_index b \<noteq> 0" using assms(2) by (simp add: dynamic_at_def)
  then obtain fin where "is_ok (checks (header_checks E s now b p @ fee_checks E b p @ size_checks E b))"
    using validate_block_cases[OF v] by blast
  then have "list_all is_ok (fee_checks E b p)" by (simp only: checks_ok list_all_append)
  then have "block_total_weight (weigh (b_txs b)) \<le> MAX_BLOCK_WEIGHT"
    using assms(2) by (simp add: fee_checks_def Let_def)
  moreover have "TX_WEIGHTS (tx_type tx) \<le> block_total_weight (weigh (b_txs b))"
    using weight_member_le_total[of "(tx_type tx, tx_sender tx)" "weigh (b_txs b)"] assms(3) by (force simp: weigh_def)
  ultimately show False using assms(1) by simp
qed

end
