(* ===== verification/Scenario.thy ===== *)
theory Scenario
  imports Selection
begin

text \<open>
  A concrete node the theorems are exercised on: an environment with a constant hash and a
  signature scheme that accepts, a chain with a genesis block whose validator holds funds and
  stake, and a block with one transfer.
\<close>

definition demo_env :: env where
  "demo_env = \<lparr>sha3 = \<lambda>_. replicate 32 0, mldsa_verify = \<lambda>_ _ _. True, mldsa_sign = \<lambda>_ _. [1],
     dyn_height = 1000000000\<rparr>"

text \<open>A 32-byte digest that is injective on short inputs.\<close>

definition pad_hash :: "bytes \<Rightarrow> bytes" where
  "pad_hash x = take 32 (x @ replicate 32 0)"

lemma pad_length: "\<forall>x. length (pad_hash x) = 32"
  by (auto simp: pad_hash_def)

definition zero_hash :: string where "zero_hash = hex (replicate 32 0)"

definition alice :: string where "alice = ADDRESS_PREFIX @ zero_hash"
definition bob :: string where "bob = ADDRESS_PREFIX @ hex (replicate 32 1)"

definition demo_tx :: "txtype \<Rightarrow> string \<Rightarrow> (string \<times> pyval) list \<Rightarrow> int \<Rightarrow> transaction" where
  "demo_tx ty recipient payload n =
     \<lparr>tx_type = ty, tx_sender = alice, tx_recipient = recipient, tx_timestamp = 1000,
      tx_payload = payload, tx_signature = [1], tx_pubkey = [1], tx_nonce = n,
      tx_chain_id = CHAIN_ID, tx_max_fee = 0, tx_max_prio = 0\<rparr>"

definition demo_transfer :: transaction where
  "demo_transfer = demo_tx TRANSFER bob [(''amount'', PInt 5)] 0"

definition demo_block :: "int \<Rightarrow> transaction list \<Rightarrow> block" where
  "demo_block idx txs =
     \<lparr>b_index = idx, b_prev_hash = zero_hash, b_txs = txs, b_validator = alice,
      b_timestamp = 1000 + idx, b_signature = [1], b_merkle_root = zero_hash,
      b_base_fee = 0, b_state_root = zero_hash, b_receipts_root = []\<rparr>"

definition demo_chain :: chain where
  "demo_chain = new_chain
     \<lparr>balances := [(alice, 1000000000)], total_minted := 1000000010, financial_active := True,
      chain_list := [demo_block 0 []], height := 0, latest_block := Some (demo_block 0 []),
      validator_registry := [(alice, [1])], poa_validators := [(alice, [1])],
      stakes := [(alice, [(alice, 10)])], total_stake := [(alice, 10)], state_snapshots := [(0, [])],
      state_trie := \<lparr>entries = [], dirty = False, cached_root = Some (replicate 32 0)\<rparr>\<rparr>"

lemma demo_hash: "tx_id demo_env tx = zero_hash" "block_hash demo_env b = zero_hash"
  by (simp_all add: tx_id_def tx_hash_def block_hash_def demo_env_def zero_hash_def)

lemma demo_height [simp]: "dyn_height demo_env = 1000000000"
  by (simp add: demo_env_def)

lemma zero_hash_nonempty [simp]: "zero_hash \<noteq> []"
proof -
  have "length zero_hash = 64" by (simp add: zero_hash_def)
  then show ?thesis by auto
qed

definition demo_rc :: receipt where
  "demo_rc = \<lparr>rc_tx_id = zero_hash, rc_status = ''success'', rc_fee_paid = 3, rc_block_index = 1,
     rc_tx_index = 0, rc_events = []\<rparr>"

lemma demo_receipt [simp]:
  "0 \<le> fee \<Longrightarrow> mk_receipt zero_hash ''success'' fee 1 0 evs =
     Inr \<lparr>rc_tx_id = zero_hash, rc_status = ''success'', rc_fee_paid = fee, rc_block_index = 1,
          rc_tx_index = 0, rc_events = evs\<rparr>"
  by (simp add: mk_receipt_def receipt_checks_def reject_if_def raise_if_def)

lemma event_type_build [simp]: "''type'' \<notin> fst ` set kwargs \<Longrightarrow> event_type_of (build_event ty kwargs) = ty"
proof -
  have "''type'' \<notin> fst ` set kwargs \<Longrightarrow>
    dget_or (fold (\<lambda>(k, v) d. dset d k v) kwargs e) ''type'' (PStr []) = dget_or e ''type'' (PStr [])" for e
    by (induction kwargs arbitrary: e) (auto simp: dict_simps)
  then show "''type'' \<notin> fst ` set kwargs \<Longrightarrow> event_type_of (build_event ty kwargs) = ty"
    by (simp add: event_type_of_def build_event_def dget_or_Cons)
qed

lemma names_differ [simp]: "alice \<noteq> bob" "bob \<noteq> alice" "alice \<noteq> []" "bob \<noteq> []"
proof -
  have d: "replicate 32 (0 :: byte) \<noteq> replicate 32 1" by (simp add: replicate_eq_replicate)
  have "hex (replicate 32 0) \<noteq> hex (replicate 32 1)"
  proof
    assume "hex (replicate 32 0) = hex (replicate 32 1)"
    then have "fromhex (hex (replicate 32 0)) = fromhex (hex (replicate 32 1))" by (rule arg_cong)
    then show False using d by (simp only: fromhex_hex option.inject)
  qed
  then show "alice \<noteq> bob" "bob \<noteq> alice" "alice \<noteq> []" "bob \<noteq> []"
    by (auto simp: alice_def bob_def zero_hash_def ADDRESS_PREFIX_def)
qed

lemmas demo_defs = demo_chain_def demo_block_def demo_transfer_def demo_tx_def new_chain_def

lemma demo_money: "money_ok demo_chain"
  by (simp add: demo_defs money_ok_def ledger_ok_def solvent_def stake_ok_def commissions_ok_def)

lemma demo_tokens: "tokens_ok demo_chain"
  by (simp add: demo_defs tokens_ok_def conserved_def caps_ok_def index_agrees_def symbols_ok_def
      minted_of_def get_token_balance_def)

lemma demo_index: "chain_ok demo_chain" "indexed demo_env demo_chain"
  by (simp_all add: demo_defs chain_ok_def indexed_def)

lemma demo_address: "derive_address demo_env pk = alice"
  by (simp add: derive_address_def demo_env_def alice_def zero_hash_def)

lemma demo_verify: "verify_sig demo_env [1] m [1]"
  by (simp add: verify_sig_def demo_env_def)

lemma demo_payload: "validate_payload demo_env demo_transfer = Ok []"
  by code_simp

lemma demo_pool_fields: "tx_pool demo_chain = []" "pool_ids demo_chain = {}" "pool_sender_count demo_chain = []"
  "tx_good demo_transfer" "(0 :: nat) < MAX_TX_POOL_SIZE" "length (tx_pool demo_chain) < MAX_TX_POOL_SIZE"
  by (simp_all add: demo_defs tx_good_def amount_of_def pget_def dget_or_def MAX_TX_POOL_SIZE_def)

lemma demo_pool: "pool_ok demo_env demo_chain" "pool_nonces demo_chain"
  by (simp_all add: pool_ok_def pool_nonces_def demo_pool_fields sender_txs_def senders.counts_Nil
      types.counts_Nil debits.counts_Nil) (simp_all add: demo_defs senders.counts_Nil types.counts_Nil debits.counts_Nil)

text \<open>The block passes the consensus checks.\<close>


lemma demo_active: "get_active_validators demo_chain = [(alice, 10)]"
  by (simp add: get_active_validators_def get_live_validators_def demo_defs)

lemma demo_select: "select_validator demo_env demo_chain n i pt zero_hash bt = Some alice"
proof -
  have "dpos_seed demo_env h i = 0" for h i
    by (simp add: dpos_seed_def demo_env_def from_bytes_def numeral_eq_Suc)
  then show ?thesis by (simp add: select_validator_def demo_active select_dpos_def)
qed

lemma demo_fields:
  "poa_validators demo_chain = [(alice, [1])]" "revoked_keys demo_chain = []" "chain_tx_ids demo_chain = {}"
  "stale_nonces demo_chain = None" "sender_nonce demo_chain = []" "poa_genesis_hash demo_chain = []"
  by (simp_all add: demo_defs)

lemma demo_tx_fields: "tx_type demo_transfer = TRANSFER" "tx_sender demo_transfer = alice" "tx_nonce demo_transfer = 0"
  "tx_chain_id demo_transfer = CHAIN_ID" "tx_signature demo_transfer = [1]" "tx_pubkey demo_transfer = [1]"
  by (simp_all add: demo_defs)

lemma demo_valid:
  "is_ok (validate_block demo_env demo_chain 2000 (demo_block 1 [demo_transfer]) (Some (demo_block 0 [])))"
  by (simp add: validate_block_def header_checks_def fee_checks_def size_checks_def block_tx_checks_def payload_check_def
    nonce_start_checks_def dynamic_at_def reject_if_def raise_if_def demo_hash demo_address demo_payload tx_verify_def verify_signature_def
     demo_block_def demo_fields demo_tx_fields demo_verify is_key_revoked_def cons_nonces_def economics_defs MAX_TX_PER_BLOCK_def MAX_BLOCK_SIZE_def MAX_BLOCK_DRIFT_def
   Let_def dmem_def dget_or_def TX_WIRE_MAX_def MAX_TX_PAYLOAD_SIZE_def demo_select)

lemma demo_covered: "covered [demo_transfer] demo_chain"
  by (simp add: covered_def unstaked_def demo_tx_fields get_validator_stake_def)
    (simp add: demo_defs dget_or_def)

lemma demo_height_chain: "height demo_chain = 0" "financial_active demo_chain"
  "b_txs (demo_block i txs) = txs" "b_index (demo_block i txs) = i"
  by (simp_all add: demo_defs)

text \<open>Under the constant hash every state root is the same.\<close>

lemma demo_computed_root: "computed_root (sha3 demo_env) d = replicate 32 0"
proof -
  have "tree_hash (sha3 demo_env) t = replicate 32 0" for t
    by (cases t) (simp_all add: leaf_hash_def merkle_node_def demo_env_def)
  then have "merkle_root (sha3 demo_env) xs = replicate 32 0" for xs
    by (cases "xs = []") (auto simp: merkle_root_tree_hash merkle_root_def[of _ "[]"])
  then show ?thesis by (simp add: computed_root_def) (simp add: demo_env_def)
qed

lemma demo_trie_root: "dirty t \<Longrightarrow> hex (fst (trie_root (sha3 demo_env) t)) = zero_hash"
  by (simp add: trie_root_def demo_computed_root zero_hash_def Let_def split: bool.splits)

lemma dirty_set: "dirty t \<Longrightarrow> dirty (trie_set t k v)"
  by (simp add: trie_set_def Let_def)

lemma dirty_new: "dget (entries t) k = None \<Longrightarrow> dirty (trie_set t k v)"
  by (simp add: trie_set_def Let_def)

lemmas demo_roots = demo_trie_root dirty_set dirty_new

text \<open>The block with the transfer is appended.\<close>

definition demo_next :: chain where
  "demo_next = snd (append_block_inner demo_env (demo_block 1 [demo_transfer]) demo_chain)"

lemma demo_evaluates:
  "fst (append_block_inner demo_env (demo_block 1 [demo_transfer]) demo_chain) = None"
  "balances (snd (append_block_inner demo_env (demo_block 1 [demo_transfer]) demo_chain))
     = [(alice, 5999499995), (bob, 5)]"
  by (simp_all add: append_block_inner_def append_steps_def demo_defs demo_hash no_locals_def on_chain_def
      lift_def push_block_def process_mature_unbondings_def matured_def epoch_step_def
      check_epoch_transition_def EPOCH_LENGTH_def)
    (simp_all add: tx_step_def on_chain_def lift_def on_locals_def apply_tx_def index_tx_def demo_hash
      charge_fee_def tx_fee_due_def move_amount_def type_effect_def Let_def debit_def credit_def debited_def
      credited_def get_balance_def dget_or_def amount_of_def pget_def dappend_def note_receipt_def
      build_tx_events_def,
     simp_all add: receipts_step_def receipt_step_def reward_step_def store_block_events_def
      receipts_root_step_def lift_def Let_def split_beta calc_block_reward_def credit_def credited_def
      get_balance_def dget_or_def halved_reward_def economics_defs,
     simp_all add: rebuild_state_trie_def state_root_step_def state_root_def Let_def split_beta trie_put_def
      to_bytes8_def lift_def save_snapshot_def prune_events_def prune_before_def MAX_REORG_DEPTH_def
      prune_distributions_def update_finality_def demo_roots split: option.splits)

lemma demo_append: "append_block_inner demo_env (demo_block 1 [demo_transfer]) demo_chain = (None, demo_next)"
  using demo_evaluates(1) by (metis demo_next_def prod.collapse)

lemma demo_next_balances: "balances demo_next = [(alice, 5999499995), (bob, 5)]"
  by (simp only: demo_next_def demo_evaluates(2))

lemma demo_next_bob: "dget (balances demo_next) bob = Some 5"
  by (simp add: demo_next_balances)

lemma demo_next_entries: "state_entries demo_next \<noteq> []"
  by (rule balance_entry_nonempty[OF demo_next_bob]) simp

lemma demo_minted: "total_minted demo_chain = 1000000010"
  by (simp add: demo_defs)

section \<open>A block that cannot be applied\<close>

text \<open>A transfer beyond the sender's balance, in a block the consensus checks accept.\<close>

definition demo_overdraft :: transaction where
  "demo_overdraft = demo_tx TRANSFER bob [(''amount'', PInt 1000000000000)] 0"

definition demo_refused :: block where
  "demo_refused = demo_block 1 [demo_overdraft]"

lemma overdraft_payload: "validate_payload demo_env demo_overdraft = Ok []"
proof -
  have r: "valid_address bob"
    by code_simp
  have j: "length (json_dumps (PDict [(''amount'', PInt 1000000000000)])) = 24"
    by (simp add: json_dumps_def json_str_def json_escape_def int_str_def dec_nat.simps)
  show ?thesis
    by (simp add: validate_payload_def common_checks_def demo_overdraft_def demo_tx_def r j check_transfer_def Let_def reject_if_def
      extra_keys_def type_checks_def encode_def utf8_char_def pget_def dget_or_def amount_checks_def memo_checks_def int_above_def economics_defs MAX_TX_AMOUNT_def MAX_TX_PAYLOAD_SIZE_def)
qed

lemma overdraft_fields: "tx_type demo_overdraft = TRANSFER" "tx_sender demo_overdraft = alice" "tx_nonce demo_overdraft = 0"
  "tx_chain_id demo_overdraft = CHAIN_ID" "tx_signature demo_overdraft = [1]" "tx_pubkey demo_overdraft = [1]"
  "tx_recipient demo_overdraft = bob" "amount_of demo_overdraft = 1000000000000"
  by (simp_all add: demo_defs demo_overdraft_def amount_of_def pget_def dget_or_def)

lemma refused_fields: "b_index demo_refused = 1" "b_txs demo_refused = [demo_overdraft]" "b_validator demo_refused = alice"
  "b_prev_hash demo_refused = zero_hash" "b_timestamp demo_refused = 1001" "b_signature demo_refused = [1]" "b_state_root demo_refused = zero_hash" "b_base_fee demo_refused = 0"
  by (simp_all add: demo_refused_def demo_block_def)

lemma refused_valid: "is_ok (validate_block demo_env demo_chain 2000 demo_refused (Some (demo_block 0 [])))"
  by (simp add: validate_block_def header_checks_def fee_checks_def size_checks_def block_tx_checks_def payload_check_def
    nonce_start_checks_def dynamic_at_def reject_if_def raise_if_def demo_hash demo_address overdraft_payload tx_verify_def verify_signature_def
     demo_block_def demo_fields overdraft_fields refused_fields demo_verify is_key_revoked_def cons_nonces_def economics_defs MAX_TX_PER_BLOCK_def MAX_BLOCK_SIZE_def MAX_BLOCK_DRIFT_def
   Let_def dmem_def dget_or_def TX_WIRE_MAX_def MAX_TX_PAYLOAD_SIZE_def demo_select)

lemma refused_parts: "\<exists>m u w. append_block_inner demo_env demo_refused demo_chain = (Some (ValueError m), u)
   \<and> rollback_block demo_env demo_refused u = (None, w)
   \<and> balances w = [(alice, 996000000000), (bob, - 1000000000000)] \<and> total_minted w = - 3999999990"
  apply (simp add: append_block_inner_def append_steps_def demo_chain_def new_chain_def refused_fields overdraft_fields demo_hash no_locals_def on_chain_def
      lift_def push_block_def process_mature_unbondings_def matured_def epoch_step_def
      check_epoch_transition_def EPOCH_LENGTH_def)
    apply (simp add: tx_step_def on_chain_def lift_def on_locals_def apply_tx_def index_tx_def demo_hash
      charge_fee_def tx_fee_due_def move_amount_def type_effect_def Let_def debit_def credit_def debited_def
      credited_def get_balance_def dget_or_def dappend_def refused_fields overdraft_fields)
  apply (simp add: rollback_block_def undo_receipts_def undo_receipt_def undo_balances_def undo_reward_def undo_tx_money_def undo_amount_def undo_fee_def
    refused_fields overdraft_fields demo_hash calc_block_reward_def halved_reward_def economics_defs rollback_debit_def debited_def credit_def credited_def get_balance_def dget_or_def Let_def)
  apply (simp add: undo_tx_def undo_index_def undo_type_def recompute_nonce_def refused_fields overdraft_fields demo_hash Let_def dremove_def dget_or_def
    undo_epoch_def restore_trie_def EPOCH_LENGTH_def rebuild_state_trie_def trie_put_def to_bytes8_def step_back_def drop_refused_def pop_block_def)
  done

lemma refused_append: "\<exists>m t. append_block demo_env demo_refused demo_chain = (Some (ValueError m), t)
   \<and> balances t = [(alice, 996000000000), (bob, - 1000000000000)] \<and> total_minted t = - 3999999990"
proof -
  obtain m u w where r: "append_block_inner demo_env demo_refused demo_chain = (Some (ValueError m), u)"
    "rollback_block demo_env demo_refused u = (None, w)"
    "balances w = [(alice, 996000000000), (bob, - 1000000000000)]" "total_minted w = - 3999999990"
    using refused_parts by blast
  have "balances (drop_refused b s) = balances s" "total_minted (drop_refused b s) = total_minted s"
    for b and s :: chain by (simp_all add: drop_refused_def pop_block_def Let_def)
  then show ?thesis using r by (simp add: append_block_def)
qed

lemma refused_added: "\<exists>m t. add_block demo_env 2000 demo_refused demo_chain = (Fail m, t)
   \<and> balances t = [(alice, 996000000000), (bob, - 1000000000000)] \<and> total_minted t = - 3999999990"
proof -
  obtain m t where r: "append_block demo_env demo_refused demo_chain = (Some (ValueError m), t)"
    "balances t = [(alice, 996000000000), (bob, - 1000000000000)]" "total_minted t = - 3999999990"
    using refused_append by blast
  have d: "latest_block demo_chain = Some (demo_block 0 [])" "block_by_hash demo_chain = []"
    by (simp_all add: demo_defs)
  obtain x where v: "validate_block demo_env demo_chain 2000 demo_refused (Some (demo_block 0 [])) = Ok x"
    using refused_valid by (cases "validate_block demo_env demo_chain 2000 demo_refused (Some (demo_block 0 []))") auto
  have "add_block demo_env 2000 demo_refused demo_chain = (Fail m, t)"
    by (simp add: add_block_def refused_fields demo_height_chain d v r(1))
  then show ?thesis using r by blast
qed

text \<open>The block with the transfer, received from the network, and as a fork of one block.\<close>

lemma demo_received: "\<exists>x t. add_block demo_env 2000 (demo_block 1 [demo_transfer]) demo_chain = (Ok x, t)"
proof -
  have d: "latest_block demo_chain = Some (demo_block 0 [])" "block_by_hash demo_chain = []"
    "b_state_root (demo_block 1 [demo_transfer]) = zero_hash"
    by (simp_all add: demo_defs)
  obtain x where v: "validate_block demo_env demo_chain 2000 (demo_block 1 [demo_transfer]) (Some (demo_block 0 [])) = Ok x"
    using demo_valid
    by (cases "validate_block demo_env demo_chain 2000 (demo_block 1 [demo_transfer]) (Some (demo_block 0 []))") auto
  have "append_block demo_env (demo_block 1 [demo_transfer]) demo_chain = (None, demo_next)"
    by (simp add: append_block_None demo_append)
  then show ?thesis by (simp add: add_block_def demo_height_chain d v)
qed

lemma demo_linked: "chain_linked demo_env demo_chain"
  using demo_index by (simp add: chain_linked_def demo_defs)

lemma demo_reorg: "\<exists>x t. try_reorg demo_env 2000 [demo_block 1 [demo_transfer]] demo_chain = (Ok x, t)"
proof -
  let ?b = "demo_block 1 [demo_transfer]"
  have d: "latest_block demo_chain = Some (demo_block 0 [])" "chain_list demo_chain = [demo_block 0 []]"
    "b_state_root ?b = zero_hash" "b_prev_hash ?b = zero_hash" "balances demo_chain = [(alice, 1000000000)]"
    "state_snapshots demo_chain = [(0, [])]" "entries (state_trie demo_chain) = []"
    "dirty (state_trie demo_chain) = False" "cached_root (state_trie demo_chain) = Some (replicate 32 0)"
    by (simp_all add: demo_defs)
  obtain x where v: "validate_block demo_env demo_chain 2000 ?b (Some (demo_block 0 [])) = Ok x"
    using demo_valid by (cases "validate_block demo_env demo_chain 2000 ?b (Some (demo_block 0 []))") auto
  have a: "append_block demo_env ?b demo_chain = (None, demo_next)"
    by (simp add: append_block_None demo_append)
  have anc: "reorg_ancestor demo_env [?b] demo_chain = Inr (demo_block 0 [])"
    by (simp add: reorg_ancestor_def d demo_height_chain get_block_by_index_def demo_hash MAX_REORG_DEPTH_def)
  have rb: "rollback_to demo_env 1 demo_chain = (Inr [], demo_chain)"
    by (simp add: rollback_to_def rollback_steps_def d negative_addrs_def)
  have "trie_root (sha3 demo_env) (state_trie demo_chain) = (replicate 32 0, state_trie demo_chain)"
    by (simp add: trie_root_def d)
  then have "check_ancestor demo_env 0 demo_chain = (None, demo_chain)"
    by (simp add: check_ancestor_def d state_root_def demo_trie_root trie_restore_def zero_hash_def)
  then show ?thesis
    by (simp add: try_reorg_def anc rb demo_height_chain d v a Let_def)
qed

section \<open>A node from its first step\<close>

text \<open>Genesis without transactions, then the genesis allocation.\<close>

definition first_block :: block where
  "first_block = block_sign demo_env (genesis_block demo_env alice [] 1000) [1]"

lemma first_fields: "b_txs first_block = []" "b_index first_block = 0" "b_validator first_block = alice"
  "b_state_root first_block = []" "b_receipts_root first_block = []"
  by (simp_all add: first_block_def block_sign_def genesis_block_def mk_block_def)

definition blank :: "chain \<Rightarrow> bool" where
  "blank s \<longleftrightarrow> balances s = [] \<and> sender_nonce s = [] \<and> token_balances s = [] \<and> token_registry s = []
     \<and> \<not> financial_active s"

lemma first_append:
  "fst (append_block_inner demo_env first_block new_chain) = None
   \<and> blank (snd (append_block_inner demo_env first_block new_chain))"
  by (simp add: append_block_inner_def append_steps_def new_chain_def first_fields demo_hash no_locals_def on_chain_def
      lift_def push_block_def process_mature_unbondings_def matured_def epoch_step_def
      check_epoch_transition_def EPOCH_LENGTH_def freeze_epoch_def Let_def)
    (simp add: receipts_step_def reward_step_def store_block_events_def receipts_root_step_def first_fields
      rebuild_state_trie_def state_root_step_def state_root_def Let_def split_beta lift_def blank_def
      calc_block_reward_def save_snapshot_def prune_events_def prune_distributions_def prune_before_def
      MAX_REORG_DEPTH_def update_finality_def)

definition first_chain :: chain where
  "first_chain = snd (init_chain demo_env 1000 alice [1] [] new_chain)"

lemma first_init: "init_chain demo_env 1000 alice [1] [] new_chain = (None, first_chain) \<and> blank first_chain"
proof -
  obtain u where u: "append_block demo_env first_block new_chain = (None, u)" "blank u"
    using first_append by (metis append_block_None prod.collapse)
  have "init_chain demo_env 1000 alice [1] [] new_chain = (None, stamp_genesis demo_env [1] first_block u)"
    using u(1) by (simp add: init_chain_def genesis_txs_def new_chain_def first_block_def Let_def)
  moreover have "blank (stamp_genesis demo_env [1] first_block u)"
    using u(2) by (simp add: blank_def stamp_genesis_def replace_block_def state_root_def Let_def split: prod.splits)
  ultimately show ?thesis by (simp add: first_chain_def)
qed

definition funded_chain :: chain where
  "funded_chain = snd (activate_financial_layer alice first_chain)"

lemma first_reachable: "reachable demo_env first_chain"
  using reachable.step[OF reachable.start node_step.genesis[OF conjunct1[OF first_init]]] .

lemma funded_reachable: "reachable demo_env funded_chain \<and> get_balance funded_chain alice = genesis_allocation"
proof -
  have b: "blank first_chain" using first_init by blast
  have g: "genesis_allocation = 2100000000000000" by (simp add: genesis_allocation_def economics_defs)
  have "fst (activate_financial_layer alice first_chain) = None
      \<and> get_balance (snd (activate_financial_layer alice first_chain)) alice = genesis_allocation"
    using b by (simp add: blank_def activate_financial_layer_def allocate_genesis_def get_balance_def dget_or_def
        credit_def credited_def g rebuild_state_trie_def trie_put_def to_bytes8_def Let_def)
  then have "activate_financial_layer alice first_chain = (None, funded_chain)"
    "get_balance funded_chain alice = genesis_allocation"
    by (simp_all add: funded_chain_def prod_eq_iff)
  then show ?thesis using reachable.step[OF first_reachable node_step.activate] by blast
qed

end
