(* ===== verification/Proof.thy ===== *)
theory Proof
  imports Wallet HeaderSync
begin

text \<open>
  Standalone notarization proofs: \<open>core/proof.py\<close>, and the export and offline verification of
  \<open>cli/qbit.py\<close>, which build and check their own documents. Proof documents are JSON objects from
  outside, so every field may hold any value or be missing.
\<close>

section \<open>Reading a JSON document\<close>

text \<open>\<open>d.get(k, default)\<close> of a value that should be a dict.\<close>

definition get_item :: "pyval \<Rightarrow> string \<Rightarrow> pyval \<Rightarrow> exn + pyval" where
  "get_item v k dflt = and_then (params_of AttributeError v) (\<lambda>d. Inr (dget_or d k dflt))"

text \<open>\<open>d[k]\<close> with a str key: TypeError unless \<open>d\<close> is a dict.\<close>

definition index_item :: "pyval \<Rightarrow> string \<Rightarrow> exn + pyval" where
  "index_item v k = and_then (params_of TypeError v) (\<lambda>d. item d k)"

text \<open>The items a \<open>for\<close> over a value yields, when they can be used as dicts.\<close>

definition entries_of :: "pyval \<Rightarrow> exn + pyval list" where
  "entries_of v =
     (case v of
        PList vs \<Rightarrow> Inr vs
      | PStr s \<Rightarrow> Inr (map (\<lambda>c. PStr [c]) s)
      | PDict d \<Rightarrow> Inr (map (PStr \<circ> fst) d)
      | _ \<Rightarrow> Inl TypeError)"

text \<open>\<open>xs[i]\<close> of a Python list.\<close>

definition list_item :: "'v list \<Rightarrow> int \<Rightarrow> exn + 'v" where
  "list_item xs i =
     (let n = int (length xs); k = (if i < 0 then i + n else i)
      in if 0 \<le> k \<and> k < n then Inr (xs ! nat k) else Inl IndexError)"

section \<open>Export\<close>

text \<open>\<open>[{"hash": h.hex(), "is_left": left} for h, left in proof_path]\<close>, and back.\<close>

definition serialized_path :: "(bytes \<times> bool) list \<Rightarrow> pyval" where
  "serialized_path path = PList (map (\<lambda>(h, left). PDict [(''hash'', PStr (hex h)), (''is_left'', PBool left)]) path)"

definition path_entry :: "pyval \<Rightarrow> exn + bytes \<times> bool" where
  "path_entry v =
     and_then (index_item v ''hash'') (\<lambda>hv. and_then (hex_value hv) (\<lambda>h.
     and_then (index_item v ''is_left'') (\<lambda>left. Inr (h, truthy left))))"

definition tx_hashes :: "pyval list \<Rightarrow> exn + bytes list" where
  "tx_hashes txs = map_raise (\<lambda>tx. and_then (index_item tx ''id'') hex_value) txs"

text \<open>The \<open>block\<close> object of the proof, its fields copied from the block in the source's order.\<close>

definition proof_block :: "(string \<times> pyval) list \<Rightarrow> pyval list \<Rightarrow> exn + pyval" where
  "proof_block bd txs =
     and_then (item bd ''index'') (\<lambda>idx. and_then (item bd ''timestamp'') (\<lambda>ts.
     and_then (item bd ''hash'') (\<lambda>h. and_then (item bd ''prevHash'') (\<lambda>prev.
     and_then (item bd ''merkleRoot'') (\<lambda>root. and_then (item bd ''validator'') (\<lambda>v.
     and_then (item bd ''signature'') (\<lambda>sig.
       Inr (PDict [(''index'', idx), (''timestamp'', ts), (''hash'', h), (''prevHash'', prev),
              (''merkleRoot'', root), (''baseFee'', dget_or bd ''baseFee'' (PInt 0)),
              (''stateRoot'', dget_or bd ''stateRoot'' (PStr [])),
              (''receiptsRoot'', dget_or bd ''receiptsRoot'' (PStr [])),
              (''validator'', v), (''signature'', sig), (''txCount'', PInt (int (length txs)))]))))))))"

definition export_proof ::
    "env \<Rightarrow> (string \<times> pyval) list \<Rightarrow> int \<Rightarrow> string \<Rightarrow> string \<Rightarrow> string \<Rightarrow> string \<Rightarrow> exn + (string \<times> pyval) list" where
  "export_proof E bd tx_index tid document_hash notarizer validator_pubkey =
     and_then (item bd ''transactions'') (\<lambda>txsv. and_then (entries_of txsv) (\<lambda>txs.
     and_then (tx_hashes txs) (\<lambda>hashes.
     and_then (list_item txs tx_index) (\<lambda>tx.
     and_then (proof_block bd txs) (\<lambda>blk.
     and_then (get_item tx ''sender_pubkey'' (PStr [])) (\<lambda>spk.
       Inr ([(''version'', PInt 1), (''type'', PStr ''qbit-notarization-proof''), (''chain_id'', PStr CHAIN_ID),
             (''document_hash'', PStr document_hash), (''tx_id'', PStr tid), (''block'', blk),
             (''merkle_proof'', serialized_path (merkle_proof (sha3 E) hashes tx_index)),
             (''notarizer'', PStr notarizer), (''notarizer_pubkey'', spk)]
            @ (if validator_pubkey \<noteq> [] then [(''validator_pubkey'', PStr validator_pubkey)] else []))))))))"

section \<open>Offline verification\<close>

definition proof_header :: "pyval \<Rightarrow> exn + pyval" where
  "proof_header blk =
     and_then (get_item blk ''baseFee'' (PInt 0)) (\<lambda>fee. and_then (index_item blk ''index'') (\<lambda>idx.
     and_then (index_item blk ''merkleRoot'') (\<lambda>root. and_then (index_item blk ''prevHash'') (\<lambda>prev.
     and_then (index_item blk ''timestamp'') (\<lambda>ts. and_then (get_item blk ''txCount'' (PInt 0)) (\<lambda>n.
     and_then (index_item blk ''validator'') (\<lambda>v.
     and_then (get_item blk ''receiptsRoot'' PNone) (\<lambda>rr. and_then (get_item blk ''stateRoot'' PNone) (\<lambda>sr.
       Inr (PDict ([(''baseFee'', fee), (''index'', idx), (''merkleRoot'', root), (''prevHash'', prev),
                    (''timestamp'', ts), (''txCount'', n), (''validator'', v)]
                   @ (if truthy rr then [(''receiptsRoot'', rr)] else [])
                   @ (if truthy sr then [(''stateRoot'', sr)] else []))))))))))))"

definition path_tuples :: "pyval \<Rightarrow> exn + (bytes \<times> bool) list" where
  "path_tuples path = and_then (entries_of path) (map_raise path_entry)"

text \<open>\<open>verify_merkle_proof(bytes.fromhex(tx_id), proof_tuples, bytes.fromhex(root))\<close>.\<close>

definition leaf_valid :: "env \<Rightarrow> pyval \<Rightarrow> (bytes \<times> bool) list \<Rightarrow> exn + pyval \<Rightarrow> exn + bool" where
  "leaf_valid E tid tuples rootv =
     and_then (hex_value tid) (\<lambda>leaf. and_then rootv (\<lambda>rv. and_then (hex_value rv) (\<lambda>root.
       Inr (verify_merkle_proof (sha3 E) leaf tuples root))))"

definition header_hash :: "env \<Rightarrow> pyval \<Rightarrow> string" where
  "header_hash E hdr = hex (sha3 E (encode (json_dumps hdr)))"

text \<open>The message of a hash mismatch slices the claimed hash.\<close>

definition hash_error :: "string \<Rightarrow> pyval \<Rightarrow> exn + msg list" where
  "hash_error computed claimed =
     (if claimed = PStr computed then Inr []
      else unless_raise (\<not> sliceable claimed) TypeError
        (Inr [Msg ''block hash mismatch: computed {}... != claimed {}...'' [PStr computed, claimed]]))"

definition signature_error :: "env \<Rightarrow> pyval \<Rightarrow> pyval \<Rightarrow> bytes \<Rightarrow> msg list" where
  "signature_error E vpk sig m =
     (if truthy vpk \<and> truthy sig
      then (case and_then (hex_value vpk) (\<lambda>pk. and_then (hex_value sig) (\<lambda>sg. Inr (verify_sig E pk m sg))) of
              Inl e \<Rightarrow> [Msg ''block signature verification error: {}'' []]
            | Inr ok \<Rightarrow> (if ok then [] else [Msg ''block signature invalid: ML-DSA verification failed'' []]))
      else [])"

definition verify_proof :: "env \<Rightarrow> (string \<times> pyval) list \<Rightarrow> exn + bool \<times> msg list" where
  "verify_proof E proof =
     (if dget_or proof ''type'' PNone \<noteq> PStr ''qbit-notarization-proof''
      then Inr (False, [Msg ''not a valid QBit notarization proof'' []])
      else
        (let version = dget_or proof ''version'' (PInt 0); chain = dget_or proof ''chain_id'' PNone;
             e0 = (if chain \<noteq> PNone \<and> chain \<noteq> PStr CHAIN_ID
                   then [Msg ''chain_id mismatch: proof has {}, expected {}'' [chain, PStr CHAIN_ID]] else []);
             blk = dget_or proof ''block'' (PDict [])
         in case py_less version (PInt 1) of
              None \<Rightarrow> Inl TypeError
            | Some True \<Rightarrow> Inr (False, [Msg ''unsupported proof version: {}'' [version]])
            | Some False \<Rightarrow>
                and_then (path_tuples (dget_or proof ''merkle_proof'' (PList []))) (\<lambda>tuples.
                and_then (get_item blk ''merkleRoot'' (PStr [])) (\<lambda>root.
                and_then (leaf_valid E (dget_or proof ''tx_id'' (PStr [])) tuples (Inr root)) (\<lambda>valid.
                and_then (proof_header blk) (\<lambda>hdr. and_then (get_item blk ''hash'' (PStr [])) (\<lambda>claimed.
                and_then (hash_error (header_hash E hdr) claimed) (\<lambda>e2.
                and_then (get_item blk ''signature'' (PStr [])) (\<lambda>sig.
                  let errors = e0
                        @ (if valid then [] else [Msg ''Merkle proof invalid: transaction not in block'' []])
                        @ e2
                        @ signature_error E (dget_or proof ''validator_pubkey'' (PStr [])) sig
                            (encode (json_dumps hdr))
                  in Inr (errors = [], errors))))))))))"

section \<open>The command line tool\<close>

text \<open>The document \<open>qbit proof\<close> writes, and the errors \<open>qbit verify-proof\<close> finds in one.\<close>

definition cli_proof_doc ::
    "env \<Rightarrow> block \<Rightarrow> int \<Rightarrow> string \<Rightarrow> string \<Rightarrow> string \<Rightarrow> (string \<times> pyval) list" where
  "cli_proof_doc E b tx_index tid document_hash notarizer =
     [(''version'', PInt 1), (''type'', PStr ''qbit-notarization-proof''),
      (''document_hash'', PStr document_hash), (''tx_id'', PStr tid),
      (''block'', PDict
         [(''index'', PInt (b_index b)), (''timestamp'', PInt (b_timestamp b)), (''hash'', PStr (block_hash E b)),
          (''prevHash'', PStr (b_prev_hash b)), (''merkleRoot'', PStr (b_merkle_root b)),
          (''validator'', PStr (b_validator b)), (''signature'', PStr (hex (b_signature b))),
          (''txCount'', PInt (int (length (b_txs b))))]),
      (''merkle_proof'', serialized_path (merkle_proof (sha3 E) (map (tx_hash E) (b_txs b)) tx_index)),
      (''notarizer'', PStr notarizer)]"

definition cli_proof_errors :: "env \<Rightarrow> (string \<times> pyval) list \<Rightarrow> exn + msg list" where
  "cli_proof_errors E proof =
     and_then (item proof ''document_hash'') (\<lambda>doc. and_then (item proof ''tx_id'') (\<lambda>tid.
     and_then (item proof ''block'') (\<lambda>blk. and_then (item proof ''merkle_proof'') (\<lambda>path.
     and_then (path_tuples path) (\<lambda>tuples.
     and_then (leaf_valid E tid tuples (index_item blk ''merkleRoot'')) (\<lambda>valid.
     and_then (proof_header blk) (\<lambda>hdr. and_then (get_item blk ''hash'' (PStr [])) (\<lambda>claimed.
     and_then (hash_error (header_hash E hdr) claimed) (\<lambda>e2.
       Inr ((if valid then [] else [Msg ''Merkle proof INVALID: transaction not in block'' []]) @ e2))))))))))"

section \<open>Exported proofs verify\<close>

lemma path_round_trip: "path_tuples (serialized_path path) = Inr path"
proof -
  have "map_raise path_entry (map (\<lambda>(h, left). PDict [(''hash'', PStr (hex h)), (''is_left'', PBool left)]) path)
      = Inr path"
    by (induction path) (auto simp: path_entry_def index_item_def params_of_def item_def hex_value_def)
  then show ?thesis by (simp add: serialized_path_def entries_of_def path_tuples_def)
qed

lemma tx_hashes_of_dicts: "tx_hashes (map (\<lambda>tx. PDict (tx_to_dict E tx)) txs) = Inr (map (tx_hash E) txs)"
proof -
  have "and_then (index_item (PDict (tx_to_dict E tx)) ''id'') hex_value = Inr (tx_hash E tx)" for tx
    by (simp add: index_item_def params_of_def item_def hex_value_def tx_to_dict_def tx_id_def)
  then show ?thesis unfolding tx_hashes_def by (induction txs) simp_all
qed

definition exported_block :: "env \<Rightarrow> block \<Rightarrow> pyval" where
  "exported_block E b =
     PDict [(''index'', PInt (b_index b)), (''timestamp'', PInt (b_timestamp b)), (''hash'', PStr (block_hash E b)),
       (''prevHash'', PStr (b_prev_hash b)), (''merkleRoot'', PStr (b_merkle_root b)),
       (''baseFee'', PInt (b_base_fee b)), (''stateRoot'', PStr (b_state_root b)),
       (''receiptsRoot'', PStr (b_receipts_root b)), (''validator'', PStr (b_validator b)),
       (''signature'', PStr (hex (b_signature b))), (''txCount'', PInt (int (length (b_txs b))))]"

lemma export_Inr:
  assumes "i < length (b_txs b)"
  shows "export_proof E (block_to_dict E b) (int i) tid doc notarizer vpk = Inr
     ([(''version'', PInt 1), (''type'', PStr ''qbit-notarization-proof''), (''chain_id'', PStr CHAIN_ID),
       (''document_hash'', PStr doc), (''tx_id'', PStr tid), (''block'', exported_block E b),
       (''merkle_proof'', serialized_path (get_tx_proof E b (int i))), (''notarizer'', PStr notarizer),
       (''notarizer_pubkey'', PStr (hex (tx_pubkey (b_txs b ! i))))]
      @ (if vpk \<noteq> [] then [(''validator_pubkey'', PStr vpk)] else []))"
proof -
  let ?txs = "map (\<lambda>tx. PDict (tx_to_dict E tx)) (b_txs b)"
  have l: "list_item ?txs (int i) = Inr (PDict (tx_to_dict E (b_txs b ! i)))"
    using assms by (simp add: list_item_def)
  have p: "proof_block (block_to_dict E b) ?txs = Inr (exported_block E b)"
    by (simp add: proof_block_def item_def block_to_dict_def dget_or_def exported_block_def)
  have t: "item (block_to_dict E b) ''transactions'' = Inr (PList ?txs)"
    by (simp add: item_def block_to_dict_def)
  have k: "get_item (PDict (tx_to_dict E tx)) ''sender_pubkey'' (PStr []) = Inr (PStr (hex (tx_pubkey tx)))" for tx
    by (simp add: get_item_def params_of_def dget_or_def tx_to_dict_def)
  show ?thesis
    by (simp add: export_proof_def t entries_of_def tx_hashes_of_dicts l p k get_tx_proof_def)
qed

lemma exported_header: "proof_header (exported_block E b) = Inr (header_obj b)"
  by (simp add: proof_header_def exported_block_def get_item_def index_item_def params_of_def item_def dget_or_def
      header_obj_def)

lemma block_hash_header: "block_hash E b = header_hash E (header_obj b)"
  by (simp add: block_hash_def header_hash_def header_bytes_def)

lemma leaf_valid_block:
  assumes "block_ok E b" "i < length (b_txs b)"
  shows "leaf_valid E (PStr (tx_id E (b_txs b ! i))) (get_tx_proof E b (int i)) (Inr (PStr (b_merkle_root b)))
     = Inr True"
proof -
  have "verify_merkle_proof (sha3 E) (map (tx_hash E) (b_txs b) ! i) (get_tx_proof E b (int i))
     (merkle_root (sha3 E) (map (tx_hash E) (b_txs b)))"
    unfolding get_tx_proof_def by (rule merkle_proof_verifies) (simp add: assms(2))
  then show ?thesis
    using assms by (simp add: leaf_valid_def hex_value_def tx_id_def block_ok_def txs_root_def)
qed

lemma exported_proof_verifies:
  assumes "block_ok E b" "i < length (b_txs b)" "verify_signature E b pk"
    and "export_proof E (block_to_dict E b) (int i) (tx_id E (b_txs b ! i)) doc notarizer (hex pk) = Inr d"
  shows "verify_proof E d = Inr (True, [])"
proof -
  note d = assms(4)[unfolded export_Inr[OF assms(2)], simplified]
  have pk: "hex pk \<noteq> []" using assms(3) by (cases pk) (auto simp: verify_signature_def verify_sig_def hex_Cons hex_byte_def)
  have gets: "get_item (exported_block E b) ''merkleRoot'' (PStr []) = Inr (PStr (b_merkle_root b))"
    "get_item (exported_block E b) ''hash'' (PStr []) = Inr (PStr (block_hash E b))"
    "get_item (exported_block E b) ''signature'' (PStr []) = Inr (PStr (hex (b_signature b)))"
    by (simp_all add: get_item_def params_of_def exported_block_def dget_or_def)
  have sig: "signature_error E (PStr (hex pk)) (PStr (hex (b_signature b))) (encode (json_dumps (header_obj b))) = []"
    using assms(3) by (simp add: signature_error_def hex_value_def verify_signature_def header_bytes_def)
  note p = leaf_valid_block[OF assms(1,2)]
  show ?thesis
    using d pk by (auto simp: verify_proof_def p path_round_trip dget_or_def exported_header gets
        block_hash_header hash_error_def sig Let_def)
qed

section \<open>What a proof does not say\<close>

text \<open>Neither verifier looks at the document hash or the notarizer: any other may be put in.\<close>

lemma other_fields:
  assumes "k = ''document_hash'' \<or> k = ''notarizer''"
  shows "dget_or (dset d k x) ''type'' w = dget_or d ''type'' w" "dget_or (dset d k x) ''version'' w = dget_or d ''version'' w"
    "dget_or (dset d k x) ''chain_id'' w = dget_or d ''chain_id'' w" "dget_or (dset d k x) ''block'' w = dget_or d ''block'' w"
    "dget_or (dset d k x) ''tx_id'' w = dget_or d ''tx_id'' w"
    "dget_or (dset d k x) ''merkle_proof'' w = dget_or d ''merkle_proof'' w"
    "dget_or (dset d k x) ''validator_pubkey'' w = dget_or d ''validator_pubkey'' w"
  using assms by (auto simp: dget_or_dset)

lemma proof_ignores_document:
  "verify_proof E (dset d ''document_hash'' x) = verify_proof E d"
  "verify_proof E (dset d ''notarizer'' x) = verify_proof E d"
  unfolding verify_proof_def other_fields[OF disjI1[OF refl]] other_fields[OF disjI2[OF refl]] by (rule refl)+

lemma cli_proof_ignores_document:
  assumes "dmem ''document_hash'' d"
  shows "cli_proof_errors E (dset d ''document_hash'' x) = cli_proof_errors E d"
proof -
  obtain v where v: "item d ''document_hash'' = Inr v" using assms by (auto simp: item_def dmem_def)
  have i: "item (dset d ''document_hash'' x) ''document_hash'' = Inr x"
    "item (dset d ''document_hash'' x) ''tx_id'' = item d ''tx_id''"
    "item (dset d ''document_hash'' x) ''block'' = item d ''block''"
    "item (dset d ''document_hash'' x) ''merkle_proof'' = item d ''merkle_proof''"
    by (simp_all add: item_def dget_dset)
  show ?thesis unfolding cli_proof_errors_def i v by simp
qed

text \<open>
  The tool's export leaves out the base fee and the two roots its own verifier hashes with the
  header: the proof of a block that has a state root fails, whatever the block, unless the two
  headers collide.
\<close>

definition stripped_header :: "block \<Rightarrow> pyval" where
  "stripped_header b = header_obj (b\<lparr>b_base_fee := 0, b_receipts_root := [], b_state_root := []\<rparr>)"

lemma cli_errors:
  assumes "block_ok E b" "i < length (b_txs b)"
  shows "cli_proof_errors E (cli_proof_doc E b (int i) (tx_id E (b_txs b ! i)) doc notarizer)
     = hash_error (header_hash E (stripped_header b)) (PStr (block_hash E b))"
proof -
  let ?blk = "PDict
         [(''index'', PInt (b_index b)), (''timestamp'', PInt (b_timestamp b)), (''hash'', PStr (block_hash E b)),
          (''prevHash'', PStr (b_prev_hash b)), (''merkleRoot'', PStr (b_merkle_root b)),
          (''validator'', PStr (b_validator b)), (''signature'', PStr (hex (b_signature b))),
          (''txCount'', PInt (int (length (b_txs b))))]"
  have h: "proof_header ?blk = Inr (stripped_header b)"
    by (simp add: proof_header_def get_item_def index_item_def params_of_def item_def dget_or_def header_obj_def
        stripped_header_def)
  have r: "index_item ?blk ''merkleRoot'' = Inr (PStr (b_merkle_root b))"
    "get_item ?blk ''hash'' (PStr []) = Inr (PStr (block_hash E b))"
    by (simp_all add: index_item_def get_item_def params_of_def item_def dget_or_def)
  note p = leaf_valid_block[OF assms, unfolded get_tx_proof_def]
  show ?thesis
    by (simp add: cli_proof_errors_def cli_proof_doc_def item_def h r p path_round_trip)
      (simp add: hash_error_def)
qed

lemma cli_proof_fails:
  assumes "block_ok E b" "i < length (b_txs b)" "header_hash E (stripped_header b) \<noteq> header_hash E (header_obj b)"
  shows "\<exists>m. cli_proof_errors E (cli_proof_doc E b (int i) (tx_id E (b_txs b ! i)) doc notarizer) = Inr [m]"
  using assms cli_errors[OF assms(1,2)] by (simp add: hash_error_def block_hash_header)

end
