(* ===== verification/ClientScenario.thy ===== *)
theory ClientScenario
  imports Scenario Proof Query RateLimiter Reputation
begin

text \<open>
  The scenario of the client side: a key pair, a transfer built with the SDK, a wallet, a suite of
  cryptographic calls that opens what it closed, and a signed block.
\<close>

section \<open>A key pair and a transfer\<close>

definition demo_keys :: keypair where
  "demo_keys = \<lparr>kp_sk = replicate 4032 1, kp_pk = replicate 1952 1, kp_address = alice\<rparr>"

lemma demo_keypair: "mk_keypair demo_env (replicate 4032 1) (replicate 1952 1) = Inr demo_keys"
  by (simp add: mk_keypair_def demo_keys_def sdk_address_def alice_def ADDRESS_PREFIX_def zero_hash_def demo_env_def)

lemma demo_address_shape: "address_shape alice" "address_shape bob"
  by (simp_all add: address_shape_def alice_def bob_def ADDRESS_PREFIX_def zero_hash_def)

definition demo_unsigned :: unsigned_tx where
  "demo_unsigned = unsigned_of (mk_transfer alice bob 5 [] 0 0 0 1000)"

lemma demo_build: "build 1000 (bd_transfer bob 5 [] (addressed alice 0 0 0)) = Inr demo_unsigned"
  unfolding demo_unsigned_def by (rule build_agrees(1)) (simp_all add: demo_address_shape)

lemma demo_unsigned_fields:
  "u_type demo_unsigned = ''TRANSFER''" "u_max_fee demo_unsigned = 0" "u_max_prio demo_unsigned = 0"
  "u_sender demo_unsigned = alice" "type_of_value ''TRANSFER'' = Some TRANSFER" "0 \<le> MAX_FEE_PARAM"
  "list_all is_ok (payload_guards (PStr ''TRANSFER'') (u_payload demo_unsigned))"
  "mldsa_sign demo_env sk m = [1]" "mldsa_verify demo_env pk m sig"
  using type_of_type_value[of TRANSFER]
  by (simp_all add: demo_unsigned_def unsigned_of_def factory_defs MAX_FEE_PARAM_def demo_env_def
      payload_guards_def hashable_def dget_or_def amount_tx_types_def supply_capped_types_def int_above_def
      MAX_TX_AMOUNT_def MAX_SUPPLY_def QUBIT_PER_QBIT_def)

lemma demo_sign: "\<exists>t. sign_tx demo_env demo_keys demo_unsigned = Inr t"
  by (simp add: sign_tx_def demo_unsigned_fields demo_keys_def)

section \<open>A wallet\<close>

definition demo_suite :: suite where
  "demo_suite =
     \<lparr>scrypt = \<lambda>_ _ _ _ _. Some [1], gcm_encrypt = \<lambda>_ _ pt _. replicate 16 0 @ pt,
      gcm_decrypt = \<lambda>_ _ ct _. Some (drop 16 ct), kem_encap = \<lambda>_. None, kem_decap = \<lambda>_ _. None\<rparr>"

lemma demo_suite_ok: "gcm_ok demo_suite" "length (replicate 12 (0 :: byte)) = 12"
  by (simp_all add: gcm_ok_def demo_suite_def)

definition demo_wallet :: wallet where
  "demo_wallet = mk_wallet demo_env (replicate 4032 1) [1] (replicate 2400 2) [3]"

lemma demo_wallet_ok: "wallet_ok demo_env demo_wallet"
  by (simp add: wallet_ok_def demo_wallet_def mk_wallet_def sb_wrap_def sb_len_def)

lemma demo_wallet_save: "\<exists>d. wallet_save demo_suite [] (replicate 12 0) demo_wallet ''pw'' = Inr d"
proof -
  obtain p where p: "length_prefixed (replicate 4032 1) = Inr p"
    using length_prefixed_Inr[of "replicate 4032 1" 4032] by auto
  obtain q where q: "length_prefixed (replicate 2400 2) = Inr q"
    using length_prefixed_Inr[of "replicate 2400 2" 2400] by auto
  have "sb_bytes (w_signing_sk demo_wallet) = Inr (replicate 4032 1)"
    "sb_bytes (w_encryption_sk demo_wallet) = Inr (replicate 2400 2)"
    by (simp_all add: sb_bytes_def demo_wallet_def mk_wallet_def sb_wrap_def)
  then show ?thesis
    by (simp add: wallet_save_def wallet_encrypt_def derive_key_def p q)
      (simp add: demo_suite_def)
qed

section \<open>A signed block\<close>

definition demo_signed :: block where
  "demo_signed = mk_block demo_env 1 zero_hash [demo_transfer] alice 1001 [1] 10 zero_hash []"

lemma demo_signed_fields:
  "block_ok demo_env demo_signed" "b_txs demo_signed = [demo_transfer]" "verify_signature demo_env demo_signed [1]"
  by (simp_all add: demo_signed_def) (simp_all add: mk_block_def verify_signature_def verify_sig_def demo_env_def)

end
