(* ===== verification/HandshakeRuns.thy ===== *)
theory HandshakeRuns
  imports P2PProps
begin

text \<open>
  Runs of the handshake: two nodes that follow the code and exchange the messages they write, and
  the same steps with an attacker between them.
\<close>

section \<open>The runs\<close>

text \<open>The data of the last message of a type a node has written.\<close>

definition sent_data :: "p2p_node \<Rightarrow> string \<Rightarrow> fields" where
  "sent_data S t =
     (case find (\<lambda>(i, t', d). t' = t) (rev (pn_sent S)) of Some (i, t', d) \<Rightarrow> d | None \<Rightarrow> [])"

abbreviation deliver_to :: "net \<Rightarrow> rat \<Rightarrow> bool \<Rightarrow> nat \<Rightarrow> string \<Rightarrow> fields \<Rightarrow> p2p_node \<Rightarrow> p2p_node" where
  "deliver_to N now outbound i t d S \<equiv> snd (receive N now outbound i (PStr t) (PDict d) S)"

abbreviation greet ::
  "net \<Rightarrow> rat \<Rightarrow> rat \<Rightarrow> bytes \<Rightarrow> string \<Rightarrow> nat \<Rightarrow> fields \<Rightarrow> p2p_node \<Rightarrow> p2p_node" where
  "greet N now wall cc host ident d S \<equiv>
     snd (on_connect N now wall cc host ident (Message (PStr ''hello_auth'') (PDict d)) S)"

text \<open>Node \<open>A\<close> connects to node \<open>B\<close>, and every message arrives; the clocks agree and do not advance.\<close>

definition exchange ::
  "net \<Rightarrow> rat \<Rightarrow> rat \<Rightarrow> bytes \<Rightarrow> bytes \<Rightarrow> string \<Rightarrow> int \<Rightarrow> string \<Rightarrow> nat \<Rightarrow> p2p_node \<Rightarrow> p2p_node
     \<Rightarrow> p2p_node \<times> p2p_node" where
  "exchange N now wall c cc hostB portB hostA ident A B =
     (let i = pn_next A; j = pn_next B;
          A1 = connect N now wall c hostB portB A;
          B1 = greet N now wall cc hostA ident (sent_data A1 ''hello_auth'') B;
          A2 = deliver_to N now True i ''auth_response'' (sent_data B1 ''auth_response'') A1;
          B2 = deliver_to N now False j ''auth_confirm'' (sent_data A2 ''auth_confirm'') B1
      in (A2, deliver_to N now False j ''session_key'' (sent_data A2 ''session_key'') B2))"

text \<open>
  The attacker \<open>M\<close> knows no key but its own: \<open>A\<close> connects to it, it passes the greeting of \<open>A\<close> on to \<open>B\<close>,
  answers \<open>A\<close> under its own name with the counter-challenge of \<open>B\<close>, and passes the answer on. Then it
  chooses the session key.
\<close>

definition relay_response :: "bytes \<Rightarrow> bytes \<Rightarrow> fields \<Rightarrow> fields" where
  "relay_response pkM sigM d =
     [(''protocol_version'', PInt PROTOCOL_VERSION), (''challenge_sig'', PStr (hex sigM)),
      (''counter_challenge'', dget_or d ''counter_challenge'' PNone), (''signing_pk'', PStr (hex pkM))]"

definition relay ::
  "net \<Rightarrow> rat \<Rightarrow> rat \<Rightarrow> bytes \<Rightarrow> bytes \<Rightarrow> string \<Rightarrow> int \<Rightarrow> string \<Rightarrow> nat \<Rightarrow> bytes \<Rightarrow> bytes \<Rightarrow> bytes
     \<Rightarrow> p2p_node \<Rightarrow> p2p_node \<Rightarrow> p2p_node \<times> p2p_node" where
  "relay N now wall c cc hostM portM hostM' ident pkM sigM ctM A B =
     (let i = pn_next A; j = pn_next B;
          A1 = connect N now wall c hostM portM A;
          B1 = greet N now wall cc hostM' ident (sent_data A1 ''hello_auth'') B;
          A2 = deliver_to N now True i ''auth_response'' (relay_response pkM sigM (sent_data B1 ''auth_response'')) A1;
          B2 = deliver_to N now False j ''auth_confirm'' (sent_data A2 ''auth_confirm'') B1
      in (A2, deliver_to N now False j ''session_key'' [(''ciphertext'', PStr (hex ctM))] B2))"

text \<open>The attacker sends the fields of the greeting back as the answer.\<close>

definition reflected :: "fields \<Rightarrow> fields" where
  "reflected d =
     [(''protocol_version'', PInt PROTOCOL_VERSION), (''challenge_sig'', dget_or d ''proof'' PNone),
      (''counter_challenge'', dget_or d ''challenge'' PNone), (''signing_pk'', dget_or d ''signing_pk'' PNone)]"

section \<open>Keys that work\<close>

definition signs_for :: "net \<Rightarrow> bytes \<Rightarrow> bytes \<Rightarrow> bool" where
  "signs_for N sk pk \<longleftrightarrow> length pk = 1952
     \<and> (\<forall>m. \<exists>s. s \<noteq> [] \<and> net_sign N sk m = Some s \<and> mldsa_verify (net_env N) pk m s)"

definition signing_ok :: "net \<Rightarrow> p2p_node \<Rightarrow> bool" where
  "signing_ok N S \<longleftrightarrow> has_signing_keys S \<and> pn_address S = derive_address (net_env N) (pn_signing_pk S)
     \<and> signs_for N (sb_buf (pn_signing_sk S)) (pn_signing_pk S)"

definition encryption_ok :: "net \<Rightarrow> p2p_node \<Rightarrow> bool" where
  "encryption_ok N S \<longleftrightarrow> has_encryption_keys S \<and> length (pn_encryption_pk S) = 1184
     \<and> length (sb_buf (pn_encryption_sk S)) = 2400
     \<and> (\<exists>ct secret. kem_encap (net_suite N) (pn_encryption_pk S) = Some (ct, secret) \<and> length ct = 1088
          \<and> kem_decap (net_suite N) (sb_buf (pn_encryption_sk S)) ct = Some secret)"

text \<open>No other connection is authenticated under an address.\<close>

definition not_connected_to :: "string \<Rightarrow> p2p_node \<Rightarrow> bool" where
  "not_connected_to address S \<longleftrightarrow>
     list_all (\<lambda>(k, i). pr_authenticated (pn_peer S i) \<longrightarrow> pr_remote_address (pn_peer S i) \<noteq> address) (pn_peers S)"

text \<open>Node \<open>A\<close> can open a connection to an address, and node \<open>B\<close> takes one from a host.\<close>

definition can_connect :: "net \<Rightarrow> string \<Rightarrow> int \<Rightarrow> p2p_node \<Rightarrow> bool" where
  "can_connect N host port S \<longleftrightarrow> length (pn_peers S) < MAX_PEERS \<and> \<not> dmem (host @ '':'' @ int_str port) (pn_peers S)
     \<and> is_safe_peer N host port (pn_host S) (pn_port S)"

definition can_accept :: "net \<Rightarrow> rat \<Rightarrow> string \<Rightarrow> p2p_node \<Rightarrow> bool" where
  "can_accept N now host S \<longleftrightarrow> length (pn_peers S) < MAX_PEERS \<and> \<not> is_banned (pn_reputation S) host
     \<and> is_safe_inbound_ip N host \<and> fst (check_auth_rate now host S)"

section \<open>The initiator\<close>

lemma sign_key_Inr:
  assumes "signing_ok N S"
  shows "\<exists>s. mldsa_sign_key N (pn_signing_sk S) m = Inr s \<and> s \<noteq> []
       \<and> verify_sig (net_env N) (pn_signing_pk S) m s"
proof -
  have "sb_bytes (pn_signing_sk S) = Inr (sb_buf (pn_signing_sk S))"
    using assms by (simp add: signing_ok_def has_signing_keys_def sb_true_def sb_bytes_def)
  moreover obtain s where "s \<noteq> []" "net_sign N (sb_buf (pn_signing_sk S)) m = Some s"
      "mldsa_verify (net_env N) (pn_signing_pk S) m s"
    using assms unfolding signing_ok_def signs_for_def by blast
  moreover have "pn_signing_pk S \<noteq> []" using assms by (simp add: signing_ok_def has_signing_keys_def)
  ultimately show ?thesis by (simp add: mldsa_sign_key_def verify_sig_def)
qed

lemma connect_hello:
  assumes "can_connect N host port A" and "signing_ok N A"
    and "mldsa_sign_key N (pn_signing_sk A) (build_auth_message c (pn_address A)) = Inr s"
    and A1_def: "A1 = connect N now wall c host port A" and i_def: "i = pn_next A"
  shows "pn_sent A1 = pn_sent A @ [(i, ''hello_auth'', hello_fields N wall c s A)]"
    "pn_peer A1 = (pn_peer A)(i := (new_peer host (PInt port) True)\<lparr>pr_challenge := c, pr_deadline := now + AUTH_TIMEOUT,
                               pr_version := PROTOCOL_VERSION\<rparr>)"
    "pn_peers A1 = dset (pn_peers A) (host @ '':'' @ int_str port) i" "identity A1 = identity A"
    "pn_next A1 = pn_next A + 1"
proof -
  have e: "hello_fields N wall c s (upd i f (snd (new_connection p k A))) = hello_fields N wall c s A" for f p k
    by (simp add: hello_fields_def encryption_field_def has_encryption_keys_def new_connection_def)
  have open_json: "send N i t d (upd i f (snd (new_connection p k A)))
      = (upd i f (snd (new_connection p k A)))\<lparr>pn_sent := pn_sent A @ [(i, t, d)]\<rparr>"
    if "fresh_conn (f p)" for t d f p k
    using that by (subst send_json) (simp_all add: fresh_conn_def new_connection_def i_def)
  have signing: "has_signing_keys A" using assms(2) unfolding signing_ok_def by (rule conjunct1)
  have keys: "has_signing_keys (snd (new_connection p k A))" for p k
    using signing by (simp add: new_connection_def has_signing_keys_def)
  have parts: "fst (new_connection p k A) = pn_next A" "pn_signing_sk (snd (new_connection p k A)) = pn_signing_sk A"
      "pn_address (snd (new_connection p k A)) = pn_address A" for p k
    by (simp_all add: new_connection_def)
  have A1: "A1 = (upd i (\<lambda>p. p\<lparr>pr_challenge := c, pr_deadline := now + AUTH_TIMEOUT, pr_version := PROTOCOL_VERSION\<rparr>)
      (snd (new_connection (new_peer host (PInt port) True) (host @ '':'' @ int_str port) A)))
        \<lparr>pn_sent := pn_sent A @ [(i, ''hello_auth'', hello_fields N wall c s A)]\<rparr>"
    using assms(1,3) e open_json keys parts signing
    by (simp add: A1_def connect_def Let_def split_beta can_connect_def fresh_conn_def new_peer_def i_def)
  show "pn_sent A1 = pn_sent A @ [(i, ''hello_auth'', hello_fields N wall c s A)]"
    "pn_peer A1 = (pn_peer A)(i := (new_peer host (PInt port) True)\<lparr>pr_challenge := c, pr_deadline := now + AUTH_TIMEOUT,
                               pr_version := PROTOCOL_VERSION\<rparr>)"
    "pn_peers A1 = dset (pn_peers A) (host @ '':'' @ int_str port) i" "identity A1 = identity A"
    "pn_next A1 = pn_next A + 1"
    unfolding A1 by (simp_all add: new_connection_def i_def identity_def)
qed

lemma deliver_auth:
  assumes "handle_auth N now outbound i d S = (Inr True, T)"
  shows "deliver_to N now outbound i (auth_type outbound) d S = T"
proof -
  have "check_rate_limit now i (auth_type outbound) S = (True, S)"
    by (simp add: check_rate_limit_def RATE_EXEMPT_def auth_type_def)
  moreover have "auth_type outbound \<notin> {''encrypted'', ''status'', ''session_key''}" by (simp add: auth_type_def)
  ultimately show ?thesis
    using assms
    by (simp add: receive_def hashable_def type_key_def is_type_def process_plain_def note_status_def
        with_fields_def auth_step_def)
qed

lemma no_duplicate:
  assumes "not_connected_to a S" and "pn_peers T = pn_peers S" and "pr_remote_address (pn_peer T i) = a"
    and "\<And>j. j \<noteq> i \<Longrightarrow> pn_peer T j = pn_peer S j"
  shows "dedup_connection i T = (False, T)"
proof -
  have "duplicate_of i T = None"
    using assms by (auto simp: duplicate_of_def find_None_iff not_connected_to_def list_all_iff)
  then show ?thesis by (simp add: dedup_connection_def Let_def)
qed

text \<open>The fields of a peer the later steps read, after the values of a message were stored.\<close>

lemma stored_fields:
  "pr_open (store_encryption_pk d (store_port d (store_node_id d p))) = pr_open p"
  "pr_wire (store_encryption_pk d (store_port d (store_node_id d p))) = pr_wire p"
  "pr_authenticated (store_encryption_pk d (store_port d (store_node_id d p))) = pr_authenticated p"
  "pr_remote_pubkey (store_encryption_pk d (store_port d (store_node_id d p))) = pr_remote_pubkey p"
  "pr_remote_address (store_encryption_pk d (store_port d (store_node_id d p))) = pr_remote_address p"
  "pr_version (store_encryption_pk d (store_port d (store_node_id d p))) = pr_version p"
  "resolve_encryption_pk (dget_or d ''encryption_pk'' (PStr [])) = Some epk
     \<Longrightarrow> pr_encryption_pk (store_encryption_pk d (store_port d (store_node_id d p))) = Some epk"
  by (auto simp: store_encryption_pk_def store_node_id_def store_port_def Let_def split: option.splits)

text \<open>The channel set up from the initiator's side: at most one message, and no other field touched.\<close>

lemma channel_run:
  assumes "pr_open (pn_peer S i)" "pr_wire (pn_peer S i) = ''json''"
  shows "identity (initiate_encrypted_channel N i S) = identity S"
    "pr_authenticated (pn_peer (initiate_encrypted_channel N i S) i) = pr_authenticated (pn_peer S i)"
    "pr_remote_pubkey (pn_peer (initiate_encrypted_channel N i S) i) = pr_remote_pubkey (pn_peer S i)"
    "pr_remote_address (pn_peer (initiate_encrypted_channel N i S) i) = pr_remote_address (pn_peer S i)"
    "pr_version (pn_peer (initiate_encrypted_channel N i S) i) = pr_version (pn_peer S i)"
    "\<exists>new. pn_sent (initiate_encrypted_channel N i S) = pn_sent S @ new \<and> (\<forall>(j, t, e) \<in> set new. t = ''session_key'')"
    "has_encryption_keys S \<Longrightarrow> pr_encryption_pk (pn_peer S i) = Some epk
      \<Longrightarrow> encapsulate (net_suite N) epk = Inr (ct, secret)
      \<Longrightarrow> pr_encrypted (pn_peer (initiate_encrypted_channel N i S) i)
        \<and> pr_session_key (pn_peer (initiate_encrypted_channel N i S) i) = Some (derive_session_key N secret)
        \<and> pn_sent (initiate_encrypted_channel N i S) = pn_sent S @ [(i, ''session_key'',
             [(''ciphertext'', PStr (hex ct)), (''encryption_pk'', PStr (hex (pn_encryption_pk S)))])]"
proof -
  have send: "send N i t d (upd i (pr_session_key_update f) S)
      = (upd i (pr_session_key_update f) S)\<lparr>pn_sent := pn_sent S @ [(i, t, d)]\<rparr>" for t d f
    using assms by (subst send_json) simp_all
  note ev = initiate_encrypted_channel_def Let_def send
  show "identity (initiate_encrypted_channel N i S) = identity S"
    by (auto simp: ev identity_def split: option.splits sum.splits)
  show "\<exists>new. pn_sent (initiate_encrypted_channel N i S) = pn_sent S @ new \<and> (\<forall>(j, t, e) \<in> set new. t = ''session_key'')"
    by (auto simp: ev split: option.splits sum.splits)
  show "has_encryption_keys S \<Longrightarrow> pr_encryption_pk (pn_peer S i) = Some epk
      \<Longrightarrow> encapsulate (net_suite N) epk = Inr (ct, secret)
      \<Longrightarrow> pr_encrypted (pn_peer (initiate_encrypted_channel N i S) i)
        \<and> pr_session_key (pn_peer (initiate_encrypted_channel N i S) i) = Some (derive_session_key N secret)
        \<and> pn_sent (initiate_encrypted_channel N i S) = pn_sent S @ [(i, ''session_key'',
             [(''ciphertext'', PStr (hex ct)), (''encryption_pk'', PStr (hex (pn_encryption_pk S)))])]"
    by (simp add: ev)
qed (auto simp: initiate_encrypted_channel_def Let_def send_def split: option.splits sum.splits)

text \<open>What completing the handshake leaves behind on the initiator's side.\<close>

lemma complete_initiator_run:
  assumes conn: "pr_open (pn_peer S i)" "pr_wire (pn_peer S i) = ''json''"
    and v: "dget_or d ''protocol_version'' (PInt 1) = PInt v"
    and alone: "not_connected_to (derive_address (net_env N) pk) S"
  shows "\<exists>T. complete_initiator N i pk d S = (Inr True, T) \<and> pr_authenticated (pn_peer T i)
     \<and> pr_remote_pubkey (pn_peer T i) = pk \<and> pr_remote_address (pn_peer T i) = derive_address (net_env N) pk
     \<and> identity T = identity S
     \<and> (\<forall>epk ct secret. has_encryption_keys S \<longrightarrow> resolve_encryption_pk (dget_or d ''encryption_pk'' (PStr [])) = Some epk
          \<longrightarrow> encapsulate (net_suite N) epk = Inr (ct, secret)
          \<longrightarrow> pr_encrypted (pn_peer T i) \<and> pr_session_key (pn_peer T i) = Some (derive_session_key N secret)
            \<and> pn_sent T = pn_sent S @ [(i, ''session_key'', [(''ciphertext'', PStr (hex ct)),
                 (''encryption_pk'', PStr (hex (pn_encryption_pk S)))])])
     \<and> (\<exists>new. pn_sent T = pn_sent S @ new \<and> (\<forall>(j, t, e) \<in> set new. t = ''session_key''))
     \<and> pr_wire (pn_peer T i) = negotiate (net_wire N) (min v PROTOCOL_VERSION) (min v PROTOCOL_VERSION)
          (preferred_wire_format (net_wire N)) (dget_or d ''wire_format'' (PStr ''json''))"
proof -
  let ?q = "store_encryption_pk d (store_port d (store_node_id d ((pn_peer S i)\<lparr>pr_authenticated := True,
      pr_remote_pubkey := pk, pr_remote_address := derive_address (net_env N) pk, pr_deadline := 0,
      pr_version := min v PROTOCOL_VERSION\<rparr>)))"
  let ?S2 = "upd i (\<lambda>p. store_encryption_pk d (store_port d (store_node_id d (p\<lparr>pr_version := min v PROTOCOL_VERSION\<rparr>))))
      (upd i (\<lambda>p. p\<lparr>pr_authenticated := True, pr_remote_pubkey := pk,
                     pr_remote_address := derive_address (net_env N) pk, pr_deadline := 0\<rparr>) S)"
  let ?S3 = "check_validator_status N i ?S2"
  let ?S4 = "initiate_encrypted_channel N i ?S3"
  have q: "pn_peer ?S2 i = ?q" by simp
  have S3: "pr_open (pn_peer ?S3 i)" "pr_wire (pn_peer ?S3 i) = ''json''" "pr_authenticated (pn_peer ?S3 i)"
      "pr_remote_pubkey (pn_peer ?S3 i) = pk" "pr_remote_address (pn_peer ?S3 i) = derive_address (net_env N) pk"
      "pr_version (pn_peer ?S3 i) = min v PROTOCOL_VERSION" "pr_encryption_pk (pn_peer ?S3 i) = pr_encryption_pk ?q"
      "identity ?S3 = identity S" "pn_sent ?S3 = pn_sent S" "pn_peers ?S3 = pn_peers S"
      "\<And>j. j \<noteq> i \<Longrightarrow> pn_peer ?S3 j = pn_peer S j"
    using conn by (simp_all add: check_validator_status_def Let_def stored_fields)
  have "dedup_connection i ?S3 = (False, ?S3)"
    by (rule no_duplicate[OF alone S3(10) S3(5) S3(11)])
  then have run: "complete_initiator N i pk d S
      = (Inr True, negotiate_wire N i (dget_or d ''wire_format'' (PStr ''json'')) ?S4)"
    by (simp add: complete_initiator_def Let_def v)
  have keys: "has_encryption_keys ?S3 = has_encryption_keys S" "pn_encryption_pk ?S3 = pn_encryption_pk S"
    using S3(8) by (auto simp: identity_def has_encryption_keys_def)
  note c = channel_run[where N = N and S = ?S3 and i = i, OF S3(1,2)]
  show ?thesis
    unfolding run
    apply (intro exI[of _ "negotiate_wire N i (dget_or d ''wire_format'' (PStr ''json'')) ?S4"] conjI refl)
    subgoal using c(2) S3(3) by (simp add: negotiate_wire_def)
    subgoal using c(3) S3(4) by (simp add: negotiate_wire_def)
    subgoal using c(4) S3(5) by (simp add: negotiate_wire_def)
    subgoal using c(1) S3(8) by (simp add: negotiate_wire_def)
    subgoal using c(7) keys S3(7,9) stored_fields(7) by (simp add: negotiate_wire_def)
    subgoal using c(6) S3(9) by (simp add: negotiate_wire_def)
    subgoal using c(5) S3(6) by (simp add: negotiate_wire_def)
    done
qed

lemma signing_ok_identity: "identity T = identity S \<Longrightarrow> signing_ok N T = signing_ok N S"
  by (simp add: signing_ok_def has_signing_keys_def identity_def)

lemma has_encryption_keys_identity: "identity T = identity S \<Longrightarrow> has_encryption_keys T = has_encryption_keys S"
  by (simp add: has_encryption_keys_def identity_def)

text \<open>
  The initiator accepts any correctly signed answer, and signs the counter-challenge in it, whatever
  it is: who else knows that challenge does not enter.
\<close>

lemma initiator_answers:
  assumes conn: "fresh_conn (pn_peer S i)" and c: "pr_challenge (pn_peer S i) = c" "c \<noteq> []"
    and time: "now \<le> pr_deadline (pn_peer S i)" and keys: "signing_ok N S"
    and pk: "resolve_peer_pubkey (dget_or d ''signing_pk'' (PStr [])) = Some pk"
    and sg: "hex_data d ''challenge_sig'' = Some sg"
      "verify_sig (net_env N) pk (build_auth_message c (derive_address (net_env N) pk)) sg"
    and cc: "hex_data d ''counter_challenge'' = Some cc" "length cc = CHALLENGE_LEN"
    and v: "dget_or d ''protocol_version'' (PInt 1) = PInt v"
    and alone: "not_connected_to (derive_address (net_env N) pk) S"
  shows "\<exists>T s. deliver_to N now True i ''auth_response'' d S = T
     \<and> s \<noteq> [] \<and> verify_sig (net_env N) (pn_signing_pk S) (build_auth_message cc (pn_address S)) s
     \<and> pr_authenticated (pn_peer T i) \<and> pr_remote_pubkey (pn_peer T i) = pk
     \<and> pr_remote_address (pn_peer T i) = derive_address (net_env N) pk \<and> identity T = identity S
     \<and> (\<forall>epk ct secret. has_encryption_keys S \<longrightarrow> resolve_encryption_pk (dget_or d ''encryption_pk'' (PStr [])) = Some epk
          \<longrightarrow> encapsulate (net_suite N) epk = Inr (ct, secret)
          \<longrightarrow> pr_encrypted (pn_peer T i) \<and> pr_session_key (pn_peer T i) = Some (derive_session_key N secret)
            \<and> pn_sent T = (pn_sent S @ [(i, ''auth_confirm'', [(''challenge_sig'', PStr (hex s))])])
                 @ [(i, ''session_key'', [(''ciphertext'', PStr (hex ct)),
                      (''encryption_pk'', PStr (hex (pn_encryption_pk S)))])])
     \<and> (\<exists>new. pn_sent T = (pn_sent S @ [(i, ''auth_confirm'', [(''challenge_sig'', PStr (hex s))])]) @ new
          \<and> (\<forall>(j, t, e) \<in> set new. t = ''session_key''))
     \<and> pr_wire (pn_peer T i) = negotiate (net_wire N) (min v PROTOCOL_VERSION) (min v PROTOCOL_VERSION)
          (preferred_wire_format (net_wire N)) (dget_or d ''wire_format'' (PStr ''json''))"
proof -
  let ?S1 = "clear_challenge i S"
  have id1: "identity ?S1 = identity S" by (simp add: clear_challenge_def)
  obtain s where s: "mldsa_sign_key N (pn_signing_sk S) (build_auth_message cc (pn_address S)) = Inr s" "s \<noteq> []"
      "verify_sig (net_env N) (pn_signing_pk S) (build_auth_message cc (pn_address S)) s"
    using sign_key_Inr[OF keys] by blast
  let ?S2 = "?S1\<lparr>pn_sent := pn_sent S @ [(i, ''auth_confirm'', [(''challenge_sig'', PStr (hex s))])]\<rparr>"
  have send: "send N i ''auth_confirm'' [(''challenge_sig'', PStr (hex s))] ?S1 = ?S2"
    using conn by (subst send_json) (simp_all add: clear_challenge_def fresh_conn_def)
  have conn2: "pr_open (pn_peer ?S2 i)" "pr_wire (pn_peer ?S2 i) = ''json''"
    using conn by (simp_all add: clear_challenge_def fresh_conn_def)
  have alone2: "not_connected_to (derive_address (net_env N) pk) ?S2"
    using alone conn by (auto simp: not_connected_to_def list_all_iff clear_challenge_def fresh_conn_def)
  have id2: "identity ?S2 = identity S" "has_encryption_keys ?S2 = has_encryption_keys S"
      "pn_encryption_pk ?S2 = pn_encryption_pk S"
    by (simp_all add: identity_def clear_challenge_def has_encryption_keys_def)
  have sk: "pn_signing_sk ?S1 = pn_signing_sk S" "pn_address ?S1 = pn_address S"
    using identityD[OF id1] by simp_all
  have step: "handle_auth_response N now i d S = complete_initiator N i pk d ?S2"
    using c time pk sg cc s(1) by (simp add: handle_auth_response_def Let_def sk send)
  obtain T where T: "complete_initiator N i pk d ?S2 = (Inr True, T)"
      "pr_authenticated (pn_peer T i)" "pr_remote_pubkey (pn_peer T i) = pk"
      "pr_remote_address (pn_peer T i) = derive_address (net_env N) pk" "identity T = identity ?S2"
      "\<forall>epk ct secret. has_encryption_keys ?S2 \<longrightarrow> resolve_encryption_pk (dget_or d ''encryption_pk'' (PStr [])) = Some epk
          \<longrightarrow> encapsulate (net_suite N) epk = Inr (ct, secret)
          \<longrightarrow> pr_encrypted (pn_peer T i) \<and> pr_session_key (pn_peer T i) = Some (derive_session_key N secret)
            \<and> pn_sent T = pn_sent ?S2 @ [(i, ''session_key'', [(''ciphertext'', PStr (hex ct)),
                 (''encryption_pk'', PStr (hex (pn_encryption_pk ?S2)))])]"
      "\<exists>new. pn_sent T = pn_sent ?S2 @ new \<and> (\<forall>(j, t, e) \<in> set new. t = ''session_key'')"
      "pr_wire (pn_peer T i) = negotiate (net_wire N) (min v PROTOCOL_VERSION) (min v PROTOCOL_VERSION)
          (preferred_wire_format (net_wire N)) (dget_or d ''wire_format'' (PStr ''json''))"
    using complete_initiator_run[OF conn2 v alone2] by blast
  have sent2: "pn_sent ?S2 = pn_sent S @ [(i, ''auth_confirm'', [(''challenge_sig'', PStr (hex s))])]" by simp
  have "deliver_to N now True i ''auth_response'' d S = T"
    using deliver_auth[of N now True i d S T] step T(1) by (simp add: handle_auth_def auth_type_def)
  then show ?thesis
    using s(2,3) T(2-8) unfolding id2 sent2 by blast
qed

section \<open>The responder\<close>

lemma update_peer_key_frame:
  "identity (snd (update_peer_key i k t v S)) = identity S" "pn_sent (snd (update_peer_key i k t v S)) = pn_sent S"
  "j \<noteq> i \<Longrightarrow> pn_peer (snd (update_peer_key i k t v S)) j = pn_peer S j"
  "snd ` set (pn_peers (snd (update_peer_key i k t v S))) \<subseteq> insert i (snd ` set (pn_peers S))"
  "fresh_conn (pn_peer S i) \<Longrightarrow> fresh_conn (pn_peer (snd (update_peer_key i k t v S)) i)"
  "pn_port (snd (update_peer_key i k t v S)) = pn_port S" "pn_id (snd (update_peer_key i k t v S)) = pn_id S"
proof -
  have "snd ` set (dset d k' i) \<subseteq> insert i (snd ` set d)" for d k'
    by (induction d) auto
  moreover have "snd ` set (dpop d k') \<subseteq> snd ` set d" for d k'
    by (induction d) auto
  ultimately have "snd ` set (dset (dpop (pn_peers S) k) k' i) \<subseteq> insert i (snd ` set (pn_peers S))" for k'
    by (meson insert_mono order_trans)
  then show "snd ` set (pn_peers (snd (update_peer_key i k t v S))) \<subseteq> insert i (snd ` set (pn_peers S))"
    by (auto simp: update_peer_key_def Let_def)
qed (auto simp: update_peer_key_def Let_def identity_def)

lemma not_connected_mono:
  assumes "not_connected_to a S" and "snd ` set (pn_peers T) \<subseteq> insert i (snd ` set (pn_peers S))"
    and "\<not> pr_authenticated (pn_peer T i)" and "\<And>j. j \<noteq> i \<Longrightarrow> pn_peer T j = pn_peer S j"
  shows "not_connected_to a T"
proof -
  have "pr_authenticated (pn_peer T j) \<longrightarrow> pr_remote_address (pn_peer T j) \<noteq> a" if "(k, j) \<in> set (pn_peers T)" for k j
  proof (cases "j = i")
    case False
    have "j \<in> snd ` set (pn_peers T)" using that by force
    then obtain k' where "(k', j) \<in> set (pn_peers S)" using assms(2) False by auto
    then show ?thesis using assms(1) assms(4)[OF False] by (auto simp: not_connected_to_def list_all_iff)
  qed (simp add: assms(3))
  then show ?thesis by (auto simp: not_connected_to_def list_all_iff)
qed

lemma responder_greets:
  assumes room: "can_accept N now host B" and hello: "check_hello N wall d = Some (pv, c, pk)" and keys: "signing_ok N B"
    and j: "j = pn_next B"
  shows "\<exists>B1 s. greet N now wall cc host ident d B = B1 \<and> s \<noteq> []
     \<and> verify_sig (net_env N) (pn_signing_pk B) (build_auth_message c (pn_address B)) s
     \<and> pn_sent B1 = pn_sent B @ [(j, ''auth_response'', response_fields N s cc B)]
     \<and> fresh_conn (pn_peer B1 j) \<and> pr_challenge (pn_peer B1 j) = cc \<and> pr_deadline (pn_peer B1 j) = now + AUTH_TIMEOUT
     \<and> pr_remote_pubkey (pn_peer B1 j) = pk \<and> pr_version (pn_peer B1 j) = min pv PROTOCOL_VERSION
     \<and> pr_pending_wire (pn_peer B1 j) = dget_or d ''wire_format'' (PStr ''json'')
     \<and> identity B1 = identity B \<and> (\<forall>a. not_connected_to a B \<longrightarrow> not_connected_to a B1)"
proof -
  define temp where "temp = ''_inbound_'' @ host @ ''_'' @ dec_nat ident"
  let ?S1 = "snd (new_connection (new_peer host (PInt 0) False) temp B)"
  let ?S2 = "snd (check_auth_rate now host ?S1)"
  let ?u = "update_peer_key j temp temp (dget_or d ''port'' (PInt 0)) ?S2"
  let ?S3 = "snd ?u"
  let ?S4 = "upd j (accept_hello d pv) ?S3"
  let ?S5 = "upd j (\<lambda>p. p\<lparr>pr_challenge := cc, pr_deadline := now + AUTH_TIMEOUT, pr_remote_pubkey := pk,
                       pr_remote_address := derive_address (net_env N) pk\<rparr>) ?S4"
  obtain s where s: "mldsa_sign_key N (pn_signing_sk B) (build_auth_message c (pn_address B)) = Inr s" "s \<noteq> []"
      "verify_sig (net_env N) (pn_signing_pk B) (build_auth_message c (pn_address B)) s"
    using sign_key_Inr[OF keys] by blast
  have rate: "fst (check_auth_rate now host ?S1) = fst (check_auth_rate now host B)"
    by (simp add: check_auth_rate_def new_connection_def Let_def)
  have S2: "identity ?S2 = identity B" "pn_sent ?S2 = pn_sent B" "pn_peer ?S2 = pn_peer ?S1" "pn_peers ?S2 = pn_peers ?S1"
      "pn_port ?S2 = pn_port B" "pn_id ?S2 = pn_id B"
    by (auto simp: check_auth_rate_def Let_def new_connection_def identity_def)
  have S2j: "pn_peer ?S2 = (pn_peer B)(j := new_peer host (PInt 0) False)"
    unfolding S2(3) by (simp add: new_connection_def j)
  have S3: "identity ?S3 = identity B" "pn_sent ?S3 = pn_sent B" "pn_port ?S3 = pn_port B" "pn_id ?S3 = pn_id B"
    using update_peer_key_frame S2 by simp_all
  have fresh3: "fresh_conn (pn_peer ?S3 j)"
    by (rule update_peer_key_frame(5)) (simp add: S2j)
  then have "fresh_conn (pn_peer ?S4 j)" by (simp add: accept_hello_view)
  then have fresh5: "fresh_conn (pn_peer ?S5 j)" by (simp add: fresh_conn_def)
  have fields: "response_fields N s cc ?S5 = response_fields N s cc B"
    using identityD[OF S3(1)] S3 by (simp add: response_fields_def encryption_field_def has_encryption_keys_def)
  have sent: "send N j ''auth_response'' (response_fields N s cc ?S5) ?S5
      = ?S5\<lparr>pn_sent := pn_sent B @ [(j, ''auth_response'', response_fields N s cc B)]\<rparr>"
    using fresh5 S3(2) fields by (subst send_json) (simp_all add: fresh_conn_def)
  have "has_signing_keys B" using keys unfolding signing_ok_def by (rule conjunct1)
  then have keys3: "has_signing_keys ?S3" "pn_signing_sk ?S3 = pn_signing_sk B" "pn_address ?S3 = pn_address B"
    using identityD[OF S3(1)] by (simp_all add: has_signing_keys_def)
  have handled: "handle_hello_auth_inbound N now wall cc j d ?S3
      = (Inr True, ?S5\<lparr>pn_sent := pn_sent B @ [(j, ''auth_response'', response_fields N s cc B)]\<rparr>)"
    using hello s(1) sent by (simp add: handle_hello_auth_inbound_def Let_def keys3)
  have "first_message N now wall cc j temp (PStr ''hello_auth'') (PDict d) ?S1
      = (Deliver (PStr ''hello_auth'') (PDict d), fst ?u,
         ?S5\<lparr>pn_sent := pn_sent B @ [(j, ''auth_response'', response_fields N s cc B)]\<rparr>)"
  proof -
    have "check_auth_rate now (pr_host (pn_peer ?S1 j)) ?S1 = (True, ?S2)"
      using room rate by (simp add: can_accept_def new_connection_def j new_peer_def prod_eq_iff)
    then show ?thesis
      using handled by (simp add: first_message_def is_type_def Let_def split_beta)
  qed
  then have run: "greet N now wall cc host ident d B
      = ?S5\<lparr>pn_sent := pn_sent B @ [(j, ''auth_response'', response_fields N s cc B)]\<rparr>"
    unfolding on_connect_def Let_def temp_def[symmetric]
    using room by (simp add: can_accept_def split_beta new_connection_def j)
  have others: "pn_peer ?S3 k = pn_peer B k" if "k \<noteq> j" for k
    using update_peer_key_frame(3)[OF that, of temp temp _ ?S2] that S2j by simp
  have table: "snd ` set (pn_peers ?S3) \<subseteq> insert j (snd ` set (pn_peers B))"
  proof -
    have "snd ` set (dset d k' j) \<subseteq> insert j (snd ` set d)" for d k' by (induction d) auto
    moreover have "pn_peers ?S2 = dset (pn_peers B) temp j" unfolding S2(4) by (simp add: new_connection_def j)
    ultimately have "snd ` set (pn_peers ?S2) \<subseteq> insert j (snd ` set (pn_peers B))" by simp
    then show ?thesis using update_peer_key_frame(4)[of j temp temp _ ?S2] by blast
  qed
  have alone: "not_connected_to a (greet N now wall cc host ident d B)" if "not_connected_to a B" for a
    unfolding run using fresh5 others table
    by (intro not_connected_mono[OF that, where i = j]) (simp_all add: fresh_conn_def)
  show ?thesis
    using s(2,3) fresh5 S3(1) alone
    by (intro exI[of _ "greet N now wall cc host ident d B"] exI[of _ s]) (simp add: run accept_hello_def identity_def)
qed

lemma responder_confirms:
  assumes conn: "fresh_conn (pn_peer S j)" and cc: "pr_challenge (pn_peer S j) = cc" "cc \<noteq> []"
    and time: "now \<le> pr_deadline (pn_peer S j)" and pk: "pr_remote_pubkey (pn_peer S j) = pk" "pk \<noteq> []"
    and sg: "hex_data d ''challenge_sig'' = Some sg"
      "verify_sig (net_env N) pk (build_auth_message cc (derive_address (net_env N) pk)) sg"
    and alone: "not_connected_to (derive_address (net_env N) pk) S"
  shows "\<exists>T. deliver_to N now False j ''auth_confirm'' d S = T \<and> pr_authenticated (pn_peer T j)
     \<and> pr_remote_pubkey (pn_peer T j) = pk \<and> pr_remote_address (pn_peer T j) = derive_address (net_env N) pk
     \<and> identity T = identity S \<and> pn_sent T = pn_sent S
     \<and> pr_wire (pn_peer T j) = negotiate (net_wire N) (pr_version (pn_peer S j)) (pr_version (pn_peer S j))
          (preferred_wire_format (net_wire N)) (pr_pending_wire (pn_peer S j))"
proof -
  let ?S1 = "clear_challenge j S"
  let ?S2 = "upd j (\<lambda>p. p\<lparr>pr_authenticated := True, pr_deadline := 0,
                 pr_remote_address := derive_address (net_env N) (pr_remote_pubkey p)\<rparr>) ?S1"
  let ?T = "check_validator_status N j (negotiate_wire N j (pr_pending_wire (pn_peer ?S2 j)) ?S2)"
  have T: "pr_authenticated (pn_peer ?T j)" "pr_remote_pubkey (pn_peer ?T j) = pk"
      "pr_remote_address (pn_peer ?T j) = derive_address (net_env N) pk" "identity ?T = identity S"
      "pn_sent ?T = pn_sent S" "pn_peers ?T = pn_peers S" "\<And>i. i \<noteq> j \<Longrightarrow> pn_peer ?T i = pn_peer S i"
      "pr_wire (pn_peer ?T j) = negotiate (net_wire N) (pr_version (pn_peer S j)) (pr_version (pn_peer S j))
          (preferred_wire_format (net_wire N)) (pr_pending_wire (pn_peer S j))"
    using pk(1) by (simp_all add: check_validator_status_def negotiate_wire_def clear_challenge_def Let_def)
  have "dedup_connection j ?T = (False, ?T)"
    by (rule no_duplicate[OF alone T(6,3,7)])
  then have "complete_responder N j ?S1 = (Inr True, ?T)"
    by (simp add: complete_responder_def Let_def)
  then have "handle_auth_confirm N now j d S = (Inr True, ?T)"
    using cc time pk sg by (simp add: handle_auth_confirm_def Let_def)
  then have "deliver_to N now False j ''auth_confirm'' d S = ?T"
    using deliver_auth[of N now False j d S ?T] by (simp add: handle_auth_def auth_type_def)
  then show ?thesis using T by blast
qed

text \<open>The responder takes any session key from an authenticated peer.\<close>

lemma responder_session:
  assumes auth: "pr_authenticated (pn_peer S j)" and keys: "has_encryption_keys S"
    and len: "length (sb_buf (pn_encryption_sk S)) = 2400" "length ct = 1088"
    and ct: "hex_data d ''ciphertext'' = Some ct"
    and decap: "kem_decap (net_suite N) (sb_buf (pn_encryption_sk S)) ct = Some secret"
  shows "\<exists>T. deliver_to N now False j ''session_key'' d S = T \<and> pr_encrypted (pn_peer T j)
     \<and> pr_session_key (pn_peer T j) = Some (derive_session_key N secret)
     \<and> pr_authenticated (pn_peer T j) \<and> pr_remote_address (pn_peer T j) = pr_remote_address (pn_peer S j)
     \<and> pr_remote_pubkey (pn_peer T j) = pr_remote_pubkey (pn_peer S j)
     \<and> pr_wire (pn_peer T j) = pr_wire (pn_peer S j)"
proof -
  have sk: "sb_bytes (pn_encryption_sk S) = Inr (sb_buf (pn_encryption_sk S))"
    using keys by (simp add: has_encryption_keys_def sb_true_def sb_bytes_def)
  have "deliver_to N now False j ''session_key'' d S = snd (handle_session_key N j d S)"
    by (simp add: receive_def hashable_def type_key_def is_type_def process_plain_def note_status_def
        with_fields_def check_rate_limit_def RATE_EXEMPT_def)
  moreover have "pr_wire (store_encryption_pk d p) = pr_wire p" "pr_authenticated (store_encryption_pk d p) = pr_authenticated p"
    "pr_remote_address (store_encryption_pk d p) = pr_remote_address p"
    "pr_remote_pubkey (store_encryption_pk d p) = pr_remote_pubkey p" for p
    by (simp_all add: store_encryption_pk_def split: option.splits)
  ultimately show ?thesis
    using auth keys len ct decap sk
    by (simp add: handle_session_key_def decapsulate_def Let_def)
qed

section \<open>Two honest nodes\<close>

lemma find_after: "\<forall>x \<in> set xs. \<not> P x \<Longrightarrow> P y \<Longrightarrow> find P (xs @ y # ys) = Some y"
  by (induction xs) auto

lemma sent_data_last:
  assumes "pn_sent S = msgs @ [(i, t, d)] @ new" "\<forall>(j, t', e) \<in> set new. t' \<noteq> t"
  shows "sent_data S t = d"
  using assms find_after[of "rev new" "\<lambda>(i, t', d). t' = t" "(i, t, d)" "rev msgs"]
  by (simp add: sent_data_def) (auto simp: case_prod_beta)

lemma hello_values:
  "dget_or (hello_fields N wall c s A) ''protocol_version'' x = PInt PROTOCOL_VERSION"
  "dget_or (hello_fields N wall c s A) ''wire_format'' x = PStr (preferred_wire_format (net_wire N))"
  "dget_or (hello_fields N wall c s A) ''timestamp'' x = PInt \<lfloor>wall\<rfloor>"
  "dget_or (hello_fields N wall c s A) ''chain_id'' x = PStr CHAIN_ID"
  "dget_or (hello_fields N wall c s A) ''challenge'' x = PStr (hex c)"
  "dget_or (hello_fields N wall c s A) ''signing_pk'' x = PStr (hex (pn_signing_pk A))"
  "dget_or (hello_fields N wall c s A) ''proof'' x = PStr (hex s)"
  by (simp_all add: hello_fields_def dget_or_def)

lemma response_values:
  "dget_or (response_fields N s cc B) ''protocol_version'' x = PInt PROTOCOL_VERSION"
  "dget_or (response_fields N s cc B) ''wire_format'' x = PStr (preferred_wire_format (net_wire N))"
  "dget_or (response_fields N s cc B) ''challenge_sig'' x = PStr (hex s)"
  "dget_or (response_fields N s cc B) ''counter_challenge'' x = PStr (hex cc)"
  "dget_or (response_fields N s cc B) ''signing_pk'' x = PStr (hex (pn_signing_pk B))"
  "has_encryption_keys B \<Longrightarrow> dget_or (response_fields N s cc B) ''encryption_pk'' x = PStr (hex (pn_encryption_pk B))"
  by (simp_all add: response_fields_def dget_or_def encryption_field_def)

lemma hex_of_py_hex [simp]: "hex_of_py (PStr (hex raw)) = Some raw"
  by (simp add: hex_of_py_def)

lemma hex_empty [simp]: "hex raw = [] \<longleftrightarrow> raw = []"
  by (metis hex_Nil hex_inj)

text \<open>The greeting of a node with working keys passes every check.\<close>

lemma hello_checked:
  assumes keys: "signing_ok N A" and s: "s \<noteq> []"
      "verify_sig (net_env N) (pn_signing_pk A) (build_auth_message c (pn_address A)) s"
    and c: "length c = CHALLENGE_LEN"
  shows "check_hello N wall (hello_fields N wall c s A) = Some (PROTOCOL_VERSION, c, pn_signing_pk A)"
proof -
  have addr: "pn_address A = derive_address (net_env N) (pn_signing_pk A)" "length (pn_signing_pk A) = 1952"
    using keys by (auto simp: signing_ok_def signs_for_def)
  have "\<bar>wall - of_int \<lfloor>wall\<rfloor>\<bar> \<le> of_int MAX_BLOCK_DRIFT"
    unfolding MAX_BLOCK_DRIFT_def by linarith
  then show ?thesis
    using addr s c
    by (simp add: check_hello_def Let_def hello_values hex_data_def resolve_peer_pubkey_def PROTOCOL_VERSION_def)
qed

lemma snd_dset: "snd ` set (dset d k v) \<subseteq> insert v (snd ` set d)"
  by (induction d) auto

text \<open>Both nodes after the greeting.\<close>

lemma initiator_greets:
  assumes room: "can_connect N host port A" and keys: "signing_ok N A" and c: "length c = CHALLENGE_LEN"
    and A1: "A1 = connect N now wall c host port A" and i: "i = pn_next A"
  shows "\<exists>s. sent_data A1 ''hello_auth'' = hello_fields N wall c s A \<and> s \<noteq> []
     \<and> verify_sig (net_env N) (pn_signing_pk A) (build_auth_message c (pn_address A)) s
     \<and> check_hello N wall (hello_fields N wall c s A) = Some (PROTOCOL_VERSION, c, pn_signing_pk A)
     \<and> fresh_conn (pn_peer A1 i) \<and> pr_challenge (pn_peer A1 i) = c \<and> now \<le> pr_deadline (pn_peer A1 i)
     \<and> pn_peers A1 = dset (pn_peers A) (host @ '':'' @ int_str port) i
     \<and> identity A1 = identity A \<and> (\<forall>a. not_connected_to a A \<longrightarrow> not_connected_to a A1)"
proof -
  obtain s where s: "mldsa_sign_key N (pn_signing_sk A) (build_auth_message c (pn_address A)) = Inr s" "s \<noteq> []"
      "verify_sig (net_env N) (pn_signing_pk A) (build_auth_message c (pn_address A)) s"
    using sign_key_Inr[OF keys] by blast
  note h = connect_hello[OF room keys s(1) A1 i]
  have p: "fresh_conn (pn_peer A1 i)" "pr_challenge (pn_peer A1 i) = c" "now \<le> pr_deadline (pn_peer A1 i)"
    using h(2) by (simp_all add: fresh_conn_def new_peer_def AUTH_TIMEOUT_def)
  have d: "sent_data A1 ''hello_auth'' = hello_fields N wall c s A"
    using h(1) by (intro sent_data_last[where new = "[]"]) simp_all
  have alone: "not_connected_to a A1" if "not_connected_to a A" for a
    using h(2,3) snd_dset[where d = "pn_peers A" and v = i] p(1)
    by (intro not_connected_mono[OF that, where i = i]) (simp_all add: fresh_conn_def)
  show ?thesis
    by (intro exI[of _ s] conjI d s p h(3,4) hello_checked[OF keys s(2,3) c]) (simp add: alone)
qed

lemma responder_replies:
  assumes room: "can_accept N now host B" and hello: "check_hello N wall d = Some (PROTOCOL_VERSION, c, pk)"
    and keys: "signing_ok N B" and B1: "B1 = greet N now wall cc host ident d B" and j: "j = pn_next B"
  shows "\<exists>s. sent_data B1 ''auth_response'' = response_fields N s cc B \<and> s \<noteq> []
     \<and> verify_sig (net_env N) (pn_signing_pk B) (build_auth_message c (pn_address B)) s
     \<and> fresh_conn (pn_peer B1 j) \<and> pr_challenge (pn_peer B1 j) = cc \<and> now \<le> pr_deadline (pn_peer B1 j)
     \<and> pr_remote_pubkey (pn_peer B1 j) = pk \<and> pr_version (pn_peer B1 j) = PROTOCOL_VERSION
     \<and> pr_pending_wire (pn_peer B1 j) = dget_or d ''wire_format'' (PStr ''json'')
     \<and> identity B1 = identity B \<and> (\<forall>a. not_connected_to a B \<longrightarrow> not_connected_to a B1)"
proof -
  obtain s where s: "s \<noteq> []"
      "verify_sig (net_env N) (pn_signing_pk B) (build_auth_message c (pn_address B)) s"
      "pn_sent B1 = pn_sent B @ [(j, ''auth_response'', response_fields N s cc B)]"
      "fresh_conn (pn_peer B1 j)" "pr_challenge (pn_peer B1 j) = cc" "pr_deadline (pn_peer B1 j) = now + AUTH_TIMEOUT"
      "pr_remote_pubkey (pn_peer B1 j) = pk" "pr_version (pn_peer B1 j) = min PROTOCOL_VERSION PROTOCOL_VERSION"
      "pr_pending_wire (pn_peer B1 j) = dget_or d ''wire_format'' (PStr ''json'')"
      "identity B1 = identity B" "\<forall>a. not_connected_to a B \<longrightarrow> not_connected_to a B1"
    using responder_greets[OF room hello keys j] unfolding B1 by blast
  have d: "sent_data B1 ''auth_response'' = response_fields N s cc B"
    using s(3) by (intro sent_data_last[where new = "[]"]) simp_all
  show ?thesis using d s by (intro exI[of _ s]) (simp add: AUTH_TIMEOUT_def)
qed

lemma exchange_run:
  assumes room: "can_connect N hostB portB A" "can_accept N now hostA B"
    and keys: "signing_ok N A" "signing_ok N B" and kem: "encryption_ok N A" "encryption_ok N B"
    and random: "length c = CHALLENGE_LEN" "length cc = CHALLENGE_LEN"
    and alone: "not_connected_to (pn_address B) A" "not_connected_to (pn_address A) B"
    and run: "exchange N now wall c cc hostB portB hostA ident A B = (A', B')" and ij: "i = pn_next A" "j = pn_next B"
  shows "(pr_authenticated (pn_peer A' i) \<and> pr_remote_address (pn_peer A' i) = pn_address B)
    \<and> (pr_authenticated (pn_peer B' j) \<and> pr_remote_address (pn_peer B' j) = pn_address A)
    \<and> (pr_encrypted (pn_peer A' i) \<and> pr_encrypted (pn_peer B' j))
    \<and> (\<exists>key. pr_session_key (pn_peer A' i) = Some key \<and> pr_session_key (pn_peer B' j) = Some key)
    \<and> pr_wire (pn_peer A' i) = pr_wire (pn_peer B' j)"
proof -
  have addr: "pn_address A = derive_address (net_env N) (pn_signing_pk A)" "length (pn_signing_pk A) = 1952"
      "pn_address B = derive_address (net_env N) (pn_signing_pk B)" "length (pn_signing_pk B) = 1952"
    using keys by (auto simp: signing_ok_def signs_for_def)
  have ne: "c \<noteq> []" "cc \<noteq> []" using random by (auto simp: CHALLENGE_LEN_def)
  define A1 where "A1 = connect N now wall c hostB portB A"
  obtain s where A1: "sent_data A1 ''hello_auth'' = hello_fields N wall c s A"
      "check_hello N wall (hello_fields N wall c s A) = Some (PROTOCOL_VERSION, c, pn_signing_pk A)"
      "fresh_conn (pn_peer A1 i)" "pr_challenge (pn_peer A1 i) = c" "now \<le> pr_deadline (pn_peer A1 i)"
      "identity A1 = identity A" "\<forall>a. not_connected_to a A \<longrightarrow> not_connected_to a A1"
    using initiator_greets[OF room(1) keys(1) random(1) A1_def ij(1)] by blast
  define B1 where "B1 = greet N now wall cc hostA ident (hello_fields N wall c s A) B"
  obtain sB where B1: "sent_data B1 ''auth_response'' = response_fields N sB cc B"
      "verify_sig (net_env N) (pn_signing_pk B) (build_auth_message c (pn_address B)) sB"
      "fresh_conn (pn_peer B1 j)" "pr_challenge (pn_peer B1 j) = cc" "now \<le> pr_deadline (pn_peer B1 j)"
      "pr_remote_pubkey (pn_peer B1 j) = pn_signing_pk A" "pr_version (pn_peer B1 j) = PROTOCOL_VERSION"
      "pr_pending_wire (pn_peer B1 j) = dget_or (hello_fields N wall c s A) ''wire_format'' (PStr ''json'')"
      "identity B1 = identity B" "\<forall>a. not_connected_to a B \<longrightarrow> not_connected_to a B1"
    using responder_replies[OF room(2) A1(2) keys(2) B1_def ij(2)] by blast
  let ?d = "response_fields N sB cc B"
  have encB: "has_encryption_keys B" "length (pn_encryption_pk B) = 1184"
      "length (sb_buf (pn_encryption_sk B)) = 2400"
    using kem(2) by (simp_all add: encryption_ok_def)
  obtain ct secret where ct: "kem_encap (net_suite N) (pn_encryption_pk B) = Some (ct, secret)" "length ct = 1088"
      "kem_decap (net_suite N) (sb_buf (pn_encryption_sk B)) ct = Some secret"
    using kem(2) unfolding encryption_ok_def by blast
  have vals: "resolve_peer_pubkey (dget_or ?d ''signing_pk'' (PStr [])) = Some (pn_signing_pk B)"
      "hex_data ?d ''challenge_sig'' = Some sB" "hex_data ?d ''counter_challenge'' = Some cc"
      "dget_or ?d ''protocol_version'' (PInt 1) = PInt PROTOCOL_VERSION"
      "resolve_encryption_pk (dget_or ?d ''encryption_pk'' (PStr [])) = Some (pn_encryption_pk B)"
      "encapsulate (net_suite N) (pn_encryption_pk B) = Inr (ct, secret)"
    using addr encB ct(1)
    by (auto simp: resolve_peer_pubkey_def resolve_encryption_pk_def response_values hex_data_def encapsulate_def)
  define A2 where "A2 = deliver_to N now True i ''auth_response'' ?d A1"
  have keysA1: "signing_ok N A1" "has_encryption_keys A1" "pn_signing_pk A1 = pn_signing_pk A" "pn_address A1 = pn_address A"
    using keys(1) kem(1) signing_ok_identity[OF A1(6)] has_encryption_keys_identity[OF A1(6)] identityD[OF A1(6)]
    by (simp_all add: encryption_ok_def)
  have aloneA: "not_connected_to (derive_address (net_env N) (pn_signing_pk B)) A1"
    using alone(1) A1(7) addr(3) by simp
  let ?sent = "\<lambda>sA. pn_sent A1 @ [(i, ''auth_confirm'', [(''challenge_sig'', PStr (hex sA))])]"
  let ?key = "(i, ''session_key'', [(''ciphertext'', PStr (hex ct)), (''encryption_pk'', PStr (hex (pn_encryption_pk A1)))])"
  obtain sA where A2: "verify_sig (net_env N) (pn_signing_pk A) (build_auth_message cc (pn_address A)) sA"
      "pr_authenticated (pn_peer A2 i)" "pr_remote_address (pn_peer A2 i) = derive_address (net_env N) (pn_signing_pk B)"
      "pr_encrypted (pn_peer A2 i) \<and> pr_session_key (pn_peer A2 i) = Some (derive_session_key N secret)
        \<and> pn_sent A2 = ?sent sA @ [?key]"
      "pr_wire (pn_peer A2 i) = negotiate (net_wire N) (min PROTOCOL_VERSION PROTOCOL_VERSION)
          (min PROTOCOL_VERSION PROTOCOL_VERSION)
          (preferred_wire_format (net_wire N)) (dget_or ?d ''wire_format'' (PStr ''json''))"
    using initiator_answers[OF A1(3,4) ne(1) A1(5) keysA1(1) vals(1,2) B1(2)[unfolded addr(3)] vals(3) random(2)
        vals(4) aloneA] keysA1(2) vals(5,6) unfolding A2_def[symmetric] keysA1(3,4) by blast
  have d3: "sent_data A2 ''auth_confirm'' = [(''challenge_sig'', PStr (hex sA))]"
    using A2(4) by (intro sent_data_last[where i = i and new = "[?key]" and msgs = "pn_sent A1"]) simp_all
  have d4: "sent_data A2 ''session_key'' = [(''ciphertext'', PStr (hex ct)), (''encryption_pk'', PStr (hex (pn_encryption_pk A1)))]"
    using A2(4) by (intro sent_data_last[where new = "[]" and msgs = "?sent sA"]) simp_all
  define B2 where "B2 = deliver_to N now False j ''auth_confirm'' [(''challenge_sig'', PStr (hex sA))] B1"
  have addrA: "verify_sig (net_env N) (pn_signing_pk A) (build_auth_message cc (derive_address (net_env N) (pn_signing_pk A))) sA"
      "pn_signing_pk A \<noteq> []" "hex_data [(''challenge_sig'', PStr (hex sA))] ''challenge_sig'' = Some sA"
    using A2(1) addr by (auto simp: hex_data_def dget_or_def)
  have aloneB: "not_connected_to (derive_address (net_env N) (pn_signing_pk A)) B1"
    using alone(2) B1(10) addr(1) by simp
  have B2: "pr_authenticated (pn_peer B2 j)"
      "pr_remote_address (pn_peer B2 j) = derive_address (net_env N) (pn_signing_pk A)" "identity B2 = identity B1"
      "pr_wire (pn_peer B2 j) = negotiate (net_wire N) (pr_version (pn_peer B1 j)) (pr_version (pn_peer B1 j))
          (preferred_wire_format (net_wire N)) (pr_pending_wire (pn_peer B1 j))"
    using responder_confirms[OF B1(3,4) ne(2) B1(5,6) addrA(2,3,1) aloneB] unfolding B2_def by blast+
  have encB2: "has_encryption_keys B2" "pn_encryption_sk B2 = pn_encryption_sk B"
    using encB(1) B2(3) B1(9) by (simp_all add: identity_def has_encryption_keys_def)
  let ?d4 = "[(''ciphertext'', PStr (hex ct)), (''encryption_pk'', PStr (hex (pn_encryption_pk A1)))]"
  have d4ct: "hex_data ?d4 ''ciphertext'' = Some ct" by (simp add: hex_data_def dget_or_def)
  have decap: "length (sb_buf (pn_encryption_sk B2)) = 2400"
      "kem_decap (net_suite N) (sb_buf (pn_encryption_sk B2)) ct = Some secret"
    using encB(3) ct(3) encB2(2) by simp_all
  obtain B3 where B3: "deliver_to N now False j ''session_key'' ?d4 B2 = B3" "pr_encrypted (pn_peer B3 j)"
      "pr_session_key (pn_peer B3 j) = Some (derive_session_key N secret)" "pr_authenticated (pn_peer B3 j)"
      "pr_remote_address (pn_peer B3 j) = pr_remote_address (pn_peer B2 j)" "pr_wire (pn_peer B3 j) = pr_wire (pn_peer B2 j)"
    using responder_session[OF B2(1) encB2(1) decap(1) ct(2) d4ct decap(2)] by blast
  have "exchange N now wall c cc hostB portB hostA ident A B = (A2, B3)"
    unfolding exchange_def Let_def ij[symmetric] A1_def[symmetric] A1(1) B1_def[symmetric] B1(1) A2_def[symmetric]
      d3 d4 B2_def[symmetric] B3(1) by (rule refl)
  then have "A' = A2" "B' = B3" using run by simp_all
  then show ?thesis
    using A2 B2 B3 addr B1(7,8) by (simp add: hello_values response_values)
qed

section \<open>What the signed message leaves open\<close>

text \<open>
  The message that is signed names the signer and the challenge, but neither the other side nor the
  role. The proof in a greeting is therefore a valid answer to it: whoever sends it back is
  authenticated as the node itself.
\<close>

lemma reflection_run:
  assumes room: "can_connect N host port A" and keys: "signing_ok N A" and c: "length c = CHALLENGE_LEN"
    and alone: "not_connected_to (pn_address A) A"
    and A1: "A1 = connect N now wall c host port A" and i: "i = pn_next A"
    and A2: "A2 = deliver_to N now True i ''auth_response'' (reflected (sent_data A1 ''hello_auth'')) A1"
  shows "pr_authenticated (pn_peer A2 i) \<and> pr_remote_address (pn_peer A2 i) = pn_address A"
proof -
  have addr: "pn_address A = derive_address (net_env N) (pn_signing_pk A)" "length (pn_signing_pk A) = 1952"
    using keys by (auto simp: signing_ok_def signs_for_def)
  have ne: "c \<noteq> []" using c by (auto simp: CHALLENGE_LEN_def)
  obtain s where h: "sent_data A1 ''hello_auth'' = hello_fields N wall c s A"
      "verify_sig (net_env N) (pn_signing_pk A) (build_auth_message c (pn_address A)) s"
      "fresh_conn (pn_peer A1 i)" "pr_challenge (pn_peer A1 i) = c" "now \<le> pr_deadline (pn_peer A1 i)"
      "identity A1 = identity A" "\<forall>a. not_connected_to a A \<longrightarrow> not_connected_to a A1"
    using initiator_greets[OF room keys c A1 i] by blast
  let ?d = "reflected (hello_fields N wall c s A)"
  have vals: "resolve_peer_pubkey (dget_or ?d ''signing_pk'' (PStr [])) = Some (pn_signing_pk A)"
      "hex_data ?d ''challenge_sig'' = Some s" "hex_data ?d ''counter_challenge'' = Some c"
      "dget_or ?d ''protocol_version'' (PInt 1) = PInt PROTOCOL_VERSION"
    using addr(2) by (simp_all add: reflected_def hello_values resolve_peer_pubkey_def hex_data_def dget_or_Cons)
  have keys1: "signing_ok N A1" using keys signing_ok_identity[OF h(6)] by simp
  have alone1: "not_connected_to (derive_address (net_env N) (pn_signing_pk A)) A1"
    using alone h(7) addr(1) by simp
  have "pr_authenticated (pn_peer A2 i)" "pr_remote_address (pn_peer A2 i) = derive_address (net_env N) (pn_signing_pk A)"
    using initiator_answers[OF h(3,4) ne h(5) keys1 vals(1,2) h(2)[unfolded addr(1)] vals(3) c vals(4) alone1]
    unfolding A2 h(1) by blast+
  then show ?thesis using addr(1) by simp
qed

text \<open>
  And the answer of \<open>A\<close> to the attacker it connected to is the answer \<open>B\<close> waits for: the attacker ends
  with an authenticated, encrypted connection to \<open>B\<close> under the name of \<open>A\<close>, with a session key of its
  own choice, while \<open>A\<close> has it on record under its own name.
\<close>

lemma relay_run:
  assumes room: "can_connect N hostM portM A" "can_accept N now hostM' B"
    and keys: "signing_ok N A" "signing_ok N B" "signs_for N skM pkM" and kem: "encryption_ok N B"
    and random: "length c = CHALLENGE_LEN" "length cc = CHALLENGE_LEN"
    and alone: "not_connected_to (derive_address (net_env N) pkM) A" "not_connected_to (pn_address A) B"
    and sigM: "net_sign N skM (build_auth_message c (derive_address (net_env N) pkM)) = Some sigM"
    and ctM: "kem_encap (net_suite N) (pn_encryption_pk B) = Some (ctM, secret)"
    and run: "relay N now wall c cc hostM portM hostM' ident pkM sigM ctM A B = (A', B')"
    and ij: "i = pn_next A" "j = pn_next B"
  shows "(pr_authenticated (pn_peer B' j) \<and> pr_remote_address (pn_peer B' j) = pn_address A)
    \<and> (pr_encrypted (pn_peer B' j) \<and> pr_session_key (pn_peer B' j) = Some (derive_session_key N secret))
    \<and> (pr_authenticated (pn_peer A' i) \<and> pr_remote_address (pn_peer A' i) = derive_address (net_env N) pkM)"
proof -
  have addr: "pn_address A = derive_address (net_env N) (pn_signing_pk A)" "length (pn_signing_pk A) = 1952"
    using keys(1) by (auto simp: signing_ok_def signs_for_def)
  have ne: "c \<noteq> []" "cc \<noteq> []" using random by (auto simp: CHALLENGE_LEN_def)
  have M: "verify_sig (net_env N) pkM (build_auth_message c (derive_address (net_env N) pkM)) sigM" "length pkM = 1952"
  proof -
    show "length pkM = 1952" using keys(3) unfolding signs_for_def by simp
    then have "pkM \<noteq> []" by auto
    then show "verify_sig (net_env N) pkM (build_auth_message c (derive_address (net_env N) pkM)) sigM"
      using keys(3) sigM unfolding signs_for_def verify_sig_def by (metis option.inject)
  qed
  define A1 where "A1 = connect N now wall c hostM portM A"
  obtain s where A1: "sent_data A1 ''hello_auth'' = hello_fields N wall c s A"
      "check_hello N wall (hello_fields N wall c s A) = Some (PROTOCOL_VERSION, c, pn_signing_pk A)"
      "fresh_conn (pn_peer A1 i)" "pr_challenge (pn_peer A1 i) = c" "now \<le> pr_deadline (pn_peer A1 i)"
      "identity A1 = identity A" "\<forall>a. not_connected_to a A \<longrightarrow> not_connected_to a A1"
    using initiator_greets[OF room(1) keys(1) random(1) A1_def ij(1)] by blast
  define B1 where "B1 = greet N now wall cc hostM' ident (hello_fields N wall c s A) B"
  obtain sB where B1: "sent_data B1 ''auth_response'' = response_fields N sB cc B"
      "fresh_conn (pn_peer B1 j)" "pr_challenge (pn_peer B1 j) = cc" "now \<le> pr_deadline (pn_peer B1 j)"
      "pr_remote_pubkey (pn_peer B1 j) = pn_signing_pk A"
      "identity B1 = identity B" "\<forall>a. not_connected_to a B \<longrightarrow> not_connected_to a B1"
    using responder_replies[OF room(2) A1(2) keys(2) B1_def ij(2)] by blast
  let ?d = "relay_response pkM sigM (response_fields N sB cc B)"
  have vals: "resolve_peer_pubkey (dget_or ?d ''signing_pk'' (PStr [])) = Some pkM"
      "hex_data ?d ''challenge_sig'' = Some sigM" "hex_data ?d ''counter_challenge'' = Some cc"
      "dget_or ?d ''protocol_version'' (PInt 1) = PInt PROTOCOL_VERSION"
    using M(2) by (simp_all add: relay_response_def response_values resolve_peer_pubkey_def hex_data_def dget_or_Cons)
  define A2 where "A2 = deliver_to N now True i ''auth_response'' ?d A1"
  have keysA1: "signing_ok N A1" "pn_signing_pk A1 = pn_signing_pk A" "pn_address A1 = pn_address A"
    using keys(1) signing_ok_identity[OF A1(6)] identityD[OF A1(6)] by simp_all
  have aloneA: "not_connected_to (derive_address (net_env N) pkM) A1" using alone(1) A1(7) by simp
  obtain sA new where A2: "verify_sig (net_env N) (pn_signing_pk A) (build_auth_message cc (pn_address A)) sA"
      "pr_authenticated (pn_peer A2 i)" "pr_remote_address (pn_peer A2 i) = derive_address (net_env N) pkM"
      "pn_sent A2 = (pn_sent A1 @ [(i, ''auth_confirm'', [(''challenge_sig'', PStr (hex sA))])]) @ new"
      "\<forall>(j, t, e) \<in> set new. t = ''session_key''"
    using initiator_answers[OF A1(3,4) ne(1) A1(5) keysA1(1) vals(1,2) M(1) vals(3) random(2) vals(4) aloneA]
    unfolding A2_def[symmetric] keysA1(2,3) by blast
  have d3: "sent_data A2 ''auth_confirm'' = [(''challenge_sig'', PStr (hex sA))]"
    using A2(4,5) by (intro sent_data_last[where i = i and new = new]) auto
  define B2 where "B2 = deliver_to N now False j ''auth_confirm'' [(''challenge_sig'', PStr (hex sA))] B1"
  have addrA: "verify_sig (net_env N) (pn_signing_pk A) (build_auth_message cc (derive_address (net_env N) (pn_signing_pk A))) sA"
      "pn_signing_pk A \<noteq> []" "hex_data [(''challenge_sig'', PStr (hex sA))] ''challenge_sig'' = Some sA"
    using A2(1) addr by (auto simp: hex_data_def dget_or_def)
  have aloneB: "not_connected_to (derive_address (net_env N) (pn_signing_pk A)) B1"
    using alone(2) B1(7) addr(1) by simp
  have B2: "pr_authenticated (pn_peer B2 j)"
      "pr_remote_address (pn_peer B2 j) = derive_address (net_env N) (pn_signing_pk A)" "identity B2 = identity B1"
    using responder_confirms[OF B1(2,3) ne(2) B1(4,5) addrA(2,3,1) aloneB] unfolding B2_def by blast+
  have encB2: "has_encryption_keys B2" "pn_encryption_sk B2 = pn_encryption_sk B"
    using kem B2(3) B1(6) by (simp_all add: identity_def has_encryption_keys_def encryption_ok_def)
  have decap: "length ctM = 1088" "length (sb_buf (pn_encryption_sk B2)) = 2400"
      "kem_decap (net_suite N) (sb_buf (pn_encryption_sk B2)) ctM = Some secret"
    using kem ctM encB2(2) by (auto simp: encryption_ok_def)
  have field: "hex_data [(''ciphertext'', PStr (hex ctM))] ''ciphertext'' = Some ctM"
    by (simp add: hex_data_def dget_or_def)
  obtain B3 where B3: "deliver_to N now False j ''session_key'' [(''ciphertext'', PStr (hex ctM))] B2 = B3"
      "pr_encrypted (pn_peer B3 j)" "pr_session_key (pn_peer B3 j) = Some (derive_session_key N secret)"
      "pr_authenticated (pn_peer B3 j)" "pr_remote_address (pn_peer B3 j) = pr_remote_address (pn_peer B2 j)"
    using responder_session[OF B2(1) encB2(1) decap(2,1) field decap(3)] by blast
  have "relay N now wall c cc hostM portM hostM' ident pkM sigM ctM A B = (A2, B3)"
    unfolding relay_def Let_def ij[symmetric] A1_def[symmetric] A1(1) B1_def[symmetric] B1(1) A2_def[symmetric]
      d3 B2_def[symmetric] B3(1) by (rule refl)
  then have "A' = A2" "B' = B3" using run by simp_all
  then show ?thesis using A2(2,3) B2(2) B3 addr(1) by simp
qed

end
