(* ===== verification/P2PScenario.thy ===== *)
theory P2PScenario
  imports HandshakeRuns
begin

text \<open>
  Two nodes with keys of the right sizes and a third key pair, over a toy suite: a key is one byte
  repeated, a signature is the byte of the key that made it, the hash is the first byte, and a
  ciphertext carries no secret but the one it always opens to.
\<close>

definition toy_key :: "byte \<Rightarrow> nat \<Rightarrow> bytes" where
  "toy_key b n = replicate n b"

definition toy_env :: env where
  "toy_env = \<lparr>sha3 = take 1, mldsa_verify = \<lambda>pk m sig. sig = take 1 pk, mldsa_sign = \<lambda>sk m. take 1 sk,
              dyn_height = 0\<rparr>"

definition toy_suite :: suite where
  "toy_suite = \<lparr>scrypt = \<lambda>_ _ _ _ _. None, gcm_encrypt = \<lambda>_ _ m _. m, gcm_decrypt = \<lambda>_ _ ct _. Some ct,
                kem_encap = \<lambda>pk. Some (replicate 1088 0, [7]), kem_decap = \<lambda>sk ct. Some [7]\<rparr>"

definition toy_wire :: wire_lib where
  "toy_wire = \<lparr>has_msgpack = True, packb = \<lambda>v. [1], unpackb = \<lambda>raw. None, loads = \<lambda>raw. None,
               utf8_decode = \<lambda>raw. None\<rparr>"

definition toy_net :: net where
  "toy_net = \<lparr>net_env = toy_env, net_suite = toy_suite, net_wire = toy_wire,
              net_sign = \<lambda>sk m. Some (take 1 sk),
              net_ip = \<lambda>_. Some \<lparr>is_link_local = False, is_reserved = False, is_private = False, is_loopback = False\<rparr>,
              net_allow_private = False\<rparr>"

definition toy_node :: "byte \<Rightarrow> p2p_node" where
  "toy_node b =
     \<lparr>pn_id = ''node'', pn_host = ''0.0.0.0'', pn_port = 9000,
      pn_signing_sk = sb_wrap (toy_key b 4032), pn_signing_pk = toy_key b 1952,
      pn_address = derive_address toy_env (toy_key b 1952),
      pn_encryption_sk = sb_wrap (toy_key b 2400), pn_encryption_pk = toy_key b 1184,
      pn_validators = [], pn_peer = \<lambda>_. new_peer [] (PInt 0) False, pn_next = 0, pn_peers = [],
      pn_sent = [], pn_attempts = [], pn_limiter = mk_limiter 20 100, pn_reputation = new_reputation\<rparr>"

definition toy_challenge :: bytes where
  "toy_challenge = replicate 32 5"

lemma toy_start: "no_connections (toy_node b)"
  by (simp add: no_connections_def toy_node_def)

lemma toy_signs: "signs_for toy_net (toy_key b 4032) (toy_key b 1952)"
  by (simp add: signs_for_def toy_net_def toy_env_def toy_key_def)

lemma toy_address: "derive_address (net_env toy_net) (toy_key b 1952) = ADDRESS_PREFIX @ hex [b]"
  by (simp add: derive_address_def toy_net_def toy_env_def toy_key_def)

lemma toy_node_address: "pn_address (toy_node b) = ADDRESS_PREFIX @ hex [b]"
  by (simp add: toy_node_def derive_address_def toy_env_def toy_key_def)

lemma toy_signing: "signing_ok toy_net (toy_node b)"
proof -
  have "pn_address (toy_node b) \<noteq> []" by (simp add: toy_node_address ADDRESS_PREFIX_def)
  moreover have "pn_address (toy_node b) = derive_address (net_env toy_net) (pn_signing_pk (toy_node b))"
    by (simp add: toy_node_def toy_net_def)
  ultimately show ?thesis
    using toy_signs[of b]
    by (simp add: signing_ok_def has_signing_keys_def toy_node_def sb_true_def sb_len_def sb_wrap_def toy_key_def)
qed

lemma toy_encryption: "encryption_ok toy_net (toy_node b)"
  by (simp add: encryption_ok_def has_encryption_keys_def toy_node_def sb_true_def sb_len_def sb_wrap_def toy_key_def
      toy_net_def toy_suite_def)

lemma toy_alone: "not_connected_to a (toy_node b)"
  by (simp add: not_connected_to_def toy_node_def)

lemma toy_can_connect: "can_connect toy_net ''10.0.0.2'' 9000 (toy_node b)"
  by (simp add: can_connect_def toy_node_def MAX_PEERS_def is_safe_peer_def BLOCKED_PORTS_def is_safe_inbound_ip_def toy_net_def)

lemma toy_can_accept: "can_accept toy_net 0 ''10.0.0.1'' (toy_node b)"
  by (simp add: can_accept_def toy_node_def MAX_PEERS_def is_safe_inbound_ip_def toy_net_def is_banned_def
      new_reputation_def check_auth_rate_def is_localhost_def Let_def AUTH_RATE_MAX_def)

lemma toy_random: "length toy_challenge = CHALLENGE_LEN"
  by (simp add: toy_challenge_def CHALLENGE_LEN_def)

lemma toy_addresses_differ: "pn_address (toy_node 1) \<noteq> pn_address (toy_node 2)"
  by (simp add: toy_node_address) code_simp

section \<open>The runs\<close>

definition toy_exchange :: "p2p_node \<times> p2p_node" where
  "toy_exchange = exchange toy_net 0 0 toy_challenge toy_challenge ''10.0.0.2'' 9000 ''10.0.0.1'' 7 (toy_node 1) (toy_node 2)"

definition toy_relay :: "p2p_node \<times> p2p_node" where
  "toy_relay = relay toy_net 0 0 toy_challenge toy_challenge ''10.0.0.2'' 9000 ''10.0.0.1'' 7
     (toy_key 3 1952) [3] (replicate 1088 0) (toy_node 1) (toy_node 2)"

lemma toy_next: "pn_next (toy_node b) = 0"
  by (simp add: toy_node_def)

lemma toy_authenticated: "pr_authenticated (pn_peer (fst toy_exchange) 0)"
  using exchange_run[OF toy_can_connect toy_can_accept toy_signing toy_signing toy_encryption toy_encryption
      toy_random toy_random toy_alone toy_alone prod.collapse[symmetric] refl refl]
  unfolding toy_exchange_def toy_next by blast

lemma toy_run: "p2p_run toy_net (toy_node 1) (fst toy_exchange)"
proof -
  let ?A1 = "connect toy_net 0 0 toy_challenge ''10.0.0.2'' 9000 (toy_node 1)"
  obtain s where "mldsa_sign_key toy_net (pn_signing_sk (toy_node 1))
      (build_auth_message toy_challenge (pn_address (toy_node 1))) = Inr s"
    using sign_key_Inr[OF toy_signing] by blast
  note h = connect_hello[OF toy_can_connect toy_signing this refl refl]
  have i: "pr_is_initiator (pn_peer ?A1 0)" "0 < pn_next ?A1"
    using h(2)[where now = 0 and wall = 0] h(5)[where now = 0 and wall = 0] by (simp_all add: toy_next new_peer_def)
  have "p2p_step toy_net ?A1 (deliver_to toy_net 0 True 0 t d ?A1)" for t d
    using p2p_step.Receive[OF i(2), of toy_net 0] i(1) by simp
  then have "p2p_step toy_net ?A1 (fst toy_exchange)"
    by (simp add: toy_exchange_def exchange_def Let_def toy_next)
  then show ?thesis
    by (rule p2p_run.Step[OF p2p_run.Step[OF p2p_run.Start p2p_step.Connect[OF toy_random]]])
qed

section \<open>A codec\<close>

definition toy_message :: pyval where
  "toy_message = PDict [(''height'', PInt 5)]"

definition toy_codec :: wire_lib where
  "toy_codec = \<lparr>has_msgpack = True, packb = \<lambda>v. [1],
                unpackb = \<lambda>raw. Some (hex_to_bytes 0 (message ''status'' toy_message)), loads = \<lambda>raw. None,
                utf8_decode = \<lambda>raw. None\<rparr>"

lemma toy_encode: "\<exists>raw. codec_encode toy_codec ''msgpack'' ''status'' toy_message = Inr raw"
  by (simp add: codec_encode_def toy_codec_def MAX_FRAME_SIZE_def to_bytes4_def)

end
