(* ===== verification/NodeScenario.thy ===== *)
theory NodeScenario
  imports NodeProps ClientScenario P2PScenario
begin

text \<open>
  A full node over the demo chain and the toy suite: a world, a node that knows its genesis block and
  has one peer, RPC requests to it, and a run from its start.
\<close>

definition demo_net :: net where
  "demo_net = toy_net\<lparr>net_env := demo_env\<rparr>"

definition demo_world :: world where
  "demo_world =
     \<lparr>wd_net = demo_net, wd_time = 2000, wd_monotonic = 5, wd_nonce = (\<lambda>_. replicate 12 0),
      wd_challenge = (\<lambda>_. toy_challenge), wd_hex = ''0a'', wd_socket = (\<lambda>_. Delivered), wd_classify = (\<lambda>_. None),
      wd_limits = None, wd_keys = (replicate 4032 1, [1], replicate 2400 2, [3]), wd_units = (\<lambda>_. []),
      wd_enum = (\<lambda>_. [])\<rparr>"

definition demo_node :: fullnode where
  "demo_node =
     (new_fullnode ((toy_node 1)\<lparr>pn_peer := \<lambda>_. new_peer ''10.0.0.2'' (PInt 9000) False, pn_next := 1\<rparr>))
       \<lparr>fn_chain := demo_chain\<lparr>block_by_hash := [(zero_hash, 0)]\<rparr>, fn_wallets := [(alice, demo_wallet)]\<rparr>"

lemma demo_world_ok: "world_ok demo_net demo_world"
  by (simp add: world_ok_def demo_world_def toy_random)

lemma demo_world_env: "wd_env demo_world = demo_env"
  by (simp add: demo_world_def demo_net_def)

definition demo_offer :: pyval where
  "demo_offer = PDict [(''block'', PDict (block_to_dict demo_env (demo_block 0 [])))]"

lemma demo_offer_parsed: "parsed_item (block_from_dict demo_env) ''block'' demo_offer = Some (Inr (demo_block 0 []))"
proof -
  have "block_ok demo_env (demo_block 0 [])"
    by (simp add: block_ok_def demo_block_def txs_root_def merkle_root_def zero_hash_def demo_env_def)
  then show ?thesis by (simp add: demo_offer_def parsed_item_def block_from_dict_to_dict demo_block_def)
qed

lemma demo_node_fields:
  "fn_chain demo_node = demo_chain\<lparr>block_by_hash := [(zero_hash, 0)]\<rparr>" "peer_addr (pn_peer (fn_p2p demo_node) i) \<noteq> []"
  "score_of i demo_node = 100" "fn_wallets demo_node = [(alice, demo_wallet)]"
  by (simp_all add: demo_node_def new_fullnode_def score_of_def toy_node_def new_peer_def get_score_def dget_or_def
      new_reputation_def DEFAULT_SCORE_def peer_addr_def)

section \<open>Requests\<close>

definition demo_rpc :: "pyval \<Rightarrow> rpc_config" where
  "demo_rpc body = \<lparr>rc_token = ''secret'', rc_tls = False, rc_parse = (\<lambda>_. Some body)\<rparr>"

definition request :: "string \<Rightarrow> fields \<Rightarrow> pyval" where
  "request name params = PDict [(''id'', PInt 1), (''method'', PStr name), (''params'', PDict params)]"

lemmas post_defs = handle_post_def exec_request_def demo_rpc_def request_def call_method_def params_py_def
  bind_params_def reads_def sends_def dget_or_def unless_raise_def Let_def

lemma root_method: "dget (rpc_methods X) ''qv_getStateRoot'' = Some (reads [] (\<lambda>a. rpc_get_state_root X))"
  by (simp add: rpc_methods_def public_methods_def)

lemma new_wallet_method: "dget (rpc_methods X) ''qv_newWallet'' = Some (reads [] (\<lambda>a. rpc_new_wallet X))"
  by (simp add: rpc_methods_def public_methods_def protected_methods_def)

lemma demo_query: "\<exists>v T. handle_post (\<lambda>_. demo_world) (demo_rpc (request ''qv_getStateRoot'' [])) ''Bearer guess'' [] demo_node = Some (v, T)"
  by (simp add: post_defs root_method MAX_RPC_BODY_def hashable_def PROTECTED_METHODS_def TLS_REQUIRED_METHODS_def
      rpc_get_state_root_def split: prod.split)

lemma demo_token: "bearer_token ''Bearer guess'' = ''guess''" "bearer_token ''Bearer secret'' = ''secret''"
  by code_simp+

text \<open>A method that sends always answers.\<close>

lemma sends_answer: "\<exists>v T. submit_with X notify address test mf mp mk result S = Some (v, T)"
  by (auto simp: submit_with_def split: sum.split prod.split)

lemma register_key_method: "dget (rpc_methods X) ''qv_registerKey'' = Some (sends [] (\<lambda>a. rpc_register_key X (a ''wallet_address'')))"
  by (simp add: rpc_methods_def public_methods_def protected_methods_def)

definition demo_key_request :: pyval where
  "demo_key_request = request ''qv_registerKey'' [(''wallet_address'', PStr alice)]"

lemma secret_matches: "compare_digest ''secret'' ''secret'' = Inr True"
  by code_simp

lemma demo_key_post: "\<exists>r T. exec_request demo_world (demo_rpc demo_key_request) ''secret'' demo_key_request demo_node = Some (r, T)"
proof -
  have answers: "\<exists>ans T. call_method m rid (PDict ps) S = Some (ans, T)"
    if total: "\<forall>a. \<exists>v T. rm_code m a S = Some (v, T)" "set (dkeys ps) \<subseteq> set (dkeys (rm_params m))" for m rid ps S
  proof -
    obtain v T where "rm_code m (\<lambda>k. dget_or ps k (dget_or (rm_params m) k PNone)) S = Some (v, T)" using total by blast
    then show ?thesis using that(2) by (cases v) (auto simp: call_method_def params_py_def bind_params_def unless_raise_def)
  qed
  have "\<exists>ans T. call_method (sends [] (\<lambda>a. rpc_register_key demo_world (a ''wallet_address''))) (PInt 1)
      (PDict [(''wallet_address'', PStr alice)]) demo_node = Some (ans, T)"
    by (rule answers) (simp_all add: sends_def rpc_register_key_def sends_answer)
  then obtain ans T where "call_method (sends [] (\<lambda>a. rpc_register_key demo_world (a ''wallet_address''))) (PInt 1)
      (PDict [(''wallet_address'', PStr alice)]) demo_node = Some (ans, T)" by blast
  then show ?thesis
    by (simp add: exec_request_def demo_key_request_def request_def demo_rpc_def register_key_method dget_or_def Let_def
        hashable_def PROTECTED_METHODS_def TLS_REQUIRED_METHODS_def secret_matches)
qed

section \<open>A run\<close>

definition demo_started :: fullnode where
  "demo_started = snd (start_node demo_world [] None None [''10.0.0.2:9000''] (new_fullnode (toy_node 1)))"

lemma demo_start: "fullnode_step demo_net (new_fullnode (toy_node 1)) demo_started"
proof -
  have "start_node demo_world [] None None [''10.0.0.2:9000''] (new_fullnode (toy_node 1)) = (None, demo_started)"
    by (simp add: demo_started_def start_node_def Let_def)
  then show ?thesis by (rule fullnode_step.Start[OF demo_world_ok])
qed

lemma demo_started_hooks: "\<not> dmem k (hk_webhooks (fn_hooks demo_started))"
  by (simp add: demo_started_def start_node_def Let_def first_sync_def new_fullnode_def new_hooks_def dmem_def)

definition demo_stopped :: fullnode where
  "demo_stopped = stop_fullnode (demo_started\<lparr>fn_wallets := [(alice, demo_wallet)]\<rparr>)"

lemma demo_run: "fullnode_run demo_net (new_fullnode (toy_node 1)) demo_stopped"
proof -
  let ?body = "request ''qv_newWallet'' []"
  have w: "rpc_new_wallet demo_world demo_started
      = Some (Inr (wallet_info demo_wallet), demo_started\<lparr>fn_wallets := [(alice, demo_wallet)]\<rparr>)"
    by (simp add: rpc_new_wallet_def demo_world_def demo_net_def demo_wallet_def mk_wallet_def demo_address
        demo_started_def start_node_def new_fullnode_def Let_def first_sync_def)
  have "exec_request demo_world (demo_rpc ?body) ''secret'' ?body demo_started
      = Some (Inr (Result (PInt 1) (wallet_info demo_wallet)), demo_started\<lparr>fn_wallets := [(alice, demo_wallet)]\<rparr>)"
    by (simp add: exec_request_def request_def demo_rpc_def new_wallet_method dget_or_def Let_def call_method_def params_py_def
        bind_params_def unless_raise_def reads_def w hashable_def PROTECTED_METHODS_def TLS_REQUIRED_METHODS_def secret_matches)
  then have "fullnode_step demo_net demo_started (demo_started\<lparr>fn_wallets := [(alice, demo_wallet)]\<rparr>)"
    by (rule fullnode_step.Post[OF demo_world_ok demo_started_hooks])
  then show ?thesis
    unfolding demo_stopped_def
    using fullnode_run.Next[OF fullnode_run.Next[OF fullnode_run.Next[OF fullnode_run.Begin demo_start]] fullnode_step.Stop] by blast
qed

section \<open>A webhook\<close>

definition demo_hooks :: hooks where
  "demo_hooks = snd (register_hook (\<lambda>_. None) ''0a'' 5 (PStr ''https://a.example/x'') (PList [PStr ''Transfer''])
     (PStr ''k'') new_hooks)"

lemma demo_hooks_run: "hook_run (\<lambda>_. None) new_hooks demo_hooks"
  unfolding demo_hooks_def
  by (rule hook_run.Step[OF hook_run.Start hook_step.Register]) (simp add: new_hooks_def dmem_def)

lemma demo_hook_found: "(case dget (hk_webhooks demo_hooks) ''0a'' of None \<Rightarrow> False | Some w \<Rightarrow> wk_status w = Active)"
  by code_simp

section \<open>A REST request\<close>

definition demo_gateway :: rest_config where
  "demo_gateway = \<lparr>rs_token = ''secret'', rs_cors = []\<rparr>"

definition demo_rest_query :: rest_request where
  "demo_rest_query =
     \<lparr>rq_method = ''GET'', rq_route = Some ''/api/v1/state-root'', rq_missed = 404, rq_match = [], rq_query = [],
      rq_auth = ''Bearer guess'', rq_body = None\<rparr>"

lemma demo_rest_route: "route_path demo_rest_query = Some ''/state-root''" "route_method demo_rest_query = ''GET''"
    "rq_method demo_rest_query = ''GET''"
  by (simp_all add: route_path_def route_method_def demo_rest_query_def starts_with_def)

lemma demo_rest_token: "rest_check_auth (rs_token demo_gateway) (rq_auth demo_rest_query) \<noteq> Inr True"
  by (simp add: rest_check_auth_def demo_gateway_def demo_rest_query_def starts_with_def) code_simp

lemma root_route: "dget (rest_routes X t) (''GET'', ''/state-root'') = Some (\<lambda>rq. rest_state_root X)"
  by (simp add: rest_routes_def public_routes_def on_get_def on_post_def)

lemma root_route_public: "''/state-root'' \<in> set PUBLIC_ROUTES"
  by (simp add: PUBLIC_ROUTES_def)

lemma demo_rest_answer: "\<exists>r T. rest_serve demo_world demo_gateway demo_rest_query demo_node = Some (r, T)"
  by (simp add: rest_serve_def cors_middleware_def auth_middleware_def rest_handler_def demo_rest_route root_route
      root_route_public demo_gateway_def rest_state_root_def shielded_def finish_def
      rpc_get_state_root_def split: prod.split)

end
