(* ===== verification/Store.thy ===== *)
theory Store
  imports Receipts
begin

text \<open>
  \<open>core/store.py\<close>: the SQLite database of a node. A table with a primary key is a dict from the key to
  the other columns, any other table a list of rows, both in the order of insertion; the one
  connection sees \<open>st_now\<close>, which holds what it wrote since the last commit, and \<open>st_saved\<close> is what a
  rollback returns to. An integer outside 64 bits cannot be bound (\<open>Too_large\<close>); a row that breaks a
  PRIMARY KEY or UNIQUE constraint is refused (\<open>Integrity\<close>). A query without ORDER BY returns its rows
  in an order SQLite does not promise: the argument \<open>scan\<close>. Locks, threads and files are left out.
\<close>

section \<open>Tables\<close>

datatype db_error = Too_large | Integrity

record block_row =
  br_idx :: int
  br_hash :: string
  br_data :: string

record tx_row =
  tr_block :: int
  tr_index :: int
  tr_sender :: string
  tr_recipient :: string
  tr_type :: string
  tr_nonce :: int

record revoked_row =
  rk_tx_id :: string
  rk_timestamp :: int
  rk_reason :: string

record receipt_row =
  rr_status :: string
  rr_fee_paid :: int
  rr_block :: int
  rr_index :: int
  rr_events :: string

record event_row =
  er_block :: int
  er_tx :: string
  er_type :: string
  er_data :: string

record tables =
  tb_blocks :: "block_row list"
  tb_txs :: "(string, tx_row) dict"
  tb_notarizations :: "(string \<times> string, bool) dict"
  tb_keys :: "(string \<times> int, string) dict"
  tb_validators :: "(string, string) dict"
  tb_revoked :: "(string \<times> string, revoked_row) dict"
  tb_stakes :: "(string \<times> string, int) dict"
  tb_unbonding :: "(int \<times> unbond) list"
  tb_unbond_seq :: int
  tb_epochs :: "(int, int \<times> string) dict"
  tb_slashing :: "slash_event list"
  tb_balances :: "(string, int) dict"
  tb_supply :: "(string, int) dict"
  tb_receipts :: "(string, receipt_row) dict"
  tb_events :: "event_row list"
  tb_tokens :: "(string, token_info) dict"
  tb_token_balances :: "(string \<times> string, int) dict"
  tb_block_events :: "(int \<times> string) list"

definition no_tables :: tables where
  "no_tables = \<lparr>tb_blocks = [], tb_txs = [], tb_notarizations = [], tb_keys = [], tb_validators = [],
     tb_revoked = [], tb_stakes = [], tb_unbonding = [], tb_unbond_seq = 0, tb_epochs = [], tb_slashing = [],
     tb_balances = [], tb_supply = [], tb_receipts = [], tb_events = [], tb_tokens = [], tb_token_balances = [],
     tb_block_events = []\<rparr>"

record store =
  st_now :: tables
  st_saved :: tables
  st_height :: int

text \<open>\<open>SQLiteStore(data_dir)\<close> on the tables a database file holds: the height is \<open>MAX(idx)\<close>.\<close>

definition max_idx :: "tables \<Rightarrow> int" where
  "max_idx t = (if tb_blocks t = [] then - 1 else Max (br_idx ` set (tb_blocks t)))"

definition open_store :: "tables \<Rightarrow> store" where
  "open_store t = \<lparr>st_now = t, st_saved = t, st_height = max_idx t\<rparr>"

section \<open>Statements\<close>

type_synonym stmt = "tables \<Rightarrow> db_error + tables"

definition fits64 :: "int \<Rightarrow> bool" where
  "fits64 i \<longleftrightarrow> - (2 ^ 63) \<le> i \<and> i < 2 ^ 63"

text \<open>A statement with the integers it binds.\<close>

definition bound :: "int list \<Rightarrow> stmt \<Rightarrow> stmt" where
  "bound ns q t = (if list_all fits64 ns then q t else Inl Too_large)"

fun run_stmts :: "stmt list \<Rightarrow> stmt" where
  "run_stmts [] t = Inr t"
| "run_stmts (q # qs) t = (case q t of Inl e \<Rightarrow> Inl e | Inr u \<Rightarrow> run_stmts qs u)"

text \<open>INSERT OR REPLACE and INSERT OR IGNORE on a primary key.\<close>

definition replace_row :: "'k \<Rightarrow> 'v \<Rightarrow> ('k, 'v) dict \<Rightarrow> ('k, 'v) dict" where
  "replace_row k v d = dpop d k @ [(k, v)]"

definition add_row :: "'k \<Rightarrow> 'v \<Rightarrow> ('k, 'v) dict \<Rightarrow> ('k, 'v) dict" where
  "add_row k v d = (if dmem k d then d else d @ [(k, v)])"

text \<open>\<open>try: ...; commit() except: rollback(); raise\<close>.\<close>

definition in_transaction :: "stmt \<Rightarrow> store \<Rightarrow> db_error option \<times> store" where
  "in_transaction q st =
     (case q (st_now st) of
        Inl e \<Rightarrow> (Some e, st\<lparr>st_now := st_saved st\<rparr>)
      | Inr t \<Rightarrow> (None, st\<lparr>st_now := t, st_saved := t\<rparr>))"

text \<open>One statement, committed at once if \<open>commit\<close> holds; a refused statement changes nothing.\<close>

definition execute :: "bool \<Rightarrow> stmt \<Rightarrow> store \<Rightarrow> db_error option \<times> store" where
  "execute commit q st =
     (case q (st_now st) of
        Inl e \<Rightarrow> (Some e, st)
      | Inr t \<Rightarrow> (None, st\<lparr>st_now := t, st_saved := (if commit then t else st_saved st)\<rparr>))"

definition db_commit :: "store \<Rightarrow> store" where
  "db_commit st = st\<lparr>st_saved := st_now st\<rparr>"

section \<open>Blocks\<close>

text \<open>\<open>json.dumps(block.to_dict(), separators=...)\<close>.\<close>

definition block_text :: "env \<Rightarrow> block \<Rightarrow> string" where
  "block_text E b = json_raw (PDict (block_to_dict E b))"

definition insert_block :: "env \<Rightarrow> int \<Rightarrow> block \<Rightarrow> stmt" where
  "insert_block E idx b =
     bound [idx] (\<lambda>t.
       if \<exists>r \<in> set (tb_blocks t). br_idx r = idx \<or> br_hash r = block_hash E b then Inl Integrity
       else Inr (t\<lparr>tb_blocks := tb_blocks t @ [\<lparr>br_idx = idx, br_hash = block_hash E b, br_data = block_text E b\<rparr>]\<rparr>))"

definition insert_tx :: "env \<Rightarrow> int \<Rightarrow> int \<Rightarrow> transaction \<Rightarrow> stmt" where
  "insert_tx E idx tx_idx tx =
     bound [idx, tx_idx, tx_nonce tx] (\<lambda>t.
       Inr (t\<lparr>tb_txs := add_row (tx_id E tx)
         \<lparr>tr_block = idx, tr_index = tx_idx, tr_sender = tx_sender tx, tr_recipient = tx_recipient tx,
          tr_type = type_value (tx_type tx), tr_nonce = tx_nonce tx\<rparr> (tb_txs t)\<rparr>))"

definition insert_notarization :: "env \<Rightarrow> transaction \<Rightarrow> stmt" where
  "insert_notarization E tx t =
     (let dh = str_field tx ''documentHash'';
          first = (\<forall>((doc, i), is_first) \<in> set (tb_notarizations t). \<not> (doc = dh \<and> is_first))
      in Inr (if dh = [] then t else t\<lparr>tb_notarizations := add_row (dh, tx_id E tx) first (tb_notarizations t)\<rparr>))"

definition insert_key :: "transaction \<Rightarrow> stmt" where
  "insert_key tx t =
     (let epk = str_field tx ''encryption_pk'';
          seq = int (length (filter (\<lambda>((a, n), k). a = tx_sender tx) (tb_keys t)))
      in Inr (if epk = [] then t else t\<lparr>tb_keys := add_row (tx_sender tx, seq) epk (tb_keys t)\<rparr>))"

definition insert_tx_rows :: "env \<Rightarrow> int \<Rightarrow> nat \<times> transaction \<Rightarrow> stmt list" where
  "insert_tx_rows E idx itx =
     [insert_tx E idx (int (fst itx)) (snd itx)]
     @ (if tx_type (snd itx) = NOTARIZE then [insert_notarization E (snd itx)]
        else if tx_type (snd itx) = REGISTER_KEY then [insert_key (snd itx)] else [])"

definition append_rows :: "env \<Rightarrow> int \<Rightarrow> block \<Rightarrow> stmt list" where
  "append_rows E idx b = insert_block E idx b # concat (map (insert_tx_rows E idx) (enumerate 0 (b_txs b)))"

definition db_append_block :: "env \<Rightarrow> block \<Rightarrow> store \<Rightarrow> db_error option \<times> store" where
  "db_append_block E b st =
     (let idx = st_height st + 1
      in case in_transaction (run_stmts (append_rows E idx b)) st of
           (Some e, u) \<Rightarrow> (Some e, u)
         | (None, u) \<Rightarrow> (None, u\<lparr>st_height := idx\<rparr>))"

text \<open>UPDATE of the row of a block that was signed again.\<close>

definition db_update_block :: "env \<Rightarrow> block \<Rightarrow> store \<Rightarrow> db_error option \<times> store" where
  "db_update_block E b = execute True (bound [b_index b] (\<lambda>t.
     if (\<exists>r \<in> set (tb_blocks t). br_idx r = b_index b)
        \<and> (\<exists>r \<in> set (tb_blocks t). br_idx r \<noteq> b_index b \<and> br_hash r = block_hash E b)
     then Inl Integrity
     else Inr (t\<lparr>tb_blocks := map (\<lambda>r. if br_idx r = b_index b
                then r\<lparr>br_hash := block_hash E b, br_data := block_text E b\<rparr> else r) (tb_blocks t)\<rparr>)))"

section \<open>Queries on blocks and transactions\<close>

text \<open>
  \<open>Block.from_dict(json.loads(data))\<close>, for the text the store wrote; \<open>loads\<close> is \<open>json.loads\<close>. \<open>None\<close>: text
  that is no JSON object, or a block outside the model.
\<close>

type_synonym json_reader = "string \<Rightarrow> pyval option"

definition read_block :: "env \<Rightarrow> json_reader \<Rightarrow> string \<Rightarrow> (exn + block) option" where
  "read_block E loads data = (case loads data of Some (PDict d) \<Rightarrow> block_from_dict E d | _ \<Rightarrow> None)"

text \<open>The row of a block, and what \<open>get_block\<close> makes of it: \<open>Inr None\<close> when there is none.\<close>

definition opt_block :: "env \<Rightarrow> json_reader \<Rightarrow> block_row option \<Rightarrow> (exn + block option) option" where
  "opt_block E loads row =
     (case row of
        None \<Rightarrow> Some (Inr None)
      | Some r \<Rightarrow> map_option (map_sum id Some) (read_block E loads (br_data r)))"

definition row_at :: "int \<Rightarrow> tables \<Rightarrow> block_row option" where
  "row_at i t = find (\<lambda>r. br_idx r = i) (tb_blocks t)"

definition db_get_block :: "env \<Rightarrow> json_reader \<Rightarrow> int \<Rightarrow> store \<Rightarrow> (exn + block option) option" where
  "db_get_block E loads i st =
     (if fits64 i then opt_block E loads (row_at i (st_now st)) else Some (Inl OverflowError))"

definition db_get_block_by_hash :: "env \<Rightarrow> json_reader \<Rightarrow> string \<Rightarrow> store \<Rightarrow> (exn + block option) option" where
  "db_get_block_by_hash E loads h st = opt_block E loads (find (\<lambda>r. br_hash r = h) (tb_blocks (st_now st)))"

definition db_get_tx :: "env \<Rightarrow> json_reader \<Rightarrow> string \<Rightarrow> store \<Rightarrow> (exn + transaction option) option" where
  "db_get_tx E loads i st =
     (case dget (tb_txs (st_now st)) i of
        None \<Rightarrow> Some (Inr None)
      | Some r \<Rightarrow>
          map_option (map_sum id (\<lambda>found. case found of
            None \<Rightarrow> None
          | Some b \<Rightarrow> if tr_index r < int (length (b_txs b)) then Some (b_txs b ! nat (tr_index r)) else None))
            (db_get_block E loads (tr_block r) st))"

definition db_get_tx_block :: "string \<Rightarrow> store \<Rightarrow> int option" where
  "db_get_tx_block i st = map_option tr_block (dget (tb_txs (st_now st)) i)"

definition tx_rows :: "(tx_row \<Rightarrow> bool) \<Rightarrow> store \<Rightarrow> (string \<times> tx_row) list" where
  "tx_rows P st = filter (\<lambda>(i, r). P r) (tb_txs (st_now st))"

definition db_get_nonce :: "string \<Rightarrow> store \<Rightarrow> int" where
  "db_get_nonce a st =
     (let ns = map (tr_nonce \<circ> snd) (tx_rows (\<lambda>r. tr_sender r = a) st) in if ns = [] then 0 else Max (set ns) + 1)"

definition db_get_notarization :: "string \<Rightarrow> store \<Rightarrow> string option" where
  "db_get_notarization dh st =
     map_option (snd \<circ> fst) (find (\<lambda>((doc, i), first). doc = dh \<and> first) (tb_notarizations (st_now st)))"

definition db_get_all_notarizations :: "(string list \<Rightarrow> string list) \<Rightarrow> string \<Rightarrow> store \<Rightarrow> string list" where
  "db_get_all_notarizations scan dh st =
     scan (map (snd \<circ> fst) (filter (\<lambda>((doc, i), first). doc = dh) (tb_notarizations (st_now st))))"

definition db_get_encryption_pk :: "string \<Rightarrow> store \<Rightarrow> string option" where
  "db_get_encryption_pk a st =
     (let rows = sort_key (\<lambda>((b, seq), k). - seq) (filter (\<lambda>((b, seq), k). b = a) (tb_keys (st_now st)))
      in case rows of [] \<Rightarrow> None | r # _ \<Rightarrow> Some (snd r))"

definition db_get_txs_by_sender :: "((string \<times> tx_row) list \<Rightarrow> (string \<times> tx_row) list) \<Rightarrow> string \<Rightarrow> store \<Rightarrow> string list" where
  "db_get_txs_by_sender scan a st = map fst (sort_key (tr_nonce \<circ> snd) (scan (tx_rows (\<lambda>r. tr_sender r = a) st)))"

definition db_get_txs_by_sender_count :: "string \<Rightarrow> store \<Rightarrow> int" where
  "db_get_txs_by_sender_count a st = int (length (tx_rows (\<lambda>r. tr_sender r = a) st))"

definition sql_page :: "int \<Rightarrow> int \<Rightarrow> 'r list \<Rightarrow> 'r list" where
  "sql_page offset lm rows =
     (let rest = drop (nat offset) rows in if lm < 0 then rest else take (nat lm) rest)"

definition db_get_txs_by_sender_page ::
  "((string \<times> tx_row) list \<Rightarrow> (string \<times> tx_row) list) \<Rightarrow> string \<Rightarrow> int \<Rightarrow> int \<Rightarrow> store \<Rightarrow> string list" where
  "db_get_txs_by_sender_page scan a offset lm st = sql_page offset lm (db_get_txs_by_sender scan a st)"

definition db_get_txs_by_recipient :: "((string \<times> tx_row) list \<Rightarrow> (string \<times> tx_row) list) \<Rightarrow> string \<Rightarrow> store \<Rightarrow> string list" where
  "db_get_txs_by_recipient scan a st =
     map fst (sort_key (tr_block \<circ> snd) (sort_key (tr_index \<circ> snd) (scan (tx_rows (\<lambda>r. tr_recipient r = a) st))))"

definition db_get_txs_by_recipient_count :: "string \<Rightarrow> store \<Rightarrow> int" where
  "db_get_txs_by_recipient_count a st = int (length (tx_rows (\<lambda>r. tr_recipient r = a) st))"

definition db_block_hash_exists :: "string \<Rightarrow> store \<Rightarrow> bool" where
  "db_block_hash_exists h st \<longleftrightarrow> (\<exists>r \<in> set (tb_blocks (st_now st)). br_hash r = h)"

definition db_tx_exists :: "string \<Rightarrow> store \<Rightarrow> bool" where
  "db_tx_exists i st \<longleftrightarrow> dmem i (tb_txs (st_now st))"

definition rows_between :: "int \<Rightarrow> int \<Rightarrow> tables \<Rightarrow> block_row list" where
  "rows_between lo hi t = sort_key br_idx (filter (\<lambda>r. lo \<le> br_idx r \<and> br_idx r < hi) (tb_blocks t))"

fun read_all :: "env \<Rightarrow> json_reader \<Rightarrow> string list \<Rightarrow> (exn + block list) option" where
  "read_all E loads [] = Some (Inr [])"
| "read_all E loads (d # ds) =
     (case read_block E loads d of
        None \<Rightarrow> None
      | Some (Inl e) \<Rightarrow> Some (Inl e)
      | Some (Inr b) \<Rightarrow> map_option (map_sum id ((#) b)) (read_all E loads ds))"

definition db_get_blocks_range :: "env \<Rightarrow> json_reader \<Rightarrow> int \<Rightarrow> int \<Rightarrow> store \<Rightarrow> (exn + block list) option" where
  "db_get_blocks_range E loads lo hi st =
     (if fits64 lo \<and> fits64 hi then read_all E loads (map br_data (rows_between lo hi (st_now st)))
      else Some (Inl OverflowError))"

definition db_get_blocks_count :: "store \<Rightarrow> int" where
  "db_get_blocks_count st = (if st_height st \<ge> 0 then st_height st + 1 else 0)"

definition db_latest_block :: "env \<Rightarrow> json_reader \<Rightarrow> store \<Rightarrow> (exn + block option) option" where
  "db_latest_block E loads st = (if st_height st \<ge> 0 then db_get_block E loads (st_height st) st else Some (Inr None))"

end
