(* ===== verification/StoreState.thy ===== *)
theory StoreState
  imports Store Finality
begin

text \<open>
  \<open>core/store.py\<close>, the other tables: validators, stakes, unbondings, revocations, epochs, slashing,
  balances, supply, tokens, receipts and events; pruning and the deletion of blocks.
\<close>

section \<open>Registries\<close>

definition put_validator :: "string \<Rightarrow> string \<Rightarrow> bool \<Rightarrow> store \<Rightarrow> db_error option \<times> store" where
  "put_validator a pk commit =
     execute commit (\<lambda>t. Inr (t\<lparr>tb_validators := replace_row a pk (tb_validators t)\<rparr>))"

definition db_get_validator :: "string \<Rightarrow> store \<Rightarrow> string option" where
  "db_get_validator a st = dget (tb_validators (st_now st)) a"

definition db_get_all_validators :: "((string \<times> string) list \<Rightarrow> (string \<times> string) list) \<Rightarrow> store \<Rightarrow> (string \<times> string) list" where
  "db_get_all_validators scan st = scan (tb_validators (st_now st))"

definition delete_validator :: "string \<Rightarrow> bool \<Rightarrow> store \<Rightarrow> db_error option \<times> store" where
  "delete_validator a commit = execute commit (\<lambda>t. Inr (t\<lparr>tb_validators := dpop (tb_validators t) a\<rparr>))"

definition put_stake :: "string \<Rightarrow> string \<Rightarrow> int \<Rightarrow> bool \<Rightarrow> store \<Rightarrow> db_error option \<times> store" where
  "put_stake staker v n commit =
     execute commit (bound [n] (\<lambda>t. Inr (t\<lparr>tb_stakes := replace_row (staker, v) n (tb_stakes t)\<rparr>)))"

definition db_get_stake :: "string \<Rightarrow> string \<Rightarrow> store \<Rightarrow> int" where
  "db_get_stake staker v st = dget_or (tb_stakes (st_now st)) (staker, v) 0"

definition delete_stake :: "string \<Rightarrow> string \<Rightarrow> bool \<Rightarrow> store \<Rightarrow> db_error option \<times> store" where
  "delete_stake staker v commit = execute commit (\<lambda>t. Inr (t\<lparr>tb_stakes := dpop (tb_stakes t) (staker, v)\<rparr>))"

type_synonym stake_rows = "((string \<times> string) \<times> int) list"

definition db_get_all_stakes :: "(stake_rows \<Rightarrow> stake_rows) \<Rightarrow> store \<Rightarrow> stake_rows" where
  "db_get_all_stakes scan st = scan (tb_stakes (st_now st))"

definition put_unbonding :: "unbond \<Rightarrow> bool \<Rightarrow> store \<Rightarrow> db_error option \<times> store" where
  "put_unbonding u commit =
     execute commit (bound [ub_amount u, ub_release u] (\<lambda>t.
       Inr (t\<lparr>tb_unbonding := tb_unbonding t @ [(tb_unbond_seq t + 1, u)], tb_unbond_seq := tb_unbond_seq t + 1\<rparr>)))"

definition db_get_mature_unbondings :: "((int \<times> unbond) list \<Rightarrow> (int \<times> unbond) list) \<Rightarrow> int \<Rightarrow> store \<Rightarrow> (int \<times> unbond) list" where
  "db_get_mature_unbondings scan n st = scan (filter (\<lambda>(i, u). ub_release u \<le> n) (tb_unbonding (st_now st)))"

definition delete_unbonding :: "unbond \<Rightarrow> bool \<Rightarrow> store \<Rightarrow> db_error option \<times> store" where
  "delete_unbonding u commit =
     execute commit (bound [ub_amount u, ub_release u] (\<lambda>t. Inr (t\<lparr>tb_unbonding := filter (\<lambda>(i, v). v \<noteq> u) (tb_unbonding t)\<rparr>)))"

definition delete_unbondings_from_block :: "int \<Rightarrow> bool \<Rightarrow> store \<Rightarrow> db_error option \<times> store" where
  "delete_unbondings_from_block n commit =
     execute commit (bound [n] (\<lambda>t. Inr (t\<lparr>tb_unbonding := filter (\<lambda>(i, u). \<not> ub_release u \<ge> n) (tb_unbonding t)\<rparr>)))"

definition put_revocation :: "string \<Rightarrow> string \<Rightarrow> revoked_row \<Rightarrow> bool \<Rightarrow> store \<Rightarrow> db_error option \<times> store" where
  "put_revocation a key_type r commit =
     execute commit (bound [rk_timestamp r] (\<lambda>t. Inr (t\<lparr>tb_revoked := replace_row (a, key_type) r (tb_revoked t)\<rparr>)))"

definition db_get_revocation :: "string \<Rightarrow> string \<Rightarrow> store \<Rightarrow> revoked_row option" where
  "db_get_revocation a key_type st = dget (tb_revoked (st_now st)) (a, key_type)"

definition delete_revocation :: "string \<Rightarrow> string \<Rightarrow> bool \<Rightarrow> store \<Rightarrow> db_error option \<times> store" where
  "delete_revocation a key_type commit = execute commit (\<lambda>t. Inr (t\<lparr>tb_revoked := dpop (tb_revoked t) (a, key_type)\<rparr>))"

type_synonym revoked_rows = "((string \<times> string) \<times> revoked_row) list"

definition db_get_all_revocations :: "(revoked_rows \<Rightarrow> revoked_rows) \<Rightarrow> store \<Rightarrow> revoked_rows" where
  "db_get_all_revocations scan st = scan (tb_revoked (st_now st))"

definition put_epoch :: "int \<Rightarrow> int \<Rightarrow> string \<Rightarrow> bool \<Rightarrow> store \<Rightarrow> db_error option \<times> store" where
  "put_epoch n start vs commit =
     execute commit (bound [n, start] (\<lambda>t. Inr (t\<lparr>tb_epochs := replace_row n (start, vs) (tb_epochs t)\<rparr>)))"

definition db_get_epoch :: "int \<Rightarrow> store \<Rightarrow> exn + (int \<times> string) option" where
  "db_get_epoch n st = (if fits64 n then Inr (dget (tb_epochs (st_now st)) n) else Inl OverflowError)"

definition delete_epochs_from :: "int \<Rightarrow> bool \<Rightarrow> store \<Rightarrow> db_error option \<times> store" where
  "delete_epochs_from n commit =
     execute commit (bound [n] (\<lambda>t. Inr (t\<lparr>tb_epochs := filter (\<lambda>(k, e). \<not> k \<ge> n) (tb_epochs t)\<rparr>)))"

definition db_get_all_epochs :: "store \<Rightarrow> (int \<times> int \<times> string) list" where
  "db_get_all_epochs st = sort_key fst (tb_epochs (st_now st))"

definition put_slashing_event :: "slash_event \<Rightarrow> bool \<Rightarrow> store \<Rightarrow> db_error option \<times> store" where
  "put_slashing_event e commit =
     execute commit (bound [se_amount e, se_block e] (\<lambda>t. Inr (t\<lparr>tb_slashing := tb_slashing t @ [e]\<rparr>)))"

definition db_get_slashing_events :: "(slash_event list \<Rightarrow> slash_event list) \<Rightarrow> string \<Rightarrow> store \<Rightarrow> slash_event list" where
  "db_get_slashing_events scan v st =
     sort_key se_block (scan (filter (\<lambda>e. v = [] \<or> se_validator e = v) (tb_slashing (st_now st))))"

definition delete_slashing_events_from_block :: "int \<Rightarrow> bool \<Rightarrow> store \<Rightarrow> db_error option \<times> store" where
  "delete_slashing_events_from_block n commit =
     execute commit (bound [n] (\<lambda>t. Inr (t\<lparr>tb_slashing := filter (\<lambda>e. \<not> se_block e \<ge> n) (tb_slashing t)\<rparr>)))"

section \<open>Balances and supply\<close>

definition put_balance :: "string \<Rightarrow> int \<Rightarrow> bool \<Rightarrow> store \<Rightarrow> db_error option \<times> store" where
  "put_balance a n commit = execute commit (bound [n] (\<lambda>t. Inr (t\<lparr>tb_balances := replace_row a n (tb_balances t)\<rparr>)))"

definition db_get_balance :: "string \<Rightarrow> store \<Rightarrow> int" where
  "db_get_balance a st = dget_or (tb_balances (st_now st)) a 0"

definition db_get_all_balances :: "((string \<times> int) list \<Rightarrow> (string \<times> int) list) \<Rightarrow> store \<Rightarrow> (string \<times> int) list" where
  "db_get_all_balances scan st = scan (tb_balances (st_now st))"

definition put_supply :: "string \<Rightarrow> int \<Rightarrow> bool \<Rightarrow> store \<Rightarrow> db_error option \<times> store" where
  "put_supply k n commit = execute commit (bound [n] (\<lambda>t. Inr (t\<lparr>tb_supply := replace_row k n (tb_supply t)\<rparr>)))"

definition db_get_supply :: "string \<Rightarrow> store \<Rightarrow> int" where
  "db_get_supply k st = dget_or (tb_supply (st_now st)) k 0"

section \<open>Tokens\<close>

text \<open>The symbol is UNIQUE: a replacement also removes the token that has it.\<close>

definition put_token :: "string \<Rightarrow> token_info \<Rightarrow> bool \<Rightarrow> store \<Rightarrow> db_error option \<times> store" where
  "put_token i k commit =
     execute commit (bound [tk_decimals k, tk_max_supply k, tk_minted k, tk_created_block k] (\<lambda>t.
       Inr (t\<lparr>tb_tokens := replace_row i k (filter (\<lambda>(j, m). tk_symbol m \<noteq> tk_symbol k) (tb_tokens t))\<rparr>)))"

definition db_get_token :: "string \<Rightarrow> store \<Rightarrow> token_info option" where
  "db_get_token i st = dget (tb_tokens (st_now st)) i"

definition db_get_all_tokens :: "((string \<times> token_info) list \<Rightarrow> (string \<times> token_info) list) \<Rightarrow> store \<Rightarrow> (string \<times> token_info) list" where
  "db_get_all_tokens scan st = scan (tb_tokens (st_now st))"

definition delete_token :: "string \<Rightarrow> bool \<Rightarrow> store \<Rightarrow> db_error option \<times> store" where
  "delete_token i commit =
     execute commit (\<lambda>t. Inr (t\<lparr>tb_tokens := dpop (tb_tokens t) i,
       tb_token_balances := filter (\<lambda>((j, a), n). j \<noteq> i) (tb_token_balances t)\<rparr>))"

definition put_token_balance :: "string \<Rightarrow> string \<Rightarrow> int \<Rightarrow> bool \<Rightarrow> store \<Rightarrow> db_error option \<times> store" where
  "put_token_balance i a n commit =
     execute commit
       (if n \<le> 0 then (\<lambda>t. Inr (t\<lparr>tb_token_balances := dpop (tb_token_balances t) (i, a)\<rparr>))
        else bound [n] (\<lambda>t. Inr (t\<lparr>tb_token_balances := replace_row (i, a) n (tb_token_balances t)\<rparr>)))"

definition db_get_token_balance :: "string \<Rightarrow> string \<Rightarrow> store \<Rightarrow> int" where
  "db_get_token_balance i a st = dget_or (tb_token_balances (st_now st)) (i, a) 0"

definition holder_rows :: "string \<Rightarrow> store \<Rightarrow> (string \<times> int) list" where
  "holder_rows i st =
     map (\<lambda>((j, a), n). (a, n)) (filter (\<lambda>((j, a), n). j = i \<and> n > 0) (tb_token_balances (st_now st)))"

definition db_get_token_holders :: "((string \<times> int) list \<Rightarrow> (string \<times> int) list) \<Rightarrow> string \<Rightarrow> store \<Rightarrow> (string \<times> int) list" where
  "db_get_token_holders scan i st = scan (holder_rows i st)"

definition db_get_token_holders_page :: "string \<Rightarrow> int \<Rightarrow> int \<Rightarrow> store \<Rightarrow> (string \<times> int) list \<times> int" where
  "db_get_token_holders_page i page lm st =
     (sql_page ((page - 1) * lm) lm (sort_key (\<lambda>(a, n). (- n, a)) (holder_rows i st)), int (length (holder_rows i st)))"

definition db_get_address_tokens :: "((string \<times> int) list \<Rightarrow> (string \<times> int) list) \<Rightarrow> string \<Rightarrow> store \<Rightarrow> (string \<times> int) list" where
  "db_get_address_tokens scan a st =
     scan (map (\<lambda>((j, b), n). (j, n)) (filter (\<lambda>((j, b), n). b = a \<and> n > 0) (tb_token_balances (st_now st))))"

section \<open>Receipts and events\<close>

definition insert_receipt :: "receipt \<Rightarrow> stmt" where
  "insert_receipt r =
     bound [rc_fee_paid r, rc_block_index r, rc_tx_index r] (\<lambda>t.
       Inr (t\<lparr>tb_receipts := replace_row (rc_tx_id r)
         \<lparr>rr_status = rc_status r, rr_fee_paid = rc_fee_paid r, rr_block = rc_block_index r, rr_index = rc_tx_index r,
          rr_events = json_raw (PList (map PDict (rc_events r)))\<rparr> (tb_receipts t)\<rparr>))"

definition insert_event :: "receipt \<Rightarrow> event \<Rightarrow> stmt" where
  "insert_event r ev =
     (if event_type_of ev = [] then Inr
      else bound [rc_block_index r] (\<lambda>t.
        Inr (t\<lparr>tb_events := tb_events t @ [\<lparr>er_block = rc_block_index r, er_tx = rc_tx_id r, er_type = event_type_of ev,
               er_data = json_raw (PDict ev)\<rparr>]\<rparr>)))"

text \<open>\<open>put_receipt\<close>: an error rolls back everything since the last commit.\<close>

definition put_receipt :: "receipt \<Rightarrow> bool \<Rightarrow> store \<Rightarrow> db_error option \<times> store" where
  "put_receipt r commit st =
     (case run_stmts (insert_receipt r # map (insert_event r) (rc_events r)) (st_now st) of
        Inl e \<Rightarrow> (Some e, st\<lparr>st_now := st_saved st\<rparr>)
      | Inr t \<Rightarrow> (None, st\<lparr>st_now := t, st_saved := (if commit then t else st_saved st)\<rparr>))"

text \<open>\<open>TransactionReceipt(...)\<close> of a row; \<open>None\<close> for events that are no list of JSON objects.\<close>

definition read_receipt :: "json_reader \<Rightarrow> string \<times> receipt_row \<Rightarrow> (exn + receipt) option" where
  "read_receipt loads row =
     (case loads (rr_events (snd row)) of
        Some (PList evs) \<Rightarrow>
          if list_all is_dict evs
          then Some (mk_receipt (fst row) (rr_status (snd row)) (rr_fee_paid (snd row)) (rr_block (snd row))
                 (rr_index (snd row)) (map dict_of_py evs))
          else None
      | _ \<Rightarrow> None)"

definition db_get_receipt :: "json_reader \<Rightarrow> string \<Rightarrow> store \<Rightarrow> (exn + receipt option) option" where
  "db_get_receipt loads i st =
     (case dget (tb_receipts (st_now st)) i of
        None \<Rightarrow> Some (Inr None)
      | Some r \<Rightarrow> map_option (map_sum id Some) (read_receipt loads (i, r)))"

fun read_receipts :: "json_reader \<Rightarrow> (string \<times> receipt_row) list \<Rightarrow> (exn + receipt list) option" where
  "read_receipts loads [] = Some (Inr [])"
| "read_receipts loads (row # rows) =
     (case read_receipt loads row of
        None \<Rightarrow> None
      | Some (Inl e) \<Rightarrow> Some (Inl e)
      | Some (Inr r) \<Rightarrow> map_option (map_sum id ((#) r)) (read_receipts loads rows))"

definition receipt_rows_of :: "int \<Rightarrow> tables \<Rightarrow> (string \<times> receipt_row) list" where
  "receipt_rows_of n t = sort_key (rr_index \<circ> snd) (filter (\<lambda>(i, r). rr_block r = n) (tb_receipts t))"

definition db_get_receipts_for_block :: "json_reader \<Rightarrow> int \<Rightarrow> store \<Rightarrow> (exn + receipt list) option" where
  "db_get_receipts_for_block loads n st = read_receipts loads (receipt_rows_of n (st_now st))"

definition delete_receipts_for_block :: "int \<Rightarrow> bool \<Rightarrow> store \<Rightarrow> db_error option \<times> store" where
  "delete_receipts_for_block n commit =
     execute commit (bound [n] (\<lambda>t. Inr (t\<lparr>tb_events := filter (\<lambda>e. \<not> er_block e \<ge> n) (tb_events t),
       tb_receipts := filter (\<lambda>(i, r). \<not> rr_block r \<ge> n) (tb_receipts t),
       tb_block_events := filter (\<lambda>(k, e). \<not> k \<ge> n) (tb_block_events t)\<rparr>)))"

text \<open>The table has no key, so INSERT OR REPLACE adds a row beside an earlier one of the block.\<close>

definition put_block_level_events :: "int \<Rightarrow> event list \<Rightarrow> bool \<Rightarrow> store \<Rightarrow> db_error option \<times> store" where
  "put_block_level_events n evs commit st =
     (if evs = [] then (None, st)
      else execute commit (bound [n] (\<lambda>t.
        Inr (t\<lparr>tb_block_events := tb_block_events t @ [(n, json_raw (PList (map PDict evs)))]\<rparr>))) st)"

definition db_get_block_level_events ::
  "((int \<times> string) list \<Rightarrow> (int \<times> string) list) \<Rightarrow> json_reader \<Rightarrow> int \<Rightarrow> store \<Rightarrow> pyval option" where
  "db_get_block_level_events scan loads n st =
     (case scan (filter (\<lambda>(k, e). k = n) (tb_block_events (st_now st))) of
        [] \<Rightarrow> Some (PList [])
      | (k, e) # rows \<Rightarrow> loads e)"

definition db_query_events :: "string \<Rightarrow> int option \<Rightarrow> int \<Rightarrow> store \<Rightarrow> event_row list" where
  "db_query_events ty at_block lm st =
     take (nat (min (max lm 1) 100))
       (rev (filter (\<lambda>e. (ty = [] \<or> er_type e = ty) \<and> (at_block = None \<or> Some (er_block e) = at_block)) (tb_events (st_now st))))"

section \<open>Pruning\<close>

definition prune_rows :: "int \<Rightarrow> stmt" where
  "prune_rows n t =
     Inr (t\<lparr>tb_txs := filter (\<lambda>(i, r). \<not> tr_block r < n) (tb_txs t), tb_blocks := filter (\<lambda>r. \<not> br_idx r < n) (tb_blocks t)\<rparr>)"

text \<open>The number of blocks that went.\<close>

definition prune_blocks :: "int \<Rightarrow> store \<Rightarrow> (db_error + int) \<times> store" where
  "prune_blocks n st =
     (let count = int (length (filter (\<lambda>r. br_idx r < n) (tb_blocks (st_now st))))
      in if n \<le> 0 then (Inr 0, st)
         else if \<not> fits64 n then (Inl Too_large, st\<lparr>st_now := st_saved st\<rparr>)
         else if count = 0 then (Inr 0, st)
         else (Inr count, snd (in_transaction (prune_rows n) st)))"

section \<open>Deleting blocks\<close>

text \<open>The transactions in the text of a row, as JSON objects, and what the deletion reads of them.\<close>

type_synonym json_obj = "(string \<times> pyval) list"

definition row_txs :: "json_reader \<Rightarrow> block_row \<Rightarrow> json_obj list" where
  "row_txs loads r =
     (case loads (br_data r) of
        Some (PDict d) \<Rightarrow> map dict_of_py (list_of_py (dget_or d ''transactions'' (PList [])))
      | _ \<Rightarrow> [])"

definition str_at :: "json_obj \<Rightarrow> string \<Rightarrow> string" where
  "str_at d k = str_of_py (dget_or d k (PStr []))"

definition payload_at :: "json_obj \<Rightarrow> json_obj" where
  "payload_at d = dict_of_py (dget_or d ''payload'' (PDict []))"

definition gone_validators :: "json_obj list \<Rightarrow> string list" where
  "gone_validators txs =
     filter (\<lambda>v. v \<noteq> []) (map (\<lambda>d. str_at (payload_at d) ''validator_address'')
       (filter (\<lambda>d. str_at d ''type'' = ''REGISTER_VALIDATOR'') txs))"

definition gone_revocations :: "json_obj list \<Rightarrow> (string \<times> string) list" where
  "gone_revocations txs =
     filter (\<lambda>(a, k). a \<noteq> [] \<and> k \<noteq> []) (map (\<lambda>d. (str_at d ''from'', str_at (payload_at d) ''key_type''))
       (filter (\<lambda>d. str_at d ''type'' = ''REVOKE_KEY'') txs))"

text \<open>The stakes, recomputed from the transactions that remain; every EVIDENCE slashes again.\<close>

definition slashed_amount :: "int \<Rightarrow> int" where
  "slashed_amount current =
     (let reduction = current * SLASH_PERCENTAGE div 100
      in max 0 (current - (if reduction \<le> 0 \<and> current > 0 then 1 else reduction)))"

definition replay_stake :: "json_obj \<Rightarrow> (string \<times> string, int) dict \<Rightarrow> (string \<times> string, int) dict" where
  "replay_stake d acc =
     (let ty = str_at d ''type''; v = str_at (payload_at d) ''validator_address'';
          amt = int_of_py (dget_or (payload_at d) ''amount'' (PInt 0)); key = (str_at d ''from'', v)
      in if ty \<in> {''STAKE'', ''DELEGATE''}
         then (if v \<noteq> [] \<and> amt > 0 then dset acc key (dget_or acc key 0 + amt) else acc)
         else if ty = ''UNSTAKE''
         then (if v \<noteq> [] \<and> amt > 0 then dset acc key (max 0 (dget_or acc key 0 - amt)) else acc)
         else if ty = ''EVIDENCE'' \<and> v \<noteq> []
         then map (\<lambda>((staker, w), n). ((staker, w), if w = v then slashed_amount n else n)) acc
         else acc)"

definition key_text :: "string \<times> int \<Rightarrow> string" where
  "key_text k = fst k @ '':'' @ int_str (snd k)"

definition kept_epochs :: "int \<Rightarrow> (int, int \<times> string) dict \<Rightarrow> (int, int \<times> string) dict" where
  "kept_epochs n es =
     (if n > 0
      then filter (\<lambda>(k, e). if n mod EPOCH_LENGTH = 0 then \<not> k \<ge> n div EPOCH_LENGTH else \<not> k > n div EPOCH_LENGTH) es
      else [])"

text \<open>
  \<open>_delete_blocks_from_inner\<close>, in the order of its statements: blocks and what hangs on them, registries,
  stakes, epochs and slashing, then all balances, the supply and all token balances.
\<close>

definition drop_blocks :: "json_reader \<Rightarrow> int \<Rightarrow> tables \<Rightarrow> tables" where
  "drop_blocks loads n t =
     (let gone = concat (map (row_txs loads) (sort_key br_idx (filter (\<lambda>r. br_idx r \<ge> n) (tb_blocks t))));
          txs = filter (\<lambda>(i, r). \<not> tr_block r \<ge> n) (tb_txs t);
          held = map (\<lambda>(k, p). key_text k) (filter (\<lambda>((a, q), p). \<exists>(i, r) \<in> set txs. tr_sender r = a) (tb_keys t))
      in t\<lparr>tb_receipts := filter (\<lambda>(i, r). \<not> rr_block r \<ge> n) (tb_receipts t),
           tb_events := filter (\<lambda>e. \<not> er_block e \<ge> n) (tb_events t),
           tb_txs := txs,
           tb_notarizations := filter (\<lambda>((doc, i), first). dmem i txs) (tb_notarizations t),
           tb_keys := filter (\<lambda>(k, p). key_text k \<in> set held) (tb_keys t),
           tb_blocks := filter (\<lambda>r. \<not> br_idx r \<ge> n) (tb_blocks t),
           tb_validators := fold (\<lambda>v d. dpop d v) (gone_validators gone) (tb_validators t),
           tb_revoked := fold (\<lambda>k d. dpop d k) (gone_revocations gone) (tb_revoked t)\<rparr>)"

definition rebuilt_stakes :: "json_reader \<Rightarrow> int \<Rightarrow> tables \<Rightarrow> (string \<times> string, int) dict" where
  "rebuilt_stakes loads n t =
     filter (\<lambda>(k, amount). amount > 0)
       (fold replay_stake (concat (map (row_txs loads) (sort_key br_idx (filter (\<lambda>r. br_idx r < n) (tb_blocks t))))) [])"

definition delete_rows :: "json_reader \<Rightarrow> int \<Rightarrow> stmt" where
  "delete_rows loads n =
     bound [n] (\<lambda>t.
       let u = drop_blocks loads n t; held = rebuilt_stakes loads n u
       in if \<not> list_all (\<lambda>(k, amount). fits64 amount) held then Inl Too_large
          else Inr (u\<lparr>tb_stakes := held, tb_unbonding := [],
            tb_epochs := kept_epochs n (tb_epochs u),
            tb_slashing := filter (\<lambda>e. \<not> se_block e \<ge> n) (tb_slashing u),
            tb_balances := [], tb_supply := [],
            tb_tokens := map (\<lambda>(i, k). (i, k\<lparr>tk_minted := 0\<rparr>)) (filter (\<lambda>(i, k). \<not> tk_created_block k \<ge> n) (tb_tokens u)),
            tb_token_balances := []\<rparr>))"

definition delete_blocks_from :: "json_reader \<Rightarrow> int \<Rightarrow> store \<Rightarrow> db_error option \<times> store" where
  "delete_blocks_from loads n st =
     (case in_transaction (delete_rows loads n) st of
        (Some e, u) \<Rightarrow> (Some e, u)
      | (None, u) \<Rightarrow> (None, u\<lparr>st_height := max_idx (st_now u)\<rparr>))"

end
