(* ===== verification/Persist.thy ===== *)
theory Persist
  imports StoreState Node
begin

text \<open>
  \<open>core/persistence.py\<close> and the migration of \<open>core/store.py\<close>: a chain loaded from its database, and from
  the older file \<open>chain.json\<close>. A chain with a database keeps no list of blocks, so \<open>chain_list\<close> stays
  empty in a loaded state. \<open>json_reader\<close> is \<open>json.loads\<close>; \<open>None\<close> stands for text the store did not write.
\<close>

section \<open>Checking blocks while loading\<close>

datatype load_result = Loaded | Refused | Raised exn | Db_failed db_error

definition bad_tx :: "string \<Rightarrow> env \<Rightarrow> block \<Rightarrow> transaction \<Rightarrow> exn" where
  "bad_tx prefix E b tx =
     ve (prefix @ '' #{} contains tx with invalid signature: {}...'') [PInt (b_index b), PStr (take 16 (tx_id E tx))]"

text \<open>Validators met so far, after the registrations and revocations of a block.\<close>

fun track_validators :: "transaction list \<Rightarrow> (string, bytes) dict \<Rightarrow> exn + (string, bytes) dict" where
  "track_validators [] vs = Inr vs"
| "track_validators (tx # txs) vs =
     (let pk = str_field tx ''validator_pubkey''; v = str_field tx ''validator_address''
      in if tx_type tx = REGISTER_VALIDATOR \<and> pk \<noteq> [] \<and> v \<noteq> []
         then (case fromhex pk of
                 None \<Rightarrow> Inl (ve ''non-hexadecimal number found in fromhex() arg'' [])
               | Some k \<Rightarrow> track_validators txs (dset vs v k))
         else if tx_type tx = REVOKE_KEY \<and> str_field tx ''key_type'' = ''validator''
         then track_validators txs (dpop vs (tx_sender tx))
         else track_validators txs vs)"

text \<open>A block signed by a validator that is not known passes with a warning.\<close>

definition check_loaded :: "string \<Rightarrow> env \<Rightarrow> (string, bytes) dict \<Rightarrow> block \<Rightarrow> exn + (string, bytes) dict" where
  "check_loaded prefix E vs b =
     (case find (\<lambda>tx. \<not> tx_verify E tx) (b_txs b) of
        Some tx \<Rightarrow> Inl (bad_tx prefix E b tx)
      | None \<Rightarrow>
          unless_raise (b_validator b \<noteq> [] \<and> dget_or vs (b_validator b) [] \<noteq> []
                \<and> \<not> verify_signature E b (dget_or vs (b_validator b) []))
            (ve (prefix @ '' #{} has invalid validator signature'') [PInt (b_index b)])
            (track_validators (b_txs b) vs))"

section \<open>Indices\<close>

definition load_validator :: "transaction \<Rightarrow> ('a registry_scheme) act" where
  "load_validator tx s =
     (let pk = str_field tx ''validator_pubkey''; v = str_field tx ''validator_address''
      in if pk = [] \<or> v = [] then (None, s)
         else
           (case fromhex pk of
              None \<Rightarrow> (Some (ve ''non-hexadecimal number found in fromhex() arg'' []), s)
            | Some k \<Rightarrow>
                (None, set_commission tx v (add_validator v k
                   (s\<lparr>validator_registry := dset (validator_registry s) v k\<rparr>)))))"

text \<open>\<open>th\<close> is the height of the store: an unbonding due by then is not kept.\<close>

definition load_unstake :: "int \<Rightarrow> int \<Rightarrow> transaction \<Rightarrow> 'a staking_scheme \<Rightarrow> 'a staking_scheme" where
  "load_unstake th i tx s =
     (if i + UNBONDING_PERIOD > th then apply_unstake i tx s else (apply_unstake i tx s)\<lparr>unbonding := unbonding s\<rparr>)"

definition load_effect :: "env \<Rightarrow> int \<Rightarrow> int \<Rightarrow> transaction \<Rightarrow> ('a staking_scheme) act" where
  "load_effect E th i tx =
     (case tx_type tx of
        NOTARIZE \<Rightarrow> pure (apply_notarize E tx)
      | REGISTER_KEY \<Rightarrow> pure (apply_register_key tx)
      | REGISTER_VALIDATOR \<Rightarrow> load_validator tx
      | REVOKE_KEY \<Rightarrow> pure (apply_revocation E tx)
      | STAKE \<Rightarrow> pure (apply_stake tx)
      | DELEGATE \<Rightarrow> pure (apply_stake tx)
      | UNSTAKE \<Rightarrow> pure (load_unstake th i tx)
      | _ \<Rightarrow> pass)"

definition load_tx :: "env \<Rightarrow> int \<Rightarrow> int \<Rightarrow> nat \<times> transaction \<Rightarrow> ('a staking_scheme) act" where
  "load_tx E th i itx = run_all [pure (index_tx E i (int (fst itx)) (snd itx)), load_effect E th i (snd itx)]"

definition load_tip :: "env \<Rightarrow> int \<Rightarrow> block \<Rightarrow> 'a registry_scheme \<Rightarrow> 'a registry_scheme" where
  "load_tip E i b s =
     s\<lparr>height := i, latest_block := Some b, block_by_hash := dset (block_by_hash s) (block_hash E b) i\<rparr>"

definition load_block :: "env \<Rightarrow> int \<Rightarrow> int \<Rightarrow> block \<Rightarrow> ('a staking_scheme) act" where
  "load_block E th i b = run_all (pure (load_tip E i b) # map (load_tx E th i) (enumerate 0 (b_txs b)))"

text \<open>The loop over the blocks; \<open>Refused\<close> is the answer False, with what was loaded so far.\<close>

fun load_blocks ::
  "env \<Rightarrow> json_reader \<Rightarrow> bool \<Rightarrow> store \<Rightarrow> int list \<Rightarrow> string \<Rightarrow> (string, bytes) dict \<Rightarrow> 'a staking_scheme
    \<Rightarrow> (load_result \<times> 'a staking_scheme) option" where
  "load_blocks E loads verify st [] prev vs s = Some (Loaded, s)"
| "load_blocks E loads verify st (i # is) prev vs s =
     (case db_get_block E loads i st of
        None \<Rightarrow> None
      | Some (Inl e) \<Rightarrow> Some (Raised e, s)
      | Some (Inr None) \<Rightarrow> Some (Refused, s)
      | Some (Inr (Some b)) \<Rightarrow>
          if (if i = 0 then b_index b \<noteq> 0 else b_prev_hash b \<noteq> prev) then Some (Refused, s)
          else
            (case (if verify then check_loaded ''SQLite block'' E vs b else Inr vs) of
               Inl e \<Rightarrow> Some (Raised e, s)
             | Inr vs' \<Rightarrow>
                 (case load_block E (st_height st) i b s of
                    (Some e, t) \<Rightarrow> Some (Raised e, t)
                  | (None, t) \<Rightarrow> load_blocks E loads verify st is (block_hash E b) vs' t)))"

section \<open>Tables\<close>

text \<open>The orders of the rows that queries without ORDER BY return.\<close>

record scans =
  sc_validators :: "(string \<times> string) list \<Rightarrow> (string \<times> string) list"
  sc_stakes :: "stake_rows \<Rightarrow> stake_rows"
  sc_slashing :: "slash_event list \<Rightarrow> slash_event list"
  sc_balances :: "(string \<times> int) list \<Rightarrow> (string \<times> int) list"
  sc_tokens :: "(string \<times> token_info) list \<Rightarrow> (string \<times> token_info) list"
  sc_holders :: "(string \<times> int) list \<Rightarrow> (string \<times> int) list"

definition restore_validator :: "string \<times> string \<Rightarrow> ('a registry_scheme) act" where
  "restore_validator row s =
     (if dmem (fst row) (validator_registry s) then (None, s)
      else
        (case fromhex (snd row) of
           None \<Rightarrow> (Some (ve ''non-hexadecimal number found in fromhex() arg'' []), s)
         | Some k \<Rightarrow> (None, add_validator (fst row) k (s\<lparr>validator_registry := dset (validator_registry s) (fst row) k\<rparr>))))"

definition restore_stake :: "(string \<times> string) \<times> int \<Rightarrow> 'a staking_scheme \<Rightarrow> 'a staking_scheme" where
  "restore_stake row s =
     (case row of ((staker, v), n) \<Rightarrow>
        s\<lparr>stakes := dset (stakes s) v (dset (dget_or (stakes s) v []) staker n),
          total_stake := dset (total_stake s) v (dget_or (total_stake s) v 0 + n)\<rparr>)"

definition restore_stakes :: "stake_rows \<Rightarrow> 'a staking_scheme \<Rightarrow> 'a staking_scheme" where
  "restore_stakes rows s = fold restore_stake rows (s\<lparr>stakes := [], total_stake := []\<rparr>)"

text \<open>\<open>[(v[0], v[1]) for v in json.loads(validators_json)]\<close>.\<close>

fun epoch_pairs :: "pyval list \<Rightarrow> (string \<times> int) list option" where
  "epoch_pairs [] = Some []"
| "epoch_pairs (PList (PStr a # PInt n # rest) # vs) = map_option ((#) (a, n)) (epoch_pairs vs)"
| "epoch_pairs (v # vs) = None"

fun restore_epochs :: "json_reader \<Rightarrow> (int \<times> int \<times> string) list \<Rightarrow> 'a staking_scheme \<Rightarrow> 'a staking_scheme option" where
  "restore_epochs loads [] s = Some s"
| "restore_epochs loads ((n, start, text) # rows) s =
     (case Option.bind (loads text) (\<lambda>v. if is_list v then epoch_pairs (list_of_py v) else None) of
        None \<Rightarrow> None
      | Some vals \<Rightarrow>
          restore_epochs loads rows
            (let t = s\<lparr>epochs := dset (epochs s) n vals\<rparr>
             in if n \<ge> current_epoch t then t\<lparr>current_epoch := n, epoch_validators := vals\<rparr> else t))"

definition restore_slashing :: "slash_event \<Rightarrow> 'a staking_scheme \<Rightarrow> 'a staking_scheme" where
  "restore_slashing e s =
     s\<lparr>slashing_events := slashing_events s @ [e], slashed_validators := insert (se_validator e) (slashed_validators s),
       processed_evidence := insert (se_validator e) (processed_evidence s)\<rparr>"

definition reconcile_slashed :: "string \<Rightarrow> 'a staking_scheme \<Rightarrow> 'a staking_scheme" where
  "reconcile_slashed v s =
     (let remaining = dget_or (total_stake s) v 0
      in if remaining < MIN_STAKE
         then (remove_validator v s)\<lparr>epoch_validators := filter (\<lambda>(a, n). a \<noteq> v) (epoch_validators s)\<rparr>
         else s\<lparr>epoch_validators := map (\<lambda>(a, n). if a = v then (a, remaining) else (a, n)) (epoch_validators s)\<rparr>)"

definition restore_balances :: "scans \<Rightarrow> store \<Rightarrow> 'a ledger_scheme \<Rightarrow> 'a ledger_scheme" where
  "restore_balances sc st s =
     (let t = s\<lparr>balances := fold (\<lambda>(a, n) d. dset d a n) (db_get_all_balances (sc_balances sc) st) (balances s),
                total_minted := db_get_supply ''total_minted'' st, total_burned := db_get_supply ''total_burned'' st\<rparr>
      in if total_minted t > 0 then t\<lparr>financial_active := True\<rparr> else t)"

definition restore_receipt :: "int \<Rightarrow> receipt \<Rightarrow> 'a receipts_scheme \<Rightarrow> 'a receipts_scheme" where
  "restore_receipt i r s =
     s\<lparr>receipt_map := dset (receipt_map s) (rc_tx_id r) r,
       events_by_type := fold (\<lambda>ev d. if event_type_of ev \<noteq> [] then dappend d (event_type_of ev) (rc_tx_id r) else d)
                           (rc_events r) (events_by_type s),
       events_by_block := dappend (events_by_block s) i (rc_tx_id r)\<rparr>"

fun restore_receipts :: "json_reader \<Rightarrow> store \<Rightarrow> int list \<Rightarrow> 'a receipts_scheme \<Rightarrow> (load_result \<times> 'a receipts_scheme) option" where
  "restore_receipts loads st [] s = Some (Loaded, s)"
| "restore_receipts loads st (i # is) s =
     (case db_get_receipts_for_block loads i st of
        None \<Rightarrow> None
      | Some (Inl e) \<Rightarrow> Some (Raised e, s)
      | Some (Inr rs) \<Rightarrow> restore_receipts loads st is (fold (restore_receipt i) rs s))"

definition restore_token :: "scans \<Rightarrow> store \<Rightarrow> string \<times> token_info \<Rightarrow> 'a tokens_scheme \<Rightarrow> 'a tokens_scheme" where
  "restore_token sc st row s =
     fold (\<lambda>(a, n) t. update_token_index (fst row) a n (t\<lparr>token_balances := dset (token_balances t) (fst row, a) n\<rparr>))
       (db_get_token_holders (sc_holders sc) (fst row) st)
       (s\<lparr>token_registry := dset (token_registry s) (fst row) (snd row),
          token_by_symbol := dset (token_by_symbol s) (tk_symbol (snd row)) (fst row)\<rparr>)"

definition restore_staking :: "json_reader \<Rightarrow> scans \<Rightarrow> store \<Rightarrow> 'a staking_scheme \<Rightarrow> (exn option \<times> 'a staking_scheme) option" where
  "restore_staking loads sc st s =
     (case run_all (map restore_validator (db_get_all_validators (sc_validators sc) st)) s of
        (Some e, t) \<Rightarrow> Some (Some e, t)
      | (None, t) \<Rightarrow>
          map_option (\<lambda>u.
              let w = fold restore_slashing (db_get_slashing_events (sc_slashing sc) [] st) u
              in (None, fold reconcile_slashed (sorted_list_of_set (slashed_validators w)) w))
            (restore_epochs loads (db_get_all_epochs st) (restore_stakes (db_get_all_stakes (sc_stakes sc) st) t)))"

definition root_mismatch :: "env \<Rightarrow> block \<Rightarrow> string \<Rightarrow> int \<Rightarrow> exn" where
  "root_mismatch E b computed h =
     ve (''SQLite state integrity check failed: state root mismatch (computed {}... vs block #{} stored {}...). ''
         @ ''Database may be tampered or corrupted.'')
       [PStr (take 16 computed), PInt h, PStr (take 16 (b_state_root b))]"

text \<open>The trie rebuilt from what was loaded must have the root the last block names.\<close>

definition check_root :: "env \<Rightarrow> 'a chain_scheme \<Rightarrow> load_result \<times> 'a chain_scheme" where
  "check_root E s =
     (case rebuild_state_trie s of
        (Some e, t) \<Rightarrow> (Raised e, t)
      | (None, t) \<Rightarrow>
          (case latest_block t of
             None \<Rightarrow> (Loaded, t)
           | Some b \<Rightarrow>
               if b_state_root b = [] then (Loaded, t)
               else (let (computed, u) = state_root E t
                     in if computed \<noteq> b_state_root b then (Raised (root_mismatch E b computed (height u)), u)
                        else (Loaded, u))))"

definition load_tables :: "env \<Rightarrow> json_reader \<Rightarrow> scans \<Rightarrow> store \<Rightarrow> 'a chain_scheme \<Rightarrow> (load_result \<times> 'a chain_scheme) option" where
  "load_tables E loads sc st s =
     (case restore_staking loads sc st s of
        None \<Rightarrow> None
      | Some (Some e, t) \<Rightarrow> Some (Raised e, t)
      | Some (None, t) \<Rightarrow>
          (case restore_receipts loads st [0..st_height st] (restore_balances sc st t) of
             None \<Rightarrow> None
           | Some (Loaded, u) \<Rightarrow>
               Some (check_root E (fold (restore_token sc st) (db_get_all_tokens (sc_tokens sc) st) u))
           | Some (r, u) \<Rightarrow> Some (r, u)))"

definition load_from_sqlite ::
  "env \<Rightarrow> json_reader \<Rightarrow> scans \<Rightarrow> bool \<Rightarrow> tables \<Rightarrow> 'a chain_scheme \<Rightarrow> (load_result \<times> 'a chain_scheme) option" where
  "load_from_sqlite E loads sc verify db s =
     (let st = open_store db
      in if st_height st < 0 then Some (Refused, s)
         else
           (case load_blocks E loads verify st [0..st_height st] [] (if verify then poa_validators s else []) s of
              None \<Rightarrow> None
            | Some (Loaded, t) \<Rightarrow> load_tables E loads sc st t
            | Some (r, t) \<Rightarrow> Some (r, t)))"

section \<open>Files\<close>

text \<open>The two files of a data directory: \<open>chain.json\<close> and the database.\<close>

record data_files =
  df_json :: "string option"
  df_db :: "tables option"

text \<open>\<open>Blockchain(data_dir)\<close>: opening the store creates the database.\<close>

definition open_blockchain :: "string \<Rightarrow> data_files \<Rightarrow> chain \<times> data_files" where
  "open_blockchain data_dir files =
     (new_chain, if data_dir = [] \<or> df_db files \<noteq> None then files else files\<lparr>df_db := Some no_tables\<rparr>)"

datatype migrate_result = Migrated | Skipped | Bad_block exn | Bad_row db_error

text \<open>The blocks of \<open>chain.json\<close> written one by one; what was written before an error stays.\<close>

fun migrate_blocks :: "env \<Rightarrow> pyval list \<Rightarrow> store \<Rightarrow> (migrate_result \<times> store) option" where
  "migrate_blocks E [] st = Some (Migrated, st)"
| "migrate_blocks E (PDict d # vs) st =
     (case block_from_dict E d of
        None \<Rightarrow> None
      | Some (Inl e) \<Rightarrow> Some (Bad_block e, st)
      | Some (Inr b) \<Rightarrow>
          (case db_append_block E b st of
             (Some e, u) \<Rightarrow> Some (Bad_row e, u)
           | (None, u) \<Rightarrow> migrate_blocks E vs u))"
| "migrate_blocks E (v # vs) st = None"

definition migrate_json_to_sqlite :: "env \<Rightarrow> json_reader \<Rightarrow> data_files \<Rightarrow> (migrate_result \<times> data_files) option" where
  "migrate_json_to_sqlite E loads files =
     (if df_json files = None \<or> df_db files \<noteq> None then Some (Skipped, files)
      else
        (case loads (the (df_json files)) of
           Some (PList (v # vs)) \<Rightarrow>
             (case migrate_blocks E (v # vs) (open_store no_tables) of
                None \<Rightarrow> None
              | Some (Migrated, st) \<Rightarrow> Some (Migrated, files\<lparr>df_json := None, df_db := Some (st_saved st)\<rparr>)
              | Some (r, st) \<Rightarrow> Some (r, files\<lparr>df_db := Some (st_saved st)\<rparr>))
         | _ \<Rightarrow> Some (Skipped, files)))"

text \<open>The blocks of \<open>chain.json\<close>, all checked before the first is appended.\<close>

definition json_link :: "block list \<Rightarrow> block \<Rightarrow> outcome list" where
  "json_link before b =
     (if before = []
      then [raise_if (b_index b \<noteq> 0) (ve ''Genesis block has wrong index: {}'' [PInt (b_index b)])]
      else [])"

definition json_parent :: "env \<Rightarrow> block list \<Rightarrow> block \<Rightarrow> outcome list" where
  "json_parent E before b =
     (if before = [] then []
      else
        (let parent = last before; i = int (length before)
         in [raise_if (b_prev_hash b \<noteq> block_hash E parent)
               (ve ''Block #{} prev_hash mismatch at position {}'' [PInt (b_index b), PInt i]),
             raise_if (b_index b \<noteq> b_index parent + 1)
               (ve ''Block index gap at position {}: expected {}, got {}'' [PInt i, PInt (b_index parent + 1), PInt (b_index b)])]))"

fun json_blocks :: "env \<Rightarrow> (string, bytes) dict \<Rightarrow> block list \<Rightarrow> pyval list \<Rightarrow> (exn + block list) option" where
  "json_blocks E vs before [] = Some (Inr before)"
| "json_blocks E vs before (PDict d # rest) =
     (case block_from_dict E d of
        None \<Rightarrow> None
      | Some (Inl e) \<Rightarrow> Some (Inl e)
      | Some (Inr b) \<Rightarrow>
          (case checks (json_link before b @ json_parent E before b) of
             Raise e \<Rightarrow> Some (Inl e)
           | Fail m \<Rightarrow> Some (Inl (ValueError m))
           | Ok x \<Rightarrow>
               (case check_loaded ''Block'' E vs b of
                  Inl e \<Rightarrow> Some (Inl e)
                | Inr vs' \<Rightarrow> json_blocks E vs' (before @ [b]) rest)))"
| "json_blocks E vs before (v # rest) = None"

text \<open>The fallback to \<open>chain.json\<close>, in memory mode.\<close>

definition load_json :: "env \<Rightarrow> json_reader \<Rightarrow> string option \<Rightarrow> chain \<Rightarrow> (load_result \<times> chain) option" where
  "load_json E loads file s =
     (case Option.bind file loads of
        Some (PList (v # vs)) \<Rightarrow>
          (case json_blocks E (poa_validators s) [] (v # vs) of
             None \<Rightarrow> None
           | Some (Inl e) \<Rightarrow> Some (Raised e, s)
           | Some (Inr bs) \<Rightarrow>
               (case run_all (map (append_block E) bs) s of
                  (Some e, t) \<Rightarrow> Some (Raised e, t)
                | (None, t) \<Rightarrow> Some (Loaded, t)))
      | _ \<Rightarrow> Some (Refused, s))"

definition load_chain ::
  "env \<Rightarrow> json_reader \<Rightarrow> scans \<Rightarrow> bool \<Rightarrow> string \<Rightarrow> data_files \<Rightarrow> chain \<Rightarrow> (load_result \<times> chain) option" where
  "load_chain E loads sc verify data_dir files s =
     (if height s \<ge> 0 then Some (Loaded, s)
      else if data_dir = [] then Some (Refused, s)
      else
        (case migrate_json_to_sqlite E loads files of
           None \<Rightarrow> None
         | Some (Bad_block e, f) \<Rightarrow> Some (Raised e, s)
         | Some (Bad_row e, f) \<Rightarrow> Some (Db_failed e, s)
         | Some (r, f) \<Rightarrow>
             (case df_db f of
                Some db \<Rightarrow> load_from_sqlite E loads sc verify db s
              | None \<Rightarrow> load_json E loads (df_json f) s)))"

text \<open>\<open>save\<close>: the JSON value for \<open>chain.json\<close>, where the file is written.\<close>

definition save_chain :: "env \<Rightarrow> string \<Rightarrow> data_files \<Rightarrow> chain \<Rightarrow> pyval option" where
  "save_chain E data_dir files s =
     (if df_db files \<noteq> None \<or> data_dir = [] then None
      else Some (PList (map (\<lambda>b. PDict (block_to_dict E b)) (chain_list s))))"

end
