(* ===== verification/StoreProps.thy ===== *)
theory StoreProps
  imports Persist
begin

text \<open>
  Lemmas on the database: what every operation of the store keeps (\<open>tables_ok\<close>, \<open>store_ok\<close>, the step
  relation \<open>store_step\<close>), blocks read back as they were written, and what maintenance loses.
\<close>

section \<open>What the tables promise\<close>

text \<open>
  Keys are unique, transactions belong to stored blocks, balances of tokens are positive, and every
  integer fits the column.
\<close>

definition keys_unique :: "tables \<Rightarrow> bool" where
  "keys_unique t \<longleftrightarrow>
     distinct (map br_idx (tb_blocks t)) \<and> distinct (map br_hash (tb_blocks t)) \<and> dwf (tb_txs t)
     \<and> dwf (tb_notarizations t) \<and> dwf (tb_keys t) \<and> dwf (tb_validators t) \<and> dwf (tb_revoked t) \<and> dwf (tb_stakes t)
     \<and> dwf (tb_epochs t) \<and> dwf (tb_balances t) \<and> dwf (tb_supply t) \<and> dwf (tb_receipts t) \<and> dwf (tb_tokens t)
     \<and> dwf (tb_token_balances t) \<and> distinct (map (tk_symbol \<circ> snd) (tb_tokens t))"

definition ints_fit :: "tables \<Rightarrow> bool" where
  "ints_fit t \<longleftrightarrow>
     list_all (fits64 \<circ> br_idx) (tb_blocks t) \<and> list_all (fits64 \<circ> tr_nonce \<circ> snd) (tb_txs t)
     \<and> list_all (fits64 \<circ> snd) (tb_stakes t) \<and> list_all (fits64 \<circ> ub_amount \<circ> snd) (tb_unbonding t)
     \<and> list_all (fits64 \<circ> snd) (tb_balances t) \<and> list_all (fits64 \<circ> snd) (tb_supply t)
     \<and> list_all (\<lambda>p. 0 < snd p \<and> fits64 (snd p)) (tb_token_balances t)
     \<and> list_all (fits64 \<circ> tk_minted \<circ> snd) (tb_tokens t)"

definition rows_belong :: "tables \<Rightarrow> bool" where
  "rows_belong t \<longleftrightarrow> list_all (\<lambda>p. tr_block (snd p) \<in> br_idx ` set (tb_blocks t)) (tb_txs t)"

definition tables_ok :: "tables \<Rightarrow> bool" where
  "tables_ok t \<longleftrightarrow> keys_unique t \<and> ints_fit t \<and> rows_belong t"

text \<open>
  Between transactions the pending changes concern no blocks; the blocks are numbered without a gap
  up to the height.
\<close>

definition store_ok :: "store \<Rightarrow> bool" where
  "store_ok st \<longleftrightarrow>
     tables_ok (st_now st) \<and> tables_ok (st_saved st) \<and> tb_blocks (st_saved st) = tb_blocks (st_now st)
     \<and> tb_txs (st_saved st) = tb_txs (st_now st) \<and> - 1 \<le> st_height st
     \<and> (\<exists>lo \<ge> 0. br_idx ` set (tb_blocks (st_now st)) = {lo..st_height st})"

section \<open>Rows\<close>

lemma fits64_0 [simp]: "fits64 0"
  by (simp add: fits64_def)

lemma dpop_filter: "dpop d k = filter (\<lambda>p. fst p \<noteq> k) d"
  by (induction d) auto

lemma dwf_replace_row [simp]: "dwf d \<Longrightarrow> dwf (replace_row k v d)"
  using dwf_dpop[of d k] by (auto simp: dwf_def replace_row_def dpop_filter)

lemma list_all_replace_row: "list_all P d \<Longrightarrow> P (k, v) \<Longrightarrow> list_all P (replace_row k v d)"
  by (simp add: replace_row_def list_all_dpop)

lemma dget_replace_row: "dget (replace_row k v d) x = (if x = k then Some v else dget d x)"
  by (auto simp: replace_row_def dict_simps map_add_def split: option.split)

lemma dwf_add_row [simp]: "dwf d \<Longrightarrow> dwf (add_row k v d)"
  by (auto simp: dwf_def add_row_def dmem_def map_of_eq_None_iff)

lemma list_all_add_row: "list_all P d \<Longrightarrow> P (k, v) \<Longrightarrow> list_all P (add_row k v d)"
  by (simp add: add_row_def)

lemma dwf_filter [simp]: "dwf d \<Longrightarrow> dwf (filter P d)"
  by (simp add: dwf_def distinct_map_filter)

lemma list_all_filter: "list_all P xs \<Longrightarrow> list_all P (filter Q xs)"
  by (simp add: list_all_iff)

section \<open>Single statements\<close>

text \<open>A statement that leaves blocks and transactions alone and keeps the tables in order.\<close>

definition keeps :: "stmt \<Rightarrow> bool" where
  "keeps q \<longleftrightarrow>
     (\<forall>t u. q t = Inr u \<longrightarrow> tb_blocks u = tb_blocks t \<and> tb_txs u = tb_txs t \<and> (tables_ok t \<longrightarrow> tables_ok u))"

lemma keepsI:
  assumes "\<And>t u. q t = Inr u \<Longrightarrow> tb_blocks u = tb_blocks t \<and> tb_txs u = tb_txs t"
    and "\<And>t u. q t = Inr u \<Longrightarrow> keys_unique t \<Longrightarrow> keys_unique u"
    and "\<And>t u. q t = Inr u \<Longrightarrow> ints_fit t \<Longrightarrow> ints_fit u"
  shows "keeps q"
  using assms unfolding keeps_def tables_ok_def rows_belong_def by metis

lemma execute_ok: "keeps q \<Longrightarrow> store_ok st \<Longrightarrow> store_ok (snd (execute c q st))"
  unfolding keeps_def by (fastforce simp: execute_def store_ok_def split: sum.split)

lemma keeps_run: "list_all keeps qs \<Longrightarrow> keeps (run_stmts qs)"
proof (induction qs)
  case (Cons q qs)
  then have "keeps q" "keeps (run_stmts qs)" by simp_all
  then show ?case unfolding keeps_def by (fastforce split: sum.splits)
qed (simp add: keeps_def)

lemmas table_defs = keys_unique_def ints_fit_def bound_def

lemma distinct_map_filter_snd: "distinct (map f xs) \<Longrightarrow> distinct (map f (filter P xs))"
  by (rule distinct_map_filter)

lemma symbols_replace:
  assumes "distinct (map (tk_symbol \<circ> snd) d)"
  shows "distinct (map (tk_symbol \<circ> snd) (replace_row i k (filter (\<lambda>(j, m). tk_symbol m \<noteq> tk_symbol k) d)))"
  using assms by (auto simp: replace_row_def dpop_filter distinct_map_filter)

lemma keeps_registries:
  "keeps (\<lambda>t. Inr (t\<lparr>tb_validators := replace_row a pk (tb_validators t)\<rparr>))"
  "keeps (\<lambda>t. Inr (t\<lparr>tb_validators := dpop (tb_validators t) a\<rparr>))"
  "keeps (bound [n] (\<lambda>t. Inr (t\<lparr>tb_stakes := replace_row sv n (tb_stakes t)\<rparr>)))"
  "keeps (\<lambda>t. Inr (t\<lparr>tb_stakes := dpop (tb_stakes t) sv\<rparr>))"
  "keeps (bound [ub_amount u, ub_release u] (\<lambda>t.
       Inr (t\<lparr>tb_unbonding := tb_unbonding t @ [(tb_unbond_seq t + 1, u)], tb_unbond_seq := tb_unbond_seq t + 1\<rparr>)))"
  "keeps (bound ns (\<lambda>t. Inr (t\<lparr>tb_unbonding := filter P (tb_unbonding t)\<rparr>)))"
  "keeps (bound ns (\<lambda>t. Inr (t\<lparr>tb_revoked := replace_row ak r (tb_revoked t)\<rparr>)))"
  "keeps (\<lambda>t. Inr (t\<lparr>tb_revoked := dpop (tb_revoked t) ak\<rparr>))"
  "keeps (bound ns (\<lambda>t. Inr (t\<lparr>tb_epochs := replace_row e ev (tb_epochs t)\<rparr>)))"
  "keeps (bound ns (\<lambda>t. Inr (t\<lparr>tb_epochs := filter Q (tb_epochs t)\<rparr>)))"
  "keeps (bound ns (\<lambda>t. Inr (t\<lparr>tb_slashing := f (tb_slashing t)\<rparr>)))"
  by (rule keepsI; auto simp: table_defs list_all_replace_row list_all_dpop list_all_filter split: if_splits)+

lemma keeps_money:
  "keeps (bound [n] (\<lambda>t. Inr (t\<lparr>tb_balances := replace_row a n (tb_balances t)\<rparr>)))"
  "keeps (bound [n] (\<lambda>t. Inr (t\<lparr>tb_supply := replace_row a n (tb_supply t)\<rparr>)))"
  "keeps (bound [d, m, tk_minted k, c] (\<lambda>t.
       Inr (t\<lparr>tb_tokens := replace_row i k (filter (\<lambda>(j, m). tk_symbol m \<noteq> tk_symbol k) (tb_tokens t))\<rparr>)))"
  "keeps (\<lambda>t. Inr (t\<lparr>tb_tokens := dpop (tb_tokens t) i, tb_token_balances := filter P (tb_token_balances t)\<rparr>))"
  "keeps (if n \<le> 0 then (\<lambda>t. Inr (t\<lparr>tb_token_balances := dpop (tb_token_balances t) ia\<rparr>))
     else bound [n] (\<lambda>t. Inr (t\<lparr>tb_token_balances := replace_row ia n (tb_token_balances t)\<rparr>)))"
  by (rule keepsI; auto simp: table_defs list_all_replace_row list_all_dpop list_all_filter symbols_replace dpop_filter
      distinct_map_filter split: if_splits)+

lemma keeps_receipts:
  "keeps (insert_receipt r)" "keeps (insert_event r ev)"
  "keeps (bound ns (\<lambda>t. Inr (t\<lparr>tb_events := filter P (tb_events t), tb_receipts := filter Q (tb_receipts t),
     tb_block_events := filter W (tb_block_events t)\<rparr>)))"
  "keeps (bound ns (\<lambda>t. Inr (t\<lparr>tb_block_events := g (tb_block_events t)\<rparr>)))"
  by (rule keepsI; auto simp: insert_receipt_def insert_event_def table_defs split: if_splits)+

section \<open>Appending a block\<close>

lemma run_stmts_inv:
  assumes "run_stmts qs t = Inr u" "J t" "\<And>q t u. q \<in> set qs \<Longrightarrow> q t = Inr u \<Longrightarrow> J t \<Longrightarrow> J u"
  shows "J u"
  using assms by (induction qs arbitrary: t) (auto split: sum.splits, metis)

lemma insert_block_Inr:
  assumes "insert_block E idx b t = Inr u"
  shows "u = t\<lparr>tb_blocks := tb_blocks t @ [\<lparr>br_idx = idx, br_hash = block_hash E b, br_data = block_text E b\<rparr>]\<rparr>"
    "fits64 idx" "idx \<notin> br_idx ` set (tb_blocks t)" "block_hash E b \<notin> br_hash ` set (tb_blocks t)"
  using assms by (auto simp: insert_block_def bound_def split: if_splits)

lemma insert_block_ok: "insert_block E idx b t = Inr u \<Longrightarrow> tables_ok t \<Longrightarrow> tables_ok u"
  using insert_block_Inr[of E idx b t u] by (auto simp: tables_ok_def table_defs rows_belong_def list_all_iff)

lemma insert_tx_ok:
  "insert_tx E idx j tx t = Inr u \<Longrightarrow> idx \<in> br_idx ` set (tb_blocks t) \<Longrightarrow> tables_ok t
    \<Longrightarrow> tables_ok u \<and> tb_blocks u = tb_blocks t"
  by (auto simp: insert_tx_def tables_ok_def table_defs rows_belong_def list_all_add_row split: if_splits)

lemma insert_note_ok:
  "insert_notarization E tx t = Inr u \<Longrightarrow> tables_ok t \<Longrightarrow> tables_ok u \<and> tb_blocks u = tb_blocks t \<and> tb_txs u = tb_txs t"
  "insert_key tx t = Inr u \<Longrightarrow> tables_ok t \<Longrightarrow> tables_ok u \<and> tb_blocks u = tb_blocks t \<and> tb_txs u = tb_txs t"
  by (auto simp: insert_notarization_def insert_key_def Let_def tables_ok_def table_defs rows_belong_def split: if_splits)

lemma append_rows_ok:
  assumes r: "run_stmts (append_rows E idx b) t = Inr u" and ok: "tables_ok t"
  shows "tables_ok u"
    "tb_blocks u = tb_blocks t @ [\<lparr>br_idx = idx, br_hash = block_hash E b, br_data = block_text E b\<rparr>]"
    "fits64 idx" "idx \<notin> br_idx ` set (tb_blocks t)"
proof -
  obtain v where v: "insert_block E idx b t = Inr v"
    "run_stmts (concat (map (insert_tx_rows E idx) (enumerate 0 (b_txs b)))) v = Inr u"
    using r by (auto simp: append_rows_def split: sum.splits)
  note i = insert_block_Inr[OF v(1)]
  have "tables_ok u \<and> tb_blocks u = tb_blocks v"
    using v(2)
  proof (rule run_stmts_inv)
    show "tables_ok v \<and> tb_blocks v = tb_blocks v" using insert_block_ok[OF v(1) ok] by simp
    fix q x y
    assume q: "q \<in> set (concat (map (insert_tx_rows E idx) (enumerate 0 (b_txs b))))" "q x = Inr y"
      and x: "tables_ok x \<and> tb_blocks x = tb_blocks v"
    have "idx \<in> br_idx ` set (tb_blocks x)" using x i(1) by simp
    then show "tables_ok y \<and> tb_blocks y = tb_blocks v"
      using q x insert_tx_ok insert_note_ok
      by (fastforce simp: insert_tx_rows_def split: if_splits)
  qed
  then show "tables_ok u"
    "tb_blocks u = tb_blocks t @ [\<lparr>br_idx = idx, br_hash = block_hash E b, br_data = block_text E b\<rparr>]" using i(1) by simp_all
  show "fits64 idx" "idx \<notin> br_idx ` set (tb_blocks t)" by (rule i)+
qed

lemma in_transaction_cases:
  assumes "in_transaction q st = (e, u)"
  obtains (failed) x where "e = Some x" "u = st\<lparr>st_now := st_saved st\<rparr>" "q (st_now st) = Inl x"
  | (done_) t where "e = None" "u = st\<lparr>st_now := t, st_saved := t\<rparr>" "q (st_now st) = Inr t"
  using assms by (cases "q (st_now st)") (auto simp: in_transaction_def)

lemma store_ok_rollback: "store_ok st \<Longrightarrow> store_ok (st\<lparr>st_now := st_saved st\<rparr>)"
  by (simp add: store_ok_def)

lemma append_ok: "store_ok st \<Longrightarrow> store_ok (snd (db_append_block E b st))"
proof -
  assume ok: "store_ok st"
  obtain e u where r: "in_transaction (run_stmts (append_rows E (st_height st + 1) b)) st = (e, u)" by fastforce
  then show ?thesis
  proof (cases rule: in_transaction_cases)
    case (done_ t)
    have "tables_ok (st_now st)" using ok by (simp add: store_ok_def)
    note a = append_rows_ok[OF done_(3) this]
    obtain lo where lo: "0 \<le> lo" "br_idx ` set (tb_blocks (st_now st)) = {lo..st_height st}" "- 1 \<le> st_height st"
      using ok by (auto simp: store_ok_def)
    let ?lo = "min lo (st_height st + 1)"
    have "br_idx ` set (tb_blocks t) = {?lo..st_height st + 1}" using a(2) lo by auto
    then show ?thesis using r done_ a ok lo by (auto simp: db_append_block_def store_ok_def Let_def intro!: exI[of _ ?lo])
  next
    case (failed x)
    then show ?thesis using r store_ok_rollback[OF ok] by (simp add: db_append_block_def Let_def)
  qed
qed

lemma append_refused:
  "db_append_block E b st = (Some e, u) \<Longrightarrow> st_now u = st_saved st \<and> st_saved u = st_saved st \<and> st_height u = st_height st"
  by (auto simp: db_append_block_def in_transaction_def Let_def split: prod.splits option.splits sum.splits)

section \<open>Rewriting, pruning and deleting blocks\<close>

lemma tables_ok_blocks:
  assumes "tables_ok t" "map br_idx bs = map br_idx (tb_blocks t)" "distinct (map br_hash bs)"
  shows "tables_ok (t\<lparr>tb_blocks := bs\<rparr>)"
proof -
  have "br_idx ` set bs = br_idx ` set (tb_blocks t)" using assms(2) by (metis list.set_map)
  moreover have "list_all (fits64 \<circ> br_idx) bs = list_all (fits64 \<circ> br_idx) (tb_blocks t)"
    using assms(2) by (metis list.pred_map)
  ultimately show ?thesis using assms by (simp add: tables_ok_def keys_unique_def ints_fit_def rows_belong_def)
qed

lemma update_ok: "store_ok st \<Longrightarrow> store_ok (snd (db_update_block E b st))"
proof -
  assume ok: "store_ok st"
  let ?t = "st_now st"
  let ?f = "\<lambda>r. if br_idx r = b_index b then r\<lparr>br_hash := block_hash E b, br_data := block_text E b\<rparr> else r"
  have f: "br_idx (?f r) = br_idx r" for r by simp
  have idx: "map br_idx (map ?f (tb_blocks ?t)) = map br_idx (tb_blocks ?t)" by (simp add: f)
  have set_idx: "br_idx ` ?f ` set (tb_blocks ?t) = br_idx ` set (tb_blocks ?t)" using idx by (metis list.set_map)
  have hashes: "distinct (map br_hash (map ?f (tb_blocks ?t)))"
    if "\<forall>r \<in> set (tb_blocks ?t). br_idx r \<noteq> b_index b \<longrightarrow> br_hash r \<noteq> block_hash E b"
  proof -
    have "distinct (map br_idx (tb_blocks ?t))" "distinct (map br_hash (tb_blocks ?t))"
      using ok by (simp_all add: store_ok_def tables_ok_def keys_unique_def)
    then show ?thesis using that by (induction "tb_blocks ?t" arbitrary: ) (auto simp: distinct_map inj_on_def)
  qed
  have new: "tables_ok (?t\<lparr>tb_blocks := map ?f (tb_blocks ?t)\<rparr>)"
    if "\<forall>r \<in> set (tb_blocks ?t). br_idx r \<noteq> b_index b \<longrightarrow> br_hash r \<noteq> block_hash E b"
    using tables_ok_blocks[OF _ idx hashes[OF that]] ok by (simp add: store_ok_def)
  let ?u = "?t\<lparr>tb_blocks := map ?f (tb_blocks ?t)\<rparr>"
  have same: "?u = ?t" if "\<forall>r \<in> set (tb_blocks ?t). br_idx r \<noteq> b_index b"
    using that map_idI[of "tb_blocks ?t" ?f] by simp
  have t: "tables_ok ?t" using ok by (simp add: store_ok_def)
  have "snd (db_update_block E b st) = st \<or> snd (db_update_block E b st) = st\<lparr>st_now := ?u, st_saved := ?u\<rparr> \<and> tables_ok ?u"
    using new same t by (auto simp: db_update_block_def execute_def bound_def split: if_splits)
  moreover have "store_ok (st\<lparr>st_now := ?u, st_saved := ?u\<rparr>)" if "tables_ok ?u"
    using ok that set_idx by (simp add: store_ok_def del: set_map) (simp only: list.set_map set_idx)
  ultimately show ?thesis using ok by auto
qed

lemma idx_kept: "br_idx ` set (filter (\<lambda>r. P (br_idx r)) bs) = {i \<in> br_idx ` set bs. P i}"
  by auto

lemma prune_ok: "store_ok st \<Longrightarrow> store_ok (snd (prune_blocks n st))"
proof -
  assume ok: "store_ok st"
  let ?t = "st_now st"
  let ?u = "?t\<lparr>tb_txs := filter (\<lambda>(i, r). \<not> tr_block r < n) (tb_txs ?t), tb_blocks := filter (\<lambda>r. \<not> br_idx r < n) (tb_blocks ?t)\<rparr>"
  obtain lo where lo: "0 \<le> lo" "br_idx ` set (tb_blocks ?t) = {lo..st_height st}" using ok by (auto simp: store_ok_def)
  have "br_idx ` set (tb_blocks ?u) = {max lo n..st_height st}"
    using lo(2) idx_kept[of "\<lambda>i. \<not> i < n" "tb_blocks ?t"] by auto
  moreover have "tables_ok ?u"
    using ok by (auto simp: store_ok_def tables_ok_def keys_unique_def ints_fit_def rows_belong_def list_all_iff distinct_map_filter)
  ultimately have "store_ok (snd (in_transaction (prune_rows n) st))"
    using ok lo(1) by (auto simp: in_transaction_def prune_rows_def store_ok_def intro!: exI[of _ "max lo n"])
  then show ?thesis using ok store_ok_rollback by (auto simp: prune_blocks_def Let_def)
qed

lemma dwf_replay_stake: "dwf d \<Longrightarrow> dwf (replay_stake x d)"
proof -
  have k: "map fst (map (\<lambda>((staker, w), n). ((staker, w), if w = v then slashed_amount n else n)) d) = map fst d" for v
    by (induction d) auto
  assume "dwf d"
  then show ?thesis by (auto simp: replay_stake_def Let_def dwf_def k[unfolded map_map] distinct_update)
qed

lemma dwf_fold_replay: "dwf d \<Longrightarrow> dwf (fold replay_stake xs d)"
  by (induction xs arbitrary: d) (simp_all add: dwf_replay_stake)

lemma dwf_fold_dpop: "dwf d \<Longrightarrow> dwf (fold (\<lambda>k d. dpop d k) ks d)"
  by (induction ks arbitrary: d) simp_all

lemma delete_rows_Inr:
  assumes "delete_rows loads n t = Inr u"
  shows "tb_blocks u = filter (\<lambda>r. \<not> br_idx r \<ge> n) (tb_blocks t)" "tb_txs u = filter (\<lambda>(i, r). \<not> tr_block r \<ge> n) (tb_txs t)"
    "tb_balances u = []" "tb_supply u = []" "tb_token_balances u = []" "tb_unbonding u = []"
    "list_all (\<lambda>(i, k). tk_minted k = 0) (tb_tokens u)"
  using assms by (auto simp: delete_rows_def bound_def Let_def drop_blocks_def list_all_iff split: if_splits)

lemma delete_rows_ok:
  assumes d: "delete_rows loads n t = Inr u" and ok: "tables_ok t"
  shows "tables_ok u"
proof -
  let ?v = "drop_blocks loads n t"
  have v: "keys_unique ?v" "ints_fit ?v" "rows_belong ?v"
    using ok
    by (auto simp: drop_blocks_def Let_def tables_ok_def keys_unique_def ints_fit_def rows_belong_def list_all_iff
        distinct_map_filter dwf_fold_dpop)
  let ?s = "rebuilt_stakes loads n ?v"
  have s: "dwf ?s" "list_all (\<lambda>(k, amount). fits64 amount) ?s"
    using d by (auto simp: rebuilt_stakes_def dwf_fold_replay delete_rows_def bound_def Let_def split: if_splits)
  have e: "dwf (kept_epochs n d)" if "dwf d" for d using that by (simp add: kept_epochs_def)
  let ?zero = "map (\<lambda>(i, k). (i, k\<lparr>tk_minted := 0\<rparr>))"
  let ?tk = "?zero (filter (\<lambda>(i, k). \<not> tk_created_block k \<ge> n) (tb_tokens ?v))"
  have tk: "map fst (?zero d) = map fst d" "map (tk_symbol \<circ> snd) (?zero d) = map (tk_symbol \<circ> snd) d"
    "list_all (fits64 \<circ> tk_minted \<circ> snd) (?zero d)" for d :: "(string \<times> token_info) list"
    by (induction d) auto
  have "dwf ?tk" "distinct (map (tk_symbol \<circ> snd) ?tk)"
    using v(1) by (simp_all add: dwf_def tk keys_unique_def distinct_map_filter del: map_map)
  note facts = this s e tk(3)
  have u: "u = ?v\<lparr>tb_stakes := ?s, tb_unbonding := [], tb_epochs := kept_epochs n (tb_epochs ?v),
      tb_slashing := filter (\<lambda>e. \<not> se_block e \<ge> n) (tb_slashing ?v), tb_balances := [], tb_supply := [],
      tb_tokens := ?tk, tb_token_balances := []\<rparr>"
    using d by (simp add: delete_rows_def bound_def Let_def split: if_splits)
  have "keys_unique u" using v(1) facts by (simp add: u keys_unique_def)
  moreover have "list_all (fits64 \<circ> snd) ?s" using facts(4) by (simp add: list_all_iff split_beta)
  then have "ints_fit u" using v(2) facts by (simp add: u ints_fit_def del: map_map)
  ultimately show ?thesis using v(3) by (simp add: u tables_ok_def rows_belong_def)
qed

lemma max_idx_upto: "br_idx ` set (tb_blocks t) = {lo..m} \<Longrightarrow> 0 \<le> lo \<Longrightarrow> - 1 \<le> m \<Longrightarrow>
    br_idx ` set (tb_blocks t) = {if lo \<le> m then lo else 0..max_idx t} \<and> - 1 \<le> max_idx t"
proof -
  assume a: "br_idx ` set (tb_blocks t) = {lo..m}" "0 \<le> lo" "- 1 \<le> m"
  show ?thesis
  proof (cases "lo \<le> m")
    case True
    have "Max {lo..m} = m" using True by (intro Max_eqI) auto
    moreover have "tb_blocks t \<noteq> []" using a(1) True by auto
    ultimately show ?thesis using a True by (simp add: max_idx_def)
  next
    case False
    then have "tb_blocks t = []" using a(1) by auto
    then show ?thesis using False by (simp add: max_idx_def)
  qed
qed

lemma delete_ok: "store_ok st \<Longrightarrow> store_ok (snd (delete_blocks_from loads n st))"
proof -
  assume ok: "store_ok st"
  obtain e u where r: "in_transaction (delete_rows loads n) st = (e, u)" by fastforce
  then show ?thesis
  proof (cases rule: in_transaction_cases)
    case (done_ t)
    obtain lo where lo: "0 \<le> lo" "br_idx ` set (tb_blocks (st_now st)) = {lo..st_height st}" "- 1 \<le> st_height st"
      using ok by (auto simp: store_ok_def)
    have "br_idx ` set (tb_blocks t) = {lo..max (- 1) (min (st_height st) (n - 1))}"
      using lo idx_kept[of "\<lambda>i. \<not> i \<ge> n" "tb_blocks (st_now st)"] delete_rows_Inr(1)[OF done_(3)]
      by (auto simp: max_def min_def split: if_splits)
    then have "br_idx ` set (tb_blocks t) = {if lo \<le> max (- 1) (min (st_height st) (n - 1)) then lo else 0..max_idx t}
        \<and> - 1 \<le> max_idx t"
      by (rule max_idx_upto) (use lo in auto)
    then have "\<exists>lo\<ge>0. br_idx ` set (tb_blocks t) = {lo..max_idx t}" "- 1 \<le> max_idx t"
      using lo(1) by (auto split: if_splits)
    then show ?thesis
      using r done_ delete_rows_ok[OF done_(3)] ok by (simp add: delete_blocks_from_def store_ok_def)
  next
    case (failed x)
    then show ?thesis using r store_ok_rollback[OF ok] by (simp add: delete_blocks_from_def)
  qed
qed

section \<open>Runs of the store\<close>

text \<open>All operations of the store that write, in any order.\<close>

inductive store_step :: "env \<Rightarrow> json_reader \<Rightarrow> store \<Rightarrow> store \<Rightarrow> bool" for E loads where
  Append: "store_step E loads st (snd (db_append_block E b st))"
| Update: "store_step E loads st (snd (db_update_block E b st))"
| Delete_blocks: "store_step E loads st (snd (delete_blocks_from loads n st))"
| Prune: "store_step E loads st (snd (prune_blocks n st))"
| Commit: "store_step E loads st (db_commit st)"
| Validator: "store_step E loads st (snd (put_validator a pk c st))"
| No_validator: "store_step E loads st (snd (delete_validator a c st))"
| Stake: "store_step E loads st (snd (put_stake a v n c st))"
| No_stake: "store_step E loads st (snd (delete_stake a v c st))"
| Unbond: "store_step E loads st (snd (put_unbonding u c st))"
| No_unbond: "store_step E loads st (snd (delete_unbonding u c st))"
| No_unbonds: "store_step E loads st (snd (delete_unbondings_from_block n c st))"
| Revoke: "store_step E loads st (snd (put_revocation a k r c st))"
| No_revoke: "store_step E loads st (snd (delete_revocation a k c st))"
| Epoch: "store_step E loads st (snd (put_epoch n start vs c st))"
| No_epochs: "store_step E loads st (snd (delete_epochs_from n c st))"
| Slash: "store_step E loads st (snd (put_slashing_event ev c st))"
| No_slash: "store_step E loads st (snd (delete_slashing_events_from_block n c st))"
| Balance: "store_step E loads st (snd (put_balance a n c st))"
| Supply: "store_step E loads st (snd (put_supply k n c st))"
| Token: "store_step E loads st (snd (put_token i info c st))"
| No_token: "store_step E loads st (snd (delete_token i c st))"
| Token_balance: "store_step E loads st (snd (put_token_balance i a n c st))"
| Receipt: "store_step E loads st (snd (put_receipt rcp c st))"
| No_receipts: "store_step E loads st (snd (delete_receipts_for_block n c st))"
| Block_events: "store_step E loads st (snd (put_block_level_events n evs c st))"
| Reopen: "store_step E loads st (open_store (st_saved st))"

inductive store_run :: "env \<Rightarrow> json_reader \<Rightarrow> store \<Rightarrow> bool" for E loads where
  New: "store_run E loads (open_store no_tables)"
| Step: "store_run E loads st \<Longrightarrow> store_step E loads st u \<Longrightarrow> store_run E loads u"

lemma put_receipt_ok: "store_ok st \<Longrightarrow> store_ok (snd (put_receipt r c st))"
proof -
  assume ok: "store_ok st"
  have "keeps (run_stmts (insert_receipt r # map (insert_event r) (rc_events r)))"
    by (rule keeps_run) (simp add: keeps_receipts list_all_iff)
  from execute_ok[OF this ok, of c] show ?thesis
    using store_ok_rollback[OF ok]
    by (cases c) (simp_all add: put_receipt_def execute_def del: run_stmts.simps split: sum.splits)
qed

lemma reopen_ok: "store_ok st \<Longrightarrow> store_ok (open_store (st_saved st))"
proof -
  assume ok: "store_ok st"
  then obtain lo where lo: "0 \<le> lo" "br_idx ` set (tb_blocks (st_saved st)) = {lo..st_height st}" "- 1 \<le> st_height st"
    by (auto simp: store_ok_def)
  then have "\<exists>lo\<ge>0. br_idx ` set (tb_blocks (st_saved st)) = {lo..max_idx (st_saved st)}" "- 1 \<le> max_idx (st_saved st)"
    using max_idx_upto[OF lo(2,1,3)] by (auto split: if_splits)
  then show ?thesis using ok by (simp add: open_store_def store_ok_def)
qed

lemma new_store_ok: "store_ok (open_store no_tables)"
  by (auto simp: store_ok_def open_store_def no_tables_def tables_ok_def keys_unique_def ints_fit_def rows_belong_def
      max_idx_def intro!: exI[of _ 0])

lemmas register_defs =
  put_validator_def delete_validator_def put_stake_def delete_stake_def put_unbonding_def delete_unbonding_def
  delete_unbondings_from_block_def put_revocation_def delete_revocation_def put_epoch_def delete_epochs_from_def
  put_slashing_event_def delete_slashing_events_from_block_def put_balance_def put_supply_def put_token_def
  delete_token_def put_token_balance_def delete_receipts_for_block_def

lemma store_step_ok: "store_step E loads st u \<Longrightarrow> store_ok st \<Longrightarrow> store_ok u"
proof (induction rule: store_step.induct)
  case (Commit st)
  then show ?case by (auto simp: db_commit_def store_ok_def)
next
  case (Block_events st n evs c)
  then show ?case
    using execute_ok[OF keeps_receipts(4), of st c "[n]" "\<lambda>es. es @ [(n, json_raw (PList (map PDict evs)))]"]
    by (simp add: put_block_level_events_def)
qed (simp_all add: append_ok update_ok delete_ok prune_ok put_receipt_ok reopen_ok register_defs execute_ok keeps_registries
      keeps_money keeps_receipts keeps_registries(11)[of _ "\<lambda>es. es @ [x]" for x])

lemma store_run_ok: "store_run E loads st \<Longrightarrow> store_ok st"
  by (induction rule: store_run.induct) (auto intro: new_store_ok store_step_ok)

section \<open>Blocks are read as they were written\<close>

definition row_of :: "env \<Rightarrow> int \<Rightarrow> block \<Rightarrow> block_row" where
  "row_of E i b = \<lparr>br_idx = i, br_hash = block_hash E b, br_data = block_text E b\<rparr>"

text \<open>A block whose JSON text the decoders take back.\<close>

definition readable :: "env \<Rightarrow> json_reader \<Rightarrow> block \<Rightarrow> bool" where
  "readable E loads b \<longleftrightarrow>
     loads (block_text E b) = Some (PDict (block_to_dict E b)) \<and> block_from_dict E (block_to_dict E b) = Some (Inr b)"

lemma readable_read: "readable E loads b \<Longrightarrow> read_block E loads (block_text E b) = Some (Inr b)"
  by (simp add: readable_def read_block_def)

lemma row_at_append:
  assumes "tb_blocks u = tb_blocks t @ [row_of E i b]" "i \<notin> br_idx ` set (tb_blocks t)"
  shows "row_at j u = (if j = i then Some (row_of E i b) else row_at j t)"
proof -
  have "find (\<lambda>r. br_idx r = j) (xs @ [row_of E i b]) =
      (if j = i then Some (row_of E i b) else find (\<lambda>r. br_idx r = j) xs)" if "i \<notin> br_idx ` set xs" for xs
    using that by (induction xs) (auto simp: row_of_def)
  then show ?thesis using assms by (simp add: row_at_def)
qed

lemma append_done:
  assumes a: "db_append_block E b st = (None, u)" and ok: "store_ok st"
  shows "st_height u = st_height st + 1" "st_saved u = st_now u"
    "run_stmts (append_rows E (st_height st + 1) b) (st_now st) = Inr (st_now u)"
    "tb_blocks (st_now u) = tb_blocks (st_now st) @ [row_of E (st_height u) b]"
    "st_height u \<notin> br_idx ` set (tb_blocks (st_now st))" "fits64 (st_height u)"
proof -
  obtain e v where r: "in_transaction (run_stmts (append_rows E (st_height st + 1) b)) st = (e, v)" by fastforce
  then have e: "e = None" "u = v\<lparr>st_height := st_height st + 1\<rparr>"
    using a by (auto simp: db_append_block_def Let_def split: option.splits)
  from r show "st_height u = st_height st + 1" "st_saved u = st_now u"
    "run_stmts (append_rows E (st_height st + 1) b) (st_now st) = Inr (st_now u)"
    "tb_blocks (st_now u) = tb_blocks (st_now st) @ [row_of E (st_height u) b]"
    "st_height u \<notin> br_idx ` set (tb_blocks (st_now st))" "fits64 (st_height u)"
    using e append_rows_ok[of E "st_height st + 1" b "st_now st" "st_now u"] ok
    by (cases rule: in_transaction_cases; simp add: store_ok_def row_of_def)+
qed

lemma append_row:
  "db_append_block E b st = (None, u) \<Longrightarrow> store_ok st \<Longrightarrow>
   row_at i (st_now u) = (if i = st_height u then Some (row_of E i b) else row_at i (st_now st))"
  using append_done(4,5)[of E b st u] row_at_append[of "st_now u" "st_now st" E "st_height u" b i] by auto

text \<open>The rows of the transactions of a block.\<close>

definition tx_row_of :: "int \<Rightarrow> nat \<Rightarrow> transaction \<Rightarrow> tx_row" where
  "tx_row_of idx j tx =
     \<lparr>tr_block = idx, tr_index = int j, tr_sender = tx_sender tx, tr_recipient = tx_recipient tx,
      tr_type = type_value (tx_type tx), tr_nonce = tx_nonce tx\<rparr>"

lemma tx_rows_Inr:
  assumes "run_stmts (insert_tx_rows E idx (j, tx)) t = Inr u"
  shows "tb_txs u = add_row (tx_id E tx) (tx_row_of idx j tx) (tb_txs t)"
  using assms
  by (auto simp: insert_tx_rows_def insert_tx_def bound_def insert_notarization_def insert_key_def Let_def
      tx_row_of_def split: if_splits sum.splits)

lemma run_stmts_append:
  "run_stmts (qs @ rs) t = Inr u \<Longrightarrow> \<exists>v. run_stmts qs t = Inr v \<and> run_stmts rs v = Inr u"
  by (induction qs arbitrary: t) (auto split: sum.splits)

lemma dget_add_row: "dget (add_row k v d) x = (if x = k \<and> \<not> dmem k d then Some v else dget d x)"
  by (auto simp: add_row_def dmem_def map_add_def split: option.split)

lemma stored_txs:
  assumes "run_stmts (concat (map (insert_tx_rows E idx) (enumerate j txs))) t = Inr u"
    and "distinct (map (tx_id E) txs)" "\<forall>tx \<in> set txs. \<not> dmem (tx_id E tx) (tb_txs t)" "k < length txs"
  shows "dget (tb_txs u) (tx_id E (txs ! k)) = Some (tx_row_of idx (j + k) (txs ! k))"
  using assms
proof (induction txs arbitrary: j t k)
  case (Cons tx txs)
  obtain v where v: "run_stmts (insert_tx_rows E idx (j, tx)) t = Inr v"
    "run_stmts (concat (map (insert_tx_rows E idx) (enumerate (Suc j) txs))) v = Inr u"
    using run_stmts_append Cons.prems(1) by fastforce
  note tx = tx_rows_Inr[OF v(1)]
  have keep: "dget (tb_txs w') x = dget (tb_txs w) x"
    if "run_stmts (concat (map (insert_tx_rows E idx) (enumerate i ts))) w = Inr w'" "x \<notin> tx_id E ` set ts" for i ts w w' x
    using that
  proof (induction ts arbitrary: i w)
    case (Cons t ts)
    obtain y where y: "run_stmts (insert_tx_rows E idx (i, t)) w = Inr y"
      "run_stmts (concat (map (insert_tx_rows E idx) (enumerate (Suc i) ts))) y = Inr w'"
      using run_stmts_append Cons.prems(1) by fastforce
    show ?case using Cons.IH[OF y(2)] Cons.prems(2) tx_rows_Inr[OF y(1)] by (auto simp: dget_add_row)
  qed simp
  show ?case
  proof (cases k)
    case 0
    then show ?thesis using keep[OF v(2), of "tx_id E tx"] Cons.prems tx by (auto simp: dget_add_row)
  next
    case (Suc n)
    have "\<forall>x \<in> set txs. \<not> dmem (tx_id E x) (tb_txs v)"
      using Cons.prems tx by (auto simp: dmem_def dget_add_row) (metis image_eqI)
    then show ?thesis using Cons.IH[OF v(2), of n] Cons.prems Suc by simp
  qed
qed simp

text \<open>What the queries give after a block was appended.\<close>

lemma append_reads:
  assumes a: "db_append_block E b st = (None, u)" and ok: "store_ok st" and b: "readable E loads b"
  shows "db_get_block E loads (st_height u) u = Some (Inr (Some b))"
    "db_get_block_by_hash E loads (block_hash E b) u = Some (Inr (Some b))"
    "db_latest_block E loads u = Some (Inr (Some b))"
    "i \<noteq> st_height u \<Longrightarrow> db_get_block E loads i u = db_get_block E loads i st"
    "distinct (map (tx_id E) (b_txs b)) \<Longrightarrow> \<forall>tx \<in> set (b_txs b). \<not> db_tx_exists (tx_id E tx) st
      \<Longrightarrow> tx \<in> set (b_txs b) \<Longrightarrow> db_get_tx E loads (tx_id E tx) u = Some (Inr (Some tx))"
proof -
  note d = append_done[OF a ok]
  show block: "db_get_block E loads (st_height u) u = Some (Inr (Some b))"
    using append_row[OF a ok, of "st_height u"] d(6) readable_read[OF b] by (simp add: db_get_block_def opt_block_def row_of_def)
  have "0 \<le> st_height u" using d(1) ok by (simp add: store_ok_def)
  then show "db_latest_block E loads u = Some (Inr (Some b))" using block by (simp add: db_latest_block_def)
  show "i \<noteq> st_height u \<Longrightarrow> db_get_block E loads i u = db_get_block E loads i st"
    using append_row[OF a ok, of i] by (simp add: db_get_block_def)
  obtain v where v: "insert_block E (st_height st + 1) b (st_now st) = Inr v"
    "run_stmts (concat (map (insert_tx_rows E (st_height st + 1)) (enumerate 0 (b_txs b)))) v = Inr (st_now u)"
    using d(3) by (auto simp: append_rows_def split: sum.splits)
  have "find (\<lambda>r. br_hash r = block_hash E b) (xs @ [row_of E i b]) = Some (row_of E i b)"
    if "block_hash E b \<notin> br_hash ` set xs" for xs i
    using that by (induction xs) (auto simp: row_of_def)
  then show "db_get_block_by_hash E loads (block_hash E b) u = Some (Inr (Some b))"
    using d(4) insert_block_Inr(4)[OF v(1)] readable_read[OF b] by (simp add: db_get_block_by_hash_def opt_block_def row_of_def)
  assume "distinct (map (tx_id E) (b_txs b))" "\<forall>tx \<in> set (b_txs b). \<not> db_tx_exists (tx_id E tx) st" "tx \<in> set (b_txs b)"
  moreover then obtain k where "k < length (b_txs b)" "tx = b_txs b ! k" by (auto simp: in_set_conv_nth)
  moreover have "tb_txs v = tb_txs (st_now st)" using insert_block_Inr(1)[OF v(1)] by simp
  ultimately show "db_get_tx E loads (tx_id E tx) u = Some (Inr (Some tx))"
    using stored_txs[OF v(2)] block d(1) by (simp add: db_get_tx_def tx_row_of_def db_tx_exists_def)
qed

end
