(* ===== verification/Restart.thy ===== *)
theory Restart
  imports StoreProps Reach
begin

text \<open>
  A restart. The indices a running chain keeps are those that replaying its blocks gives (\<open>replayed\<close>, an
  invariant of the state machine), and loading the blocks from a database does just that. What else is
  loaded comes from tables that maintenance empties.
\<close>

section \<open>Replaying a chain\<close>

text \<open>Height, tip, transactions by identifier, known identifiers and nonces.\<close>

definition load_view where
  "load_view s = (height s, latest_block s, tx_by_id s, chain_tx_ids s, sender_nonce s)"

definition index_block :: "env \<Rightarrow> int \<Rightarrow> block \<Rightarrow> 'a registry_scheme \<Rightarrow> 'a registry_scheme" where
  "index_block E i b s = fold (\<lambda>(j, tx). index_tx E i (int j) tx) (enumerate 0 (b_txs b)) (load_tip E i b s)"

definition replay :: "env \<Rightarrow> block list \<Rightarrow> chain" where
  "replay E bs = fold (\<lambda>(i, b). index_block E (int i) b) (enumerate 0 bs) new_chain"

definition replayed :: "env \<Rightarrow> 'a registry_scheme \<Rightarrow> bool" where
  "replayed E s \<longleftrightarrow> load_view s = load_view (replay E (chain_list s))"

lemma replay_snoc: "replay E (bs @ [b]) = index_block E (int (length bs)) b (replay E bs)"
  by (simp add: replay_def enumerate_append_eq)

lemma load_view_index: "index_view s = index_view t \<Longrightarrow> load_view s = load_view t \<and> chain_list s = chain_list t"
  by (simp add: index_view_def load_view_def)

lemma replayed_cong: "index_view s = index_view t \<Longrightarrow> replayed E s = replayed E t"
  using load_view_index[of s t] by (simp add: replayed_def)

lemma load_view_tx: "load_view s = load_view u \<Longrightarrow> load_view (index_tx E i j tx s) = load_view (index_tx E i j tx u)"
  by (simp add: load_view_def index_tx_def Let_def)

lemma load_view_txs:
  "load_view s = load_view u \<Longrightarrow>
   load_view (fold (\<lambda>(j, tx). index_tx E i (int j) tx) itxs s) = load_view (fold (\<lambda>(j, tx). index_tx E i (int j) tx) itxs u)"
proof (induction itxs arbitrary: s u)
  case (Cons p itxs)
  then show ?case using load_view_tx[OF Cons.prems] by (cases p) simp
qed simp

lemma load_view_block: "load_view s = load_view u \<Longrightarrow> load_view (index_block E i b s) = load_view (index_block E i b u)"
  unfolding index_block_def by (rule load_view_txs) (simp add: load_view_def load_tip_def)

lemma index_tx_tip: "index_tx E i j tx (s\<lparr>latest_block := x\<rparr>) = (index_tx E i j tx s)\<lparr>latest_block := x\<rparr>"
  by (simp add: index_tx_def Let_def)

lemma index_txs_tip:
  "fold (\<lambda>(j, tx). index_tx E i (int j) tx) itxs (s\<lparr>latest_block := x\<rparr>)
     = (fold (\<lambda>(j, tx). index_tx E i (int j) tx) itxs s)\<lparr>latest_block := x\<rparr>"
  by (induction itxs arbitrary: s) (auto simp: index_tx_tip)

text \<open>A block that takes the place of another with the same transactions changes only the tip.\<close>

lemma index_block_stamped:
  assumes "b_txs b' = b_txs b"
  shows "load_view (index_block E i b' s) = load_view ((index_block E i b s)\<lparr>latest_block := Some b'\<rparr>)"
proof -
  have "load_view (load_tip E i b' s) = load_view ((load_tip E i b s)\<lparr>latest_block := Some b'\<rparr>)"
    by (simp add: load_view_def load_tip_def)
  from load_view_txs[OF this] show ?thesis using assms by (simp add: index_block_def index_txs_tip)
qed

lemma append_load_view:
  assumes "append_block_inner E b s = (None, t)"
  shows "load_view t = load_view (index_block E (height s + 1) b s)"
proof -
  have "load_view (push_block E b s) = load_view (load_tip E (height s + 1) b s)"
    by (simp add: load_view_def push_block_def load_tip_def)
  from load_view_txs[OF this] show ?thesis
    using load_view_index[OF append_index[OF assms]] by (simp add: index_block_def)
qed

section \<open>Running chains are replayed\<close>

lemma replayed_append:
  assumes "replayed E s" "chain_ok s" "append_block_inner E b s = (None, t)"
  shows "replayed E t"
proof -
  have h: "height s + 1 = int (length (chain_list s))" using assms(2) by (simp add: chain_ok_def)
  have "load_view (index_block E (height s + 1) b s) = load_view (index_block E (height s + 1) b (replay E (chain_list s)))"
    by (rule load_view_block) (use assms(1) in \<open>simp add: replayed_def\<close>)
  then show ?thesis
    using append_load_view[OF assms(3)] append_chain(1)[OF assms(3)] h by (simp add: replayed_def replay_snoc)
qed

lemma replayed_replace:
  assumes "replayed E s" "chain_ok s" "latest_block s = Some b" "b_index b' = b_index b" "b_txs b' = b_txs b"
  shows "replayed E (replace_block E old b' s)"
proof -
  let ?n = "length (chain_list s) - 1"
  have ne: "chain_list s \<noteq> []" "last (chain_list s) = b" "b_index b = int ?n"
    using assms(2,3) by (auto simp: chain_ok_def last_conv_nth split: if_splits)
  have s: "chain_list s = butlast (chain_list s) @ [b]" using ne by (metis append_butlast_last_id)
  have l: "chain_list (replace_block E old b' s) = butlast (chain_list s) @ [b']"
  proof -
    have "chain_list (replace_block E old b' s) = (chain_list s)[?n := b']" using ne assms(4) by (simp add: replace_block_def)
    also have "\<dots> = (butlast (chain_list s) @ [b])[length (butlast (chain_list s)) := b']" using s by simp
    finally show ?thesis by (simp only: list_update_length)
  qed
  have v: "load_view s = load_view (index_block E (int ?n) b (replay E (butlast (chain_list s))))"
    using assms(1) replay_snoc[of E "butlast (chain_list s)" b] s by (simp add: replayed_def)
  have "load_view (replace_block E old b' s) = load_view (s\<lparr>latest_block := Some b'\<rparr>)"
    by (simp add: load_view_def replace_block_def)
  also have "\<dots> = load_view ((index_block E (int ?n) b (replay E (butlast (chain_list s))))\<lparr>latest_block := Some b'\<rparr>)"
    using v by (simp add: load_view_def)
  finally show ?thesis
    using index_block_stamped[OF assms(5), of E "int ?n" "replay E (butlast (chain_list s))"] l by (simp add: replayed_def replay_snoc)
qed

lemma replayed_admin:
  "replayed E (add_validator v pk s) = replayed E s" "replayed E (set_genesis_hash h s) = replayed E s"
  "replayed E (snd (state_root E' s)) = replayed E s" "replayed E (auto_stake v s) = replayed E s"
  by (simp_all add: replayed_def load_view_def add_validator_def set_genesis_hash_def auto_stake_def state_root_def Let_def
      split: prod.splits)

lemma replayed_core: "core_view t = core_view s \<Longrightarrow> replayed E t = replayed E s"
  by (rule replayed_cong) (rule core_viewD(4))

lemma replayed_step:
  assumes l: "chain_linked E s" and r: "replayed E s" and step: "node_step E s t"
  shows "replayed E t"
proof -
  have c: "chain_ok s" using l by (simp add: chain_linked_def)
  show ?thesis
    using step
  proof (cases rule: node_step.cases)
    case (submit now tx r)
    then show ?thesis using r replayed_core core_submit by blast
  next
    case (genesis now v sk pk)
    then show ?thesis
    proof (cases rule: init_chain_cases)
      case (made g u)
      let ?w = "if pk \<noteq> [] then auto_stake v u else u"
      have u: "replayed E u" by (rule replayed_append[OF r c made(2)])
      have rw: "replayed E ?w" using u by (simp add: replayed_admin)
      have w: "replayed E ?w" "chain_ok ?w" "latest_block ?w = Some g"
        using rw append_chain[OF made(2)] c made(1,3)
        by (auto simp: auto_stake_def chain_ok_def nth_append less_Suc_eq)
      obtain h tr where q: "state_root E ?w = (h, ?w\<lparr>state_trie := tr\<rparr>)"
        by (cases "trie_root (sha3 E) (state_trie ?w)") (simp add: state_root_def)
      have x: "replayed E (?w\<lparr>state_trie := tr\<rparr>)" "chain_ok (?w\<lparr>state_trie := tr\<rparr>)" "latest_block (?w\<lparr>state_trie := tr\<rparr>) = Some g"
        using w by (simp_all add: replayed_def load_view_def chain_ok_def)
      have "replayed E (replace_block E g (stamp E sk h (last_receipts_root ?w) g) (?w\<lparr>state_trie := tr\<rparr>))"
        by (rule replayed_replace[OF x stamp_fields(1) stamp_fields(4)])
      then show ?thesis
        unfolding made(5) stamp_genesis_def q by (simp add: replayed_def load_view_def Let_def)
    qed (simp add: r)
  next
    case (activate v)
    then show ?thesis using replayed_cong[OF activate_index] r by blast
  next
    case (produce now v sk x)
    then show ?thesis
    proof (cases rule: produce_block_cases)
      case (made parent b u)
      note t = linked_tip[OF l made(1)]
      have u: "replayed E u" "chain_ok u" "latest_block u = Some b"
        using replayed_append[OF r c made(5)] append_chain[OF made(5)] c t made(3) produced_fields(1)[of E now v sk parent s]
        by (auto simp: chain_ok_def nth_append less_Suc_eq)
      have "replayed E (replace_block E b (stamp E sk (last_state_root u) (last_receipts_root u) b) u)"
        by (rule replayed_replace[OF u stamp_fields(1) stamp_fields(4)])
      then show ?thesis using made(6) by (auto simp: finish_block_def Let_def replayed_core[OF core_drain])
    qed (simp add: r)
  next
    case (receive now b x)
    from receive(1) show ?thesis
    proof (cases rule: add_block_Ok)
      case (1 u)
      show ?thesis using replayed_append[OF r c 1(4)] replayed_core[OF core_drain] 1(5) by blast
    qed
  qed (simp_all add: r replayed_admin)
qed

lemma reachable_replayed: "reachable E s \<Longrightarrow> replayed E s"
proof (induction rule: reachable.induct)
  case start
  show ?case by (simp add: replayed_def replay_def) (simp add: new_chain_def replay_def)
next
  case (step s t)
  then show ?case using replayed_step reachable_linked by blast
qed

section \<open>A chain in a store\<close>

fun append_all :: "env \<Rightarrow> block list \<Rightarrow> store \<Rightarrow> db_error option \<times> store" where
  "append_all E [] st = (None, st)"
| "append_all E (b # bs) st =
     (case db_append_block E b st of (Some e, u) \<Rightarrow> (Some e, u) | (None, u) \<Rightarrow> append_all E bs u)"

lemma append_all_rows:
  assumes "append_all E bs st = (None, u)" "store_ok st"
  shows "store_ok u" "st_height u = st_height st + int (length bs)" "bs \<noteq> [] \<longrightarrow> st_saved u = st_now u"
    "\<forall>k < length bs. row_at (st_height st + 1 + int k) (st_now u) = Some (row_of E (st_height st + 1 + int k) (bs ! k))
       \<and> fits64 (st_height st + 1 + int k)"
    "\<forall>i \<le> st_height st. row_at i (st_now u) = row_at i (st_now st)"
proof -
  have "store_ok u \<and> st_height u = st_height st + int (length bs) \<and> (bs \<noteq> [] \<longrightarrow> st_saved u = st_now u)
     \<and> (\<forall>k < length bs. row_at (st_height st + 1 + int k) (st_now u) = Some (row_of E (st_height st + 1 + int k) (bs ! k))
          \<and> fits64 (st_height st + 1 + int k))
     \<and> (\<forall>i \<le> st_height st. row_at i (st_now u) = row_at i (st_now st))"
    using assms
  proof (induction bs arbitrary: st)
    case (Cons b bs)
    obtain v where v: "db_append_block E b st = (None, v)" "append_all E bs v = (None, u)"
      using Cons.prems(1) by (auto split: prod.splits option.splits)
    have ok: "store_ok v" using append_ok[OF Cons.prems(2), of E b] v(1) by simp
    note d = append_done[OF v(1) Cons.prems(2)]
    note IH = Cons.IH[OF v(2) ok]
    have "row_at (st_height st + 1 + int k) (st_now u) = Some (row_of E (st_height st + 1 + int k) ((b # bs) ! k))
        \<and> fits64 (st_height st + 1 + int k)" if "k < length (b # bs)" for k
    proof (cases k)
      case 0
      then show ?thesis using IH d(1,6) append_row[OF v(1) Cons.prems(2)] by auto
    next
      case (Suc n)
      then have "row_at (st_height v + 1 + int n) (st_now u) = Some (row_of E (st_height v + 1 + int n) (bs ! n))
          \<and> fits64 (st_height v + 1 + int n)" using IH that by simp
      then show ?thesis using Suc d(1) by (simp add: add.commute add.left_commute)
    qed
    moreover have "row_at i (st_now u) = row_at i (st_now st)" if "i \<le> st_height st" for i
      using IH that d(1) append_row[OF v(1) Cons.prems(2)] by auto
    moreover have "st_saved u = st_now u" using IH d(2) v(2) by (cases bs) auto
    ultimately show ?case using IH d(1) by simp
  qed simp
  then show "store_ok u" "st_height u = st_height st + int (length bs)" "bs \<noteq> [] \<longrightarrow> st_saved u = st_now u"
    "\<forall>k < length bs. row_at (st_height st + 1 + int k) (st_now u) = Some (row_of E (st_height st + 1 + int k) (bs ! k))
       \<and> fits64 (st_height st + 1 + int k)"
    "\<forall>i \<le> st_height st. row_at i (st_now u) = row_at i (st_now st)" by blast+
qed

section \<open>Loading the blocks\<close>

lemma load_effect_view: "load_view (snd (load_effect E h i tx s)) = load_view s"
  by (auto simp: load_effect_def load_view_def apply_notarize_def apply_register_key_def load_validator_def set_commission_def
      add_validator_def apply_revocation_def remove_validator_def apply_stake_def load_unstake_def apply_unstake_def Let_def
      split: txtype.split option.splits)

lemma load_tx_view:
  "load_tx E h i jt s = (None, t) \<Longrightarrow> load_view t = load_view (index_tx E i (int (fst jt)) (snd jt) s)"
  using load_effect_view[of E h i "snd jt" "index_tx E i (int (fst jt)) (snd jt) s"] by (auto simp: load_tx_def pure_def split: prod.splits option.splits)

lemma load_txs_view:
  "run_all (map (load_tx E h i) itxs) s = (None, t) \<Longrightarrow> load_view s = load_view u \<Longrightarrow>
   load_view t = load_view (fold (\<lambda>(j, tx). index_tx E i (int j) tx) itxs u)"
proof (induction itxs arbitrary: s u)
  case (Cons p itxs)
  obtain w where w: "load_tx E h i p s = (None, w)" "run_all (map (load_tx E h i) itxs) w = (None, t)"
    using Cons.prems(1) by (auto simp: run_all_Cons_None simp del: run_all.simps(2))
  have "load_view w = load_view (index_tx E i (int (fst p)) (snd p) u)"
    using load_tx_view[OF w(1)] load_view_tx[OF Cons.prems(2)] by simp
  then show ?case using Cons.IH[OF w(2)] by (cases p) simp
qed simp

lemma load_block_view: "load_block E h i b s = (None, t) \<Longrightarrow> load_view t = load_view (index_block E i b s)"
  using load_txs_view[of E h i "enumerate 0 (b_txs b)" "load_tip E i b s" t "load_tip E i b s"]
  by (auto simp: load_block_def index_block_def pure_def split: prod.splits option.splits)

text \<open>The only exception: a validator registered with a key that is not hexadecimal.\<close>

definition key_readable :: "transaction \<Rightarrow> bool" where
  "key_readable tx \<longleftrightarrow> tx_type tx = REGISTER_VALIDATOR \<longrightarrow> fromhex (str_field tx ''validator_pubkey'') \<noteq> None"

lemma load_tx_done: "key_readable (snd jt) \<Longrightarrow> fst (load_tx E h i jt s) = None"
  by (auto simp: load_tx_def pure_def pass_def load_effect_def load_validator_def key_readable_def Let_def
      split: txtype.split option.splits)

lemma load_block_done: "list_all key_readable (b_txs b) \<Longrightarrow> fst (load_block E h i b s) = None"
proof -
  have "fst (run_all (map (load_tx E h i) itxs) u) = None" if "list_all (key_readable \<circ> snd) itxs" for itxs u
    using that
  proof (induction itxs arbitrary: u)
    case (Cons p itxs)
    then show ?case using load_tx_done[of p E h i u] by (auto split: prod.splits option.splits)
  qed simp
  moreover assume "list_all key_readable (b_txs b)"
  then have "list_all (key_readable \<circ> snd) (enumerate 0 (b_txs b))" by (auto simp: list_all_iff in_set_enumerate_eq)
  ultimately show ?thesis by (simp add: load_block_def pure_def)
qed

text \<open>A linked chain in the store: what the loop makes of it, from the k-th block on.\<close>

definition stored :: "env \<Rightarrow> json_reader \<Rightarrow> block list \<Rightarrow> store \<Rightarrow> bool" where
  "stored E loads bs st \<longleftrightarrow>
     (\<forall>k < length bs. row_at (int k) (st_now st) = Some (row_of E (int k) (bs ! k)) \<and> fits64 (int k))
     \<and> list_all (readable E loads) bs \<and> (bs \<noteq> [] \<longrightarrow> b_index (bs ! 0) = 0)
     \<and> (\<forall>k. Suc k < length bs \<longrightarrow> b_prev_hash (bs ! Suc k) = block_hash E (bs ! k))"

lemma load_blocks_stored:
  assumes st: "stored E loads bs st" and k: "k \<le> length bs" "k \<noteq> 0 \<longrightarrow> prev = block_hash E (bs ! (k - 1))"
    and v: "load_view s = load_view (replay E (take k bs))"
  shows "\<exists>r t. load_blocks E loads verify st [int k..int (length bs) - 1] prev vs s = Some (r, t)
    \<and> (r = Loaded \<longrightarrow> load_view t = load_view (replay E bs))
    \<and> (\<not> verify \<and> list_all (\<lambda>b. list_all key_readable (b_txs b)) bs \<longrightarrow> r = Loaded)"
  using k v
proof (induction "length bs - k" arbitrary: k prev vs s)
  case 0
  then show ?case by simp
next
  case (Suc n)
  then have lt: "k < length bs" by simp
  let ?b = "bs ! k"
  have get: "db_get_block E loads (int k) st = Some (Inr (Some ?b))"
    using st lt by (simp add: stored_def db_get_block_def opt_block_def row_of_def readable_read list_all_length)
  have l: "[int k..int (length bs) - 1] = int k # [int (Suc k)..int (length bs) - 1]"
    using lt upto_rec1[of "int k" "int (length bs) - 1"] by (simp add: add.commute)
  have link: "\<not> (if int k = 0 then b_index ?b \<noteq> 0 else b_prev_hash ?b \<noteq> prev)"
    using st lt Suc.prems(2) by (cases k) (auto simp: stored_def)
  have take: "replay E (take (Suc k) bs) = index_block E (int k) ?b (replay E (take k bs))"
    using lt by (simp add: take_Suc_conv_app_nth replay_snoc)
  show ?case
  proof (cases "if verify then check_loaded ''SQLite block'' E vs ?b else Inr vs")
    case (Inl e)
    then show ?thesis using get link by (auto simp: l split: if_splits)
  next
    case (Inr vs')
    obtain e t where t: "load_block E (st_height st) (int k) ?b s = (e, t)" by fastforce
    show ?thesis
    proof (cases e)
      case None
      have "load_view t = load_view (replay E (take (Suc k) bs))"
        using load_block_view[of E "st_height st" "int k" ?b s t] t None load_view_block[OF Suc.prems(3), of E "int k" ?b] take
        by simp
      then have "\<exists>r u. load_blocks E loads verify st [int (Suc k)..int (length bs) - 1] (block_hash E ?b) vs' t = Some (r, u)
          \<and> (r = Loaded \<longrightarrow> load_view u = load_view (replay E bs))
          \<and> (\<not> verify \<and> list_all (\<lambda>b. list_all key_readable (b_txs b)) bs \<longrightarrow> r = Loaded)"
        using Suc.hyps(2) lt by (intro Suc.hyps(1)) auto
      then show ?thesis using get link t None Inr by (simp add: l del: of_nat_Suc)
    next
      case (Some x)
      then have "\<not> list_all (\<lambda>b. list_all key_readable (b_txs b)) bs"
        using load_block_done[of ?b E "st_height st" "int k" s] t lt by (auto simp: list_all_length)
      then show ?thesis using get link t Some Inr by (simp add: l)
    qed
  qed
qed

section \<open>Tables leave the indices alone\<close>

lemma run_all_view:
  assumes "\<And>a s. a \<in> set acts \<Longrightarrow> f (snd (a s)) = f s"
  shows "f (snd (run_all acts s)) = f s"
  using assms
proof (induction acts arbitrary: s)
  case (Cons a acts)
  obtain e t where a: "a s = (e, t)" by fastforce
  have "f t = f s" using Cons.prems[of a s] a by simp
  then show ?case using Cons.IH[of t] Cons.prems a by (cases e) auto
qed simp

lemma fold_view: "(\<And>x s. x \<in> set xs \<Longrightarrow> f (g x s) = f s) \<Longrightarrow> f (fold g xs s) = f s"
  by (induction xs arbitrary: s) auto

text \<open>A part of the chain that the tables other than balances and supply do not concern.\<close>

locale table_frame =
  fixes v :: "chain \<Rightarrow> 'v"
  assumes v_validator: "v (snd (restore_validator row s)) = v s"
    and v_no_stakes: "v (s\<lparr>stakes := [], total_stake := []\<rparr>) = v s"
    and v_stake: "v (restore_stake srow s) = v s"
    and v_epoch: "v (s\<lparr>epochs := es\<rparr>) = v s" "v (s\<lparr>epochs := es, current_epoch := n, epoch_validators := vals\<rparr>) = v s"
    and v_slashing: "v (restore_slashing ev s) = v s" "v (reconcile_slashed a s) = v s"
    and v_receipt: "v (restore_receipt i rcp s) = v s"
    and v_token: "v (s\<lparr>token_registry := reg, token_by_symbol := syms\<rparr>) = v s" "v (s\<lparr>token_balances := bals\<rparr>) = v s"
      "v (update_token_index tid a m s) = v s"
    and v_trie: "v (s\<lparr>state_trie := tr\<rparr>) = v s"

context table_frame
begin

lemma epochs_frame: "restore_epochs loads rows s = Some t \<Longrightarrow> v t = v s"
proof (induction rows arbitrary: s)
  case (Cons row rows)
  obtain n start d where row: "row = (n, start, d)" by (cases row)
  then obtain vals where "restore_epochs loads rows
      (let t = s\<lparr>epochs := dset (epochs s) n vals\<rparr>
       in if n \<ge> current_epoch t then t\<lparr>current_epoch := n, epoch_validators := vals\<rparr> else t) = Some t"
    using Cons.prems by (auto split: option.splits)
  from Cons.IH[OF this] show ?case by (simp add: Let_def v_epoch)
qed simp

lemma staking_frame: 
  assumes "restore_staking loads sc st s = Some (None, t)"
  shows "v t = v s"
proof -
  obtain u w where u: "run_all (map restore_validator (db_get_all_validators (sc_validators sc) st)) s = (None, u)"
    and w: "restore_epochs loads (db_get_all_epochs st) (restore_stakes (db_get_all_stakes (sc_stakes sc) st) u) = Some w"
      "t = fold reconcile_slashed (sorted_list_of_set (slashed_validators
             (fold restore_slashing (db_get_slashing_events (sc_slashing sc) [] st) w)))
           (fold restore_slashing (db_get_slashing_events (sc_slashing sc) [] st) w)"
    using assms by (auto simp: restore_staking_def Let_def split: prod.splits option.splits)
  have "v (snd (run_all (map restore_validator (db_get_all_validators (sc_validators sc) st)) s)) = v s"
    by (rule run_all_view[where f = v]) (auto simp: v_validator)
  moreover have "v (restore_stakes rows u) = v u" for rows
    unfolding restore_stakes_def using fold_view[where f = v and g = restore_stake] v_stake v_no_stakes by simp
  moreover have "v t = v w" unfolding w(2) by (simp add: fold_view[where f = v] v_slashing)
  ultimately show ?thesis using u epochs_frame[OF w(1)] by simp
qed

lemma receipts_frame: "restore_receipts loads st is s = Some (r, t) \<Longrightarrow> v t = v s"
proof (induction "is" arbitrary: s)
  case (Cons i "is")
  have "v (fold (restore_receipt i) rs s) = v s" for rs
    by (rule fold_view[where f = v]) (rule v_receipt)
  then show ?case using Cons.prems Cons.IH by (fastforce split: option.splits sum.splits)
qed simp

lemma tokens_frame: "v (fold (restore_token sc st) rows s) = v s"
proof (rule fold_view[where f = v])
  have "v (update_token_index i a n (t\<lparr>token_balances := d\<rparr>)) = v t" for i a n d t
    by (simp add: v_token)
  then have "v (fold (\<lambda>(a, n) t. update_token_index i a n (t\<lparr>token_balances := dset (token_balances t) (i, a) n\<rparr>)) holders t)
      = v t" for i holders t
    by (intro fold_view[where f = v]) (simp add: split_beta)
  then show "v (restore_token sc st row t) = v t" for row t by (simp add: restore_token_def v_token)
qed

lemma rebuild_frame: "v (snd (rebuild_state_trie s)) = v s"
  unfolding rebuild_state_trie_def
proof (rule run_all_view[where f = v])
  have put: "v (snd (trie_put kn t)) = v t" "v (snd (trie_put_token tid kn t)) = v t" for kn tid t
    by (simp_all add: trie_put_def trie_put_token_def v_trie split: option.splits)
  show "v (snd (a t)) = v t" if "a \<in> set ([pure (\<lambda>t. t\<lparr>state_trie := (state_trie t)\<lparr>entries := []\<rparr>\<rparr>)]
      @ map (\<lambda>(addr, bal). trie_put (balance_key addr, bal)) (filter (\<lambda>p. \<not> snd p < 0) (balances s))
      @ map (\<lambda>(addr, n). trie_put (nonce_key addr, n)) (filter (\<lambda>p. snd p \<ge> 0) (sender_nonce s))
      @ map (\<lambda>((tid, addr), bal). trie_put_token tid (token_balance_key tid addr, bal))
          (filter (\<lambda>p. snd p > 0) (token_balances s))
      @ map (\<lambda>(tid, reg). trie_put_token tid (token_supply_key tid, tk_minted reg)) (token_registry s))" for a t
    using that put by (auto simp: pure_def v_trie)
qed

lemma check_root_frame: "v (snd (check_root E s)) = v s"
proof -
  have "v (snd (state_root E t)) = v t" for t
    by (simp add: state_root_def v_trie split: prod.splits)
  then show ?thesis
    using rebuild_frame[of s] by (auto simp: check_root_def Let_def split: prod.splits option.splits) (metis snd_conv)+
qed

lemma load_tables_frame:
  assumes "load_tables E loads sc st s = Some (Loaded, t)"
  shows "\<exists>u. v u = v s \<and> v t = v (restore_balances sc st u)"
proof -
  obtain u where u: "restore_staking loads sc st s = Some (None, u)"
    using assms by (auto simp: load_tables_def split: option.splits)
  then obtain w where w: "restore_receipts loads st [0..st_height st] (restore_balances sc st u) = Some (Loaded, w)"
    "check_root E (fold (restore_token sc st) (db_get_all_tokens (sc_tokens sc) st) w) = (Loaded, t)"
    using assms by (auto simp: load_tables_def split: option.splits load_result.splits)
  have "v t = v (restore_balances sc st u)"
    using check_root_frame[of E "fold (restore_token sc st) (db_get_all_tokens (sc_tokens sc) st) w"] w(2) tokens_frame
      receipts_frame[OF w(1)] by simp
  then show ?thesis using staking_frame[OF u] by blast
qed

end

definition money_view where
  "money_view s = (balances s, total_minted s, financial_active s)"

lemmas table_defs' =
  restore_validator_def restore_stake_def restore_slashing_def reconcile_slashed_def restore_receipt_def
  update_token_index_def add_validator_def remove_validator_def Let_def

interpretation indices: table_frame load_view
  by unfold_locales (simp_all add: load_view_def table_defs' split: option.splits prod.splits)

section \<open>A node that is started again\<close>

lemma balances_view: "load_view (restore_balances sc st s) = load_view s"
  by (simp add: restore_balances_def load_view_def Let_def)

lemma max_idx_store: "store_ok st \<Longrightarrow> tb_blocks (st_now st) \<noteq> [] \<Longrightarrow> tb_blocks db = tb_blocks (st_now st) \<Longrightarrow> max_idx db = st_height st"
proof -
  assume a: "store_ok st" "tb_blocks (st_now st) \<noteq> []" "tb_blocks db = tb_blocks (st_now st)"
  then obtain lo where lo: "0 \<le> lo" "br_idx ` set (tb_blocks db) = {lo..st_height st}" by (auto simp: store_ok_def)
  have "{lo..st_height st} \<noteq> {}" using lo(2) a(2,3) by (metis image_is_empty set_empty)
  then have "lo \<le> st_height st" by simp
  then have "Max {lo..st_height st} = st_height st" by (intro Max_eqI) auto
  then show ?thesis using lo(2) a(2,3) by (simp add: max_idx_def)
qed

lemma append_all_stored:
  assumes s: "chain_linked E s" "chain_list s \<noteq> []"
    and st: "append_all E (chain_list s) (open_store no_tables) = (None, st)" "tb_blocks db = tb_blocks (st_saved st)"
    and r: "list_all (readable E loads) (chain_list s)"
  shows "stored E loads (chain_list s) (open_store db)" "st_height (open_store db) = int (length (chain_list s)) - 1"
proof -
  note a = append_all_rows[OF st(1) new_store_ok]
  have h: "st_height (open_store no_tables) = - 1" by (simp add: open_store_def max_idx_def no_tables_def)
  have b: "tb_blocks db = tb_blocks (st_now st)" using a(3) s(2) st(2) by simp
  have row: "row_at (int k) db = Some (row_of E (int k) (chain_list s ! k)) \<and> fits64 (int k)" if "k < length (chain_list s)" for k
    using a(4) h that b by (simp add: row_at_def)
  then have "tb_blocks (st_now st) \<noteq> []" using s(2) b by (fastforce simp: row_at_def)
  then show "st_height (open_store db) = int (length (chain_list s)) - 1"
    using max_idx_store[OF a(1) _ b] a(2) h by (simp add: open_store_def)
  show "stored E loads (chain_list s) (open_store db)"
    using row r s by (auto simp: stored_def open_store_def chain_linked_def chain_ok_def)
qed

lemma restart_blocks:
  assumes "reachable E s" "chain_list s \<noteq> []"
    and "append_all E (chain_list s) (open_store no_tables) = (None, st)" "tb_blocks db = tb_blocks (st_saved st)"
    and "list_all (readable E loads) (chain_list s)"
  shows "\<exists>r t. load_blocks E loads verify (open_store db) [0..st_height (open_store db)] [] vs new_chain = Some (r, t)
      \<and> (r = Loaded \<longrightarrow> load_view t = load_view s)
      \<and> (\<not> verify \<and> list_all (\<lambda>b. list_all key_readable (b_txs b)) (chain_list s) \<longrightarrow> r = Loaded)"
proof -
  note st = append_all_stored[OF reachable_linked[OF assms(1)] assms(2-5)]
  have v: "load_view s = load_view (replay E (chain_list s))" using reachable_replayed[OF assms(1)] by (simp add: replayed_def)
  show ?thesis
    using load_blocks_stored[OF st(1), where k = 0 and prev = "[]" and s = new_chain and verify = verify and vs = vs] st(2) v
    by (simp add: replay_def)
qed

lemma restart_loaded:
  assumes "reachable E s" "chain_list s \<noteq> []"
    and "append_all E (chain_list s) (open_store no_tables) = (None, st)" "tb_blocks db = tb_blocks (st_saved st)"
    and "list_all (readable E loads) (chain_list s)" "load_from_sqlite E loads sc verify db new_chain = Some (Loaded, t)"
  shows "load_view t = load_view s"
proof -
  let ?vs = "if verify then poa_validators (new_chain :: chain) else []"
  obtain u where u: "load_blocks E loads verify (open_store db) [0..st_height (open_store db)] [] ?vs new_chain = Some (Loaded, u)"
    "load_tables E loads sc (open_store db) u = Some (Loaded, t)"
    using assms(6) by (auto simp: load_from_sqlite_def Let_def split: if_splits option.splits load_result.splits)
  then have "load_view u = load_view s" using restart_blocks[OF assms(1-5), of verify ?vs] by auto
  then show ?thesis using indices.load_tables_frame[OF u(2)] by (auto simp: balances_view)
qed

section \<open>Maintenance\<close>

text \<open>A part of the chain that the blocks do not concern either; it comes from balances and supply alone.\<close>

locale load_frame = table_frame v for v :: "chain \<Rightarrow> 'v" +
  assumes v_tip: "v (load_tip E i b s) = v s" and v_index: "v (index_tx E i j tx s) = v s"
    and v_effect: "v (snd (load_effect E h i tx s)) = v s"

context load_frame
begin

lemma block_frame: "v (snd (load_block E h i b s)) = v s"
proof -
  have "v (snd (load_tx E h i jt s)) = v s" for jt s
    using v_index v_effect by (simp add: load_tx_def pure_def split: prod.splits option.splits) (metis snd_conv)
  then show ?thesis
    unfolding load_block_def by (intro run_all_view[where f = v]) (auto simp: pure_def v_tip)
qed

lemma blocks_frame: "load_blocks E loads verify st is prev vs s = Some (r, t) \<Longrightarrow> v t = v s"
proof (induction "is" arbitrary: prev vs s)
  case (Cons i "is")
  then show ?case
    using block_frame[of E "st_height st" i _ s]
    by (auto split: option.splits sum.splits prod.splits if_splits) (metis snd_conv)+
qed simp

lemma loaded_frame:
  assumes "load_from_sqlite E loads sc verify db new_chain = Some (Loaded, t)"
  shows "\<exists>u. v u = v new_chain \<and> v t = v (restore_balances sc (open_store db) u)"
proof -
  obtain u where u: "load_blocks E loads verify (open_store db) [0..st_height (open_store db)] []
      (if verify then poa_validators (new_chain :: chain) else []) new_chain = Some (Loaded, u)"
    "load_tables E loads sc (open_store db) u = Some (Loaded, t)"
    using assms by (auto simp: load_from_sqlite_def Let_def split: if_splits option.splits load_result.splits)
  show ?thesis using blocks_frame[OF u(1)] load_tables_frame[OF u(2)] by metis
qed

end

text \<open>What is kept in memory only: the rewards of the running epoch and what finality and rollback need.\<close>

definition volatile_view where
  "volatile_view s = (epoch_rewards s, last_distributions s, state_snapshots s, finalized_height s)"

lemmas effect_defs =
  load_tip_def index_tx_def load_effect_def apply_notarize_def apply_register_key_def load_validator_def set_commission_def
  apply_revocation_def apply_stake_def load_unstake_def apply_unstake_def

interpretation money: load_frame money_view
  by unfold_locales (auto simp: money_view_def table_defs' effect_defs split: option.splits txtype.split)

interpretation volatile: load_frame volatile_view
  by unfold_locales
    (auto simp: volatile_view_def table_defs' effect_defs split: option.splits prod.splits txtype.split)

lemma loaded_money:
  assumes "load_from_sqlite E loads sc verify db new_chain = Some (Loaded, t)"
    and "tb_balances db = []" "tb_supply db = []" "sc_balances sc [] = []"
  shows "get_balance t a = 0 \<and> total_minted t = 0 \<and> \<not> financial_active t"
proof -
  obtain w :: chain where w: "money_view w = money_view new_chain"
    "money_view t = money_view (restore_balances sc (open_store db) w)"
    using money.loaded_frame[OF assms(1)] by blast
  then have "money_view t = ([], 0, False)"
    using assms(2-4)
    by (simp add: money_view_def restore_balances_def db_get_all_balances_def db_get_supply_def open_store_def dget_or_def
        new_chain_def)
  then show ?thesis by (simp add: money_view_def get_balance_def dget_or_def)
qed

lemma loaded_volatile:
  assumes "load_from_sqlite E loads sc verify db new_chain = Some (Loaded, t)"
  shows "epoch_rewards t = [] \<and> last_distributions t = [] \<and> state_snapshots t = [] \<and> finalized_height t = - 1"
proof -
  obtain w :: chain where w: "volatile_view w = volatile_view new_chain"
    "volatile_view t = volatile_view (restore_balances sc (open_store db) w)"
    using volatile.loaded_frame[OF assms(1)] by blast
  then show ?thesis by (simp add: volatile_view_def restore_balances_def new_chain_def Let_def)
qed

lemma pruned_refused:
  assumes p: "prune_blocks n st = (Inr k, u)" "0 < k"
  shows "load_from_sqlite E loads sc verify (st_saved u) s = Some (Refused, s)"
proof -
  let ?bs = "filter (\<lambda>r. \<not> br_idx r < n) (tb_blocks (st_now st))"
  have n: "0 < n" "tb_blocks (st_saved u) = ?bs"
    using p by (auto simp: prune_blocks_def Let_def in_transaction_def prune_rows_def split: if_splits)
  have "row_at 0 (st_saved u) = None"
    using n by (auto simp: row_at_def find_None_iff)
  moreover have "[0..h] = 0 # [1..h]" if "0 \<le> h" for h :: int using that upto_rec1[of 0 h] by simp
  ultimately show ?thesis
    by (simp add: load_from_sqlite_def Let_def open_store_def db_get_block_def opt_block_def)
qed

lemma deleted_money:
  assumes "delete_blocks_from loads n st = (None, u)"
  shows "tb_balances (st_saved u) = []" "tb_supply (st_saved u) = []"
proof -
  obtain e v where r: "in_transaction (delete_rows loads n) st = (e, v)" by fastforce
  then have "e = None" "u = v\<lparr>st_height := max_idx (st_now v)\<rparr>"
    using assms by (auto simp: delete_blocks_from_def split: option.splits)
  with r show "tb_balances (st_saved u) = []" "tb_supply (st_saved u) = []"
    by (cases rule: in_transaction_cases; auto dest: delete_rows_Inr)+
qed

end
