(* ===== verification/StoreScenario.thy ===== *)
theory StoreScenario
  imports Restart Scenario
begin

text \<open>
  The concrete chain of \<open>Scenario\<close> in a database: its first block appended to an empty store, and the
  chain that a restart loads from it.
\<close>

lemma trie_root_cached: "cached_root t = None \<Longrightarrow> hex (fst (trie_root (sha3 demo_env) t)) = zero_hash"
  by (simp add: trie_root_def demo_computed_root zero_hash_def Let_def split: bool.splits)

lemma first_root:
  "state_root demo_env (snd (append_block_inner demo_env first_block new_chain))
     = (zero_hash, snd (append_block_inner demo_env first_block new_chain))"
  by (simp add: append_block_inner_def append_steps_def new_chain_def first_fields demo_hash no_locals_def on_chain_def
      lift_def push_block_def process_mature_unbondings_def matured_def epoch_step_def
      check_epoch_transition_def EPOCH_LENGTH_def freeze_epoch_def Let_def)
    (simp add: receipts_step_def reward_step_def store_block_events_def receipts_root_step_def first_fields
      rebuild_state_trie_def state_root_step_def state_root_def Let_def split_beta lift_def
      calc_block_reward_def save_snapshot_def prune_events_def prune_distributions_def prune_before_def
      MAX_REORG_DEPTH_def update_finality_def trie_root_def trie_init_def demo_computed_root zero_hash_def)

definition saved_block :: block where
  "saved_block = hd (chain_list first_chain)"

lemma first_list: "chain_list first_chain = [saved_block]"
  "\<exists>rr. saved_block = stamp demo_env [1] zero_hash rr first_block"
proof -
  obtain u where u: "append_block_inner demo_env first_block new_chain = (None, u)" using first_append by (metis prod.collapse)
  have "init_chain demo_env 1000 alice [1] [] new_chain = (None, stamp_genesis demo_env [1] first_block u)"
    using append_block_None[THEN iffD2, OF u] by (simp add: init_chain_def genesis_txs_def new_chain_def first_block_def Let_def)
  then have f: "first_chain = stamp_genesis demo_env [1] first_block u" by (simp add: first_chain_def)
  have "state_root demo_env u = (zero_hash, u)" using first_root u by simp
  moreover have "chain_list u = [first_block]" using append_chain(1)[OF u] by (simp add: new_chain_def)
  ultimately have "chain_list first_chain = [stamp demo_env [1] zero_hash (last_receipts_root u) first_block]"
    by (simp add: f stamp_genesis_def replace_block_def stamp_fields first_fields Let_def)
  then show "chain_list first_chain = [saved_block]" "\<exists>rr. saved_block = stamp demo_env [1] zero_hash rr first_block"
    by (auto simp: saved_block_def)
qed

lemma saved_fields: "b_txs saved_block = []" "b_index saved_block = 0" "b_state_root saved_block = zero_hash"
  "b_validator saved_block = alice" "block_ok demo_env saved_block" "0 \<le> b_base_fee saved_block"
proof -
  obtain rr where s: "saved_block = stamp demo_env [1] zero_hash rr first_block" using first_list(2) by blast
  show "b_txs saved_block = []" "b_index saved_block = 0" "b_state_root saved_block = zero_hash"
    "b_validator saved_block = alice" "block_ok demo_env saved_block" "0 \<le> b_base_fee saved_block"
    unfolding s by (simp_all add: stamp_def block_sign_def first_block_def genesis_block_def mk_block_def block_ok_def)
qed

definition demo_loads :: json_reader where
  "demo_loads text = Some (PDict (block_to_dict demo_env saved_block))"

lemma saved_readable: "readable demo_env demo_loads saved_block"
  using block_from_dict_to_dict[of demo_env saved_block] by (simp add: readable_def demo_loads_def saved_fields)

text \<open>The database after one block.\<close>

definition saved_tables :: tables where
  "saved_tables = no_tables\<lparr>tb_blocks := [row_of demo_env 0 saved_block]\<rparr>"

lemma saved_append: "db_append_block demo_env saved_block (open_store no_tables) = (None, open_store saved_tables)"
  by (simp add: db_append_block_def append_rows_def in_transaction_def insert_block_def bound_def saved_fields open_store_def
      max_idx_def saved_tables_def row_of_def) (simp add: no_tables_def)

text \<open>A reader of rows that returns them in the order of insertion.\<close>

definition plain_scans :: scans where
  "plain_scans = \<lparr>sc_validators = id, sc_stakes = id, sc_slashing = id, sc_balances = id, sc_tokens = id, sc_holders = id\<rparr>"

lemma saved_store: "st_height (open_store saved_tables) = 0" "st_now (open_store saved_tables) = saved_tables"
  by (simp_all add: open_store_def max_idx_def saved_tables_def row_of_def)

lemma saved_loads:
  "\<exists>t. load_from_sqlite demo_env demo_loads plain_scans False saved_tables new_chain = Some (Loaded, t)"
proof -
  have g: "db_get_block demo_env demo_loads 0 (open_store saved_tables) = Some (Inr (Some saved_block))"
    using readable_read[OF saved_readable]
    by (simp add: db_get_block_def opt_block_def saved_store) (simp add: saved_tables_def row_at_def row_of_def)
  let ?s = "load_tip demo_env 0 saved_block (new_chain :: chain)"
  have l: "load_blocks demo_env demo_loads False (open_store saved_tables) [0..0] [] [] new_chain = Some (Loaded, ?s)"
    using g saved_fields by (simp add: load_block_def pure_def saved_store)
  have e: "tb_validators saved_tables = []" "tb_stakes saved_tables = []" "tb_epochs saved_tables = []" "tb_slashing saved_tables = []"
    "tb_balances saved_tables = []" "tb_supply saved_tables = []" "tb_receipts saved_tables = []" "tb_tokens saved_tables = []"
    by (simp_all add: saved_tables_def no_tables_def)
  have s: "slashed_validators ?s = {}" "balances ?s = []" "sender_nonce ?s = []" "token_balances ?s = []" "token_registry ?s = []"
    "latest_block ?s = Some saved_block" "cached_root (state_trie ?s) = None" "poa_validators ?s = []"
    by (simp_all add: load_tip_def new_chain_def trie_init_def)
  have "restore_staking demo_loads plain_scans (open_store saved_tables) ?s = Some (None, ?s\<lparr>stakes := [], total_stake := []\<rparr>)"
    by (simp add: restore_staking_def db_get_all_validators_def db_get_all_stakes_def db_get_all_epochs_def db_get_slashing_events_def
        plain_scans_def saved_store e restore_stakes_def s Let_def)
  moreover have "restore_receipts demo_loads (open_store saved_tables) [0..0] w = Some (Loaded, w)" for w :: chain
    by (simp add: db_get_receipts_for_block_def receipt_rows_of_def saved_store e)
  moreover have "restore_balances plain_scans (open_store saved_tables) w = w\<lparr>total_minted := 0, total_burned := 0\<rparr>" for w :: chain
    by (simp add: restore_balances_def db_get_all_balances_def db_get_supply_def saved_store e plain_scans_def dget_or_def)
  moreover have "fst (check_root demo_env w) = Loaded"
    if "balances w = []" "sender_nonce w = []" "token_balances w = []" "token_registry w = []"
      "latest_block w = Some saved_block" "cached_root (state_trie w) = None" for w :: chain
  proof -
    obtain x y where x: "trie_root (sha3 demo_env) (state_trie w\<lparr>entries := []\<rparr>) = (x, y)" by fastforce
    then have "hex x = zero_hash" using trie_root_cached[of "state_trie w\<lparr>entries := []\<rparr>"] that(6) by simp
    then show ?thesis using that x by (simp add: check_root_def rebuild_state_trie_def pure_def state_root_def saved_fields Let_def)
  qed
  ultimately have "\<exists>t. load_tables demo_env demo_loads plain_scans (open_store saved_tables) ?s = Some (Loaded, t)"
    using s by (simp add: load_tables_def saved_store db_get_all_tokens_def plain_scans_def e prod_eq_iff)
  then show ?thesis using l by (simp add: load_from_sqlite_def saved_store Let_def)
qed

lemma saved_run: "store_run demo_env demo_loads (open_store saved_tables)"
  using store_run.Step[OF store_run.New store_step.Append, of demo_env demo_loads saved_block] by (simp add: saved_append)

lemma first_restart: "append_all demo_env (chain_list first_chain) (open_store no_tables) = (None, open_store saved_tables)"
  "list_all (readable demo_env demo_loads) (chain_list first_chain)" "chain_list first_chain \<noteq> []"
  by (simp_all add: first_list(1) saved_append saved_readable)

text \<open>A balance in the store, and the deletion of no block at all.\<close>

definition funded_store :: store where
  "funded_store = snd (put_balance alice 7 True (open_store saved_tables))"

lemma funded_balance: "db_get_balance alice funded_store = 7"
  by (simp add: funded_store_def put_balance_def execute_def bound_def fits64_def db_get_balance_def open_store_def
      replace_row_def saved_tables_def no_tables_def dget_or_def)

lemma saved_row_txs: "row_txs demo_loads r = []"
  by (simp add: row_txs_def demo_loads_def block_to_dict_def saved_fields dget_or_def)

lemma funded_delete:
  "\<exists>u. delete_blocks_from demo_loads 1 funded_store = (None, u) \<and> st_saved u = saved_tables"
  by (simp add: delete_blocks_from_def in_transaction_def delete_rows_def bound_def fits64_def funded_store_def
      put_balance_def execute_def open_store_def Let_def drop_blocks_def rebuilt_stakes_def)
    (simp add: saved_tables_def no_tables_def row_of_def saved_row_txs gone_validators_def gone_revocations_def
      kept_epochs_def)

lemma saved_prune: "\<exists>u. prune_blocks 1 (open_store saved_tables) = (Inr 1, u)"
  by (simp add: prune_blocks_def Let_def fits64_def open_store_def) (simp add: saved_tables_def row_of_def)

end
