(* ===== verification/Spec2Isabelle.thy ===== *)
theory Spec2Isabelle
  imports NodeScenario StoreScenario
begin

text \<open>
  A model of QBit Network, a post-quantum blockchain node in Python (\<open>src/qbit_network\<close>), its client
  SDK (\<open>src/sdk\<close>) and the proof documents of its command line tool (\<open>src/cli\<close>), with the properties
  that span its parts. File names below are relative to \<open>src/qbit_network\<close>.

  The program. A \<open>Blockchain\<close> object (\<open>core/\<close>) holds the chain: blocks, balances, stakes, tokens, keys,
  receipts, a Merkle trie over the state and a pool of transactions. A validator produces a block from
  the pool; a block from the network is validated by the consensus rules and applied; a refused or
  forked block is rolled back. \<open>network/p2p.py\<close> connects nodes: an authenticated handshake, an encrypted
  channel, rate limits and reputation. \<open>node.py\<close> ties them together: handlers of P2P messages, RPC methods,
  periodic tasks, notifications to WebSocket clients and webhooks.

  Conventions (\<open>Prelude\<close>, \<open>PyText\<close>, \<open>HttpText\<close>). Python's int is \<open>int\<close>, bytes are lists of 8-bit words,
  str is \<open>string\<close> (code points below 256), a dict is an association list in insertion order, JSON is the
  datatype \<open>pyval\<close>. An operation that changes state and may raise is an \<open>act\<close>: it returns the exception, if
  any, and the state in which it left the object. A result that may be an exception is \<open>exn + 'a\<close>; a check
  that the code answers with \<open>(False, text)\<close> is an \<open>outcome\<close>. \<open>None\<close> at the outside of a parser or a method
  marks input the model's records cannot hold. Mixins that share one object are records extended by
  records, so the state of the chain is one record \<open>chain\<close>. Floats (rates, scores, times) are exact
  rationals. Cryptographic functions are parameters: the record \<open>env\<close> has SHA3, the ML-DSA functions and the
  activation height of dynamic fees, \<open>suite\<close> the AES-GCM, scrypt and ML-KEM calls, \<open>net\<close> what the network
  layer uses, \<open>world\<close> the clocks, random values and sockets of one call of the node. SHA3-256 itself is in
  \<open>Sha3\<close>, and Merkle soundness is stated for any 32-byte hash without collision on the inputs that occur.

  The theories, in the order of the code.
  \<^item> \<open>Config\<close>, \<open>Fees\<close> (\<open>config.py\<close>, \<open>core/fees.py\<close>): constants, weights, the base fee.
  \<^item> \<open>Sha3\<close>, \<open>Merkle\<close>, \<open>StateTree\<close> (\<open>crypto/hashing.py\<close>, \<open>core/state_tree.py\<close>): Merkle trees and proofs, the trie
    with its cache; the locale \<open>digest\<close> is the hash, \<open>map_store\<close> the contract of a finite map that both the dict
    and the trie meet.
  \<^item> \<open>Transaction\<close>, \<open>TxWire\<close>, \<open>Block\<close> (\<open>core/transaction.py\<close>, \<open>core/block.py\<close>): signable bytes, validation of every
    type, JSON forms and factories.
  \<^item> \<open>Ledger\<close>, \<open>Registry\<close>, \<open>Staking\<close>, \<open>Rewards\<close>, \<open>Tokens\<close>, \<open>Receipts\<close>, \<open>Finality\<close> (\<open>core/ledger.py\<close>, \<open>blockchain.py\<close>,
    \<open>staking.py\<close>, \<open>receipt.py\<close>, \<open>receipt_ops.py\<close>): the layers of the chain state and their operations; the locale
    \<open>fund_ledger\<close> is what the layers above rely on of credit and debit.
  \<^item> \<open>Consensus\<close>, \<open>Pool\<close>, \<open>PoolProps\<close>, \<open>StateOps\<close> (\<open>core/consensus.py\<close>, \<open>tx_pool.py\<close>, \<open>state_ops.py\<close>): selection of validators,
    block validation, admission to the pool (locale \<open>tally\<close>, interpreted on three counters), proofs of state.
  \<^item> \<open>Chain\<close> (\<open>_append_block_inner\<close>), \<open>Genesis\<close>, \<open>Rollback\<close>, \<open>Node\<close> (\<open>core/blockchain.py\<close>, \<open>rollback.py\<close>): the steps of a block,
    founding, the inverse, production, reception, reorganization. \<open>ChainFrames\<close>, \<open>ChainMoney\<close>, \<open>ChainProps\<close>,
    \<open>ChainState\<close>, \<open>RollbackProps\<close>, \<open>ReorgProps\<close>, \<open>Selection\<close> hold their lemmas: what each step leaves alone
    (locales \<open>staking_frame\<close>, \<open>undo_frame\<close>, \<open>outcome_frame\<close>), money, tokens, nonces, the state root. \<open>Reach\<close> is the
    chain as a state machine (\<open>node_step\<close>, \<open>reachable\<close>), with \<open>value_invariant\<close> for invariants of values.
  \<^item> \<open>Query\<close>, \<open>HeaderSync\<close>, \<open>Proof\<close>, \<open>Wallet\<close>, \<open>SdkSigner\<close> (\<open>core/query.py\<close>, \<open>proof.py\<close>, \<open>wallet.py\<close>, \<open>crypto/\<close>, \<open>src/sdk\<close>): queries,
    header chains, notarization proofs, key files, the client's builder and signer.
  \<^item> \<open>RateLimiter\<close>, \<open>Reputation\<close>, \<open>Codec\<close>, \<open>P2P\<close>, \<open>Handshake\<close>, \<open>P2PLoop\<close> (\<open>network/rate_limiter.py\<close>, \<open>reputation.py\<close>, \<open>codec.py\<close>,
    \<open>p2p.py\<close>): connections by number, their table, the messages of the handshake, the reading loops message by
    message, the step relation \<open>p2p_step\<close>. \<open>P2PProps\<close> has the invariant \<open>node_ok\<close>, \<open>HandshakeRuns\<close> complete runs
    and the relay attack.
  \<^item> \<open>Sync\<close>, \<open>WebSocket\<close>, \<open>Webhooks\<close> (\<open>network/sync.py\<close>, \<open>websocket.py\<close>, \<open>webhooks.py\<close>): the sync manager between its waits,
    subscriptions with their abstract specification (\<open>ws_spec\<close>, \<open>follows\<close>), webhooks and their delivery tasks.
  \<^item> \<open>FullNode\<close>, \<open>NodeRpc\<close>, \<open>RpcServer\<close>, \<open>NodeRun\<close> (\<open>node.py\<close>, \<open>network/rpc.py\<close>): the record \<open>fullnode\<close> of all parts, the handlers of
    P2P messages, every RPC method, the JSON-RPC server, start, stop and periodic rounds, and the whole node
    as the step relation \<open>fullnode_step\<close>. In \<open>NodeProps\<close> the locale \<open>component_invariants\<close> states what each part
    promises and shows that every step of the node keeps it; it is interpreted on \<open>reachable\<close>, \<open>node_ok\<close>,
    \<open>ws_ok\<close> and \<open>hooks_ok\<close>. In \<open>RpcProps\<close> the locale \<open>rpc_effect\<close> is the interface between the methods and what
    is claimed of all of them: a relation that holds of the few things a method can do holds of every entry
    of the method table.
  \<^item> \<open>RestApi\<close> (\<open>network/rest_api.py\<close>): every route, handler and middleware of the REST gateway, over the RPC
    methods and queries it passes on to. In \<open>RestProps\<close> the locale \<open>still\<close> (of which \<open>rpc_effect\<close> is a case) is
    what the building blocks of handlers ask of a relation, so that effects of methods become effects of routes.
  \<^item> \<open>Store\<close>, \<open>StoreState\<close>, \<open>Persist\<close> (\<open>core/store.py\<close>, \<open>core/persistence.py\<close>): the tables of the database with what the
    connection wrote and what a rollback returns to (\<open>st_now\<close>, \<open>st_saved\<close>), every operation on them, loading and
    saving. \<open>StoreProps\<close> has the invariant \<open>store_ok\<close> of every run of the store (\<open>store_step\<close>, \<open>store_run\<close>) and blocks
    read as they were written; \<open>Restart\<close> shows that the indices of every reachable chain are those a replay of
    its blocks gives (\<open>replayed\<close>), that loading is such a replay, and, in the locale \<open>table_frame\<close> (interpreted on
    the indices and on the money), what the other tables leave alone.
  \<^item> \<open>Scenario\<close>, \<open>ClientScenario\<close>, \<open>P2PScenario\<close>, \<open>NodeScenario\<close>, \<open>StoreScenario\<close>: the concrete chain, wallet, peers, node
    and database on which the properties are exercised.

  The properties below: conservation and bounds of money and tokens across blocks and in every reachable state;
  the state root and the proofs under it; rollback, refusal and reorganization; Merkle proofs; the trie as a
  finite map; selection, nonces, fees, the pool, finality, epochs, slashing, revocation; round trips of
  transactions, wallets, frames; agreement of the SDK with the node; header validation against its
  specification; rate limiting; authentication of peers, completion of the handshake and what it does not
  bind; and, of the composed node, its invariants, what an RPC post or a REST request can do, the nonces it uses, the penalty
  for repeated blocks, WebSocket subscriptions and webhooks; and of the database, its invariant, restarts and what
  maintenance loses. Where the code does not do what it means to, the
  property states what it does.

  Bounds and recursion. No definition uses fuel: loops run over lists the code iterates over, the trie and tree
  recursions are structural or have a measure (\<open>reduce\<close>), and a loop of the servers that waits is modelled by one
  round of it, the rounds being steps of \<open>p2p_step\<close> and \<open>fullnode_step\<close>. Those runs ask that a received or
  produced block is taken whole or refused without a change (\<open>clean_message\<close>, \<open>clean_round\<close>): what a refusal in
  the middle of a block leaves behind is the subject of a property of its own.

  Not modelled. The branches of \<open>core/blockchain.py\<close>, \<open>rollback.py\<close> and
  \<open>query.py\<close> that write to or read from the store while a chain runs: the running chain is the node's
  in-memory mode, and a database is related to it by the blocks appended to it. Locks, threads and files of SQLite.
  The download loops of \<open>network/sync.py\<close>: the module imports a file and constants the repository does
  not have, and the choice of a source raises among any peers, so they never run. aiohttp, TLS set-up, certificates,
  metrics, logging, sockets and timers; files and terminal I/O of the command line tool; benchmarks, dashboard, web
  front end, scripts and tests.
\<close>

section \<open>The ledger across blocks\<close>



text \<open>
  C2. Minting. A block mints its reward and nothing else: the halved reward, capped by what is left
  of \<open>MAX_SUPPLY\<close>, so that the minted total never exceeds the cap.
\<close>

theorem minting_schedule:
  fixes s t :: "'a chain_scheme"
  assumes "money_ok s" "append_block_inner E b s = (None, t)" "total_minted s \<le> MAX_SUPPLY"
  shows "total_minted t =
      (if height s + 1 > 0 \<and> financial_active s
       then min MAX_SUPPLY (total_minted s + INITIAL_BLOCK_REWARD div 2 ^ nat ((height s + 1) div HALVING_INTERVAL))
       else total_minted s)
    \<and> total_minted t \<le> MAX_SUPPLY"
  using append_money(3)[OF assms(1,2)] assms(3) by (auto simp: calc_block_reward_def halved_reward_def)

theorem minting_schedule_witness: "total_minted demo_next = 6000000010"
  using minting_schedule[OF demo_money demo_append] by (simp add: demo_height_chain demo_minted economics_defs)

text \<open>
  C3. State root and balance proofs. After a block the trie holds exactly the entries of the
  resulting state, the root kept for the producer is the root of that map, and a block that claimed a
  state root claimed this one. The proof the node serves for any address with a balance carries that
  balance and verifies against this root.
\<close>

theorem balance_proofs_verify:
  fixes s t :: "'a chain_scheme"
  assumes "money_ok s" "append_block_inner E b s = (None, t)" "dget (balances t) a = Some n"
  shows "entries (state_trie t) = state_map t
    \<and> last_state_root t = hex (computed_root (sha3 E) (state_map t))
    \<and> (b_state_root b = [] \<or> b_state_root b = last_state_root t)
    \<and> (\<exists>p. get_state_proof E t a ''balance'' = Some p \<and> sp_value p = hex (bytes8 n)
      \<and> sp_root p = last_state_root t
      \<and> trie_verify_proof (sha3 E) (balance_key a) (bytes8 n) (decode_path (sp_proof p))
          (computed_root (sha3 E) (state_map t)))"
proof -
  have m: "money_ok t" by (rule append_money(1)[OF assms(1,2)])
  then have n: "0 \<le> n" "dwf (balances t)"
    using assms(3) by (auto simp: money_ok_def ledger_ok_def solvent_def dnonneg_def dest: list_all_dget)
  have "state_entries t \<noteq> []" by (rule balance_entry_nonempty[OF assms(3) n(1)])
  note r = append_state_root[OF assms(2) this]
  show ?thesis using balance_proof[OF r(2,1) n(2) assms(3) n(1)] r by auto
qed

theorem balance_proofs_verify_witness:
  "last_state_root demo_next = hex (computed_root (sha3 demo_env) (state_map demo_next))
   \<and> (\<exists>p. get_state_proof demo_env demo_next bob ''balance'' = Some p \<and> sp_value p = hex (bytes8 5))"
  using balance_proofs_verify[OF demo_money demo_append demo_next_bob] by blast

section \<open>The node as a state machine\<close>



section \<open>Rollback, refusal and reorganization\<close>

text \<open>
  C5. Rollback inverts append. A block appended and then rolled back leaves every balance, the
  minted and burned totals, the list of blocks, the tip and the trie as they were. The hypotheses
  exclude what the code does not undo: matured unbondings, and an epoch boundary; near the supply
  cap the reward to take back is recomputed wrongly.
\<close>

theorem append_then_rollback:
  fixes s t :: "'a chain_scheme"
  assumes "append_block_inner E b s = (None, t)" "chain_ok s" "b_index b = height s + 1" "0 \<le> height s"
    and "financial_active s" "list_all (\<lambda>e. ub_release e > height s + 1) (unbonding s)"
    and "(height s + 1) mod EPOCH_LENGTH \<noteq> 0" "(height s + 1) div EPOCH_LENGTH \<le> current_epoch s"
    and "dget (state_snapshots s) (height s) = Some snap"
    and "total_minted s + 2 * halved_reward (height s + 1) \<le> MAX_SUPPLY"
  shows "\<exists>u. rollback_block E b (pop_block t) = (None, u) \<and> (\<forall>a. get_balance u a = get_balance s a)
    \<and> total_minted u = total_minted s \<and> total_burned u = total_burned s \<and> chain_list u = chain_list s
    \<and> height u = height s \<and> latest_block u = latest_block s \<and> entries (state_trie u) = snap"
  by (rule append_rollback[OF assms])

theorem append_then_rollback_witness:
  "\<exists>u. rollback_block demo_env (demo_block 1 [demo_transfer]) (pop_block demo_next) = (None, u)
     \<and> (\<forall>a. get_balance u a = get_balance demo_chain a)"
proof -
  have d: "unbonding demo_chain = []" "current_epoch demo_chain = 0" "dget (state_snapshots demo_chain) 0 = Some []"
    by (simp_all add: demo_defs)
  show ?thesis
    using append_then_rollback[OF demo_append demo_index(1)]
    by (auto simp: demo_height_chain d demo_minted EPOCH_LENGTH_def halved_reward_def economics_defs)
qed

text \<open>
  C6. Reorganization. When \<open>try_reorg\<close> succeeds, the chain is the old one up to the fork point
  followed by the fork, it is strictly longer, at most \<open>MAX_REORG_DEPTH\<close> blocks were given up, and
  it is still linked. The hypothesis that no fork block is numbered 0 is needed: inside a fork such
  a block is taken for a genesis block and its header is not checked.
\<close>

theorem reorg_adopts_longer_fork:
  fixes s t :: "'a chain_scheme"
  assumes "chain_linked E s" "list_all (\<lambda>b. b_index b \<noteq> 0) fork_blocks"
    and "try_reorg E now fork_blocks s = (Ok m, t)"
  shows "chain_linked E t \<and> chain_list t = take (nat (b_index (hd fork_blocks))) (chain_list s) @ fork_blocks
    \<and> height s < height t \<and> height s + 1 - b_index (hd fork_blocks) \<le> MAX_REORG_DEPTH"
  using reorg_linked[OF assms] by blast

theorem reorg_adopts_longer_fork_witness:
  "\<exists>m t. try_reorg demo_env 2000 [demo_block 1 [demo_transfer]] demo_chain = (Ok m, t)
     \<and> height demo_chain < height t"
proof -
  obtain m t where r: "try_reorg demo_env 2000 [demo_block 1 [demo_transfer]] demo_chain = (Ok m, t)"
    using demo_reorg by blast
  show ?thesis using reorg_adopts_longer_fork[OF demo_linked _ r] r by (auto simp: demo_height_chain)
qed

text \<open>
  C7. Refusal keeps the chain. When a block's application fails with a \<open>ValueError\<close> and its rollback
  returns, the same error is raised again and the list of blocks, the height and the tip are as
  they were before the block.
\<close>

theorem refused_block_leaves_chain:
  fixes s u w :: "'a chain_scheme"
  assumes "chain_ok s" "append_block_inner E b s = (Some (ValueError m), u)" "rollback_block E b u = (None, w)"
  shows "\<exists>t. append_block E b s = (Some (ValueError m), t) \<and> chain_list t = chain_list s
    \<and> height t = height s \<and> latest_block t = latest_block s"
  using refused_block_chain[OF assms] by blast

theorem refused_block_leaves_chain_witness:
  "\<exists>m t. append_block demo_env demo_refused demo_chain = (Some (ValueError m), t)
     \<and> chain_list t = chain_list demo_chain"
proof -
  obtain m u w where "append_block_inner demo_env demo_refused demo_chain = (Some (ValueError m), u)"
    "rollback_block demo_env demo_refused u = (None, w)"
    using refused_parts by blast
  then show ?thesis using refused_block_leaves_chain[OF demo_index(1)] by blast
qed


section \<open>Commitments: Merkle trees, state root, inclusion proofs\<close>

text \<open>The collision-freeness a hash needs is asked only for the inputs that occur.\<close>

text \<open>
  C9. Merkle proofs are complete and sound. For every item of a list the generated proof verifies
  against the root of the list, for any hash function, also where an odd element is promoted
  unpaired. Whatever path is presented: if it verifies against the root of a list and the 32-byte hash
  has no collision on the inputs hashed on both sides, the leaf is an item of the list.
\<close>

theorem merkle_proofs_exact:
  shows "(\<forall>i < length items. verify_merkle_proof h (items ! i) (merkle_proof h items (int i)) (merkle_root h items))
    \<and> ((\<forall>x. length (h x) = 32) \<and> items \<noteq> [] \<and> verify_merkle_proof h leaf path (merkle_root h items)
        \<and> inj_on h (insert (0 # leaf) (verify_inputs h (leaf_hash h leaf) path) \<union> tree_inputs h (merkle_tree items))
      \<longrightarrow> leaf \<in> set items)"
  using merkle_proof_verifies digest.verify_merkle_proof_sound[of h items leaf path] by (auto simp: digest_def)

theorem merkle_proofs_exact_witness:
  "verify_merkle_proof pad_hash [2] (merkle_proof pad_hash [[1], [2]] 1) (merkle_root pad_hash [[1], [2]])
   \<and> [2] \<in> set [[1], [2 :: byte]]"
proof -
  let ?p = "merkle_proof pad_hash [[1], [2]] 1"
  have p: "?p = [(0 # 1 # replicate 30 0, True)]" by code_simp
  have v: "verify_merkle_proof pad_hash ([[1], [2]] ! 1) (merkle_proof pad_hash [[1], [2]] (int 1)) (merkle_root pad_hash [[1], [2]])"
    using conjunct1[OF merkle_proofs_exact[of "[[1], [2]]" pad_hash]] by (rule allE[of _ 1]) simp
  have i: "inj_on pad_hash (insert [0, 2] (verify_inputs pad_hash (leaf_hash pad_hash [2]) ?p)
      \<union> tree_inputs pad_hash (merkle_tree [[1], [2]]))"
    by (simp add: p) code_simp
  show ?thesis
    using conjunct2[OF merkle_proofs_exact[of "[[1], [2]]" pad_hash "[2]" ?p]] v i pad_length by simp
qed



text \<open>
  C11. The trie implements a map with a root. Under the cache invariant (a clean trie holds the root
  of its entries), \<open>set\<close> and \<open>delete\<close> update the map at one key and keep the invariant, and
  \<open>root\<close> returns the root of the entries, whether it is cached or not, and keeps the entries.
\<close>

theorem trie_refines_map:
  assumes "trie_ok h t"
  shows "(\<lambda>k'. dget (entries (trie_set t k v)) k') = (\<lambda>k'. dget (entries t) k')(k \<mapsto> v)
    \<and> (\<lambda>k'. dget (entries (trie_delete t k)) k') = (\<lambda>k'. dget (entries t) k')(k := None)
    \<and> fst (trie_root h t) = computed_root h (entries t) \<and> entries (snd (trie_root h t)) = entries t
    \<and> trie_ok h (trie_set t k v) \<and> trie_ok h (trie_delete t k) \<and> trie_ok h (snd (trie_root h t))"
  using trie_root_value[OF assms] trie_ok_set[OF assms] trie_ok_delete[OF assms] trie_ok_root[OF assms]
  by (auto simp: entries_trie_root trie_set_def trie_delete_def Let_def dmem_def dict_simps fun_eq_iff)

theorem trie_refines_map_witness:
  "fst (trie_root sha3_256 (trie_set trie_init ''k'' [7])) = computed_root sha3_256 [(''k'', [7])]"
proof -
  have "trie_ok sha3_256 (trie_set trie_init ''k'' [7])" using trie_refines_map[OF trie_ok_init] by blast
  then have "fst (trie_root sha3_256 (trie_set trie_init ''k'' [7])) =
      computed_root sha3_256 (entries (trie_set trie_init ''k'' [7]))"
    using trie_refines_map by blast
  then show ?thesis by (simp add: trie_set_def trie_init_def)
qed

text \<open>
  C12. Notarization proofs. The document that \<open>export_proof\<close> builds for a transaction of a block whose
  signature verifies is accepted by \<open>verify_proof\<close>, with any document hash put in its place as well,
  since nothing ties the hash to the transaction. The document \<open>qbit proof\<close> writes lacks the base fee
  and the two roots: \<open>qbit verify-proof\<close> reports an error unless the header without them has the
  block's hash.
\<close>

theorem notarization_proofs_verify:
  assumes "block_ok E b" "i < length (b_txs b)" "verify_signature E b pk"
    and "export_proof E (block_to_dict E b) (int i) (tx_id E (b_txs b ! i)) doc notarizer (hex pk) = Inr d"
  shows "verify_proof E d = Inr (True, []) \<and> verify_proof E (dset d ''document_hash'' other) = Inr (True, [])
    \<and> (header_hash E (stripped_header b) = block_hash E b \<or>
        (\<exists>m. cli_proof_errors E (cli_proof_doc E b (int i) (tx_id E (b_txs b ! i)) doc notarizer) = Inr [m]))"
  using exported_proof_verifies[OF assms] cli_proof_fails[OF assms(1,2), of doc notarizer]
  by (auto simp: proof_ignores_document block_hash_header)

theorem notarization_proofs_verify_witness:
  "\<exists>d. export_proof demo_env (block_to_dict demo_env demo_signed) 0 zero_hash ''ab'' alice (hex [1]) = Inr d
     \<and> verify_proof demo_env (dset d ''document_hash'' (PStr ''cd'')) = Inr (True, [])"
proof -
  have ok: "block_ok demo_env demo_signed" "verify_signature demo_env demo_signed [1]" "0 < length (b_txs demo_signed)"
    by (simp_all add: demo_signed_fields)
  obtain d where d: "export_proof demo_env (block_to_dict demo_env demo_signed) (int 0)
      (tx_id demo_env (b_txs demo_signed ! 0)) ''ab'' alice (hex [1]) = Inr d"
    using export_Inr[OF ok(3), of demo_env] by simp
  show ?thesis
    using notarization_proofs_verify[OF ok(1,3,2) d, of "PStr ''cd''"] d by (intro exI[of _ d]) (simp add: demo_hash)
qed

section \<open>Consensus\<close>

text \<open>
  C13. Who produces a block. Among the points below the total stake, exactly as many fall on a
  validator as it has stake, and whatever the seed, the elected validator is one of the active set.
  Without stake-weighted election every registered validator is selected at exactly one of any \<open>n\<close>
  consecutive heights, \<open>n\<close> being the number of validators.
\<close>

theorem dpos_proportional:
  assumes "list_all (\<lambda>p. 0 < snd p) active"
    and "dwf (poa_validators s)" "dmem v (poa_validators s)" "n = int (length (poa_validators s))"
  shows "card {p. 0 \<le> p \<and> p < sum_list (map snd active) \<and> dpos_pick active p 0 = Some a} = nat (stake_of a active)
    \<and> (active \<noteq> [] \<longrightarrow> select_dpos E i parent_hash active \<in> fst ` set active)
    \<and> (\<exists>!j. h \<le> j \<and> j < h + n \<and> select_poa s now j None None = Some v)"
proof -
  have "v \<in> fst ` set (poa_validators s)" using assms(3) by (simp add: dmem_def map_of_eq_None_iff)
  from poa_rotation[OF assms(2) this assms(4)] show ?thesis
    using dpos_pick_count[OF assms(1), of 0 a] select_dpos_member[OF _ assms(1)] by simp
qed

theorem dpos_proportional_witness:
  "card {p. 0 \<le> p \<and> p < 10 \<and> dpos_pick [(alice, 7), (bob, 3)] p 0 = Some bob} = 3
   \<and> (\<exists>!j. 5 \<le> j \<and> j < 5 + 2 \<and> select_poa (new_chain\<lparr>poa_validators := [(''b'', []), (''a'', [])]\<rparr>) 0 j None None = Some ''a'')"
  using dpos_proportional[where active = "[(alice, 7), (bob, 3)]" and a = bob and h = 5 and now = 0 and n = 2 and v = "''a''"
      and s = "new_chain\<lparr>poa_validators := [(''b'', []), (''a'', [])]\<rparr>"]
  by (simp add: stake_of_def dwf_def dmem_def)

text \<open>
  C14. Nonces. In a block that consensus accepts, the nonces of each sender are consecutive from the
  sender's next nonce on the chain, and appending the block advances that nonce by the number of
  the sender's transactions. The hypothesis on \<open>stale_nonces\<close> says that consensus still shares the
  chain's nonce table, which an aborted reorganization breaks.
\<close>

theorem nonces_continue:
  fixes s t :: "'a chain_scheme"
  assumes "is_ok (validate_block E s now b (Some p))" "b_index b \<noteq> 0" "stale_nonces s = None"
    and "0 \<le> height s" "append_block_inner E b s = (None, t)"
  shows "map tx_nonce (sender_txs a (b_txs b))
      = map (\<lambda>i. get_next_nonce s a + int i) [0..<length (sender_txs a (b_txs b))]
    \<and> get_next_nonce t a = get_next_nonce s a + int (length (sender_txs a (b_txs b)))"
proof -
  have c: "consecutive_from (get_next_nonce s a) (map tx_nonce (sender_txs a (b_txs b)))"
    using accepted_nonces[OF assms(1,2), of a] assms(3) by (simp add: cons_nonces_def get_next_nonce_def)
  show ?thesis using append_nonces[OF assms(5,4) c] c by (simp add: consecutive_from_def)
qed

theorem nonces_continue_witness: "get_next_nonce demo_next alice = 1"
  using nonces_continue[OF demo_valid _ _ _ demo_append, of alice]
  by (simp add: demo_height_chain demo_fields sender_txs_def demo_tx_fields get_next_nonce_def dget_or_def)

section \<open>Fees and transaction selection\<close>



text \<open>
  C16. Selection for a block. Under dynamic fees the selected transactions come from the pool, each
  offers the base fee or weighs nothing, and together they respect the limits on count and weight.
  Two types are therefore never mined: a block with a REGISTER_VALIDATOR or an ISSUE_TOKEN is never
  valid and production never selects one, because their weights (100,000,000 and 50,000,000) exceed
  the weight of a block (20,000,000); the pool admits them all the same.
\<close>

theorem selection_respects_limits:
  "set (select_dynamic base_fee pool_txs)
      \<subseteq> {tx. TX_WEIGHTS (tx_type tx) = 0 \<or> base_fee \<le> tx_max_fee tx} \<inter> set pool_txs
   \<and> length (select_dynamic base_fee pool_txs) \<le> MAX_TX_PER_BLOCK
   \<and> sum_list (map (\<lambda>tx. TX_WEIGHTS (tx_type tx)) (select_dynamic base_fee pool_txs)) \<le> MAX_BLOCK_WEIGHT
   \<and> (\<forall>tx. tx_type tx = REGISTER_VALIDATOR \<or> tx_type tx = ISSUE_TOKEN \<longrightarrow>
        tx \<notin> set (select_dynamic base_fee pool_txs)
        \<and> (dynamic_at E (b_index b) \<and> tx \<in> set (b_txs b) \<longrightarrow> \<not> is_ok (validate_block E s now b (Some p))))"
proof -
  have "TX_WEIGHTS (tx_type tx) > MAX_BLOCK_WEIGHT" if "tx_type tx = REGISTER_VALIDATOR \<or> tx_type tx = ISSUE_TOKEN" for tx
    using that heavy_types by auto
  then show ?thesis
    using select_dynamic_fits[of base_fee pool_txs] heavy_never_selected heavy_block_refused
    unfolding total_weight_of_def by blast
qed

theorem selection_respects_limits_witness:
  "\<not> is_ok (validate_block (demo_env\<lparr>dyn_height := 0\<rparr>) demo_chain 0 (demo_block 1 [demo_tx ISSUE_TOKEN [] [] 0])
     (Some (demo_block 0 [])))"
proof -
  have "tx_type (demo_tx ISSUE_TOKEN [] [] 0) = ISSUE_TOKEN" by (simp add: demo_defs)
  moreover have "dynamic_at (demo_env\<lparr>dyn_height := 0\<rparr>) (b_index (demo_block 1 [demo_tx ISSUE_TOKEN [] [] 0]))"
    "demo_tx ISSUE_TOKEN [] [] 0 \<in> set (b_txs (demo_block 1 [demo_tx ISSUE_TOKEN [] [] 0]))"
    by (simp_all add: demo_defs dynamic_at_def)
  ultimately show ?thesis using selection_respects_limits by blast
qed

section \<open>The transaction pool\<close>

text \<open>
  C17. Submission to the pool. \<open>submit_tx\<close> either accepts a transaction, which is appended, or changes
  nothing; in both cases the identifiers, the counts by sender and type and the cache of pending
  debits agree with the list, and each sender's pending nonces continue the chain's. Once the
  financial layer is active, no submission makes the pending debits of any sender, fees at their
  maximum included, exceed its balance.
\<close>

theorem pool_submission:
  fixes s t :: "'a pool_scheme"
  assumes "pool_ok E s" "pool_nonces s" "0 \<le> tx_max_fee tx" "submit_tx E now tx s = (r, t)"
  shows "pool_ok E t \<and> pool_nonces t
    \<and> (is_ok r \<and> tx_pool t = tx_pool s @ [tx] \<and> r = Ok (tx_id E tx) \<or> \<not> is_ok r \<and> t = s)
    \<and> (financial_active s \<and> (\<forall>a. pending_debits s a \<le> get_balance s a)
        \<longrightarrow> (\<forall>a. pending_debits t a \<le> get_balance t a))"
proof -
  have "tx_pool (pool_push E tx s) = tx_pool s @ [tx]" by (simp add: pool_push_def Let_def)
  then have "is_ok r \<and> tx_pool t = tx_pool s @ [tx] \<and> r = Ok (tx_id E tx) \<or> \<not> is_ok r \<and> t = s"
    using submit_cases[OF assms(4)] by blast
  moreover have "affordable s \<Longrightarrow> financial_active s \<Longrightarrow> affordable t"
    using submit_affordable[OF _ _ assms(4)] by blast
  ultimately show ?thesis
    using submit_pool_ok[OF assms(1,3,4)] submit_pool_nonces[OF assms(1,2,4)] by (simp add: affordable_def)
qed

theorem pool_submission_witness:
  "pool_ok demo_env (snd (submit_tx demo_env 1000 demo_transfer demo_chain))
   \<and> (\<forall>a. pending_debits (snd (submit_tx demo_env 1000 demo_transfer demo_chain)) a
     \<le> get_balance (snd (submit_tx demo_env 1000 demo_transfer demo_chain)) a)"
proof -
  have "0 \<le> get_balance demo_chain a" for a by (rule solvent_balance) (use demo_money in \<open>simp add: money_ok_def\<close>)
  then have a: "\<forall>a. pending_debits demo_chain a \<le> get_balance demo_chain a"
    by (simp add: pending_debits_def) (simp add: demo_defs)
  have "0 \<le> tx_max_fee demo_transfer" by (simp add: demo_defs)
  from pool_submission[OF demo_pool this prod.collapse[symmetric]] a demo_height_chain(2) show ?thesis by blast
qed

section \<open>Finality, epochs, slashing, keys\<close>



text \<open>
  C19. Epoch transitions. From a sound state the transition, reward distribution included, always
  returns (no debit in it can fail), keeps the books sound and neither creates nor destroys money;
  stakes and the minted total stay.
\<close>

theorem epoch_transition_total:
  assumes "money_ok s"
  shows "\<exists>t. check_epoch_transition idx s = (None, t) \<and> money_ok t \<and> accounted t = accounted s
    \<and> total_minted t = total_minted s \<and> total_stake t = total_stake s"
  using epoch_transition_ok[OF assms] by blast

theorem epoch_transition_total_witness: "\<exists>t. check_epoch_transition 100 demo_chain = (None, t) \<and> money_ok t"
  using epoch_transition_total[OF demo_money] by blast

text \<open>
  C20. Slashing. A slash takes half of the validator's total (at least 1), dropping it to zero below
  the minimum stake, leaves the totals of the others alone, and any evidence against the same
  validator that is processed afterwards changes nothing.
\<close>

theorem slash_once:
  assumes "stake_ok s" "str_field tx' ''validator_address'' = v"
  shows "get_validator_stake (slash E tx i v s) v
      = (let left_stake = get_validator_stake s v - reduction_of (get_validator_stake s v)
         in if left_stake < MIN_STAKE then 0 else left_stake)
    \<and> (\<forall>w. w = v \<or> get_validator_stake (slash E tx i v s) w = get_validator_stake s w)
    \<and> v \<in> slashed_validators (slash E tx i v s)
    \<and> process_evidence_tx E tx' j (slash E tx i v s) = slash E tx i v s"
  using slash_total[OF assms(1) refl, where E = E and tx = tx and i = i and v = v]
    evidence_once[of tx' "slash E tx i v s" E j] assms(2) by (auto simp: Let_def)

theorem slash_once_witness: "get_validator_stake (slash demo_env demo_transfer 1 alice demo_chain) alice = 5"
proof -
  have "stake_ok demo_chain" using demo_money by (simp add: money_ok_def)
  moreover have "get_validator_stake demo_chain alice = 10"
    by (simp add: get_validator_stake_def) (simp add: demo_defs dget_or_def)
  ultimately show ?thesis
    using slash_once[of demo_chain "demo_tx EVIDENCE [] [(''validator_address'', PStr alice)] 0" alice demo_env demo_transfer 1]
    by (simp add: str_field_def demo_tx_def pget_def dget_or_def reduction_of_def SLASH_PERCENTAGE_def MIN_STAKE_def)
qed

text \<open>
  C21. Keys. After a REVOKE_KEY the key counts as revoked; a revoked validator key is gone from the
  registry and from the validators of consensus; and a registered key is never replaced by a later
  REGISTER_VALIDATOR.
\<close>

theorem revocation_takes_effect:
  assumes "dget (validator_registry s) v = Some pk"
  shows "is_key_revoked (apply_revocation E tx s) (tx_sender tx) (str_field tx ''key_type'')
    \<and> (str_field tx ''key_type'' = ''validator'' \<longrightarrow>
        \<not> is_registered_validator (apply_revocation E tx s) (tx_sender tx)
        \<and> \<not> dmem (tx_sender tx) (poa_validators (apply_revocation E tx s)))
    \<and> dget (validator_registry (snd (apply_register_validator tx s))) v = Some pk"
  using revocation_effect[where E = E and tx = tx and s = s] register_validator_keeps_key[OF assms, of tx] by blast

theorem revocation_takes_effect_witness:
  "\<not> is_registered_validator (apply_revocation demo_env (demo_tx REVOKE_KEY [] [(''key_type'', PStr ''validator'')] 0) demo_chain) alice"
proof -
  have "dget (validator_registry demo_chain) alice = Some [1]" by (simp add: demo_defs)
  from revocation_takes_effect[OF this, of demo_env "demo_tx REVOKE_KEY [] [(''key_type'', PStr ''validator'')] 0"]
  show ?thesis by (simp add: demo_tx_def str_field_def pget_def dget_or_def)
qed

section \<open>Wire formats\<close>

text \<open>
  C22. The JSON form. \<open>from_dict\<close> of \<open>to_dict\<close> returns the same transaction whenever its fields are
  within the decoder's bounds, and the decoder accepts only such transactions; a block built by the
  constructor from such transactions, with a base fee that is not negative, and every receipt the
  constructor returns are read back unchanged as well.
\<close>

theorem transaction_round_trip:
  assumes "list_all wire_ok txs" "b = mk_block E n p txs v ts sig f sr rr" "0 \<le> f"
    and "mk_receipt i st gas bl k evs = Inr r"
  shows "(\<forall>tx \<in> set txs. tx_from_dict (tx_to_dict E tx) = Some (Inr tx))
    \<and> (\<forall>data tx. tx_from_dict data = Some (Inr tx) \<longrightarrow> wire_ok tx)
    \<and> block_from_dict E (block_to_dict E b) = Some (Inr b)
    \<and> receipt_from_dict (receipt_to_dict E r) = Some (Inr r)"
proof -
  have "block_ok E b" "b_txs b = txs" "b_base_fee b = f"
    using assms(2) by (simp_all add: block_ok_mk_block) (simp_all add: mk_block_def)
  then have "block_from_dict E (block_to_dict E b) = Some (Inr b)"
    using block_from_dict_to_dict assms(1,3) by blast
  then show ?thesis
    using assms(1) from_dict_to_dict tx_from_dict_wire_ok receipt_round_trip mk_receipt_ok[OF assms(4)]
    by (auto simp: list_all_iff)
qed

theorem transaction_round_trip_witness:
  "tx_from_dict (tx_to_dict demo_env (demo_transfer\<lparr>tx_pubkey := []\<rparr>)) = Some (Inr (demo_transfer\<lparr>tx_pubkey := []\<rparr>))
   \<and> (\<exists>r. mk_receipt ''ab'' ''success'' 7 1 0 [] = Inr r \<and> receipt_from_dict (receipt_to_dict demo_env r) = Some (Inr r))"
proof -
  have "list_all wire_ok [demo_transfer\<lparr>tx_pubkey := []\<rparr>]" by code_simp
  moreover obtain r where "mk_receipt ''ab'' ''success'' 7 1 0 [] = Inr r"
    by (simp add: mk_receipt_def receipt_checks_def raise_if_def)
  ultimately show ?thesis
    using transaction_round_trip[where txs = "[demo_transfer\<lparr>tx_pubkey := []\<rparr>]" and E = demo_env, OF _ refl, of 0] by fastforce
qed

section \<open>Clients, keys and peers\<close>

text \<open>
  C23. The client and the node agree. Whatever the builder accepts and the key pair signs, with fee
  parameters and payload amounts within the node's bounds, the node's decoder reads the client's
  JSON as a transaction with the same identifier, and the node's verification accepts it. The last
  hypothesis is the correctness of the signature scheme for the key pair.
\<close>

theorem sdk_transactions_accepted:
  assumes "mk_keypair E sk pk = Inr kp" "build now bd = Inr u" "sign_tx E kp u = Inr t"
    and "type_of_value (u_type u) = Some ty" "u_max_fee u \<le> MAX_FEE_PARAM" "u_max_prio u \<le> MAX_FEE_PARAM"
    and "list_all is_ok (payload_guards (PStr (u_type u)) (u_payload u))"
    and "\<forall>m. mldsa_sign E sk m \<noteq> [] \<and> mldsa_verify E pk m (mldsa_sign E sk m)"
  shows "\<exists>tx. tx_from_dict (sdk_to_dict t) = Some (Inr tx) \<and> tx_type tx = ty \<and> tx_payload tx = u_payload u
    \<and> tx_id E tx = sdk_tx_id E u \<and> tx_verify E tx"
proof -
  have "tx_payload (node_tx ty t) = u_payload u"
    using truncate_fields[OF sign_tx_Inr(3)[OF assms(3)]] by (simp add: node_tx_def)
  then show ?thesis
    using signed_accepted[OF assms(1-7)] assms(8) by (intro exI[of _ "node_tx ty t"]) (simp add: node_tx_def)
qed

theorem sdk_transactions_accepted_witness:
  "\<exists>t tx. sign_tx demo_env demo_keys demo_unsigned = Inr t \<and> tx_from_dict (sdk_to_dict t) = Some (Inr tx)
     \<and> tx_verify demo_env tx"
proof -
  obtain t where t: "sign_tx demo_env demo_keys demo_unsigned = Inr t" using demo_sign by blast
  have "\<exists>tx. tx_from_dict (sdk_to_dict t) = Some (Inr tx) \<and> tx_type tx = TRANSFER \<and> tx_payload tx = u_payload demo_unsigned
    \<and> tx_id demo_env tx = sdk_tx_id demo_env demo_unsigned \<and> tx_verify demo_env tx"
    by (rule sdk_transactions_accepted[OF demo_keypair demo_build t]) (simp_all add: demo_unsigned_fields)
  then show ?thesis using t by blast
qed



text \<open>
  C25. Wallet files. What \<open>save\<close> writes, encrypted or not, \<open>load\<close> reads back as the same wallet, if
  AES-GCM opens what it closed. What decrypts at all is a wallet with keys of the right sizes whose
  address, the one in the file, is that of its signing key. The public encryption key is outside
  the authenticated data: a file in which it is replaced loads without an error.
\<close>

theorem wallet_files_open:
  assumes "wallet_save C salt nonce w password = Inr d" "wallet_ok E w" "gcm_ok C" "length nonce = 12"
  shows "wallet_load E C d password = Inr w
    \<and> (\<forall>d' w'. wallet_decrypt E C d' password = Inr w' \<longrightarrow> wallet_ok E w' \<and> dget d' ''address'' = Some (PStr (w_address w')))
    \<and> (password = [] \<or>
        wallet_decrypt E C (dset d ''encryption_pk'' (PStr (hex pk))) password = Inr (w\<lparr>w_encryption_pk := pk\<rparr>))"
proof -
  have "password \<noteq> [] \<Longrightarrow> wallet_encrypt C salt nonce w password = Inr d"
    using assms(1) by (simp add: wallet_save_def)
  then show ?thesis
    using wallet_round_trip[OF assms] wallet_decrypt_sound wallet_encrypt_Inr[OF _ assms(2-4)] by blast
qed

theorem wallet_files_open_witness:
  "\<exists>d. wallet_save demo_suite [] (replicate 12 0) demo_wallet ''pw'' = Inr d \<and> wallet_load demo_env demo_suite d ''pw'' = Inr demo_wallet"
proof -
  obtain d where d: "wallet_save demo_suite [] (replicate 12 0) demo_wallet ''pw'' = Inr d" using demo_wallet_save by blast
  from wallet_files_open[OF d demo_wallet_ok demo_suite_ok] d show ?thesis by auto
qed

text \<open>
  C26. Rate limiting. Of the checks of one key at times that do not decrease, starting with a fresh
  bucket, at most \<open>burst + rate * elapsed\<close> are let through; every check keeps the limiter's invariant:
  tokens between 0 and the burst, and no more tracked keys than the cap.
\<close>

theorem rate_is_limited:
  assumes "limiter_ok l" "\<not> dmem key (rl_buckets l)" "sorted (t0 # ts)"
  shows "of_nat (fst (run_checks key (t0 # ts) l)) \<le> rl_burst l + (last (t0 # ts) - t0) * rl_rate l
    \<and> limiter_ok (snd (check now key' l))"
  using rate_bound[OF assms] check_ok[OF assms(1)] by blast

theorem rate_is_limited_witness:
  "of_nat (fst (run_checks ''peer'' [0, 0, 1] (mk_limiter 1 2))) \<le> (3 :: rat)"
  using rate_is_limited[of "mk_limiter 1 2" "''peer''" 0 "[0, 1]" 0 "''peer''"]
  by (simp add: mk_limiter_def limiter_ok_def)

section \<open>The network\<close>

text \<open>
  C27. Authentication of peers. Whatever peers send and in whatever order connections come and go, a
  connection that counts as authenticated has the address of the recorded key, and that key signed a
  32-byte challenge which this node sent on this connection; the challenge is used up. A peer counts
  as a validator, and its channel as encrypted, only when it is authenticated. A message about
  blocks or transactions from a peer of version 2 reaches a handler only from an authenticated peer.
\<close>

theorem authenticated_peers_hold_keys:
  assumes "no_connections S" "p2p_run N S T"
  shows "(pr_authenticated (pn_peer T i) \<longrightarrow>
       pr_remote_address (pn_peer T i) = derive_address (net_env N) (pr_remote_pubkey (pn_peer T i))
       \<and> pr_challenge (pn_peer T i) = []
       \<and> (\<exists>c sig. length c = CHALLENGE_LEN \<and> issued (pn_sent T) i c
            \<and> verify_sig (net_env N) (pr_remote_pubkey (pn_peer T i))
                (build_auth_message c (pr_remote_address (pn_peer T i))) sig))
    \<and> (pr_is_validator (pn_peer T i) \<longrightarrow>
         pr_authenticated (pn_peer T i) \<and> dmem (pr_remote_address (pn_peer T i)) (pn_validators T))
    \<and> (pr_encrypted (pn_peer T i) \<longrightarrow> pr_authenticated (pn_peer T i) \<and> pr_session_key (pn_peer T i) \<noteq> None)
    \<and> (receive N now outbound i mt data T = (Deliver (PStr t) d, U) \<and> t \<in> set AUTH_REQUIRED_MSGS
         \<and> 2 \<le> pr_version (pn_peer U i) \<longrightarrow> pr_authenticated (pn_peer U i))"
proof -
  have "receive N now outbound i mt data T = (Deliver (PStr t) d, U) \<and> t \<in> set AUTH_REQUIRED_MSGS
      \<and> 2 \<le> pr_version (pn_peer U i) \<longrightarrow> pr_authenticated (pn_peer U i)"
    using delivered_gate[of N now outbound i mt data T t d U] by (auto simp: check_auth_gate_def split: if_splits)
  then show ?thesis
    using node_okD[OF run_ok[OF assms(2) start_ok[OF assms(1)]], of i] unfolding peer_ok_def proved_key_def by blast
qed

theorem authenticated_peers_hold_keys_witness:
  "\<exists>c sig. length c = CHALLENGE_LEN \<and> issued (pn_sent (fst toy_exchange)) 0 c
     \<and> verify_sig (net_env toy_net) (pr_remote_pubkey (pn_peer (fst toy_exchange) 0))
         (build_auth_message c (pr_remote_address (pn_peer (fst toy_exchange) 0))) sig"
  using authenticated_peers_hold_keys[OF toy_start toy_run, where i = 0] toy_authenticated by blast



text \<open>
  C29. What the handshake does not prevent. The signed message holds the challenge and the signer's
  address, but neither the other side nor the role. So a node that receives its own greeting back,
  rearranged as an answer, counts the sender as authenticated under the node's own address. And an
  attacker \<open>M\<close> that \<open>A\<close> connects to, knowing no key but its own, ends with an authenticated and
  encrypted connection to \<open>B\<close> under the address of \<open>A\<close>, with a session key \<open>M\<close> chose.
\<close>

theorem handshake_not_bound:
  assumes "can_connect N hostM portM A" "can_accept N now hostM' B"
    and "signing_ok N A" "signing_ok N B" "signs_for N skM pkM" "encryption_ok N B"
    and "length c = CHALLENGE_LEN" "length cc = CHALLENGE_LEN"
    and "not_connected_to (derive_address (net_env N) pkM) A" "not_connected_to (pn_address A) B"
    and "net_sign N skM (build_auth_message c (derive_address (net_env N) pkM)) = Some sigM"
    and "kem_encap (net_suite N) (pn_encryption_pk B) = Some (ctM, secret)"
    and "relay N now wall c cc hostM portM hostM' ident pkM sigM ctM A B = (A', B')"
    and "not_connected_to (pn_address A) A" "A1 = connect N now wall c hostM portM A"
    and "A2 = deliver_to N now True (pn_next A) ''auth_response'' (reflected (sent_data A1 ''hello_auth'')) A1"
  shows "(pr_authenticated (pn_peer A2 (pn_next A)) \<and> pr_remote_address (pn_peer A2 (pn_next A)) = pn_address A)
    \<and> (pr_authenticated (pn_peer B' (pn_next B)) \<and> pr_remote_address (pn_peer B' (pn_next B)) = pn_address A)
    \<and> (pr_encrypted (pn_peer B' (pn_next B)) \<and> pr_session_key (pn_peer B' (pn_next B)) = Some (derive_session_key N secret))"
  using relay_run[OF assms(1-13) refl refl] reflection_run[OF assms(1,3,7,14,15) refl assms(16)] by blast

theorem handshake_not_bound_witness:
  "pr_remote_address (pn_peer (snd toy_relay) 0) = pn_address (toy_node 1)
   \<and> pr_authenticated (pn_peer (snd toy_relay) 0) \<and> pn_address (toy_node 1) \<noteq> pn_address (toy_node 2)"
proof -
  have k: "net_sign toy_net (toy_key 3 4032) m = Some [3]" "kem_encap (net_suite toy_net) pk = Some (replicate 1088 0, [7])" for m pk
    by (simp_all add: toy_net_def toy_key_def toy_suite_def)
  have "pr_remote_address (pn_peer (snd toy_relay) (pn_next (toy_node 2))) = pn_address (toy_node 1)
      \<and> pr_authenticated (pn_peer (snd toy_relay) (pn_next (toy_node 2)))"
    using handshake_not_bound[OF toy_can_connect toy_can_accept toy_signing toy_signing toy_signs toy_encryption
        toy_random toy_random toy_alone toy_alone k prod.collapse[symmetric, of toy_relay, unfolded toy_relay_def] toy_alone refl refl]
    unfolding toy_relay_def by blast
  then show ?thesis using toy_addresses_differ by (simp add: toy_next)
qed

text \<open>
  C30. Frames. With a msgpack library that reads back what it packed, the reader takes from the stream
  exactly the frame the codec wrote, and recovers type and data, whenever the strings of binary
  fields down to the depth the codec visits are in the notation \<open>bytes.hex\<close> gives, or not hexadecimal.
\<close>

theorem frames_round_trip:
  assumes "codec_encode L ''msgpack'' msg_type data = Inr raw" "canonical 1 data" "has_msgpack L"
    and "w = hex_to_bytes 0 (message msg_type data)" "unpackb L (packb L w) = Some w" "packb L w \<noteq> []"
  shows "read_frame L (raw @ rest) = Frame (Some (WStr msg_type, plain data)) rest"
  by (rule frame_round_trip[OF assms])

theorem frames_round_trip_witness:
  "\<exists>raw. codec_encode toy_codec ''msgpack'' ''status'' toy_message = Inr raw
     \<and> read_frame toy_codec (raw @ [9]) = Frame (Some (WStr ''status'', WDict [(''height'', WInt 5)])) [9]"
proof -
  obtain raw where "codec_encode toy_codec ''msgpack'' ''status'' toy_message = Inr raw"
    using toy_encode by blast
  from frames_round_trip[OF this _ _ refl, of "[9]"] this show ?thesis
    by (simp add: toy_codec_def toy_message_def)
qed

section \<open>The full node\<close>



text \<open>
  C32. What a post to the RPC server can do. Whatever its body: with a token that is not the node's,
  nothing changes but the root cached in the state trie, for single requests and batches alike. With
  any token, the blocks, the money, stakes, tokens and indices stay as they are, and the pool grows by
  at most \<open>MAX_RPC_BATCH\<close> transactions, each with a valid signature.
\<close>

theorem posts_are_contained:
  assumes "handle_post X C authorization raw S = Some (ans, T)" "\<forall>k. wd_net (X k) = N"
  shows "(bearer_token authorization \<noteq> rc_token C \<longrightarrow> caches_only S T)
    \<and> core_view (fn_chain T) = core_view (fn_chain S)
    \<and> (\<exists>txs. tx_pool (fn_chain T) = tx_pool (fn_chain S) @ txs \<and> length txs \<le> MAX_RPC_BATCH
          \<and> list_all (tx_verify (net_env N)) txs)"
proof -
  have "only_submits (net_env N) MAX_RPC_BATCH S T"
  proof (rule post_cases[OF _ _ _ _ assms(1) refl])
    show "exec_request (X k) C (bearer_token authorization) r S = Some (a, T) \<Longrightarrow> only_submits (net_env N) 1 S T" for k r a S T
      using request_submits[of "X k"] assms(2) by simp
  qed (auto intro: only_submits_same only_submits_trans only_submits_mono)
  moreover have "caches_only S T" if "bearer_token authorization \<noteq> rc_token C"
    by (rule post_cases[OF _ _ _ _ assms(1) refl, where Q = "\<lambda>n. caches_only"])
      (use that in \<open>auto intro: request_without_token caches_refl caches_trans\<close>)
  ultimately show ?thesis by (auto simp: only_submits_def)
qed

theorem posts_are_contained_witness:
  "\<exists>v T. handle_post (\<lambda>_. demo_world) (demo_rpc (request ''qv_getStateRoot'' [])) ''Bearer guess'' [] demo_node = Some (v, T)
     \<and> caches_only demo_node T"
proof -
  obtain v T where r: "handle_post (\<lambda>_. demo_world) (demo_rpc (request ''qv_getStateRoot'' [])) ''Bearer guess'' [] demo_node = Some (v, T)"
    using demo_query by blast
  have "caches_only demo_node T"
    using posts_are_contained[OF r, of demo_net] by (simp add: demo_world_def demo_token demo_rpc_def)
  then show ?thesis using r by blast
qed

text \<open>
  C33. Transactions the node sends. For every method but \<open>qv_sendRawTransaction\<close> and whatever its
  arguments: either no transaction is submitted, or exactly one that the pool accepts, sent from a wallet
  of the node, with that wallet's public key and the next nonce of its address, counting what is pending.
\<close>

theorem requests_send_for_wallets:
  assumes "exec_request X C token req S = Some (r, T)"
    and "dget_or (dict_of_py req) ''method'' (PStr []) \<noteq> PStr ''qv_sendRawTransaction''"
  shows "fn_chain T = fn_chain S \<or> fn_chain T = snd (state_root (wd_env X) (fn_chain S))
    \<or> (\<exists>w tx. w \<in> snd ` set (fn_wallets S) \<and> tx_sender tx = w_address w \<and> tx_pubkey tx = w_signing_pk w
         \<and> tx_nonce tx = next_nonce (fn_chain S) (w_address w)
         \<and> submit_tx (wd_env X) (int_time X) tx (fn_chain S) = (Ok (tx_id (wd_env X) tx), fn_chain T))"
  using request_submission[OF assms] by (simp add: submission_def)

theorem requests_send_for_wallets_witness:
  "\<exists>r T. exec_request demo_world (demo_rpc demo_key_request) ''secret'' demo_key_request demo_node = Some (r, T)
     \<and> (tx_pool (fn_chain T) = tx_pool (fn_chain demo_node)
        \<or> (\<exists>tx. tx_sender tx = w_address demo_wallet \<and> tx_pool (fn_chain T) = tx_pool (fn_chain demo_node) @ [tx]))"
proof -
  obtain r T where e: "exec_request demo_world (demo_rpc demo_key_request) ''secret'' demo_key_request demo_node = Some (r, T)"
    using demo_key_post by blast
  have "dget_or (dict_of_py demo_key_request) ''method'' (PStr []) \<noteq> PStr ''qv_sendRawTransaction''"
    by (simp add: demo_key_request_def request_def dget_or_def)
  from requests_send_for_wallets[OF e this] e show ?thesis
    by (fastforce simp: root_view demo_node_fields dest: submit_cases simp: pool_push_def Let_def)
qed

text \<open>
  C34. What a REST request can do, whatever its route, query and body. Without the token of the node, a
  path outside the public list is answered with 401 and no other change than filling the root cache of
  the state trie is possible. With it, the blocks, money, stakes, tokens and indices stay, at most one
  transaction joins the pool, with a valid signature, and but for \<open>POST /txs\<close> it is from a wallet of the
  node, with that wallet's key and the next nonce of its address.
\<close>

theorem rest_requests_contained:
  assumes "rest_serve X C rq S = Some (r, T)"
  shows "(rest_check_auth (rs_token C) (rq_auth rq) = Inr False \<and> rq_method rq \<noteq> ''OPTIONS''
        \<and> route_path rq \<notin> Some ` set PUBLIC_ROUTES \<longrightarrow> fst r = Err 401 ''authentication required'' \<and> T = S)
    \<and> (rest_check_auth (rs_token C) (rq_auth rq) \<noteq> Inr True \<longrightarrow> caches_only S T)
    \<and> core_view (fn_chain T) = core_view (fn_chain S)
    \<and> (\<exists>txs. tx_pool (fn_chain T) = tx_pool (fn_chain S) @ txs \<and> length txs \<le> 1 \<and> list_all (tx_verify (wd_env X)) txs)
    \<and> ((route_method rq, route_path rq) \<noteq> (''POST'', Some ''/txs'') \<longrightarrow>
        fn_chain T = fn_chain S \<or> fn_chain T = snd (state_root (wd_env X) (fn_chain S))
        \<or> (\<exists>w tx. w \<in> snd ` set (fn_wallets S) \<and> tx_sender tx = w_address w \<and> tx_pubkey tx = w_signing_pk w
             \<and> tx_nonce tx = next_nonce (fn_chain S) (w_address w)
             \<and> submit_tx (wd_env X) (int_time X) tx (fn_chain S) = (Ok (tx_id (wd_env X) tx), fn_chain T)))"
  using rest_refused[OF assms] rest_without_token[OF assms] rest_submits[OF assms] rest_submission[OF assms]
  by (simp add: only_submits_def submission_def)

theorem rest_requests_contained_witness:
  "\<exists>r T. rest_serve demo_world demo_gateway demo_rest_query demo_node = Some (r, T) \<and> caches_only demo_node T"
proof -
  obtain r T where e: "rest_serve demo_world demo_gateway demo_rest_query demo_node = Some (r, T)"
    using demo_rest_answer by blast
  then show ?thesis using rest_requests_contained[OF e] demo_rest_token by auto
qed

text \<open>
  C35. Repeats of a valid block ban the peer that relays them. A \<open>new_block\<close> message with a block the
  node already has is counted as \<open>invalid_block\<close>: the chain does not change, the score of the peer
  drops by 50 for each, and a peer with the default score of 100 is banned after four, although a
  peer that relays what others relayed before it does nothing wrong.
\<close>

theorem known_blocks_ban:
  assumes "parsed_item (block_from_dict E) ''block'' data = Some (Inr b)" "dmem (block_hash E b) (block_by_hash (fn_chain S))"
    and "\<forall>X \<in> set Xs. wd_env X = E" "peer_addr (pn_peer (fn_p2p S) i) \<noteq> []"
  shows "\<exists>T. received Xs i data S = Some T \<and> fn_chain T = fn_chain S
    \<and> score_of i T = score_of i S - 50 * of_nat (length Xs)
    \<and> (4 \<le> length Xs \<and> score_of i S \<le> 100 \<longrightarrow> \<not> check_reputation i (fn_p2p T))"
proof -
  obtain T where T: "received Xs i data S = Some T" "fn_chain T = fn_chain S"
    "score_of i T = score_of i S - 50 * of_nat (length Xs)"
    "Xs \<noteq> [] \<and> score_of i T \<le> BAN_THRESHOLD \<longrightarrow> \<not> check_reputation i (fn_p2p T)"
    using known_block_received[OF assms(1,3,4,2)] by blast
  have "\<not> check_reputation i (fn_p2p T)" if "4 \<le> length Xs" "score_of i S \<le> 100"
  proof -
    have "(4 :: rat) \<le> of_nat (length Xs)" using that(1) of_nat_mono[of 4 "length Xs"] by simp
    then have "score_of i T \<le> BAN_THRESHOLD" using T(3) that(2) by (simp add: BAN_THRESHOLD_def)
    then show ?thesis using T(4) that(1) by auto
  qed
  then show ?thesis using T by blast
qed

theorem known_blocks_ban_witness:
  "\<exists>T. received (replicate 4 demo_world) 0 demo_offer demo_node = Some T \<and> \<not> check_reputation 0 (fn_p2p T)"
proof -
  have "dmem (block_hash demo_env (demo_block 0 [])) (block_by_hash (fn_chain demo_node))"
    by (simp add: demo_node_fields demo_hash dmem_def)
  then show ?thesis
    using known_blocks_ban[OF demo_offer_parsed _ _ demo_node_fields(2), of "replicate 4 demo_world"] demo_node_fields(3)
    by (auto simp: demo_world_env)
qed

text \<open>
  C36. WebSocket subscriptions. After any sequence of joins, text messages, broadcasts, drops, leaves and
  shutdowns, the manager's tables hold exactly the pairs the specification has: the subscriptions asked for
  in messages of which at most ten per second count, minus those of clients that are gone. An event
  published on a channel then arrives once at each subscriber whose socket takes it, and nowhere else.
\<close>

theorem subscriptions_refine:
  assumes "clocked t es"
  shows "subscriptions (fold ws_do es new_ws_manager) = sp_pairs (fold spec_do es empty_spec)
    \<and> ws_inbox (snd (ws_send sock ch data (fold ws_do es new_ws_manager))) w =
        ws_inbox (fold ws_do es new_ws_manager) w
        @ (if (w, ch) \<in> sp_pairs (fold spec_do es empty_spec) \<and> sock w = Delivered then [event_message ch data] else [])"
  using follows_run[OF follows_start assms] by (auto simp: follows_def ws_send_inbox)

theorem subscriptions_refine_witness:
  "subscriptions (fold ws_do [Join 7, Text 1 7 (Some (PDict [(''type'', PStr ''subscribe''), (''channel'', PStr ''new_block'')]))]
     new_ws_manager) = {(7, ''new_block'')}"
proof -
  let ?es = "[Join 7, Text 1 7 (Some (PDict [(''type'', PStr ''subscribe''), (''channel'', PStr ''new_block'')]))]"
  have "clocked 0 ?es" by simp
  then have "subscriptions (fold ws_do ?es new_ws_manager) = sp_pairs (fold spec_do ?es empty_spec)"
    using subscriptions_refine by blast
  also have "\<dots> = {(7, ''new_block'')}"
    by (simp add: empty_spec_def counted_def asked_def dget_or_def VALID_CHANNELS_def)
  finally show ?thesis .
qed



section \<open>Persistence\<close>

text \<open>
  C38. The database. After any sequence of writes, rewrites, deletions, prunings and reopenings, blocks
  are numbered without a gap up to the height, indices and hashes are unique, every transaction row
  belongs to a stored block and token balances are positive. A block that is refused leaves the saved
  tables and the height as they were; a block that is appended is what the queries by index and by hash
  and for the tip return, its new transactions are found by identifier, and all other blocks are read as before.
\<close>

theorem store_keeps_order:
  assumes "store_run E rd st"
  shows "(\<exists>lo \<ge> 0. br_idx ` set (tb_blocks (st_saved st)) = {lo..st_height st})
    \<and> distinct (map br_idx (tb_blocks (st_saved st))) \<and> distinct (map br_hash (tb_blocks (st_saved st)))
    \<and> (\<forall>p \<in> set (tb_txs (st_saved st)). tr_block (snd p) \<in> br_idx ` set (tb_blocks (st_saved st)))
    \<and> (\<forall>p \<in> set (tb_token_balances (st_saved st)). 0 < snd p)
    \<and> (\<forall>e u. db_append_block E b st = (Some e, u) \<longrightarrow>
         st_now u = st_saved st \<and> st_saved u = st_saved st \<and> st_height u = st_height st)
    \<and> (\<forall>u. db_append_block E b st = (None, u) \<and> readable E rd b \<longrightarrow>
         st_height u = st_height st + 1 \<and> st_saved u = st_now u
         \<and> db_get_block E rd (st_height u) u = Some (Inr (Some b))
         \<and> db_get_block_by_hash E rd (block_hash E b) u = Some (Inr (Some b))
         \<and> db_latest_block E rd u = Some (Inr (Some b))
         \<and> (\<forall>i. i \<noteq> st_height u \<longrightarrow> db_get_block E rd i u = db_get_block E rd i st)
         \<and> (distinct (map (tx_id E) (b_txs b)) \<and> (\<forall>tx \<in> set (b_txs b). \<not> db_tx_exists (tx_id E tx) st) \<longrightarrow>
              (\<forall>tx \<in> set (b_txs b). db_get_tx E rd (tx_id E tx) u = Some (Inr (Some tx)))))"
proof -
  have ok: "store_ok st" by (rule store_run_ok[OF assms])
  have reads: "st_height u = st_height st + 1 \<and> st_saved u = st_now u
      \<and> db_get_block E rd (st_height u) u = Some (Inr (Some b))
      \<and> db_get_block_by_hash E rd (block_hash E b) u = Some (Inr (Some b))
      \<and> db_latest_block E rd u = Some (Inr (Some b))
      \<and> (\<forall>i. i \<noteq> st_height u \<longrightarrow> db_get_block E rd i u = db_get_block E rd i st)
      \<and> (distinct (map (tx_id E) (b_txs b)) \<and> (\<forall>tx \<in> set (b_txs b). \<not> db_tx_exists (tx_id E tx) st) \<longrightarrow>
           (\<forall>tx \<in> set (b_txs b). db_get_tx E rd (tx_id E tx) u = Some (Inr (Some tx))))"
    if "db_append_block E b st = (None, u)" "readable E rd b" for u
  proof (intro conjI allI impI ballI)
    note d = append_done[OF that(1) ok] and r = append_reads[OF that(1) ok that(2)]
    show "st_height u = st_height st + 1" "st_saved u = st_now u" by (rule d(1), rule d(2))
    show "db_get_block E rd (st_height u) u = Some (Inr (Some b))"
      "db_get_block_by_hash E rd (block_hash E b) u = Some (Inr (Some b))" "db_latest_block E rd u = Some (Inr (Some b))"
      by (rule r(1), rule r(2), rule r(3))
    show "db_get_block E rd i u = db_get_block E rd i st" if "i \<noteq> st_height u" for i by (rule r(4)[OF that])
    show "db_get_tx E rd (tx_id E tx) u = Some (Inr (Some tx))"
      if "distinct (map (tx_id E) (b_txs b)) \<and> (\<forall>tx \<in> set (b_txs b). \<not> db_tx_exists (tx_id E tx) st)" "tx \<in> set (b_txs b)" for tx
      using that by (intro r(5)) simp_all
  qed
  have t: "\<exists>lo \<ge> 0. br_idx ` set (tb_blocks (st_saved st)) = {lo..st_height st}" "tables_ok (st_saved st)"
    using ok by (simp_all add: store_ok_def)
  have d: "distinct (map br_idx (tb_blocks (st_saved st)))" "distinct (map br_hash (tb_blocks (st_saved st)))"
    "\<forall>p \<in> set (tb_txs (st_saved st)). tr_block (snd p) \<in> br_idx ` set (tb_blocks (st_saved st))"
    "\<forall>p \<in> set (tb_token_balances (st_saved st)). 0 < snd p"
    using t(2) by (simp_all add: tables_ok_def keys_unique_def ints_fit_def rows_belong_def list_all_iff)
  have a: "\<forall>e u. db_append_block E b st = (Some e, u) \<longrightarrow>
      st_now u = st_saved st \<and> st_saved u = st_saved st \<and> st_height u = st_height st"
    using append_refused by blast
  show ?thesis
    by (intro conjI[OF t(1)] conjI[OF d(1)] conjI[OF d(2)] conjI[OF d(3)] conjI[OF d(4)] conjI[OF a] allI impI)
      (erule conjE, rule reads)
qed

theorem store_keeps_order_witness:
  "db_append_block demo_env saved_block (open_store no_tables) = (None, open_store saved_tables)
   \<and> db_get_block demo_env demo_loads 0 (open_store saved_tables) = Some (Inr (Some saved_block))"
  using store_keeps_order[OF store_run.New[of demo_env demo_loads], of saved_block] saved_append saved_readable
  by (auto simp: saved_store)

text \<open>
  C39. Restart. Take a reachable chain and a database that holds its blocks, whatever the other tables
  hold. When loading succeeds, the new node has the height, the tip, the index of transactions, the
  known identifiers and the next nonces of the old one, although one node stamped and replaced its
  blocks as it produced them and the other replayed the stored text. The blocks themselves always load,
  if signatures are not verified and validator keys are hexadecimal.
\<close>

theorem restart_restores_indices:
  assumes "reachable E s" "chain_list s \<noteq> []"
    and "append_all E (chain_list s) (open_store no_tables) = (None, st)" "tb_blocks db = tb_blocks (st_saved st)"
    and "list_all (readable E rd) (chain_list s)"
  shows "(load_from_sqlite E rd sc verify db new_chain = Some (Loaded, t) \<longrightarrow>
      height t = height s \<and> latest_block t = latest_block s \<and> tx_by_id t = tx_by_id s
      \<and> chain_tx_ids t = chain_tx_ids s \<and> (\<forall>a. get_next_nonce t a = get_next_nonce s a))
    \<and> (list_all (\<lambda>b. list_all key_readable (b_txs b)) (chain_list s) \<longrightarrow>
      (\<exists>u. load_blocks E rd False (open_store db) [0..st_height (open_store db)] [] [] (new_chain :: chain) = Some (Loaded, u)))"
  using restart_loaded[OF assms, of sc verify t] restart_blocks[OF assms, of False "[]"]
  by (auto simp: load_view_def get_next_nonce_def)

theorem restart_restores_indices_witness:
  "\<exists>t. load_from_sqlite demo_env demo_loads plain_scans False saved_tables new_chain = Some (Loaded, t)
     \<and> height t = height first_chain \<and> latest_block t = latest_block first_chain"
proof -
  obtain t where t: "load_from_sqlite demo_env demo_loads plain_scans False saved_tables new_chain = Some (Loaded, t)"
    using saved_loads by blast
  have "tb_blocks saved_tables = tb_blocks (st_saved (open_store saved_tables))" by (simp add: open_store_def)
  then show ?thesis
    using t restart_restores_indices[OF first_reachable first_restart(3,1) _ first_restart(2), of saved_tables plain_scans False t]
    by blast
qed

text \<open>
  C40. What maintenance and restarts lose. Deleting blocks from an index empties all balances and the supply, also
  when no block has that index, and loading takes them from the tables: the chain that is loaded next has
  no funds, nothing minted and an inactive financial layer. A database from which a block was pruned is
  refused. Whatever the database, the rewards of the running epoch, the snapshots and the finalized height
  start anew, so that a restart within an epoch changes what the epoch distributes. Opening a data
  directory creates the database, so \<open>chain.json\<close> is then never migrated nor written.
\<close>

theorem maintenance_loses_state:
  shows "(delete_blocks_from rd n st = (None, u)
      \<and> load_from_sqlite E rd sc verify (st_saved u) new_chain = Some (Loaded, t) \<and> sc_balances sc [] = []
      \<longrightarrow> get_balance t a = 0 \<and> total_minted t = 0 \<and> \<not> financial_active t)
    \<and> (prune_blocks n st = (Inr k, u) \<and> 0 < k \<longrightarrow>
        load_from_sqlite E rd sc verify (st_saved u) new_chain = Some (Refused, new_chain :: chain))
    \<and> (load_from_sqlite E rd sc verify db new_chain = Some (Loaded, t) \<longrightarrow>
        epoch_rewards t = [] \<and> last_distributions t = [] \<and> state_snapshots t = [] \<and> finalized_height t = - 1)
    \<and> (data_dir \<noteq> [] \<longrightarrow>
        migrate_json_to_sqlite E rd (snd (open_blockchain data_dir files)) = Some (Skipped, snd (open_blockchain data_dir files))
        \<and> save_chain E data_dir (snd (open_blockchain data_dir files)) s = None)"
  using deleted_money[of rd n st u] loaded_money[of E rd sc verify "st_saved u" t a] pruned_refused[of n st k u E rd sc verify "new_chain :: chain"]
    loaded_volatile[of E rd sc verify db t]
  by (auto simp: open_blockchain_def migrate_json_to_sqlite_def save_chain_def)

theorem maintenance_loses_state_witness:
  "db_get_balance alice funded_store = 7
   \<and> (\<exists>u t. delete_blocks_from demo_loads 1 funded_store = (None, u)
        \<and> load_from_sqlite demo_env demo_loads plain_scans False (st_saved u) new_chain = Some (Loaded, t) \<and> get_balance t alice = 0)
   \<and> (\<exists>u. prune_blocks 1 (open_store saved_tables) = (Inr 1, u)
        \<and> load_from_sqlite demo_env demo_loads plain_scans False (st_saved u) new_chain = Some (Refused, new_chain :: chain))"
proof -
  obtain u t where d: "delete_blocks_from demo_loads 1 funded_store = (None, u)"
    "load_from_sqlite demo_env demo_loads plain_scans False (st_saved u) new_chain = Some (Loaded, t)"
    using funded_delete saved_loads by metis
  obtain w where p: "prune_blocks 1 (open_store saved_tables) = (Inr 1, w)" using saved_prune by blast
  have s: "sc_balances plain_scans [] = []" by (simp add: plain_scans_def)
  show ?thesis
    using maintenance_loses_state[of demo_loads 1 funded_store u demo_env plain_scans False t alice 1 saved_tables "[]"
        "\<lparr>df_json = None, df_db = None\<rparr>" new_chain]
      maintenance_loses_state[of demo_loads 1 "open_store saved_tables" w demo_env plain_scans False t alice 1 saved_tables "[]"
        "\<lparr>df_json = None, df_db = None\<rparr>" new_chain]
      d p s funded_balance
    by (metis zero_less_one)
qed

end
